(* ===== verification/Go_Prelude.thy ===== *)
theory Go_Prelude
  imports Main "HOL-Library.Finite_Map" "HOL-Library.Sublist" "HOL-Library.Char_ord"
    "HOL-Library.List_Lexorder" "HOL-Library.Product_Lexorder"
begin

text \<open>
  Shared vocabulary of the development: the Go string and slice operations that the converter
  calls, the dynamic values (\<open>any\<close>) that YAML decoding produces and plugin configs are made of,
  and the generic lemmas about them.

  A Go \<open>string\<close> is a byte sequence, so it is a HOL \<open>string\<close>; byte order is the order of
  \<open>sort.Strings\<close>.  A Go map is a finite map; \<open>range\<close> over a map has no fixed order, and a model
  function iterates in key order.  A nil map and an empty map are the same value here: the code
  tells them apart nowhere except by \<open>len\<close>.  A pointer is an option.
\<close>

named_theorems go_string \<open>rewrite rules for the Go string operations\<close>
named_theorems go_slice \<open>rewrite rules for the Go slice operations\<close>

section \<open>Strings\<close>

definition HasPrefix :: "string \<Rightarrow> string \<Rightarrow> bool" where
  "HasPrefix s p = (take (length p) s = p)"

definition HasSuffix :: "string \<Rightarrow> string \<Rightarrow> bool" where
  "HasSuffix s p = (length p \<le> length s \<and> drop (length s - length p) s = p)"

definition TrimPrefix :: "string \<Rightarrow> string \<Rightarrow> string" where
  "TrimPrefix s p = (if HasPrefix s p then drop (length p) s else s)"

definition TrimSuffix :: "string \<Rightarrow> string \<Rightarrow> string" where
  "TrimSuffix s p = (if HasSuffix s p then take (length s - length p) s else s)"

definition CutPrefix :: "string \<Rightarrow> string \<Rightarrow> string option" where
  "CutPrefix s p = (if HasPrefix s p then Some (drop (length p) s) else None)"

definition CutSuffix :: "string \<Rightarrow> string \<Rightarrow> string option" where
  "CutSuffix s p = (if HasSuffix s p then Some (take (length s - length p) s) else None)"

text \<open>\<open>strings.Cut\<close> for a one-byte separator: the parts around its first occurrence.\<close>

fun Cut :: "string \<Rightarrow> char \<Rightarrow> (string \<times> string) option" where
  "Cut [] c = None"
| "Cut (x # xs) c =
     (if x = c then Some ([], xs)
      else case Cut xs c of None \<Rightarrow> None | Some (a, b) \<Rightarrow> Some (x # a, b))"

text \<open>\<open>strings.TrimRight\<close> for a one-byte cutset.\<close>

definition TrimRight :: "string \<Rightarrow> char \<Rightarrow> string" where
  "TrimRight s c = rev (dropWhile (\<lambda>x. x = c) (rev s))"

text \<open>\<open>strings.Contains\<close>.\<close>

fun Contains :: "string \<Rightarrow> string \<Rightarrow> bool" where
  "Contains s [] = True"
| "Contains [] p = False"
| "Contains (x # xs) p = (HasPrefix (x # xs) p \<or> Contains xs p)"

text \<open>\<open>strings.ToLower\<close> and \<open>strings.EqualFold\<close> on the ASCII range; other bytes are left as
  they are and compare by value.\<close>

definition lower_char :: "char \<Rightarrow> char" where
  "lower_char c =
     (let n = (of_char c :: nat) in if 65 \<le> n \<and> n \<le> 90 then char_of (n + 32) else c)"

definition ToLower :: "string \<Rightarrow> string" where
  "ToLower s = map lower_char s"

definition EqualFold :: "string \<Rightarrow> string \<Rightarrow> bool" where
  "EqualFold a b = (ToLower a = ToLower b)"

text \<open>The decimal text of a natural number, as \<open>%d\<close> prints it.\<close>

fun dec :: "nat \<Rightarrow> string" where
  "dec n = (if n < 10 then [char_of (48 + n)] else dec (n div 10) @ [char_of (48 + n mod 10)])"

declare dec.simps [simp del]

fun join :: "string \<Rightarrow> string list \<Rightarrow> string" where
  "join sep [] = []"
| "join sep [x] = x"
| "join sep (x # y # ys) = x @ sep @ join sep (y # ys)"

subsection \<open>Laws\<close>

lemma HasPrefix_append [simp, go_string]: "HasPrefix (p @ s) p"
  by (simp add: HasPrefix_def)

lemma HasPrefix_simps [simp, go_string]:
  "HasPrefix s []" "\<not> HasPrefix [] (y # ys)"
  "HasPrefix (x # xs) (y # ys) \<longleftrightarrow> x = y \<and> HasPrefix xs ys"
  by (auto simp: HasPrefix_def)

lemma TrimPrefix_Cons [simp, go_string]: "TrimPrefix (x # s) [y] = (if x = y then s else x # s)"
  by (simp add: TrimPrefix_def)

lemma HasPrefix_iff: "HasPrefix s p \<longleftrightarrow> (\<exists>t. s = p @ t)"
  by (metis HasPrefix_def append_eq_conv_conj)

lemma HasPrefix_iff_prefix: "HasPrefix s p \<longleftrightarrow> prefix p s"
  by (simp add: HasPrefix_iff prefix_def)

lemma HasSuffix_iff: "HasSuffix s p \<longleftrightarrow> (\<exists>t. s = t @ p)"
proof
  assume "HasSuffix s p"
  then show "\<exists>t. s = t @ p"
    by (metis HasSuffix_def append_take_drop_id)
next
  assume "\<exists>t. s = t @ p"
  then show "HasSuffix s p" by (auto simp: HasSuffix_def)
qed

lemma HasSuffix_iff_suffix: "HasSuffix s p \<longleftrightarrow> suffix p s"
  by (simp add: HasSuffix_iff suffix_def)

lemma HasSuffix_append [simp, go_string]: "HasSuffix (s @ p) p"
  by (auto simp: HasSuffix_iff)

lemma CutPrefix_append [simp, go_string]: "CutPrefix (p @ s) p = Some s"
  by (simp add: CutPrefix_def)

lemma CutPrefix_Some: "CutPrefix s p = Some t \<longleftrightarrow> s = p @ t"
  by (auto simp: CutPrefix_def HasPrefix_iff)

lemma CutPrefix_None: "CutPrefix s p = None \<longleftrightarrow> (\<forall>t. s \<noteq> p @ t)"
  by (auto simp: CutPrefix_def HasPrefix_iff)

lemma TrimPrefix_append [simp, go_string]: "TrimPrefix (p @ s) p = s"
  by (simp add: TrimPrefix_def)

lemma CutSuffix_Some: "CutSuffix s p = Some t \<longleftrightarrow> s = t @ p"
  by (auto simp: CutSuffix_def HasSuffix_iff)

lemma Cut_append [simp, go_string]: "c \<notin> set a \<Longrightarrow> Cut (a @ c # b) c = Some (a, b)"
  by (induction a) auto

lemma Cut_Some: "Cut s c = Some (a, b) \<longleftrightarrow> s = a @ c # b \<and> c \<notin> set a"
proof
  show "Cut s c = Some (a, b) \<Longrightarrow> s = a @ c # b \<and> c \<notin> set a"
    by (induction s c arbitrary: a rule: Cut.induct) (auto split: if_splits option.splits)
qed auto

lemma Cut_None: "Cut s c = None \<longleftrightarrow> c \<notin> set s"
  by (induction s) (auto split: option.splits)

lemma TrimRight_no_trailing: "TrimRight s c = [] \<or> last (TrimRight s c) \<noteq> c"
proof -
  have "dropWhile (\<lambda>x. x = c) (rev s) = [] \<or> hd (dropWhile (\<lambda>x. x = c) (rev s)) \<noteq> c"
    using hd_dropWhile [of "\<lambda>x. x = c" "rev s"] by blast
  then show ?thesis by (auto simp: TrimRight_def last_rev)
qed

lemma TrimRight_id: "s = [] \<or> last s \<noteq> c \<Longrightarrow> TrimRight s c = s"
  by (cases s rule: rev_cases) (auto simp: TrimRight_def)

lemma TrimRight_snoc [simp, go_string]: "TrimRight (s @ [c]) c = TrimRight s c"
  by (simp add: TrimRight_def)

lemma TrimRight_idem [simp, go_string]: "TrimRight (TrimRight s c) c = TrimRight s c"
  using TrimRight_no_trailing by (rule TrimRight_id)

lemma TrimRight_prefix: "s = TrimRight s c @ drop (length (TrimRight s c)) s"
proof -
  have "rev s = takeWhile (\<lambda>x. x = c) (rev s) @ dropWhile (\<lambda>x. x = c) (rev s)" by simp
  then have "s = TrimRight s c @ rev (takeWhile (\<lambda>x. x = c) (rev s))"
    unfolding TrimRight_def by (metis rev_append rev_rev_ident)
  then show ?thesis by (metis append_eq_conv_conj)
qed

lemma Contains_Cons: "Contains (x # xs) p \<longleftrightarrow> HasPrefix (x # xs) p \<or> Contains xs p"
  by (cases p) (simp_all add: HasPrefix_def)

lemma Contains_middle [go_string]: "Contains (a @ p @ b) p"
proof (induction a)
  case Nil
  then show ?case by (cases p; cases "p @ b") (simp_all add: Contains_Cons HasPrefix_def)
next
  case (Cons x a)
  then show ?case by (simp add: Contains_Cons)
qed

lemma EqualFold_refl [simp, go_string]: "EqualFold a a"
  by (simp add: EqualFold_def)

lemma EqualFold_sym: "EqualFold a b \<longleftrightarrow> EqualFold b a"
  by (auto simp: EqualFold_def)

lemma EqualFold_trans: "EqualFold a b \<Longrightarrow> EqualFold b c \<Longrightarrow> EqualFold a c"
  by (simp add: EqualFold_def)

lemma dec_not_Nil [simp]: "dec n \<noteq> []"
  by (subst dec.simps) simp

lemma char_digit_inject:
  assumes "a < 10" and "b < (10::nat)" and "char_of (48 + a) = (char_of (48 + b) :: char)"
  shows "a = b"
proof -
  have "(of_char (char_of (48 + a) :: char) :: nat) = of_char (char_of (48 + b) :: char)"
    using assms(3) by simp
  with assms(1,2) show ?thesis by simp
qed

text \<open>Decimal texts determine the number, so indexed field paths and keys are unambiguous.\<close>

lemma dec_inject: "dec m = dec n \<longleftrightarrow> m = n"
proof
  show "dec m = dec n \<Longrightarrow> m = n"
  proof (induction m arbitrary: n rule: dec.induct)
    case (1 m)
    have m: "dec m = (if m < 10 then [char_of (48 + m)]
        else dec (m div 10) @ [char_of (48 + m mod 10)])" by (rule dec.simps)
    have n: "dec n = (if n < 10 then [char_of (48 + n)]
        else dec (n div 10) @ [char_of (48 + n mod 10)])" by (rule dec.simps)
    have len: "length (dec k) \<noteq> 0" for k by simp
    show ?case
    proof (cases "m < 10")
      case True
      with 1(2) m n len [of "n div 10"] show ?thesis
        by (cases "n < 10") (auto simp: Cons_eq_append_conv dest: char_digit_inject)
    next
      case False
      with 1(2) m n len [of "m div 10"] have ge: "\<not> n < 10"
        by (auto simp: append_eq_Cons_conv split: if_splits)
      with False 1(2) m n have eq: "dec (m div 10) = dec (n div 10)"
        and digit: "char_of (48 + m mod 10) = (char_of (48 + n mod 10) :: char)" by auto
      from digit have "m mod 10 = n mod 10"
        by (rule char_digit_inject [rotated 2]) auto
      moreover from 1(1) [OF False eq] have "m div 10 = n div 10" .
      ultimately show ?thesis by (metis div_mult_mod_eq)
    qed
  qed
qed simp

section \<open>Slices\<close>

text \<open>\<open>slices.Compact\<close> keeps the first element of each run of equal ones: \<open>remdups_adj\<close>.
  \<open>append\<close> to a slice only when the value is new is the idiom of several loops.\<close>

definition append_new :: "'a list \<Rightarrow> 'a \<Rightarrow> 'a list" where
  "append_new xs x = (if x \<in> set xs then xs else xs @ [x])"

lemma set_append_new [simp, go_slice]: "set (append_new xs x) = insert x (set xs)"
  by (auto simp: append_new_def)

lemma distinct_append_new [simp, go_slice]: "distinct xs \<Longrightarrow> distinct (append_new xs x)"
  by (auto simp: append_new_def)

text \<open>The state-passing loop \<open>for i, x := range xs\<close>.\<close>

fun foldi :: "(nat \<Rightarrow> 'a \<Rightarrow> 's \<Rightarrow> 's) \<Rightarrow> nat \<Rightarrow> 'a list \<Rightarrow> 's \<Rightarrow> 's" where
  "foldi f i [] s = s"
| "foldi f i (x # xs) s = foldi f (Suc i) xs (f i x s)"

lemma foldi_append: "foldi f i (xs @ ys) s = foldi f (i + length xs) ys (foldi f i xs s)"
  by (induction xs arbitrary: i s) auto

text \<open>An invariant of the body is an invariant of the loop.\<close>

lemma foldi_invariant:
  "(\<And>i x s. x \<in> set xs \<Longrightarrow> P s \<Longrightarrow> P (f i x s)) \<Longrightarrow> P s \<Longrightarrow> P (foldi f i xs s)"
  by (induction xs arbitrary: i s) auto

lemma fold_invariant_set:
  "(\<And>x s. x \<in> set xs \<Longrightarrow> P s \<Longrightarrow> P (f x s)) \<Longrightarrow> P s \<Longrightarrow> P (fold f xs s)"
  by (induction xs arbitrary: s) auto

section \<open>Dynamic values\<close>

text \<open>
  The values of Go type \<open>any\<close> that occur in a plugin config.  YAML decoding yields null, string,
  int, bool, float, \<open>[]any\<close> and \<open>map[string]any\<close>; the converter's own code also stores
  \<open>[]string\<close> and \<open>[]map[string]any\<close>, which a type switch tells apart from \<open>[]any\<close>.  A float
  (or timestamp) is carried as its text, because no modelled code computes with it.
\<close>

datatype yval =
    YNull
  | YStr string
  | YInt int
  | YBool bool
  | YFloat string
  | YList "yval list"
  | YStrs "string list"
  | YMap "(string, yval) fmap"
  | YMaps "(string, yval) fmap list"

type_synonym ymap = "(string, yval) fmap"

definition as_str :: "yval option \<Rightarrow> string option" where
  "as_str v = (case v of Some (YStr s) \<Rightarrow> Some s | _ \<Rightarrow> None)"

definition as_int :: "yval option \<Rightarrow> int option" where
  "as_int v = (case v of Some (YInt i) \<Rightarrow> Some i | _ \<Rightarrow> None)"

definition as_bool :: "yval option \<Rightarrow> bool option" where
  "as_bool v = (case v of Some (YBool b) \<Rightarrow> Some b | _ \<Rightarrow> None)"

definition as_map :: "yval option \<Rightarrow> ymap option" where
  "as_map v = (case v of Some (YMap m) \<Rightarrow> Some m | _ \<Rightarrow> None)"

definition as_list :: "yval option \<Rightarrow> yval list option" where
  "as_list v = (case v of Some (YList l) \<Rightarrow> Some l | _ \<Rightarrow> None)"

lemma as_str_simps [simp]:
  "as_str None = None" "as_str (Some (YStr s)) = Some s" "as_str (Some YNull) = None"
  "as_str (Some (YInt i)) = None" "as_str (Some (YBool b)) = None" "as_str (Some (YFloat f)) = None"
  "as_str (Some (YList l)) = None" "as_str (Some (YStrs k)) = None" "as_str (Some (YMap m)) = None"
  "as_str (Some (YMaps n)) = None"
  by (simp_all add: as_str_def)

lemma as_int_simps [simp]:
  "as_int None = None" "as_int (Some (YInt i)) = Some i" "as_int (Some YNull) = None"
  "as_int (Some (YStr s)) = None" "as_int (Some (YBool b)) = None" "as_int (Some (YFloat f)) = None"
  "as_int (Some (YList l)) = None" "as_int (Some (YStrs k)) = None" "as_int (Some (YMap m)) = None"
  "as_int (Some (YMaps n)) = None"
  by (simp_all add: as_int_def)

lemma as_bool_simps [simp]:
  "as_bool None = None" "as_bool (Some (YBool b)) = Some b" "as_bool (Some YNull) = None"
  "as_bool (Some (YStr s)) = None" "as_bool (Some (YInt i)) = None"
  "as_bool (Some (YFloat f)) = None" "as_bool (Some (YList l)) = None"
  "as_bool (Some (YStrs k)) = None" "as_bool (Some (YMap m)) = None" "as_bool (Some (YMaps n)) = None"
  by (simp_all add: as_bool_def)

lemma as_map_simps [simp]:
  "as_map None = None" "as_map (Some (YMap m)) = Some m" "as_map (Some YNull) = None"
  "as_map (Some (YStr s)) = None" "as_map (Some (YInt i)) = None" "as_map (Some (YBool b)) = None"
  "as_map (Some (YFloat f)) = None" "as_map (Some (YList l)) = None"
  "as_map (Some (YStrs k)) = None" "as_map (Some (YMaps n)) = None"
  by (simp_all add: as_map_def)

lemma as_list_simps [simp]:
  "as_list None = None" "as_list (Some (YList l)) = Some l" "as_list (Some YNull) = None"
  "as_list (Some (YStr s)) = None" "as_list (Some (YInt i)) = None"
  "as_list (Some (YBool b)) = None" "as_list (Some (YFloat f)) = None"
  "as_list (Some (YStrs k)) = None" "as_list (Some (YMap m)) = None" "as_list (Some (YMaps n)) = None"
  by (simp_all add: as_list_def)

lemma as_str_Some [simp]: "as_str v = Some s \<longleftrightarrow> v = Some (YStr s)"
  by (auto simp: as_str_def split: option.splits yval.splits)

lemma as_int_Some [simp]: "as_int v = Some i \<longleftrightarrow> v = Some (YInt i)"
  by (auto simp: as_int_def split: option.splits yval.splits)

lemma as_bool_Some [simp]: "as_bool v = Some b \<longleftrightarrow> v = Some (YBool b)"
  by (auto simp: as_bool_def split: option.splits yval.splits)

lemma as_map_Some [simp]: "as_map v = Some m \<longleftrightarrow> v = Some (YMap m)"
  by (auto simp: as_map_def split: option.splits yval.splits)

lemma as_list_Some [simp]: "as_list v = Some l \<longleftrightarrow> v = Some (YList l)"
  by (auto simp: as_list_def split: option.splits yval.splits)

text \<open>Go's \<open>len(m) == 0\<close> on a finite map, and the zero value a failed assertion leaves.\<close>

definition fm_empty :: "('k, 'v) fmap \<Rightarrow> bool" where
  "fm_empty m = (fmdom m = {||})"

lemma fm_empty_iff [simp]: "fm_empty m \<longleftrightarrow> m = fmempty"
  unfolding fm_empty_def by (metis fmdom_empty fmrestrict_fset_dom fmrestrict_fset_null)

text \<open>Iteration over a map in key order.\<close>

lemma distinct_sorted_fmap [simp]: "distinct (map fst (sorted_list_of_fmap m))"
  by (simp add: sorted_list_of_fmap_def comp_def sorted_list_of_fset.rep_eq)

lemma sorted_sorted_fmap [simp]: "sorted (map fst (sorted_list_of_fmap m))"
  by (simp add: sorted_list_of_fmap_def comp_def sorted_list_of_fset.rep_eq)

lemma set_sorted_fmap: "(k, v) \<in> set (sorted_list_of_fmap m) \<longleftrightarrow> fmlookup m k = Some v"
  by (auto simp: sorted_list_of_fmap_def fmlookup_dom_iff)

abbreviation or_else :: "'a option \<Rightarrow> 'a \<Rightarrow> 'a" where
  "or_else v d \<equiv> (case v of None \<Rightarrow> d | Some x \<Rightarrow> x)"

end
