(* ===== verification/Versions.thy ===== *)
theory Versions
  imports Go_Prelude
begin

text \<open>
  AI Gateway releases (\<open>internal/aimap/versions.go\<close>) and the check of the
  \<open>min_runtime_version\<close> option (\<open>convert/convert.go\<close>): parsing and printing a release, the order
  of releases, and the tables that gate a feature, a format, a provider type, a capability or an
  endpoint on a release.  Errors are values of \<open>version_error\<close>.
\<close>

section \<open>Releases\<close>

datatype version = Version (Major: int) (Minor: int)

datatype version_error =
    NotMajorMinor string      \<comment> \<open>not in the form MAJOR.MINOR\<close>
  | OutOfRange string         \<comment> \<open>\<open>strconv.Atoi\<close> does not fit an \<open>int\<close>\<close>
  | VersionRequired           \<comment> \<open>\<open>MinRuntimeVersion\<close> is empty\<close>
  | OlderThanSupported version

definition is_digit :: "char \<Rightarrow> bool" where
  "is_digit c = (48 \<le> (of_char c :: nat) \<and> (of_char c :: nat) \<le> 57)"

definition digit_val :: "char \<Rightarrow> nat" where
  "digit_val c = of_char c - 48"

text \<open>One group \<open>(0|[1-9]\d*)\<close> of \<open>versionPattern\<close>.\<close>

definition number_group :: "string \<Rightarrow> bool" where
  "number_group s = (s = ''0'' \<or>
     (case s of [] \<Rightarrow> False | c # cs \<Rightarrow> is_digit c \<and> c \<noteq> CHR ''0'' \<and> list_all is_digit cs))"

definition digits_val :: "string \<Rightarrow> nat" where
  "digits_val s = foldl (\<lambda>n c. 10 * n + digit_val c) 0 s"

definition max_int :: int where
  "max_int = 2 ^ 63 - 1"

definition Atoi :: "string \<Rightarrow> int option" where
  "Atoi s = (if int (digits_val s) \<le> max_int then Some (int (digits_val s)) else None)"

text \<open>\<open>FindStringSubmatch\<close>: a match splits at the only dot.\<close>

definition versionPattern :: "string \<Rightarrow> (string \<times> string) option" where
  "versionPattern s =
     (case Cut s CHR ''.'' of
        None \<Rightarrow> None
      | Some (a, b) \<Rightarrow> if number_group a \<and> number_group b then Some (a, b) else None)"

definition ParseVersion :: "string \<Rightarrow> version_error + version" where
  "ParseVersion s =
     (case versionPattern s of
        None \<Rightarrow> Inl (NotMajorMinor s)
      | Some (a, b) \<Rightarrow>
          (case Atoi a of
             None \<Rightarrow> Inl (OutOfRange s)
           | Some major \<Rightarrow>
               (case Atoi b of
                  None \<Rightarrow> Inl (OutOfRange s)
                | Some minor \<Rightarrow> Inr (Version major minor))))"

definition dec_int :: "int \<Rightarrow> string" where
  "dec_int i = (if i < 0 then CHR ''-'' # dec (nat (- i)) else dec (nat i))"

definition version_String :: "version \<Rightarrow> string" where
  "version_String v = dec_int (Major v) @ [CHR ''.''] @ dec_int (Minor v)"

definition Less :: "version \<Rightarrow> version \<Rightarrow> bool" where
  "Less v o' = (if Major v \<noteq> Major o' then Major v < Major o' else Minor v < Minor o')"

instantiation version :: linorder
begin

definition less_version :: "version \<Rightarrow> version \<Rightarrow> bool" where
  "less_version v w = Less v w"

definition less_eq_version :: "version \<Rightarrow> version \<Rightarrow> bool" where
  "less_eq_version v w = (v = w \<or> Less v w)"

instance
  by standard (auto simp: less_version_def less_eq_version_def Less_def version.expand
      split: if_splits)

end

lemma not_Less [simp]: "\<not> Less v w \<longleftrightarrow> w \<le> v"
  using leD less_version_def linorder_not_less by metis

definition SupportFloor :: version where
  "SupportFloor = Version 2 0"

definition LatestVersion :: version where
  "LatestVersion = Version 2 3"

section \<open>Decimal texts\<close>

lemma char_of_48 [simp]: "char_of (48 :: nat) = CHR ''0''"
  by code_simp

lemma digit_val_0 [simp]: "digit_val CHR ''0'' = 0"
  by (simp add: digit_val_def)

lemma digit_val_char_of [simp]: "d < (10 :: nat) \<Longrightarrow> digit_val (char_of (48 + d)) = d"
  by (simp add: digit_val_def)

lemma is_digit_char_of [simp]: "d < (10 :: nat) \<Longrightarrow> is_digit (char_of (48 + d))"
  by (simp add: is_digit_def)

lemma char_of_digit_val: "is_digit c \<Longrightarrow> char_of (48 + digit_val c) = c"
  by (simp add: is_digit_def digit_val_def)

lemma digit_val_less: "is_digit c \<Longrightarrow> digit_val c < 10"
  by (auto simp: is_digit_def digit_val_def)

lemma digits_val_snoc [simp]: "digits_val (s @ [c]) = 10 * digits_val s + digit_val c"
  by (simp add: digits_val_def)

lemma digits_val_Nil [simp]: "digits_val [] = 0"
  by (simp add: digits_val_def)

lemma dec_small: "n < 10 \<Longrightarrow> dec n = [char_of (48 + n)]"
  by (simp add: dec.simps)

lemma dec_step: "\<not> n < 10 \<Longrightarrow> dec n = dec (n div 10) @ [char_of (48 + n mod 10)]"
  by (subst dec.simps) simp

lemma digits_val_dec [simp]: "digits_val (dec n) = n"
proof (induction n rule: dec.induct)
  case (1 n)
  show ?case
  proof (cases "n < 10")
    case True
    then show ?thesis using digits_val_snoc [of "[]"] by (simp add: dec_small)
  next
    case False
    with 1 show ?thesis by (simp add: dec_step)
  qed
qed

lemma dec_digits: "list_all is_digit (dec n)"
proof (induction n rule: dec.induct)
  case (1 n)
  then show ?case by (cases "n < 10") (simp_all add: dec_small dec_step)
qed

lemma dec_hd: "0 < n \<Longrightarrow> hd (dec n) \<noteq> CHR ''0''"
proof (induction n rule: dec.induct)
  case (1 n)
  show ?case
  proof (cases "n < 10")
    case True
    have "char_of (48 + n) \<noteq> CHR ''0''"
      using True 1(2) digit_val_char_of digit_val_0 by (metis less_numeral_extra(3))
    with True show ?thesis by (simp add: dec_small)
  next
    case False
    then have "0 < n div 10" by auto
    with 1(1) False show ?thesis by (simp add: dec_step)
  qed
qed

lemma dec_0: "dec 0 = ''0''"
  by (simp add: dec_small)

lemma number_group_dec: "number_group (dec n)"
proof (cases "n = 0")
  case False
  then show ?thesis using dec_digits [of n] dec_hd [of n]
    by (cases "dec n") (auto simp: number_group_def)
qed (simp add: number_group_def dec_0)

lemma digits_val_pos:
  "is_digit c \<Longrightarrow> c \<noteq> CHR ''0'' \<Longrightarrow> list_all is_digit cs \<Longrightarrow> 0 < digits_val (c # cs)"
proof (induction cs rule: rev_induct)
  case Nil
  have "digit_val c \<noteq> 0"
  proof
    assume "digit_val c = 0"
    with char_of_digit_val [OF Nil(1)] have "c = CHR ''0''" by simp
    with Nil(2) show False ..
  qed
  then show ?case using digits_val_snoc [of "[]" c] by simp
next
  case (snoc d ds)
  then have "0 < digits_val (c # ds)" by simp
  then show ?case using digits_val_snoc [of "c # ds" d] by simp
qed

text \<open>A decimal text without leading zeros is the text of its value.\<close>

lemma dec_digits_val: "number_group s \<Longrightarrow> dec (digits_val s) = s"
proof -
  have "is_digit c \<Longrightarrow> c \<noteq> CHR ''0'' \<Longrightarrow> list_all is_digit cs \<Longrightarrow>
      dec (digits_val (c # cs)) = c # cs" for c cs
  proof (induction cs rule: rev_induct)
    case Nil
    then have "digits_val [c] < 10" and "digits_val [c] = digit_val c"
      using digits_val_snoc [of "[]" c] digit_val_less by simp_all
    with Nil show ?case by (simp add: dec_small char_of_digit_val)
  next
    case (snoc d ds)
    then have ds: "is_digit d" "list_all is_digit ds" by simp_all
    have val: "digits_val (c # ds @ [d]) = 10 * digits_val (c # ds) + digit_val d"
      using digits_val_snoc [of "c # ds" d] by simp
    from digits_val_pos [OF snoc(2,3) ds(2)] have "\<not> digits_val (c # ds @ [d]) < 10"
      unfolding val by simp
    moreover have "digits_val (c # ds @ [d]) div 10 = digits_val (c # ds)"
      and "digits_val (c # ds @ [d]) mod 10 = digit_val d"
      unfolding val using digit_val_less [OF ds(1)] by simp_all
    ultimately show ?case
      using snoc.IH [OF snoc(2,3) ds(2)] ds by (simp add: dec_step char_of_digit_val)
  qed
  moreover assume "number_group s"
  ultimately show ?thesis
    using dec_0 digits_val_snoc [of "[]" "CHR ''0''"]
    by (cases s) (auto simp: number_group_def digit_val_def)
qed

lemma dot_notin_dec: "CHR ''.'' \<notin> set (dec n)"
  using dec_digits [of n] by (auto simp: list_all_iff is_digit_def)

section \<open>Parsing and printing agree\<close>

lemma Atoi_Some: "Atoi s = Some i \<longleftrightarrow> i = int (digits_val s) \<and> i \<le> max_int"
  by (auto simp: Atoi_def)

lemma ParseVersion_Inr:
  "ParseVersion s = Inr v \<longleftrightarrow>
     (\<exists>a b. versionPattern s = Some (a, b) \<and> Atoi a = Some (Major v) \<and> Atoi b = Some (Minor v))"
  by (cases v) (auto simp: ParseVersion_def split: option.splits)

lemma versionPattern_Some:
  "versionPattern s = Some (a, b) \<longleftrightarrow>
     s = a @ CHR ''.'' # b \<and> CHR ''.'' \<notin> set a \<and> number_group a \<and> number_group b"
proof
  show "versionPattern s = Some (a, b) \<Longrightarrow>
      s = a @ CHR ''.'' # b \<and> CHR ''.'' \<notin> set a \<and> number_group a \<and> number_group b"
    by (auto simp: versionPattern_def Cut_Some split: option.splits if_splits)
qed (auto simp: versionPattern_def)

lemma parse_prints:
  assumes "ParseVersion s = Inr v"
  shows "version_String v = s \<and> 0 \<le> Major v \<and> 0 \<le> Minor v \<and>
    Major v \<le> max_int \<and> Minor v \<le> max_int"
proof -
  from assms obtain a b where pat: "versionPattern s = Some (a, b)"
    and major: "Atoi a = Some (Major v)" and minor: "Atoi b = Some (Minor v)"
    by (auto simp: ParseVersion_Inr)
  then show ?thesis
    by (auto simp: versionPattern_Some Atoi_Some version_String_def dec_int_def dec_digits_val)
qed

lemma print_parses:
  assumes "0 \<le> Major v" "0 \<le> Minor v" "Major v \<le> max_int" "Minor v \<le> max_int"
  shows "ParseVersion (version_String v) = Inr v"
  unfolding ParseVersion_Inr using assms dot_notin_dec number_group_dec
  by (intro exI [of _ "dec (nat (Major v))"] exI [of _ "dec (nat (Minor v))"])
    (simp add: versionPattern_Some Atoi_Some version_String_def dec_int_def)

text \<open>C22: a release has exactly one spelling.  \<open>ParseVersion\<close> accepts a text if and only if the
  text is what \<open>String\<close> prints for a release with non-negative components that fit an \<open>int\<close>, and
  then returns that release.\<close>

theorem parse_version_iff_prints:
  "ParseVersion s = Inr v \<longleftrightarrow>
     version_String v = s \<and> 0 \<le> Major v \<and> 0 \<le> Minor v \<and> Major v \<le> max_int \<and> Minor v \<le> max_int"
  using parse_prints print_parses by blast

section \<open>Features and the releases that have them\<close>

datatype Feature =
    FeatureTargetCostList | FeaturePolicyCondition | FeaturePolicyExpressions
  | FeatureMCPUpstreamProtocolVersion | FeatureACLWhen | FeaturePassthroughFormat
  | FeatureTypesafe | FeatureDecisionsCapability | FeatureSkillsCapability
  | FeatureFailoverHTTPCodes | FeatureBedrockVPCEndpoint | FeatureBedrockEndpointType
  | FeatureMCPTokenVault | FeatureProviderTokenVault | FeatureMCPRateLimiting
  | FeatureMCPACLWhen | FeatureGeminiAgenticCapability | FeatureBedrockRuntimeResponses
  | FeatureBaseten | FeatureSagemaker | FeatureAuthStrategyTokenVault | FeatureMCPIdentityAuth

text \<open>
  The table \<open>featureSince\<close>.  The datatype holds exactly the declared constants and the
  function has an equation for each, so the panic of \<open>Since\<close> on an unknown feature cannot happen.
\<close>

fun Since :: "Feature \<Rightarrow> version" where
  "Since FeatureTargetCostList = Version 2 1"
| "Since FeaturePolicyCondition = Version 2 1"
| "Since FeaturePolicyExpressions = Version 2 3"
| "Since FeatureMCPUpstreamProtocolVersion = Version 2 1"
| "Since FeatureACLWhen = Version 2 2"
| "Since FeaturePassthroughFormat = Version 2 2"
| "Since FeatureTypesafe = Version 2 2"
| "Since FeatureDecisionsCapability = Version 2 2"
| "Since FeatureSkillsCapability = Version 2 2"
| "Since FeatureFailoverHTTPCodes = Version 2 3"
| "Since FeatureBedrockVPCEndpoint = Version 2 3"
| "Since FeatureBedrockEndpointType = Version 2 3"
| "Since FeatureMCPTokenVault = Version 2 3"
| "Since FeatureProviderTokenVault = Version 2 3"
| "Since FeatureMCPRateLimiting = Version 2 3"
| "Since FeatureMCPACLWhen = Version 2 3"
| "Since FeatureGeminiAgenticCapability = Version 2 3"
| "Since FeatureBedrockRuntimeResponses = Version 2 3"
| "Since FeatureBaseten = Version 2 3"
| "Since FeatureSagemaker = Version 2 1"
| "Since FeatureAuthStrategyTokenVault = Version 2 3"
| "Since FeatureMCPIdentityAuth = Version 2 3"

definition Supports :: "Feature \<Rightarrow> version \<Rightarrow> bool" where
  "Supports f v = (\<not> Less v (Since f))"

definition TargetCostListKeys :: "string list" where
  "TargetCostListKeys = [''input_cost_list'', ''output_cost_list'', ''cache_read_cost_list'']"

definition BedrockEndpointTypeKeys :: "string list" where
  "BedrockEndpointTypeKeys = [''endpoint_type'', ''mantle_openai_path_prefix'']"

definition FailoverHTTPCodes :: "string list" where
  "FailoverHTTPCodes =
     [''http_400'', ''http_401'', ''http_402'', ''http_405'', ''http_408'', ''http_409'',
      ''http_413'', ''http_415'', ''http_422'', ''http_522'', ''http_529'', ''http_5xx'']"

definition PassthroughFormat :: string where
  "PassthroughFormat = ''passthrough''"

definition FormatFeature :: "string \<Rightarrow> Feature option" where
  "FormatFeature format =
     (if format = PassthroughFormat then Some FeaturePassthroughFormat
      else if format = ''typesafe'' then Some FeatureTypesafe else None)"

definition ProviderFeature :: "string \<Rightarrow> Feature option" where
  "ProviderFeature providerType =
     (if providerType = ''typesafe'' then Some FeatureTypesafe
      else if providerType = ''baseten'' then Some FeatureBaseten
      else if providerType = ''sagemaker'' then Some FeatureSagemaker else None)"

text \<open>The key of \<open>gatedEndpoints\<close> is the section, a slash and the route label.\<close>

definition EndpointFeature :: "string \<Rightarrow> string \<Rightarrow> Feature option" where
  "EndpointFeature section routeLabel =
     (if section @ ''/'' @ routeLabel = ''bedrock/responses''
      then Some FeatureBedrockRuntimeResponses else None)"

definition CapabilityFeature :: "string \<Rightarrow> string \<Rightarrow> Feature option" where
  "CapabilityFeature section capability =
     (if section = ''gemini'' \<and> capability = ''agentic'' then Some FeatureGeminiAgenticCapability
      else if capability = ''decisions'' then Some FeatureDecisionsCapability
      else if capability = ''skills'' then Some FeatureSkillsCapability else None)"

text \<open>A gate that may be absent: what every caller asks of the four lookups.\<close>

definition gate_open :: "Feature option \<Rightarrow> version \<Rightarrow> bool" where
  "gate_open g v = (case g of None \<Rightarrow> True | Some f \<Rightarrow> Supports f v)"

lemma Supports_iff: "Supports f v \<longleftrightarrow> Since f \<le> v"
  by (simp add: Supports_def)

lemma Since_range: "SupportFloor < Since f \<and> Since f \<le> LatestVersion"
  by (cases f) (simp_all add: SupportFloor_def LatestVersion_def less_version_def
      less_eq_version_def Less_def)

text \<open>
  A gate is an upward closed set of releases.  What a release can run, every newer one can run;
  the laws below are proved once for any such family of gates.
\<close>

locale release_gate =
  fixes admits :: "'g \<Rightarrow> version \<Rightarrow> bool"
  assumes upward: "admits g v \<Longrightarrow> v \<le> w \<Longrightarrow> admits g w"
    and latest: "admits g LatestVersion"
begin

lemma filter_mono: "v \<le> w \<Longrightarrow> set (filter (\<lambda>x. admits (k x) v) xs) \<subseteq> set (filter (\<lambda>x. admits (k x) w) xs)"
  using upward by auto

lemma filter_latest: "filter (\<lambda>x. admits (k x) LatestVersion) xs = xs"
  using latest by (simp add: filter_id_conv)

lemma below: "\<not> admits g w \<Longrightarrow> v \<le> w \<Longrightarrow> \<not> admits g v"
  using upward by blast

end

interpretation feature: release_gate Supports
  using Since_range by unfold_locales (auto simp: Supports_iff)

interpretation opt_gate: release_gate gate_open
proof
  show "gate_open g v \<Longrightarrow> v \<le> w \<Longrightarrow> gate_open g w" for g v w
    using feature.upward by (auto simp: gate_open_def split: option.splits)
  show "gate_open g LatestVersion" for g
    using feature.latest by (simp add: gate_open_def split: option.split)
qed

section \<open>The minimum runtime version option\<close>

text \<open>\<open>parseMinRuntimeVersion\<close>, and the clamp of \<open>Convert\<close> to the newest known release.  The
  flag is True when the \<open>ConfigFieldOverridden\<close> warning is reported.\<close>

definition parseMinRuntimeVersion :: "string \<Rightarrow> version_error + version" where
  "parseMinRuntimeVersion s =
     (if s = [] then Inl VersionRequired
      else case ParseVersion s of
             Inl e \<Rightarrow> Inl e
           | Inr v \<Rightarrow> if Less v SupportFloor then Inl (OlderThanSupported v) else Inr v)"

definition clampMinRuntimeVersion :: "version \<Rightarrow> version \<times> bool" where
  "clampMinRuntimeVersion v =
     (if Less LatestVersion v then (LatestVersion, True) else (v, False))"

definition effectiveMinRuntimeVersion :: "string \<Rightarrow> version_error + version \<times> bool" where
  "effectiveMinRuntimeVersion s =
     (case parseMinRuntimeVersion s of Inl e \<Rightarrow> Inl e | Inr v \<Rightarrow> Inr (clampMinRuntimeVersion v))"

lemma clamp_range:
  "SupportFloor \<le> v \<Longrightarrow> SupportFloor \<le> fst (clampMinRuntimeVersion v) \<and>
     fst (clampMinRuntimeVersion v) \<le> LatestVersion"
  by (cases v) (auto simp: clampMinRuntimeVersion_def SupportFloor_def LatestVersion_def
      less_eq_version_def Less_def)

lemma versions_in_range:
  assumes "SupportFloor \<le> v" and "v \<le> LatestVersion"
  shows "v \<in> {Version 2 0, Version 2 1, Version 2 2, Version 2 3}"
proof (cases v)
  case (Version a b)
  with assms have "a = 2" and "0 \<le> b" and "b \<le> 3"
    by (auto simp: SupportFloor_def LatestVersion_def less_eq_version_def Less_def split: if_splits)
  then have "b = 0 \<or> b = 1 \<or> b = 2 \<or> b = 3" by arith
  with Version \<open>a = 2\<close> show ?thesis by auto
qed

text \<open>C23: a conversion that starts runs for one of the releases 2.0, 2.1, 2.2 or 2.3, whatever the
  option says, and it warns exactly when the option names a newer release.\<close>

theorem min_runtime_version_supported:
  assumes "effectiveMinRuntimeVersion s = Inr (v, warned)"
  shows "v \<in> {Version 2 0, Version 2 1, Version 2 2, Version 2 3} \<and>
    (\<exists>w. ParseVersion s = Inr w \<and> (warned \<longleftrightarrow> LatestVersion < w) \<and> (\<not> warned \<longrightarrow> v = w))"
proof -
  from assms obtain w where w: "ParseVersion s = Inr w" "SupportFloor \<le> w"
    and v: "(v, warned) = clampMinRuntimeVersion w"
    by (auto simp: effectiveMinRuntimeVersion_def parseMinRuntimeVersion_def
        split: if_splits sum.splits)
  from v clamp_range [OF w(2)] have "v \<in> {Version 2 0, Version 2 1, Version 2 2, Version 2 3}"
    by (metis fst_conv versions_in_range)
  moreover from v have "(warned \<longleftrightarrow> LatestVersion < w) \<and> (\<not> warned \<longrightarrow> v = w)"
    by (auto simp: clampMinRuntimeVersion_def less_version_def split: if_splits)
  ultimately show ?thesis using w(1) by blast
qed

theorem min_runtime_version_supported_witness:
  "effectiveMinRuntimeVersion ''2.7'' = Inr (Version 2 3, True) \<and>
   Version 2 3 \<in> {Version 2 0, Version 2 1, Version 2 2, Version 2 3}"
proof -
  have h: "effectiveMinRuntimeVersion ''2.7'' = Inr (Version 2 3, True)" by code_simp
  show ?thesis using h min_runtime_version_supported [OF h] by blast
qed

end
