(* ===== verification/Endpoint_Table.thy ===== *)
theory Endpoint_Table
  imports Versions
begin

text \<open>
  The endpoint table of \<open>internal/aimap/endpoints.go\<close>: which Kong route serves a capability of a
  client format, and the lookups on it.  The table is an association list in source order; the
  lookups return the same entry for any order, because its keys are distinct
  (\<open>EndpointTable_keys\<close>), and the callers of the two functions that range over it sort or only
  search the result.
\<close>

named_theorems endpoint_defs \<open>unfolding rules of the endpoint table\<close>

section \<open>Endpoint specs\<close>

record EndpointSpec =
  RouteLabel :: string
  PathSuffix :: string
  IsRegex :: bool
  Methods :: "string list"
  RouteType :: string
  GenaiCategory :: string
  DefaultModelSelectorConfig :: "ymap option"
  SupportsLogStatistics :: bool

datatype EndpointEntry = EndpointEntry (Primary: EndpointSpec) (Secondary: "EndpointSpec list")

definition endpoint ::
  "string \<Rightarrow> string \<Rightarrow> bool \<Rightarrow> string list \<Rightarrow> string \<Rightarrow> string \<Rightarrow> ymap option \<Rightarrow> bool \<Rightarrow> EndpointSpec"
where
  "endpoint label path regex methods rtype cat selector stats =
     \<lparr>RouteLabel = label, PathSuffix = path, IsRegex = regex, Methods = methods,
      RouteType = rtype, GenaiCategory = cat, DefaultModelSelectorConfig = selector,
      SupportsLogStatistics = stats\<rparr>"

abbreviation (input) catTextGen :: string where "catTextGen \<equiv> ''text/generation''"
abbreviation (input) catEmbeddings :: string where "catEmbeddings \<equiv> ''text/embeddings''"
abbreviation (input) catImage :: string where "catImage \<equiv> ''image/generation''"
abbreviation (input) catVideo :: string where "catVideo \<equiv> ''video/generation''"
abbreviation (input) catRealtime :: string where "catRealtime \<equiv> ''realtime/generation''"
abbreviation (input) catSpeech :: string where "catSpeech \<equiv> ''audio/speech''"
abbreviation (input) catTranscript :: string where "catTranscript \<equiv> ''audio/transcription''"

abbreviation (input) DefaultLLMFormat :: string where "DefaultLLMFormat \<equiv> ''openai''"
abbreviation (input) PassthroughRouteType :: string where "PassthroughRouteType \<equiv> ''passthrough''"
abbreviation (input) RealtimeRouteType :: string where "RealtimeRouteType \<equiv> ''realtime/v1/realtime''"

abbreviation (input) mPost :: "string list" where "mPost \<equiv> [''POST'', ''OPTIONS'']"
abbreviation (input) mGetPost :: "string list" where "mGetPost \<equiv> [''GET'', ''POST'', ''OPTIONS'']"
abbreviation (input) mGetPostDelete :: "string list" where
  "mGetPostDelete \<equiv> [''GET'', ''POST'', ''DELETE'', ''OPTIONS'']"

definition defaultBodyModelSelectorConfig :: ymap where
  "defaultBodyModelSelectorConfig =
     fmap_of_list [(''source'', YStr ''body''), (''body_path'', YStr ''model'')]"

definition geminiPathModelSelectorConfig :: ymap where
  "geminiPathModelSelectorConfig =
     fmap_of_list [(''source'', YStr ''path''), (''path_pattern'', YStr ''models/([%w%.%-]+):'')]"

definition bedrockPathModelSelectorConfig :: ymap where
  "bedrockPathModelSelectorConfig =
     fmap_of_list [(''source'', YStr ''path''), (''path_pattern'', YStr ''model/([^/]+)/'')]"

definition bedrockInvokeChatSpec :: EndpointSpec where
  "bedrockInvokeChatSpec =
     endpoint ''invoke'' ''model/(?<model_name>[^/]+)/invoke(?:-with-response-stream)?''
       True mGetPost ''llm/v1/chat'' catTextGen (Some bedrockPathModelSelectorConfig) True"

abbreviation (input) geminiEnterpriseLocPath :: string where
  "geminiEnterpriseLocPath \<equiv> ''v1/projects/(?<project_id>[^/]+)/locations/(?<location_id>[^/]+)''"

abbreviation (input) geminiBetaEnterpriseLocPath :: string where
  "geminiBetaEnterpriseLocPath \<equiv>
     ''v1beta1/projects/(?<project_id>[^/]+)/locations/(?<location_id>[^/]+)''"

abbreviation (input) geminiEnterpriseModelPath :: string where
  "geminiEnterpriseModelPath \<equiv>
     geminiEnterpriseLocPath @ ''/publishers/(?<publisher>[^/]+)/models/(?<model_name>[^:/]+)''"

definition PassthroughEndpoint :: EndpointSpec where
  "PassthroughEndpoint =
     endpoint ''passthrough'' [] False [] PassthroughRouteType catTextGen None True"

section \<open>The table\<close>

definition openaiEndpoints :: "(string \<times> EndpointEntry) list" where
  "openaiEndpoints =
    [(''generate'', EndpointEntry
      (endpoint ''chat'' ''/chat/completions''
        False mPost ''llm/v1/chat'' catTextGen (Some defaultBodyModelSelectorConfig) True)
      []),
     (''agentic'', EndpointEntry
      (endpoint ''responses'' ''/responses''
        False mPost ''llm/v1/responses'' catTextGen (Some defaultBodyModelSelectorConfig) True)
      []),
     (''realtime'', EndpointEntry
      (endpoint ''realtime'' ''/realtime''
        False [] RealtimeRouteType catRealtime None True)
      []),
     (''embeddings'', EndpointEntry
      (endpoint ''embeddings'' ''/embeddings''
        False mPost ''llm/v1/embeddings'' catEmbeddings (Some defaultBodyModelSelectorConfig) True)
      []),
     (''image'', EndpointEntry
      (endpoint ''images'' ''/images/generations''
        False mPost ''image/v1/images/generations'' catImage (Some defaultBodyModelSelectorConfig) True)
      [endpoint ''images-edits'' ''/images/edits''
        False mPost ''image/v1/images/edits'' catImage (Some defaultBodyModelSelectorConfig) True]),
     (''audio/speech'', EndpointEntry
      (endpoint ''audio-speech'' ''/audio/speech''
        False mPost ''audio/v1/audio/speech'' catSpeech (Some defaultBodyModelSelectorConfig) False)
      []),
     (''audio/transcription'', EndpointEntry
      (endpoint ''audio-transcribe'' ''/audio/transcriptions''
        False mPost ''audio/v1/audio/transcriptions'' catTranscript (Some defaultBodyModelSelectorConfig) False)
      []),
     (''audio/translation'', EndpointEntry
      (endpoint ''audio-translate'' ''/audio/translations''
        False mPost ''audio/v1/audio/translations'' catTranscript (Some defaultBodyModelSelectorConfig) False)
      []),
     (''video'', EndpointEntry
      (endpoint ''videos'' ''/videos''
        False mPost ''video/v1/videos/generations'' catVideo (Some defaultBodyModelSelectorConfig) True)
      []),
     (''batches'', EndpointEntry
      (endpoint ''batches'' ''/batches''
        False mGetPost ''llm/v1/batches'' catTextGen None False)
      []),
     (''files'', EndpointEntry
      (endpoint ''files'' ''/files''
        False mGetPostDelete ''llm/v1/files'' catTextGen None True)
      []),
     (''skills'', EndpointEntry
      (endpoint ''skills'' ''/skills''
        False mGetPostDelete ''llm/v1/skills'' catTextGen None False)
      [])]"

definition anthropicEndpoints :: "(string \<times> EndpointEntry) list" where
  "anthropicEndpoints =
    [(''generate'', EndpointEntry
      (endpoint ''messages'' ''/v1/messages''
        False mPost ''llm/v1/chat'' catTextGen (Some defaultBodyModelSelectorConfig) True)
      []),
     (''batches'', EndpointEntry
      (endpoint ''batches'' ''/v1/messages/batches''
        False mGetPost ''llm/v1/batches'' catTextGen None False)
      []),
     (''skills'', EndpointEntry
      (endpoint ''skills'' ''/v1/skills''
        False mGetPostDelete ''llm/v1/skills'' catTextGen None False)
      [])]"

definition bedrockEndpoints :: "(string \<times> EndpointEntry) list" where
  "bedrockEndpoints =
    [(''generate'', EndpointEntry
      (endpoint ''converse'' ''model/(?<model_name>[^/]+)/converse(?:-stream)?''
        True mGetPost ''llm/v1/chat'' catTextGen (Some bedrockPathModelSelectorConfig) True)
      [bedrockInvokeChatSpec,
       endpoint ''chat'' ''/openai/v1/chat/completions''
        False mPost ''llm/v1/chat'' catTextGen (Some defaultBodyModelSelectorConfig) True,
       endpoint ''messages'' ''/anthropic/v1/messages''
        False mPost ''llm/v1/chat'' catTextGen (Some defaultBodyModelSelectorConfig) True]),
     (''agentic'', EndpointEntry
      (endpoint ''retrieve'' ''model/(?<model_name>[^/]+)/retrieveAndGenerate(?:Stream)?''
        True mGetPost ''llm/v1/chat'' catTextGen (Some bedrockPathModelSelectorConfig) True)
      [endpoint ''responses'' ''/openai/v1/responses''
        False mGetPostDelete ''llm/v1/responses'' catTextGen (Some defaultBodyModelSelectorConfig) True]),
     (''embeddings'', EndpointEntry
      (endpoint ''invoke'' ''model/(?<model_name>[^/]+)/invoke(?:-with-response-stream)?''
        True mGetPost ''llm/v1/embeddings'' catEmbeddings (Some bedrockPathModelSelectorConfig) True)
      []),
     (''image'', EndpointEntry
      (endpoint ''invoke'' ''model/(?<model_name>[^/]+)/invoke(?:-with-response-stream)?''
        True mGetPost ''image/v1/images/generations'' catImage (Some bedrockPathModelSelectorConfig) False)
      []),
     (''audio/speech'', EndpointEntry
      (bedrockInvokeChatSpec)
      []),
     (''video'', EndpointEntry
      (endpoint ''invoke'' ''model/(?<model_name>[^/]+)/invoke(?:-with-response-stream)?''
        True mGetPost ''video/v1/videos/generations'' catVideo (Some bedrockPathModelSelectorConfig) True)
      []),
     (''rerank'', EndpointEntry
      (endpoint ''rerank'' ''model/(?<model_name>[^/]+)/rerank''
        True mGetPost ''llm/v1/chat'' catTextGen (Some bedrockPathModelSelectorConfig) True)
      []),
     (''batches'', EndpointEntry
      (endpoint ''batches'' ''model-invocation-jobs?(?:/[^/]+(?:/stop)?)?''
        True mGetPost ''llm/v1/batches'' catTextGen None True)
      [])]"

definition geminiEndpoints :: "(string \<times> EndpointEntry) list" where
  "geminiEndpoints =
    [(''agentic'', EndpointEntry
      (endpoint ''responses'' ''/v1/interactions''
        False mGetPost ''llm/v1/responses'' catTextGen (Some defaultBodyModelSelectorConfig) True)
      [endpoint ''beta-responses'' ''/v1beta/interactions''
        False mGetPost ''llm/v1/responses'' catTextGen (Some defaultBodyModelSelectorConfig) True,
       endpoint ''enterprise-responses'' (geminiEnterpriseLocPath @ ''/interactions'')
        True mGetPost ''llm/v1/responses'' catTextGen (Some defaultBodyModelSelectorConfig) True,
       endpoint ''enterprise-beta-responses'' (geminiBetaEnterpriseLocPath @ ''/interactions'')
        True mGetPost ''llm/v1/responses'' catTextGen (Some defaultBodyModelSelectorConfig) True]),
     (''generate'', EndpointEntry
      (endpoint ''generate'' ''v1beta/models/(?<model_name>[^:/]+):(?:generateContent|streamGenerateContent)''
        True mGetPost ''llm/v1/chat'' catTextGen (Some geminiPathModelSelectorConfig) True)
      [endpoint ''enterprise-generate'' (geminiEnterpriseModelPath @ '':(?:generateContent|streamGenerateContent)'')
        True mGetPost ''llm/v1/chat'' catTextGen (Some geminiPathModelSelectorConfig) True]),
     (''embeddings'', EndpointEntry
      (endpoint ''embeddings'' ''v1beta/models/(?<model_name>[^:/]+):(?:embedContent|batchEmbedContents)''
        True mGetPost ''llm/v1/embeddings'' catEmbeddings (Some geminiPathModelSelectorConfig) True)
      [endpoint ''enterprise-embeddings'' (geminiEnterpriseModelPath @ '':embedContent'')
        True mGetPost ''llm/v1/embeddings'' catEmbeddings (Some geminiPathModelSelectorConfig) True]),
     (''image'', EndpointEntry
      (endpoint ''predict'' (geminiEnterpriseModelPath @ '':predict'')
        True mGetPost ''image/v1/images/generations'' catImage (Some geminiPathModelSelectorConfig) True)
      []),
     (''video'', EndpointEntry
      (endpoint ''predict-long-running'' (geminiEnterpriseModelPath @ '':predictLongRunning'')
        True mGetPost ''video/v1/videos/generations'' catVideo (Some geminiPathModelSelectorConfig) True)
      []),
     (''rerank'', EndpointEntry
      (endpoint ''ranking'' (geminiEnterpriseLocPath @ ''/rankingConfigs/(?<config_name>[^:/]+):rank'')
        True mGetPost ''llm/v1/chat'' catTextGen None True)
      []),
     (''batches'', EndpointEntry
      (endpoint ''batches'' ''/v1beta/batches''
        False mGetPost ''llm/v1/batches'' catTextGen None True)
      [endpoint ''enterprise-batches'' (geminiEnterpriseLocPath @ ''/batchPredictionJobs'')
        True mGetPost ''llm/v1/batches'' catTextGen None True]),
     (''files'', EndpointEntry
      (endpoint ''files'' ''(?:upload/)?v1beta/files''
        True mGetPost ''llm/v1/chat'' catTextGen None True)
      []),
     (''realtime'', EndpointEntry
      (endpoint ''realtime'' ''/realtime''
        False [] RealtimeRouteType catRealtime None True)
      [])]"

definition cohereEndpoints :: "(string \<times> EndpointEntry) list" where
  "cohereEndpoints =
    [(''rerank'', EndpointEntry
      (endpoint ''rerank'' ''/v2/rerank''
        False mPost ''llm/v1/chat'' catTextGen (Some defaultBodyModelSelectorConfig) True)
      [])]"

definition huggingfaceEndpoints :: "(string \<times> EndpointEntry) list" where
  "huggingfaceEndpoints =
    [(''generate'', EndpointEntry
      (endpoint ''generate'' ''/v1/chat/completions''
        False mPost ''llm/v1/chat'' catTextGen (Some defaultBodyModelSelectorConfig) True)
      [])]"

definition typesafeEndpoints :: "(string \<times> EndpointEntry) list" where
  "typesafeEndpoints =
    [(''decisions'', EndpointEntry
      (endpoint ''decisions'' ''v1/systemone''
        True mPost ''llm/v1/chat'' catTextGen (Some defaultBodyModelSelectorConfig) True)
      [])]"

definition EndpointTable :: "(string \<times> (string \<times> EndpointEntry) list) list" where
  "EndpointTable =
    [(''openai'', openaiEndpoints),
     (''anthropic'', anthropicEndpoints),
     (''bedrock'', bedrockEndpoints),
     (''gemini'', geminiEndpoints),
     (''cohere'', cohereEndpoints),
     (''huggingface'', huggingfaceEndpoints),
     (''typesafe'', typesafeEndpoints)]"

section \<open>Lookups\<close>

definition section_entries :: "string \<Rightarrow> (string \<times> EndpointEntry) list option" where
  "section_entries sec = map_of EndpointTable sec"

definition EndpointsFor :: "string \<Rightarrow> string \<Rightarrow> EndpointSpec list option" where
  "EndpointsFor sec capability =
     (case section_entries sec of
        None \<Rightarrow> None
      | Some caps \<Rightarrow> map_option (\<lambda>e. Primary e # Secondary e) (map_of caps capability))"

definition LookupEndpoint :: "string \<Rightarrow> string \<Rightarrow> EndpointSpec option" where
  "LookupEndpoint sec capability =
     (case section_entries sec of
        None \<Rightarrow> None | Some caps \<Rightarrow> map_option Primary (map_of caps capability))"

record CapabilityEndpoint =
  ce_Capability :: string
  ce_Spec :: EndpointSpec
  ce_Secondary :: bool

definition SectionEndpoints :: "string \<Rightarrow> CapabilityEndpoint list" where
  "SectionEndpoints sec =
     concat (map (\<lambda>(c, e).
         \<lparr>ce_Capability = c, ce_Spec = Primary e, ce_Secondary = False\<rparr> #
         map (\<lambda>s. \<lparr>ce_Capability = c, ce_Spec = s, ce_Secondary = True\<rparr>) (Secondary e))
       (or_else (section_entries sec) []))"

definition HasNativeFormat :: "string \<Rightarrow> bool" where
  "HasNativeFormat providerType = (section_entries providerType \<noteq> None)"

definition ClientFormat :: "string \<Rightarrow> string \<Rightarrow> string" where
  "ClientFormat format providerType =
     (let f = (if format = PassthroughFormat
               then (if HasNativeFormat providerType then providerType else DefaultLLMFormat)
               else format)
      in if f = [] then DefaultLLMFormat else f)"

definition SectionFor :: "string \<Rightarrow> string \<Rightarrow> string" where
  "SectionFor format providerType = ClientFormat format providerType"

definition Formats :: "string list" where
  "Formats = sort (map fst EndpointTable @ [PassthroughFormat])"

definition IsWebSocketEndpoint :: "EndpointSpec \<Rightarrow> bool" where
  "IsWebSocketEndpoint spec = (RouteType spec = RealtimeRouteType)"

definition RequiresNativeFormat :: "string \<Rightarrow> bool" where
  "RequiresNativeFormat capability = (capability = ''skills'')"

definition PluginProvider :: "string \<Rightarrow> string" where
  "PluginProvider providerType = providerType"

definition CapabilitiesFor :: "string \<Rightarrow> string \<Rightarrow> string list" where
  "CapabilitiesFor format providerType =
     (let sec = SectionFor format providerType in
      case section_entries sec of
        None \<Rightarrow> []
      | Some caps \<Rightarrow>
          (let rest = sort (filter (\<lambda>c. c \<noteq> ''generate'' \<and>
                 \<not> (RequiresNativeFormat c \<and> sec \<noteq> PluginProvider providerType)) (map fst caps))
           in (if ''generate'' \<in> set (map fst caps) then ''generate'' # rest else rest)))"

definition CapabilityLabel :: "string \<Rightarrow> string" where
  "CapabilityLabel capability =
     (if capability = ''agentic'' then ''Responses''
      else if capability = ''generate'' then ''Chat completions''
      else capability)"

definition NormalizeCapability :: "string \<Rightarrow> string list" where
  "NormalizeCapability c =
     (if c = ''audio'' then [''audio/speech'', ''audio/transcription'', ''audio/translation'']
      else if c = ''chat'' then [''generate'']
      else if c = ''batch'' then [''batches'']
      else [c])"

definition PromptReadingPolicies :: "string list" where
  "PromptReadingPolicies =
     [''ai-aws-guardrails'', ''ai-azure-content-safety'', ''ai-custom-guardrail'',
      ''ai-gcp-model-armor'', ''ai-lakera-guard'', ''ai-llm-as-judge'',
      ''ai-nvidia-nemo-guardrail'', ''ai-prompt-compressor'', ''ai-prompt-decorator'',
      ''ai-prompt-guard'', ''ai-prompt-template'', ''ai-rag-injector'', ''ai-semantic-cache'',
      ''ai-semantic-prompt-guard'', ''ai-semantic-response-guard'']"

definition SanitizerAnonymizesCredentials :: "ymap \<Rightarrow> bool" where
  "SanitizerAnonymizesCredentials cfg =
     (let types = (case fmlookup cfg ''anonymize'' of
                     Some (YStrs v) \<Rightarrow> v
                   | Some (YList v) \<Rightarrow> List.map_filter (\<lambda>t. as_str (Some t)) v
                   | _ \<Rightarrow> [])
      in types = [] \<or> ''all_and_credentials'' \<in> set types \<or> ''credentials'' \<in> set types)"

section \<open>Well-formedness of the table\<close>

lemmas section_defs [endpoint_defs] =
  openaiEndpoints_def anthropicEndpoints_def bedrockEndpoints_def geminiEndpoints_def
  cohereEndpoints_def huggingfaceEndpoints_def typesafeEndpoints_def

lemma EndpointTable_keys:
  "distinct (map fst EndpointTable) \<and> (\<forall>(s, caps) \<in> set EndpointTable. distinct (map fst caps))"
  by (simp add: EndpointTable_def section_defs)

text \<open>All specs a section serves, with their capability.\<close>

definition section_specs :: "string \<Rightarrow> EndpointSpec list" where
  "section_specs sec = map ce_Spec (SectionEndpoints sec)"

lemma section_specs_eq:
  "section_specs sec =
     concat (map (\<lambda>(c, e). Primary e # Secondary e) (or_else (section_entries sec) []))"
  by (simp add: section_specs_def SectionEndpoints_def map_concat comp_def case_prod_unfold)

lemma EndpointsFor_in_section:
  assumes "EndpointsFor sec c = Some specs" and "spec \<in> set specs"
  shows "spec \<in> set (section_specs sec)"
proof -
  from assms(1) obtain caps e where caps: "section_entries sec = Some caps"
    and e: "map_of caps c = Some e" and specs: "specs = Primary e # Secondary e"
    by (auto simp: EndpointsFor_def split: option.splits)
  from e have "(c, e) \<in> set caps" by (rule map_of_SomeD)
  with caps specs assms(2) show ?thesis
    by (auto simp: section_specs_eq intro!: bexI [of _ "(c, e)"])
qed

lemma section_entries_cases:
  "section_entries sec = Some caps \<Longrightarrow> (sec, caps) \<in> set EndpointTable"
  by (simp add: section_entries_def map_of_SomeD)

text \<open>A property of the specs of every section of the table is one of every section there is.\<close>

lemma section_specs_all:
  assumes "\<forall>(s, caps) \<in> set EndpointTable. P (concat (map (\<lambda>(c, e). Primary e # Secondary e) caps))"
    and "P []"
  shows "P (section_specs sec)"
  using assms by (auto simp: section_specs_eq split: option.split dest!: section_entries_cases)

definition same_route :: "EndpointSpec \<Rightarrow> EndpointSpec \<Rightarrow> bool" where
  "same_route a b =
     (PathSuffix a = PathSuffix b \<and> IsRegex a = IsRegex b \<and> Methods a = Methods b \<and>
      DefaultModelSelectorConfig a = DefaultModelSelectorConfig b)"

definition labels_identify_routes :: "EndpointSpec list \<Rightarrow> bool" where
  "labels_identify_routes specs =
     list_all (\<lambda>a. list_all (\<lambda>b.
       (if RouteLabel a = RouteLabel b then same_route a b else PathSuffix a \<noteq> PathSuffix b)) specs)
       specs"

lemma labels_identify_routesD:
  assumes "labels_identify_routes specs" and "a \<in> set specs" and "b \<in> set specs"
  shows "if RouteLabel a = RouteLabel b then same_route a b else PathSuffix a \<noteq> PathSuffix b"
  using assms unfolding labels_identify_routes_def list_all_iff by blast

definition suffix_shape :: "EndpointSpec \<Rightarrow> bool" where
  "suffix_shape spec =
     (PathSuffix spec \<noteq> [] \<and> (IsRegex spec \<noteq> HasPrefix (PathSuffix spec) ''/''))"

lemma table_labels: "\<forall>(s, caps) \<in> set EndpointTable.
    labels_identify_routes (concat (map (\<lambda>(c, e). Primary e # Secondary e) caps))"
  unfolding Ball_set by code_simp

lemma table_suffixes: "\<forall>(s, caps) \<in> set EndpointTable.
    list_all suffix_shape (concat (map (\<lambda>(c, e). Primary e # Secondary e) caps))"
  unfolding Ball_set by code_simp

lemma section_specs_labels: "labels_identify_routes (section_specs sec)"
  using table_labels by (rule section_specs_all) (simp add: labels_identify_routes_def)

lemma section_specs_suffixes: "spec \<in> set (section_specs sec) \<Longrightarrow> suffix_shape spec"
  using section_specs_all [OF table_suffixes, of sec] by (simp add: list_all_iff)

text \<open>Inside a section the route label identifies the route.  Two endpoints, of the same
  capability or of different ones, have the same label if and only if they have the same path
  suffix, and then they also agree on the regex flag, the methods and the model selector: specs
  that share a label collapse to one route without losing anything, and two labels never claim the
  same path.\<close>

theorem endpoint_label_identifies_route:
  assumes "EndpointsFor sec c = Some specs" and "a \<in> set specs"
    and "EndpointsFor sec d = Some specs'" and "b \<in> set specs'"
  shows "(RouteLabel a = RouteLabel b \<longleftrightarrow> PathSuffix a = PathSuffix b) \<and>
    (RouteLabel a = RouteLabel b \<longrightarrow> same_route a b)"
proof -
  have "a \<in> set (section_specs sec)" and "b \<in> set (section_specs sec)"
    using assms by (auto intro: EndpointsFor_in_section)
  from labels_identify_routesD [OF section_specs_labels this] show ?thesis
    by (cases "RouteLabel a = RouteLabel b") (simp_all add: same_route_def)
qed

theorem endpoint_label_identifies_route_witness:
  "\<exists>specs specs' a b.
     EndpointsFor ''bedrock'' ''generate'' = Some specs \<and> a \<in> set specs \<and>
     EndpointsFor ''bedrock'' ''video'' = Some specs' \<and> b \<in> set specs' \<and>
     RouteLabel a = RouteLabel b \<and> same_route a b"
proof -
  define specs where "specs = the (EndpointsFor ''bedrock'' ''generate'')"
  define specs' where "specs' = the (EndpointsFor ''bedrock'' ''video'')"
  have 1: "EndpointsFor ''bedrock'' ''generate'' = Some specs"
    and 3: "EndpointsFor ''bedrock'' ''video'' = Some specs'"
    unfolding specs_def specs'_def by (simp_all add: EndpointsFor_def section_entries_def
        EndpointTable_def bedrockEndpoints_def)
  have 2: "specs ! 1 \<in> set specs" and 4: "specs' ! 0 \<in> set specs'"
    unfolding specs_def specs'_def by (simp_all add: EndpointsFor_def section_entries_def
        EndpointTable_def bedrockEndpoints_def)
  have "RouteLabel (specs ! 1) = RouteLabel (specs' ! 0)"
    unfolding specs_def specs'_def by (simp add: EndpointsFor_def section_entries_def
        EndpointTable_def bedrockEndpoints_def bedrockInvokeChatSpec_def endpoint_def)
  with endpoint_label_identifies_route [OF 1 2 3 4] 1 2 3 4 show ?thesis by blast
qed

section \<open>Formats and capabilities\<close>

lemma set_CapabilitiesFor:
  "c \<in> set (CapabilitiesFor format providerType) \<longleftrightarrow>
     EndpointsFor (SectionFor format providerType) c \<noteq> None \<and>
     (RequiresNativeFormat c \<longrightarrow> SectionFor format providerType = providerType)"
proof (cases "section_entries (SectionFor format providerType)")
  case (Some caps)
  have "\<not> RequiresNativeFormat ''generate''" by (simp add: RequiresNativeFormat_def)
  with Some show ?thesis
    by (auto simp: CapabilitiesFor_def EndpointsFor_def Let_def PluginProvider_def
        map_of_eq_None_iff image_iff)
qed (simp add: CapabilitiesFor_def EndpointsFor_def)

lemma section_caps_distinct: "section_entries sec = Some caps \<Longrightarrow> distinct (map fst caps)"
  using EndpointTable_keys by (auto dest!: section_entries_cases)

lemma CapabilitiesFor_distinct: "distinct (CapabilitiesFor f p)"
  by (auto simp: CapabilitiesFor_def Let_def distinct_map dest: section_caps_distinct
      split: option.split intro: distinct_filter)

lemma capabilities_for_hd:
  "''generate'' \<in> set (CapabilitiesFor f p) \<longleftrightarrow>
     CapabilitiesFor f p \<noteq> [] \<and> hd (CapabilitiesFor f p) = ''generate''"
  using hd_in_set [of "CapabilitiesFor f p"]
  by (auto simp: CapabilitiesFor_def Let_def split: option.splits if_splits)

lemma CapabilitiesFor_sorted: "sorted (filter (\<lambda>c. c \<noteq> ''generate'') (CapabilitiesFor f p))"
proof -
  have "sorted (filter (\<lambda>c. c \<noteq> ''generate'') (sort (filter (\<lambda>c. c \<noteq> ''generate'' \<and> Q c) xs)))"
    for Q and xs :: "string list" by (rule sorted_filter [of "\<lambda>x. x", simplified]) simp
  then show ?thesis by (auto simp: CapabilitiesFor_def Let_def split: option.split)
qed

text \<open>The capabilities a format offers on a provider are exactly those its section has an
  endpoint for, less the passthrough-only ones on a foreign provider.  The list has no duplicate,
  starts with \<open>generate\<close> when that is offered, and is sorted otherwise.\<close>

theorem capabilities_for_complete:
  "distinct (CapabilitiesFor f p) \<and>
   set (CapabilitiesFor f p) =
     {c. EndpointsFor (SectionFor f p) c \<noteq> None \<and> (RequiresNativeFormat c \<longrightarrow> SectionFor f p = p)} \<and>
   sorted (filter (\<lambda>c. c \<noteq> ''generate'') (CapabilitiesFor f p)) \<and>
   (''generate'' \<in> set (CapabilitiesFor f p) \<longleftrightarrow>
      CapabilitiesFor f p \<noteq> [] \<and> hd (CapabilitiesFor f p) = ''generate'')"
  using CapabilitiesFor_distinct CapabilitiesFor_sorted capabilities_for_hd set_CapabilitiesFor
  by blast

theorem capabilities_for_complete_witness:
  "CapabilitiesFor ''bedrock'' ''bedrock'' =
     [''generate'', ''agentic'', ''audio/speech'', ''batches'', ''embeddings'', ''image'', ''rerank'',
      ''video''] \<and>
   EndpointsFor (SectionFor ''bedrock'' ''bedrock'') ''video'' \<noteq> None"
proof -
  have e: "CapabilitiesFor ''bedrock'' ''bedrock'' =
     [''generate'', ''agentic'', ''audio/speech'', ''batches'', ''embeddings'', ''image'', ''rerank'',
      ''video'']" by code_simp
  have "''video'' \<in> set (CapabilitiesFor ''bedrock'' ''bedrock'')" by (simp add: e)
  with capabilities_for_complete [of "''bedrock''" "''bedrock''"] e show ?thesis by blast
qed

lemma Formats_eq: "Formats = [''anthropic'', ''bedrock'', ''cohere'', ''gemini'', ''huggingface'',
    ''openai'', ''passthrough'', ''typesafe'']"
  by code_simp

lemma HasNativeFormat_iff: "HasNativeFormat f \<longleftrightarrow> f \<in> set Formats \<and> f \<noteq> PassthroughFormat"
proof -
  have "HasNativeFormat f \<longleftrightarrow> f \<in> set (map fst EndpointTable)"
    unfolding HasNativeFormat_def section_entries_def by (simp add: map_of_eq_None_iff)
  also have "\<dots> \<longleftrightarrow> f \<in> set Formats \<and> f \<noteq> PassthroughFormat"
    by (auto simp: Formats_eq EndpointTable_def PassthroughFormat_def)
  finally show ?thesis .
qed

text \<open>The wire format of a model is never passthrough and always has a section: for each format
  a model may declare (the empty one is the default), on whatever provider, \<open>ClientFormat\<close> returns a
  section of the endpoint table.  A declared format other than passthrough is kept.\<close>

theorem client_format_has_section:
  assumes "f = [] \<or> f \<in> set Formats"
  shows "HasNativeFormat (ClientFormat f p) \<and>
    (f \<noteq> [] \<and> f \<noteq> PassthroughFormat \<longrightarrow> ClientFormat f p = f)"
proof -
  have "HasNativeFormat ''openai''" by (simp add: HasNativeFormat_iff Formats_eq PassthroughFormat_def)
  moreover have "\<not> HasNativeFormat []" by (simp add: HasNativeFormat_iff Formats_eq)
  ultimately show ?thesis
    using assms HasNativeFormat_iff by (auto simp: ClientFormat_def Let_def)
qed

theorem client_format_has_section_witness:
  "''passthrough'' \<in> set Formats \<and> HasNativeFormat (ClientFormat ''passthrough'' ''azure'')"
proof -
  have h: "''passthrough'' = [] \<or> ''passthrough'' \<in> set Formats" by (simp add: Formats_eq)
  show ?thesis using h client_format_has_section [OF h, of "''azure''"] by simp
qed

lemma NormalizeCapability_idem: "concat (map NormalizeCapability (NormalizeCapability c)) = NormalizeCapability c"
  by (simp add: NormalizeCapability_def)

end
