(* ===== verification/Target_Support.thy ===== *)
theory Target_Support
  imports Endpoint_Table
begin

text \<open>
  What the data plane accepts (\<open>internal/aimap/support.go\<close>, \<open>mantle.go\<close>, \<open>websocket.go\<close>,
  \<open>plugin_priority.go\<close>): whether a target may serve an endpoint in a format, which formats and
  capabilities the wildcard \<open>*\<close> stands for, which plugins run on WebSocket routes and which run
  before \<open>ai-model-selector\<close>.
\<close>

section \<open>Targets and endpoints\<close>

record Target =
  tg_ProviderType :: string
  tg_Mantle :: bool
  tg_BatchBucketPrefix :: bool
  tg_Llama2RawFormat :: bool
  tg_GeminiEnterprise :: bool

definition supportedRouteTypes :: "(string \<times> string list) list" where
  "supportedRouteTypes =
     [(''llm/v1/chat'',
       [''openai'', ''azure'', ''anthropic'', ''cohere'', ''mistral'', ''llama2'', ''gemini'',
        ''bedrock'', ''databricks'', ''huggingface'', ''dashscope'', ''xai'', ''cerebras'',
        ''vllm'', ''deepseek'', ''ollama'', ''kimi'', ''vercel'', ''sagemaker'', ''typesafe'',
        ''baseten'']),
      (''llm/v1/completions'',
       [''openai'', ''azure'', ''anthropic'', ''cohere'', ''mistral'', ''llama2'', ''gemini'',
        ''bedrock'', ''huggingface'', ''xai'', ''ollama'']),
      (''llm/v1/embeddings'',
       [''openai'', ''azure'', ''cohere'', ''mistral'', ''llama2'', ''gemini'', ''bedrock'',
        ''databricks'', ''huggingface'', ''dashscope'', ''ollama'', ''vercel'']),
      (''llm/v1/responses'',
       [''openai'', ''azure'', ''xai'', ''vercel'']),
      (''llm/v1/assistants'',
       [''openai'', ''azure'']),
      (''llm/v1/batches'',
       [''openai'', ''azure'', ''bedrock'', ''anthropic'', ''gemini'', ''kimi'']),
      (''llm/v1/files'',
       [''openai'', ''azure'', ''kimi'']),
      (''llm/v1/skills'',
       [''openai'', ''anthropic'']),
      (''image/v1/images/generations'',
       [''openai'', ''azure'', ''bedrock'', ''gemini'', ''dashscope'', ''xai'', ''vercel'']),
      (''image/v1/images/edits'',
       [''openai'', ''azure'', ''bedrock'', ''gemini'', ''dashscope'']),
      (''audio/v1/audio/speech'',
       [''openai'', ''azure'']),
      (''audio/v1/audio/translations'',
       [''openai'', ''azure'']),
      (''audio/v1/audio/transcriptions'',
       [''openai'', ''azure'']),
      (RealtimeRouteType,
       [''openai'', ''azure'', ''gemini'']),
      (''video/v1/videos/generations'',
       [''openai'', ''azure'', ''bedrock'', ''gemini'', ''huggingface''])]"

definition unsupportedLogStatistics :: "(string \<times> string list) list" where
  "unsupportedLogStatistics =
     [(''llm/v1/completions'',
       [''anthropic'']),
      (''llm/v1/assistants'',
       [''openai'', ''azure'']),
      (''llm/v1/batches'',
       [''openai'', ''azure'']),
      (''llm/v1/skills'',
       [''openai'', ''anthropic'']),
      (''image/v1/images/generations'',
       [''bedrock'']),
      (''image/v1/images/edits'',
       [''bedrock'']),
      (''audio/v1/audio/speech'',
       [''openai'', ''azure'']),
      (''audio/v1/audio/transcriptions'',
       [''openai'', ''azure'']),
      (''audio/v1/audio/translations'',
       [''openai'', ''azure''])]"

definition mantleRouteTypes :: "string list" where
  "mantleRouteTypes = [''llm/v1/chat'', ''llm/v1/responses'', ''llm/v1/files'', PassthroughRouteType]"

definition MantleSupports :: "string \<Rightarrow> EndpointSpec \<Rightarrow> bool" where
  "MantleSupports format spec =
     ((format = ''openai'' \<or> format = ''anthropic'') \<and> RouteType spec \<in> set mantleRouteTypes)"

definition isGeminiInteractions :: "EndpointSpec \<Rightarrow> bool" where
  "isGeminiInteractions spec =
     (RouteType spec = ''llm/v1/responses'' \<and> HasSuffix (PathSuffix spec) ''/interactions'')"

definition isGeminiEnterpriseInteractions :: "EndpointSpec \<Rightarrow> bool" where
  "isGeminiEnterpriseInteractions spec =
     (RouteType spec = ''llm/v1/responses'' \<and>
      (RouteLabel spec = ''enterprise-responses'' \<or> RouteLabel spec = ''enterprise-beta-responses''))"

definition GeminiInteractions :: "string \<Rightarrow> string \<Rightarrow> string \<Rightarrow> bool" where
  "GeminiInteractions format provider routeType =
     (format = ''gemini'' \<and> provider = ''gemini'' \<and> routeType = ''llm/v1/responses'')"

definition BedrockRuntimeResponses :: "string \<Rightarrow> string \<Rightarrow> string \<Rightarrow> bool" where
  "BedrockRuntimeResponses format provider routeType =
     (format = ''bedrock'' \<and> provider = ''bedrock'' \<and> routeType = ''llm/v1/responses'')"

text \<open>The early returns of the source, in its order.\<close>

definition TargetSupports :: "string \<Rightarrow> Target \<Rightarrow> EndpointSpec \<Rightarrow> bool" where
  "TargetSupports format target spec =
     (let provider = PluginProvider (tg_ProviderType target); routeType = RouteType spec in
      if \<not> (format = ''openai'' \<or> format = provider) \<and>
         \<not> (format = ''anthropic'' \<and> routeType = ''llm/v1/chat'') then False
      else if tg_Mantle target \<and> \<not> MantleSupports format spec then False
      else if \<not> tg_Mantle target \<and>
         (case map_of supportedRouteTypes routeType of
            None \<Rightarrow> False
          | Some providers \<Rightarrow> provider \<notin> set providers \<and>
              \<not> GeminiInteractions format provider routeType \<and>
              \<not> BedrockRuntimeResponses format provider routeType) then False
      else if provider = ''gemini'' \<and> routeType = RealtimeRouteType \<and> format \<noteq> ''gemini'' then False
      else if provider = ''gemini'' \<and> isGeminiInteractions spec \<and>
         isGeminiEnterpriseInteractions spec \<noteq> tg_GeminiEnterprise target then False
      else if provider = ''bedrock'' \<and> routeType = ''llm/v1/batches'' \<and>
         \<not> tg_BatchBucketPrefix target then False
      else if routeType = ''llm/v1/skills'' \<and> (provider = ''openai'' \<or> provider = ''anthropic'') \<and>
         format \<noteq> provider then False
      else if tg_Llama2RawFormat target \<and> routeType = ''llm/v1/embeddings'' then False
      else True)"

definition LogStatisticsSupported :: "string \<Rightarrow> EndpointSpec \<Rightarrow> bool" where
  "LogStatisticsSupported providerType spec =
     (if \<not> SupportsLogStatistics spec then False
      else PluginProvider providerType \<notin>
        set (or_else (map_of unsupportedLogStatistics (RouteType spec)) []))"

definition SupportsModelNameHeader :: "EndpointSpec \<Rightarrow> bool" where
  "SupportsModelNameHeader spec =
     (RouteType spec \<notin>
        {''llm/v1/assistants'', ''llm/v1/batches'', ''llm/v1/files'', ''llm/v1/skills''})"

section \<open>The order of formats and capabilities\<close>

text \<open>The comparison of \<open>sort.SliceStable\<close> puts \<open>first\<close> before everything else and orders the rest
  by value: it compares the pairs (is not first, value).\<close>

definition orderFirst :: "string list \<Rightarrow> string \<Rightarrow> string list" where
  "orderFirst values first = remdups_adj (sort_key (\<lambda>x. (x \<noteq> first, x)) values)"

definition OrderFormats :: "string list \<Rightarrow> string list" where
  "OrderFormats formats = orderFirst formats ''openai''"

definition OrderCapabilities :: "string list \<Rightarrow> string list" where
  "OrderCapabilities capabilities = orderFirst capabilities ''generate''"

section \<open>The wildcard\<close>

abbreviation (input) Wildcard :: string where "Wildcard \<equiv> ''*''"

definition formatServes :: "string \<Rightarrow> Target \<Rightarrow> bool" where
  "formatServes format target =
     list_ex (\<lambda>ce. TargetSupports format target (ce_Spec ce)) (SectionEndpoints format)"

definition SupportedFormats :: "Target list \<Rightarrow> version \<Rightarrow> string list" where
  "SupportedFormats targets minRuntimeVersion =
     OrderFormats (filter (\<lambda>format.
         format \<noteq> PassthroughFormat \<and>
         gate_open (FormatFeature format) minRuntimeVersion \<and>
         list_ex (formatServes format) targets) Formats)"

text \<open>One iteration of the loop of \<open>SupportedCapabilities\<close>.  The state is the category claimed for
  each route label and the result so far.\<close>

definition claim_labels :: "EndpointSpec list \<Rightarrow> string list \<Rightarrow> (string \<rightharpoonup> string) \<Rightarrow> (string \<rightharpoonup> string)"
where
  "claim_labels specs labels claimed =
     fold (\<lambda>s cl. if RouteLabel s \<in> set labels then cl(RouteLabel s \<mapsto> GenaiCategory s) else cl)
       specs claimed"

definition free_labels ::
  "string \<Rightarrow> Target \<Rightarrow> EndpointSpec list \<Rightarrow> (string \<rightharpoonup> string) \<Rightarrow> string list" where
  "free_labels format target specs claimed =
     map RouteLabel (filter (\<lambda>s. TargetSupports format target s \<and>
       \<not> (case claimed (RouteLabel s) of None \<Rightarrow> False | Some cat \<Rightarrow> cat \<noteq> GenaiCategory s)) specs)"

definition supported_step ::
  "string \<Rightarrow> Target \<Rightarrow> string \<Rightarrow> version \<Rightarrow> string \<Rightarrow>
   (string \<rightharpoonup> string) \<times> string list \<Rightarrow> (string \<rightharpoonup> string) \<times> string list" where
  "supported_step format target modelType v capability st =
     (let sec = SectionFor format (tg_ProviderType target); (claimed, out) = st in
      if (modelType = ''api'') \<noteq> (capability = ''batches'' \<or> capability = ''files'') then st
      else if \<not> gate_open (CapabilityFeature sec capability) v then st
      else
        (let specs = or_else (EndpointsFor sec capability) [];
             labels = free_labels format target specs claimed
         in if labels = [] then st
            else (claim_labels specs labels claimed, out @ [capability])))"

definition SupportedCapabilities :: "string \<Rightarrow> Target \<Rightarrow> string \<Rightarrow> version \<Rightarrow> string list" where
  "SupportedCapabilities format target modelType v =
     snd (fold (supported_step format target modelType v)
       (CapabilitiesFor format (tg_ProviderType target)) (Map.empty, []))"

section \<open>Plugins\<close>

definition webSocketPlugins :: "string list" where
  "webSocketPlugins =
     [''acl'', ''ai-proxy'', ''ai-proxy-advanced'', ''ai-rate-limiting-advanced'',
      ''azure-functions'', ''basic-auth'', ''confluent-consume'', ''datadog'', ''file-log'',
      ''grpc-gateway'', ''grpc-web'', ''hmac-auth'', ''http-log'', ''ip-restriction'',
      ''kafka-consume'', ''kafka-log'', ''key-auth'', ''key-auth-enc'', ''ldap-auth'',
      ''ldap-auth-advanced'', ''loggly'', ''metering-and-billing'', ''mtls-auth'', ''oauth2'',
      ''openid-connect'', ''opentelemetry'', ''post-function'', ''pre-function'',
      ''prometheus'', ''proxy-cache'', ''request-transformer'', ''session'', ''solace-log'',
      ''statsd'', ''statsd-advanced'', ''syslog'', ''tcp-log'', ''udp-log'',
      ''websocket-size-limit'', ''websocket-validator'', ''zipkin'']"

definition SupportsWebSocket :: "string \<Rightarrow> bool" where
  "SupportsWebSocket name = (name \<in> set webSocketPlugins)"

definition PluginPriority :: "(string \<times> int) list" where
  "PluginPriority =
     [(''pre-function'', 1000000), (''app-dynamics'', 999999), (''correlation-id'', 100001),
      (''zipkin'', 100000), (''exit-transformer'', 9999), (''bot-detection'', 2500),
      (''cors'', 2000), (''jwe-decrypt'', 1999), (''session'', 1900), (''acme'', 1705),
      (''oauth2-introspection'', 1700), (''mtls-auth'', 1600), (''degraphql'', 1500),
      (''jwt'', 1450), (''oauth2'', 1400), (''vault-auth'', 1350), (''key-auth-enc'', 1250),
      (''key-auth'', 1250), (''ldap-auth'', 1200), (''ldap-auth-advanced'', 1200),
      (''basic-auth'', 1100), (''openid-connect'', 1050), (''hmac-auth'', 1030),
      (''jwt-signer'', 1020), (''ai-mcp-oauth2'', 1015), (''saml'', 1010),
      (''json-threat-protection'', 1009), (''header-cert-auth'', 1009),
      (''xml-threat-protection'', 1008), (''injection-protection'', 1007),
      (''websocket-validator'', 1006), (''websocket-size-limit'', 1003),
      (''request-validator'', 999), (''grpc-gateway'', 998), (''tls-handshake-modifier'', 997),
      (''tls-metadata-headers'', 996), (''application-registration'', 995),
      (''ip-restriction'', 990), (''konnect-application-auth'', 960),
      (''ai-model-selector'', 957), (''ace'', 955), (''request-size-limiting'', 951),
      (''acl'', 950), (''opa'', 920), (''rate-limiting-advanced'', 910),
      (''rate-limiting'', 910), (''ai-rate-limiting-advanced'', 905),
      (''graphql-rate-limiting-advanced'', 902), (''service-protection'', 901),
      (''response-ratelimiting'', 900), (''route-by-header'', 850), (''oas-validation'', 840),
      (''ai-mcp-proxy'', 820), (''ai-a2a-proxy'', 819), (''request-callout'', 812),
      (''jq'', 811), (''datakit'', 810), (''request-transformer-advanced'', 802),
      (''request-transformer'', 801), (''response-transformer-advanced'', 800),
      (''response-transformer'', 800), (''ai-nvidia-nemo-guardrail'', 786),
      (''ai-custom-guardrail'', 785), (''ai-lakera-guard'', 784),
      (''ai-gcp-model-armor'', 783), (''ai-semantic-response-guard'', 782),
      (''ai-aws-guardrails'', 781), (''route-transformer-advanced'', 780), (''redirect'', 779),
      (''ai-sanitizer'', 776), (''ai-semantic-prompt-guard'', 775),
      (''ai-azure-content-safety'', 774), (''ai-prompt-template'', 773),
      (''ai-prompt-decorator'', 772), (''ai-prompt-guard'', 771), (''ai-proxy-advanced'', 770),
      (''ai-proxy'', 770), (''ai-prompt-compressor'', 769), (''ai-response-transformer'', 768),
      (''ai-llm-as-judge'', 767), (''ai-semantic-cache'', 765), (''upstream-oauth'', 760),
      (''standard-webhooks'', 759), (''solace-consume'', 756), (''solace-upstream'', 755),
      (''confluent-consume'', 754), (''kafka-consume'', 753), (''confluent'', 752),
      (''kafka-upstream'', 751), (''aws-lambda'', 750), (''azure-functions'', 749),
      (''token-vault-exchange'', 740), (''ai-request-transformer'', 777),
      (''ai-rag-injector'', 778), (''proxy-cache-advanced'', 100), (''proxy-cache'', 100),
      (''graphql-proxy-cache-advanced'', 99), (''forward-proxy'', 50),
      (''upstream-timeout'', 400), (''canary'', 20), (''metering-and-billing'', 16),
      (''solace-log'', 15), (''opentelemetry'', 14), (''prometheus'', 13), (''http-log'', 12),
      (''statsd'', 11), (''statsd-advanced'', 11), (''datadog'', 10), (''file-log'', 9),
      (''udp-log'', 8), (''tcp-log'', 7), (''loggly'', 6), (''kafka-log'', 5), (''syslog'', 4),
      (''grpc-web'', 3), (''request-termination'', 2), (''mocking'', -1),
      (''post-function'', -1000)]"

definition AIModelSelectorPriority :: int where
  "AIModelSelectorPriority = 957"

definition OutranksModelSelector :: "string \<Rightarrow> bool" where
  "OutranksModelSelector pluginType =
     (case map_of PluginPriority pluginType of
        None \<Rightarrow> False | Some p \<Rightarrow> AIModelSelectorPriority < p)"

section \<open>Laws of the order\<close>

lemma distinct_remdups_adj_sorted: "sorted xs \<Longrightarrow> distinct (remdups_adj xs)"
  by (induction xs rule: remdups_adj.induct) force+

lemma set_orderFirst [simp]: "set (orderFirst values first) = set values"
  by (simp add: orderFirst_def)

lemma inj_first_key: "inj (\<lambda>x. (x \<noteq> first, x))"
  by (rule injI) simp

lemma sorted_orderFirst: "sorted (map (\<lambda>x. (x \<noteq> first, x)) (orderFirst values first))"
  unfolding orderFirst_def by (simp add: remdups_adj_map_injective [symmetric] inj_first_key
      sorted_remdups_adj)

lemma distinct_orderFirst: "distinct (orderFirst values first)"
proof -
  have "distinct (map (\<lambda>x. (x \<noteq> first, x)) (orderFirst values first))"
    unfolding orderFirst_def
    by (simp add: remdups_adj_map_injective [symmetric] inj_first_key distinct_remdups_adj_sorted)
  then show ?thesis by (simp add: distinct_map)
qed

lemma orderFirst_cong:
  assumes "set xs = set ys"
  shows "orderFirst xs first = orderFirst ys first"
proof -
  have "map (\<lambda>x. (x \<noteq> first, x)) (orderFirst xs first) =
      map (\<lambda>x. (x \<noteq> first, x)) (orderFirst ys first)"
    by (rule sorted_distinct_set_unique)
      (simp_all add: sorted_orderFirst distinct_map distinct_orderFirst assms
        inj_on_subset [OF inj_first_key])
  then show ?thesis by (simp add: inj_map_eq_map inj_first_key)
qed

lemma orderFirst_hd:
  assumes "first \<in> set values"
  shows "orderFirst values first \<noteq> [] \<and> hd (orderFirst values first) = first"
proof -
  have mem: "first \<in> set (orderFirst values first)" using assms by simp
  then obtain x xs where xs: "orderFirst values first = x # xs"
    by (cases "orderFirst values first") auto
  then have "x = first"
    using sorted_orderFirst [of "first" "values"] mem by (auto simp: less_eq_prod_def)
  with xs show ?thesis by simp
qed

text \<open>The order of the source list does not change the output.  Two lists with the same
  elements, in any order and with any repetition, are ordered to the same duplicate-free list, which
  has those elements and starts with the preferred one when it is there.\<close>

theorem order_first_canonical:
  assumes "set xs = set ys"
  shows "orderFirst xs first = orderFirst ys first \<and> distinct (orderFirst xs first) \<and>
    set (orderFirst xs first) = set xs \<and>
    (first \<in> set xs \<longrightarrow> hd (orderFirst xs first) = first)"
  using orderFirst_cong [OF assms] distinct_orderFirst orderFirst_hd by (auto simp: assms)

theorem order_first_canonical_witness:
  "orderFirst [''gemini'', ''openai'', ''anthropic'', ''openai''] ''openai'' =
     [''openai'', ''anthropic'', ''gemini''] \<and>
   orderFirst [''anthropic'', ''gemini'', ''openai''] ''openai'' =
     [''openai'', ''anthropic'', ''gemini'']"
proof -
  have h: "set [''gemini'', ''openai'', ''anthropic'', ''openai''] =
      set [''anthropic'', ''gemini'', ''openai'']" by auto
  have e: "orderFirst [''anthropic'', ''gemini'', ''openai''] ''openai'' =
      [''openai'', ''anthropic'', ''gemini'']" by code_simp
  show ?thesis using order_first_canonical [OF h, of "''openai''"] e by simp
qed

section \<open>Laws of the target check\<close>

lemma TargetSupports_format:
  "TargetSupports format t spec \<Longrightarrow>
     format = ''openai'' \<or> format = tg_ProviderType t \<or>
     (format = ''anthropic'' \<and> RouteType spec = ''llm/v1/chat'')"
  by (auto simp: TargetSupports_def PluginProvider_def Let_def split: if_splits)

lemma TargetSupports_mantle:
  "TargetSupports format t spec \<Longrightarrow> tg_Mantle t \<Longrightarrow> MantleSupports format spec"
  by (auto simp: TargetSupports_def Let_def split: if_splits)



section \<open>Laws of the wildcard\<close>

lemma formatServes_iff:
  "formatServes format t \<longleftrightarrow> (\<exists>spec \<in> set (section_specs format). TargetSupports format t spec)"
  by (auto simp: formatServes_def section_specs_def list_ex_iff)

lemma set_SupportedFormats:
  "f \<in> set (SupportedFormats ts v) \<longleftrightarrow>
     f \<in> set Formats \<and> f \<noteq> PassthroughFormat \<and> gate_open (FormatFeature f) v \<and>
     (\<exists>t \<in> set ts. \<exists>spec \<in> set (section_specs f). TargetSupports f t spec)"
  by (auto simp: SupportedFormats_def OrderFormats_def list_ex_iff formatServes_iff)

text \<open>The formats behind \<open>*\<close> are exactly the released formats that some target serves with some
  endpoint of the format's section, never passthrough, without duplicates and with openai first; and
  a newer minimum release or more targets only ever add formats.\<close>

theorem supported_formats_exact:
  "set (SupportedFormats ts v) =
     {f. f \<in> set Formats \<and> f \<noteq> PassthroughFormat \<and> gate_open (FormatFeature f) v \<and>
         (\<exists>t \<in> set ts. \<exists>spec \<in> set (section_specs f). TargetSupports f t spec)} \<and>
   distinct (SupportedFormats ts v) \<and>
   (''openai'' \<in> set (SupportedFormats ts v) \<longrightarrow> hd (SupportedFormats ts v) = ''openai'') \<and>
   (v \<le> w \<and> set ts \<subseteq> set us \<longrightarrow> set (SupportedFormats ts v) \<subseteq> set (SupportedFormats us w))"
proof (intro conjI impI)
  show "''openai'' \<in> set (SupportedFormats ts v) \<Longrightarrow> hd (SupportedFormats ts v) = ''openai''"
    using orderFirst_hd unfolding SupportedFormats_def OrderFormats_def by auto
  show "v \<le> w \<and> set ts \<subseteq> set us \<Longrightarrow> set (SupportedFormats ts v) \<subseteq> set (SupportedFormats us w)"
    using opt_gate.upward by (fastforce simp: set_SupportedFormats)
  show "distinct (SupportedFormats ts v)"
    by (simp add: SupportedFormats_def OrderFormats_def distinct_orderFirst)
qed (use set_SupportedFormats in blast)

theorem supported_formats_exact_witness:
  "let t = \<lparr>tg_ProviderType = ''typesafe'', tg_Mantle = False, tg_BatchBucketPrefix = False,
            tg_Llama2RawFormat = False, tg_GeminiEnterprise = False\<rparr>
   in SupportedFormats [t] (Version 2 1) = [''openai'', ''anthropic''] \<and>
      set (SupportedFormats [t] (Version 2 1)) \<subseteq> set (SupportedFormats [t] (Version 2 2))"
proof -
  let ?t = "\<lparr>tg_ProviderType = ''typesafe'', tg_Mantle = False, tg_BatchBucketPrefix = False,
            tg_Llama2RawFormat = False, tg_GeminiEnterprise = False\<rparr>"
  have h: "Version 2 1 \<le> Version 2 2 \<and> set [?t] \<subseteq> set [?t]"
    by (simp add: less_eq_version_def Less_def)
  have e: "SupportedFormats [?t] (Version 2 1) = [''openai'', ''anthropic'']" by code_simp
  have "set (SupportedFormats [?t] (Version 2 1)) \<subseteq> set (SupportedFormats [?t] (Version 2 2))"
    using supported_formats_exact [of "[?t]" "Version 2 1" "Version 2 2" "[?t]"] h by blast
  with e show ?thesis by (simp only: Let_def)
qed

section \<open>One genai category per route label\<close>

text \<open>
  One plugin serves one genai category, so the capabilities that \<open>*\<close> stands for must not put two
  categories on one route.  The loop keeps, for each capability it takes, the category of every
  label it took; the table decides that the labels it did not take do no harm.
\<close>

definition cap_specs :: "string \<Rightarrow> string \<Rightarrow> EndpointSpec list" where
  "cap_specs sec c = or_else (EndpointsFor sec c) []"

definition clash :: "EndpointSpec \<Rightarrow> EndpointSpec \<Rightarrow> bool" where
  "clash a b = (RouteLabel a = RouteLabel b \<and> GenaiCategory a \<noteq> GenaiCategory b)"

text \<open>Only \<open>generate\<close>, which the loop handles first, has several endpoints of which one clashes with
  another capability.\<close>

definition lone_clash :: "(string \<times> EndpointEntry) list \<Rightarrow> bool" where
  "lone_clash caps =
     list_all (\<lambda>(c, e). distinct (map RouteLabel (Primary e # Secondary e)) \<and>
       (c = ''generate'' \<or> Secondary e = [] \<or>
        list_all (\<lambda>(d, e'). list_all (\<lambda>a. list_all (\<lambda>b. \<not> clash a b) (Primary e' # Secondary e'))
          (Primary e # Secondary e)) caps)) caps"

lemma table_lone_clash: "list_all (\<lambda>(s, caps). lone_clash caps) EndpointTable"
  by code_simp

lemma cap_specs_entry:
  assumes "a \<in> set (cap_specs sec c)"
  obtains caps e where "section_entries sec = Some caps" "(c, e) \<in> set caps"
    "cap_specs sec c = Primary e # Secondary e"
proof -
  from assms obtain caps e where "section_entries sec = Some caps" "map_of caps c = Some e"
    unfolding cap_specs_def EndpointsFor_def
    by (cases "section_entries sec"; cases "map_of (the (section_entries sec)) c") auto
  then show ?thesis
    by (intro that [of caps e]) (auto simp: cap_specs_def EndpointsFor_def dest: map_of_SomeD)
qed

lemma section_lone_clash: "section_entries sec = Some caps \<Longrightarrow> lone_clash caps"
  using table_lone_clash by (auto simp: list_all_iff dest!: section_entries_cases)

lemma cap_specs_labels:
  "a \<in> set (cap_specs sec c) \<Longrightarrow> b \<in> set (cap_specs sec c) \<Longrightarrow> RouteLabel a = RouteLabel b \<Longrightarrow> a = b"
proof -
  assume a: "a \<in> set (cap_specs sec c)" and b: "b \<in> set (cap_specs sec c)"
    and l: "RouteLabel a = RouteLabel b"
  from a obtain caps e where "section_entries sec = Some caps" "(c, e) \<in> set caps"
    and specs: "cap_specs sec c = Primary e # Secondary e" by (rule cap_specs_entry)
  then have "distinct (map RouteLabel (cap_specs sec c))"
    using section_lone_clash by (fastforce simp: lone_clash_def list_all_iff)
  with a b l show "a = b" by (auto simp: distinct_map inj_on_def)
qed

lemma clash_alone:
  assumes "a \<in> set (cap_specs sec c)" and "b \<in> set (cap_specs sec d)" and "clash a b"
  shows "c = ''generate'' \<or> cap_specs sec c = [a]"
proof -
  from assms(1) obtain caps e where caps: "section_entries sec = Some caps" "(c, e) \<in> set caps"
    and specs: "cap_specs sec c = Primary e # Secondary e" by (rule cap_specs_entry)
  from assms(2) obtain caps' e' where caps': "section_entries sec = Some caps'" "(d, e') \<in> set caps'"
    and specs': "cap_specs sec d = Primary e' # Secondary e'" by (rule cap_specs_entry)
  from caps caps' have "caps' = caps" by simp
  have "c = ''generate'' \<or> Secondary e = []"
  proof (rule ccontr)
    assume "\<not> (c = ''generate'' \<or> Secondary e = [])"
    with section_lone_clash [OF caps(1)] caps(2) caps'(2) \<open>caps' = caps\<close>
    have "\<forall>x \<in> set (cap_specs sec c). \<forall>y \<in> set (cap_specs sec d). \<not> clash x y"
      unfolding specs specs' lone_clash_def list_all_iff by fast
    with assms show False by blast
  qed
  with specs assms(1) show ?thesis by auto
qed

lemma claim_labels_other:
  "(\<And>s. s \<in> set specs \<Longrightarrow> RouteLabel s \<in> set labels \<Longrightarrow> RouteLabel s \<noteq> l) \<Longrightarrow>
     claim_labels specs labels claimed l = claimed l"
  unfolding claim_labels_def by (induction specs arbitrary: claimed) auto

lemma claim_labels_taken:
  assumes "s \<in> set specs" and "RouteLabel s \<in> set labels"
    and "\<And>s'. s' \<in> set specs \<Longrightarrow> RouteLabel s' = RouteLabel s \<Longrightarrow> s' = s"
  shows "claim_labels specs labels claimed (RouteLabel s) = Some (GenaiCategory s)"
  using assms(1,3)
proof (induction specs arbitrary: claimed)
  case (Cons x xs)
  show ?case
  proof (cases "s \<in> set xs")
    case True
    with Cons show ?thesis by (simp add: claim_labels_def)
  next
    case False
    with Cons.prems have "x = s" by simp
    with False Cons.prems assms(2) have "claim_labels (x # xs) labels claimed (RouteLabel s) =
        claim_labels xs labels (claimed(RouteLabel s \<mapsto> GenaiCategory s)) (RouteLabel s)"
      by (simp add: claim_labels_def)
    also have "\<dots> = Some (GenaiCategory s)"
      using False Cons.prems(2) by (subst claim_labels_other) auto
    finally show ?thesis .
  qed
qed simp

text \<open>The invariant of the loop: an accepted endpoint of a capability in the result either has its
  category claimed, or belongs to a multi-endpoint capability whose labels never clash.\<close>

definition claims_ok ::
  "string \<Rightarrow> Target \<Rightarrow> (string \<rightharpoonup> string) \<times> string list \<Rightarrow> bool" where
  "claims_ok format t st =
     (let sec = SectionFor format (tg_ProviderType t) in
      \<forall>c \<in> set (snd st). \<forall>a \<in> set (cap_specs sec c). TargetSupports format t a \<longrightarrow>
        fst st (RouteLabel a) = Some (GenaiCategory a) \<or>
        (\<forall>d. \<forall>b \<in> set (cap_specs sec d). \<not> clash a b))"

lemma set_free_labels:
  "l \<in> set (free_labels format t specs claimed) \<longleftrightarrow>
     (\<exists>s \<in> set specs. RouteLabel s = l \<and> TargetSupports format t s \<and>
        (claimed l = None \<or> claimed l = Some (GenaiCategory s)))"
proof -
  have "(\<not> (case x of None \<Rightarrow> False | Some cat \<Rightarrow> cat \<noteq> g)) = (x = None \<or> x = Some g)"
    for x and g :: string by (cases x) auto
  then show ?thesis by (auto simp: free_labels_def)
qed

lemma supported_step_claims:
  assumes ok: "claims_ok format t st" and first: "c = ''generate'' \<Longrightarrow> fst st = Map.empty"
  shows "claims_ok format t (supported_step format t ty v c st)"
proof (cases "supported_step format t ty v c st = st")
  case False
  define sec where "sec = SectionFor format (tg_ProviderType t)"
  define specs where "specs = cap_specs sec c"
  obtain claimed out where st: "st = (claimed, out)" by (cases st)
  define labels where "labels = free_labels format t specs claimed"
  from False have res: "supported_step format t ty v c st =
      (claim_labels specs labels claimed, out @ [c])" and ne: "labels \<noteq> []"
    by (auto simp: supported_step_def st labels_def specs_def sec_def cap_specs_def Let_def
        split: if_splits)
  have uniq: "a = b" if "a \<in> set specs" "b \<in> set specs" "RouteLabel a = RouteLabel b" for a b
    using that unfolding specs_def by (rule cap_specs_labels)
  have taken: "claim_labels specs labels claimed (RouteLabel a) = Some (GenaiCategory a)"
    if "a \<in> set specs" "RouteLabel a \<in> set labels" for a
    using that uniq by (intro claim_labels_taken) auto
  have new: "claim_labels specs labels claimed (RouteLabel a) = Some (GenaiCategory a) \<or>
      (\<forall>d. \<forall>b \<in> set (cap_specs sec d). \<not> clash a b)"
    if a: "a \<in> set specs" "TargetSupports format t a" for a
  proof (cases "RouteLabel a \<in> set labels")
    case False
    have "c \<noteq> ''generate''"
    proof
      assume "c = ''generate''"
      then have "claimed = Map.empty" using first st by simp
      with a False show False by (auto simp: labels_def set_free_labels)
    qed
    moreover have "specs \<noteq> [a]"
      using ne False by (auto simp: labels_def free_labels_def split: if_splits)
    ultimately show ?thesis
      using clash_alone a(1) unfolding specs_def by blast
  qed (simp add: taken a)
  have old: "claim_labels specs labels claimed l = Some cat" if l: "claimed l = Some cat" for l cat
  proof (cases "l \<in> set labels")
    case True
    then obtain s where s: "s \<in> set specs" "RouteLabel s = l" "GenaiCategory s = cat"
      using l by (auto simp: labels_def set_free_labels)
    with True taken show ?thesis by auto
  next
    case False
    then show ?thesis using l by (subst claim_labels_other) auto
  qed
  show ?thesis
    unfolding claims_ok_def Let_def res sec_def [symmetric]
  proof (intro ballI impI)
    fix d a
    assume d: "d \<in> set (snd (claim_labels specs labels claimed, out @ [c]))"
      and a: "a \<in> set (cap_specs sec d)" "TargetSupports format t a"
    show "fst (claim_labels specs labels claimed, out @ [c]) (RouteLabel a) = Some (GenaiCategory a) \<or>
        (\<forall>d. \<forall>b \<in> set (cap_specs sec d). \<not> clash a b)"
    proof (cases "d = c")
      case True
      with new a show ?thesis by (simp add: specs_def)
    next
      case False
      with d have "d \<in> set out" by simp
      with ok a have "claimed (RouteLabel a) = Some (GenaiCategory a) \<or>
          (\<forall>d. \<forall>b \<in> set (cap_specs sec d). \<not> clash a b)"
        by (auto simp: claims_ok_def st sec_def Let_def)
      with old show ?thesis by auto
    qed
  qed
qed (use ok in simp)

lemma fold_supported_claims:
  assumes "claims_ok format t st" and "''generate'' \<notin> set cs"
  shows "claims_ok format t (fold (supported_step format t ty v) cs st)"
proof (rule fold_invariant_set [where P = "claims_ok format t", OF _ assms(1)])
  fix c st
  assume "c \<in> set cs" and "claims_ok format t st"
  with assms(2) show "claims_ok format t (supported_step format t ty v c st)"
    by (metis supported_step_claims)
qed

lemma claims_ok_start: "claims_ok format t (Map.empty, [])"
  by (simp add: claims_ok_def)

lemma claims_ok_SupportedCapabilities:
  "claims_ok format t (fold (supported_step format t ty v)
     (CapabilitiesFor format (tg_ProviderType t)) (Map.empty, []))"
proof (cases "''generate'' \<in> set (CapabilitiesFor format (tg_ProviderType t))")
  case True
  then obtain cs where cs: "CapabilitiesFor format (tg_ProviderType t) = ''generate'' # cs"
    using capabilities_for_hd by (metis list.exhaust_sel)
  moreover have "''generate'' \<notin> set cs"
    using cs CapabilitiesFor_distinct [of format "tg_ProviderType t"] by simp
  ultimately show ?thesis
    using fold_supported_claims [OF supported_step_claims [OF claims_ok_start]] by simp
qed (rule fold_supported_claims [OF claims_ok_start])

text \<open>C24: the capabilities behind \<open>*\<close> never put two genai categories on one route.  When two of
  them have endpoints with the same route label that the target accepts, the endpoints have the same
  category, although the table gives one label up to four categories (bedrock \<open>invoke\<close>).\<close>

theorem supported_capabilities_one_category:
  assumes "c \<in> set (SupportedCapabilities format t ty v)"
    and "d \<in> set (SupportedCapabilities format t ty v)"
    and "a \<in> set (cap_specs (SectionFor format (tg_ProviderType t)) c)" and "TargetSupports format t a"
    and "b \<in> set (cap_specs (SectionFor format (tg_ProviderType t)) d)" and "TargetSupports format t b"
    and "RouteLabel a = RouteLabel b"
  shows "GenaiCategory a = GenaiCategory b"
proof (rule ccontr)
  assume "GenaiCategory a \<noteq> GenaiCategory b"
  with assms(7) have "clash a b" and "clash b a" by (simp_all add: clash_def)
  then have "claimed (RouteLabel a) = Some (GenaiCategory a)"
    and "claimed (RouteLabel b) = Some (GenaiCategory b)"
    if "claimed = fst (fold (supported_step format t ty v)
      (CapabilitiesFor format (tg_ProviderType t)) (Map.empty, []))" for claimed
    using claims_ok_SupportedCapabilities [of format t ty v] assms that
    unfolding claims_ok_def SupportedCapabilities_def Let_def by blast+
  with assms(7) \<open>GenaiCategory a \<noteq> GenaiCategory b\<close> show False by (metis option.inject)
qed

theorem supported_capabilities_one_category_witness:
  "let t = \<lparr>tg_ProviderType = ''bedrock'', tg_Mantle = False, tg_BatchBucketPrefix = False,
            tg_Llama2RawFormat = False, tg_GeminiEnterprise = False\<rparr>
   in SupportedCapabilities ''bedrock'' t ''model'' LatestVersion =
        [''generate'', ''agentic'', ''audio/speech'', ''rerank''] \<and>
      GenaiCategory (cap_specs ''bedrock'' ''generate'' ! 1) =
        GenaiCategory (cap_specs ''bedrock'' ''audio/speech'' ! 0)"
proof -
  let ?t = "\<lparr>tg_ProviderType = ''bedrock'', tg_Mantle = False, tg_BatchBucketPrefix = False,
            tg_Llama2RawFormat = False, tg_GeminiEnterprise = False\<rparr>"
  let ?a = "cap_specs ''bedrock'' ''generate'' ! 1"
  let ?b = "cap_specs ''bedrock'' ''audio/speech'' ! 0"
  have e: "SupportedCapabilities ''bedrock'' ?t ''model'' LatestVersion =
      [''generate'', ''agentic'', ''audio/speech'', ''rerank'']" by code_simp
  have c: "''generate'' \<in> set (SupportedCapabilities ''bedrock'' ?t ''model'' LatestVersion)"
    and d: "''audio/speech'' \<in> set (SupportedCapabilities ''bedrock'' ?t ''model'' LatestVersion)"
    by (simp_all add: e)
  have s: "SectionFor ''bedrock'' (tg_ProviderType ?t) = ''bedrock''" by code_simp
  have la: "1 < length (cap_specs ''bedrock'' ''generate'')"
    and lb: "0 < length (cap_specs ''bedrock'' ''audio/speech'')" by code_simp+
  have a: "TargetSupports ''bedrock'' ?t ?a" and b: "TargetSupports ''bedrock'' ?t ?b"
    and l: "RouteLabel ?a = RouteLabel ?b" by code_simp+
  from supported_capabilities_one_category [OF c d _ a _ b l, unfolded s, OF nth_mem [OF la] nth_mem [OF lb]] e
  show ?thesis by (simp only: Let_def)
qed

end
