(* ===== verification/Tags.thy ===== *)
theory Tags
  imports Go_Prelude
begin

text \<open>
  Labels and names carried as Kong tags (\<open>internal/aimap/tags.go\<close>): flattening a label map into
  tags and reading it back, and the three tag codecs that preserve a name Kong has no field for.
  The codecs share one contract, the locale \<open>tag_codec\<close>.
\<close>

type_synonym labels = "(string, string) fmap"

section \<open>Labels\<close>

lemma map_of_rev: "distinct (map fst xs) \<Longrightarrow> map_of (rev xs) = map_of xs"
  by (metis distinct_rev map_of_eqI map_of_inject_set rev_map set_rev)

definition LabelsToTags :: "labels \<Rightarrow> string \<Rightarrow> string list" where
  "LabelsToTags ls tagPrefix =
     map (\<lambda>(k, v). tagPrefix @ k @ '':'' @ v) (sorted_list_of_fmap ls)"

text \<open>One iteration of the loop of \<open>TagsToLabels\<close>.\<close>

definition tag_label :: "string \<Rightarrow> string \<Rightarrow> (string \<times> string) option" where
  "tag_label tagPrefix tag =
     (case CutPrefix tag tagPrefix of
        None \<Rightarrow> None
      | Some body \<Rightarrow>
          (case Cut body CHR '':'' of
             None \<Rightarrow> None
           | Some (key, v) \<Rightarrow> if key = [] then None else Some (key, v)))"

definition TagsToLabels :: "string list \<Rightarrow> string \<Rightarrow> labels \<times> string list" where
  "TagsToLabels tags tagPrefix =
     fold (\<lambda>tag (ls, rest).
         case tag_label tagPrefix tag of
           None \<Rightarrow> (ls, rest @ [tag])
         | Some (k, v) \<Rightarrow> (fmupd k v ls, rest))
       tags (fmempty, [])"

definition good_key :: "string \<Rightarrow> bool" where
  "good_key k = (k \<noteq> [] \<and> CHR '':'' \<notin> set k)"

lemma tag_label_encoded: "good_key k \<Longrightarrow> tag_label p (p @ k @ CHR '':'' # v) = Some (k, v)"
  by (simp add: tag_label_def good_key_def)

lemma tag_label_Some: "tag_label p tag = Some (k, v) \<longleftrightarrow> tag = p @ k @ '':'' @ v \<and> good_key k"
proof
  show "tag_label p tag = Some (k, v) \<Longrightarrow> tag = p @ k @ '':'' @ v \<and> good_key k"
    by (auto simp: tag_label_def good_key_def CutPrefix_Some Cut_Some split: option.splits if_splits)
qed (auto simp: tag_label_encoded)

lemma fold_tags_labels:
  assumes "\<forall>(k, v) \<in> set kvs. good_key k"
  shows "fold (\<lambda>tag (ls, rest).
         case tag_label p tag of
           None \<Rightarrow> (ls, rest @ [tag])
         | Some (k, v) \<Rightarrow> (fmupd k v ls, rest))
       (map (\<lambda>(k, v). p @ k @ '':'' @ v) kvs) (ls, rest) =
     (fold (\<lambda>(k, v). fmupd k v) kvs ls, rest)"
  using assms by (induction kvs arbitrary: ls) (auto simp: tag_label_encoded)

lemma fold_tags_rest:
  assumes "\<forall>t \<in> set ts. tag_label p t = None"
  shows "fold (\<lambda>tag (ls, rest).
         case tag_label p tag of
           None \<Rightarrow> (ls, rest @ [tag])
         | Some (k, v) \<Rightarrow> (fmupd k v ls, rest)) ts (ls, rest) = (ls, rest @ ts)"
  using assms by (induction ts arbitrary: rest) auto

lemma fold_fmupd_lookup:
  "fmlookup (fold (\<lambda>(k, v). fmupd k v) kvs ls) = fmlookup ls ++ map_of (rev kvs)"
proof (induction kvs arbitrary: ls)
  case (Cons kv kvs)
  then show ?case by (cases kv) (simp add: map_add_upd_left [symmetric] map_of_append fun_eq_iff
        map_add_def split: option.split)
qed simp

lemma fold_fmupd_sorted: "fold (\<lambda>(k, v). fmupd k v) (sorted_list_of_fmap ls) fmempty = ls"
proof (rule fmap_ext)
  fix k
  have "distinct (map fst (sorted_list_of_fmap ls))"
    by simp
  then have "map_of (rev (sorted_list_of_fmap ls)) = map_of (sorted_list_of_fmap ls)"
    by (rule map_of_rev)
  then show "fmlookup (fold (\<lambda>(k, v). fmupd k v) (sorted_list_of_fmap ls) fmempty) k = fmlookup ls k"
    by (simp add: fold_fmupd_lookup map_add_def split: option.split)
qed



text \<open>The trip loses a key with a colon: the first colon ends the key.\<close>

lemma label_key_with_colon_lost:
  "TagsToLabels [''a:b:c''] [] = (fmap_of_list [(''a'', ''b:c'')], [])"
  by (simp add: TagsToLabels_def tag_label_def CutPrefix_def HasPrefix_def)

section \<open>Names carried as a tag\<close>

definition decode_step :: "string \<Rightarrow> string \<Rightarrow> string \<times> string list \<Rightarrow> string \<times> string list" where
  "decode_step tagPrefix tag st =
     (case st of (v, rest) \<Rightarrow>
        (case CutPrefix tag tagPrefix of
           Some body \<Rightarrow> if v = [] then (body, rest) else (v, rest @ [tag])
         | None \<Rightarrow> (v, rest @ [tag])))"

definition decodeTaggedValue :: "string list \<Rightarrow> string \<Rightarrow> string \<times> string list" where
  "decodeTaggedValue tags tagPrefix = fold (decode_step tagPrefix) tags ([], [])"

definition caCertificateNameTag :: string where
  "caCertificateNameTag = ''ai-gateway-name:''"

definition modelAliasGroupTag :: string where
  "modelAliasGroupTag = ''ai-gateway-model-alias-group:''"

definition realtimeModelTag :: string where
  "realtimeModelTag = ''ai-gateway-realtime-model:''"

definition EncodeCACertificateName :: "string \<Rightarrow> string" where
  "EncodeCACertificateName nm = caCertificateNameTag @ nm"

definition DecodeCACertificateName :: "string list \<Rightarrow> string \<times> string list" where
  "DecodeCACertificateName tags = decodeTaggedValue tags caCertificateNameTag"

definition EncodeModelAliasGroup :: "string \<Rightarrow> string" where
  "EncodeModelAliasGroup sourceModelName = modelAliasGroupTag @ sourceModelName"

definition DecodeModelAliasGroup :: "string list \<Rightarrow> string \<times> string list" where
  "DecodeModelAliasGroup tags = decodeTaggedValue tags modelAliasGroupTag"

definition EncodeRealtimeModel :: "string \<Rightarrow> string" where
  "EncodeRealtimeModel nm = realtimeModelTag @ nm"

definition DecodeRealtimeModel :: "string list \<Rightarrow> string \<times> string list" where
  "DecodeRealtimeModel tags = decodeTaggedValue tags realtimeModelTag"

text \<open>The contract of a codec: tags that are no encodings pass, and the first encoding of a
  non-empty name is taken out.\<close>

locale tag_codec =
  fixes encode :: "string \<Rightarrow> string"
    and decode :: "string list \<Rightarrow> string \<times> string list"
  assumes encode_inj: "encode a = encode b \<Longrightarrow> a = b"
    and decode_foreign: "(\<And>t a. t \<in> set ts \<Longrightarrow> t \<noteq> encode a) \<Longrightarrow> decode ts = ([], ts)"
    and decode_first: "a \<noteq> [] \<Longrightarrow> (\<And>t b. t \<in> set xs \<Longrightarrow> t \<noteq> encode b) \<Longrightarrow>
      decode (xs @ encode a # ys) = (a, xs @ ys)"
begin

definition foreign :: "string list \<Rightarrow> bool" where
  "foreign ts = (\<forall>t \<in> set ts. \<forall>a. t \<noteq> encode a)"

lemma decode_Cons: "a \<noteq> [] \<Longrightarrow> decode (encode a # ys) = (a, ys)"
  using decode_first [of a "[]" ys] by simp

lemma decode_after: "a \<noteq> [] \<Longrightarrow> foreign xs \<Longrightarrow> decode (xs @ [encode a]) = (a, xs)"
  using decode_first [of a xs "[]"] by (simp add: foreign_def)

lemma decode_twice: "a \<noteq> [] \<Longrightarrow> foreign ys \<Longrightarrow> decode (snd (decode (encode a # ys))) = ([], ys)"
  using decode_foreign [of ys] by (simp add: decode_Cons foreign_def)

lemma decode_name: "foreign ts \<Longrightarrow> fst (decode (if a = [] then ts else encode a # ts)) = a"
  using decode_foreign [of ts] by (simp add: decode_Cons foreign_def)

end

lemma fold_decode_foreign:
  assumes "\<forall>t \<in> set ts. CutPrefix t p = None"
  shows "fold (decode_step p) ts (v, rest) = (v, rest @ ts)"
  using assms by (induction ts arbitrary: rest) (auto simp: decode_step_def)

lemma fold_decode_found:
  "v \<noteq> [] \<Longrightarrow> fold (decode_step p) ts (v, rest) = (v, rest @ ts)"
  by (induction ts arbitrary: rest) (auto simp: decode_step_def split: option.split)

lemma decodeTaggedValue_foreign:
  "(\<And>t a. t \<in> set ts \<Longrightarrow> t \<noteq> p @ a) \<Longrightarrow> decodeTaggedValue ts p = ([], ts)"
  unfolding decodeTaggedValue_def by (subst fold_decode_foreign) (auto simp: CutPrefix_None)

lemma decodeTaggedValue_first:
  assumes "a \<noteq> []" and "\<And>t b. t \<in> set xs \<Longrightarrow> t \<noteq> p @ b"
  shows "decodeTaggedValue (xs @ (p @ a) # ys) p = (a, xs @ ys)"
proof -
  have "\<forall>t \<in> set xs. CutPrefix t p = None" using assms(2) by (auto simp: CutPrefix_None)
  from fold_decode_foreign [OF this] assms(1) show ?thesis
    by (simp add: decodeTaggedValue_def decode_step_def fold_decode_found)
qed

interpretation ca_name: tag_codec EncodeCACertificateName DecodeCACertificateName
  by unfold_locales (auto simp: EncodeCACertificateName_def DecodeCACertificateName_def
      intro: decodeTaggedValue_foreign decodeTaggedValue_first)

interpretation alias_group: tag_codec EncodeModelAliasGroup DecodeModelAliasGroup
  by unfold_locales (auto simp: EncodeModelAliasGroup_def DecodeModelAliasGroup_def
      intro: decodeTaggedValue_foreign decodeTaggedValue_first)

interpretation realtime: tag_codec EncodeRealtimeModel DecodeRealtimeModel
  by unfold_locales (auto simp: EncodeRealtimeModel_def DecodeRealtimeModel_def
      intro: decodeTaggedValue_foreign decodeTaggedValue_first)

lemma tags_disjoint:
  "EncodeCACertificateName a \<noteq> EncodeModelAliasGroup b"
  "EncodeCACertificateName a \<noteq> EncodeRealtimeModel c"
  "EncodeModelAliasGroup b \<noteq> EncodeRealtimeModel c"
  by (simp_all add: EncodeCACertificateName_def EncodeModelAliasGroup_def EncodeRealtimeModel_def
      caCertificateNameTag_def modelAliasGroupTag_def realtimeModelTag_def)

lemma encoded_prefix:
  "HasPrefix (EncodeCACertificateName a) ''ai-gateway-''"
  "HasPrefix (EncodeModelAliasGroup a) ''ai-gateway-''"
  "HasPrefix (EncodeRealtimeModel a) ''ai-gateway-''"
  by (simp_all add: HasPrefix_def EncodeCACertificateName_def EncodeModelAliasGroup_def
      EncodeRealtimeModel_def caCertificateNameTag_def modelAliasGroupTag_def realtimeModelTag_def)

lemma plain_tags_foreign:
  "(\<And>t. t \<in> set ts \<Longrightarrow> \<not> HasPrefix t ''ai-gateway-'') \<Longrightarrow>
     ca_name.foreign ts \<and> alias_group.foreign ts \<and> realtime.foreign ts"
  using encoded_prefix by (auto simp: ca_name.foreign_def alias_group.foreign_def realtime.foreign_def)

text \<open>The alias-group tag and the realtime tag on one plugin do not disturb each other or the
  plain tags: each decoder takes its own name out and leaves the other tag and the rest in order.\<close>

theorem model_tags_roundtrip:
  assumes "g \<noteq> []" and "r \<noteq> []" and "\<And>t. t \<in> set ts \<Longrightarrow> \<not> HasPrefix t ''ai-gateway-''"
  shows "DecodeModelAliasGroup (EncodeRealtimeModel r # EncodeModelAliasGroup g # ts) =
      (g, EncodeRealtimeModel r # ts) \<and>
    DecodeRealtimeModel (EncodeRealtimeModel r # EncodeModelAliasGroup g # ts) =
      (r, EncodeModelAliasGroup g # ts) \<and>
    DecodeCACertificateName (EncodeRealtimeModel r # EncodeModelAliasGroup g # ts) =
      ([], EncodeRealtimeModel r # EncodeModelAliasGroup g # ts)"
proof (intro conjI)
  show "DecodeModelAliasGroup (EncodeRealtimeModel r # EncodeModelAliasGroup g # ts) =
      (g, EncodeRealtimeModel r # ts)"
    using alias_group.decode_first [OF assms(1), of "[EncodeRealtimeModel r]" ts]
    by (simp add: tags_disjoint [symmetric])
  show "DecodeRealtimeModel (EncodeRealtimeModel r # EncodeModelAliasGroup g # ts) =
      (r, EncodeModelAliasGroup g # ts)"
    using assms(2) by (rule realtime.decode_Cons)
  have "ca_name.foreign ts" using plain_tags_foreign assms(3) by blast
  then show "DecodeCACertificateName (EncodeRealtimeModel r # EncodeModelAliasGroup g # ts) =
      ([], EncodeRealtimeModel r # EncodeModelAliasGroup g # ts)"
    by (intro ca_name.decode_foreign) (use tags_disjoint in \<open>force simp: ca_name.foreign_def\<close>)
qed

theorem model_tags_roundtrip_witness:
  "DecodeModelAliasGroup [EncodeRealtimeModel ''rt'', EncodeModelAliasGroup ''gpt'', ''env:prod''] =
     (''gpt'', [EncodeRealtimeModel ''rt'', ''env:prod''])"
proof -
  have h1: "''gpt'' \<noteq> []" and h2: "''rt'' \<noteq> []" by simp_all
  have h3: "\<And>t. t \<in> set [''env:prod''] \<Longrightarrow> \<not> HasPrefix t ''ai-gateway-''"
    by (simp add: HasPrefix_def)
  show ?thesis using model_tags_roundtrip [OF h1 h2 h3] by blast
qed

end
