(* ===== verification/Route_Paths.thy ===== *)
theory Route_Paths
  imports Target_Support
begin

text \<open>
  Paths and upstream URLs of endpoints: \<open>RoutePath\<close> and the Gemini URLs of
  \<open>internal/aimap/endpoints.go\<close>, and the path prefixes of mantle targets of
  \<open>internal/aimap/mantle.go\<close>.
\<close>

section \<open>Route paths\<close>

definition trimRegexEndAnchor :: "string \<Rightarrow> string" where
  "trimRegexEndAnchor s =
     (case CutSuffix s ''$'' of
        None \<Rightarrow> s
      | Some body \<Rightarrow>
          (let backslashes = length (takeWhile (\<lambda>c. c = CHR 0x5C) (rev body))
           in if backslashes mod 2 = 1 then s else body))"

definition RoutePath :: "string \<Rightarrow> EndpointSpec \<Rightarrow> string" where
  "RoutePath base spec =
     (let base = TrimRight base CHR ''/'';
          baseIsRegex = HasPrefix base ''~'';
          base = TrimPrefix base ''~'';
          isRegex = (baseIsRegex \<or> IsRegex spec);
          base = (if isRegex then trimRegexEndAnchor base else base);
          sfx = (if IsRegex spec then ''/'' @ PathSuffix spec else PathSuffix spec)
      in if isRegex then ''~'' @ base @ sfx
         else if base @ sfx = [] then ''/''
         else base @ sfx)"

definition mantlePathRules :: "(string \<times> string) list" where
  "mantlePathRules =
     [(''google.gemma-4-'', ''/openai/v1''), (''google.gemma-3-'', ''/v1''),
      (''openai.gpt-oss'', ''/v1''), (''openai.gpt-'', ''/openai/v1''), (''xai.'', ''/openai/v1''),
      (''deepseek.'', ''/v1''), (''minimax.'', ''/v1''), (''mistral.'', ''/v1''),
      (''moonshotai.'', ''/v1''), (''nvidia.'', ''/v1''), (''qwen.'', ''/v1''), (''zai.'', ''/v1'')]"

definition MantlePathPrefix :: "string \<Rightarrow> string" where
  "MantlePathPrefix modelName =
     (case find (\<lambda>r. HasPrefix modelName (fst r)) mantlePathRules of
        None \<Rightarrow> ''auto_detect'' | Some r \<Rightarrow> snd r)"

definition MantlePathPrefixes :: "string list" where
  "MantlePathPrefixes = [''/v1'', ''/openai/v1'']"

definition MantleMultiPath :: "string \<Rightarrow> EndpointSpec \<Rightarrow> bool" where
  "MantleMultiPath format spec =
     (format = ''openai'' \<and> \<not> IsRegex spec \<and> PathSuffix spec \<noteq> [] \<and>
      RouteType spec \<noteq> PassthroughRouteType)"

definition MantlePathSuffixes :: "string \<Rightarrow> EndpointSpec \<Rightarrow> string list" where
  "MantlePathSuffixes format spec =
     (if \<not> MantleMultiPath format spec then [PathSuffix spec]
      else map (\<lambda>p. p @ PathSuffix spec) MantlePathPrefixes)"

definition RoutePaths :: "string \<Rightarrow> EndpointSpec \<Rightarrow> string \<Rightarrow> bool \<Rightarrow> string list" where
  "RoutePaths base spec format mantle =
     (if \<not> mantle then [RoutePath base spec]
      else map (\<lambda>sfx. RoutePath base (spec\<lparr>PathSuffix := sfx\<rparr>)) (MantlePathSuffixes format spec))"

subsection \<open>Laws\<close>

lemma RoutePath_trailing_slash: "RoutePath (base @ ''/'') spec = RoutePath base spec"
  by (simp add: RoutePath_def)

lemma RoutePath_regex:
  "HasPrefix (TrimRight base CHR ''/'') ''~'' \<or> IsRegex spec \<Longrightarrow>
     \<exists>b. RoutePath base spec =
       CHR ''~'' # b @ (if IsRegex spec then CHR ''/'' # PathSuffix spec else PathSuffix spec)"
  by (auto simp: RoutePath_def Let_def)

lemma RoutePath_plain:
  assumes "\<not> HasPrefix (TrimRight base CHR ''/'') ''~''" and "\<not> IsRegex spec"
    and "PathSuffix spec \<noteq> []"
  shows "RoutePath base spec = TrimRight base CHR ''/'' @ PathSuffix spec"
  using assms by (simp add: RoutePath_def Let_def TrimPrefix_def)

lemma trimRegexEndAnchor_anchored:
  "b = [] \<or> last b \<noteq> CHR 0x5C \<Longrightarrow> trimRegexEndAnchor (b @ ''$'') = b"
proof -
  assume b: "b = [] \<or> last b \<noteq> CHR 0x5C"
  then have "takeWhile (\<lambda>c. c = CHR 0x5C) (rev b) = []"
    by (cases b rule: rev_cases) auto
  then show ?thesis
    by (simp add: trimRegexEndAnchor_def CutSuffix_def)
qed

lemma trimRegexEndAnchor_id: "b = [] \<or> last b \<noteq> CHR ''$'' \<Longrightarrow> trimRegexEndAnchor b = b"
  by (cases b rule: rev_cases) (auto simp: trimRegexEndAnchor_def CutSuffix_def HasSuffix_iff)

lemma trimRegexEndAnchor_escaped:
  "even (length (takeWhile (\<lambda>c. c = CHR 0x5C) (rev b))) \<Longrightarrow>
     trimRegexEndAnchor (b @ [CHR 0x5C, CHR ''$'']) = b @ [CHR 0x5C, CHR ''$'']"
  by (simp add: trimRegexEndAnchor_def CutSuffix_def HasSuffix_def mod_Suc)

text \<open>Spelling a base path differently gives the same route.  A trailing slash does not change
  the route path, and on a regex base neither does the end anchor, so a suffix never lands after a
  \<open>$\<close>.\<close>

theorem route_path_base_spelling:
  assumes "b = [] \<or> last b \<notin> {CHR ''/'', CHR ''$'', CHR 0x5C}"
  shows "RoutePath (b @ ''/'') spec = RoutePath b spec \<and>
    RoutePath (''~'' @ b @ ''$'') spec = RoutePath (''~'' @ b) spec \<and>
    RoutePath (''~'' @ b) spec =
      ''~'' @ b @ (if IsRegex spec then ''/'' @ PathSuffix spec else PathSuffix spec)"
proof -
  have a: "TrimRight (''~'' @ b @ ''$'') CHR ''/'' = ''~'' @ b @ ''$''"
    by (rule TrimRight_id) simp
  have c: "TrimRight (''~'' @ b) CHR ''/'' = ''~'' @ b"
    using assms by (intro TrimRight_id) auto
  have t: "trimRegexEndAnchor (b @ ''$'') = b" and i: "trimRegexEndAnchor b = b"
    using assms by (auto intro: trimRegexEndAnchor_anchored trimRegexEndAnchor_id)
  show ?thesis
    unfolding RoutePath_trailing_slash RoutePath_def Let_def a c using t i by simp
qed

theorem route_path_base_spelling_witness:
  "RoutePath (''~'' @ ''/d/(?<id>[^/]+)'' @ ''$'') bedrockInvokeChatSpec =
   RoutePath (''~'' @ ''/d/(?<id>[^/]+)'') bedrockInvokeChatSpec"
proof -
  have h: "''/d/(?<id>[^/]+)'' = [] \<or> last ''/d/(?<id>[^/]+)'' \<notin> {CHR ''/'', CHR ''$'', CHR 0x5C}"
    by simp
  from route_path_base_spelling [OF h] show ?thesis by blast
qed

text \<open>A regex base with a slash before its end anchor keeps the slash, so every suffix that
  starts with a slash, and every regex suffix, gives an empty path segment.\<close>

theorem route_path_slash_before_anchor:
  assumes "IsRegex spec \<or> HasPrefix (PathSuffix spec) ''/''"
  shows "Contains (RoutePath (''~'' @ b @ ''/$'') spec) ''//''"
proof -
  let ?sfx = "if IsRegex spec then ''/'' @ PathSuffix spec else PathSuffix spec"
  have "HasPrefix ?sfx ''/''" using assms by auto
  then obtain r where r: "?sfx = ''/'' @ r" unfolding HasPrefix_iff by blast
  have a: "TrimRight (''~'' @ b @ ''/$'') CHR ''/'' = ''~'' @ b @ ''/$''"
    by (rule TrimRight_id) simp
  have t: "trimRegexEndAnchor (b @ ''/$'') = b @ ''/''"
    using trimRegexEndAnchor_anchored [of "b @ ''/''"] by simp
  have "RoutePath (''~'' @ b @ ''/$'') spec = ''~'' @ (b @ ''/'') @ ?sfx"
    unfolding RoutePath_def Let_def a using t by simp
  also have "\<dots> = (''~'' @ b) @ ''//'' @ r" unfolding r by simp
  finally show ?thesis by (simp only: Contains_middle)
qed

theorem route_path_slash_before_anchor_witness:
  "Contains (RoutePath (''~'' @ ''^/ai'' @ ''/$'') bedrockInvokeChatSpec) ''//''"
proof -
  have h: "IsRegex bedrockInvokeChatSpec \<or> HasPrefix (PathSuffix bedrockInvokeChatSpec) ''/''"
    by (simp add: bedrockInvokeChatSpec_def endpoint_def)
  from route_path_slash_before_anchor [OF h] show ?thesis .
qed

text \<open>A literal base path: empty or starting with a slash, and not ending in a dollar sign.\<close>

definition plain_base :: "string \<Rightarrow> bool" where
  "plain_base base =
     ((base = [] \<or> hd base = CHR ''/'') \<and>
      (TrimRight base CHR ''/'' = [] \<or> last (TrimRight base CHR ''/'') \<noteq> CHR ''$''))"

lemma plain_base_hd:
  assumes "plain_base base" and "TrimRight base CHR ''/'' \<noteq> []"
  shows "hd (TrimRight base CHR ''/'') = CHR ''/''"
proof -
  have "base \<noteq> []" using assms(2) by (auto simp: TrimRight_def)
  moreover have "hd base = hd (TrimRight base CHR ''/'')"
    by (subst TrimRight_prefix [of base "CHR ''/''"]) (use assms(2) in simp)
  ultimately show ?thesis using assms(1) by (simp add: plain_base_def)
qed

lemma RoutePath_plain_base:
  assumes "plain_base base" and "suffix_shape s"
  shows "RoutePath base s =
    (if IsRegex s then ''~'' @ TrimRight base CHR ''/'' @ ''/'' @ PathSuffix s
     else TrimRight base CHR ''/'' @ PathSuffix s)"
proof -
  let ?b = "TrimRight base CHR ''/''"
  have np: "\<not> HasPrefix ?b ''~''"
    using plain_base_hd [OF assms(1)] by (cases ?b) auto
  then have "TrimPrefix ?b ''~'' = ?b" by (simp add: TrimPrefix_def)
  moreover have "trimRegexEndAnchor ?b = ?b"
    using assms(1) by (intro trimRegexEndAnchor_id) (simp add: plain_base_def)
  ultimately show ?thesis
    using np assms(2) by (simp add: RoutePath_def Let_def suffix_shape_def)
qed

lemma RoutePath_plain_hd:
  assumes "plain_base base" and "suffix_shape s"
  shows "hd (RoutePath base s) = (if IsRegex s then CHR ''~'' else CHR ''/'')"
proof (cases "TrimRight base CHR ''/'' = []")
  case True
  then show ?thesis using assms
    by (cases "PathSuffix s") (auto simp: RoutePath_plain_base suffix_shape_def)
next
  case False
  then show ?thesis using assms plain_base_hd by (simp add: RoutePath_plain_base)
qed

lemma RoutePath_inj:
  assumes "plain_base base" and "suffix_shape a" and "suffix_shape b"
    and eq: "RoutePath base a = RoutePath base b"
  shows "PathSuffix a = PathSuffix b \<and> IsRegex a = IsRegex b"
proof -
  have "IsRegex a = IsRegex b"
    using RoutePath_plain_hd [OF assms(1,2)] RoutePath_plain_hd [OF assms(1,3)] eq
    by (simp split: if_splits)
  with eq show ?thesis
    using RoutePath_plain_base [OF assms(1,2)] RoutePath_plain_base [OF assms(1,3)]
    by (simp split: if_splits)
qed

text \<open>Under one literal base path the endpoints of a section get different route paths exactly
  when they have different labels, so a model's routes never collide with each other, and each path
  is a regex path (marked with one tilde) exactly for a regex endpoint.\<close>

theorem route_paths_distinct:
  assumes "plain_base base"
    and "EndpointsFor sec c = Some specs" and "a \<in> set specs"
    and "EndpointsFor sec d = Some specs'" and "b \<in> set specs'"
  shows "(RoutePath base a = RoutePath base b \<longleftrightarrow> RouteLabel a = RouteLabel b) \<and>
    (HasPrefix (RoutePath base a) ''~'' \<longleftrightarrow> IsRegex a)"
proof -
  have a: "suffix_shape a" and b: "suffix_shape b"
    using assms EndpointsFor_in_section section_specs_suffixes by blast+
  from labels_identify_routesD [OF section_specs_labels
      EndpointsFor_in_section [OF assms(2,3)] EndpointsFor_in_section [OF assms(4,5)]]
  have lab: "if RouteLabel a = RouteLabel b then same_route a b else PathSuffix a \<noteq> PathSuffix b" .
  have "RoutePath base a = RoutePath base b \<longleftrightarrow> RouteLabel a = RouteLabel b"
  proof
    assume "RoutePath base a = RoutePath base b"
    from RoutePath_inj [OF assms(1) a b this] lab show "RouteLabel a = RouteLabel b" by meson
  next
    assume "RouteLabel a = RouteLabel b"
    with lab have "PathSuffix a = PathSuffix b" "IsRegex a = IsRegex b"
      by (simp_all add: same_route_def)
    then show "RoutePath base a = RoutePath base b"
      unfolding RoutePath_plain_base [OF assms(1) a] RoutePath_plain_base [OF assms(1) b] by simp
  qed
  moreover have "RoutePath base a \<noteq> []"
    using RoutePath_plain_base [OF assms(1) a] a by (simp add: suffix_shape_def)
  ultimately show ?thesis
    using RoutePath_plain_hd [OF assms(1) a] by (cases "RoutePath base a") auto
qed

theorem route_paths_distinct_witness:
  "RoutePath ''/ai/'' (cap_specs ''openai'' ''generate'' ! 0) = ''/ai/chat/completions'' \<and>
   RoutePath ''/ai/'' (cap_specs ''openai'' ''generate'' ! 0) \<noteq>
   RoutePath ''/ai/'' (cap_specs ''openai'' ''agentic'' ! 0)"
proof -
  have h: "plain_base ''/ai/''" by code_simp
  have c: "EndpointsFor ''openai'' ''generate'' = Some (cap_specs ''openai'' ''generate'')"
    and d: "EndpointsFor ''openai'' ''agentic'' = Some (cap_specs ''openai'' ''agentic'')"
    by (simp_all add: cap_specs_def EndpointsFor_def section_entries_def EndpointTable_def
        openaiEndpoints_def)
  have a: "cap_specs ''openai'' ''generate'' ! 0 \<in> set (cap_specs ''openai'' ''generate'')"
    and b: "cap_specs ''openai'' ''agentic'' ! 0 \<in> set (cap_specs ''openai'' ''agentic'')"
    by (rule nth_mem, code_simp)+
  have l: "RouteLabel (cap_specs ''openai'' ''generate'' ! 0) \<noteq>
      RouteLabel (cap_specs ''openai'' ''agentic'' ! 0)"
    and p: "RoutePath ''/ai/'' (cap_specs ''openai'' ''generate'' ! 0) = ''/ai/chat/completions''"
    by code_simp+
  from route_paths_distinct [OF h c a d b] l p show ?thesis by blast
qed

end
