(* ===== verification/Gemini.thy ===== *)
theory Gemini
  imports Target_Support
begin

text \<open>
  The Gemini Enterprise part of a target (\<open>internal/aimap/endpoints.go\<close>): the environment read
  from the target options, its validation, and the upstream URLs of the Interactions API.
\<close>

section \<open>The environment of a target\<close>

record GeminiEnv =
  ge_ProjectID :: string
  ge_LocationID :: string
  ge_APIEndpoint :: string

definition GeminiOptionKeys :: "string list" where
  "GeminiOptionKeys = [''location_id'', ''api_endpoint'', ''endpoint_id'', ''project_id'']"

definition BedrockOptionKeys :: "string list" where
  "BedrockOptionKeys =
     [''region'', ''embeddings_normalize'', ''video_output_s3_uri'', ''batch_bucket_prefix'',
      ''batch_role_arn'', ''performance_config_latency'', ''vpc_endpoint'', ''endpoint_type'',
      ''mantle_openai_path_prefix'']"

definition GeminiEnvFromOptions :: "ymap \<Rightarrow> GeminiEnv" where
  "GeminiEnvFromOptions opts =
     (let env = or_else (as_map (fmlookup opts ''gcp_environment'')) fmempty;
          get = (\<lambda>key. or_else (as_str (fmlookup env key)) [])
      in \<lparr>ge_ProjectID = get ''project_id'', ge_LocationID = get ''location_id'',
          ge_APIEndpoint = get ''api_endpoint''\<rparr>)"

definition IsEnterprise :: "GeminiEnv \<Rightarrow> bool" where
  "IsEnterprise e = (ge_ProjectID e \<noteq> [] \<and> ge_LocationID e \<noteq> [])"

section \<open>Validation\<close>

definition lower_letter :: "char \<Rightarrow> bool" where
  "lower_letter c = (97 \<le> (of_char c :: nat) \<and> (of_char c :: nat) \<le> 122)"

definition lower_alnum :: "char \<Rightarrow> bool" where
  "lower_alnum c = (lower_letter c \<or> is_digit c)"

text \<open>\<open>[a-z] X* [a-z0-9]\<close> for a character class \<open>X\<close>: at least two characters.\<close>

definition label_shape :: "(char \<Rightarrow> bool) \<Rightarrow> string \<Rightarrow> bool" where
  "label_shape X s =
     (2 \<le> length s \<and> lower_letter (hd s) \<and> lower_alnum (last s) \<and> list_all X (butlast (tl s)))"

definition gcpLocationIDPattern :: "string \<Rightarrow> bool" where
  "gcpLocationIDPattern s = label_shape (\<lambda>c. lower_alnum c \<or> c = CHR ''-'') s"

definition gcpProjectCore :: "string \<Rightarrow> bool" where
  "gcpProjectCore s =
     (label_shape (\<lambda>c. lower_alnum c \<or> c = CHR ''-'') s \<and> 6 \<le> length s \<and> length s \<le> 30)"

text \<open>The optional domain prefix ends at the colon, which no other part of the pattern accepts.\<close>

definition gcpProjectIDPattern :: "string \<Rightarrow> bool" where
  "gcpProjectIDPattern s =
     (case Cut s CHR '':'' of
        None \<Rightarrow> gcpProjectCore s
      | Some (domain, rest) \<Rightarrow>
          label_shape (\<lambda>c. lower_alnum c \<or> c = CHR ''.'' \<or> c = CHR ''-'') domain \<and>
          gcpProjectCore rest)"

definition InvalidField :: "GeminiEnv \<Rightarrow> string" where
  "InvalidField e =
     (if ge_ProjectID e \<noteq> [] \<and> \<not> gcpProjectIDPattern (ge_ProjectID e) then ''project_id''
      else if ge_LocationID e \<noteq> [] \<and> \<not> gcpLocationIDPattern (ge_LocationID e) then ''location_id''
      else [])"

section \<open>Upstream URLs\<close>

definition geminiEnterpriseHost :: "GeminiEnv \<Rightarrow> string" where
  "geminiEnterpriseHost env =
     (let host = (if ge_LocationID env \<noteq> ''global''
                  then ''https://'' @ ge_LocationID env @ ''-aiplatform.googleapis.com''
                  else ''https://aiplatform.googleapis.com'')
      in if ge_APIEndpoint env \<noteq> []
         then (let host = TrimSuffix (ge_APIEndpoint env) ''/''
               in if \<not> Contains host ''://'' then ''https://'' @ host else host)
         else host)"

definition geminiEnterpriseURL :: "GeminiEnv \<Rightarrow> string \<Rightarrow> string" where
  "geminiEnterpriseURL env apiVersion =
     geminiEnterpriseHost env @ ''/'' @ apiVersion @ ''/projects/'' @ ge_ProjectID env @
     ''/locations/'' @ ge_LocationID env @ ''/interactions''"

definition geminiInteractionsURL :: "string \<Rightarrow> EndpointSpec \<Rightarrow> GeminiEnv \<Rightarrow> string option" where
  "geminiInteractionsURL sec spec env =
     (if sec \<noteq> ''gemini'' \<or> RouteType spec \<noteq> ''llm/v1/responses'' then None
      else
        (let enterprise = IsEnterprise env; label = RouteLabel spec in
         if label = ''responses'' \<and> \<not> enterprise
         then Some ''https://generativelanguage.googleapis.com/v1/interactions''
         else if label = ''beta-responses'' \<and> \<not> enterprise
         then Some ''https://generativelanguage.googleapis.com/v1beta/interactions''
         else if label = ''enterprise-responses'' \<and> enterprise
         then Some (geminiEnterpriseURL env ''v1'')
         else if label = ''enterprise-beta-responses'' \<and> enterprise
         then Some (geminiEnterpriseURL env ''v1beta1'')
         else None))"

definition EndpointUpstreamURL :: "string \<Rightarrow> EndpointSpec \<Rightarrow> ymap \<Rightarrow> string option" where
  "EndpointUpstreamURL sec spec opts =
     (if sec = ''gemini'' then geminiInteractionsURL sec spec (GeminiEnvFromOptions opts) else None)"

section \<open>Laws\<close>

lemma label_shape_all:
  assumes "label_shape X s" and "\<And>c. lower_alnum c \<Longrightarrow> X c" and "c \<in> set s"
  shows "X c"
proof -
  from assms(1) obtain x y ys where s: "s = x # ys @ [y]"
    by (cases s; cases "tl s" rule: rev_cases) (auto simp: label_shape_def)
  with assms(1) have "lower_letter x" "lower_alnum y" "list_all X ys"
    by (auto simp: label_shape_def butlast_append)
  with s assms(2,3) show ?thesis by (auto simp: list_all_iff lower_alnum_def)
qed

lemma location_chars: "gcpLocationIDPattern s \<Longrightarrow> c \<in> set s \<Longrightarrow> lower_alnum c \<or> c = CHR ''-''"
  unfolding gcpLocationIDPattern_def by (drule label_shape_all) auto

lemma project_core_chars: "gcpProjectCore s \<Longrightarrow> c \<in> set s \<Longrightarrow> lower_alnum c \<or> c = CHR ''-''"
  unfolding gcpProjectCore_def by (elim conjE, drule label_shape_all) auto

lemma project_chars:
  assumes "gcpProjectIDPattern s" and "c \<in> set s"
  shows "lower_alnum c \<or> c \<in> {CHR ''-'', CHR ''.'', CHR '':''}"
proof (cases "Cut s CHR '':''")
  case None
  with assms project_core_chars show ?thesis by (auto simp: gcpProjectIDPattern_def)
next
  case (Some p)
  obtain d r where p: "p = (d, r)" by (cases p)
  with Some have s: "s = d @ CHR '':'' # r" by (simp add: Cut_Some)
  from assms(1) Some p have
    d: "label_shape (\<lambda>c. lower_alnum c \<or> c = CHR ''.'' \<or> c = CHR ''-'') d" and r: "gcpProjectCore r"
    by (auto simp: gcpProjectIDPattern_def)
  from assms(2) s consider "c \<in> set d" | "c = CHR '':''" | "c \<in> set r" by auto
  then show ?thesis
  proof cases
    case 1
    with label_shape_all [OF d] show ?thesis by auto
  next
    case 3
    with project_core_chars [OF r] show ?thesis by auto
  qed simp
qed

lemma lower_alnum_safe [simp]: "lower_alnum c \<Longrightarrow> c \<noteq> CHR ''/''" "lower_alnum c \<Longrightarrow> c \<noteq> CHR ''?''"
  "lower_alnum c \<Longrightarrow> c \<noteq> CHR ''#''" "lower_alnum c \<Longrightarrow> c \<noteq> CHR ''@''"
  by (auto simp: lower_alnum_def lower_letter_def is_digit_def)

text \<open>The characters that end a host name or a path segment of a URL.\<close>

definition url_delims :: "char set" where
  "url_delims = {CHR ''/'', CHR ''?'', CHR ''#'', CHR ''@''}"

text \<open>A validated environment cannot redirect the upstream.  When \<open>InvalidField\<close> reports
  nothing and no API endpoint is set, the enterprise URL is https, its host is a Google host built
  from the location alone, and neither identifier contains a character that ends a host or a path
  segment.\<close>

theorem gemini_url_confined:
  assumes "IsEnterprise env" and "InvalidField env = []" and "ge_APIEndpoint env = []"
  shows "\<exists>host. geminiEnterpriseURL env ver =
      ''https://'' @ host @ ''/'' @ ver @ ''/projects/'' @ ge_ProjectID env @ ''/locations/'' @
      ge_LocationID env @ ''/interactions'' \<and>
    HasSuffix host ''aiplatform.googleapis.com'' \<and> set host \<inter> url_delims = {} \<and>
    set (ge_ProjectID env) \<inter> url_delims = {} \<and> set (ge_LocationID env) \<inter> url_delims = {}"
proof -
  let ?g = "''aiplatform.googleapis.com''"
  let ?host = "if ge_LocationID env \<noteq> ''global'' then (ge_LocationID env @ ''-'') @ ?g else ?g"
  from assms(1,2) have loc: "gcpLocationIDPattern (ge_LocationID env)"
    and proj: "gcpProjectIDPattern (ge_ProjectID env)"
    by (auto simp: IsEnterprise_def InvalidField_def split: if_splits)
  have l: "set (ge_LocationID env) \<inter> url_delims = {}"
    using location_chars [OF loc] by (fastforce simp: url_delims_def)
  have p: "set (ge_ProjectID env) \<inter> url_delims = {}"
    using project_chars [OF proj] by (fastforce simp: url_delims_def)
  have "geminiEnterpriseURL env ver =
      ''https://'' @ ?host @ ''/'' @ ver @ ''/projects/'' @ ge_ProjectID env @ ''/locations/'' @
      ge_LocationID env @ ''/interactions''"
    using assms(3) by (simp add: geminiEnterpriseURL_def geminiEnterpriseHost_def)
  moreover have "HasSuffix ?host ?g"
    using HasSuffix_append [of "ge_LocationID env @ ''-''" ?g] HasSuffix_append [of "[]" ?g]
    by (cases "ge_LocationID env = ''global''") (simp_all only: if_True if_False not_True_eq_False
        not_False_eq_True append_Nil simp_thms)
  moreover have "set ?host \<inter> url_delims = {}" using l by (auto simp: url_delims_def)
  ultimately show ?thesis using l p by blast
qed

theorem gemini_url_confined_witness:
  "let env = \<lparr>ge_ProjectID = ''example.com:proj-01'', ge_LocationID = ''us-east1'', ge_APIEndpoint = []\<rparr>
   in InvalidField env = [] \<and>
      (\<exists>host. geminiEnterpriseURL env ''v1'' =
         ''https://'' @ host @ ''/v1/projects/example.com:proj-01/locations/us-east1/interactions'')"
proof -
  let ?env = "\<lparr>ge_ProjectID = ''example.com:proj-01'', ge_LocationID = ''us-east1'', ge_APIEndpoint = []\<rparr>"
  have h1: "IsEnterprise ?env" and h2: "InvalidField ?env = []" and h3: "ge_APIEndpoint ?env = []"
    by code_simp+
  from gemini_url_confined [OF h1 h2 h3, of "''v1''"] h2 show ?thesis by auto
qed

text \<open>The endpoints that the data plane accepts and those that need a URL agree.\<close>

lemma agentic_gemini_specs:
  "EndpointsFor ''gemini'' ''agentic'' = Some (cap_specs ''gemini'' ''agentic'')"
  "map RouteLabel (cap_specs ''gemini'' ''agentic'') =
     [''responses'', ''beta-responses'', ''enterprise-responses'', ''enterprise-beta-responses'']"
  "list_all (\<lambda>s. RouteType s = ''llm/v1/responses'' \<and> isGeminiInteractions s)
     (cap_specs ''gemini'' ''agentic'')"
  by (simp add: cap_specs_def EndpointsFor_def section_entries_def EndpointTable_def
      geminiEndpoints_def) code_simp+

text \<open>On the Gemini Interactions endpoints the check and the URL agree.  A gemini target is
  accepted on one of the four endpoints in the gemini format exactly when the endpoint gets an
  upstream URL for the target's environment, so no accepted endpoint is left without a URL.\<close>

theorem gemini_interactions_url_iff_supported:
  assumes "spec \<in> set (cap_specs ''gemini'' ''agentic'')"
    and "tg_ProviderType t = ''gemini''" and "\<not> tg_Mantle t"
    and "tg_GeminiEnterprise t = IsEnterprise (GeminiEnvFromOptions opts)"
  shows "TargetSupports ''gemini'' t spec \<longleftrightarrow> EndpointUpstreamURL ''gemini'' spec opts \<noteq> None"
proof -
  from assms(1) agentic_gemini_specs(3) have type: "RouteType spec = ''llm/v1/responses''"
    and inter: "isGeminiInteractions spec" by (auto simp: list_all_iff)
  from assms(1) have "RouteLabel spec \<in> set (map RouteLabel (cap_specs ''gemini'' ''agentic''))"
    by simp
  then have label: "RouteLabel spec \<in> {''responses'', ''beta-responses'', ''enterprise-responses'',
      ''enterprise-beta-responses''}" unfolding agentic_gemini_specs(2) by simp
  have "TargetSupports ''gemini'' t spec \<longleftrightarrow>
      isGeminiEnterpriseInteractions spec = tg_GeminiEnterprise t"
    using assms(2,3) type inter
    by (simp add: TargetSupports_def PluginProvider_def Let_def supportedRouteTypes_def
        GeminiInteractions_def)
  also have "\<dots> \<longleftrightarrow> EndpointUpstreamURL ''gemini'' spec opts \<noteq> None"
    using label type assms(4)
    by (auto simp: isGeminiEnterpriseInteractions_def EndpointUpstreamURL_def
        geminiInteractionsURL_def Let_def)
  finally show ?thesis .
qed

theorem gemini_interactions_url_iff_supported_witness:
  "let t = \<lparr>tg_ProviderType = ''gemini'', tg_Mantle = False, tg_BatchBucketPrefix = False,
            tg_Llama2RawFormat = False, tg_GeminiEnterprise = False\<rparr>
   in TargetSupports ''gemini'' t (cap_specs ''gemini'' ''agentic'' ! 0) \<and>
      EndpointUpstreamURL ''gemini'' (cap_specs ''gemini'' ''agentic'' ! 0) fmempty \<noteq> None"
proof -
  let ?t = "\<lparr>tg_ProviderType = ''gemini'', tg_Mantle = False, tg_BatchBucketPrefix = False,
            tg_Llama2RawFormat = False, tg_GeminiEnterprise = False\<rparr>"
  have h1: "cap_specs ''gemini'' ''agentic'' ! 0 \<in> set (cap_specs ''gemini'' ''agentic'')"
    by (rule nth_mem, code_simp)
  have h2: "tg_ProviderType ?t = ''gemini''" and h3: "\<not> tg_Mantle ?t" by simp_all
  have h4: "tg_GeminiEnterprise ?t = IsEnterprise (GeminiEnvFromOptions fmempty)"
    by (simp add: IsEnterprise_def GeminiEnvFromOptions_def)
  have "TargetSupports ''gemini'' ?t (cap_specs ''gemini'' ''agentic'' ! 0)" by code_simp
  with gemini_interactions_url_iff_supported [OF h1 h2 h3 h4] show ?thesis by (simp only: Let_def)
qed

end
