(* ===== verification/Datastores.thy ===== *)
theory Datastores
  imports Go_Prelude
begin

text \<open>
  Datastores (\<open>src/internal/aimap/datastore.go\<close>, \<open>src/internal/aigw/datastore.go\<close> and the exported
  lookups of \<open>src/convert/datastore.go\<close>): which plugin accepts which kind of shared connection, and
  the substitution of the connection into the plugin's config.

  A config is a nested map, addressed by paths.  The first section gives lookup and update by path
  and their laws; \<open>connection_store\<close> is the contract every substitution keeps, and each of the code's
  substitution functions is an interpretation of it.
\<close>

section \<open>Paths into a nested config\<close>

fun get_val :: "string list \<Rightarrow> yval option \<Rightarrow> yval option" where
  "get_val [] v = v"
| "get_val (k # ks) v = (case as_map v of None \<Rightarrow> None | Some m \<Rightarrow> get_val ks (fmlookup m k))"

fun set_val :: "string list \<Rightarrow> yval \<Rightarrow> yval option \<Rightarrow> yval" where
  "set_val [] x v = x"
| "set_val (k # ks) x v =
     (let m = or_else (as_map v) fmempty in YMap (fmupd k (set_val ks x (fmlookup m k)) m))"

definition get_path :: "string list \<Rightarrow> ymap \<Rightarrow> yval option" where
  "get_path p m = get_val p (Some (YMap m))"

definition set_path :: "string list \<Rightarrow> yval \<Rightarrow> ymap \<Rightarrow> ymap" where
  "set_path p x m = or_else (as_map (Some (set_val p x (Some (YMap m))))) m"

lemma get_val_None [simp]: "get_val p None = None"
  by (cases p) auto

lemma get_val_append: "get_val (p @ q) v = get_val q (get_val p v)"
  by (induction p arbitrary: v) (auto split: option.splits)

lemma get_set_val [simp]: "get_val p (Some (set_val p x v)) = Some x"
  by (induction p arbitrary: v) (auto simp: Let_def)

lemma get_set_val_parallel:
  "p \<parallel> q \<Longrightarrow> get_val q (Some (set_val p x v)) = get_val q v"
proof (induction p arbitrary: q v)
  case (Cons k ks)
  then obtain l ls where q: "q = l # ls" by (cases q) auto
  show ?case
  proof (cases "k = l")
    case True
    with Cons.prems q have "ks \<parallel> ls" by (auto simp: parallel_def)
    with Cons.IH show ?thesis using q True by (auto simp: Let_def split: option.splits)
  next
    case False
    with q show ?thesis by (auto simp: Let_def split: option.splits)
  qed
qed auto

lemma set_set_val [simp]: "set_val p x (Some (set_val p y v)) = set_val p x v"
  by (induction p arbitrary: v) (auto simp: Let_def)

lemma fmupd_twist: "k \<noteq> l \<Longrightarrow> fmupd k a (fmupd l b m) = fmupd l b (fmupd k a m)"
  by (rule fmap_ext) auto

lemma set_val_commute:
  "p \<parallel> q \<Longrightarrow> set_val p x (Some (set_val q y v)) = set_val q y (Some (set_val p x v))"
proof (induction p arbitrary: q v)
  case (Cons k ks)
  then obtain l ls where q: "q = l # ls" by (cases q) auto
  show ?case
  proof (cases "k = l")
    case True
    with Cons.prems q have "ks \<parallel> ls" by (auto simp: parallel_def)
    from Cons.IH [OF this] show ?thesis using q True by (auto simp: Let_def)
  next
    case False
    with q show ?thesis by (auto simp: Let_def fmupd_twist)
  qed
qed auto

lemma set_path_YMap: "p \<noteq> [] \<Longrightarrow> YMap (set_path p x m) = set_val p x (Some (YMap m))"
  by (cases p) (auto simp: set_path_def Let_def)

lemma get_set_path [simp]: "p \<noteq> [] \<Longrightarrow> get_path p (set_path p x m) = Some x"
  by (simp add: get_path_def set_path_YMap)

lemma get_set_path_parallel: "p \<parallel> q \<Longrightarrow> get_path q (set_path p x m) = get_path q m"
  by (cases "p = []") (auto simp: get_path_def set_path_YMap get_set_val_parallel)

lemma set_set_path [simp]: "p \<noteq> [] \<Longrightarrow> set_path p x (set_path p y m) = set_path p x m"
  by (metis set_path_YMap set_set_val yval.inject(7))

lemma set_path_commute:
  assumes "p \<parallel> q"
  shows "set_path p x (set_path q y m) = set_path q y (set_path p x m)"
proof -
  from assms have "p \<noteq> []" "q \<noteq> []" by auto
  with set_val_commute [OF assms] have
    "YMap (set_path p x (set_path q y m)) = YMap (set_path q y (set_path p x m))"
    by (simp add: set_path_YMap)
  then show ?thesis by simp
qed

lemma get_path_append: "get_path (p @ q) m = get_val q (get_path p m)"
  by (simp add: get_path_def get_val_append)

text \<open>The dot-paths of the support table.\<close>

fun dot_path :: "string \<Rightarrow> string list" where
  "dot_path [] = [[]]"
| "dot_path (c # s) =
     (if c = CHR ''.'' then [] # dot_path s
      else case dot_path s of [] \<Rightarrow> [[c]] | w # ws \<Rightarrow> (c # w) # ws)"

section \<open>The contract of a substitution\<close>

text \<open>
  \<open>store c ds\<close> stores the connection \<open>ds\<close> in the config \<open>c\<close> at the path \<open>conn\<close>, selects it with the
  value \<open>sv\<close> at \<open>strat\<close>, leaves every unrelated path alone, and replaces a connection stored before
  instead of merging with it.
\<close>

locale connection_store =
  fixes store :: "ymap \<Rightarrow> ymap \<Rightarrow> ymap"
    and conn strat :: "string list"
    and sv :: string
  assumes stored: "get_path conn (store c ds) = Some (YMap ds)"
    and selected: "get_path strat (store c ds) = Some (YStr sv)"
    and frame: "conn \<parallel> p \<Longrightarrow> strat \<parallel> p \<Longrightarrow> get_path p (store c ds) = get_path p c"
    and replaces: "store (store c a) b = store c b"
begin

lemma idem: "store (store c a) a = store c a"
  by (rule replaces)

lemma stored_inside: "get_path (conn @ p) (store c ds) = get_val p (Some (YMap ds))"
  by (simp add: get_path_append stored)

lemma old_connection_irrelevant:
  "get_path (conn @ p) (store c ds) = get_path (conn @ p) (store c' ds)"
  by (simp add: stored_inside)

lemma contract:
  "get_path conn (store c ds) = Some (YMap ds) \<and> get_path strat (store c ds) = Some (YStr sv) \<and>
   (\<forall>p. conn \<parallel> p \<longrightarrow> strat \<parallel> p \<longrightarrow> get_path p (store c ds) = get_path p c) \<and>
   store (store c ds) ds = store c ds"
  by (simp add: stored selected frame idem)

end

text \<open>Two updates at unrelated paths keep the contract.\<close>

lemma connection_store_intro:
  assumes "conn \<parallel> strat"
    and eq: "\<And>c ds. store c ds = set_path strat (YStr sv) (set_path conn (YMap ds) c)"
  shows "connection_store store conn strat sv"
proof -
  from assms(1) have ne: "conn \<noteq> []" "strat \<noteq> []" by auto
  from assms(1) have par: "strat \<parallel> conn" by (rule parallel_commute [THEN iffD1, of conn strat])
  show ?thesis
  proof
    show "get_path conn (store c ds) = Some (YMap ds)" for c ds
      using ne par by (simp add: eq get_set_path_parallel)
    show "get_path strat (store c ds) = Some (YStr sv)" for c ds using ne by (simp add: eq)
    show "get_path p (store c ds) = get_path p c" if "conn \<parallel> p" "strat \<parallel> p" for c ds p
      using that by (simp add: eq get_set_path_parallel)
    show "store (store c a) b = store c b" for c a b
      using ne by (simp add: eq set_path_commute [OF assms(1)])
  qed
qed


section \<open>Datastores and the support table\<close>

record Datastore =
  ds_Type :: string
  ds_Name :: string
  ds_Config :: ymap

abbreviation (input) DatastoreTypeRedisCE :: string where "DatastoreTypeRedisCE \<equiv> ''redis-ce''"
abbreviation (input) DatastoreTypeRedisEE :: string where "DatastoreTypeRedisEE \<equiv> ''redis-ee''"
abbreviation (input) DatastoreTypeTokenVault :: string where "DatastoreTypeTokenVault \<equiv> ''token-vault''"
abbreviation (input) DatastoreTypeVectorDB :: string where "DatastoreTypeVectorDB \<equiv> ''vectordb''"
abbreviation (input) VectorDBConfigPath :: string where "VectorDBConfigPath \<equiv> ''vectordb''"
abbreviation (input) VectorDBStrategyRedis :: string where "VectorDBStrategyRedis \<equiv> ''redis''"
abbreviation (input) VectorDBStrategyPGVector :: string where "VectorDBStrategyPGVector \<equiv> ''pgvector''"

definition datastoreTypeVectorDBMap :: "(string \<times> string) list" where
  "datastoreTypeVectorDBMap =
     [(DatastoreTypeRedisCE, VectorDBStrategyRedis),
      (DatastoreTypeRedisEE, VectorDBStrategyRedis),
      (DatastoreTypeVectorDB, VectorDBStrategyPGVector)]"

definition VectorDBStrategyForDatastoreType :: "string \<Rightarrow> string option" where
  "VectorDBStrategyForDatastoreType t = map_of datastoreTypeVectorDBMap t"

record DatastoreSupport =
  AllowedTypes :: "string list"
  ConfigPath :: string
  StrategyPath :: string

definition Allows :: "DatastoreSupport \<Rightarrow> string \<Rightarrow> bool" where
  "Allows s t = (t \<in> set (AllowedTypes s))"

definition datastoreSupportedPolicyTypes :: "(string \<times> DatastoreSupport) list" where
  "datastoreSupportedPolicyTypes =
     (let vector = \<lparr>AllowedTypes = [DatastoreTypeRedisEE, DatastoreTypeVectorDB],
                     ConfigPath = ''vectordb'', StrategyPath = ''vectordb.strategy''\<rparr>;
          ee = \<lparr>AllowedTypes = [DatastoreTypeRedisEE],
                 ConfigPath = ''redis'', StrategyPath = ''strategy''\<rparr>;
          ce = \<lparr>AllowedTypes = [DatastoreTypeRedisCE],
                 ConfigPath = ''redis'', StrategyPath = ''policy''\<rparr>
      in
      [(''ai-rag-injector'', vector),
       (''ai-semantic-cache'', vector),
       (''ai-semantic-prompt-guard'', vector),
       (''ai-semantic-response-guard'', vector),
       (''ai-rate-limiting-advanced'', ee),
       (''acme'', \<lparr>AllowedTypes = [DatastoreTypeRedisCE],
                   ConfigPath = ''storage_config.redis'', StrategyPath = ''storage''\<rparr>),
       (''rate-limiting'', ce),
       (''response-ratelimiting'', ce),
       (''datakit'', \<lparr>AllowedTypes = [DatastoreTypeRedisEE],
                      ConfigPath = ''resources.cache.redis'',
                      StrategyPath = ''resources.cache.strategy''\<rparr>),
       (''graphql-proxy-cache-advanced'', ee),
       (''graphql-rate-limiting-advanced'', ee),
       (''proxy-cache-advanced'', ee),
       (''rate-limiting-advanced'', ee),
       (''service-protection'', ee)])"

definition DatastoreSupportForPluginType :: "string \<Rightarrow> DatastoreSupport option" where
  "DatastoreSupportForPluginType t = map_of datastoreSupportedPolicyTypes t"

definition PolicyTypeSupportsDatastore :: "string \<Rightarrow> bool" where
  "PolicyTypeSupportsDatastore t = (DatastoreSupportForPluginType t \<noteq> None)"

definition DatastoreSupportForPolicyType :: "string \<Rightarrow> string \<Rightarrow> DatastoreSupport \<times> bool" where
  "DatastoreSupportForPolicyType policyType datastoreType =
     (case map_of datastoreSupportedPolicyTypes policyType of
        None \<Rightarrow> (\<lparr>AllowedTypes = [], ConfigPath = [], StrategyPath = []\<rparr>, False)
      | Some support \<Rightarrow> (support, Allows support datastoreType))"

text \<open>The lookups the convert package exports for the control plane.\<close>

definition DatastoreSupported :: "string \<Rightarrow> string \<Rightarrow> bool" where
  "DatastoreSupported policyType datastoreType =
     snd (DatastoreSupportForPolicyType policyType datastoreType)"

definition DatastorePathsForPolicyType :: "string \<Rightarrow> string list" where
  "DatastorePathsForPolicyType policyType =
     (case DatastoreSupportForPluginType policyType of
        None \<Rightarrow> []
      | Some support \<Rightarrow>
          if ConfigPath support \<noteq> VectorDBConfigPath then [ConfigPath support]
          else [ConfigPath support @ ''.'' @ VectorDBStrategyRedis,
                ConfigPath support @ ''.'' @ VectorDBStrategyPGVector])"

definition DatastoreStrategyPathForPolicyType :: "string \<Rightarrow> string" where
  "DatastoreStrategyPathForPolicyType policyType =
     (case DatastoreSupportForPluginType policyType of None \<Rightarrow> [] | Some s \<Rightarrow> StrategyPath s)"

definition DatastoreStrategyForDatastoreType :: "string \<Rightarrow> string option" where
  "DatastoreStrategyForDatastoreType t = VectorDBStrategyForDatastoreType t"

section \<open>Substitution\<close>

text \<open>A nested block, or the empty map the code copies when the assertion fails.\<close>

definition sub_map :: "ymap \<Rightarrow> string \<Rightarrow> ymap" where
  "sub_map m k = or_else (as_map (fmlookup m k)) fmempty"

definition applyRedisDatastore :: "ymap \<Rightarrow> ymap \<Rightarrow> string \<Rightarrow> ymap" where
  "applyRedisDatastore config dsConfig strategyPath =
     fmupd strategyPath (YStr VectorDBStrategyRedis) (fmupd ''redis'' (YMap dsConfig) config)"

definition applyAcmeDatastore :: "ymap \<Rightarrow> ymap \<Rightarrow> string \<Rightarrow> ymap" where
  "applyAcmeDatastore config dsConfig strategyPath =
     (let newStorageConfig = fmupd ''redis'' (YMap dsConfig) (sub_map config ''storage_config'')
      in fmupd strategyPath (YStr VectorDBStrategyRedis)
           (fmupd ''storage_config'' (YMap newStorageConfig) config))"

definition applyDatakitDatastore :: "ymap \<Rightarrow> ymap \<Rightarrow> ymap" where
  "applyDatakitDatastore config dsConfig =
     (let newResources = sub_map config ''resources'';
          newCache = fmupd ''strategy'' (YStr VectorDBStrategyRedis)
                       (fmupd ''redis'' (YMap dsConfig) (sub_map newResources ''cache''))
      in fmupd ''resources'' (YMap (fmupd ''cache'' (YMap newCache) newResources)) config)"

definition mergeVectorDBDatastore :: "ymap \<Rightarrow> string \<Rightarrow> ymap \<Rightarrow> ymap" where
  "mergeVectorDBDatastore vectordbConfig strategy dsConfig =
     fmupd strategy (YMap dsConfig) (fmupd ''strategy'' (YStr strategy) vectordbConfig)"

definition applyVectorDBDatastore :: "ymap \<Rightarrow> ymap \<Rightarrow> string \<Rightarrow> ymap \<Rightarrow> ymap" where
  "applyVectorDBDatastore pluginConfig vectordbConfig strategy dsConfig =
     fmupd ''vectordb'' (YMap (mergeVectorDBDatastore vectordbConfig strategy dsConfig)) pluginConfig"

datatype datastore_error =
    PluginTypeUnsupported string
  | TooManyDatastores
  | UnknownDatastoreError string
  | DatastoreTypeUnsupported string string
  | UnhandledConfigPath string
  | ModelDatastoreUnsupported string
  | TokenVaultDatastoreUnsupported string
  | DirectoryRequired string

text \<open>The Go pair of a config and an error; None is the nil map.\<close>

type_synonym substitution = "ymap option \<times> datastore_error option"

definition ApplyDatastore ::
  "ymap \<Rightarrow> string \<Rightarrow> string list \<Rightarrow> (string, Datastore) fmap \<Rightarrow> substitution"
where
  "ApplyDatastore config policyType refs registry =
     (case refs of
        [] \<Rightarrow> (Some config, None)
      | ref # rest \<Rightarrow>
          if \<not> PolicyTypeSupportsDatastore policyType
          then (None, Some (PluginTypeUnsupported policyType))
          else if rest \<noteq> [] then (None, Some TooManyDatastores)
          else case fmlookup registry ref of
            None \<Rightarrow> (Some config, Some (UnknownDatastoreError ref))
          | Some ds \<Rightarrow>
              (let (support, allowed) = DatastoreSupportForPolicyType policyType (ds_Type ds) in
               if \<not> allowed then (None, Some (DatastoreTypeUnsupported policyType (ds_Type ds)))
               else if ConfigPath support = VectorDBConfigPath
               then (Some (applyVectorDBDatastore config (sub_map config VectorDBConfigPath)
                             (or_else (VectorDBStrategyForDatastoreType (ds_Type ds)) [])
                             (ds_Config ds)), None)
               else if ConfigPath support = ''redis''
               then (Some (applyRedisDatastore config (ds_Config ds) (StrategyPath support)), None)
               else if ConfigPath support = ''storage_config.redis''
               then (Some (applyAcmeDatastore config (ds_Config ds) (StrategyPath support)), None)
               else if ConfigPath support = ''resources.cache.redis''
               then (Some (applyDatakitDatastore config (ds_Config ds)), None)
               else (None, Some (UnhandledConfigPath (ConfigPath support)))))"

definition modelDatastoreTypes :: "string list" where
  "modelDatastoreTypes = [DatastoreTypeRedisEE, DatastoreTypeVectorDB]"

text \<open>\<open>vectordb\<close> is any value, nil included; a block that is not a map is replaced.\<close>

definition ApplyModelDatastore :: "yval option \<Rightarrow> string \<Rightarrow> ymap \<Rightarrow> substitution" where
  "ApplyModelDatastore vectordb datastoreType dsConfig =
     (if datastoreType \<notin> set modelDatastoreTypes
      then (None, Some (ModelDatastoreUnsupported datastoreType))
      else (Some (mergeVectorDBDatastore (or_else (as_map vectordb) fmempty)
                    (or_else (VectorDBStrategyForDatastoreType datastoreType) []) dsConfig), None))"

definition CheckTokenVaultDirectory :: "Datastore \<Rightarrow> datastore_error option" where
  "CheckTokenVaultDirectory ds =
     (if or_else (as_str (fmlookup (ds_Config ds) ''directory'')) [] = []
      then Some (DirectoryRequired (ds_Name ds)) else None)"

definition ApplyTokenVaultDatastore :: "ymap \<Rightarrow> Datastore \<Rightarrow> substitution" where
  "ApplyTokenVaultDatastore block ds =
     (if ds_Type ds \<noteq> DatastoreTypeTokenVault
      then (None, Some (TokenVaultDatastoreUnsupported (ds_Type ds)))
      else case CheckTokenVaultDirectory ds of
        Some e \<Rightarrow> (None, Some e)
      | None \<Rightarrow>
          (let out = (case fmlookup (ds_Config ds) ''directory'' of
                        None \<Rightarrow> block | Some v \<Rightarrow> fmupd ''directory'' v block);
               storage = fmupd ''backend'' (YStr ''konnect'') (fmdrop ''directory'' (ds_Config ds))
           in (Some (fmupd ''storage'' (YMap storage) out), None)))"


section \<open>Each substitution keeps the contract\<close>

lemma set_path_simps:
  "set_path [k] x m = fmupd k x m"
  "set_path [k, l] x m = fmupd k (YMap (fmupd l x (sub_map m k))) m"
  "set_path [k, l, n] x m =
     fmupd k (YMap (fmupd l (YMap (fmupd n x (sub_map (sub_map m k) l))) (sub_map m k))) m"
  by (auto simp: set_path_def sub_map_def Let_def split: option.splits)

lemma sub_map_upd [simp]:
  "sub_map (fmupd k (YMap n) m) k = n" "k \<noteq> l \<Longrightarrow> sub_map (fmupd k x m) l = sub_map m l"
  by (auto simp: sub_map_def)

lemma fmupd_again [simp]: "fmupd k a (fmupd k b m) = fmupd k a m"
  by (rule fmap_ext) auto

lemma applyRedis_store:
  "sp \<noteq> ''redis'' \<Longrightarrow>
   connection_store (\<lambda>c ds. applyRedisDatastore c ds sp) [''redis''] [sp] ''redis''"
  by (rule connection_store_intro) (auto simp: applyRedisDatastore_def set_path_simps parallel_def)

interpretation redis_strategy: connection_store
  "\<lambda>c ds. applyRedisDatastore c ds ''strategy''" "[''redis'']" "[''strategy'']" "''redis''"
  by (rule applyRedis_store) simp

interpretation redis_policy: connection_store
  "\<lambda>c ds. applyRedisDatastore c ds ''policy''" "[''redis'']" "[''policy'']" "''redis''"
  by (rule applyRedis_store) simp

interpretation acme: connection_store
  "\<lambda>c ds. applyAcmeDatastore c ds ''storage''" "[''storage_config'', ''redis'']" "[''storage'']"
  "''redis''"
  by (rule connection_store_intro) (auto simp: applyAcmeDatastore_def set_path_simps parallel_def)

interpretation datakit: connection_store
  applyDatakitDatastore "[''resources'', ''cache'', ''redis'']"
  "[''resources'', ''cache'', ''strategy'']" "''redis''"
  by (rule connection_store_intro)
    (auto simp: applyDatakitDatastore_def set_path_simps parallel_def Let_def)

lemma applyVectorDB_store:
  "s \<noteq> ''strategy'' \<Longrightarrow>
   connection_store (\<lambda>c ds. applyVectorDBDatastore c (sub_map c ''vectordb'') s ds)
     [''vectordb'', s] [''vectordb'', ''strategy''] s"
  by (rule connection_store_intro)
    (auto simp: applyVectorDBDatastore_def mergeVectorDBDatastore_def set_path_simps parallel_def
      intro!: arg_cong [where f = "\<lambda>n. fmupd ''vectordb'' (YMap n) _"] fmupd_twist)

interpretation vector_redis: connection_store
  "\<lambda>c ds. applyVectorDBDatastore c (sub_map c ''vectordb'') ''redis'' ds"
  "[''vectordb'', ''redis'']" "[''vectordb'', ''strategy'']" "''redis''"
  by (rule applyVectorDB_store) simp

interpretation vector_pgvector: connection_store
  "\<lambda>c ds. applyVectorDBDatastore c (sub_map c ''vectordb'') ''pgvector'' ds"
  "[''vectordb'', ''pgvector'']" "[''vectordb'', ''strategy'']" "''pgvector''"
  by (rule applyVectorDB_store) simp

lemma mergeVectorDB_store:
  "s \<noteq> ''strategy'' \<Longrightarrow>
   connection_store (\<lambda>c ds. mergeVectorDBDatastore c s ds) [s] [''strategy''] s"
  by (rule connection_store_intro)
    (auto simp: mergeVectorDBDatastore_def set_path_simps parallel_def fmupd_twist)

interpretation model_redis: connection_store
  "\<lambda>c ds. mergeVectorDBDatastore c ''redis'' ds" "[''redis'']" "[''strategy'']" "''redis''"
  by (rule mergeVectorDB_store) simp

interpretation model_pgvector: connection_store
  "\<lambda>c ds. mergeVectorDBDatastore c ''pgvector'' ds" "[''pgvector'']" "[''strategy'']" "''pgvector''"
  by (rule mergeVectorDB_store) simp

lemma ApplyModelDatastore_cases:
  "ApplyModelDatastore v t d =
     (if t = ''redis-ee'' then (Some (mergeVectorDBDatastore (or_else (as_map v) fmempty) ''redis'' d), None)
      else if t = ''vectordb''
      then (Some (mergeVectorDBDatastore (or_else (as_map v) fmempty) ''pgvector'' d), None)
      else (None, Some (ModelDatastoreUnsupported t)))"
  by (auto simp: ApplyModelDatastore_def modelDatastoreTypes_def
      VectorDBStrategyForDatastoreType_def datastoreTypeVectorDBMap_def)

lemma model_datastore_contract:
  assumes "ApplyModelDatastore v t d = (Some out, None)"
  shows "\<exists>s. VectorDBStrategyForDatastoreType t = Some s \<and>
     fmlookup out s = Some (YMap d) \<and> fmlookup out ''strategy'' = Some (YStr s) \<and>
     (\<forall>k. k \<notin> {s, ''strategy''} \<longrightarrow> fmlookup out k = fmlookup (or_else (as_map v) fmempty) k)"
  using assms
  by (auto simp: ApplyModelDatastore_cases mergeVectorDBDatastore_def
      VectorDBStrategyForDatastoreType_def datastoreTypeVectorDBMap_def split: if_splits)

section \<open>What the support table admits\<close>

text \<open>The five shapes of a supported pairing: where the connection goes and what selects it.\<close>

definition pairing_shape :: "string \<Rightarrow> string \<Rightarrow> DatastoreSupport \<Rightarrow> bool" where
  "pairing_shape p t s =
     (let paths = DatastorePathsForPolicyType p; sp = DatastoreStrategyPathForPolicyType p;
          sv = VectorDBStrategyForDatastoreType t in
      sp = StrategyPath s \<and>
      (ConfigPath s = ''redis'' \<and> paths = [''redis''] \<and> sp \<in> {''strategy'', ''policy''} \<and>
         sv = Some ''redis'' \<or>
       ConfigPath s = ''storage_config.redis'' \<and> paths = [''storage_config.redis''] \<and>
         sp = ''storage'' \<and> sv = Some ''redis'' \<or>
       ConfigPath s = ''resources.cache.redis'' \<and> paths = [''resources.cache.redis''] \<and>
         sp = ''resources.cache.strategy'' \<and> sv = Some ''redis'' \<or>
       ConfigPath s = ''vectordb'' \<and> paths = [''vectordb.redis'', ''vectordb.pgvector''] \<and>
         sp = ''vectordb.strategy'' \<and> sv \<in> {Some ''redis'', Some ''pgvector''}))"

lemma supported_shapes:
  "list_all (\<lambda>(p, s). list_all (\<lambda>t. pairing_shape p t s) (AllowedTypes s))
     datastoreSupportedPolicyTypes"
  by code_simp

lemma supported_shape:
  assumes "DatastoreSupported p t"
  shows "\<exists>s. DatastoreSupportForPolicyType p t = (s, True) \<and> PolicyTypeSupportsDatastore p \<and>
    pairing_shape p t s"
proof -
  from assms obtain s where s: "map_of datastoreSupportedPolicyTypes p = Some s"
    and t: "t \<in> set (AllowedTypes s)"
    by (auto simp: DatastoreSupported_def DatastoreSupportForPolicyType_def Allows_def
        split: option.splits)
  from map_of_SomeD [OF s] t supported_shapes have "pairing_shape p t s"
    by (fastforce simp: list_all_iff)
  with s t show ?thesis
    by (auto simp: DatastoreSupportForPolicyType_def PolicyTypeSupportsDatastore_def
        DatastoreSupportForPluginType_def Allows_def)
qed

lemma ApplyDatastore_supported:
  assumes "fmlookup registry n = Some ds" and "DatastoreSupported p (ds_Type ds)"
  shows "\<exists>out conn sv. ApplyDatastore config p [n] registry = (Some out, None) \<and>
     ApplyDatastore out p [n] registry = (Some out, None) \<and>
     conn \<in> set (DatastorePathsForPolicyType p) \<and>
     DatastoreStrategyForDatastoreType (ds_Type ds) = Some sv \<and>
     get_path (dot_path conn) out = Some (YMap (ds_Config ds)) \<and>
     get_path (dot_path (DatastoreStrategyPathForPolicyType p)) out = Some (YStr sv) \<and>
     (\<forall>q. dot_path conn \<parallel> q \<longrightarrow> dot_path (DatastoreStrategyPathForPolicyType p) \<parallel> q \<longrightarrow>
        get_path q out = get_path q config)"
proof -
  from supported_shape [OF assms(2)] obtain s where
    s: "DatastoreSupportForPolicyType p (ds_Type ds) = (s, True)"
      "PolicyTypeSupportsDatastore p" and sh: "pairing_shape p (ds_Type ds) s" by blast
  note known = assms(1) s ApplyDatastore_def DatastoreStrategyForDatastoreType_def
  from sh consider
      (flat1) "ConfigPath s = ''redis''" "DatastorePathsForPolicyType p = [''redis'']"
        "DatastoreStrategyPathForPolicyType p = ''strategy''" "StrategyPath s = ''strategy''"
        "VectorDBStrategyForDatastoreType (ds_Type ds) = Some ''redis''"
    | (flat2) "ConfigPath s = ''redis''" "DatastorePathsForPolicyType p = [''redis'']"
        "DatastoreStrategyPathForPolicyType p = ''policy''" "StrategyPath s = ''policy''"
        "VectorDBStrategyForDatastoreType (ds_Type ds) = Some ''redis''"
    | (storage) "ConfigPath s = ''storage_config.redis''"
        "DatastorePathsForPolicyType p = [''storage_config.redis'']"
        "DatastoreStrategyPathForPolicyType p = ''storage''" "StrategyPath s = ''storage''"
        "VectorDBStrategyForDatastoreType (ds_Type ds) = Some ''redis''"
    | (cache) "ConfigPath s = ''resources.cache.redis''"
        "DatastorePathsForPolicyType p = [''resources.cache.redis'']"
        "DatastoreStrategyPathForPolicyType p = ''resources.cache.strategy''"
        "VectorDBStrategyForDatastoreType (ds_Type ds) = Some ''redis''"
    | (vector1) "ConfigPath s = ''vectordb''"
        "DatastorePathsForPolicyType p = [''vectordb.redis'', ''vectordb.pgvector'']"
        "DatastoreStrategyPathForPolicyType p = ''vectordb.strategy''"
        "VectorDBStrategyForDatastoreType (ds_Type ds) = Some ''redis''"
    | (vector2) "ConfigPath s = ''vectordb''"
        "DatastorePathsForPolicyType p = [''vectordb.redis'', ''vectordb.pgvector'']"
        "DatastoreStrategyPathForPolicyType p = ''vectordb.strategy''"
        "VectorDBStrategyForDatastoreType (ds_Type ds) = Some ''pgvector''"
    unfolding pairing_shape_def Let_def by auto
  then show ?thesis
  proof cases
    case flat1
    then show ?thesis using redis_strategy.contract [of config "ds_Config ds"] by (simp add: known)
  next
    case flat2
    then show ?thesis using redis_policy.contract [of config "ds_Config ds"] by (simp add: known)
  next
    case storage
    then show ?thesis using acme.contract [of config "ds_Config ds"] by (simp add: known)
  next
    case cache
    then show ?thesis using datakit.contract [of config "ds_Config ds"] by (simp add: known)
  next
    case vector1
    then show ?thesis using vector_redis.contract [of config "ds_Config ds"]
      by (simp add: known) (rule exI [of _ "''vectordb.redis''"], simp)
  next
    case vector2
    then show ?thesis using vector_pgvector.contract [of config "ds_Config ds"]
      by (simp add: known) (rule exI [of _ "''vectordb.pgvector''"], simp)
  qed
qed

text \<open>C18: for every plugin type and datastore type the control plane is told are compatible, the
  substitution succeeds, puts the connection at one of the paths the control plane is told to scrub,
  selects it at the advertised strategy path with the strategy of the datastore type, leaves every
  path unrelated to those two unchanged, and does nothing when it runs again.\<close>

theorem datastore_substituted:
  assumes "fmlookup registry n = Some ds" and "DatastoreSupported p (ds_Type ds)"
  shows "\<exists>out conn sv. ApplyDatastore config p [n] registry = (Some out, None) \<and>
     ApplyDatastore out p [n] registry = (Some out, None) \<and>
     conn \<in> set (DatastorePathsForPolicyType p) \<and>
     DatastoreStrategyForDatastoreType (ds_Type ds) = Some sv \<and>
     get_path (dot_path conn) out = Some (YMap (ds_Config ds)) \<and>
     get_path (dot_path (DatastoreStrategyPathForPolicyType p)) out = Some (YStr sv) \<and>
     (\<forall>q. dot_path conn \<parallel> q \<longrightarrow> dot_path (DatastoreStrategyPathForPolicyType p) \<parallel> q \<longrightarrow>
        get_path q out = get_path q config)"
  using assms by (rule ApplyDatastore_supported)

definition sample_datastore :: Datastore where
  "sample_datastore = \<lparr>ds_Type = ''redis-ee'', ds_Name = ''cache'',
     ds_Config = fmupd ''host'' (YStr ''r'') fmempty\<rparr>"

theorem datastore_substituted_witness:
  "\<exists>out conn sv. ApplyDatastore fmempty ''datakit'' [''cache'']
       (fmupd ''cache'' sample_datastore fmempty) = (Some out, None) \<and>
     conn \<in> set (DatastorePathsForPolicyType ''datakit'') \<and>
     get_path (dot_path conn) out = Some (YMap (ds_Config sample_datastore)) \<and>
     DatastoreStrategyForDatastoreType (ds_Type sample_datastore) = Some sv"
proof -
  have "DatastoreSupported ''datakit'' (ds_Type sample_datastore)"
    unfolding sample_datastore_def by code_simp
  from datastore_substituted [OF _ this, of "fmupd ''cache'' sample_datastore fmempty" "''cache''"
      fmempty]
  show ?thesis by auto
qed

text \<open>C26: the substitution fails exactly when the plugin takes no datastore, when several are
  referenced, when the reference dangles, or when the plugin refuses the datastore's type, in that
  order; only a dangling reference still hands the policy its config back, unchanged; and the error
  for an unhandled config path is unreachable.\<close>

theorem datastore_errors_exact:
  "ApplyDatastore config p refs registry =
     (if refs = [] then (Some config, None)
      else if DatastorePathsForPolicyType p = [] then (None, Some (PluginTypeUnsupported p))
      else if length refs > 1 then (None, Some TooManyDatastores)
      else case fmlookup registry (hd refs) of
        None \<Rightarrow> (Some config, Some (UnknownDatastoreError (hd refs)))
      | Some ds \<Rightarrow>
          if DatastoreSupported p (ds_Type ds)
          then (fst (ApplyDatastore config p refs registry), None)
          else (None, Some (DatastoreTypeUnsupported p (ds_Type ds)))) \<and>
   (snd (ApplyDatastore config p refs registry) = None \<longrightarrow>
      fst (ApplyDatastore config p refs registry) \<noteq> None)"
proof -
  have paths: "DatastorePathsForPolicyType p = [] \<longleftrightarrow> \<not> PolicyTypeSupportsDatastore p"
    by (auto simp: DatastorePathsForPolicyType_def PolicyTypeSupportsDatastore_def
        split: option.splits)
  consider "refs = []" | n where "refs = [n]" | n m rest where "refs = n # m # rest"
    by (cases refs rule: remdups_adj.cases) auto
  then show ?thesis
  proof cases
    case (2 n)
    show ?thesis
    proof (cases "PolicyTypeSupportsDatastore p")
      case True
      show ?thesis
      proof (cases "fmlookup registry n")
        case None
        with 2 True show ?thesis by (simp add: ApplyDatastore_def paths)
      next
        case (Some ds)
        show ?thesis
        proof (cases "DatastoreSupported p (ds_Type ds)")
          case ok: True
          from ApplyDatastore_supported [OF Some ok, of config] obtain out
            where "ApplyDatastore config p [n] registry = (Some out, None)" by blast
          with 2 True Some ok show ?thesis by (simp add: paths)
        next
          case False
          with 2 True Some show ?thesis
            by (auto simp: ApplyDatastore_def paths DatastoreSupported_def split: prod.splits)
        qed
      qed
    qed (use 2 in \<open>simp add: ApplyDatastore_def paths\<close>)
  qed (auto simp: ApplyDatastore_def paths)
qed

theorem datastore_errors_exact_witness:
  "snd (ApplyDatastore fmempty ''acme'' [''cache''] (fmupd ''cache'' sample_datastore fmempty)) =
     Some (DatastoreTypeUnsupported ''acme'' ''redis-ee'')"
proof -
  have "\<not> DatastoreSupported ''acme'' (ds_Type sample_datastore)"
    and "DatastorePathsForPolicyType ''acme'' \<noteq> []"
    unfolding sample_datastore_def by code_simp+
  with datastore_errors_exact [of fmempty "''acme''" "[''cache'']"
      "fmupd ''cache'' sample_datastore fmempty"]
  show ?thesis by (simp add: sample_datastore_def)
qed

text \<open>The Token Vault block: no connection key is lost, and the backend is fixed.\<close>

lemma token_vault_datastore_block:
  assumes "ApplyTokenVaultDatastore block ds = (Some out, e)"
  shows "e = None" and "\<exists>d. d \<noteq> [] \<and> fmlookup out ''directory'' = Some (YStr d)"
    and "get_path [''storage'', ''backend''] out = Some (YStr ''konnect'')"
    and "k \<notin> {''directory'', ''backend''} \<Longrightarrow>
      get_path [''storage'', k] out = fmlookup (ds_Config ds) k"
    and "k \<notin> {''directory'', ''storage''} \<Longrightarrow> fmlookup out k = fmlookup block k"
  using assms
  by (auto simp: ApplyTokenVaultDatastore_def CheckTokenVaultDirectory_def get_path_def Let_def
      split: if_splits option.splits)

end
