(* ===== verification/Vector_DB.thy ===== *)
theory Vector_DB
  imports Go_Prelude
begin

text \<open>
  The two shapes of a vector database block (\<open>src/internal/aimap/vectordb.go\<close>): the AI Gateway model
  authors the strategy's settings flat and its groups as nested objects, the plugin nests the
  settings under the strategy's name and spells the groups as flat prefixed keys.

  The code ranges over Go maps, whose order is not fixed, so each loop is a definition over an
  enumeration of the map (\<open>vectordb_loop\<close>, \<open>group_loop\<close>), and the operation runs it over the sorted
  one.  The lemmas say when the order does not matter, and \<open>vectordb_clash_depends_on_order\<close> is an input for which it does.
\<close>

section \<open>Loops that store renamed entries\<close>

definition put :: "('a \<times> 'v \<Rightarrow> 'k option) \<Rightarrow> 'a \<times> 'v \<Rightarrow> ('k, 'v) fmap \<Rightarrow> ('k, 'v) fmap" where
  "put h kv m = (case h kv of None \<Rightarrow> m | Some x \<Rightarrow> fmupd x (snd kv) m)"

lemma put_miss:
  "\<forall>kv \<in> set kvs. h kv \<noteq> Some x \<Longrightarrow> fmlookup (fold (put h) kvs m) x = fmlookup m x"
  by (induction kvs arbitrary: m) (auto simp: put_def split: option.splits)

lemma put_hit:
  assumes "(k, v) \<in> set kvs" and "h (k, v) = Some x"
    and "\<forall>kv \<in> set kvs. h kv = Some x \<longrightarrow> snd kv = v"
  shows "fmlookup (fold (put h) kvs m) x = Some v"
  using assms
proof (induction kvs rule: rev_induct)
  case (snoc a kvs)
  show ?case
  proof (cases "h a = Some x")
    case True
    with snoc.prems show ?thesis by (simp add: put_def)
  next
    case False
    with snoc show ?thesis by (auto simp: put_def split: option.splits)
  qed
qed simp

section \<open>Lowering and lifting\<close>

definition vectorDBCommonKeys :: "string list" where
  "vectorDBCommonKeys = [''strategy'', ''dimensions'', ''distance_metric'', ''threshold'']"

definition vectorDBGroups :: "(string \<times> string list) list" where
  "vectorDBGroups = [(''pgvector'', [''ssl'']), (''redis'', [''cluster'', ''keepalive'', ''sentinel''])]"

abbreviation (input) groupEnabledField :: string where "groupEnabledField \<equiv> ''enabled''"

definition isVectorDBStrategy :: "string \<Rightarrow> bool" where
  "isVectorDBStrategy name = (map_of vectorDBGroups name \<noteq> None)"

definition groups_of :: "string \<Rightarrow> string list" where
  "groups_of strategy = or_else (map_of vectorDBGroups strategy) []"

definition flat_key :: "string \<Rightarrow> string \<Rightarrow> string" where
  "flat_key grp k = (if k = groupEnabledField then grp else grp @ ''_'' @ k)"

definition flatten_group :: "string \<Rightarrow> ymap \<Rightarrow> ymap" where
  "flatten_group grp cfg =
     (case as_map (fmlookup cfg grp) of
        None \<Rightarrow> cfg
      | Some fields \<Rightarrow>
          fold (put (\<lambda>(k, v). Some (flat_key grp k))) (sorted_list_of_fmap fields)
            (fmdrop grp cfg))"

definition flattenGroups :: "ymap \<Rightarrow> string list \<Rightarrow> ymap" where
  "flattenGroups cfg groups = fold flatten_group groups cfg"

definition vectordb_step :: "string \<Rightarrow> string \<times> yval \<Rightarrow> ymap \<times> ymap \<Rightarrow> ymap \<times> ymap" where
  "vectordb_step strategy = (\<lambda>(k, v) (out, nested).
     if k \<in> set vectorDBCommonKeys then (fmupd k v out, nested)
     else if k = strategy then
       (case as_map (Some v) of
          Some sub \<Rightarrow> (out, fold (\<lambda>(sk, sv). fmupd sk sv) (sorted_list_of_fmap sub) nested)
        | None \<Rightarrow> (fmupd k v out, nested))
     else if isVectorDBStrategy k then (fmupd k v out, nested)
     else (out, fmupd k v nested))"

definition vectordb_loop :: "string \<Rightarrow> (string \<times> yval) list \<Rightarrow> ymap" where
  "vectordb_loop strategy entries =
     (let (out, nested) = fold (vectordb_step strategy) entries (fmempty, fmempty);
          nested = flattenGroups nested (groups_of strategy)
      in if fm_empty nested then out else fmupd strategy (YMap nested) out)"

definition strategy_of :: "ymap \<Rightarrow> string" where
  "strategy_of src = or_else (as_str (fmlookup src ''strategy'')) []"

definition VectorDBToPlugin :: "yval option \<Rightarrow> yval option" where
  "VectorDBToPlugin raw =
     (case as_map raw of
        None \<Rightarrow> raw
      | Some src \<Rightarrow>
          if isVectorDBStrategy (strategy_of src)
          then Some (YMap (vectordb_loop (strategy_of src) (sorted_list_of_fmap src)))
          else raw)"

definition group_key :: "string \<Rightarrow> string \<Rightarrow> string option" where
  "group_key grp k =
     (if k = grp then Some groupEnabledField
      else if HasPrefix k (grp @ ''_'') then Some (TrimPrefix k (grp @ ''_'')) else None)"

definition group_loop :: "string \<Rightarrow> (string \<times> yval) list \<Rightarrow> ymap \<Rightarrow> ymap" where
  "group_loop grp entries cfg =
     (let fields = fold (put (\<lambda>(k, v). group_key grp k)) entries fmempty;
          cfg = fmfilter (\<lambda>k. group_key grp k = None) cfg
      in if fm_empty fields then cfg else fmupd grp (YMap fields) cfg)"

definition groupFlatKeys :: "ymap \<Rightarrow> string list \<Rightarrow> ymap" where
  "groupFlatKeys cfg groups =
     fold (\<lambda>grp cfg. group_loop grp (sorted_list_of_fmap cfg) cfg) groups cfg"

definition VectorDBFromPlugin :: "yval option \<Rightarrow> yval option" where
  "VectorDBFromPlugin raw =
     (case as_map raw of
        None \<Rightarrow> raw
      | Some src \<Rightarrow>
          (case as_map (fmlookup src (strategy_of src)) of
             None \<Rightarrow> raw
           | Some nested \<Rightarrow>
               Some (YMap (groupFlatKeys (fmdrop (strategy_of src) src ++\<^sub>f nested)
                             (groups_of (strategy_of src))))))"


section \<open>Operations that act on part of a map\<close>

definition local_op :: "'k set \<Rightarrow> (('k, 'v) fmap \<Rightarrow> ('k, 'v) fmap) \<Rightarrow> bool" where
  "local_op K f \<longleftrightarrow>
     (\<forall>m x. x \<notin> K \<longrightarrow> fmlookup (f m) x = fmlookup m x) \<and>
     (\<forall>m m'. (\<forall>x\<in>K. fmlookup m x = fmlookup m' x) \<longrightarrow>
        (\<forall>x\<in>K. fmlookup (f m) x = fmlookup (f m') x))"

lemma local_outside: "local_op K f \<Longrightarrow> x \<notin> K \<Longrightarrow> fmlookup (f m) x = fmlookup m x"
  by (simp add: local_op_def)

lemma local_inside:
  "local_op K f \<Longrightarrow> \<forall>x\<in>K. fmlookup m x = fmlookup m' x \<Longrightarrow> x \<in> K \<Longrightarrow>
   fmlookup (f m) x = fmlookup (f m') x"
  by (simp add: local_op_def)

lemma local_commute:
  assumes f: "local_op K f" and g: "local_op L g" and "K \<inter> L = {}"
  shows "f (g m) = g (f m)"
proof (rule fmap_ext)
  fix x
  have fk: "fmlookup (f (g m)) y = fmlookup (f m) y" if "y \<in> K" for y
    by (rule local_inside [OF f _ that]) (use local_outside [OF g] assms(3) in blast)
  have gl: "fmlookup (g (f m)) y = fmlookup (g m) y" if "y \<in> L" for y
    by (rule local_inside [OF g _ that]) (use local_outside [OF f] assms(3) in blast)
  show "fmlookup (f (g m)) x = fmlookup (g (f m)) x"
    using fk [of x] gl [of x] local_outside [OF f] local_outside [OF g] assms(3)
    by (cases "x \<in> K"; cases "x \<in> L") auto
qed

lemma local_commute_fold:
  assumes "local_op K f" and "\<forall>h \<in> set hs. local_op (L h) (g h) \<and> K \<inter> L h = {}"
  shows "f (fold g hs m) = fold g hs (f m)"
  using assms by (induction hs arbitrary: m) (auto simp: local_commute [of K f])

text \<open>The keys a group owns.\<close>

definition family :: "string \<Rightarrow> string set" where
  "family grp = {k. group_key grp k \<noteq> None}"

lemma flat_key_inject [simp]: "flat_key grp k = flat_key grp l \<longleftrightarrow> k = l"
  by (auto simp: flat_key_def)

lemma group_key_flat: "group_key grp (flat_key grp k) = Some k"
proof -
  have p: "HasPrefix (grp @ ''_'' @ k) (grp @ ''_'')" by (simp add: HasPrefix_iff)
  then show ?thesis by (simp add: flat_key_def group_key_def TrimPrefix_def)
qed

lemma flat_key_family [simp]: "flat_key grp k \<in> family grp"
  by (simp add: family_def group_key_flat)

lemma self_family [simp]: "grp \<in> family grp"
  by (auto simp: family_def group_key_def)

lemma flatten_hit:
  assumes "fmlookup cfg grp = Some (YMap fields)" and "fmlookup fields k = Some v"
  shows "fmlookup (flatten_group grp cfg) (flat_key grp k) = Some v"
  unfolding flatten_group_def using assms
  by (auto simp: set_sorted_fmap intro!: put_hit [where k = k])

lemma flatten_miss:
  assumes "fmlookup cfg grp = Some (YMap fields)" and "\<forall>k. fmlookup fields k \<noteq> None \<longrightarrow> flat_key grp k \<noteq> x"
  shows "fmlookup (flatten_group grp cfg) x = (if x = grp then None else fmlookup cfg x)"
proof -
  let ?h = "\<lambda>(k, v). Some (flat_key grp k)"
  have "\<forall>kv \<in> set (sorted_list_of_fmap fields). ?h kv \<noteq> Some x"
    using assms(2) by (auto simp: set_sorted_fmap) (metis option.distinct(1))
  then show ?thesis using assms(1) by (simp add: flatten_group_def put_miss)
qed

lemma flatten_skip: "as_map (fmlookup cfg grp) = None \<Longrightarrow> flatten_group grp cfg = cfg"
  by (simp add: flatten_group_def)

lemma local_flatten: "local_op (family grp) (flatten_group grp)"
  unfolding local_op_def
proof (intro conjI allI impI ballI)
  fix m :: ymap and x assume x: "x \<notin> family grp"
  then have "x \<noteq> grp" and "\<forall>k. flat_key grp k \<noteq> x" by auto
  then show "fmlookup (flatten_group grp m) x = fmlookup m x"
    by (cases "as_map (fmlookup m grp)") (auto simp: flatten_skip flatten_miss)
next
  fix m m' :: ymap and x
  assume eq: "\<forall>x \<in> family grp. fmlookup m x = fmlookup m' x" and x: "x \<in> family grp"
  then have g: "fmlookup m grp = fmlookup m' grp" by simp
  show "fmlookup (flatten_group grp m) x = fmlookup (flatten_group grp m') x"
  proof (cases "as_map (fmlookup m grp)")
    case None
    with g eq x show ?thesis by (simp add: flatten_skip)
  next
    case (Some fields)
    show ?thesis
    proof (cases "\<exists>k v. fmlookup fields k = Some v \<and> flat_key grp k = x")
      case True
      with Some g show ?thesis by (metis as_map_Some flatten_hit)
    next
      case False
      then have "\<forall>k. fmlookup fields k \<noteq> None \<longrightarrow> flat_key grp k \<noteq> x" by blast
      with Some g eq x show ?thesis by (simp add: flatten_miss [where fields = fields])
    qed
  qed
qed

definition group_loop_all :: "string \<Rightarrow> ymap \<Rightarrow> ymap" where
  "group_loop_all grp cfg = group_loop grp (sorted_list_of_fmap cfg) cfg"

text \<open>A group without both the bare flag and a flat \<open>enabled\<close> key collects without a clash.\<close>

definition fields_of :: "string \<Rightarrow> ymap \<Rightarrow> ymap" where
  "fields_of grp cfg = fold (put (\<lambda>(k, v). group_key grp k)) (sorted_list_of_fmap cfg) fmempty"

lemma sorted_keys_fmfilter:
  "sorted_list_of_fset (fmdom (fmfilter P m)) = filter P (sorted_list_of_fset (fmdom m))"
proof (rule sorted_distinct_set_unique)
  show "set (sorted_list_of_fset (fmdom (fmfilter P m))) =
    set (filter P (sorted_list_of_fset (fmdom m)))" by auto
qed (auto simp: sorted_list_of_fset.rep_eq sorted_wrt_filter)

lemma sorted_list_fmfilter:
  "sorted_list_of_fmap (fmfilter P m) = filter (\<lambda>(k, v). P k) (sorted_list_of_fmap m)"
  unfolding sorted_list_of_fmap_def sorted_keys_fmfilter
  by (auto simp: filter_map comp_def intro!: map_cong)

lemma fold_put_filter:
  "fold (put h) kvs m = fold (put h) (filter (\<lambda>kv. h kv \<noteq> None) kvs) m"
  by (induction kvs arbitrary: m) (auto simp: put_def)

lemma fields_of_family: "fields_of grp cfg = fields_of grp (fmfilter (\<lambda>k. group_key grp k \<noteq> None) cfg)"
proof -
  have eq: "(\<lambda>kv :: string \<times> yval. (case kv of (k, v) \<Rightarrow> group_key grp k) \<noteq> None) =
    (\<lambda>(k, v). group_key grp k \<noteq> None)" by auto
  show ?thesis unfolding fields_of_def sorted_list_fmfilter
    by (subst fold_put_filter) (simp only: eq)
qed

lemma local_group_loop: "local_op (family grp) (group_loop_all grp)"
  unfolding local_op_def
proof (intro conjI allI impI ballI)
  fix m :: ymap and x assume "x \<notin> family grp"
  then show "fmlookup (group_loop_all grp m) x = fmlookup m x"
    by (auto simp: group_loop_all_def group_loop_def Let_def family_def group_key_def)
next
  fix m m' :: ymap and x
  assume eq: "\<forall>x \<in> family grp. fmlookup m x = fmlookup m' x" and x: "x \<in> family grp"
  have "fmfilter (\<lambda>k. group_key grp k \<noteq> None) m = fmfilter (\<lambda>k. group_key grp k \<noteq> None) m'"
    by (rule fmap_ext) (use eq in \<open>auto simp: family_def\<close>)
  then have "fields_of grp m = fields_of grp m'"
    using fields_of_family by metis
  then show "fmlookup (group_loop_all grp m) x = fmlookup (group_loop_all grp m') x"
    using x by (auto simp: group_loop_all_def group_loop_def Let_def fields_of_def family_def)
qed

text \<open>Collecting undoes flattening.\<close>

definition authored_group :: "ymap \<Rightarrow> string \<Rightarrow> bool" where
  "authored_group m grp \<longleftrightarrow>
     (\<forall>k \<in> family grp. k \<noteq> grp \<longrightarrow> fmlookup m k = None) \<and>
     (fmlookup m grp = None \<or> (\<exists>f. fmlookup m grp = Some (YMap f) \<and> f \<noteq> fmempty))"

lemma fields_of_flatten:
  assumes "\<forall>k \<in> family grp. k \<noteq> grp \<longrightarrow> fmlookup m k = None" and g: "fmlookup m grp = Some (YMap f)"
  shows "fields_of grp (flatten_group grp m) = f"
proof (rule fmap_ext)
  fix k
  let ?m = "flatten_group grp m" and ?h = "\<lambda>(k, v). group_key grp k"
  have look: "fmlookup ?m x = Some v \<longleftrightarrow> (\<exists>k. x = flat_key grp k \<and> fmlookup f k = Some v)"
    if "group_key grp x \<noteq> None" for x v
  proof (cases "\<exists>k w. x = flat_key grp k \<and> fmlookup f k = Some w")
    case True
    then show ?thesis using flatten_hit [where fields = f and cfg = m and grp = grp, OF g] by auto
  next
    case False
    then have "fmlookup ?m x = (if x = grp then None else fmlookup m x)"
      by (intro flatten_miss [where fields = f and cfg = m and grp = grp, OF g]) auto
    with assms(1) that False show ?thesis by (auto simp: family_def)
  qed
  show "fmlookup (fields_of grp ?m) k = fmlookup f k"
  proof (cases "fmlookup f k")
    case None
    have "\<forall>kv \<in> set (sorted_list_of_fmap ?m). ?h kv \<noteq> Some k"
    proof clarify
      fix x v assume "(x, v) \<in> set (sorted_list_of_fmap ?m)" and h: "group_key grp x = Some k"
      then obtain l where "x = flat_key grp l" "fmlookup f l = Some v"
        using look [of x v] by (auto simp: set_sorted_fmap)
      with h None show False by (simp add: group_key_flat)
    qed
    then show ?thesis using None unfolding fields_of_def by (simp add: put_miss)
  next
    case (Some v)
    have "(flat_key grp k, v) \<in> set (sorted_list_of_fmap ?m)"
      using flatten_hit [OF g Some] by (simp add: set_sorted_fmap)
    moreover have "snd kv = v" if "kv \<in> set (sorted_list_of_fmap ?m)" "?h kv = Some k" for kv
    proof -
      obtain x w where kv: "kv = (x, w)" by (cases kv)
      with that look [of x w] Some show ?thesis by (auto simp: set_sorted_fmap group_key_flat)
    qed
    ultimately have "fmlookup (fold (put ?h) (sorted_list_of_fmap ?m) fmempty) k = Some v"
      by (intro put_hit) (auto simp: group_key_flat)
    with Some show ?thesis unfolding fields_of_def by simp
  qed
qed

lemma fields_of_none:
  "\<forall>k \<in> family grp. fmlookup m k = None \<Longrightarrow> fields_of grp m = fmempty"
  by (rule fmap_ext) (auto simp: fields_of_def set_sorted_fmap family_def intro!: put_miss [THEN trans])

lemma group_loop_flatten:
  assumes "authored_group m grp"
  shows "group_loop_all grp (flatten_group grp m) = m"
proof (cases "fmlookup m grp")
  case None
  then have skip: "flatten_group grp m = m" by (simp add: flatten_skip)
  from None assms have none: "\<forall>k \<in> family grp. fmlookup m k = None"
    by (auto simp: authored_group_def)
  then have "fmfilter (\<lambda>k. group_key grp k = None) m = m"
    by (intro fmap_ext) (auto simp: family_def)
  with fields_of_none [OF none] show ?thesis
    by (simp add: skip group_loop_all_def group_loop_def fields_of_def Let_def)
next
  case (Some v)
  with assms obtain f where f: "fmlookup m grp = Some (YMap f)" "f \<noteq> fmempty"
    by (auto simp: authored_group_def)
  from assms have other: "\<forall>k \<in> family grp. k \<noteq> grp \<longrightarrow> fmlookup m k = None"
    by (simp add: authored_group_def)
  have "group_loop_all grp (flatten_group grp m) =
    fmupd grp (YMap f) (fmfilter (\<lambda>k. group_key grp k = None) (flatten_group grp m))"
    using fields_of_flatten [OF other f(1)] f(2)
    by (simp add: group_loop_all_def group_loop_def fields_of_def Let_def)
  also have "\<dots> = m"
    by (rule fmap_ext)
      (use f(1) other local_outside [OF local_flatten] in \<open>auto simp: family_def\<close>)
  finally show ?thesis .
qed


section \<open>The loop over the block\<close>

definition own_setting :: "string \<Rightarrow> string \<Rightarrow> bool" where
  "own_setting strategy k \<longleftrightarrow>
     k \<notin> set vectorDBCommonKeys \<and> k \<noteq> strategy \<and> \<not> isVectorDBStrategy k"

definition sub_block :: "string \<Rightarrow> ymap \<Rightarrow> ymap" where
  "sub_block strategy src = or_else (as_map (fmlookup src strategy)) fmempty"

text \<open>The loop's result, without a loop.\<close>

definition lowered :: "string \<Rightarrow> ymap \<Rightarrow> ymap" where
  "lowered strategy src =
     (let out = fmfilter (\<lambda>k. \<not> own_setting strategy k \<and>
                  \<not> (k = strategy \<and> as_map (fmlookup src k) \<noteq> None)) src;
          nested = flattenGroups (fmfilter (own_setting strategy) src ++\<^sub>f sub_block strategy src)
                     (groups_of strategy)
      in if fm_empty nested then out else fmupd strategy (YMap nested) out)"

text \<open>No setting is authored both flat and inside the strategy's own sub-block.\<close>

definition no_clash :: "string \<Rightarrow> ymap \<Rightarrow> bool" where
  "no_clash strategy src \<longleftrightarrow>
     fmdom (fmfilter (own_setting strategy) src) |\<inter>| fmdom (sub_block strategy src) = {||}"

lemma fold_fmupd_add: "fold (\<lambda>(k, v). fmupd k v) (sorted_list_of_fmap sub) m = m ++\<^sub>f sub"
proof (rule fmap_ext)
  fix x
  have f: "fold (\<lambda>(k, v). fmupd k v) kvs m = fold (put (\<lambda>(k, v). Some k)) kvs m" for kvs and m :: "('a, 'b) fmap"
    by (rule fold_cong) (auto simp: put_def fun_eq_iff)
  show "fmlookup (fold (\<lambda>(k, v). fmupd k v) (sorted_list_of_fmap sub) m) x = fmlookup (m ++\<^sub>f sub) x"
  proof (cases "fmlookup sub x")
    case None
    then have "\<forall>kv \<in> set (sorted_list_of_fmap sub). (\<lambda>(k, v). Some k) kv \<noteq> Some x"
      by (auto simp: set_sorted_fmap)
    with None show ?thesis by (simp add: f put_miss fmlookup_dom_iff)
  next
    case (Some v)
    then have "fmlookup (fold (put (\<lambda>(k, v). Some k)) (sorted_list_of_fmap sub) m) x = Some v"
      by (intro put_hit [where k = x]) (auto simp: set_sorted_fmap)
    with Some show ?thesis by (simp add: f fmlookup_dom_iff)
  qed
qed

definition enumerates :: "(string \<times> yval) list \<Rightarrow> ymap \<Rightarrow> bool" where
  "enumerates es m \<longleftrightarrow> distinct (map fst es) \<and> (\<forall>k v. (k, v) \<in> set es \<longleftrightarrow> fmlookup m k = Some v)"

lemma enumerates_Nil [simp]: "enumerates [] m \<longleftrightarrow> m = fmempty"
  by (auto simp: enumerates_def intro!: fmap_ext)

lemma enumerates_snoc:
  assumes "enumerates (es @ [(k, v)]) m"
  shows "fmlookup m k = Some v" and "enumerates es (fmdrop k m)"
  using assms by (force simp: enumerates_def)+

lemma enumerates_sorted [simp]: "enumerates (sorted_list_of_fmap m) m"
  by (simp add: enumerates_def set_sorted_fmap)

lemma strategy_not_common [simp]: "isVectorDBStrategy s \<Longrightarrow> s \<notin> set vectorDBCommonKeys"
  by (auto simp: isVectorDBStrategy_def vectorDBGroups_def vectorDBCommonKeys_def split: if_splits)

lemma vectordb_step_app:
  "vectordb_step strategy (k, v) (out, nested) =
     (if k \<in> set vectorDBCommonKeys then (fmupd k v out, nested)
      else if k = strategy then
        (case as_map (Some v) of
           Some sub \<Rightarrow> (out, fold (\<lambda>(sk, sv). fmupd sk sv) (sorted_list_of_fmap sub) nested)
         | None \<Rightarrow> (fmupd k v out, nested))
      else if isVectorDBStrategy k then (fmupd k v out, nested)
      else (out, fmupd k v nested))"
  by (simp add: vectordb_step_def)

lemma vectordb_fold:
  assumes "enumerates es src" and "no_clash strategy src" and "isVectorDBStrategy strategy"
  shows "fold (vectordb_step strategy) es (fmempty, fmempty) =
    (fmfilter (\<lambda>k. \<not> own_setting strategy k \<and>
        \<not> (k = strategy \<and> as_map (fmlookup src k) \<noteq> None)) src,
     fmfilter (own_setting strategy) src ++\<^sub>f sub_block strategy src)"
  using assms
proof (induction es arbitrary: src rule: rev_induct)
  case (snoc e es)
  obtain k v where e: "e = (k, v)" by (cases e)
  note kv = enumerates_snoc [OF snoc.prems(1) [unfolded e]]
  let ?src = "fmdrop k src"
  have sub: "sub_block strategy ?src = (if k = strategy then fmempty else sub_block strategy src)"
    by (simp add: sub_block_def)
  have clash: "fmlookup src x = None \<or> fmlookup (sub_block strategy src) x = None" if "own_setting strategy x" for x
    using snoc.prems(2) that by (auto simp: no_clash_def fmlookup_dom_iff fset_eq_iff)
  have "no_clash strategy ?src"
    using clash by (fastforce simp: no_clash_def sub fmlookup_dom_iff fset_eq_iff split: if_splits)
  note IH = snoc.IH [OF kv(2) this snoc.prems(3)]
  show ?case
  proof (cases "own_setting strategy k")
    case True
    with clash [of k] kv(1) have "fmlookup (sub_block strategy src) k = None" by simp
    with True kv(1) show ?thesis
      by (auto simp: e IH sub vectordb_step_app own_setting_def fmlookup_dom_iff intro!: fmap_ext)
  next
    case False
    show ?thesis
    proof (cases "k = strategy")
      case True
      with kv(1) snoc.prems(3) show ?thesis
        by (cases "as_map (Some v)")
          (auto simp: e IH sub vectordb_step_app fold_fmupd_add sub_block_def own_setting_def
            intro!: fmap_ext)
    next
      case other: False
      with False kv(1) show ?thesis
        by (auto simp: e IH sub vectordb_step_app own_setting_def sub_block_def intro!: fmap_ext)
    qed
  qed
qed (simp add: sub_block_def)

lemma vectordb_loop_lowered:
  assumes "enumerates es src" and "no_clash strategy src" and "isVectorDBStrategy strategy"
  shows "vectordb_loop strategy es = lowered strategy src"
  unfolding vectordb_loop_def lowered_def vectordb_fold [OF assms] Let_def by simp

text \<open>The order in which the runtime enumerates the block does not matter, unless a setting is both
  flat and nested.\<close>

lemma vectordb_order_irrelevant:
  assumes "enumerates es src" and "no_clash (strategy_of src) src"
    and "isVectorDBStrategy (strategy_of src)"
  shows "VectorDBToPlugin (Some (YMap src)) = Some (YMap (vectordb_loop (strategy_of src) es))"
  using assms by (simp add: VectorDBToPlugin_def vectordb_loop_lowered)

lemma vectordb_clash_depends_on_order:
  "\<exists>src es es'. enumerates es src \<and> enumerates es' src \<and>
     vectordb_loop ''redis'' es \<noteq> vectordb_loop ''redis'' es'"
proof (intro exI conjI)
  let ?a = "(''host'', YStr ''a'')" and ?b = "(''redis'', YMap (fmupd ''host'' (YStr ''b'') fmempty))"
  let ?src = "fmupd ''host'' (snd ?a) (fmupd ''redis'' (snd ?b) fmempty)"
  show "enumerates [?a, ?b] ?src" "enumerates [?b, ?a] ?src" by (auto simp: enumerates_def)
  have "vectordb_loop ''redis'' [?a, ?b] = fmupd ''redis'' (YMap (fmupd ''host'' (YStr ''b'') fmempty)) fmempty"
    and "vectordb_loop ''redis'' [?b, ?a] = fmupd ''redis'' (YMap (fmupd ''host'' (YStr ''a'') fmempty)) fmempty"
    by code_simp+
  then have "fmlookup (vectordb_loop ''redis'' [?a, ?b]) ''redis'' \<noteq>
      fmlookup (vectordb_loop ''redis'' [?b, ?a]) ''redis''"
    by (auto dest: arg_cong [where f = "\<lambda>m. fmlookup m ''host''"])
  then show "vectordb_loop ''redis'' [?a, ?b] \<noteq> vectordb_loop ''redis'' [?b, ?a]"
    by metis
qed

section \<open>Round trip and idempotence\<close>

lemma groups_of_cases:
  "isVectorDBStrategy s \<Longrightarrow>
   s = ''pgvector'' \<and> groups_of s = [''ssl''] \<or>
   s = ''redis'' \<and> groups_of s = [''cluster'', ''keepalive'', ''sentinel'']"
  by (auto simp: isVectorDBStrategy_def groups_of_def vectorDBGroups_def split: if_splits)

lemma family_eq: "family grp = {grp} \<union> {k. HasPrefix k (grp @ ''_'')}"
  by (auto simp: family_def group_key_def)

lemma families_disjoint:
  assumes "isVectorDBStrategy s" and "g \<in> set (groups_of s)" and "h \<in> set (groups_of s)" and "g \<noteq> h"
  shows "family g \<inter> family h = {}"
  using groups_of_cases [OF assms(1)] assms(2-4) by (auto simp: family_eq HasPrefix_iff)

lemma groups_distinct: "isVectorDBStrategy s \<Longrightarrow> distinct (groups_of s)"
  by (auto dest: groups_of_cases)

lemma family_prefix: "k \<in> family g \<Longrightarrow> HasPrefix k g"
  by (auto simp: family_eq HasPrefix_iff)

lemma not_own_setting:
  "isVectorDBStrategy s \<Longrightarrow> \<not> own_setting s k \<Longrightarrow>
   k \<in> {''strategy'', ''dimensions'', ''distance_metric'', ''threshold'', ''pgvector'', ''redis''}"
  by (auto simp: own_setting_def vectorDBCommonKeys_def isVectorDBStrategy_def vectorDBGroups_def
      split: if_splits)

lemma family_own:
  assumes "isVectorDBStrategy s" and "g \<in> set (groups_of s)" and "k \<in> family g"
  shows "own_setting s k"
proof (rule ccontr)
  assume "\<not> own_setting s k"
  note k = not_own_setting [OF assms(1) this] and p = family_prefix [OF assms(3)]
  from groups_of_cases [OF assms(1)] assms(2)
  have "g \<in> {''ssl'', ''cluster'', ''keepalive'', ''sentinel''}" by auto
  with k p show False by (elim insertE emptyE; simp)
qed

lemma groupFlatKeys_fold: "groupFlatKeys m gs = fold group_loop_all gs m"
  unfolding groupFlatKeys_def by (rule fold_cong) (auto simp: group_loop_all_def fun_eq_iff)

lemma group_flatten_all:
  assumes "distinct gs" and "\<forall>g \<in> set gs. \<forall>h \<in> set gs. g \<noteq> h \<longrightarrow> family g \<inter> family h = {}"
    and "\<forall>g \<in> set gs. authored_group m g"
  shows "groupFlatKeys (flattenGroups m gs) gs = m"
  using assms unfolding groupFlatKeys_fold flattenGroups_def
proof (induction gs)
  case (Cons g gs)
  have "group_loop_all g (fold flatten_group gs (flatten_group g m)) =
    fold flatten_group gs (group_loop_all g (flatten_group g m))"
    using Cons.prems
    by (intro local_commute_fold [OF local_group_loop, where L = family]) (auto simp: local_flatten)
  with Cons show ?case by (simp add: group_loop_flatten)
qed simp

lemma lookup_add:
  "fmlookup (m ++\<^sub>f n) x = (case fmlookup n x of None \<Rightarrow> fmlookup m x | Some v \<Rightarrow> Some v)"
  by (simp add: fmlookup_dom_iff split: option.split)

lemma flatten_add:
  assumes "\<forall>k \<in> family g. fmlookup out k = None"
  shows "flatten_group g (out ++\<^sub>f n) = out ++\<^sub>f flatten_group g n"
proof (rule fmap_ext)
  fix x
  show "fmlookup (flatten_group g (out ++\<^sub>f n)) x = fmlookup (out ++\<^sub>f flatten_group g n) x"
  proof (cases "x \<in> family g")
    case True
    have "fmlookup (flatten_group g (out ++\<^sub>f n)) x = fmlookup (flatten_group g n) x"
      using assms by (intro local_inside [OF local_flatten _ True]) (simp add: lookup_add del: fmlookup_add split: option.split)
    with True assms show ?thesis by (simp add: lookup_add del: fmlookup_add split: option.split)
  next
    case False
    with local_outside [OF local_flatten] show ?thesis by (simp add: lookup_add del: fmlookup_add)
  qed
qed

lemma flattenGroups_add:
  assumes "\<forall>g \<in> set gs. \<forall>k \<in> family g. fmlookup out k = None"
  shows "flattenGroups (out ++\<^sub>f n) gs = out ++\<^sub>f flattenGroups n gs"
  using assms unfolding flattenGroups_def by (induction gs arbitrary: n) (auto simp: flatten_add)

text \<open>A block in the AI Gateway's shape: a known strategy, no sub-block for it yet, and every group
  either absent or a non-empty object, with none of its keys spelled flat.\<close>

definition authored_block :: "ymap \<Rightarrow> bool" where
  "authored_block v \<longleftrightarrow>
     isVectorDBStrategy (strategy_of v) \<and> fmlookup v (strategy_of v) = None \<and>
     (\<forall>g \<in> set (groups_of (strategy_of v)). authored_group v g)"

lemma lowered_keeps_strategy:
  "isVectorDBStrategy (strategy_of v) \<Longrightarrow> strategy_of (lowered (strategy_of v) v) = strategy_of v"
  using strategy_not_common [of "strategy_of v"]
  by (auto simp: lowered_def Let_def strategy_of_def own_setting_def vectorDBCommonKeys_def)


lemma flatten_nonempty:
  assumes "authored_group m g" and "m \<noteq> fmempty"
  shows "flatten_group g m \<noteq> fmempty"
proof (cases "as_map (fmlookup m g)")
  case (Some f)
  with assms(1) have "f \<noteq> fmempty" by (auto simp: authored_group_def)
  then obtain k v where "fmlookup f k = Some v" by (metis fmap_ext fmempty_lookup not_None_eq)
  with Some flatten_hit [of m g f k v] show ?thesis by auto
qed (use assms in \<open>simp add: flatten_skip\<close>)

lemma flattenGroups_nonempty:
  assumes "distinct gs" and "\<forall>g \<in> set gs. \<forall>h \<in> set gs. g \<noteq> h \<longrightarrow> family g \<inter> family h = {}"
    and "\<forall>g \<in> set gs. authored_group m g" and "m \<noteq> fmempty"
  shows "flattenGroups m gs \<noteq> fmempty"
  using assms unfolding flattenGroups_def
proof (induction gs arbitrary: m)
  case (Cons g gs)
  have "authored_group (flatten_group g m) h" if h: "h \<in> set gs" for h
  proof -
    from Cons.prems h have "family g \<inter> family h = {}" by auto
    then have "fmlookup (flatten_group g m) k = fmlookup m k" if "k \<in> family h" for k
      using that by (intro local_outside [OF local_flatten]) blast
    with Cons.prems(3) h show ?thesis by (auto simp: authored_group_def)
  qed
  with Cons.prems Cons.IH [of "flatten_group g m"] flatten_nonempty [of m g] show ?case by simp
qed simp

lemma lowering_roundtrip:
  assumes "authored_block v"
  shows "VectorDBFromPlugin (VectorDBToPlugin (Some (YMap v))) = Some (YMap v)"
proof -
  let ?s = "strategy_of v" and ?gs = "groups_of (strategy_of v)"
  let ?own = "fmfilter (own_setting ?s) v" and ?out = "fmfilter (\<lambda>k. \<not> own_setting ?s k) v"
  let ?nested = "flattenGroups ?own ?gs"
  from assms have st: "isVectorDBStrategy ?s" and none: "fmlookup v ?s = None"
    and auth: "\<forall>g \<in> set ?gs. authored_group v g" by (auto simp: authored_block_def)
  have split: "?out ++\<^sub>f ?own = v" by (rule fmap_ext) (simp add: lookup_add del: fmlookup_add split: option.split)
  have "no_clash ?s v" by (simp add: no_clash_def sub_block_def none)
  then have to: "VectorDBToPlugin (Some (YMap v)) = Some (YMap (lowered ?s v))"
    using st by (simp add: VectorDBToPlugin_def vectordb_loop_lowered)
  have low: "lowered ?s v = (if fm_empty ?nested then ?out else fmupd ?s (YMap ?nested) ?out)"
  proof -
    have "fmfilter (\<lambda>k. \<not> own_setting ?s k \<and> \<not> (k = ?s \<and> as_map (fmlookup v k) \<noteq> None)) v = ?out"
      by (rule fmap_ext) (use none in auto)
    then show ?thesis by (simp add: lowered_def Let_def sub_block_def none)
  qed
  have disj: "\<forall>g \<in> set ?gs. \<forall>h \<in> set ?gs. g \<noteq> h \<longrightarrow> family g \<inter> family h = {}"
    using families_disjoint [OF st] by blast
  have own: "\<forall>g \<in> set ?gs. authored_group ?own g"
    using auth family_own [OF st] by (auto simp: authored_group_def)
  show ?thesis
  proof (cases "?nested = fmempty")
    case True
    with flattenGroups_nonempty [OF groups_distinct [OF st] disj own] have "?own = fmempty" by blast
    with split have out: "?out = v" by simp
    show ?thesis unfolding to low by (simp add: True out VectorDBFromPlugin_def none)
  next
    case False
    then have low': "lowered ?s v = fmupd ?s (YMap ?nested) ?out" by (simp add: low)
    have "fmlookup ?out ?s = None" by (simp add: none)
    then have drop: "fmdrop ?s (lowered ?s v) = ?out"
      by (auto simp: low' intro!: fmap_ext)
    have sub: "fmlookup (lowered ?s v) ?s = Some (YMap ?nested)" by (simp add: low')
    have "\<forall>g \<in> set ?gs. \<forall>k \<in> family g. fmlookup ?out k = None"
      using family_own [OF st] by simp
    then have "?out ++\<^sub>f ?nested = flattenGroups v ?gs"
      using flattenGroups_add [of ?gs ?out ?own] split by simp
    moreover have "groupFlatKeys (flattenGroups v ?gs) ?gs = v"
      by (rule group_flatten_all [OF groups_distinct [OF st] disj auth])
    ultimately show ?thesis
      unfolding to by (simp add: VectorDBFromPlugin_def lowered_keeps_strategy [OF st] drop sub)
  qed
qed


text \<open>C27: a block authored in the AI Gateway's shape survives lowering to the plugin's shape and
  lifting back; the lowered block carries no setting of the strategy outside the strategy's own
  sub-block.\<close>

theorem vectordb_roundtrip:
  assumes "authored_block v"
  shows "VectorDBFromPlugin (VectorDBToPlugin (Some (YMap v))) = Some (YMap v) \<and>
    (\<exists>low. VectorDBToPlugin (Some (YMap v)) = Some (YMap low) \<and>
       (\<forall>k. fmlookup low k \<noteq> None \<longrightarrow> \<not> own_setting (strategy_of v) k))"
proof -
  from assms have st: "isVectorDBStrategy (strategy_of v)" and "no_clash (strategy_of v) v"
    by (auto simp: authored_block_def no_clash_def sub_block_def)
  then have "VectorDBToPlugin (Some (YMap v)) = Some (YMap (lowered (strategy_of v) v))"
    by (simp add: VectorDBToPlugin_def vectordb_loop_lowered)
  moreover have "\<not> own_setting (strategy_of v) k"
    if "fmlookup (lowered (strategy_of v) v) k \<noteq> None" for k
    using that by (auto simp: lowered_def Let_def own_setting_def split: if_splits)
  ultimately show ?thesis using lowering_roundtrip [OF assms] by blast
qed

definition sample_block :: ymap where
  "sample_block = fmap_of_list
     [(''strategy'', YStr ''pgvector''), (''dimensions'', YInt 1024), (''host'', YStr ''db''),
      (''ssl'', YMap (fmap_of_list [(''enabled'', YBool True), (''verify'', YBool False)]))]"

theorem vectordb_roundtrip_witness:
  "VectorDBFromPlugin (VectorDBToPlugin (Some (YMap sample_block))) = Some (YMap sample_block)"
proof -
  have s: "strategy_of sample_block = ''pgvector''" by code_simp
  have "authored_group sample_block ''ssl''"
    by (auto simp: authored_group_def sample_block_def family_eq HasPrefix_iff fmap_of_list.rep_eq
        dest: arg_cong [where f = "\<lambda>m. fmlookup m ''enabled''"])
  then have "authored_block sample_block"
    unfolding authored_block_def s
    by (simp add: isVectorDBStrategy_def groups_of_def vectorDBGroups_def)
      (simp add: sample_block_def)
  from vectordb_roundtrip [OF this] show ?thesis by simp
qed

lemma flattenGroups_at:
  assumes "distinct gs" and "\<forall>g \<in> set gs. \<forall>h \<in> set gs. g \<noteq> h \<longrightarrow> family g \<inter> family h = {}"
    and "g \<in> set gs" and "x \<in> family g"
  shows "fmlookup (flattenGroups m gs) x = fmlookup (flatten_group g m) x"
  using assms unfolding flattenGroups_def
proof (induction gs arbitrary: m)
  case (Cons h gs)
  have other: "fmlookup (flatten_group h' m) x = fmlookup m x"
    if "h' \<noteq> g" "h' \<in> set (h # gs)" for h' m
    using that Cons.prems by (intro local_outside [OF local_flatten]) blast
  have rest: "fmlookup (fold flatten_group hs m) x = fmlookup m x"
    if "g \<notin> set hs" "set hs \<subseteq> set (h # gs)" for hs m
    using that
  proof (induction hs arbitrary: m)
    case (Cons a hs)
    have "fmlookup (flatten_group a m) x = fmlookup m x" for m
      by (rule other) (use Cons.prems in auto)
    with Cons show ?case by simp
  qed simp
  show ?case
  proof (cases "g = h")
    case True
    with Cons.prems rest [of gs] show ?thesis by auto
  next
    case False
    with Cons.prems have g: "g \<in> set gs" by simp
    then have "fmlookup (fold flatten_group gs (flatten_group h m)) x =
      fmlookup (flatten_group g (flatten_group h m)) x"
      using Cons by auto
    also have "\<dots> = fmlookup (flatten_group g m) x"
      by (rule local_inside [OF local_flatten _ Cons.prems(4)])
        (use False Cons.prems(2) g in \<open>auto intro!: local_outside [OF local_flatten]\<close>)
    finally show ?thesis by simp
  qed
qed simp

text \<open>No group's \<open>enabled\<close> flag is itself an object.\<close>

definition plain_flags :: "ymap \<Rightarrow> bool" where
  "plain_flags src \<longleftrightarrow> (\<forall>g \<in> set (groups_of (strategy_of src)). \<forall>f.
     (fmlookup src g = Some (YMap f) \<or>
      fmlookup (sub_block (strategy_of src) src) g = Some (YMap f)) \<longrightarrow>
     as_map (fmlookup f groupEnabledField) = None)"

lemma flattenGroups_skip:
  "\<forall>g \<in> set gs. as_map (fmlookup m g) = None \<Longrightarrow> flattenGroups m gs = m"
  unfolding flattenGroups_def by (induction gs) (auto simp: flatten_skip)

lemma flatten_flag: "fmlookup m g = Some (YMap f) \<Longrightarrow>
    fmlookup (flatten_group g m) g = fmlookup f groupEnabledField"
proof (cases "fmlookup f groupEnabledField")
  case None
  assume g: "fmlookup m g = Some (YMap f)"
  have "flat_key g k \<noteq> g" if "fmlookup f k \<noteq> None" for k
    using that None by (auto simp: flat_key_def)
  with flatten_miss [OF g] None show ?thesis by simp
next
  case (Some v)
  assume "fmlookup m g = Some (YMap f)"
  from flatten_hit [OF this Some] Some show ?thesis by (simp add: flat_key_def)
qed

lemma lowered_again:
  assumes st: "isVectorDBStrategy (strategy_of src)" and flags: "plain_flags src"
  shows "lowered (strategy_of src) (lowered (strategy_of src) src) = lowered (strategy_of src) src"
    and "no_clash (strategy_of src) (lowered (strategy_of src) src)"
proof -
  let ?s = "strategy_of src" and ?gs = "groups_of (strategy_of src)"
  let ?n = "fmfilter (own_setting ?s) src ++\<^sub>f sub_block ?s src"
  let ?nested = "flattenGroups ?n ?gs" and ?r = "lowered ?s src"
  have own: "fmfilter (own_setting ?s) ?r = fmempty"
    by (rule fmap_ext) (auto simp: lowered_def Let_def own_setting_def)
  then show "no_clash ?s ?r" by (simp add: no_clash_def)
  have disj: "\<forall>g \<in> set ?gs. \<forall>h \<in> set ?gs. g \<noteq> h \<longrightarrow> family g \<inter> family h = {}"
    using families_disjoint [OF st] by blast
  have plain: "as_map (fmlookup ?nested g) = None" if g: "g \<in> set ?gs" for g
  proof -
    have at: "fmlookup ?nested g = fmlookup (flatten_group g ?n) g"
      by (rule flattenGroups_at [OF groups_distinct [OF st] disj g self_family])
    show ?thesis
    proof (cases "as_map (fmlookup ?n g)")
      case None
      then show ?thesis by (simp add: at flatten_skip)
    next
      case (Some f)
      then have "fmlookup src g = Some (YMap f) \<or> fmlookup (sub_block ?s src) g = Some (YMap f)"
        by (auto simp: lookup_add simp del: fmlookup_add split: option.splits if_splits)
      with flags g have "as_map (fmlookup f groupEnabledField) = None"
        unfolding plain_flags_def by blast
      with Some flatten_flag [of ?n g f] show ?thesis by (simp add: at)
    qed
  qed
  have sub: "sub_block ?s ?r = ?nested"
    by (auto simp: sub_block_def lowered_def Let_def split: option.splits if_splits)
  have "lowered ?s ?r =
    (let out = fmfilter (\<lambda>k. \<not> own_setting ?s k \<and> \<not> (k = ?s \<and> as_map (fmlookup ?r k) \<noteq> None)) ?r
     in if fm_empty ?nested then out else fmupd ?s (YMap ?nested) out)"
    unfolding lowered_def [of ?s ?r] own sub by (simp add: flattenGroups_skip plain)
  also have "\<dots> = ?r"
    by (rule fmap_ext) (auto simp: lowered_def Let_def own_setting_def)
  finally show "lowered ?s ?r = ?r" .
qed

text \<open>Lowering is idempotent, as its comment promises, for every value the model may carry in
  which no setting is both flat and nested and no group's flag is an object.\<close>

theorem vectordb_lowering_idempotent:
  assumes "\<forall>src. raw = Some (YMap src) \<longrightarrow> no_clash (strategy_of src) src \<and> plain_flags src"
  shows "VectorDBToPlugin (VectorDBToPlugin raw) = VectorDBToPlugin raw"
proof (cases "\<exists>src. raw = Some (YMap src) \<and> isVectorDBStrategy (strategy_of src)")
  case True
  then obtain src where raw: "raw = Some (YMap src)" and st: "isVectorDBStrategy (strategy_of src)"
    by blast
  from assms raw have c: "no_clash (strategy_of src) src" "plain_flags src" by auto
  from raw st c(1) have "VectorDBToPlugin raw = Some (YMap (lowered (strategy_of src) src))"
    by (simp add: VectorDBToPlugin_def vectordb_loop_lowered)
  then show ?thesis
    using st lowered_again(1) [OF st c(2)] lowered_keeps_strategy [OF st]
      vectordb_loop_lowered [OF enumerates_sorted lowered_again(2) [OF st c(2)] st]
    by (simp add: VectorDBToPlugin_def)
next
  case False
  then have "VectorDBToPlugin raw = raw"
    by (cases "as_map raw") (auto simp: VectorDBToPlugin_def)
  then show ?thesis by simp
qed

theorem vectordb_lowering_idempotent_witness:
  "VectorDBToPlugin (VectorDBToPlugin (Some (YMap sample_block))) =
     VectorDBToPlugin (Some (YMap sample_block))"
proof -
  have s: "strategy_of sample_block = ''pgvector''" by code_simp
  have "no_clash (strategy_of sample_block) sample_block"
    unfolding s no_clash_def by (simp add: sub_block_def) (simp add: sample_block_def)
  moreover have "plain_flags sample_block"
    unfolding plain_flags_def s
    by (simp add: groups_of_def vectorDBGroups_def sub_block_def) (simp add: sample_block_def)
  ultimately show ?thesis by (intro vectordb_lowering_idempotent) auto
qed

end
