(* ===== verification/Token_Vault.thy ===== *)
theory Token_Vault
  imports Go_Prelude
begin

text \<open>
  The Token Vault mapping (\<open>src/internal/aimap/tokenvault.go\<close>) with the source types of
  \<open>src/internal/aigw/mcp.go\<close>, and the smaller shared MCP tables: rate limiting
  (\<open>mcp_ratelimit.go\<close>), access (\<open>mcp_access.go\<close>), the toolset gate (\<open>mcp_gate.go\<close>), the OAuth2
  field table (\<open>mcp_oauth2.go\<close>) and the AWS key table (\<open>upstreamauth.go\<close>).

  A nil pointer is None and a nil map or slice is the empty one, where the code tells them apart only
  by their length.  The round trips are stated with a normal form: what a block loses on the way
  is exactly what \<open>normal_redis\<close> and \<open>normal_vault\<close> drop.
\<close>

section \<open>Writers and readers of a decoded block\<close>

definition setStr :: "ymap \<Rightarrow> string \<Rightarrow> string \<Rightarrow> ymap" where
  "setStr m k v = (if v \<noteq> [] then fmupd k (YStr v) m else m)"

definition setInt :: "ymap \<Rightarrow> string \<Rightarrow> int option \<Rightarrow> ymap" where
  "setInt m k v = (case v of None \<Rightarrow> m | Some i \<Rightarrow> fmupd k (YInt i) m)"

definition setBool :: "ymap \<Rightarrow> string \<Rightarrow> bool option \<Rightarrow> ymap" where
  "setBool m k v = (case v of None \<Rightarrow> m | Some b \<Rightarrow> fmupd k (YBool b) m)"

text \<open>\<open>out[k] = v\<close> guarded by \<open>v != nil\<close>.\<close>

definition set_opt :: "ymap \<Rightarrow> string \<Rightarrow> yval option \<Rightarrow> ymap" where
  "set_opt m k v = (case v of None \<Rightarrow> m | Some x \<Rightarrow> fmupd k x m)"

definition getAnyStr :: "ymap \<Rightarrow> string \<Rightarrow> string" where
  "getAnyStr m k = or_else (as_str (fmlookup m k)) []"

definition getAnyMap :: "ymap \<Rightarrow> string \<Rightarrow> ymap option" where
  "getAnyMap m k = as_map (fmlookup m k)"

definition getAnySlice :: "ymap \<Rightarrow> string \<Rightarrow> yval list option" where
  "getAnySlice m k =
     (case fmlookup m k of
        Some (YList l) \<Rightarrow> Some l
      | Some (YMaps ms) \<Rightarrow> Some (map YMap ms)
      | Some (YStrs ss) \<Rightarrow> Some (map YStr ss)
      | _ \<Rightarrow> None)"

definition getAnyIntPtr :: "ymap \<Rightarrow> string \<Rightarrow> int option" where
  "getAnyIntPtr m k = as_int (fmlookup m k)"

definition getAnyBoolPtr :: "ymap \<Rightarrow> string \<Rightarrow> bool option" where
  "getAnyBoolPtr m k = as_bool (fmlookup m k)"

definition getAnyStrPtr :: "ymap \<Rightarrow> string \<Rightarrow> string option" where
  "getAnyStrPtr m k = as_str (fmlookup m k)"

named_theorems block_lookup

lemma setStr_lookup [block_lookup]:
  "fmlookup (setStr m k v) x = (if x = k \<and> v \<noteq> [] then Some (YStr v) else fmlookup m x)"
  by (simp add: setStr_def)

lemma setInt_lookup [block_lookup]:
  "fmlookup (setInt m k v) x = (if x = k \<and> v \<noteq> None then Some (YInt (the v)) else fmlookup m x)"
  by (auto simp: setInt_def split: option.splits)

lemma setBool_lookup [block_lookup]:
  "fmlookup (setBool m k v) x = (if x = k \<and> v \<noteq> None then Some (YBool (the v)) else fmlookup m x)"
  by (auto simp: setBool_def split: option.splits)

lemma set_opt_lookup [block_lookup]:
  "fmlookup (set_opt m k v) x = (if x = k \<and> v \<noteq> None then v else fmlookup m x)"
  by (auto simp: set_opt_def split: option.splits)

section \<open>Redis connections\<close>

record RedisKeepaliveConfig =
  ka_PoolSize :: "int option"
  ka_Backlog :: "int option"

record RedisNode =
  rn_Host :: string
  rn_IP :: string
  rn_Port :: "int option"

record RedisSentinelConfig =
  se_Master :: string
  se_Role :: string
  se_Username :: string
  se_Password :: string
  se_Nodes :: "RedisNode list"

record RedisClusterConfig =
  cl_MaxRedirections :: "int option"
  cl_Nodes :: "RedisNode list"

record RedisCloudAuthentication =
  ca_Type :: string
  ca_AccessKeyID :: string
  ca_SecretAccessKey :: string
  ca_CacheName :: string
  ca_IsServerless :: "bool option"
  ca_Region :: string
  ca_AssumeRoleARN :: string
  ca_RoleSessionName :: string
  ca_ClientID :: string
  ca_ClientSecret :: string
  ca_TenantID :: string
  ca_ServiceAccountJSON :: string

record RedisCloudConfig =
  rc_Host :: string
  rc_Port :: "int option"
  rc_Database :: "int option"
  rc_Username :: string
  rc_Password :: string
  rc_SSL :: "bool option"
  rc_SSLVerify :: "bool option"
  rc_ServerName :: string
  rc_ConnectionIsProxied :: "bool option"
  rc_ConnectTimeout :: "int option"
  rc_ReadTimeout :: "int option"
  rc_SendTimeout :: "int option"
  rc_Keepalive :: "RedisKeepaliveConfig option"
  rc_Sentinel :: "RedisSentinelConfig option"
  rc_Cluster :: "RedisClusterConfig option"
  rc_CloudAuthentication :: "RedisCloudAuthentication option"

definition sentinelNodeHost :: "RedisNode \<Rightarrow> string" where
  "sentinelNodeHost n = (if rn_Host n \<noteq> [] then rn_Host n else rn_IP n)"

definition clusterNodeIP :: "RedisNode \<Rightarrow> string" where
  "clusterNodeIP n = (if rn_IP n \<noteq> [] then rn_IP n else rn_Host n)"

definition sentinelNodesToPlugin :: "RedisNode list \<Rightarrow> ymap list option" where
  "sentinelNodesToPlugin nodes =
     (if nodes = [] then None
      else Some (map (\<lambda>n. setInt (setStr fmempty ''host'' (sentinelNodeHost n)) ''port'' (rn_Port n)) nodes))"

definition clusterNodesToPlugin :: "RedisNode list \<Rightarrow> ymap list option" where
  "clusterNodesToPlugin nodes =
     (if nodes = [] then None
      else Some (map (\<lambda>n. setInt (setStr fmempty ''ip'' (clusterNodeIP n)) ''port'' (rn_Port n)) nodes))"

text \<open>The string fields of the cloud authentication block, with the plugin's names for them.  The
  row of \<open>is_serverless\<close> is skipped by both loops over the table, because their string maps have no
  such key; the boolean is handled after the loop.\<close>

definition redisCloudAuthKeys :: "(string \<times> string) list" where
  "redisCloudAuthKeys =
     [(''access_key_id'', ''aws_access_key_id''),
      (''secret_access_key'', ''aws_secret_access_key''),
      (''cache_name'', ''aws_cache_name''),
      (''is_serverless'', ''aws_is_serverless''),
      (''region'', ''aws_region''),
      (''assume_role_arn'', ''aws_assume_role_arn''),
      (''role_session_name'', ''aws_role_session_name''),
      (''client_id'', ''azure_client_id''),
      (''client_secret'', ''azure_client_secret''),
      (''tenant_id'', ''azure_tenant_id''),
      (''service_account_json'', ''gcp_service_account_json'')]"

definition cloud_strs :: "RedisCloudAuthentication \<Rightarrow> (string \<times> string) list" where
  "cloud_strs a =
     [(''access_key_id'', ca_AccessKeyID a),
      (''secret_access_key'', ca_SecretAccessKey a),
      (''cache_name'', ca_CacheName a),
      (''region'', ca_Region a),
      (''assume_role_arn'', ca_AssumeRoleARN a),
      (''role_session_name'', ca_RoleSessionName a),
      (''client_id'', ca_ClientID a),
      (''client_secret'', ca_ClientSecret a),
      (''tenant_id'', ca_TenantID a),
      (''service_account_json'', ca_ServiceAccountJSON a)]"

definition cloudAuthToPlugin :: "RedisCloudAuthentication option \<Rightarrow> ymap option" where
  "cloudAuthToPlugin auth =
     (case auth of
        None \<Rightarrow> None
      | Some a \<Rightarrow>
          (let out = setStr fmempty ''auth_provider'' (ca_Type a);
               out = fold (\<lambda>(g, p) out.
                       case map_of (cloud_strs a) g of
                         Some v \<Rightarrow> if v \<noteq> [] then fmupd p (YStr v) out else out
                       | None \<Rightarrow> out) redisCloudAuthKeys out;
               out = setBool out ''aws_is_serverless'' (ca_IsServerless a)
           in if fm_empty out then None else Some out))"

definition plugin_key :: "string \<Rightarrow> string" where
  "plugin_key g = or_else (map_of redisCloudAuthKeys g) []"

definition cloud_fields :: "ymap \<Rightarrow> RedisCloudAuthentication" where
  "cloud_fields block =
     (let get = (\<lambda>g. getAnyStr block (plugin_key g)) in
      \<lparr>ca_Type = getAnyStr block ''auth_provider'',
       ca_AccessKeyID = get ''access_key_id'',
       ca_SecretAccessKey = get ''secret_access_key'',
       ca_CacheName = get ''cache_name'',
       ca_IsServerless = getAnyBoolPtr block ''aws_is_serverless'',
       ca_Region = get ''region'',
       ca_AssumeRoleARN = get ''assume_role_arn'',
       ca_RoleSessionName = get ''role_session_name'',
       ca_ClientID = get ''client_id'',
       ca_ClientSecret = get ''client_secret'',
       ca_TenantID = get ''tenant_id'',
       ca_ServiceAccountJSON = get ''service_account_json''\<rparr>)"

definition cloudAuthFromPlugin :: "ymap option \<Rightarrow> RedisCloudAuthentication option" where
  "cloudAuthFromPlugin block =
     (case block of
        None \<Rightarrow> None
      | Some b \<Rightarrow> if fm_empty b then None else Some (cloud_fields b))"

text \<open>The blocks of \<open>TokenVaultRedisToPlugin\<close>, in order.\<close>

definition redis_base :: "RedisCloudConfig \<Rightarrow> ymap \<Rightarrow> ymap" where
  "redis_base r out =
     (let out = setStr out ''host'' (rc_Host r);
          out = setInt out ''port'' (rc_Port r);
          out = setInt out ''database'' (rc_Database r);
          out = setStr out ''username'' (rc_Username r);
          out = setStr out ''password'' (rc_Password r);
          out = setBool out ''ssl'' (rc_SSL r);
          out = setBool out ''ssl_verify'' (rc_SSLVerify r);
          out = setStr out ''server_name'' (rc_ServerName r);
          out = setBool out ''connection_is_proxied'' (rc_ConnectionIsProxied r);
          out = setInt out ''connect_timeout'' (rc_ConnectTimeout r);
          out = setInt out ''read_timeout'' (rc_ReadTimeout r)
      in setInt out ''send_timeout'' (rc_SendTimeout r))"

definition redis_keepalive :: "RedisCloudConfig \<Rightarrow> ymap \<Rightarrow> ymap" where
  "redis_keepalive r out =
     (case rc_Keepalive r of
        None \<Rightarrow> out
      | Some k \<Rightarrow> setInt (setInt out ''keepalive_pool_size'' (ka_PoolSize k))
                    ''keepalive_backlog'' (ka_Backlog k))"

definition redis_sentinel :: "RedisCloudConfig \<Rightarrow> ymap \<Rightarrow> ymap" where
  "redis_sentinel r out =
     (case rc_Sentinel r of
        None \<Rightarrow> out
      | Some s \<Rightarrow>
          (let out = setStr out ''sentinel_master'' (se_Master s);
               out = setStr out ''sentinel_role'' (se_Role s);
               out = setStr out ''sentinel_username'' (se_Username s);
               out = setStr out ''sentinel_password'' (se_Password s)
           in set_opt out ''sentinel_nodes'' (map_option YMaps (sentinelNodesToPlugin (se_Nodes s)))))"

definition redis_cluster :: "RedisCloudConfig \<Rightarrow> ymap \<Rightarrow> ymap" where
  "redis_cluster r out =
     (case rc_Cluster r of
        None \<Rightarrow> out
      | Some c \<Rightarrow>
          (let out = setInt out ''cluster_max_redirections'' (cl_MaxRedirections c)
           in set_opt out ''cluster_nodes'' (map_option YMaps (clusterNodesToPlugin (cl_Nodes c)))))"

definition redis_cloud :: "RedisCloudConfig \<Rightarrow> ymap \<Rightarrow> ymap" where
  "redis_cloud r out =
     set_opt out ''cloud_authentication'' (map_option YMap (cloudAuthToPlugin (rc_CloudAuthentication r)))"

definition TokenVaultRedisToPlugin :: "RedisCloudConfig option \<Rightarrow> ymap option" where
  "TokenVaultRedisToPlugin redis =
     (case redis of
        None \<Rightarrow> None
      | Some r \<Rightarrow>
          (let out = redis_base r fmempty;
               out = redis_keepalive r out;
               out = redis_sentinel r out;
               out = redis_cluster r out;
               out = redis_cloud r out
           in if fm_empty out then None else Some out))"

definition node_from :: "(ymap \<Rightarrow> RedisNode) \<Rightarrow> yval list \<Rightarrow> RedisNode list" where
  "node_from mk raws = concat (map (\<lambda>raw. case as_map (Some raw) of None \<Rightarrow> [] | Some n \<Rightarrow> [mk n]) raws)"

definition sentinel_node :: "ymap \<Rightarrow> RedisNode" where
  "sentinel_node n = \<lparr>rn_Host = getAnyStr n ''host'', rn_IP = [], rn_Port = getAnyIntPtr n ''port''\<rparr>"

definition cluster_node :: "ymap \<Rightarrow> RedisNode" where
  "cluster_node n = \<lparr>rn_Host = [], rn_IP = getAnyStr n ''ip'', rn_Port = getAnyIntPtr n ''port''\<rparr>"

text \<open>A map entry holding a null reads as nil.\<close>

definition present :: "ymap \<Rightarrow> string \<Rightarrow> bool" where
  "present m k = (case fmlookup m k of None \<Rightarrow> False | Some YNull \<Rightarrow> False | _ \<Rightarrow> True)"

definition keepalive_from :: "ymap \<Rightarrow> RedisKeepaliveConfig option" where
  "keepalive_from block =
     (if present block ''keepalive_pool_size'' \<or> present block ''keepalive_backlog''
      then Some \<lparr>ka_PoolSize = getAnyIntPtr block ''keepalive_pool_size'',
                 ka_Backlog = getAnyIntPtr block ''keepalive_backlog''\<rparr>
      else None)"

definition sentinel_from :: "ymap \<Rightarrow> RedisSentinelConfig option" where
  "sentinel_from block =
     (let master = getAnyStr block ''sentinel_master'';
          role = getAnyStr block ''sentinel_role'';
          username = getAnyStr block ''sentinel_username'';
          password = getAnyStr block ''sentinel_password'';
          nodes = getAnySlice block ''sentinel_nodes''
      in if master \<noteq> [] \<or> role \<noteq> [] \<or> username \<noteq> [] \<or> password \<noteq> [] \<or> nodes \<noteq> None
         then Some \<lparr>se_Master = master, se_Role = role, se_Username = username,
                    se_Password = password,
                    se_Nodes = node_from sentinel_node (or_else nodes [])\<rparr>
         else None)"

definition cluster_from :: "ymap \<Rightarrow> RedisClusterConfig option" where
  "cluster_from block =
     (let redirections = getAnyIntPtr block ''cluster_max_redirections'';
          nodes = getAnySlice block ''cluster_nodes''
      in if redirections \<noteq> None \<or> nodes \<noteq> None
         then Some \<lparr>cl_MaxRedirections = redirections,
                    cl_Nodes = node_from cluster_node (or_else nodes [])\<rparr>
         else None)"

definition redis_fields :: "ymap \<Rightarrow> RedisCloudConfig" where
  "redis_fields block =
     \<lparr>rc_Host = getAnyStr block ''host'',
      rc_Port = getAnyIntPtr block ''port'',
      rc_Database = getAnyIntPtr block ''database'',
      rc_Username = getAnyStr block ''username'',
      rc_Password = getAnyStr block ''password'',
      rc_SSL = getAnyBoolPtr block ''ssl'',
      rc_SSLVerify = getAnyBoolPtr block ''ssl_verify'',
      rc_ServerName = getAnyStr block ''server_name'',
      rc_ConnectionIsProxied = getAnyBoolPtr block ''connection_is_proxied'',
      rc_ConnectTimeout = getAnyIntPtr block ''connect_timeout'',
      rc_ReadTimeout = getAnyIntPtr block ''read_timeout'',
      rc_SendTimeout = getAnyIntPtr block ''send_timeout'',
      rc_Keepalive = keepalive_from block,
      rc_Sentinel = sentinel_from block,
      rc_Cluster = cluster_from block,
      rc_CloudAuthentication = cloudAuthFromPlugin (getAnyMap block ''cloud_authentication'')\<rparr>"

definition TokenVaultRedisFromPlugin :: "ymap option \<Rightarrow> RedisCloudConfig option" where
  "TokenVaultRedisFromPlugin block =
     (case block of
        None \<Rightarrow> None
      | Some b \<Rightarrow> if fm_empty b then None else Some (redis_fields b))"


section \<open>What survives the trip\<close>

definition normal_keepalive :: "RedisKeepaliveConfig \<Rightarrow> RedisKeepaliveConfig option" where
  "normal_keepalive k = (if ka_PoolSize k = None \<and> ka_Backlog k = None then None else Some k)"

definition normal_sentinel :: "RedisSentinelConfig \<Rightarrow> RedisSentinelConfig option" where
  "normal_sentinel s =
     (if se_Master s = [] \<and> se_Role s = [] \<and> se_Username s = [] \<and> se_Password s = [] \<and> se_Nodes s = []
      then None
      else Some (s\<lparr>se_Nodes := map (\<lambda>n. \<lparr>rn_Host = sentinelNodeHost n, rn_IP = [],
                                          rn_Port = rn_Port n\<rparr>) (se_Nodes s)\<rparr>))"

definition normal_cluster :: "RedisClusterConfig \<Rightarrow> RedisClusterConfig option" where
  "normal_cluster c =
     (if cl_MaxRedirections c = None \<and> cl_Nodes c = [] then None
      else Some (c\<lparr>cl_Nodes := map (\<lambda>n. \<lparr>rn_Host = [], rn_IP = clusterNodeIP n,
                                          rn_Port = rn_Port n\<rparr>) (cl_Nodes c)\<rparr>))"

definition zero_cloud :: RedisCloudAuthentication where
  "zero_cloud = \<lparr>ca_Type = [], ca_AccessKeyID = [], ca_SecretAccessKey = [], ca_CacheName = [],
     ca_IsServerless = None, ca_Region = [], ca_AssumeRoleARN = [], ca_RoleSessionName = [],
     ca_ClientID = [], ca_ClientSecret = [], ca_TenantID = [], ca_ServiceAccountJSON = []\<rparr>"

definition normal_cloud :: "RedisCloudAuthentication \<Rightarrow> RedisCloudAuthentication option" where
  "normal_cloud a = (if a = zero_cloud then None else Some a)"

definition normal_redis :: "RedisCloudConfig \<Rightarrow> RedisCloudConfig" where
  "normal_redis r =
     r\<lparr>rc_Keepalive := Option.bind (rc_Keepalive r) normal_keepalive,
       rc_Sentinel := Option.bind (rc_Sentinel r) normal_sentinel,
       rc_Cluster := Option.bind (rc_Cluster r) normal_cluster,
       rc_CloudAuthentication := Option.bind (rc_CloudAuthentication r) normal_cloud\<rparr>"

definition zero_redis :: RedisCloudConfig where
  "zero_redis = \<lparr>rc_Host = [], rc_Port = None, rc_Database = None, rc_Username = [],
     rc_Password = [], rc_SSL = None, rc_SSLVerify = None, rc_ServerName = [],
     rc_ConnectionIsProxied = None, rc_ConnectTimeout = None, rc_ReadTimeout = None,
     rc_SendTimeout = None, rc_Keepalive = None, rc_Sentinel = None, rc_Cluster = None,
     rc_CloudAuthentication = None\<rparr>"

text \<open>The readers, over the lookups of a written block.\<close>

lemma or_else_str: "or_else (as_str (if v \<noteq> [] then Some (YStr v) else None)) [] = v"
  by simp

lemma as_int_opt: "as_int (if v \<noteq> None then Some (YInt (the v)) else None) = v"
  by (cases v) auto

lemma as_bool_opt: "as_bool (if v \<noteq> None then Some (YBool (the v)) else None) = v"
  by (cases v) auto

text \<open>The loop over the cloud key table stores each field under its plugin name.\<close>

lemma cloud_loop:
  "fold (\<lambda>(g, p) out. case map_of (cloud_strs a) g of
            Some v \<Rightarrow> if v \<noteq> [] then fmupd p (YStr v) out else out | None \<Rightarrow> out)
     redisCloudAuthKeys m =
   (let m = setStr m ''aws_access_key_id'' (ca_AccessKeyID a);
        m = setStr m ''aws_secret_access_key'' (ca_SecretAccessKey a);
        m = setStr m ''aws_cache_name'' (ca_CacheName a);
        m = setStr m ''aws_region'' (ca_Region a);
        m = setStr m ''aws_assume_role_arn'' (ca_AssumeRoleARN a);
        m = setStr m ''aws_role_session_name'' (ca_RoleSessionName a);
        m = setStr m ''azure_client_id'' (ca_ClientID a);
        m = setStr m ''azure_client_secret'' (ca_ClientSecret a);
        m = setStr m ''azure_tenant_id'' (ca_TenantID a)
    in setStr m ''gcp_service_account_json'' (ca_ServiceAccountJSON a))"
  by (simp add: redisCloudAuthKeys_def cloud_strs_def setStr_def Let_def del: fmupd_lookup)

definition cloud_block :: "RedisCloudAuthentication \<Rightarrow> ymap" where
  "cloud_block a =
     (let m = setStr fmempty ''auth_provider'' (ca_Type a);
        m = setStr m ''aws_access_key_id'' (ca_AccessKeyID a);
        m = setStr m ''aws_secret_access_key'' (ca_SecretAccessKey a);
        m = setStr m ''aws_cache_name'' (ca_CacheName a);
        m = setStr m ''aws_region'' (ca_Region a);
        m = setStr m ''aws_assume_role_arn'' (ca_AssumeRoleARN a);
        m = setStr m ''aws_role_session_name'' (ca_RoleSessionName a);
        m = setStr m ''azure_client_id'' (ca_ClientID a);
        m = setStr m ''azure_client_secret'' (ca_ClientSecret a);
        m = setStr m ''azure_tenant_id'' (ca_TenantID a);
        m = setStr m ''gcp_service_account_json'' (ca_ServiceAccountJSON a)
      in setBool m ''aws_is_serverless'' (ca_IsServerless a))"

lemma cloudAuthToPlugin_Some:
  "cloudAuthToPlugin (Some a) = (if cloud_block a = fmempty then None else Some (cloud_block a))"
  by (simp add: cloudAuthToPlugin_def cloud_loop cloud_block_def Let_def)

lemma plugin_keys:
  "plugin_key ''access_key_id'' = ''aws_access_key_id''"
  "plugin_key ''secret_access_key'' = ''aws_secret_access_key''"
  "plugin_key ''cache_name'' = ''aws_cache_name''"
  "plugin_key ''region'' = ''aws_region''"
  "plugin_key ''assume_role_arn'' = ''aws_assume_role_arn''"
  "plugin_key ''role_session_name'' = ''aws_role_session_name''"
  "plugin_key ''client_id'' = ''azure_client_id''"
  "plugin_key ''client_secret'' = ''azure_client_secret''"
  "plugin_key ''tenant_id'' = ''azure_tenant_id''"
  "plugin_key ''service_account_json'' = ''gcp_service_account_json''"
  by (simp_all add: plugin_key_def redisCloudAuthKeys_def)

lemma cloud_fields_block: "cloud_fields (cloud_block a) = a"
  unfolding cloud_fields_def cloud_block_def plugin_keys Let_def getAnyStr_def getAnyBoolPtr_def
  by (simp add: block_lookup as_bool_opt)

lemma cloud_fields_empty: "cloud_fields fmempty = zero_cloud"
  by (simp add: cloud_fields_def zero_cloud_def getAnyStr_def getAnyBoolPtr_def Let_def)

lemma cloud_block_empty: "cloud_block a = fmempty \<longleftrightarrow> a = zero_cloud"
proof
  assume "cloud_block a = fmempty"
  then show "a = zero_cloud" using cloud_fields_block [of a] cloud_fields_empty by simp
next
  assume "a = zero_cloud"
  then show "cloud_block a = fmempty"
    by (simp add: cloud_block_def zero_cloud_def setStr_def setBool_def Let_def)
qed

lemma cloud_roundtrip:
  "cloudAuthFromPlugin (cloudAuthToPlugin c) = Option.bind c normal_cloud"
  by (cases c)
    (auto simp: cloudAuthToPlugin_Some cloudAuthFromPlugin_def cloud_block_empty normal_cloud_def
      cloud_fields_block cloudAuthToPlugin_def [of None])


lemma node_from_maps [simp]: "node_from mk (map YMap ms) = map mk ms"
  by (induction ms) (auto simp: node_from_def)

lemma node_from_written [simp]:
  "node_from mk [] = []" "node_from mk (map (YMap \<circ> f) ns) = map (\<lambda>n. mk (f n)) ns"
  by (simp add: node_from_def) (induction ns, auto simp: node_from_def)

lemma sentinel_node_written:
  "sentinel_node (setInt (setStr fmempty ''host'' h) ''port'' p) =
     \<lparr>rn_Host = h, rn_IP = [], rn_Port = p\<rparr>"
  unfolding sentinel_node_def getAnyStr_def getAnyIntPtr_def by (simp add: block_lookup as_int_opt)

lemma cluster_node_written:
  "cluster_node (setInt (setStr fmempty ''ip'' h) ''port'' p) =
     \<lparr>rn_Host = [], rn_IP = h, rn_Port = p\<rparr>"
  unfolding cluster_node_def getAnyStr_def getAnyIntPtr_def by (simp add: block_lookup as_int_opt)

text \<open>Lookups of the finished Redis block, one lemma per part of the writer.\<close>

lemma redis_base_lookup:
  "fmlookup (redis_base r m) k =
     (let get = map_of
        [(''host'', if rc_Host r \<noteq> [] then Some (YStr (rc_Host r)) else None),
         (''port'', map_option YInt (rc_Port r)),
         (''database'', map_option YInt (rc_Database r)),
         (''username'', if rc_Username r \<noteq> [] then Some (YStr (rc_Username r)) else None),
         (''password'', if rc_Password r \<noteq> [] then Some (YStr (rc_Password r)) else None),
         (''ssl'', map_option YBool (rc_SSL r)),
         (''ssl_verify'', map_option YBool (rc_SSLVerify r)),
         (''server_name'', if rc_ServerName r \<noteq> [] then Some (YStr (rc_ServerName r)) else None),
         (''connection_is_proxied'', map_option YBool (rc_ConnectionIsProxied r)),
         (''connect_timeout'', map_option YInt (rc_ConnectTimeout r)),
         (''read_timeout'', map_option YInt (rc_ReadTimeout r)),
         (''send_timeout'', map_option YInt (rc_SendTimeout r))]
      in case Option.bind (get k) (\<lambda>v. v) of None \<Rightarrow> fmlookup m k | Some v \<Rightarrow> Some v)"
  unfolding redis_base_def Let_def
  by (simp add: block_lookup option.map_sel split: option.split)

lemma redis_keepalive_lookup:
  "k \<notin> {''keepalive_pool_size'', ''keepalive_backlog''} \<Longrightarrow>
   fmlookup (redis_keepalive r m) k = fmlookup m k"
  by (auto simp: redis_keepalive_def block_lookup split: option.split)

lemma redis_sentinel_lookup:
  "k \<notin> {''sentinel_master'', ''sentinel_role'', ''sentinel_username'', ''sentinel_password'',
      ''sentinel_nodes''} \<Longrightarrow> fmlookup (redis_sentinel r m) k = fmlookup m k"
  by (auto simp: redis_sentinel_def block_lookup Let_def split: option.split)

lemma redis_cluster_lookup:
  "k \<notin> {''cluster_max_redirections'', ''cluster_nodes''} \<Longrightarrow>
   fmlookup (redis_cluster r m) k = fmlookup m k"
  by (auto simp: redis_cluster_def block_lookup Let_def split: option.split)

lemma redis_cloud_lookup:
  "fmlookup (redis_cloud r m) k =
     (if k = ''cloud_authentication'' \<and> cloudAuthToPlugin (rc_CloudAuthentication r) \<noteq> None
      then map_option YMap (cloudAuthToPlugin (rc_CloudAuthentication r)) else fmlookup m k)"
  by (auto simp: redis_cloud_def block_lookup)

definition redis_block :: "RedisCloudConfig \<Rightarrow> ymap" where
  "redis_block r =
     redis_cloud r (redis_cluster r (redis_sentinel r (redis_keepalive r (redis_base r fmempty))))"

lemmas redis_lookups = redis_keepalive_lookup redis_sentinel_lookup redis_cluster_lookup redis_cloud_lookup

lemma TokenVaultRedisToPlugin_Some:
  "TokenVaultRedisToPlugin (Some r) = (if redis_block r = fmempty then None else Some (redis_block r))"
  by (simp add: TokenVaultRedisToPlugin_def redis_block_def Let_def)

lemma keepalive_read:
  "keepalive_from (redis_block r) = Option.bind (rc_Keepalive r) normal_keepalive"
proof -
  have l: "fmlookup (redis_block r) k = fmlookup (redis_keepalive r (redis_base r fmempty)) k"
    if "k \<in> {''keepalive_pool_size'', ''keepalive_backlog''}" for k
    unfolding redis_block_def using that by (elim insertE emptyE; simp add: redis_lookups)
  have b: "fmlookup (redis_base r fmempty) k = None"
    if "k \<in> {''keepalive_pool_size'', ''keepalive_backlog''}" for k
    using that by (elim insertE emptyE; simp add: redis_base_lookup)
  show ?thesis
    unfolding keepalive_from_def present_def getAnyIntPtr_def
    by (cases "rc_Keepalive r")
      (auto simp: l b redis_keepalive_def block_lookup normal_keepalive_def as_int_opt split: option.splits)
qed

lemma sentinel_read:
  "sentinel_from (redis_block r) = Option.bind (rc_Sentinel r) normal_sentinel"
proof -
  let ?ks = "{''sentinel_master'', ''sentinel_role'', ''sentinel_username'', ''sentinel_password'',
      ''sentinel_nodes''}"
  let ?m = "redis_keepalive r (redis_base r fmempty)"
  have l: "fmlookup (redis_block r) k = fmlookup (redis_sentinel r ?m) k" if "k \<in> ?ks" for k
    unfolding redis_block_def using that by (elim insertE emptyE; simp add: redis_lookups)
  have b: "fmlookup ?m k = None" if "k \<in> ?ks" for k
    using that by (elim insertE emptyE; simp add: redis_lookups redis_base_lookup)
  show ?thesis
  proof (cases "rc_Sentinel r")
    case None
    then show ?thesis
      by (simp add: sentinel_from_def getAnyStr_def getAnySlice_def l b redis_sentinel_def Let_def)
  next
    case (Some se)
    have strs: "getAnyStr (redis_block r) ''sentinel_master'' = se_Master se"
      "getAnyStr (redis_block r) ''sentinel_role'' = se_Role se"
      "getAnyStr (redis_block r) ''sentinel_username'' = se_Username se"
      "getAnyStr (redis_block r) ''sentinel_password'' = se_Password se"
      by (simp_all add: getAnyStr_def l b Some redis_sentinel_def block_lookup Let_def)
    have nodes: "getAnySlice (redis_block r) ''sentinel_nodes'' =
      map_option (map YMap) (sentinelNodesToPlugin (se_Nodes se))"
      by (cases "sentinelNodesToPlugin (se_Nodes se)")
        (simp_all add: getAnySlice_def l b Some redis_sentinel_def block_lookup Let_def)
    show ?thesis
      unfolding sentinel_from_def strs nodes Let_def
      by (cases se) (simp add: Some normal_sentinel_def sentinelNodesToPlugin_def sentinel_node_written)
  qed
qed

lemma cluster_read:
  "cluster_from (redis_block r) = Option.bind (rc_Cluster r) normal_cluster"
proof -
  let ?ks = "{''cluster_max_redirections'', ''cluster_nodes''}"
  let ?m = "redis_sentinel r (redis_keepalive r (redis_base r fmempty))"
  have l: "fmlookup (redis_block r) k = fmlookup (redis_cluster r ?m) k" if "k \<in> ?ks" for k
    unfolding redis_block_def using that by (elim insertE emptyE; simp add: redis_lookups)
  have b: "fmlookup ?m k = None" if "k \<in> ?ks" for k
    using that by (elim insertE emptyE; simp add: redis_lookups redis_base_lookup)
  show ?thesis
  proof (cases "rc_Cluster r")
    case None
    then show ?thesis
      by (simp add: cluster_from_def getAnyIntPtr_def getAnySlice_def l b redis_cluster_def Let_def)
  next
    case (Some c)
    have max: "getAnyIntPtr (redis_block r) ''cluster_max_redirections'' = cl_MaxRedirections c"
      by (simp add: getAnyIntPtr_def l b Some redis_cluster_def block_lookup Let_def as_int_opt)
    have nodes: "getAnySlice (redis_block r) ''cluster_nodes'' =
      map_option (map YMap) (clusterNodesToPlugin (cl_Nodes c))"
      by (cases "clusterNodesToPlugin (cl_Nodes c)")
        (simp_all add: getAnySlice_def l b Some redis_cluster_def block_lookup Let_def)
    show ?thesis
      unfolding cluster_from_def max nodes Let_def
      by (cases c) (simp add: Some normal_cluster_def clusterNodesToPlugin_def cluster_node_written)
  qed
qed


lemma cloud_read:
  "cloudAuthFromPlugin (getAnyMap (redis_block r) ''cloud_authentication'') =
     Option.bind (rc_CloudAuthentication r) normal_cloud"
proof -
  have "fmlookup (redis_cluster r (redis_sentinel r (redis_keepalive r (redis_base r fmempty))))
      ''cloud_authentication'' = None"
    by (simp add: redis_lookups redis_base_lookup)
  then have "getAnyMap (redis_block r) ''cloud_authentication'' =
      cloudAuthToPlugin (rc_CloudAuthentication r)"
    by (cases "cloudAuthToPlugin (rc_CloudAuthentication r)")
      (simp_all add: getAnyMap_def redis_block_def redis_cloud_lookup)
  then show ?thesis by (simp add: cloud_roundtrip)
qed

lemma base_lookup:
  assumes "k \<in> {''host'', ''port'', ''database'', ''username'', ''password'', ''ssl'', ''ssl_verify'',
    ''server_name'', ''connection_is_proxied'', ''connect_timeout'', ''read_timeout'', ''send_timeout''}"
  shows "fmlookup (redis_block r) k = fmlookup (redis_base r fmempty) k"
  unfolding redis_block_def using assms by (elim insertE emptyE; simp add: redis_lookups)

lemma redis_fields_block: "redis_fields (redis_block r) = normal_redis r"
proof -
  have base:
    "getAnyStr (redis_block r) ''host'' = rc_Host r"
    "getAnyIntPtr (redis_block r) ''port'' = rc_Port r"
    "getAnyIntPtr (redis_block r) ''database'' = rc_Database r"
    "getAnyStr (redis_block r) ''username'' = rc_Username r"
    "getAnyStr (redis_block r) ''password'' = rc_Password r"
    "getAnyBoolPtr (redis_block r) ''ssl'' = rc_SSL r"
    "getAnyBoolPtr (redis_block r) ''ssl_verify'' = rc_SSLVerify r"
    "getAnyStr (redis_block r) ''server_name'' = rc_ServerName r"
    "getAnyBoolPtr (redis_block r) ''connection_is_proxied'' = rc_ConnectionIsProxied r"
    "getAnyIntPtr (redis_block r) ''connect_timeout'' = rc_ConnectTimeout r"
    "getAnyIntPtr (redis_block r) ''read_timeout'' = rc_ReadTimeout r"
    "getAnyIntPtr (redis_block r) ''send_timeout'' = rc_SendTimeout r"
    unfolding getAnyStr_def getAnyIntPtr_def getAnyBoolPtr_def
    by (simp_all add: base_lookup redis_base_lookup Let_def split: option.split)
  show ?thesis
    unfolding redis_fields_def base keepalive_read sentinel_read cluster_read cloud_read normal_redis_def
    by (cases r) simp
qed

lemma redis_fields_empty: "redis_fields fmempty = zero_redis"
  by (simp add: redis_fields_def zero_redis_def getAnyStr_def getAnyIntPtr_def getAnyBoolPtr_def
      getAnyMap_def keepalive_from_def present_def sentinel_from_def cluster_from_def
      getAnySlice_def cloudAuthFromPlugin_def Let_def)

text \<open>Writing sees only the normal form.\<close>

lemma write_keepalive: "redis_keepalive (normal_redis r) m = redis_keepalive r m"
  by (cases "rc_Keepalive r")
    (auto simp: redis_keepalive_def normal_redis_def normal_keepalive_def setInt_def)

lemma normal_nodes [simp]:
  "sentinelNodesToPlugin (map (\<lambda>n. \<lparr>rn_Host = sentinelNodeHost n, rn_IP = [], rn_Port = rn_Port n\<rparr>) ns) =
     sentinelNodesToPlugin ns"
  "clusterNodesToPlugin (map (\<lambda>n. \<lparr>rn_Host = [], rn_IP = clusterNodeIP n, rn_Port = rn_Port n\<rparr>) ns) =
     clusterNodesToPlugin ns"
  by (auto simp: sentinelNodesToPlugin_def clusterNodesToPlugin_def sentinelNodeHost_def
      clusterNodeIP_def)

lemma write_sentinel: "redis_sentinel (normal_redis r) m = redis_sentinel r m"
proof (cases "rc_Sentinel r")
  case (Some se)
  show ?thesis
  proof (cases "normal_sentinel se")
    case None
    with Some show ?thesis
      by (simp add: redis_sentinel_def normal_redis_def normal_sentinel_def setStr_def set_opt_def
          sentinelNodesToPlugin_def split: if_splits)
  next
    case (Some se')
    then have "se' = se\<lparr>se_Nodes := map (\<lambda>n. \<lparr>rn_Host = sentinelNodeHost n, rn_IP = [],
        rn_Port = rn_Port n\<rparr>) (se_Nodes se)\<rparr>"
      by (simp add: normal_sentinel_def split: if_splits)
    with Some \<open>rc_Sentinel r = Some se\<close> show ?thesis
      by (simp add: redis_sentinel_def normal_redis_def)
  qed
qed (simp add: redis_sentinel_def normal_redis_def)

lemma write_cluster: "redis_cluster (normal_redis r) m = redis_cluster r m"
proof (cases "rc_Cluster r")
  case (Some c)
  show ?thesis
  proof (cases "normal_cluster c")
    case None
    with Some show ?thesis
      by (simp add: redis_cluster_def normal_redis_def normal_cluster_def setInt_def set_opt_def
          clusterNodesToPlugin_def split: if_splits)
  next
    case (Some c')
    then have "c' = c\<lparr>cl_Nodes := map (\<lambda>n. \<lparr>rn_Host = [], rn_IP = clusterNodeIP n,
        rn_Port = rn_Port n\<rparr>) (cl_Nodes c)\<rparr>"
      by (simp add: normal_cluster_def split: if_splits)
    with Some \<open>rc_Cluster r = Some c\<close> show ?thesis
      by (simp add: redis_cluster_def normal_redis_def)
  qed
qed (simp add: redis_cluster_def normal_redis_def)

lemma write_cloud: "redis_cloud (normal_redis r) m = redis_cloud r m"
  by (cases "rc_CloudAuthentication r")
    (auto simp: redis_cloud_def normal_redis_def normal_cloud_def set_opt_def cloudAuthToPlugin_Some
      cloud_block_empty cloudAuthToPlugin_def [of None])

lemma write_base: "redis_base (normal_redis r) m = redis_base r m"
  by (simp add: redis_base_def normal_redis_def)

lemma redis_block_normal: "redis_block (normal_redis r) = redis_block r"
  by (simp add: redis_block_def write_base write_keepalive write_sentinel write_cluster write_cloud)

lemma redis_block_empty: "redis_block r = fmempty \<longleftrightarrow> normal_redis r = zero_redis"
proof
  assume "redis_block r = fmempty"
  then show "normal_redis r = zero_redis"
    using redis_fields_block [of r] redis_fields_empty by simp
next
  assume "normal_redis r = zero_redis"
  then have "redis_block r = redis_block zero_redis" using redis_block_normal by metis
  then show "redis_block r = fmempty"
    by (simp add: redis_block_def zero_redis_def redis_base_def redis_keepalive_def
        redis_sentinel_def redis_cluster_def redis_cloud_def setStr_def setInt_def setBool_def
        set_opt_def cloudAuthToPlugin_def Let_def)
qed

text \<open>Lowering a Redis connection to the plugin's flat fields and lifting it back gives its
  normal form, and None exactly when nothing is set; lowering what was lifted gives the same plugin
  block again, so the two directions cannot drift.\<close>

theorem token_vault_redis_roundtrip:
  "TokenVaultRedisFromPlugin (TokenVaultRedisToPlugin (Some r)) =
     (if normal_redis r = zero_redis then None else Some (normal_redis r)) \<and>
   TokenVaultRedisToPlugin (TokenVaultRedisFromPlugin (TokenVaultRedisToPlugin (Some r))) =
     TokenVaultRedisToPlugin (Some r)"
  by (simp add: TokenVaultRedisToPlugin_Some TokenVaultRedisFromPlugin_def redis_fields_block
      redis_block_empty redis_block_normal TokenVaultRedisToPlugin_def [of None])


section \<open>The Token Vault block of an MCP server\<close>

record TokenVaultCredentialLocation =
  tvl_Location :: string
  tvl_Name :: string
  tvl_Prefix :: "string option"

record TokenVaultCredential =
  tvc_Inbound :: "TokenVaultCredentialLocation option"
  tvc_Outbound :: "TokenVaultCredentialLocation option"

record TokenVaultConfig =
  tv_Directory :: string
  tv_Provider :: string
  tv_SubjectTokenType :: string
  tv_Credential :: "TokenVaultCredential option"
  tv_Cache :: ymap

definition tokenVaultLocationToPlugin :: "TokenVaultCredentialLocation option \<Rightarrow> ymap option" where
  "tokenVaultLocationToPlugin loc =
     (case loc of
        None \<Rightarrow> None
      | Some l \<Rightarrow>
          (let out = setStr fmempty ''location'' (tvl_Location l);
               out = setStr out ''name'' (tvl_Name l);
               out = set_opt out ''prefix'' (map_option YStr (tvl_Prefix l))
           in if fm_empty out then None else Some out))"

definition tokenVaultCredentialToPlugin :: "TokenVaultCredential option \<Rightarrow> ymap option" where
  "tokenVaultCredentialToPlugin cred =
     (case cred of
        None \<Rightarrow> None
      | Some c \<Rightarrow>
          (let out = set_opt fmempty ''inbound'' (map_option YMap (tokenVaultLocationToPlugin (tvc_Inbound c)));
               out = set_opt out ''outbound'' (map_option YMap (tokenVaultLocationToPlugin (tvc_Outbound c)))
           in if fm_empty out then None else Some out))"

definition TokenVaultToPlugin :: "TokenVaultConfig option \<Rightarrow> ymap option" where
  "TokenVaultToPlugin vault =
     (case vault of
        None \<Rightarrow> None
      | Some tv \<Rightarrow>
          (let block = setStr fmempty ''directory'' (tv_Directory tv);
               block = setStr block ''provider'' (tv_Provider tv);
               block = setStr block ''subject_token_type'' (tv_SubjectTokenType tv);
               block = (if \<not> fm_empty (tv_Cache tv) then fmupd ''cache'' (YMap (tv_Cache tv)) block else block);
               block = set_opt block ''credential''
                 (map_option YMap (tokenVaultCredentialToPlugin (tv_Credential tv)))
           in Some block))"

definition tokenVaultLocationFromPlugin :: "ymap option \<Rightarrow> TokenVaultCredentialLocation option" where
  "tokenVaultLocationFromPlugin block =
     (case block of
        None \<Rightarrow> None
      | Some b \<Rightarrow>
          if fm_empty b then None
          else Some \<lparr>tvl_Location = getAnyStr b ''location'', tvl_Name = getAnyStr b ''name'',
                     tvl_Prefix = getAnyStrPtr b ''prefix''\<rparr>)"

definition TokenVaultFromPlugin :: "ymap option \<Rightarrow> TokenVaultConfig option" where
  "TokenVaultFromPlugin plugin =
     (case plugin of
        None \<Rightarrow> None
      | Some block \<Rightarrow>
          if fm_empty block then None
          else Some
            \<lparr>tv_Directory = getAnyStr block ''directory'',
             tv_Provider = getAnyStr block ''provider'',
             tv_SubjectTokenType = getAnyStr block ''subject_token_type'',
             tv_Credential =
               (case getAnyMap block ''credential'' of
                  None \<Rightarrow> None
                | Some cred \<Rightarrow>
                    Some \<lparr>tvc_Inbound = tokenVaultLocationFromPlugin (getAnyMap cred ''inbound''),
                          tvc_Outbound = tokenVaultLocationFromPlugin (getAnyMap cred ''outbound'')\<rparr>),
             tv_Cache = or_else (getAnyMap block ''cache'') fmempty\<rparr>)"

definition normal_location :: "TokenVaultCredentialLocation \<Rightarrow> TokenVaultCredentialLocation option" where
  "normal_location l =
     (if tvl_Location l = [] \<and> tvl_Name l = [] \<and> tvl_Prefix l = None then None else Some l)"

definition normal_credential :: "TokenVaultCredential \<Rightarrow> TokenVaultCredential option" where
  "normal_credential c =
     (let i = Option.bind (tvc_Inbound c) normal_location; o' = Option.bind (tvc_Outbound c) normal_location
      in if i = None \<and> o' = None then None else Some \<lparr>tvc_Inbound = i, tvc_Outbound = o'\<rparr>)"

definition normal_vault :: "TokenVaultConfig \<Rightarrow> TokenVaultConfig" where
  "normal_vault tv = tv\<lparr>tv_Credential := Option.bind (tv_Credential tv) normal_credential\<rparr>"

definition zero_vault :: TokenVaultConfig where
  "zero_vault = \<lparr>tv_Directory = [], tv_Provider = [], tv_SubjectTokenType = [],
     tv_Credential = None, tv_Cache = fmempty\<rparr>"

lemma fmupd_nonempty [simp]: "fmupd k v m \<noteq> fmempty" "fmempty \<noteq> fmupd k v m"
  using arg_cong [where f = "\<lambda>m. fmlookup m k"] by fastforce+

lemma setStr_empty [simp]: "setStr m k v = fmempty \<longleftrightarrow> m = fmempty \<and> v = []"
  by (simp add: setStr_def)

lemma set_opt_empty [simp]: "set_opt m k v = fmempty \<longleftrightarrow> m = fmempty \<and> v = None"
  by (simp add: set_opt_def split: option.split)

lemma location_roundtrip:
  "tokenVaultLocationFromPlugin (tokenVaultLocationToPlugin l) = Option.bind l normal_location"
proof (cases l)
  case (Some loc)
  then show ?thesis
    by (cases loc; cases "tvl_Prefix loc")
      (simp_all add: tokenVaultLocationToPlugin_def tokenVaultLocationFromPlugin_def normal_location_def
        Let_def getAnyStr_def getAnyStrPtr_def block_lookup)
qed (simp add: tokenVaultLocationToPlugin_def tokenVaultLocationFromPlugin_def)

lemma location_none:
  "tokenVaultLocationToPlugin l = None \<longleftrightarrow> Option.bind l normal_location = None"
  by (cases l) (auto simp: tokenVaultLocationToPlugin_def normal_location_def Let_def)

lemma credential_none:
  "tokenVaultCredentialToPlugin c = None \<longleftrightarrow> Option.bind c normal_credential = None"
  by (cases c) (auto simp: tokenVaultCredentialToPlugin_def normal_credential_def Let_def location_none)

lemma credential_read:
  assumes "tokenVaultCredentialToPlugin (Some c) = Some b"
  shows "tokenVaultLocationFromPlugin (getAnyMap b ''inbound'') = Option.bind (tvc_Inbound c) normal_location"
    and "tokenVaultLocationFromPlugin (getAnyMap b ''outbound'') = Option.bind (tvc_Outbound c) normal_location"
proof -
  have "getAnyMap b ''inbound'' = tokenVaultLocationToPlugin (tvc_Inbound c)"
    and "getAnyMap b ''outbound'' = tokenVaultLocationToPlugin (tvc_Outbound c)"
    using assms
    by (cases "tokenVaultLocationToPlugin (tvc_Inbound c)";
        cases "tokenVaultLocationToPlugin (tvc_Outbound c)";
        force simp: tokenVaultCredentialToPlugin_def Let_def getAnyMap_def block_lookup split: if_splits)+
  then show "tokenVaultLocationFromPlugin (getAnyMap b ''inbound'') = Option.bind (tvc_Inbound c) normal_location"
    and "tokenVaultLocationFromPlugin (getAnyMap b ''outbound'') = Option.bind (tvc_Outbound c) normal_location"
    by (simp_all add: location_roundtrip)
qed

definition vault_block :: "TokenVaultConfig \<Rightarrow> ymap" where
  "vault_block tv = the (TokenVaultToPlugin (Some tv))"

lemma vault_block_lookup:
  "fmlookup (vault_block tv) ''directory'' = (if tv_Directory tv \<noteq> [] then Some (YStr (tv_Directory tv)) else None)"
  "fmlookup (vault_block tv) ''provider'' = (if tv_Provider tv \<noteq> [] then Some (YStr (tv_Provider tv)) else None)"
  "fmlookup (vault_block tv) ''subject_token_type'' =
     (if tv_SubjectTokenType tv \<noteq> [] then Some (YStr (tv_SubjectTokenType tv)) else None)"
  "fmlookup (vault_block tv) ''cache'' =
     (if tv_Cache tv \<noteq> fmempty then Some (YMap (tv_Cache tv)) else None)"
  "fmlookup (vault_block tv) ''credential'' = map_option YMap (tokenVaultCredentialToPlugin (tv_Credential tv))"
  unfolding vault_block_def TokenVaultToPlugin_def Let_def
  by (simp_all add: block_lookup option.map_sel)

lemma vault_block_empty: "vault_block tv = fmempty \<longleftrightarrow> normal_vault tv = zero_vault"
  by (cases tv)
    (auto simp: vault_block_def TokenVaultToPlugin_def Let_def normal_vault_def zero_vault_def
      credential_none)

text \<open>The Token Vault block of an MCP server survives the trip up to its normal form: only
  credential locations in which nothing is set are dropped.  An empty prefix is kept apart from a
  missing one.\<close>

theorem token_vault_roundtrip:
  "TokenVaultFromPlugin (TokenVaultToPlugin (Some tv)) =
     (if normal_vault tv = zero_vault then None else Some (normal_vault tv))"
proof -
  have b: "TokenVaultToPlugin (Some tv) = Some (vault_block tv)"
    by (simp add: vault_block_def TokenVaultToPlugin_def Let_def)
  have cred: "(case getAnyMap (vault_block tv) ''credential'' of None \<Rightarrow> None
      | Some cred \<Rightarrow> Some \<lparr>tvc_Inbound = tokenVaultLocationFromPlugin (getAnyMap cred ''inbound''),
            tvc_Outbound = tokenVaultLocationFromPlugin (getAnyMap cred ''outbound'')\<rparr>) =
    Option.bind (tv_Credential tv) normal_credential"
  proof (cases "tokenVaultCredentialToPlugin (tv_Credential tv)")
    case None
    with credential_none [of "tv_Credential tv"] show ?thesis
      by (simp add: getAnyMap_def vault_block_lookup)
  next
    case (Some c)
    then obtain cr where cr: "tv_Credential tv = Some cr"
      by (cases "tv_Credential tv") (auto simp: tokenVaultCredentialToPlugin_def)
    with Some credential_none [of "Some cr"] have "normal_credential cr \<noteq> None" by auto
    with credential_read [of cr c] Some cr show ?thesis
      by (auto simp: getAnyMap_def vault_block_lookup normal_credential_def Let_def split: if_splits)
  qed
  show ?thesis
    unfolding b TokenVaultFromPlugin_def option.case cred fm_empty_iff vault_block_empty
    by (cases tv) (simp add: getAnyStr_def getAnyMap_def vault_block_lookup normal_vault_def)
qed

section \<open>Rate limiting, access and the toolset gate of MCP servers\<close>

record MCPRateLimit =
  mrl_Method :: "string option"
  mrl_Tool :: "string option"
  mrl_Limit :: int
  mrl_WindowSize :: int

definition MCPRateLimitingAllowed :: "string \<Rightarrow> bool" where
  "MCPRateLimitingAllowed mode = (mode \<in> {''conversion-listener'', ''passthrough-listener''})"

definition rate_limit_entry :: "MCPRateLimit \<Rightarrow> ymap" where
  "rate_limit_entry l =
     (let entry = fmupd ''window_size'' (YInt (mrl_WindowSize l)) (fmupd ''limit'' (YInt (mrl_Limit l)) fmempty);
          entry = set_opt entry ''method'' (map_option YStr (mrl_Method l))
      in set_opt entry ''tool'' (map_option YStr (mrl_Tool l)))"

definition MCPRateLimitingToPlugin :: "MCPRateLimit list option \<Rightarrow> ymap option" where
  "MCPRateLimitingToPlugin rl =
     (case rl of
        None \<Rightarrow> None
      | Some limits \<Rightarrow> Some (fmupd ''limits'' (YList (map (YMap \<circ> rate_limit_entry) limits)) fmempty))"

definition read_rate_limit :: "ymap \<Rightarrow> MCPRateLimit" where
  "read_rate_limit entry =
     \<lparr>mrl_Method = as_str (fmlookup entry ''method''), mrl_Tool = as_str (fmlookup entry ''tool''),
      mrl_Limit = or_else (getAnyIntPtr entry ''limit'') 0,
      mrl_WindowSize = or_else (getAnyIntPtr entry ''window_size'') 0\<rparr>"

definition MCPRateLimitingFromPlugin :: "ymap \<Rightarrow> MCPRateLimit list option" where
  "MCPRateLimitingFromPlugin block =
     (let limits = concat (map (\<lambda>raw. case as_map (Some raw) of None \<Rightarrow> []
                                       | Some entry \<Rightarrow> [read_rate_limit entry])
                    (or_else (getAnySlice block ''limits'') []))
      in if limits = [] then None else Some limits)"

lemma read_rate_limit_entry: "read_rate_limit (rate_limit_entry l) = l"
  by (cases l; cases "mrl_Method l"; cases "mrl_Tool l")
    (auto simp: read_rate_limit_def rate_limit_entry_def Let_def block_lookup getAnyIntPtr_def)

lemma rate_limiting_roundtrip:
  assumes "limits \<noteq> []"
  shows "MCPRateLimitingFromPlugin (the (MCPRateLimitingToPlugin (Some limits))) = Some limits"
proof -
  have "concat (map (\<lambda>raw. case as_map (Some raw) of None \<Rightarrow> [] | Some entry \<Rightarrow> [read_rate_limit entry])
      (map (YMap \<circ> rate_limit_entry) limits)) = limits"
    by (induction limits) (auto simp: read_rate_limit_entry)
  with assms show ?thesis
    by (simp add: MCPRateLimitingFromPlugin_def MCPRateLimitingToPlugin_def getAnySlice_def)
qed

definition MCPAccessAllowed :: "string \<Rightarrow> bool" where
  "MCPAccessAllowed mode = (mode \<in> {''listener'', ''conversion-listener'', ''passthrough-listener''})"

abbreviation (input) MCPToolsetGatePlugin :: string where "MCPToolsetGatePlugin \<equiv> ''pre-function''"
abbreviation (input) MCPToolsetGateTag :: string where
  "MCPToolsetGateTag \<equiv> ''aigw-generated:mcp-toolset-gate''"

definition IsMCPToolsetGate :: "string \<Rightarrow> string list \<Rightarrow> bool" where
  "IsMCPToolsetGate name tags = (name = MCPToolsetGatePlugin \<and> MCPToolsetGateTag \<in> set tags)"

definition MCPToolsetGateAccess :: string where
  "MCPToolsetGateAccess =
     ''local addr = ngx.var.server_addr or '' @ [CHR 0x22, CHR 0x22, CHR 0x0A] @
     ''if addr:sub(1, 5) ~= '' @ [CHR 0x22] @ ''unix:'' @ [CHR 0x22] @ '' then'' @ [CHR 0x0A] @
     ''  return ngx.exit(ngx.HTTP_NOT_FOUND)'' @ [CHR 0x0A] @ ''end'' @ [CHR 0x0A]"

definition MCPToolsetGateConfig :: ymap where
  "MCPToolsetGateConfig = fmupd ''access'' (YList [YStr MCPToolsetGateAccess]) fmempty"

datatype OAuth2FieldKind = OAuth2Passthrough | OAuth2FirstOfArray | OAuth2FirstOfPaths

record OAuth2FieldMap =
  of_OIDCKey :: string
  of_OAuth2Key :: string
  of_Kind :: OAuth2FieldKind

definition OIDCToMCPOAuth2Fields :: "OAuth2FieldMap list" where
  "OIDCToMCPOAuth2Fields =
     (let same = (\<lambda>k kind. \<lparr>of_OIDCKey = k, of_OAuth2Key = k, of_Kind = kind\<rparr>) in
      [same ''client_id'' OAuth2FirstOfArray,
       same ''client_secret'' OAuth2FirstOfArray,
       same ''client_alg'' OAuth2FirstOfArray,
       same ''client_auth'' OAuth2FirstOfArray,
       same ''introspection_endpoint'' OAuth2Passthrough,
       same ''mtls_introspection_endpoint'' OAuth2Passthrough,
       same ''cache_introspection'' OAuth2Passthrough,
       same ''jwks_endpoint'' OAuth2Passthrough,
       \<lparr>of_OIDCKey = ''leeway'', of_OAuth2Key = ''jwt_claims_leeway'', of_Kind = OAuth2Passthrough\<rparr>,
       same ''ssl_verify'' OAuth2Passthrough,
       same ''consumer_by'' OAuth2Passthrough,
       \<lparr>of_OIDCKey = ''consumer_claims'', of_OAuth2Key = ''consumer_claim'', of_Kind = OAuth2FirstOfPaths\<rparr>,
       same ''consumer_optional'' OAuth2Passthrough,
       same ''consumer_groups_claim'' OAuth2Passthrough,
       same ''consumer_groups_optional'' OAuth2Passthrough,
       same ''credential_claim'' OAuth2Passthrough,
       same ''keepalive'' OAuth2Passthrough,
       same ''timeout'' OAuth2Passthrough,
       same ''http_version'' OAuth2Passthrough,
       same ''upstream_headers'' OAuth2Passthrough])"

text \<open>The upstream AWS signature fields: AI Gateway name, plugin name.\<close>

definition AWSIAMAuthKeys :: "(string \<times> string) list" where
  "AWSIAMAuthKeys =
     [(''access_key_id'', ''aws_access_key_id''),
      (''secret_access_key'', ''aws_secret_access_key''),
      (''session_token'', ''aws_session_token''),
      (''region'', ''aws_region''),
      (''assume_role_arn'', ''assume_role_arn''),
      (''role_session_name'', ''role_session_name''),
      (''sts_endpoint_url'', ''sts_endpoint_url'')]"

lemma key_tables_injective:
  "distinct (map of_OIDCKey OIDCToMCPOAuth2Fields)" "distinct (map of_OAuth2Key OIDCToMCPOAuth2Fields)"
  "distinct (map fst AWSIAMAuthKeys)" "distinct (map snd AWSIAMAuthKeys)"
  by code_simp+

end
