(* ===== verification/Kong_Model.thy ===== *)
theory Kong_Model
  imports Endpoint_Table
begin

text \<open>
  The decK document of \<open>src/internal/kong/deck.go\<close> and its sidecar metadata
  (\<open>Document.Metadata\<close> and \<open>metadata.go\<close>).

  The matching fields of a route are the same in the AI Gateway's \<open>RouteConfig\<close>
  (\<open>src/internal/aigw/common.go\<close>), the nested \<open>Route\<close> and the flat \<open>DBLessRoute\<close>, and the own fields
  of a plugin in \<open>Plugin\<close> and \<open>DBLessPlugin\<close>; they are base records, extended by what differs.  A nil
  pointer is None; a nil map or slice is the empty one.
\<close>

record CIDRPort =
  cidr_IP :: string
  cidr_Port :: "int option"

record RouteConfig =
  rt_Name :: string
  rt_Paths :: "string list"
  rt_Hosts :: "string list"
  rt_Methods :: "string list"
  rt_Protocols :: "string list"
  rt_Headers :: "(string, string list) fmap"
  rt_SNIs :: "string list"
  rt_Sources :: "CIDRPort list"
  rt_Destinations :: "CIDRPort list"
  rt_StripPath :: "bool option"
  rt_PreserveHost :: "bool option"
  rt_HTTPSRedirectStatusCode :: "int option"
  rt_RegexPriority :: "int option"
  rt_PathHandling :: string
  rt_RequestBuffering :: "bool option"
  rt_ResponseBuffering :: "bool option"
  rt_Tags :: "string list"

definition empty_route :: RouteConfig where
  "empty_route = \<lparr>rt_Name = [], rt_Paths = [], rt_Hosts = [], rt_Methods = [], rt_Protocols = [],
     rt_Headers = fmempty, rt_SNIs = [], rt_Sources = [], rt_Destinations = [], rt_StripPath = None,
     rt_PreserveHost = None, rt_HTTPSRedirectStatusCode = None, rt_RegexPriority = None,
     rt_PathHandling = [], rt_RequestBuffering = None, rt_ResponseBuffering = None, rt_Tags = []\<rparr>"

record FieldMapping =
  fm_GeneratedPrefix :: string
  fm_SourcePrefix :: string

record Source =
  src_EntityType :: string
  src_EntityName :: string
  src_FieldPrefix :: string
  src_FieldMappings :: "FieldMapping list"

record TargetSource =
  ts_ModelName :: string
  ts_ModelTargetIndex :: nat
  ts_Capabilities :: "string list"

record Ordering =
  ord_Before :: "string list option"
  ord_After :: "string list option"

record plugin_fields =
  pl_Name :: string
  pl_Enabled :: "bool option"
  pl_Protocols :: "string list"
  pl_Condition :: string
  pl_Expressions :: ymap
  pl_Config :: ymap
  pl_Ordering :: "Ordering option"
  pl_Tags :: "string list"
  pl_TargetSources :: "TargetSource list"
  pl_Source :: "Source option"

record Plugin = plugin_fields +
  pl_ID :: string
  pl_Service :: "string option"
  pl_Route :: "string option"
  pl_Consumer :: "string option"
  pl_ConsumerGroup :: "string option"
  pl_Model :: "string option"

definition empty_plugin :: Plugin where
  "empty_plugin = \<lparr>pl_Name = [], pl_Enabled = None, pl_Protocols = [], pl_Condition = [],
     pl_Expressions = fmempty, pl_Config = fmempty, pl_Ordering = None, pl_Tags = [],
     pl_TargetSources = [], pl_Source = None, pl_ID = [], pl_Service = None, pl_Route = None,
     pl_Consumer = None, pl_ConsumerGroup = None, pl_Model = None\<rparr>"

record Route = RouteConfig +
  rt_Plugins :: "Plugin list"
  rt_Source :: "Source option"

record Service =
  svc_Name :: string
  svc_ID :: string
  svc_URL :: string
  svc_Host :: string
  svc_Port :: "int option"
  svc_Protocol :: string
  svc_Path :: string
  svc_Enabled :: "bool option"
  svc_Retries :: "int option"
  svc_ClientCertificate :: "(string, string) fmap"
  svc_CACertificates :: "string list"
  svc_Routes :: "Route list"
  svc_Plugins :: "Plugin list"
  svc_Tags :: "string list"
  svc_Source :: "Source option"

definition empty_service :: Service where
  "empty_service = \<lparr>svc_Name = [], svc_ID = [], svc_URL = [], svc_Host = [], svc_Port = None,
     svc_Protocol = [], svc_Path = [], svc_Enabled = None, svc_Retries = None,
     svc_ClientCertificate = fmempty, svc_CACertificates = [], svc_Routes = [], svc_Plugins = [],
     svc_Tags = [], svc_Source = None\<rparr>"

record KeyAuthCredential =
  kac_ID :: string
  kac_Key :: string
  kac_TTL :: "int option"
  kac_Tags :: "string list"

record Consumer =
  co_ID :: string
  co_Username :: string
  co_CustomID :: string
  co_Groups :: "string list"
  co_KeyAuthCredentials :: "KeyAuthCredential list"
  co_Plugins :: "Plugin list"
  co_Tags :: "string list"

record ConsumerGroup =
  cg_ID :: string
  cg_Name :: string
  cg_Plugins :: "Plugin list"
  cg_Tags :: "string list"

record Vault =
  va_ID :: string
  va_Prefix :: string
  va_Name :: string
  va_Description :: string
  va_Config :: ymap
  va_Tags :: "string list"

record CACertificate =
  cac_ID :: string
  cac_Cert :: string
  cac_CertDigest :: string
  cac_Tags :: "string list"

record SNI =
  sni_ID :: string
  sni_Name :: string
  sni_Tags :: "string list"

record Certificate =
  crt_ID :: string
  crt_Cert :: string
  crt_Key :: string
  crt_CertAlt :: string
  crt_KeyAlt :: string
  crt_Tags :: "string list"
  crt_SNIs :: "SNI list"
  crt_SourceName :: string

record AIModel =
  am_ID :: string
  am_Name :: string
  am_Alias :: string
  am_Tags :: "string list"

record CustomPlugin =
  cp_ID :: string
  cp_Name :: string
  cp_Schema :: string
  cp_Handler :: string

record Document =
  doc_FormatVersion :: string
  doc_Services :: "Service list"
  doc_Routes :: "Route list"
  doc_Consumers :: "Consumer list"
  doc_ConsumerGroups :: "ConsumerGroup list"
  doc_Plugins :: "Plugin list"
  doc_CustomPlugins :: "CustomPlugin list"
  doc_Vaults :: "Vault list"
  doc_Certificates :: "Certificate list"
  doc_AIModels :: "AIModel list"
  doc_CACertificates :: "CACertificate list"
  doc_TokenVaultAuthStrategies :: "string list"

definition FormatVersion :: string where
  "FormatVersion = ''3.0''"

definition NewDocument :: Document where
  "NewDocument = \<lparr>doc_FormatVersion = FormatVersion, doc_Services = [], doc_Routes = [],
     doc_Consumers = [], doc_ConsumerGroups = [], doc_Plugins = [], doc_CustomPlugins = [],
     doc_Vaults = [], doc_Certificates = [], doc_AIModels = [], doc_CACertificates = [],
     doc_TokenVaultAuthStrategies = []\<rparr>"

section \<open>Metadata\<close>

record PluginTargetSource =
  pts_PluginIndex :: nat
  pts_Location :: string
  pts_TargetIndex :: nat
  pts_ModelName :: string
  pts_ModelTargetIndex :: nat
  pts_Capabilities :: "string list"
  pts_CapabilityLabels :: "string list"

record GeneratedEntitySource =
  ges_Index :: nat
  ges_Location :: string
  ges_EntityType :: string
  ges_EntityName :: string
  ges_FieldPrefix :: string
  ges_FieldMappings :: "FieldMapping list"

record ConversionMetadata =
  md_PluginTargets :: "PluginTargetSource list"
  md_Plugins :: "GeneratedEntitySource list"
  md_Routes :: "GeneratedEntitySource list"
  md_Services :: "GeneratedEntitySource list"

definition empty_metadata :: ConversionMetadata where
  "empty_metadata = \<lparr>md_PluginTargets = [], md_Plugins = [], md_Routes = [], md_Services = []\<rparr>"

definition generatedEntitySource :: "nat \<Rightarrow> string \<Rightarrow> Source \<Rightarrow> GeneratedEntitySource" where
  "generatedEntitySource index location source =
     \<lparr>ges_Index = index, ges_Location = location, ges_EntityType = src_EntityType source,
      ges_EntityName = src_EntityName source, ges_FieldPrefix = src_FieldPrefix source,
      ges_FieldMappings = src_FieldMappings source\<rparr>"

definition target_source :: "nat \<Rightarrow> string \<Rightarrow> nat \<Rightarrow> TargetSource \<Rightarrow> PluginTargetSource" where
  "target_source index location targetIndex ts =
     \<lparr>pts_PluginIndex = index, pts_Location = location, pts_TargetIndex = targetIndex,
      pts_ModelName = ts_ModelName ts, pts_ModelTargetIndex = ts_ModelTargetIndex ts,
      pts_Capabilities = ts_Capabilities ts,
      pts_CapabilityLabels = map CapabilityLabel (ts_Capabilities ts)\<rparr>"

definition appendPlugin ::
  "nat \<Rightarrow> string \<Rightarrow> Source option \<Rightarrow> TargetSource list \<Rightarrow> ConversionMetadata \<Rightarrow> ConversionMetadata"
where
  "appendPlugin index location source targets m =
     (let m = (case source of
                 None \<Rightarrow> m
               | Some s \<Rightarrow> m\<lparr>md_Plugins := md_Plugins m @ [generatedEntitySource index location s]\<rparr>)
      in foldi (\<lambda>targetIndex ts m.
           m\<lparr>md_PluginTargets := md_PluginTargets m @ [target_source index location targetIndex ts]\<rparr>)
           0 targets m)"

definition append_route :: "nat \<Rightarrow> string \<Rightarrow> Source option \<Rightarrow> ConversionMetadata \<Rightarrow> ConversionMetadata" where
  "append_route index location source m =
     (case source of None \<Rightarrow> m
      | Some s \<Rightarrow> m\<lparr>md_Routes := md_Routes m @ [generatedEntitySource index location s]\<rparr>)"

definition append_service :: "nat \<Rightarrow> string \<Rightarrow> Source option \<Rightarrow> ConversionMetadata \<Rightarrow> ConversionMetadata" where
  "append_service index location source m =
     (case source of None \<Rightarrow> m
      | Some s \<Rightarrow> m\<lparr>md_Services := md_Services m @ [generatedEntitySource index location s]\<rparr>)"

text \<open>\<open>fmt.Sprintf\<close> of a location: \<open>at ''services'' 0\<close> is \<open>services[0]\<close>.\<close>

definition at :: "string \<Rightarrow> nat \<Rightarrow> string" where
  "at s i = s @ ''['' @ dec i @ '']''"

definition append_plugins :: "string \<Rightarrow> Plugin list \<Rightarrow> ConversionMetadata \<Rightarrow> ConversionMetadata" where
  "append_plugins base ps m =
     foldi (\<lambda>i p. appendPlugin i (at (base @ ''plugins'') i) (pl_Source p) (pl_TargetSources p)) 0 ps m"

definition append_routes :: "string \<Rightarrow> Route list \<Rightarrow> ConversionMetadata \<Rightarrow> ConversionMetadata" where
  "append_routes base rs m =
     foldi (\<lambda>i r m. append_plugins (at (base @ ''routes'') i @ ''.'') (rt_Plugins r)
             (append_route i (at (base @ ''routes'') i) (rt_Source r) m)) 0 rs m"

definition Document_Metadata :: "Document \<Rightarrow> ConversionMetadata" where
  "Document_Metadata d =
     (let m = append_plugins [] (doc_Plugins d) empty_metadata;
          m = append_routes [] (doc_Routes d) m
      in foldi (\<lambda>i s m.
           let loc = at ''services'' i;
               m = append_service i loc (svc_Source s) m;
               m = append_plugins (loc @ ''.'') (svc_Plugins s) m
           in append_routes (loc @ ''.'') (svc_Routes s) m) 0 (doc_Services d) m)"

end
