(* ===== verification/Go_Url.thy ===== *)
theory Go_Url
  imports Versions
begin

text \<open>
  What the program uses of Go's \<open>net/url\<close>: \<open>url.Parse\<close> with its scheme, authority and path, and
  \<open>Hostname\<close> and \<open>Port\<close> of the result.  The definitions follow the standard library's parser step by
  step; the address inside the brackets of an IP literal is taken as it is, without zone
  identifiers.
\<close>

record URL =
  u_Scheme :: string
  u_Opaque :: string
  u_User :: bool        \<comment> \<open>whether user information is present\<close>
  u_Host :: string
  u_Path :: string
  u_RawQuery :: string
  u_Fragment :: string

definition is_letter :: "char \<Rightarrow> bool" where
  "is_letter c = (let n = (of_char c :: nat) in (65 \<le> n \<and> n \<le> 90) \<or> (97 \<le> n \<and> n \<le> 122))"

definition is_hex :: "char \<Rightarrow> bool" where
  "is_hex c = (let n = (of_char c :: nat) in is_digit c \<or> (65 \<le> n \<and> n \<le> 70) \<or> (97 \<le> n \<and> n \<le> 102))"

definition unhex :: "char \<Rightarrow> nat" where
  "unhex c = (let n = (of_char c :: nat) in
     if is_digit c then n - 48 else if n \<le> 70 then n - 55 else n - 87)"

text \<open>\<open>getScheme\<close>: None is the missing-scheme error; a string without a scheme is all rest.\<close>

fun scheme_scan :: "string \<Rightarrow> string \<Rightarrow> (string \<times> string) option option" where
  "scheme_scan done [] = None"
| "scheme_scan done (c # s) =
     (if is_letter c then scheme_scan (done @ [c]) s
      else if is_digit c \<or> c \<in> set ''+-.''
      then if done = [] then None else scheme_scan (done @ [c]) s
      else if c = CHR '':'' then Some (if done = [] then None else Some (done, s))
      else None)"

definition getScheme :: "string \<Rightarrow> (string \<times> string) option" where
  "getScheme raw = (case scheme_scan [] raw of None \<Rightarrow> Some ([], raw) | Some r \<Rightarrow> r)"

definition host_plain :: "char \<Rightarrow> bool" where
  "host_plain c = (is_letter c \<or> is_digit c \<or>
     c \<in> set ''!$&()*+,;=:[]<>-_.~'' \<or> c = CHR 0x27 \<or> c = CHR 0x22 \<or> 128 \<le> (of_char c :: nat))"

text \<open>\<open>unescape\<close> in the path, fragment and user modes (\<open>host = False\<close>) and in the host mode.\<close>

fun unescape :: "bool \<Rightarrow> string \<Rightarrow> string option" where
  "unescape host [] = Some []"
| "unescape host (c # s) =
     (if c = CHR ''%'' then
        (case s of
           a # b # r \<Rightarrow>
             if \<not> (is_hex a \<and> is_hex b) then None
             else if host \<and> unhex a < 8 \<and> \<not> (a = CHR ''2'' \<and> b = CHR ''5'') then None
             else map_option (Cons (char_of (16 * unhex a + unhex b))) (unescape host r)
         | _ \<Rightarrow> None)
      else if host \<and> \<not> host_plain c then None
      else map_option (Cons c) (unescape host s))"

definition validOptionalPort :: "string \<Rightarrow> bool" where
  "validOptionalPort port =
     (case port of [] \<Rightarrow> True | c # s \<Rightarrow> c = CHR '':'' \<and> list_all is_digit s)"

text \<open>The part from the first, and after the last, occurrence of a character.\<close>

definition from_first :: "char \<Rightarrow> string \<Rightarrow> string" where
  "from_first c s = dropWhile (\<lambda>x. x \<noteq> c) s"

definition after_last :: "char \<Rightarrow> string \<Rightarrow> string" where
  "after_last c s = rev (takeWhile (\<lambda>x. x \<noteq> c) (rev s))"

definition before_last :: "char \<Rightarrow> string \<Rightarrow> string" where
  "before_last c s = rev (drop 1 (dropWhile (\<lambda>x. x \<noteq> c) (rev s)))"

definition parseHost :: "string \<Rightarrow> string option" where
  "parseHost host =
     (if HasPrefix host ''['' then
        (if CHR '']'' \<notin> set host \<or> \<not> validOptionalPort (after_last (CHR '']'') host) then None
         else unescape True host)
      else if CHR ''['' \<in> set host then None
      else if \<not> validOptionalPort (from_first (CHR '':'') host) then None
      else unescape True host)"

definition validUserinfo :: "string \<Rightarrow> bool" where
  "validUserinfo s = list_all (\<lambda>c. is_letter c \<or> is_digit c \<or> c \<in> set ''-._:~!$&()*+,;=%@'' \<or> c = CHR 0x27) s"

text \<open>The host, and whether there is user information.\<close>

definition parseAuthority :: "string \<Rightarrow> (bool \<times> string) option" where
  "parseAuthority authority =
     (if CHR ''@'' \<notin> set authority then map_option (Pair False) (parseHost authority)
      else let userinfo = before_last (CHR ''@'') authority in
        case parseHost (after_last (CHR ''@'') authority) of
          None \<Rightarrow> None
        | Some host \<Rightarrow>
            if \<not> validUserinfo userinfo \<or> unescape False userinfo = None then None
            else Some (True, host))"

definition parse_rest :: "string \<Rightarrow> string \<Rightarrow> URL option" where
  "parse_rest scheme rest0 =
     (let (rest, query) =
        (if HasSuffix rest0 ''?'' \<and> count_list rest0 (CHR ''?'') = 1 then (butlast rest0, [])
         else case Cut rest0 (CHR ''?'') of None \<Rightarrow> (rest0, []) | Some (a, b) \<Rightarrow> (a, b));
      url = \<lparr>u_Scheme = scheme, u_Opaque = [], u_User = False, u_Host = [], u_Path = [],
             u_RawQuery = query, u_Fragment = []\<rparr>
      in if \<not> HasPrefix rest ''/'' \<and> scheme \<noteq> [] then Some (url\<lparr>u_Opaque := rest\<rparr>)
      else if \<not> HasPrefix rest ''/'' \<and> CHR '':'' \<in> set (takeWhile (\<lambda>c. c \<noteq> CHR ''/'') rest) then None
      else if (scheme \<noteq> [] \<or> \<not> HasPrefix rest ''///'') \<and> HasPrefix rest ''//'' then
        (let authority = takeWhile (\<lambda>c. c \<noteq> CHR ''/'') (drop 2 rest);
             path = dropWhile (\<lambda>c. c \<noteq> CHR ''/'') (drop 2 rest)
         in case parseAuthority authority of
              None \<Rightarrow> None
            | Some (user, host) \<Rightarrow>
                map_option (\<lambda>p. url\<lparr>u_User := user, u_Host := host, u_Path := p\<rparr>) (unescape False path))
      else map_option (\<lambda>p. url\<lparr>u_Path := p\<rparr>) (unescape False rest))"

definition url_Parse :: "string \<Rightarrow> URL option" where
  "url_Parse raw =
     (let (u, frag) = (case Cut raw (CHR ''#'') of None \<Rightarrow> (raw, []) | Some (a, b) \<Rightarrow> (a, b)) in
      if list_ex (\<lambda>c. (of_char c :: nat) < 32 \<or> (of_char c :: nat) = 127) u then None
      else case (if u = ''*'' then Some \<lparr>u_Scheme = [], u_Opaque = [], u_User = False, u_Host = [],
                    u_Path = ''*'', u_RawQuery = [], u_Fragment = []\<rparr>
                 else case getScheme u of
                        None \<Rightarrow> None
                      | Some (scheme, rest) \<Rightarrow> parse_rest (ToLower scheme) rest) of
             None \<Rightarrow> None
           | Some url \<Rightarrow> map_option (\<lambda>f. url\<lparr>u_Fragment := f\<rparr>) (unescape False frag))"

text \<open>\<open>splitHostPort\<close>.\<close>

definition split_host_port :: "string \<Rightarrow> string \<times> string" where
  "split_host_port hostPort =
     (let colon = CHR '':'' \<in> set hostPort \<and> list_all is_digit (after_last (CHR '':'') hostPort);
          host = (if colon then before_last (CHR '':'') hostPort else hostPort);
          port = (if colon then after_last (CHR '':'') hostPort else [])
      in if HasPrefix host ''['' \<and> HasSuffix host '']'' then (butlast (tl host), port) else (host, port))"

definition url_Hostname :: "URL \<Rightarrow> string" where
  "url_Hostname u = fst (split_host_port (u_Host u))"

definition url_Port :: "URL \<Rightarrow> string" where
  "url_Port u = snd (split_host_port (u_Host u))"

lemma url_Parse_example:
  "map_option (\<lambda>u. (u_Scheme u, url_Hostname u, url_Port u, u_Path u))
     (url_Parse ''HTTPS://user@api.example.com:8443/v1/chat?x=1'') =
   Some (''https'', ''api.example.com'', ''8443'', ''/v1/chat'')"
  by code_simp

lemma url_Port_digits: "list_all is_digit (url_Port u)"
  by (simp add: url_Port_def split_host_port_def Let_def)

end
