(* ===== verification/Stable_ID.thy ===== *)
theory Stable_ID
  imports Go_Prelude "HOL-Library.Word"
begin

unbundle bit_operations_syntax

text \<open>
  \<open>StableUUID\<close> of \<open>src/internal/kong/to_dbless.go\<close>: the identifier the db-less output gives an entity
  that has none, a version 5 UUID over SHA-1.  The digest is \<open>crypto/sha1\<close> (FIPS 180-4) on 32-bit
  words; strings are byte strings.
\<close>

type_synonym w32 = "32 word"
type_synonym byte = "8 word"

section \<open>SHA-1\<close>

definition rotl :: "nat \<Rightarrow> w32 \<Rightarrow> w32" where
  "rotl n w = push_bit n w OR drop_bit (32 - n) w"

text \<open>The padding: one bit, zeros up to 56 modulo 64 bytes, and the bit length as 64-bit big endian.\<close>

definition be64 :: "nat \<Rightarrow> byte list" where
  "be64 n = map (\<lambda>i. ucast (drop_bit (8 * i) (word_of_nat n :: 64 word))) (rev [0..<8])"

definition sha1_pad :: "byte list \<Rightarrow> byte list" where
  "sha1_pad m =
     m @ [0x80] @ replicate ((119 - length m mod 64) mod 64) 0 @ be64 (8 * length m)"

definition be32 :: "byte \<Rightarrow> byte \<Rightarrow> byte \<Rightarrow> byte \<Rightarrow> w32" where
  "be32 a b c d = push_bit 24 (ucast a) OR push_bit 16 (ucast b) OR push_bit 8 (ucast c) OR ucast d"

fun to_words :: "byte list \<Rightarrow> w32 list" where
  "to_words (a # b # c # d # r) = be32 a b c d # to_words r"
| "to_words _ = []"

text \<open>The 80 words of the schedule, newest first.\<close>

fun schedule :: "nat \<Rightarrow> w32 list \<Rightarrow> w32 list" where
  "schedule 0 ws = ws"
| "schedule (Suc n) ws =
     schedule n (rotl 1 (ws ! 2 XOR ws ! 7 XOR ws ! 13 XOR ws ! 15) # ws)"

type_synonym sha_state = "w32 \<times> w32 \<times> w32 \<times> w32 \<times> w32"

definition sha1_f :: "nat \<Rightarrow> w32 \<Rightarrow> w32 \<Rightarrow> w32 \<Rightarrow> w32" where
  "sha1_f t b c d =
     (if t < 20 then (b AND c) OR (NOT b AND d)
      else if t < 40 then b XOR c XOR d
      else if t < 60 then (b AND c) OR (b AND d) OR (c AND d)
      else b XOR c XOR d)"

definition sha1_k :: "nat \<Rightarrow> w32" where
  "sha1_k t =
     (if t < 20 then 0x5A827999 else if t < 40 then 0x6ED9EBA1
      else if t < 60 then 0x8F1BBCDC else 0xCA62C1D6)"

definition sha1_round :: "nat \<Rightarrow> w32 \<Rightarrow> sha_state \<Rightarrow> sha_state" where
  "sha1_round t w = (\<lambda>(a, b, c, d, e).
     (rotl 5 a + sha1_f t b c d + e + w + sha1_k t, a, rotl 30 b, c, d))"

definition sha1_block :: "w32 list \<Rightarrow> sha_state \<Rightarrow> sha_state" where
  "sha1_block ws = (\<lambda>(h0, h1, h2, h3, h4).
     let (a, b, c, d, e) = foldi sha1_round 0 (rev (schedule 64 (rev ws))) (h0, h1, h2, h3, h4)
     in (h0 + a, h1 + b, h2 + c, h3 + d, h4 + e))"

fun sha1_blocks :: "nat \<Rightarrow> w32 list \<Rightarrow> sha_state \<Rightarrow> sha_state" where
  "sha1_blocks 0 ws s = s"
| "sha1_blocks (Suc n) ws s = sha1_blocks n (drop 16 ws) (sha1_block (take 16 ws) s)"

definition word_bytes :: "w32 \<Rightarrow> byte list" where
  "word_bytes w = [ucast (drop_bit 24 w), ucast (drop_bit 16 w), ucast (drop_bit 8 w), ucast w]"

definition sha1_Sum :: "byte list \<Rightarrow> byte list" where
  "sha1_Sum m =
     (let p = sha1_pad m;
          (a, b, c, d, e) = sha1_blocks (length p div 64) (to_words p)
            (0x67452301, 0xEFCDAB89, 0x98BADCFE, 0x10325476, 0xC3D2E1F0)
      in concat (map word_bytes [a, b, c, d, e]))"

lemma sha1_Sum_length [simp]: "length (sha1_Sum m) = 20"
  by (simp add: sha1_Sum_def word_bytes_def Let_def split: prod.split)

lemma sha1_pad_blocks: "length (sha1_pad m) mod 64 = 0"
proof -
  have "length (sha1_pad m) = length m + 9 + (119 - length m mod 64) mod 64"
    by (simp add: sha1_pad_def be64_def)
  moreover have "(n + 9 + (119 - n mod 64) mod 64) mod 64 = 0" for n :: nat
  proof -
    have "(n + 9 + (119 - n mod 64) mod 64) mod 64 = (n + 9 + (119 - n mod 64)) mod 64"
      by (rule mod_add_right_eq)
    also have "n + 9 + (119 - n mod 64) = 64 * (n div 64 + 2)"
    proof -
      have gen: "r < 64 \<Longrightarrow> q * 64 + r + 9 + (119 - r) = 64 * (q + 2)" for q r :: nat
        by simp
      have "n mod 64 < 64" by simp
      from gen [OF this, of "n div 64"] show ?thesis unfolding div_mult_mod_eq .
    qed
    finally show ?thesis by simp
  qed
  ultimately show ?thesis by simp
qed

section \<open>The identifier\<close>

definition dbLessNamespace :: "byte list" where
  "dbLessNamespace =
     [0x8f, 0x17, 0x73, 0x5c, 0x41, 0x02, 0x49, 0x6b,
      0xa3, 0x2f, 0x92, 0x0c, 0x4d, 0x18, 0x62, 0xf1]"

definition bytes_of :: "string \<Rightarrow> byte list" where
  "bytes_of s = map of_char s"

definition hex_digit :: "nat \<Rightarrow> char" where
  "hex_digit n = ''0123456789abcdef'' ! n"

definition hex_byte :: "byte \<Rightarrow> string" where
  "hex_byte b = [hex_digit (unat b div 16), hex_digit (unat b mod 16)]"

definition hex :: "byte list \<Rightarrow> string" where
  "hex bs = concat (map hex_byte bs)"

definition uuid_bytes :: "string \<Rightarrow> byte list" where
  "uuid_bytes key =
     (let b = take 16 (sha1_Sum (dbLessNamespace @ bytes_of key));
          b = b[6 := (b ! 6 AND 0x0f) OR 0x50]
      in b[8 := (b ! 8 AND 0x3f) OR 0x80])"

definition StableUUID :: "string \<Rightarrow> string" where
  "StableUUID key =
     (let b = uuid_bytes key in
      hex (take 4 b) @ ''-'' @ hex (take 2 (drop 4 b)) @ ''-'' @ hex (take 2 (drop 6 b)) @ ''-'' @
      hex (take 2 (drop 8 b)) @ ''-'' @ hex (drop 10 b))"


section \<open>Its shape\<close>

lemma high_nibble: "unat b div 16 = unat (drop_bit 4 (b :: byte))"
  by (simp add: drop_bit_eq_div unat_div)

lemma version_bits: "unat ((b AND 0x0f) OR 0x50 :: byte) div 16 = 5"
  unfolding high_nibble by (simp add: drop_bit_or drop_bit_and)

lemma two_bits: "x AND 3 \<in> {0, 1, 2, 3 :: byte}"
proof -
  have e: "x AND 3 = x mod 4"
    using take_bit_eq_mask [of 2 x] by (simp add: mask_eq_exp_minus_1 take_bit_eq_mod)
  have "unat (x mod 4) = unat x mod 4" by (simp add: unat_mod)
  then have "unat (x mod 4) \<in> {0, 1, 2, 3}" by auto
  then have "x mod 4 \<in> {0, 1, 2, 3}" by (auto simp: word_unat_eq_iff)
  then show ?thesis by (simp add: e)
qed

lemma variant_bits: "unat ((b AND 0x3f) OR 0x80 :: byte) div 16 \<in> {8, 9, 10, 11}"
proof -
  have "drop_bit 4 ((b AND 0x3f) OR 0x80) = (drop_bit 4 b AND 3) OR (8 :: byte)"
    by (simp add: drop_bit_or drop_bit_and)
  then show ?thesis
    unfolding high_nibble using two_bits [of "drop_bit 4 b"] by (elim insertE emptyE; simp)
qed

lemma list16: "length xs = 16 \<Longrightarrow>
  \<exists>a b c d e f g h i j k l m n p q. xs = [a, b, c, d, e, f, g, h, i, j, k, l, m, n, p, q]"
  by (auto simp: numeral_eq_Suc length_Suc_conv)

lemma uuid_bytes_length [simp]: "length (uuid_bytes key) = 16"
  by (simp add: uuid_bytes_def Let_def)

lemma uuid_bytes_version: "unat (uuid_bytes key ! 6) div 16 = 5"
  by (simp add: uuid_bytes_def Let_def version_bits)

lemma uuid_bytes_variant: "unat (uuid_bytes key ! 8) div 16 \<in> {8, 9, 10, 11}"
proof -
  have "uuid_bytes key ! 8 = (take 16 (sha1_Sum (dbLessNamespace @ bytes_of key)) ! 8 AND 0x3f) OR 0x80"
    by (simp add: uuid_bytes_def Let_def)
  then show ?thesis using variant_bits by metis
qed

definition is_hex_digit :: "char \<Rightarrow> bool" where
  "is_hex_digit c = (c \<in> set ''0123456789abcdef'')"

lemma hex_digit_ok: "n < 16 \<Longrightarrow> is_hex_digit (hex_digit n)"
  unfolding is_hex_digit_def hex_digit_def by (rule nth_mem) simp

lemma hex_digit_inject: "m < 16 \<Longrightarrow> n < 16 \<Longrightarrow> hex_digit m = hex_digit n \<longleftrightarrow> m = n"
  unfolding hex_digit_def by (rule nth_eq_iff_index_eq) simp_all

lemma byte_nibbles: "unat (b :: byte) div 16 < 16"
  using unsigned_less [where ?'a = nat and w = b] by simp

lemma hex_byte_inject [simp]: "hex_byte a = hex_byte b \<longleftrightarrow> a = b"
proof
  assume "hex_byte a = hex_byte b"
  then have "unat a div 16 = unat b div 16" and "unat a mod 16 = unat b mod 16"
    by (simp_all add: hex_byte_def hex_digit_inject byte_nibbles)
  then have "unat a = unat b" by (metis div_mult_mod_eq)
  then show "a = b" by (simp add: unsigned_word_eqI)
qed simp

lemma hex_Nil [simp]: "hex [] = []" and hex_Cons [simp]: "hex (b # bs) = hex_byte b @ hex bs"
  by (simp_all add: hex_def)

lemma hex_length [simp]: "length (hex bs) = 2 * length bs"
  by (induction bs) (auto simp: hex_byte_def)

lemma hex_inject: "length as = length bs \<Longrightarrow> hex as = hex bs \<longleftrightarrow> as = bs"
proof (induction as bs rule: list_induct2)
  case (Cons a as b bs)
  have "length (hex_byte x) = 2" for x by (simp add: hex_byte_def)
  then show ?case using Cons.IH by (simp add: append_eq_append_conv)
qed simp

lemma hex_all_digits: "list_all is_hex_digit (hex bs)"
  by (induction bs) (auto simp: hex_byte_def hex_digit_ok byte_nibbles)

lemma version_digit: "unat b div 16 = 5 \<Longrightarrow> hd (hex_byte b) = CHR ''5''"
  by (simp add: hex_byte_def hex_digit_def)

lemma variant_digit: "unat b div 16 \<in> {8, 9, 10, 11} \<Longrightarrow> hd (hex_byte b) \<in> set ''89ab''"
  by (auto simp: hex_byte_def hex_digit_def)

text \<open>C28: every generated identifier is a well-formed version 5 UUID: lower-case hexadecimal in
  groups of 8, 4, 4, 4 and 12 digits, version nibble 5 and variant nibble 8, 9, a or b; and two keys
  share an identifier only when the masked digests agree in every byte.\<close>

theorem stable_uuid_shape:
  "(\<exists>p1 p2 p3 p4 p5.
      StableUUID key = p1 @ ''-'' @ p2 @ ''-'' @ p3 @ ''-'' @ p4 @ ''-'' @ p5 \<and>
      map length [p1, p2, p3, p4, p5] = [8, 4, 4, 4, 12] \<and>
      list_all is_hex_digit (p1 @ p2 @ p3 @ p4 @ p5) \<and>
      hd p3 = CHR ''5'' \<and> hd p4 \<in> set ''89ab'') \<and>
   (StableUUID key = StableUUID key' \<longleftrightarrow> uuid_bytes key = uuid_bytes key')"
proof
  let ?b = "uuid_bytes key"
  have nth: "take 2 (drop 6 ?b) = ?b ! 6 # take 1 (drop 7 ?b)" "take 2 (drop 8 ?b) = ?b ! 8 # take 1 (drop 9 ?b)"
    using list16 [OF uuid_bytes_length [of key]] by auto
  have hds: "hd (hex (take 2 (drop 6 ?b))) = CHR ''5''" "hd (hex (take 2 (drop 8 ?b))) \<in> set ''89ab''"
    unfolding nth hex_Cons using version_digit [OF uuid_bytes_version] variant_digit [OF uuid_bytes_variant]
    by (auto simp: hex_byte_def)
  show "\<exists>p1 p2 p3 p4 p5.
      StableUUID key = p1 @ ''-'' @ p2 @ ''-'' @ p3 @ ''-'' @ p4 @ ''-'' @ p5 \<and>
      map length [p1, p2, p3, p4, p5] = [8, 4, 4, 4, 12] \<and>
      list_all is_hex_digit (p1 @ p2 @ p3 @ p4 @ p5) \<and>
      hd p3 = CHR ''5'' \<and> hd p4 \<in> set ''89ab''"
    using hds
    by (intro exI [of _ "hex (take 4 ?b)"] exI [of _ "hex (take 2 (drop 4 ?b))"]
        exI [of _ "hex (take 2 (drop 6 ?b))"] exI [of _ "hex (take 2 (drop 8 ?b))"]
        exI [of _ "hex (drop 10 ?b)"] conjI)
      (simp_all add: StableUUID_def Let_def hex_all_digits)
  show "StableUUID key = StableUUID key' \<longleftrightarrow> uuid_bytes key = uuid_bytes key'"
  proof
    let ?c = "uuid_bytes key'"
    assume "StableUUID key = StableUUID key'"
    then have parts: "hex (take 4 ?b) = hex (take 4 ?c)" "hex (take 2 (drop 4 ?b)) = hex (take 2 (drop 4 ?c))"
      "hex (take 2 (drop 6 ?b)) = hex (take 2 (drop 6 ?c))" "hex (take 2 (drop 8 ?b)) = hex (take 2 (drop 8 ?c))"
      "hex (drop 10 ?b) = hex (drop 10 ?c)"
      by (simp_all add: StableUUID_def Let_def append_eq_append_conv)
    then have "take 4 ?b = take 4 ?c" "take 2 (drop 4 ?b) = take 2 (drop 4 ?c)"
      "take 2 (drop 6 ?b) = take 2 (drop 6 ?c)" "take 2 (drop 8 ?b) = take 2 (drop 8 ?c)"
      "drop 10 ?b = drop 10 ?c"
      by (simp_all add: hex_inject)
    with list16 [OF uuid_bytes_length [of key]] list16 [OF uuid_bytes_length [of key']]
    show "?b = ?c" by auto
  qed (simp add: StableUUID_def)
qed

lemma StableUUID_not_Nil [simp]: "StableUUID key \<noteq> []"
  by (simp add: StableUUID_def Let_def)

end
