(* ===== verification/DBLess.thy ===== *)
theory DBLess
  imports Kong_Model Go_Url Stable_ID "HOL-Library.Multiset"
begin

text \<open>
  The flattened db-less document (\<open>src/internal/kong/dbless.go\<close>) and \<open>Document.ToDBLess\<close>
  (\<open>src/internal/kong/to_dbless.go\<close>): every entity gets an identifier, name references become
  identifier references, and nested entities become rows with foreign keys.

  A foreign key, nil or the one-entry map of the key \<open>id\<close>, is an option.  The id maps of
  \<open>dbLessIDs\<close> are finite maps; its \<open>plugin\<close> map is written and never read, and is left out.
\<close>

record DBLessService =
  dsv_ID :: string
  dsv_Name :: string
  dsv_URL :: string
  dsv_Host :: string
  dsv_Port :: "int option"
  dsv_Protocol :: string
  dsv_Path :: string
  dsv_Enabled :: "bool option"
  dsv_Retries :: "int option"
  dsv_ClientCertificate :: "(string, string) fmap"
  dsv_CACertificates :: "string list"
  dsv_Tags :: "string list"
  dsv_Source :: "Source option"

record DBLessRoute = RouteConfig +
  drt_ID :: string
  drt_Service :: "string option"
  drt_Source :: "Source option"

record DBLessPlugin = plugin_fields +
  dpl_ID :: string
  dpl_Service :: "string option"
  dpl_Route :: "string option"
  dpl_Consumer :: "string option"
  dpl_ConsumerGroup :: "string option"
  dpl_Model :: "string option"

record DBLessConsumer =
  dco_ID :: string
  dco_Username :: string
  dco_CustomID :: string
  dco_Tags :: "string list"

record DBLessConsumerGroup =
  dcg_ID :: string
  dcg_Name :: string
  dcg_Tags :: "string list"

record DBLessConsumerGroupMember =
  dgm_Consumer :: string
  dgm_ConsumerGroup :: string

record DBLessCertificate =
  dcr_ID :: string
  dcr_Cert :: string
  dcr_Key :: string
  dcr_CertAlt :: string
  dcr_KeyAlt :: string
  dcr_Tags :: "string list"

record DBLessSNI =
  dsn_ID :: string
  dsn_Name :: string
  dsn_Certificate :: string
  dsn_Tags :: "string list"

record DBLessKeyAuthCredential =
  dka_ID :: string
  dka_Key :: string
  dka_Consumer :: string
  dka_TTL :: "int option"
  dka_Tags :: "string list"

text \<open>Vaults, AI models, custom plugins and CA certificates have the same fields in both documents,
  with the identifier filled in.\<close>

record DBLessDocument =
  dd_FormatVersion :: string
  dd_Transform :: bool
  dd_Services :: "DBLessService list"
  dd_Routes :: "DBLessRoute list"
  dd_Consumers :: "DBLessConsumer list"
  dd_ConsumerGroups :: "DBLessConsumerGroup list"
  dd_ConsumerGroupConsumers :: "DBLessConsumerGroupMember list"
  dd_Plugins :: "DBLessPlugin list"
  dd_CustomPlugins :: "CustomPlugin list"
  dd_Vaults :: "Vault list"
  dd_Certificates :: "DBLessCertificate list"
  dd_SNIs :: "DBLessSNI list"
  dd_AIModels :: "AIModel list"
  dd_KeyAuthCredentials :: "DBLessKeyAuthCredential list"
  dd_CACertificates :: "CACertificate list"

definition NewDBLessDocument :: DBLessDocument where
  "NewDBLessDocument = \<lparr>dd_FormatVersion = FormatVersion, dd_Transform = False, dd_Services = [],
     dd_Routes = [], dd_Consumers = [], dd_ConsumerGroups = [], dd_ConsumerGroupConsumers = [],
     dd_Plugins = [], dd_CustomPlugins = [], dd_Vaults = [], dd_Certificates = [], dd_SNIs = [],
     dd_AIModels = [], dd_KeyAuthCredentials = [], dd_CACertificates = []\<rparr>"

definition firstNonEmpty :: "string \<Rightarrow> string \<Rightarrow> string" where
  "firstNonEmpty value fallback = (if value \<noteq> [] then value else fallback)"

definition toDBLessFK :: "string \<Rightarrow> string option" where
  "toDBLessFK eid = (if eid = [] then None else Some eid)"

section \<open>Services, routes and plugins\<close>

definition defaultPort :: "URL \<Rightarrow> int" where
  "defaultPort parsed =
     (if url_Port parsed \<noteq> [] then or_else (Atoi (url_Port parsed)) 0
      else if u_Scheme parsed \<in> {''http'', ''ws''} then 80
      else if u_Scheme parsed \<in> {''https'', ''wss''} then 443
      else 0)"

definition service_row :: "Service \<Rightarrow> string \<Rightarrow> DBLessService" where
  "service_row s eid =
     \<lparr>dsv_ID = eid, dsv_Name = svc_Name s, dsv_URL = svc_URL s, dsv_Host = svc_Host s,
      dsv_Port = svc_Port s, dsv_Protocol = svc_Protocol s, dsv_Path = svc_Path s,
      dsv_Enabled = svc_Enabled s, dsv_Retries = svc_Retries s,
      dsv_ClientCertificate = svc_ClientCertificate s, dsv_CACertificates = svc_CACertificates s,
      dsv_Tags = svc_Tags s, dsv_Source = svc_Source s\<rparr>"

definition toDBLessService :: "Service \<Rightarrow> string \<Rightarrow> DBLessService" where
  "toDBLessService s eid =
     (let out = service_row s eid in
      if svc_URL s = [] then out
      else case url_Parse (svc_URL s) of
        None \<Rightarrow> out
      | Some parsed \<Rightarrow>
          (let out = (if dsv_Protocol out = [] then out\<lparr>dsv_Protocol := u_Scheme parsed\<rparr> else out);
               out = (if dsv_Host out = [] then out\<lparr>dsv_Host := url_Hostname parsed\<rparr> else out);
               out = (if dsv_Port out = None \<and> defaultPort parsed \<noteq> 0
                      then out\<lparr>dsv_Port := Some (defaultPort parsed)\<rparr> else out)
           in if dsv_Path out = [] \<and> u_Path parsed \<noteq> [] then out\<lparr>dsv_Path := u_Path parsed\<rparr> else out))"

definition toDBLessRoute :: "Route \<Rightarrow> string \<Rightarrow> string \<Rightarrow> DBLessRoute" where
  "toDBLessRoute route eid serviceID =
     RouteConfig.extend (RouteConfig.truncate
         (if rt_Protocols route = [] then route\<lparr>rt_Protocols := [''http'', ''https'']\<rparr> else route))
       \<lparr>drt_ID = eid, drt_Service = toDBLessFK serviceID, drt_Source = rt_Source route\<rparr>"

record scopeRef =
  sc_service :: string
  sc_route :: string
  sc_consumer :: string
  sc_consumerGroup :: string
  sc_model :: string

definition no_scope :: scopeRef where
  "no_scope = \<lparr>sc_service = [], sc_route = [], sc_consumer = [], sc_consumerGroup = [], sc_model = []\<rparr>"

definition toDBLessPlugin :: "Plugin \<Rightarrow> string \<Rightarrow> scopeRef \<Rightarrow> DBLessPlugin" where
  "toDBLessPlugin plugin eid scope =
     plugin_fields.extend (plugin_fields.truncate plugin)
       \<lparr>dpl_ID = eid, dpl_Service = toDBLessFK (sc_service scope), dpl_Route = toDBLessFK (sc_route scope),
        dpl_Consumer = toDBLessFK (sc_consumer scope),
        dpl_ConsumerGroup = toDBLessFK (sc_consumerGroup scope),
        dpl_Model = toDBLessFK (sc_model scope)\<rparr>"

section \<open>The identifier maps\<close>

type_synonym idmap = "(string, string) fmap"

record dbLessIDs =
  id_service :: idmap
  id_route :: idmap
  id_model :: idmap
  id_vault :: idmap
  id_cert :: idmap
  id_group :: idmap
  id_consumer :: idmap

definition certKey :: "Certificate \<Rightarrow> nat \<Rightarrow> string" where
  "certKey cert idx = (if crt_SourceName cert \<noteq> [] then crt_SourceName cert else dec idx)"

definition route_key :: "Service \<Rightarrow> Route \<Rightarrow> string" where
  "route_key s r = svc_Name s @ ''|'' @ rt_Name r"

definition build_ids :: "Document \<Rightarrow> dbLessIDs" where
  "build_ids d =
     \<lparr>id_service = fold (\<lambda>s. fmupd (svc_Name s)
                    (firstNonEmpty (svc_ID s) (StableUUID (''service:'' @ svc_Name s)))) (doc_Services d) fmempty,
      id_route = fold (\<lambda>s. fold (\<lambda>r. fmupd (route_key s r)
                    (StableUUID (''route:'' @ svc_Name s @ '':'' @ rt_Name r))) (svc_Routes s))
                  (doc_Services d) fmempty,
      id_model = fold (\<lambda>m. fmupd (am_Name m)
                    (firstNonEmpty (am_ID m) (StableUUID (''ai_model:'' @ am_Name m)))) (doc_AIModels d) fmempty,
      id_vault = fold (\<lambda>v. fmupd (va_Prefix v)
                    (firstNonEmpty (va_ID v) (StableUUID (''vault:'' @ va_Prefix v)))) (doc_Vaults d) fmempty,
      id_cert = foldi (\<lambda>i c. fmupd (certKey c i)
                    (firstNonEmpty (crt_ID c) (StableUUID (''certificate:'' @ certKey c i))))
                  0 (doc_Certificates d) fmempty,
      id_group = fold (\<lambda>g. fmupd (cg_Name g)
                    (firstNonEmpty (cg_ID g) (StableUUID (''consumer_group:'' @ cg_Name g))))
                  (doc_ConsumerGroups d) fmempty,
      id_consumer = fold (\<lambda>c. fmupd (co_Username c)
                    (firstNonEmpty (co_ID c) (StableUUID (''consumer:'' @ co_Username c))))
                  (doc_Consumers d) fmempty\<rparr>"

text \<open>A map read as the code reads it: the empty string when the key is missing.\<close>

definition id_at :: "idmap \<Rightarrow> string \<Rightarrow> string" where
  "id_at m k = or_else (fmlookup m k) []"

definition lookupStringRef :: "string option \<Rightarrow> idmap \<Rightarrow> string" where
  "lookupStringRef ref ids = (case ref of None \<Rightarrow> [] | Some name \<Rightarrow> id_at ids name)"

text \<open>The route map is searched for a key that ends with a bar and the name and has something
  before it.  The code takes the first match in map order; \<open>route_matches\<close> is all of them.\<close>

definition route_match :: "string \<Rightarrow> string \<Rightarrow> bool" where
  "route_match refName key = (length key > length refName + 1 \<and> HasSuffix key (''|'' @ refName))"

definition lookup_route_in :: "(string \<times> string) list \<Rightarrow> string \<Rightarrow> string" where
  "lookup_route_in entries refName =
     (case find (\<lambda>(k, eid). route_match refName k) entries of None \<Rightarrow> [] | Some (k, eid) \<Rightarrow> eid)"

definition lookupStringRouteRef :: "string option \<Rightarrow> idmap \<Rightarrow> string" where
  "lookupStringRouteRef ref ids =
     (case ref of None \<Rightarrow> [] | Some name \<Rightarrow> lookup_route_in (sorted_list_of_fmap ids) name)"

section \<open>Flattening\<close>

text \<open>The rows of the plugins nested under one entity; the identifier is made from the kind, the
  entity's name, the plugin's name and its position.\<close>

definition nested_plugins :: "string \<Rightarrow> string \<Rightarrow> scopeRef \<Rightarrow> Plugin list \<Rightarrow> DBLessPlugin list" where
  "nested_plugins kind name scope ps =
     map (\<lambda>(i, p). toDBLessPlugin p
            (firstNonEmpty (pl_ID p)
               (StableUUID (''plugin:'' @ kind @ '':'' @ name @ '':'' @ pl_Name p @ '':'' @ dec i))) scope)
       (List.enumerate 0 ps)"

definition flatten_route :: "Route \<Rightarrow> string \<Rightarrow> string \<Rightarrow> DBLessDocument \<Rightarrow> DBLessDocument" where
  "flatten_route r routeID svcID out =
     out\<lparr>dd_Routes := dd_Routes out @ [toDBLessRoute r routeID svcID],
         dd_Plugins := dd_Plugins out @
           nested_plugins ''route'' (rt_Name r) (no_scope\<lparr>sc_route := routeID\<rparr>) (rt_Plugins r)\<rparr>"

definition flatten_service :: "dbLessIDs \<Rightarrow> Service \<Rightarrow> DBLessDocument \<Rightarrow> DBLessDocument" where
  "flatten_service ids s out =
     (let svcID = id_at (id_service ids) (svc_Name s);
          out = out\<lparr>dd_Services := dd_Services out @ [toDBLessService s svcID]\<rparr>;
          out = fold (\<lambda>r. flatten_route r (id_at (id_route ids) (route_key s r)) svcID) (svc_Routes s) out
      in out\<lparr>dd_Plugins := dd_Plugins out @
               nested_plugins ''service'' (svc_Name s) (no_scope\<lparr>sc_service := svcID\<rparr>) (svc_Plugins s)\<rparr>)"

definition flatten_top_route :: "Route \<Rightarrow> DBLessDocument \<Rightarrow> DBLessDocument" where
  "flatten_top_route r = flatten_route r (StableUUID (''route::'' @ rt_Name r)) []"

text \<open>The consumer loop also extends the group map and remembers the memberships it emitted.\<close>

record flat_state =
  fs_ids :: dbLessIDs
  fs_seen :: "string list"
  fs_out :: DBLessDocument

definition credential_row :: "Consumer \<Rightarrow> string \<Rightarrow> nat \<times> KeyAuthCredential \<Rightarrow> DBLessKeyAuthCredential" where
  "credential_row c consumerID = (\<lambda>(i, cred).
     \<lparr>dka_ID = firstNonEmpty (kac_ID cred)
        (StableUUID (''keyauth:'' @ co_Username c @ '':'' @ kac_Key cred @ '':'' @ dec i)),
      dka_Key = kac_Key cred, dka_Consumer = consumerID, dka_TTL = kac_TTL cred,
      dka_Tags = kac_Tags cred\<rparr>)"

definition add_member :: "string \<Rightarrow> string \<Rightarrow> flat_state \<Rightarrow> flat_state" where
  "add_member consumerID groupName st =
     (let (groupID, st) =
        (case fmlookup (id_group (fs_ids st)) groupName of
           Some g \<Rightarrow> (g, st)
         | None \<Rightarrow>
             (let g = StableUUID (''consumer_group:'' @ groupName) in
              (g, st\<lparr>fs_ids := (fs_ids st)\<lparr>id_group := fmupd groupName g (id_group (fs_ids st))\<rparr>\<rparr>)));
        key = consumerID @ ''|'' @ groupID
      in if key \<in> set (fs_seen st) then st
         else st\<lparr>fs_seen := fs_seen st @ [key],
                 fs_out := (fs_out st)\<lparr>dd_ConsumerGroupConsumers :=
                   dd_ConsumerGroupConsumers (fs_out st) @
                     [\<lparr>dgm_Consumer = consumerID, dgm_ConsumerGroup = groupID\<rparr>]\<rparr>\<rparr>)"

definition flatten_consumer :: "Consumer \<Rightarrow> flat_state \<Rightarrow> flat_state" where
  "flatten_consumer c st =
     (let consumerID = id_at (id_consumer (fs_ids st)) (co_Username c);
          out = fs_out st;
          out = out\<lparr>dd_Consumers := dd_Consumers out @
                     [\<lparr>dco_ID = consumerID, dco_Username = co_Username c, dco_CustomID = co_CustomID c,
                       dco_Tags = co_Tags c\<rparr>],
                    dd_KeyAuthCredentials := dd_KeyAuthCredentials out @
                      map (credential_row c consumerID) (List.enumerate 0 (co_KeyAuthCredentials c)),
                    dd_Plugins := dd_Plugins out @
                      nested_plugins ''consumer'' (co_Username c)
                        (no_scope\<lparr>sc_consumer := consumerID\<rparr>) (co_Plugins c)\<rparr>
      in fold (add_member consumerID) (co_Groups c) (st\<lparr>fs_out := out\<rparr>))"

definition flatten_group_row :: "dbLessIDs \<Rightarrow> ConsumerGroup \<Rightarrow> DBLessDocument \<Rightarrow> DBLessDocument" where
  "flatten_group_row ids g out =
     (let groupID = id_at (id_group ids) (cg_Name g) in
      out\<lparr>dd_ConsumerGroups := dd_ConsumerGroups out @
            [\<lparr>dcg_ID = groupID, dcg_Name = cg_Name g, dcg_Tags = cg_Tags g\<rparr>],
          dd_Plugins := dd_Plugins out @
            nested_plugins ''consumer_group'' (cg_Name g)
              (no_scope\<lparr>sc_consumerGroup := groupID\<rparr>) (cg_Plugins g)\<rparr>)"

definition sni_row :: "string \<Rightarrow> string \<Rightarrow> SNI \<Rightarrow> DBLessSNI" where
  "sni_row certID key s =
     \<lparr>dsn_ID = firstNonEmpty (sni_ID s) (StableUUID (''sni:'' @ key @ '':'' @ sni_Name s)),
      dsn_Name = sni_Name s, dsn_Certificate = certID, dsn_Tags = sni_Tags s\<rparr>"

definition flatten_certificate :: "dbLessIDs \<Rightarrow> nat \<Rightarrow> Certificate \<Rightarrow> DBLessDocument \<Rightarrow> DBLessDocument" where
  "flatten_certificate ids i c out =
     (let certID = id_at (id_cert ids) (certKey c i) in
      out\<lparr>dd_Certificates := dd_Certificates out @
            [\<lparr>dcr_ID = certID, dcr_Cert = crt_Cert c, dcr_Key = crt_Key c, dcr_CertAlt = crt_CertAlt c,
              dcr_KeyAlt = crt_KeyAlt c, dcr_Tags = crt_Tags c\<rparr>],
          dd_SNIs := dd_SNIs out @ map (sni_row certID (certKey c i)) (crt_SNIs c)\<rparr>)"

definition top_scope :: "dbLessIDs \<Rightarrow> Plugin \<Rightarrow> scopeRef" where
  "top_scope ids p =
     \<lparr>sc_service = lookupStringRef (pl_Service p) (id_service ids),
      sc_route = lookupStringRouteRef (pl_Route p) (id_route ids),
      sc_consumer = lookupStringRef (pl_Consumer p) (id_consumer ids),
      sc_consumerGroup = lookupStringRef (pl_ConsumerGroup p) (id_group ids),
      sc_model = lookupStringRef (pl_Model p) (id_model ids)\<rparr>"

definition top_plugin :: "dbLessIDs \<Rightarrow> nat \<Rightarrow> Plugin \<Rightarrow> DBLessPlugin" where
  "top_plugin ids i p =
     toDBLessPlugin p
       (firstNonEmpty (pl_ID p) (StableUUID (''plugin:top:'' @ pl_Name p @ '':'' @ dec i)))
       (top_scope ids p)"

definition ToDBLess :: "Document \<Rightarrow> DBLessDocument" where
  "ToDBLess d =
     (let ids = build_ids d;
          out = fold (flatten_service ids) (doc_Services d) NewDBLessDocument;
          out = fold flatten_top_route (doc_Routes d) out;
          st = fold flatten_consumer (doc_Consumers d) \<lparr>fs_ids = ids, fs_seen = [], fs_out = out\<rparr>;
          ids = fs_ids st;
          out = fold (flatten_group_row ids) (doc_ConsumerGroups d) (fs_out st);
          out = foldi (flatten_certificate ids) 0 (doc_Certificates d) out;
          out = out\<lparr>dd_Vaults := map (\<lambda>v. v\<lparr>va_ID := id_at (id_vault ids) (va_Prefix v)\<rparr>) (doc_Vaults d),
                    dd_AIModels := map (\<lambda>m. m\<lparr>am_ID := id_at (id_model ids) (am_Name m)\<rparr>) (doc_AIModels d),
                    dd_CustomPlugins := map (\<lambda>p. p\<lparr>cp_ID := firstNonEmpty (cp_ID p)
                        (StableUUID (''custom_plugin:'' @ cp_Name p))\<rparr>) (doc_CustomPlugins d),
                    dd_CACertificates := map (\<lambda>c. c\<lparr>cac_ID := firstNonEmpty (cac_ID c)
                        (StableUUID (''ca_certificate:'' @ cac_Cert c))\<rparr>) (doc_CACertificates d)\<rparr>
      in out\<lparr>dd_Plugins := dd_Plugins out @
               map (\<lambda>(i, p). top_plugin ids i p) (List.enumerate 0 (doc_Plugins d))\<rparr>)"


section \<open>The loops in closed form\<close>

lemma fold_flatten_route:
  "fold (\<lambda>r. flatten_route r (f r) sid) rs out =
     out\<lparr>dd_Routes := dd_Routes out @ map (\<lambda>r. toDBLessRoute r (f r) sid) rs,
         dd_Plugins := dd_Plugins out @ concat (map (\<lambda>r.
           nested_plugins ''route'' (rt_Name r) (no_scope\<lparr>sc_route := f r\<rparr>) (rt_Plugins r)) rs)\<rparr>"
  by (induction rs arbitrary: out) (simp_all add: flatten_route_def)

definition service_id :: "dbLessIDs \<Rightarrow> Service \<Rightarrow> string" where
  "service_id ids s = id_at (id_service ids) (svc_Name s)"

definition route_id :: "dbLessIDs \<Rightarrow> Service \<Rightarrow> Route \<Rightarrow> string" where
  "route_id ids s r = id_at (id_route ids) (route_key s r)"

definition service_plugin_rows :: "dbLessIDs \<Rightarrow> Service \<Rightarrow> DBLessPlugin list" where
  "service_plugin_rows ids s =
     concat (map (\<lambda>r. nested_plugins ''route'' (rt_Name r) (no_scope\<lparr>sc_route := route_id ids s r\<rparr>)
        (rt_Plugins r)) (svc_Routes s)) @
     nested_plugins ''service'' (svc_Name s) (no_scope\<lparr>sc_service := service_id ids s\<rparr>) (svc_Plugins s)"

lemma fold_flatten_service:
  "fold (flatten_service ids) ss out =
     out\<lparr>dd_Services := dd_Services out @ map (\<lambda>s. toDBLessService s (service_id ids s)) ss,
         dd_Routes := dd_Routes out @ concat (map (\<lambda>s.
           map (\<lambda>r. toDBLessRoute r (route_id ids s r) (service_id ids s)) (svc_Routes s)) ss),
         dd_Plugins := dd_Plugins out @ concat (map (service_plugin_rows ids) ss)\<rparr>"
  by (induction ss arbitrary: out)
    (simp_all add: flatten_service_def fold_flatten_route Let_def service_plugin_rows_def
      service_id_def route_id_def)

definition top_route_id :: "Route \<Rightarrow> string" where
  "top_route_id r = StableUUID (''route::'' @ rt_Name r)"

lemma fold_flatten_top_route:
  "fold flatten_top_route rs out =
     out\<lparr>dd_Routes := dd_Routes out @ map (\<lambda>r. toDBLessRoute r (top_route_id r) []) rs,
         dd_Plugins := dd_Plugins out @ concat (map (\<lambda>r.
           nested_plugins ''route'' (rt_Name r) (no_scope\<lparr>sc_route := top_route_id r\<rparr>) (rt_Plugins r)) rs)\<rparr>"
  unfolding flatten_top_route_def top_route_id_def by (rule fold_flatten_route)

text \<open>The consumer loop: its rows, and the two things the memberships change.\<close>

lemma add_member_frame:
  "(fs_out (add_member c g st))\<lparr>dd_ConsumerGroupConsumers := ms\<rparr> =
     (fs_out st)\<lparr>dd_ConsumerGroupConsumers := ms\<rparr>"
  "id_service (fs_ids (add_member c g st)) = id_service (fs_ids st)"
  "id_route (fs_ids (add_member c g st)) = id_route (fs_ids st)"
  "id_model (fs_ids (add_member c g st)) = id_model (fs_ids st)"
  "id_vault (fs_ids (add_member c g st)) = id_vault (fs_ids st)"
  "id_cert (fs_ids (add_member c g st)) = id_cert (fs_ids st)"
  "id_consumer (fs_ids (add_member c g st)) = id_consumer (fs_ids st)"
  by (auto simp: add_member_def Let_def split: prod.splits option.splits)

definition consumer_id :: "dbLessIDs \<Rightarrow> Consumer \<Rightarrow> string" where
  "consumer_id ids c = id_at (id_consumer ids) (co_Username c)"

definition consumer_row :: "dbLessIDs \<Rightarrow> Consumer \<Rightarrow> DBLessConsumer" where
  "consumer_row ids c = \<lparr>dco_ID = consumer_id ids c, dco_Username = co_Username c,
     dco_CustomID = co_CustomID c, dco_Tags = co_Tags c\<rparr>"

definition consumer_plugin_rows :: "dbLessIDs \<Rightarrow> Consumer \<Rightarrow> DBLessPlugin list" where
  "consumer_plugin_rows ids c = nested_plugins ''consumer'' (co_Username c)
     (no_scope\<lparr>sc_consumer := consumer_id ids c\<rparr>) (co_Plugins c)"

definition with_consumers :: "dbLessIDs \<Rightarrow> Consumer list \<Rightarrow> DBLessConsumerGroupMember list \<Rightarrow>
    DBLessDocument \<Rightarrow> DBLessDocument" where
  "with_consumers ids cs members out =
     out\<lparr>dd_Consumers := dd_Consumers out @ map (consumer_row ids) cs,
         dd_KeyAuthCredentials := dd_KeyAuthCredentials out @ concat (map (\<lambda>c.
           map (credential_row c (consumer_id ids c)) (List.enumerate 0 (co_KeyAuthCredentials c))) cs),
         dd_Plugins := dd_Plugins out @ concat (map (consumer_plugin_rows ids) cs),
         dd_ConsumerGroupConsumers := members\<rparr>"

text \<open>Two id maps that differ at most in their groups.\<close>

definition same_but_groups :: "dbLessIDs \<Rightarrow> dbLessIDs \<Rightarrow> bool" where
  "same_but_groups a b \<longleftrightarrow> id_service a = id_service b \<and> id_route a = id_route b \<and>
     id_model a = id_model b \<and> id_vault a = id_vault b \<and> id_cert a = id_cert b \<and>
     id_consumer a = id_consumer b"

lemma fold_add_member_frame:
  "(\<exists>ms. fs_out (fold (add_member c) gs st) = (fs_out st)\<lparr>dd_ConsumerGroupConsumers := ms\<rparr>) \<and>
   same_but_groups (fs_ids (fold (add_member c) gs st)) (fs_ids st)"
proof (induction gs arbitrary: st)
  case Nil
  then show ?case
    by (auto simp: same_but_groups_def intro!: exI [of _ "dd_ConsumerGroupConsumers (fs_out st)"])
next
  case (Cons g gs)
  from Cons.IH [of "add_member c g st"] show ?case
    by (auto simp: same_but_groups_def add_member_frame)
qed

lemma same_ids_rows:
  assumes "same_but_groups a b"
  shows "consumer_row a = consumer_row b" "consumer_id a = consumer_id b"
    "consumer_plugin_rows a = consumer_plugin_rows b"
  using assms by (auto simp: same_but_groups_def consumer_row_def consumer_id_def fun_eq_iff
      consumer_plugin_rows_def)

lemma fold_flatten_consumer:
  "(\<exists>ms. fs_out (fold flatten_consumer cs st) = with_consumers (fs_ids st) cs ms (fs_out st)) \<and>
   same_but_groups (fs_ids (fold flatten_consumer cs st)) (fs_ids st)"
proof (induction cs arbitrary: st)
  case Nil
  then show ?case
    by (auto simp: same_but_groups_def with_consumers_def
        intro!: exI [of _ "dd_ConsumerGroupConsumers (fs_out st)"])
next
  case (Cons c cs)
  let ?st = "flatten_consumer c st"
  obtain ms where ms: "fs_out ?st = with_consumers (fs_ids st) [c] ms (fs_out st)"
    and same: "same_but_groups (fs_ids ?st) (fs_ids st)"
    using fold_add_member_frame [of "consumer_id (fs_ids st) c" "co_Groups c" "st\<lparr>fs_out :=
      with_consumers (fs_ids st) [c] (dd_ConsumerGroupConsumers (fs_out st)) (fs_out st)\<rparr>"]
    by (auto simp: flatten_consumer_def Let_def with_consumers_def consumer_row_def
        consumer_id_def consumer_plugin_rows_def)
  from Cons.IH [of ?st] obtain ns where
    ns: "fs_out (fold flatten_consumer cs ?st) = with_consumers (fs_ids ?st) cs ns (fs_out ?st)"
    and same': "same_but_groups (fs_ids (fold flatten_consumer cs ?st)) (fs_ids ?st)" by blast
  have "fs_out (fold flatten_consumer (c # cs) st) = with_consumers (fs_ids st) (c # cs) ns (fs_out st)"
    using same_ids_rows [OF same] by (simp add: ns ms with_consumers_def)
  with same same' show ?case by (auto simp: same_but_groups_def)
qed


lemma fold_flatten_group:
  "fold (flatten_group_row ids) gs out =
     out\<lparr>dd_ConsumerGroups := dd_ConsumerGroups out @ map (\<lambda>g. \<lparr>dcg_ID = id_at (id_group ids) (cg_Name g),
           dcg_Name = cg_Name g, dcg_Tags = cg_Tags g\<rparr>) gs,
         dd_Plugins := dd_Plugins out @ concat (map (\<lambda>g. nested_plugins ''consumer_group'' (cg_Name g)
           (no_scope\<lparr>sc_consumerGroup := id_at (id_group ids) (cg_Name g)\<rparr>) (cg_Plugins g)) gs)\<rparr>"
  by (induction gs arbitrary: out) (simp_all add: flatten_group_row_def Let_def)

definition cert_rows :: "dbLessIDs \<Rightarrow> nat \<Rightarrow> Certificate list \<Rightarrow> DBLessCertificate list" where
  "cert_rows ids i cs = map (\<lambda>(j, c). \<lparr>dcr_ID = id_at (id_cert ids) (certKey c j), dcr_Cert = crt_Cert c,
     dcr_Key = crt_Key c, dcr_CertAlt = crt_CertAlt c, dcr_KeyAlt = crt_KeyAlt c,
     dcr_Tags = crt_Tags c\<rparr>) (List.enumerate i cs)"

definition sni_rows :: "dbLessIDs \<Rightarrow> nat \<Rightarrow> Certificate list \<Rightarrow> DBLessSNI list" where
  "sni_rows ids i cs = concat (map (\<lambda>(j, c).
     map (sni_row (id_at (id_cert ids) (certKey c j)) (certKey c j)) (crt_SNIs c)) (List.enumerate i cs))"

lemma foldi_flatten_certificate:
  "foldi (flatten_certificate ids) i cs out =
     out\<lparr>dd_Certificates := dd_Certificates out @ cert_rows ids i cs,
         dd_SNIs := dd_SNIs out @ sni_rows ids i cs\<rparr>"
  by (induction cs arbitrary: i out)
    (simp_all add: flatten_certificate_def Let_def cert_rows_def sni_rows_def)

text \<open>The maps after the consumer loop.\<close>

definition final_state :: "Document \<Rightarrow> flat_state" where
  "final_state d = fold flatten_consumer (doc_Consumers d)
     \<lparr>fs_ids = build_ids d, fs_seen = [],
      fs_out = fold flatten_top_route (doc_Routes d)
        (fold (flatten_service (build_ids d)) (doc_Services d) NewDBLessDocument)\<rparr>"

definition final_ids :: "Document \<Rightarrow> dbLessIDs" where
  "final_ids d = fs_ids (final_state d)"

definition member_rows :: "Document \<Rightarrow> DBLessConsumerGroupMember list" where
  "member_rows d = dd_ConsumerGroupConsumers (fs_out (final_state d))"

lemma final_ids_same: "same_but_groups (final_ids d) (build_ids d)"
  unfolding final_ids_def final_state_def using fold_flatten_consumer
  by (metis flat_state.select_convs(1))

lemma final_id_simps [simp]:
  "id_service (final_ids d) = id_service (build_ids d)" "id_route (final_ids d) = id_route (build_ids d)"
  "id_model (final_ids d) = id_model (build_ids d)" "id_vault (final_ids d) = id_vault (build_ids d)"
  "id_cert (final_ids d) = id_cert (build_ids d)" "id_consumer (final_ids d) = id_consumer (build_ids d)"
  using final_ids_same [of d] by (simp_all add: same_but_groups_def)

lemma final_state_out:
  "fs_out (final_state d) = with_consumers (build_ids d) (doc_Consumers d) (member_rows d)
     (fold flatten_top_route (doc_Routes d)
        (fold (flatten_service (build_ids d)) (doc_Services d) NewDBLessDocument))"
proof -
  obtain ms where "fs_out (final_state d) = with_consumers (build_ids d) (doc_Consumers d) ms
     (fold flatten_top_route (doc_Routes d)
        (fold (flatten_service (build_ids d)) (doc_Services d) NewDBLessDocument))"
    using fold_flatten_consumer [of "doc_Consumers d" "\<lparr>fs_ids = build_ids d, fs_seen = [],
      fs_out = fold flatten_top_route (doc_Routes d)
        (fold (flatten_service (build_ids d)) (doc_Services d) NewDBLessDocument)\<rparr>"]
    by (auto simp: final_state_def)
  then show ?thesis by (simp add: member_rows_def with_consumers_def)
qed

text \<open>Every collection of the flat document.\<close>

lemmas flat_closed_forms = fold_flatten_group foldi_flatten_certificate fold_flatten_top_route
  fold_flatten_service with_consumers_def NewDBLessDocument_def

lemma ToDBLess_unfold:
  "ToDBLess d =
     (let ids = final_ids d;
          out = foldi (flatten_certificate ids) 0 (doc_Certificates d)
                  (fold (flatten_group_row ids) (doc_ConsumerGroups d) (fs_out (final_state d)));
          out = out\<lparr>dd_Vaults := map (\<lambda>v. v\<lparr>va_ID := id_at (id_vault ids) (va_Prefix v)\<rparr>) (doc_Vaults d),
                    dd_AIModels := map (\<lambda>m. m\<lparr>am_ID := id_at (id_model ids) (am_Name m)\<rparr>) (doc_AIModels d),
                    dd_CustomPlugins := map (\<lambda>p. p\<lparr>cp_ID := firstNonEmpty (cp_ID p)
                        (StableUUID (''custom_plugin:'' @ cp_Name p))\<rparr>) (doc_CustomPlugins d),
                    dd_CACertificates := map (\<lambda>c. c\<lparr>cac_ID := firstNonEmpty (cac_ID c)
                        (StableUUID (''ca_certificate:'' @ cac_Cert c))\<rparr>) (doc_CACertificates d)\<rparr>
      in out\<lparr>dd_Plugins := dd_Plugins out @
               map (\<lambda>(i, p). top_plugin ids i p) (List.enumerate 0 (doc_Plugins d))\<rparr>)"
  by (simp add: ToDBLess_def final_ids_def final_state_def Let_def)

lemma dd_fields:
  "dd_Services (ToDBLess d) = map (\<lambda>s. toDBLessService s (service_id (build_ids d) s)) (doc_Services d)"
  "dd_Routes (ToDBLess d) =
     concat (map (\<lambda>s. map (\<lambda>r. toDBLessRoute r (route_id (build_ids d) s r) (service_id (build_ids d) s))
       (svc_Routes s)) (doc_Services d)) @
     map (\<lambda>r. toDBLessRoute r (top_route_id r) []) (doc_Routes d)"
  "dd_Consumers (ToDBLess d) = map (consumer_row (build_ids d)) (doc_Consumers d)"
  "dd_ConsumerGroups (ToDBLess d) = map (\<lambda>g. \<lparr>dcg_ID = id_at (id_group (final_ids d)) (cg_Name g),
     dcg_Name = cg_Name g, dcg_Tags = cg_Tags g\<rparr>) (doc_ConsumerGroups d)"
  "dd_ConsumerGroupConsumers (ToDBLess d) = member_rows d"
  "dd_KeyAuthCredentials (ToDBLess d) = concat (map (\<lambda>c.
     map (credential_row c (consumer_id (build_ids d) c)) (List.enumerate 0 (co_KeyAuthCredentials c)))
     (doc_Consumers d))"
  "dd_Certificates (ToDBLess d) = cert_rows (final_ids d) 0 (doc_Certificates d)"
  "dd_SNIs (ToDBLess d) = sni_rows (final_ids d) 0 (doc_Certificates d)"
  "dd_AIModels (ToDBLess d) =
     map (\<lambda>m. m\<lparr>am_ID := id_at (id_model (build_ids d)) (am_Name m)\<rparr>) (doc_AIModels d)"
  unfolding ToDBLess_unfold Let_def
  by (simp_all add: final_state_out flat_closed_forms)

lemma dd_Plugins_eq:
  "dd_Plugins (ToDBLess d) =
     concat (map (service_plugin_rows (build_ids d)) (doc_Services d)) @
     concat (map (\<lambda>r. nested_plugins ''route'' (rt_Name r) (no_scope\<lparr>sc_route := top_route_id r\<rparr>)
       (rt_Plugins r)) (doc_Routes d)) @
     concat (map (consumer_plugin_rows (build_ids d)) (doc_Consumers d)) @
     concat (map (\<lambda>g. nested_plugins ''consumer_group'' (cg_Name g)
       (no_scope\<lparr>sc_consumerGroup := id_at (id_group (final_ids d)) (cg_Name g)\<rparr>) (cg_Plugins g))
       (doc_ConsumerGroups d)) @
     map (\<lambda>(i, p). top_plugin (final_ids d) i p) (List.enumerate 0 (doc_Plugins d))"
  unfolding ToDBLess_unfold Let_def
  by (simp add: final_state_out flat_closed_forms)


section \<open>References\<close>

definition fk_in :: "string list \<Rightarrow> string option \<Rightarrow> bool" where
  "fk_in ids fk = (case fk of None \<Rightarrow> True | Some x \<Rightarrow> x \<in> set ids)"

definition references_resolve :: "DBLessDocument \<Rightarrow> bool" where
  "references_resolve out =
     (let services = map dsv_ID (dd_Services out); routes = map drt_ID (dd_Routes out);
          consumers = map dco_ID (dd_Consumers out); groups = map dcg_ID (dd_ConsumerGroups out);
          models = map am_ID (dd_AIModels out); certs = map dcr_ID (dd_Certificates out) in
      list_all (\<lambda>r. fk_in services (drt_Service r)) (dd_Routes out) \<and>
      list_all (\<lambda>p. fk_in services (dpl_Service p) \<and> fk_in routes (dpl_Route p) \<and>
                    fk_in consumers (dpl_Consumer p) \<and> fk_in groups (dpl_ConsumerGroup p) \<and>
                    fk_in models (dpl_Model p)) (dd_Plugins out) \<and>
      list_all (\<lambda>k. dka_Consumer k \<in> set consumers) (dd_KeyAuthCredentials out) \<and>
      list_all (\<lambda>m. dgm_Consumer m \<in> set consumers \<and> dgm_ConsumerGroup m \<in> set groups)
        (dd_ConsumerGroupConsumers out) \<and>
      list_all (\<lambda>s. dsn_Certificate s \<in> set certs) (dd_SNIs out))"

text \<open>Every group a consumer joins is declared.\<close>

definition groups_declared :: "Document \<Rightarrow> bool" where
  "groups_declared d =
     list_all (\<lambda>c. list_all (\<lambda>g. g \<in> set (map cg_Name (doc_ConsumerGroups d))) (co_Groups c))
       (doc_Consumers d)"

lemma fold_ids_key:
  "fmlookup (fold (\<lambda>x. fmupd (k x) (v x)) xs m) n = Some y \<Longrightarrow>
   fmlookup m n = Some y \<or> (\<exists>x \<in> set xs. k x = n)"
proof (induction xs arbitrary: m)
  case (Cons a xs)
  from Cons.IH [of "fmupd (k a) (v a) m"] Cons.prems show ?case by (auto split: if_splits)
qed simp

lemma fold_ids_dom:
  "x \<in> set xs \<Longrightarrow> fmlookup (fold (\<lambda>x. fmupd (k x) (v x)) xs m) (k x) \<noteq> None"
proof (induction xs rule: rev_induct)
  case (snoc a xs)
  then show ?case by (cases "k a = k x") auto
qed simp

lemma fold_fold_ids_key:
  "fmlookup (fold (\<lambda>s. fold (\<lambda>r. fmupd (k s r) (v s r)) (rs s)) ss m) n = Some y \<Longrightarrow>
   fmlookup m n = Some y \<or> (\<exists>s \<in> set ss. \<exists>r \<in> set (rs s). k s r = n)"
proof (induction ss arbitrary: m)
  case (Cons a ss)
  from Cons.IH [of "fold (\<lambda>r. fmupd (k a r) (v a r)) (rs a) m"] Cons.prems show ?case
    using fold_ids_key [of "k a" "v a" "rs a" m n y] by auto
qed simp

lemma id_at_Some: "fmlookup m k = Some x \<Longrightarrow> id_at m k = x"
  by (simp add: id_at_def)

lemma service_ref_resolves:
  assumes "fmlookup (id_service (build_ids d)) n = Some x"
  shows "x \<in> set (map (service_id (build_ids d)) (doc_Services d))"
proof -
  from assms obtain s where "s \<in> set (doc_Services d)" "svc_Name s = n"
    by (auto simp: build_ids_def dest: fold_ids_key)
  with assms show ?thesis by (auto simp: service_id_def id_at_Some intro!: image_eqI [of _ _ s])
qed

lemma consumer_ref_resolves:
  assumes "fmlookup (id_consumer (build_ids d)) n = Some x"
  shows "x \<in> set (map (consumer_id (build_ids d)) (doc_Consumers d))"
proof -
  from assms obtain c where "c \<in> set (doc_Consumers d)" "co_Username c = n"
    by (auto simp: build_ids_def dest: fold_ids_key)
  with assms show ?thesis by (auto simp: consumer_id_def id_at_Some intro!: image_eqI [of _ _ c])
qed

lemma model_ref_resolves:
  assumes "fmlookup (id_model (build_ids d)) n = Some x"
  shows "x \<in> set (map (\<lambda>m. id_at (id_model (build_ids d)) (am_Name m)) (doc_AIModels d))"
proof -
  from assms obtain m where "m \<in> set (doc_AIModels d)" "am_Name m = n"
    by (auto simp: build_ids_def dest: fold_ids_key)
  with assms show ?thesis by (auto simp: id_at_Some intro!: image_eqI [of _ _ m])
qed

lemma group_ref_resolves:
  assumes "fmlookup (id_group (build_ids d)) n = Some x"
  shows "x \<in> set (map (\<lambda>g. id_at (id_group (build_ids d)) (cg_Name g)) (doc_ConsumerGroups d))"
proof -
  from assms obtain g where "g \<in> set (doc_ConsumerGroups d)" "cg_Name g = n"
    by (auto simp: build_ids_def dest: fold_ids_key)
  with assms show ?thesis by (auto simp: id_at_Some intro!: image_eqI [of _ _ g])
qed

lemma route_search_hit:
  assumes "lookup_route_in (sorted_list_of_fmap m) n = x" and "x \<noteq> []"
  shows "\<exists>k. fmlookup m k = Some x \<and> route_match n k"
proof -
  from assms obtain k where "find (\<lambda>(k, eid). route_match n k) (sorted_list_of_fmap m) = Some (k, x)"
    by (auto simp: lookup_route_in_def split: option.splits)
  then have "(k, x) \<in> set (sorted_list_of_fmap m)" "route_match n k"
    by (auto simp: find_Some_iff) (metis nth_mem)
  then show ?thesis by (auto simp: set_sorted_fmap)
qed

definition route_ids :: "Document \<Rightarrow> string set" where
  "route_ids d = {route_id (build_ids d) s r | s r. s \<in> set (doc_Services d) \<and> r \<in> set (svc_Routes s)} \<union>
     top_route_id ` set (doc_Routes d)"

lemma route_ref_resolves:
  assumes "fmlookup (id_route (build_ids d)) k = Some x"
  shows "x \<in> route_ids d"
proof -
  from assms obtain s r where "s \<in> set (doc_Services d)" "r \<in> set (svc_Routes s)" "route_key s r = k"
    by (auto simp: build_ids_def dest: fold_fold_ids_key)
  with assms show ?thesis
    by (auto simp: route_ids_def route_id_def id_at_Some)
qed

lemma row_ids [simp]:
  "dsv_ID (toDBLessService s x) = x" "drt_ID (toDBLessRoute r x y) = x"
  "drt_Service (toDBLessRoute r x y) = toDBLessFK y"
  "dpl_ID (toDBLessPlugin p x sc) = x" "dpl_Service (toDBLessPlugin p x sc) = toDBLessFK (sc_service sc)"
  "dpl_Route (toDBLessPlugin p x sc) = toDBLessFK (sc_route sc)"
  "dpl_Consumer (toDBLessPlugin p x sc) = toDBLessFK (sc_consumer sc)"
  "dpl_ConsumerGroup (toDBLessPlugin p x sc) = toDBLessFK (sc_consumerGroup sc)"
  "dpl_Model (toDBLessPlugin p x sc) = toDBLessFK (sc_model sc)"
  by (simp_all add: toDBLessService_def service_row_def Let_def toDBLessRoute_def RouteConfig.defs
      toDBLessPlugin_def plugin_fields.defs split: option.split)


text \<open>The memberships, when every group is declared.\<close>

lemma add_member_declared:
  assumes "fmlookup (id_group (fs_ids st)) g = Some x"
  shows "fs_ids (add_member c g st) = fs_ids st"
    and "dd_ConsumerGroupConsumers (fs_out (add_member c g st)) =
      (if c @ ''|'' @ x \<in> set (fs_seen st) then dd_ConsumerGroupConsumers (fs_out st)
       else dd_ConsumerGroupConsumers (fs_out st) @ [\<lparr>dgm_Consumer = c, dgm_ConsumerGroup = x\<rparr>])"
  using assms by (simp_all add: add_member_def Let_def)

definition members_ok :: "Document \<Rightarrow> flat_state \<Rightarrow> bool" where
  "members_ok d st \<longleftrightarrow> fs_ids st = build_ids d \<and>
     (\<forall>m \<in> set (dd_ConsumerGroupConsumers (fs_out st)).
        dgm_Consumer m \<in> consumer_id (build_ids d) ` set (doc_Consumers d) \<and>
        dgm_ConsumerGroup m \<in> (\<lambda>g. id_at (id_group (build_ids d)) (cg_Name g)) ` set (doc_ConsumerGroups d))"

lemma group_id_known:
  assumes "g \<in> set (map cg_Name (doc_ConsumerGroups d))"
  shows "\<exists>x. fmlookup (id_group (build_ids d)) g = Some x"
proof -
  from assms obtain gr where "gr \<in> set (doc_ConsumerGroups d)" "cg_Name gr = g" by auto
  then have "fmlookup (id_group (build_ids d)) g \<noteq> None"
    using fold_ids_dom [of gr "doc_ConsumerGroups d" cg_Name
      "\<lambda>g. firstNonEmpty (cg_ID g) (StableUUID (''consumer_group:'' @ cg_Name g))" fmempty]
    by (simp add: build_ids_def)
  then show ?thesis by blast
qed

lemma add_member_ok:
  assumes "members_ok d st" and "c \<in> consumer_id (build_ids d) ` set (doc_Consumers d)"
    and "g \<in> set (map cg_Name (doc_ConsumerGroups d))"
  shows "members_ok d (add_member c g st)"
proof -
  from assms(1) have ids: "fs_ids st = build_ids d" by (simp add: members_ok_def)
  from group_id_known [OF assms(3)] obtain x where x: "fmlookup (id_group (build_ids d)) g = Some x" by blast
  from group_ref_resolves [OF x] have
    "x \<in> (\<lambda>g. id_at (id_group (build_ids d)) (cg_Name g)) ` set (doc_ConsumerGroups d)" by simp
  with add_member_declared [of st g x c] x ids assms show ?thesis
    by (auto simp: members_ok_def)
qed

lemma final_members_ok:
  assumes "groups_declared d"
  shows "members_ok d (final_state d)"
  unfolding final_state_def
proof (rule fold_invariant_set [where P = "members_ok d"])
  fix c st assume c: "c \<in> set (doc_Consumers d)" and st: "members_ok d st"
  have cid: "consumer_id (build_ids d) c \<in> consumer_id (build_ids d) ` set (doc_Consumers d)"
    using c by simp
  from st have ids: "id_at (id_consumer (fs_ids st)) (co_Username c) = consumer_id (build_ids d) c"
    by (simp add: members_ok_def consumer_id_def)
  show "members_ok d (flatten_consumer c st)"
    unfolding flatten_consumer_def Let_def ids
  proof (rule fold_invariant_set [where P = "members_ok d"])
    fix g st' assume "g \<in> set (co_Groups c)" and st': "members_ok d st'"
    with assms c have "g \<in> set (map cg_Name (doc_ConsumerGroups d))"
      by (auto simp: groups_declared_def list_all_iff)
    with st' cid show "members_ok d (add_member (consumer_id (build_ids d) c) g st')"
      by (rule add_member_ok)
  qed (use st in \<open>simp add: members_ok_def\<close>)
qed (simp add: members_ok_def fold_flatten_top_route fold_flatten_service NewDBLessDocument_def)

lemma final_ids_declared: "groups_declared d \<Longrightarrow> final_ids d = build_ids d"
  using final_members_ok by (simp add: members_ok_def final_ids_def)

definition scope_ok :: "Document \<Rightarrow> scopeRef \<Rightarrow> bool" where
  "scope_ok d sc \<longleftrightarrow>
     (sc_service sc \<noteq> [] \<longrightarrow> sc_service sc \<in> service_id (build_ids d) ` set (doc_Services d)) \<and>
     (sc_route sc \<noteq> [] \<longrightarrow> sc_route sc \<in> route_ids d) \<and>
     (sc_consumer sc \<noteq> [] \<longrightarrow> sc_consumer sc \<in> consumer_id (build_ids d) ` set (doc_Consumers d)) \<and>
     (sc_consumerGroup sc \<noteq> [] \<longrightarrow> sc_consumerGroup sc \<in>
        (\<lambda>g. id_at (id_group (build_ids d)) (cg_Name g)) ` set (doc_ConsumerGroups d)) \<and>
     (sc_model sc \<noteq> [] \<longrightarrow> sc_model sc \<in>
        (\<lambda>m. id_at (id_model (build_ids d)) (am_Name m)) ` set (doc_AIModels d))"

lemma lookupStringRef_hit:
  "lookupStringRef ref m \<noteq> [] \<Longrightarrow> \<exists>n. fmlookup m n = Some (lookupStringRef ref m)"
  by (auto simp: lookupStringRef_def id_at_def split: option.splits)

lemma top_scope_ok: "scope_ok d (top_scope (build_ids d) p)"
proof -
  have "lookupStringRouteRef (pl_Route p) (id_route (build_ids d)) \<in> route_ids d"
    if "lookupStringRouteRef (pl_Route p) (id_route (build_ids d)) \<noteq> []"
    using that route_search_hit route_ref_resolves
    by (fastforce simp: lookupStringRouteRef_def split: option.splits)
  then show ?thesis
    unfolding scope_ok_def top_scope_def
    by (auto dest!: lookupStringRef_hit dest: service_ref_resolves consumer_ref_resolves
        group_ref_resolves model_ref_resolves)
qed


lemma nested_row:
  "p \<in> set (nested_plugins kind name sc ps) \<Longrightarrow> \<exists>q x. q \<in> set ps \<and> p = toDBLessPlugin q x sc"
  by (auto simp: nested_plugins_def in_set_enumerate_eq) (metis nth_mem)

lemma scope_ok_simps [simp]:
  "s \<in> set (doc_Services d) \<Longrightarrow> scope_ok d (no_scope\<lparr>sc_service := service_id (build_ids d) s\<rparr>)"
  "s \<in> set (doc_Services d) \<Longrightarrow> r \<in> set (svc_Routes s) \<Longrightarrow>
     scope_ok d (no_scope\<lparr>sc_route := route_id (build_ids d) s r\<rparr>)"
  "r \<in> set (doc_Routes d) \<Longrightarrow> scope_ok d (no_scope\<lparr>sc_route := top_route_id r\<rparr>)"
  "c \<in> set (doc_Consumers d) \<Longrightarrow> scope_ok d (no_scope\<lparr>sc_consumer := consumer_id (build_ids d) c\<rparr>)"
  "g \<in> set (doc_ConsumerGroups d) \<Longrightarrow>
     scope_ok d (no_scope\<lparr>sc_consumerGroup := id_at (id_group (build_ids d)) (cg_Name g)\<rparr>)"
  by (auto simp: scope_ok_def no_scope_def route_ids_def)

definition scoped_row :: "Document \<Rightarrow> DBLessPlugin \<Rightarrow> bool" where
  "scoped_row d p \<longleftrightarrow> (\<exists>q x sc. p = toDBLessPlugin q x sc \<and> scope_ok d sc)"

lemma scoped_rowI: "scope_ok d sc \<Longrightarrow> scoped_row d (toDBLessPlugin q x sc)"
  by (auto simp: scoped_row_def)

lemma nested_scoped: "p \<in> set (nested_plugins k n sc ps) \<Longrightarrow> scope_ok d sc \<Longrightarrow> scoped_row d p"
  by (auto dest!: nested_row intro: scoped_rowI)

lemma plugin_rows_scoped:
  assumes "groups_declared d" and "p \<in> set (dd_Plugins (ToDBLess d))"
  shows "scoped_row d p"
  using assms(2) unfolding dd_Plugins_eq final_ids_declared [OF assms(1)]
  by (auto simp: service_plugin_rows_def consumer_plugin_rows_def top_plugin_def
      intro!: scoped_rowI top_scope_ok elim!: nested_scoped)

lemma fk_toDBLessFK [simp]: "fk_in ids (toDBLessFK x) \<longleftrightarrow> x = [] \<or> x \<in> set ids"
  by (simp add: fk_in_def toDBLessFK_def)

lemma emitted_ids:
  "set (map dsv_ID (dd_Services (ToDBLess d))) = service_id (build_ids d) ` set (doc_Services d)"
  "set (map drt_ID (dd_Routes (ToDBLess d))) = route_ids d"
  "set (map dco_ID (dd_Consumers (ToDBLess d))) = consumer_id (build_ids d) ` set (doc_Consumers d)"
  "set (map am_ID (dd_AIModels (ToDBLess d))) =
     (\<lambda>m. id_at (id_model (build_ids d)) (am_Name m)) ` set (doc_AIModels d)"
  "groups_declared d \<Longrightarrow> set (map dcg_ID (dd_ConsumerGroups (ToDBLess d))) =
     (\<lambda>g. id_at (id_group (build_ids d)) (cg_Name g)) ` set (doc_ConsumerGroups d)"
  by (auto simp: dd_fields consumer_row_def route_ids_def final_ids_declared image_iff) blast

lemma sni_rows_resolve:
  "\<forall>s \<in> set (sni_rows ids i cs). dsn_Certificate s \<in> set (map dcr_ID (cert_rows ids i cs))"
  by (auto simp: sni_rows_def cert_rows_def sni_row_def image_iff split: prod.splits) force



definition sample_document :: Document where
  "sample_document = NewDocument\<lparr>
     doc_Services := [empty_service\<lparr>svc_Name := ''llm'', svc_URL := ''https://api.example.com/v1'',
       svc_Routes := [RouteConfig.extend (empty_route\<lparr>rt_Name := ''chat''\<rparr>)
         \<lparr>rt_Plugins = [empty_plugin\<lparr>pl_Name := ''ai-proxy-advanced''\<rparr>], rt_Source = None\<rparr>]\<rparr>],
     doc_ConsumerGroups := [\<lparr>cg_ID = [], cg_Name = ''gold'', cg_Plugins = [], cg_Tags = []\<rparr>],
     doc_Consumers := [\<lparr>co_ID = [], co_Username = ''ann'', co_CustomID = [], co_Groups = [''gold''],
       co_KeyAuthCredentials = [], co_Plugins = [], co_Tags = []\<rparr>],
     doc_Plugins := [empty_plugin\<lparr>pl_Name := ''rate-limiting'', pl_Route := Some ''chat''\<rparr>]\<rparr>"


section \<open>Metadata of both layouts\<close>

definition DBLess_Metadata :: "DBLessDocument \<Rightarrow> ConversionMetadata" where
  "DBLess_Metadata d =
     (let m = foldi (\<lambda>i p. appendPlugin i (at ''plugins'' i) (pl_Source p) (pl_TargetSources p)) 0
                (dd_Plugins d) empty_metadata;
          m = foldi (\<lambda>i r. append_route i (at ''routes'' i) (drt_Source r)) 0 (dd_Routes d) m
      in foldi (\<lambda>i s. append_service i (at ''services'' i) (dsv_Source s)) 0 (dd_Services d) m)"

text \<open>What an entry says of its origin, without its place in the output.\<close>

definition origin :: "GeneratedEntitySource \<Rightarrow> Source" where
  "origin g = \<lparr>src_EntityType = ges_EntityType g, src_EntityName = ges_EntityName g,
     src_FieldPrefix = ges_FieldPrefix g, src_FieldMappings = ges_FieldMappings g\<rparr>"

definition target_origin :: "PluginTargetSource \<Rightarrow> TargetSource" where
  "target_origin t = \<lparr>ts_ModelName = pts_ModelName t, ts_ModelTargetIndex = pts_ModelTargetIndex t,
     ts_Capabilities = pts_Capabilities t\<rparr>"

definition opt_list :: "'a option \<Rightarrow> 'a list" where
  "opt_list x = (case x of None \<Rightarrow> [] | Some y \<Rightarrow> [y])"

definition plugin_origins :: "('a plugin_fields_scheme) list \<Rightarrow> Source list" where
  "plugin_origins ps = concat (map (\<lambda>p. opt_list (pl_Source p)) ps)"

definition plugin_targets :: "('a plugin_fields_scheme) list \<Rightarrow> TargetSource list" where
  "plugin_targets ps = concat (map pl_TargetSources ps)"

lemma origins_simps [simp]:
  "plugin_origins [] = []" "plugin_origins (p # ps) = opt_list (pl_Source p) @ plugin_origins ps"
  "plugin_origins (ps @ qs) = plugin_origins ps @ plugin_origins qs"
  "plugin_targets [] = []" "plugin_targets (p # ps) = pl_TargetSources p @ plugin_targets ps"
  "plugin_targets (ps @ qs) = plugin_targets ps @ plugin_targets qs"
  by (simp_all add: plugin_origins_def plugin_targets_def)

lemma origins_concat:
  "plugin_origins (concat pss) = concat (map plugin_origins pss)"
  "plugin_targets (concat pss) = concat (map plugin_targets pss)"
  by (induction pss) auto

text \<open>What one entry adds, as the four origin lists of the metadata.\<close>

definition summary :: "ConversionMetadata \<Rightarrow> TargetSource list \<times> Source list \<times> Source list \<times> Source list" where
  "summary m = (map target_origin (md_PluginTargets m), map origin (md_Plugins m),
     map origin (md_Routes m), map origin (md_Services m))"

lemma origin_generated [simp]: "origin (generatedEntitySource i l s) = s"
  by (simp add: origin_def generatedEntitySource_def)

lemma target_origin_source [simp]: "target_origin (target_source i l j t) = t"
  by (simp add: target_origin_def target_source_def)

lemma targets_loop:
  "summary (foldi (\<lambda>j ts m. m\<lparr>md_PluginTargets := md_PluginTargets m @ [target_source i l j ts]\<rparr>) k tss m) =
     (case summary m of (t, p, r, s) \<Rightarrow> (t @ tss, p, r, s))"
  by (induction tss arbitrary: k m) (simp_all add: summary_def)

lemma summary_appendPlugin [simp]:
  "summary (appendPlugin i l src tss m) =
     (case summary m of (t, p, r, s) \<Rightarrow> (t @ tss, p @ opt_list src, r, s))"
  by (cases src) (simp_all add: appendPlugin_def Let_def targets_loop,
      simp_all add: summary_def opt_list_def)

lemma summary_append_route [simp]:
  "summary (append_route i l src m) = (case summary m of (t, p, r, s) \<Rightarrow> (t, p, r @ opt_list src, s))"
  by (cases src) (simp_all add: append_route_def summary_def opt_list_def)

lemma summary_append_service [simp]:
  "summary (append_service i l src m) = (case summary m of (t, p, r, s) \<Rightarrow> (t, p, r, s @ opt_list src))"
  by (cases src) (simp_all add: append_service_def summary_def opt_list_def)

lemma summary_plugins_loop:
  "summary (foldi (\<lambda>i p. appendPlugin i (l i) (pl_Source p) (pl_TargetSources p)) k ps m) =
     (case summary m of (t, p, r, s) \<Rightarrow> (t @ plugin_targets ps, p @ plugin_origins ps, r, s))"
  by (induction ps arbitrary: k m) (simp_all split: prod.splits)

lemma summary_append_plugins [simp]:
  "summary (append_plugins base ps m) =
     (case summary m of (t, p, r, s) \<Rightarrow> (t @ plugin_targets ps, p @ plugin_origins ps, r, s))"
  unfolding append_plugins_def by (rule summary_plugins_loop)

definition route_origins :: "Route list \<Rightarrow> Source list" where
  "route_origins rs = concat (map (\<lambda>r. opt_list (rt_Source r)) rs)"

definition route_plugins :: "Route list \<Rightarrow> Plugin list" where
  "route_plugins rs = concat (map rt_Plugins rs)"

lemma summary_append_routes [simp]:
  "summary (append_routes base rs m) =
     (case summary m of (t, p, r, s) \<Rightarrow>
        (t @ plugin_targets (route_plugins rs), p @ plugin_origins (route_plugins rs),
         r @ route_origins rs, s))"
proof -
  have "summary (foldi (\<lambda>i r m. append_plugins (at (base @ ''routes'') i @ ''.'') (rt_Plugins r)
      (append_route i (at (base @ ''routes'') i) (rt_Source r) m)) k rs m) =
     (case summary m of (t, p, r, s) \<Rightarrow>
        (t @ plugin_targets (route_plugins rs), p @ plugin_origins (route_plugins rs),
         r @ route_origins rs, s))" for k
    by (induction rs arbitrary: k m)
      (simp_all add: route_plugins_def route_origins_def split: prod.splits)
  then show ?thesis by (simp add: append_routes_def)
qed

lemma summary_empty [simp]: "summary empty_metadata = ([], [], [], [])"
  by (simp add: summary_def empty_metadata_def)

definition service_plugins :: "Service list \<Rightarrow> Plugin list" where
  "service_plugins ss = concat (map (\<lambda>s. svc_Plugins s @ route_plugins (svc_Routes s)) ss)"

lemma summary_document:
  "summary (Document_Metadata d) =
     (plugin_targets (doc_Plugins d @ route_plugins (doc_Routes d) @ service_plugins (doc_Services d)),
      plugin_origins (doc_Plugins d @ route_plugins (doc_Routes d) @ service_plugins (doc_Services d)),
      route_origins (doc_Routes d) @ concat (map (\<lambda>s. route_origins (svc_Routes s)) (doc_Services d)),
      concat (map (\<lambda>s. opt_list (svc_Source s)) (doc_Services d)))"
proof -
  have "summary (foldi (\<lambda>i s m. append_routes (at ''services'' i @ ''.'') (svc_Routes s)
      (append_plugins (at ''services'' i @ ''.'') (svc_Plugins s)
        (append_service i (at ''services'' i) (svc_Source s) m))) k ss m) =
    (case summary m of (t, p, r, s) \<Rightarrow>
       (t @ plugin_targets (service_plugins ss), p @ plugin_origins (service_plugins ss),
        r @ concat (map (\<lambda>s. route_origins (svc_Routes s)) ss),
        s @ concat (map (\<lambda>s. opt_list (svc_Source s)) ss)))" for k ss m
    by (induction ss arbitrary: k m) (simp_all add: service_plugins_def split: prod.splits)
  then show ?thesis by (simp add: Document_Metadata_def Let_def)
qed


lemma row_sources [simp]:
  "pl_Source (toDBLessPlugin p x sc) = pl_Source p"
  "pl_TargetSources (toDBLessPlugin p x sc) = pl_TargetSources p"
  "drt_Source (toDBLessRoute r x y) = rt_Source r"
  "dsv_Source (toDBLessService s x) = svc_Source s"
  by (simp_all add: toDBLessPlugin_def plugin_fields.defs toDBLessRoute_def RouteConfig.defs
      toDBLessService_def service_row_def Let_def split: option.split)

lemma enumerated_rows:
  "plugin_origins (map (\<lambda>(i, p). toDBLessPlugin p (f i p) (g i p)) (List.enumerate k ps)) = plugin_origins ps"
  "plugin_targets (map (\<lambda>(i, p). toDBLessPlugin p (f i p) (g i p)) (List.enumerate k ps)) = plugin_targets ps"
  by (induction ps arbitrary: k) simp_all

lemma nested_rows [simp]:
  "plugin_origins (nested_plugins k n sc ps) = plugin_origins ps"
  "plugin_targets (nested_plugins k n sc ps) = plugin_targets ps"
  unfolding nested_plugins_def by (rule enumerated_rows)+

definition consumer_level_plugins :: "Document \<Rightarrow> Plugin list" where
  "consumer_level_plugins d =
     concat (map co_Plugins (doc_Consumers d)) @ concat (map cg_Plugins (doc_ConsumerGroups d))"

lemma route_rows_sources:
  "concat (map (\<lambda>r. opt_list (drt_Source r)) (dd_Routes (ToDBLess d))) =
     concat (map (\<lambda>s. route_origins (svc_Routes s)) (doc_Services d)) @ route_origins (doc_Routes d)"
proof -
  have "concat (map (\<lambda>r. opt_list (drt_Source r)) (concat (map (\<lambda>s. map (\<lambda>r. toDBLessRoute r (f s r) (g s))
      (svc_Routes s)) ss))) = concat (map (\<lambda>s. route_origins (svc_Routes s)) ss)" for f g ss
    by (induction ss) (simp_all add: route_origins_def comp_def)
  then show ?thesis by (simp add: dd_fields route_origins_def comp_def)
qed

lemma summary_flat_loops:
  "summary (foldi (\<lambda>i r. append_route i (l i) (drt_Source r)) k rs m) =
     (case summary m of (t, p, r, s) \<Rightarrow> (t, p, r @ concat (map (\<lambda>r. opt_list (drt_Source r)) rs), s))"
  "summary (foldi (\<lambda>i r. append_service i (l i) (dsv_Source r)) k ss m) =
     (case summary m of (t, p, r, s) \<Rightarrow> (t, p, r, s @ concat (map (\<lambda>r. opt_list (dsv_Source r)) ss)))"
  by (induction rs arbitrary: k m, simp_all split: prod.splits)
    (induction ss arbitrary: k m, simp_all split: prod.splits)

lemma summary_dbless:
  "summary (DBLess_Metadata d) =
     (plugin_targets (dd_Plugins d), plugin_origins (dd_Plugins d),
      concat (map (\<lambda>r. opt_list (drt_Source r)) (dd_Routes d)),
      concat (map (\<lambda>s. opt_list (dsv_Source s)) (dd_Services d)))"
  by (simp add: DBLess_Metadata_def Let_def summary_flat_loops summary_plugins_loop)

lemma service_rows_origins:
  "mset (plugin_origins (concat (map (service_plugin_rows ids) ss))) = mset (plugin_origins (service_plugins ss))"
  "mset (plugin_targets (concat (map (service_plugin_rows ids) ss))) = mset (plugin_targets (service_plugins ss))"
  by (induction ss)
    (simp_all add: service_plugins_def service_plugin_rows_def origins_concat route_plugins_def comp_def)

lemma top_rows_origins:
  "plugin_origins (map (\<lambda>(i, p). top_plugin ids i p) (List.enumerate k ps)) = plugin_origins ps"
  "plugin_targets (map (\<lambda>(i, p). top_plugin ids i p) (List.enumerate k ps)) = plugin_targets ps"
  unfolding top_plugin_def by (rule enumerated_rows)+

lemma flat_origins:
  "mset (plugin_origins (dd_Plugins (ToDBLess d))) =
     mset (plugin_origins (doc_Plugins d @ route_plugins (doc_Routes d) @ service_plugins (doc_Services d)
       @ consumer_level_plugins d))"
  "mset (plugin_targets (dd_Plugins (ToDBLess d))) =
     mset (plugin_targets (doc_Plugins d @ route_plugins (doc_Routes d) @ service_plugins (doc_Services d)
       @ consumer_level_plugins d))"
  unfolding dd_Plugins_eq origins_simps mset_append service_rows_origins top_rows_origins
  by (simp_all add: origins_concat comp_def route_plugins_def consumer_plugin_rows_def
      consumer_level_plugins_def)

text \<open>C29: the two layouts of one document report the same sources: the same services and routes,
  and the same plugins and plugin targets, each as often.  The exception is exact: plugins nested
  under consumers and consumer groups are reported for the flat layout and missing from the nested
  one.\<close>

theorem metadata_layouts_agree:
  "case summary (Document_Metadata d) of (t, p, r, s) \<Rightarrow>
     case summary (DBLess_Metadata (ToDBLess d)) of (t', p', r', s') \<Rightarrow>
       mset t' = mset t + mset (plugin_targets (consumer_level_plugins d)) \<and>
       mset p' = mset p + mset (plugin_origins (consumer_level_plugins d)) \<and>
       mset r' = mset r \<and> s' = s"
  unfolding summary_document summary_dbless prod.case flat_origins route_rows_sources
  by (simp add: dd_fields comp_def)

section \<open>Scopes of top-level plugins\<close>

lemma fold_ids_value:
  "fmlookup (fold (\<lambda>x. fmupd (k x) (v x)) xs m) n = Some y \<Longrightarrow>
   fmlookup m n = Some y \<or> (\<exists>x \<in> set xs. k x = n \<and> v x = y)"
proof (induction xs arbitrary: m)
  case (Cons a xs)
  from Cons.IH [of "fmupd (k a) (v a) m"] Cons.prems show ?case by (auto split: if_splits)
qed simp

lemma firstNonEmpty_UUID [simp]: "firstNonEmpty x (StableUUID k) \<noteq> []"
  by (simp add: firstNonEmpty_def)

text \<open>A reference is lost exactly when no entity has the name.\<close>

lemma built_ref:
  "lookupStringRef ref (fold (\<lambda>x. fmupd (k x) (firstNonEmpty (i x) (StableUUID (u x)))) xs fmempty) = [] \<longleftrightarrow>
     (case ref of None \<Rightarrow> True | Some n \<Rightarrow> n \<notin> k ` set xs)"
proof (cases ref)
  case (Some n)
  let ?v = "\<lambda>x. firstNonEmpty (i x) (StableUUID (u x))"
  let ?m = "fold (\<lambda>x. fmupd (k x) (?v x)) xs fmempty"
  show ?thesis
  proof (cases "fmlookup ?m n")
    case None
    then have "n \<notin> k ` set xs"
      using fold_ids_dom [of _ xs k ?v fmempty] by (metis (no_types, lifting) imageE)
    with None Some show ?thesis by (simp add: lookupStringRef_def id_at_def)
  next
    case y: (Some y)
    then obtain x where "x \<in> set xs" "k x = n" "?v x = y" using fold_ids_value [OF y] by auto
    then have "y \<noteq> []" and "n \<in> k ` set xs" by auto
    with y Some show ?thesis by (simp add: lookupStringRef_def id_at_def)
  qed
qed (simp add: lookupStringRef_def)

definition nested_route_named :: "Document \<Rightarrow> string \<Rightarrow> bool" where
  "nested_route_named d n \<longleftrightarrow>
     (\<exists>s \<in> set (doc_Services d). \<exists>r \<in> set (svc_Routes s). route_match n (route_key s r))"

lemma fold_fold_ids_dom:
  "s \<in> set ss \<Longrightarrow> r \<in> set (rs s) \<Longrightarrow>
   fmlookup (fold (\<lambda>s. fold (\<lambda>r. fmupd (k s r) (v s r)) (rs s)) ss m) (k s r) \<noteq> None"
proof (induction ss rule: rev_induct)
  case (snoc a ss)
  have keep: "fmlookup m' x \<noteq> None \<Longrightarrow> fmlookup (fold (\<lambda>r. fmupd (k a r) (v a r)) rs' m') x \<noteq> None" for m' x rs'
    by (induction rs' arbitrary: m') auto
  show ?case
  proof (cases "s = a")
    case True
    with snoc.prems fold_ids_dom [of r "rs a" "k a" "v a"] show ?thesis by simp
  next
    case False
    with snoc keep show ?thesis by simp
  qed
qed simp

lemma fold_fold_ids_value:
  "fmlookup (fold (\<lambda>s. fold (\<lambda>r. fmupd (k s r) (v s r)) (rs s)) ss m) n = Some y \<Longrightarrow>
   fmlookup m n = Some y \<or> (\<exists>s \<in> set ss. \<exists>r \<in> set (rs s). k s r = n \<and> v s r = y)"
proof (induction ss arbitrary: m)
  case (Cons a ss)
  from Cons.IH [of "fold (\<lambda>r. fmupd (k a r) (v a r)) (rs a) m"] Cons.prems show ?case
    using fold_ids_value [of "k a" "v a" "rs a" m n y] by auto
qed simp

lemma route_ref_lost:
  "lookupStringRouteRef ref (id_route (build_ids d)) = [] \<longleftrightarrow>
     (case ref of None \<Rightarrow> True | Some n \<Rightarrow> \<not> nested_route_named d n)"
proof (cases ref)
  case (Some n)
  let ?m = "id_route (build_ids d)"
  show ?thesis
  proof (cases "find (\<lambda>(k, eid). route_match n k) (sorted_list_of_fmap ?m)")
    case None
    have "\<not> route_match n (route_key s r)" if sr: "s \<in> set (doc_Services d)" "r \<in> set (svc_Routes s)" for s r
    proof -
      obtain y where "fmlookup ?m (route_key s r) = Some y"
        using fold_fold_ids_dom [where k = route_key and rs = svc_Routes, OF sr,
            where v = "\<lambda>s r. StableUUID (''route:'' @ svc_Name s @ '':'' @ rt_Name r)" and m = fmempty]
        by (auto simp: build_ids_def)
      then have "(route_key s r, y) \<in> set (sorted_list_of_fmap ?m)" by (simp add: set_sorted_fmap)
      with None show ?thesis by (auto simp: find_None_iff)
    qed
    with None Some show ?thesis
      by (auto simp: lookupStringRouteRef_def lookup_route_in_def nested_route_named_def)
  next
    case (Some ky)
    then obtain k y where ky: "ky = (k, y)" and "(k, y) \<in> set (sorted_list_of_fmap ?m)" "route_match n k"
      by (cases ky) (auto simp: find_Some_iff, metis nth_mem)
    then obtain s r where "s \<in> set (doc_Services d)" "r \<in> set (svc_Routes s)" "route_key s r = k"
      "StableUUID (''route:'' @ svc_Name s @ '':'' @ rt_Name r) = y"
      by (auto simp: set_sorted_fmap build_ids_def dest!: fold_fold_ids_value)
    then have "nested_route_named d n" and "y \<noteq> []"
      using \<open>route_match n k\<close> by (auto simp: nested_route_named_def)
    with Some \<open>ref = Some n\<close> ky show ?thesis
      by (simp add: lookupStringRouteRef_def lookup_route_in_def)
  qed
qed (simp add: lookupStringRouteRef_def)

lemma toDBLessFK_None [simp]: "toDBLessFK x = None \<longleftrightarrow> x = []"
  by (simp add: toDBLessFK_def)

lemma top_plugin_scopes:
  assumes "groups_declared d" and "i < length (doc_Plugins d)" and "p = doc_Plugins d ! i"
  shows "\<exists>row \<in> set (dd_Plugins (ToDBLess d)). plugin_fields.truncate row = plugin_fields.truncate p \<and>
     (dpl_Service row = None \<longleftrightarrow> (case pl_Service p of None \<Rightarrow> True
        | Some n \<Rightarrow> n \<notin> svc_Name ` set (doc_Services d))) \<and>
     (dpl_Route row = None \<longleftrightarrow> (case pl_Route p of None \<Rightarrow> True | Some n \<Rightarrow> \<not> nested_route_named d n)) \<and>
     (dpl_Consumer row = None \<longleftrightarrow> (case pl_Consumer p of None \<Rightarrow> True
        | Some n \<Rightarrow> n \<notin> co_Username ` set (doc_Consumers d))) \<and>
     (dpl_ConsumerGroup row = None \<longleftrightarrow> (case pl_ConsumerGroup p of None \<Rightarrow> True
        | Some n \<Rightarrow> n \<notin> cg_Name ` set (doc_ConsumerGroups d))) \<and>
     (dpl_Model row = None \<longleftrightarrow> (case pl_Model p of None \<Rightarrow> True
        | Some n \<Rightarrow> n \<notin> am_Name ` set (doc_AIModels d)))"
proof (rule bexI [of _ "top_plugin (build_ids d) i p"])
  show "top_plugin (build_ids d) i p \<in> set (dd_Plugins (ToDBLess d))"
    using assms by (auto simp: dd_Plugins_eq final_ids_declared in_set_enumerate_eq)
next
  have "plugin_fields.truncate (top_plugin (build_ids d) i p) = plugin_fields.truncate p"
    by (simp add: top_plugin_def toDBLessPlugin_def plugin_fields.defs)
  then show "plugin_fields.truncate (top_plugin (build_ids d) i p) = plugin_fields.truncate p \<and>
     (dpl_Service (top_plugin (build_ids d) i p) = None \<longleftrightarrow> (case pl_Service p of None \<Rightarrow> True
        | Some n \<Rightarrow> n \<notin> svc_Name ` set (doc_Services d))) \<and>
     (dpl_Route (top_plugin (build_ids d) i p) = None \<longleftrightarrow>
        (case pl_Route p of None \<Rightarrow> True | Some n \<Rightarrow> \<not> nested_route_named d n)) \<and>
     (dpl_Consumer (top_plugin (build_ids d) i p) = None \<longleftrightarrow> (case pl_Consumer p of None \<Rightarrow> True
        | Some n \<Rightarrow> n \<notin> co_Username ` set (doc_Consumers d))) \<and>
     (dpl_ConsumerGroup (top_plugin (build_ids d) i p) = None \<longleftrightarrow> (case pl_ConsumerGroup p of None \<Rightarrow> True
        | Some n \<Rightarrow> n \<notin> cg_Name ` set (doc_ConsumerGroups d))) \<and>
     (dpl_Model (top_plugin (build_ids d) i p) = None \<longleftrightarrow> (case pl_Model p of None \<Rightarrow> True
        | Some n \<Rightarrow> n \<notin> am_Name ` set (doc_AIModels d)))"
    unfolding top_plugin_def top_scope_def row_ids toDBLessFK_None scopeRef.select_convs route_ref_lost
    by (simp add: build_ids_def built_ref)
qed




section \<open>Memberships and identifiers\<close>

definition seen_ok :: "flat_state \<Rightarrow> bool" where
  "seen_ok st \<longleftrightarrow> distinct (dd_ConsumerGroupConsumers (fs_out st)) \<and>
     (\<forall>m \<in> set (dd_ConsumerGroupConsumers (fs_out st)).
        dgm_Consumer m @ ''|'' @ dgm_ConsumerGroup m \<in> set (fs_seen st))"

lemma add_member_seen: "seen_ok st \<Longrightarrow> seen_ok (add_member c g st)"
  by (auto simp: seen_ok_def add_member_def Let_def split: option.splits)

lemma final_seen: "seen_ok (final_state d)"
  unfolding final_state_def
proof (rule fold_invariant_set [where P = seen_ok])
  fix c st assume st: "seen_ok st"
  show "seen_ok (flatten_consumer c st)"
    unfolding flatten_consumer_def Let_def
  proof (rule fold_invariant_set [where P = seen_ok])
    show "seen_ok (add_member x g s)" if "seen_ok s" for x g s
      by (rule add_member_seen [OF that])
  qed (use st in \<open>simp add: seen_ok_def\<close>)
qed (simp add: seen_ok_def fold_flatten_top_route fold_flatten_service NewDBLessDocument_def)

lemma dbless_members_distinct: "distinct (dd_ConsumerGroupConsumers (ToDBLess d))"
  using final_seen [of d] by (simp add: seen_ok_def dd_fields member_rows_def)

text \<open>The identifier of a nested route plugin is made without its service, so two services with a
  route of the same name get plugins with the same identifier.\<close>

definition twin_service :: "string \<Rightarrow> Service" where
  "twin_service n = empty_service\<lparr>svc_Name := n,
     svc_Routes := [RouteConfig.extend (empty_route\<lparr>rt_Name := ''chat''\<rparr>)
       \<lparr>rt_Plugins = [empty_plugin\<lparr>pl_Name := ''key-auth''\<rparr>], rt_Source = None\<rparr>]\<rparr>"

lemma dbless_plugin_ids_collide:
  "\<not> distinct (map dpl_ID (dd_Plugins (ToDBLess
     (NewDocument\<lparr>doc_Services := [twin_service ''a'', twin_service ''b'']\<rparr>))))"
  by (simp add: dd_Plugins_eq NewDocument_def service_plugin_rows_def twin_service_def
      empty_service_def RouteConfig.defs nested_plugins_def empty_plugin_def)

end
