(* ===== verification/Issues.thy ===== *)
theory Issues
  imports Kong_Model
begin

text \<open>
  Issues and the recovery of one entity (\<open>src/convert/issue.go\<close>): the issue list, \<open>report\<close> with its
  duplicate check, \<open>fail\<close>, and \<open>guard\<close> and \<open>convertEntity\<close>, which run one entity's conversion and
  roll the output back when it fails.

  The part of the converter's state these need is the record \<open>conv\<close>; the whole converter extends it.
  A step of the conversion is a function of the state that returns the new state and how it ended.
  The reason of an issue is kept as its format and arguments, unrendered: it is a text for people
  and, as the code says, not API.
\<close>

datatype ConversionIssueCode =
    MissingRequiredConfigField
  | UndefinedReference
  | ConfigFieldOverridden
  | ConfigFieldDropped
  | ConfigFieldIgnored
  | ConfigFieldInvalid
  | BehaviorMayDiffer
  | RoutingConflict
  | InternalError
  | UnsupportedInMinRuntimeVersion

datatype ConversionIssueSeverity = Error | Warning

record ConversionIssueSource =
  is_Kind :: string
  is_Name :: string
  is_Fields :: "string list"

type_synonym reason = "string \<times> string list"

record ConversionIssue =
  iss_Code :: ConversionIssueCode
  iss_Reason :: reason
  iss_Source :: ConversionIssueSource
  iss_Severity :: ConversionIssueSeverity

abbreviation (input) kindModel :: string where "kindModel \<equiv> ''model''"
abbreviation (input) kindModelProvider :: string where "kindModelProvider \<equiv> ''model_provider''"
abbreviation (input) kindMCPServer :: string where "kindMCPServer \<equiv> ''mcp_server''"
abbreviation (input) kindAgent :: string where "kindAgent \<equiv> ''agent''"
abbreviation (input) kindPolicy :: string where "kindPolicy \<equiv> ''policy''"
abbreviation (input) kindCustomPolicy :: string where "kindCustomPolicy \<equiv> ''custom_policy''"
abbreviation (input) kindAuthStrategy :: string where "kindAuthStrategy \<equiv> ''auth_strategy''"
abbreviation (input) kindConsumer :: string where "kindConsumer \<equiv> ''consumer''"
abbreviation (input) kindConsumerGroup :: string where "kindConsumerGroup \<equiv> ''consumer_group''"
abbreviation (input) kindSNI :: string where "kindSNI \<equiv> ''sni''"
abbreviation (input) kindConversionOption :: string where "kindConversionOption \<equiv> ''option''"

definition issueSource :: "string \<Rightarrow> string \<Rightarrow> ConversionIssueSource" where
  "issueSource kind name = \<lparr>is_Kind = kind, is_Name = name, is_Fields = []\<rparr>"

definition src_at :: "ConversionIssueSource \<Rightarrow> string list \<Rightarrow> ConversionIssueSource" where
  "src_at s paths = s\<lparr>is_Fields := paths\<rparr>"

definition sameEntity :: "ConversionIssueSource \<Rightarrow> ConversionIssueSource \<Rightarrow> bool" where
  "sameEntity s other = (is_Kind s = is_Kind other \<and> is_Name s = is_Name other)"

record conv =
  cv_out :: Document
  cv_issues :: "ConversionIssue list"
  cv_minRuntimeVersion :: version

text \<open>How a step ends: \<open>errSkipEntity\<close>, any other error, or a panic.\<close>

datatype outcome = Done | SkipEntity | OtherError string | Panic string

section \<open>Reporting\<close>

definition report ::
  "ConversionIssueSource \<Rightarrow> ConversionIssueSeverity \<Rightarrow> ConversionIssueCode \<Rightarrow> reason \<Rightarrow>
   'a conv_scheme \<Rightarrow> 'a conv_scheme"
where
  "report src severity code reason c =
     (let issue = \<lparr>iss_Code = code, iss_Reason = reason, iss_Source = src, iss_Severity = severity\<rparr> in
      if issue \<in> set (cv_issues c) then c else c\<lparr>cv_issues := cv_issues c @ [issue]\<rparr>)"

definition warn where
  "warn src code reason c = report src Warning code reason c"

definition reportError where
  "reportError src code reason c = report src Error code reason c"

definition fail ::
  "ConversionIssueSource \<Rightarrow> ConversionIssueCode \<Rightarrow> reason \<Rightarrow> 'a conv_scheme \<Rightarrow> 'a conv_scheme \<times> outcome"
where
  "fail src code reason c = (report src Error code reason c, SkipEntity)"

definition conv_supports :: "Feature \<Rightarrow> 'a conv_scheme \<Rightarrow> bool" where
  "conv_supports f c = Supports f (cv_minRuntimeVersion c)"

definition unsupportedReason :: "Feature \<Rightarrow> string \<Rightarrow> version \<Rightarrow> reason" where
  "unsupportedReason f field v =
     (''%s requires minimum runtime version %q, but the configured minimum is %q'',
      [field, version_String (Since f), version_String v])"

definition reportUnsupported ::
  "ConversionIssueSource \<Rightarrow> ConversionIssueSeverity \<Rightarrow> Feature \<Rightarrow> string \<Rightarrow> 'a conv_scheme \<Rightarrow> 'a conv_scheme"
where
  "reportUnsupported src severity f field c =
     report src severity UnsupportedInMinRuntimeVersion
       (unsupportedReason f field (cv_minRuntimeVersion c)) c"

definition failUnsupported ::
  "ConversionIssueSource \<Rightarrow> Feature \<Rightarrow> string \<Rightarrow> 'a conv_scheme \<Rightarrow> 'a conv_scheme \<times> outcome"
where
  "failUnsupported src f field c = (reportUnsupported src Error f field c, SkipEntity)"

definition HasErrors :: "ConversionIssue list \<Rightarrow> bool" where
  "HasErrors issues = list_ex (\<lambda>i. iss_Severity i = Error) issues"

section \<open>Running one entity\<close>

type_synonym 'c step = "'c \<Rightarrow> 'c \<times> outcome"

definition guard :: "ConversionIssueSource \<Rightarrow> 'a conv_scheme step \<Rightarrow> 'a conv_scheme \<Rightarrow> 'a conv_scheme \<times> bool" where
  "guard src fn c =
     (case fn c of
        (c', Done) \<Rightarrow> (c', True)
      | (c', SkipEntity) \<Rightarrow> (c', False)
      | (c', OtherError e) \<Rightarrow> (reportError (src_at src []) InternalError (''%v'', [e]) c', False)
      | (c', Panic p) \<Rightarrow>
          (reportError (src_at src []) InternalError (''converter panic: %v | %s'', [p]) c', False))"

definition convertEntity :: "ConversionIssueSource \<Rightarrow> 'a conv_scheme step \<Rightarrow> 'a conv_scheme \<Rightarrow> 'a conv_scheme" where
  "convertEntity src fn c =
     (let (c', ok) = guard src fn c in if ok then c' else c'\<lparr>cv_out := cv_out c\<rparr>)"

section \<open>Laws\<close>

text \<open>What reporting may do to a state: the issues grow at the end and stay distinct, nothing else
  changes.\<close>

definition reports :: "'a conv_scheme \<Rightarrow> 'a conv_scheme \<Rightarrow> bool" where
  "reports c c' \<longleftrightarrow> (\<exists>new. cv_issues c' = cv_issues c @ new) \<and>
     (distinct (cv_issues c) \<longrightarrow> distinct (cv_issues c'))"

named_theorems issue_intros

lemma reports_refl [simp, issue_intros]: "reports c c"
  by (simp add: reports_def)

lemma reports_trans [trans]: "reports a b \<Longrightarrow> reports b c \<Longrightarrow> reports a c"
  by (auto simp: reports_def)

lemma report_reports [simp, issue_intros]: "reports c (report s sv code r c)"
  by (auto simp: reports_def report_def Let_def)

lemma report_frame [simp]:
  "cv_out (report s sv code r c) = cv_out c"
  "cv_minRuntimeVersion (report s sv code r c) = cv_minRuntimeVersion c"
  "conv.more (report s sv code r c) = conv.more c"
  by (auto simp: report_def Let_def)

lemma report_recorded:
  "\<lparr>iss_Code = code, iss_Reason = r, iss_Source = s, iss_Severity = sv\<rparr> \<in> set (cv_issues (report s sv code r c))"
  by (auto simp: report_def Let_def)

lemma report_idem [simp]: "report s sv code r (report s sv code r c) = report s sv code r c"
  by (auto simp: report_def Let_def)

lemma warn_frame [simp]:
  "cv_out (warn s code r c) = cv_out c" "reports c (warn s code r c)"
  "cv_minRuntimeVersion (warn s code r c) = cv_minRuntimeVersion c"
  "conv.more (warn s code r c) = conv.more c"
  by (simp_all add: warn_def)

lemma reportError_frame [simp]:
  "cv_out (reportError s code r c) = cv_out c" "reports c (reportError s code r c)"
  "cv_minRuntimeVersion (reportError s code r c) = cv_minRuntimeVersion c"
  "conv.more (reportError s code r c) = conv.more c"
  by (simp_all add: reportError_def)

lemma reportError_HasErrors [simp]: "HasErrors (cv_issues (reportError s code r c))"
  unfolding reportError_def HasErrors_def list_ex_iff
  by (rule bexI [OF _ report_recorded]) simp

lemma HasErrors_mono: "reports c c' \<Longrightarrow> HasErrors (cv_issues c) \<Longrightarrow> HasErrors (cv_issues c')"
  by (auto simp: reports_def HasErrors_def)

text \<open>The contract of an entity's conversion: it only adds issues, and it skips the entity only after
  it recorded an error.\<close>

locale entity_step =
  fixes fn :: "'a conv_scheme step"
  assumes only_reports: "reports c (fst (fn c))"
    and skip_explained: "snd (fn c) = SkipEntity \<Longrightarrow> HasErrors (cv_issues (fst (fn c)))"
begin

lemma atomic:
  "let c' = convertEntity src fn c in
     reports c c' \<and>
     (if snd (fn c) = Done then c' = fst (fn c)
      else cv_out c' = cv_out c \<and> HasErrors (cv_issues c'))"
proof (cases "fn c")
  case (Pair c' oc)
  with only_reports [of c] have r: "reports c c'" by simp
  have out: "reports c (c'\<lparr>cv_out := d\<rparr>)" for d using r by (simp add: reports_def)
  have err: "reports c ((reportError s code e c')\<lparr>cv_out := d\<rparr>)" for s code e d
    using reports_trans [OF r reportError_frame(2) [of c' s code e]] by (simp add: reports_def)
  show ?thesis
    using r out err skip_explained [of c] Pair
    by (cases oc) (auto simp: convertEntity_def guard_def Let_def)
qed

lemma convert_reports: "reports c (convertEntity src fn c)"
  using atomic by (simp add: Let_def)

lemma rolled_back:
  "snd (fn c) \<noteq> Done \<Longrightarrow> cv_out (convertEntity src fn c) = cv_out c"
  using atomic by (simp add: Let_def)

end

text \<open>A part of a conversion that changes nothing but the issues.\<close>

definition only_issues :: "'a conv_scheme \<Rightarrow> 'a conv_scheme \<Rightarrow> bool" where
  "only_issues c c' \<longleftrightarrow> reports c c' \<and> c' = c\<lparr>cv_issues := cv_issues c'\<rparr>"

lemma only_issues_refl [simp, issue_intros]: "only_issues c c"
  by (simp add: only_issues_def)

lemma only_issues_trans [trans]: "only_issues a b \<Longrightarrow> only_issues b c \<Longrightarrow> only_issues a c"
  unfolding only_issues_def by (metis conv.fold_congs(2) conv.surjective conv.update_convs(2) reports_trans)

lemma only_issues_report [simp, issue_intros]: "only_issues c (report s sv code r c)"
  by (auto simp: only_issues_def report_def Let_def reports_def)

lemma only_issues_warn [simp, issue_intros]:
  "only_issues c (warn s code r c)" "only_issues c (reportError s code r c)"
  "only_issues c (reportUnsupported s sv f fld c)"
  by (simp_all add: warn_def reportError_def reportUnsupported_def)

lemma only_issues_fail [simp, issue_intros]:
  "only_issues c (fst (fail s code r c))" "only_issues c (fst (failUnsupported s f fld c))"
  by (simp_all add: fail_def failUnsupported_def)

lemma only_issues_reports: "only_issues c c' \<Longrightarrow> reports c c'"
  by (simp add: only_issues_def)

lemma only_issues_eq: "only_issues c c' \<Longrightarrow> c' = c\<lparr>cv_issues := cv_issues c'\<rparr>"
  by (simp add: only_issues_def)

lemma report_HasErrors [simp]: "HasErrors (cv_issues (report s Error code r c))"
  unfolding HasErrors_def list_ex_iff by (rule bexI [OF _ report_recorded]) simp

lemma fail_HasErrors [simp]:
  "HasErrors (cv_issues (fst (fail s code r c)))" "snd (fail s code r c) = SkipEntity"
  "HasErrors (cv_issues (fst (failUnsupported s f fld c)))" "snd (failUnsupported s f fld c) = SkipEntity"
  "HasErrors (cv_issues (reportUnsupported s Error f fld c))"
  by (simp_all add: fail_def failUnsupported_def reportUnsupported_def)

text \<open>Entities converted one after the other.\<close>

lemma fold_reports:
  "(\<And>x c. x \<in> set xs \<Longrightarrow> reports c (f x c)) \<Longrightarrow> reports c (fold f xs c)"
  by (induction xs arbitrary: c) (simp_all, metis reports_trans)

text \<open>A conversion changes the output and the issues only; what it reads besides stays.\<close>

definition same_env :: "'a conv_scheme \<Rightarrow> 'a conv_scheme \<Rightarrow> bool" where
  "same_env c c' \<longleftrightarrow> c' = c\<lparr>cv_out := cv_out c', cv_issues := cv_issues c'\<rparr>"

lemma same_env_iff: "same_env c c' \<longleftrightarrow>
    cv_minRuntimeVersion c' = cv_minRuntimeVersion c \<and> conv.more c' = conv.more c"
  by (cases c; cases c') (auto simp: same_env_def)

lemma same_env_refl [simp, issue_intros]: "same_env c c"
  by (simp add: same_env_iff)

lemma same_env_trans [trans]: "same_env a b \<Longrightarrow> same_env b c \<Longrightarrow> same_env a c"
  by (simp add: same_env_iff)

lemma same_env_upd [simp, issue_intros]:
  "same_env c (c'\<lparr>cv_out := d\<rparr>) \<longleftrightarrow> same_env c c'"
  "same_env c (c'\<lparr>cv_issues := is\<rparr>) \<longleftrightarrow> same_env c c'"
  by (simp_all add: same_env_iff)

lemma same_env_report [simp, issue_intros]:
  "same_env c (report s sv code r c') \<longleftrightarrow> same_env c c'"
  by (simp add: same_env_iff)

lemma only_issues_iff: "only_issues c c' \<longleftrightarrow> reports c c' \<and> same_env c c' \<and> cv_out c' = cv_out c"
  by (cases c; cases c') (auto simp: only_issues_def same_env_iff reports_def)

lemma fail_frame [simp]:
  "same_env c (fst (fail s code r c))" "reports c (fst (fail s code r c))" "cv_out (fst (fail s code r c)) = cv_out c"
  using only_issues_fail(1) [of c s code r] by (simp_all add: only_issues_iff)

lemma guard_same_env: "same_env c (fst (fn c)) \<Longrightarrow> same_env c (convertEntity s fn c)"
  by (auto simp: convertEntity_def guard_def reportError_def Let_def split: prod.splits outcome.splits)

text \<open>
  A loop over entities, each of which appends what it makes to the output: the output of the loop
  is the appends in source order.
\<close>

definition emits :: "(Document \<Rightarrow> Document) \<Rightarrow> 'a conv_scheme \<Rightarrow> 'a conv_scheme \<Rightarrow> bool" where
  "emits app c c' \<longleftrightarrow> same_env c c' \<and> reports c c' \<and> cv_out c' = app (cv_out c)"

lemma emits_trans: "emits f a b \<Longrightarrow> emits g b c \<Longrightarrow> emits (g \<circ> f) a c"
  unfolding emits_def using same_env_trans reports_trans by (auto simp: comp_def)

lemma emits_id [simp]: "emits (\<lambda>d. d) c c' \<longleftrightarrow> only_issues c c'"
  by (auto simp: emits_def only_issues_iff)

lemma emits_upd: "only_issues c c' \<Longrightarrow> emits f c (c'\<lparr>cv_out := f (cv_out c)\<rparr>)"
  by (simp add: emits_def only_issues_iff reports_def)

lemma fold_entities:
  assumes step: "\<And>x c'. x \<in> set xs \<Longrightarrow> same_env c c' \<Longrightarrow> Inv (cv_out c') \<Longrightarrow>
      emits (app x) c' (f x c') \<and> Inv (app x (cv_out c'))"
    and "same_env c c'" and "Inv (cv_out c')"
  shows "emits (fold app xs) c' (fold f xs c')"
  using assms
proof (induction xs arbitrary: c')
  case Nil
  then show ?case by (simp add: emits_def)
next
  case (Cons x xs)
  then have x: "emits (app x) c' (f x c')" "Inv (cv_out (f x c'))"
    by (auto simp: emits_def)
  then have "same_env c (f x c')" using Cons.prems(2) same_env_trans by (auto simp: emits_def)
  then have "emits (fold app xs) (f x c') (fold f xs (f x c'))"
    using Cons.IH Cons.prems(1) x(2) by simp
  from emits_trans [OF x(1) this] show ?case by (simp add: comp_def)
qed

text \<open>An entity whose step is done has the effect of its step; one that is skipped has none.\<close>

lemma convertEntity_emits:
  assumes "snd (fn c) = Done" and "emits f c (fst (fn c))"
  shows "emits f c (convertEntity s fn c)"
  using assms by (auto simp: convertEntity_def guard_def split: prod.splits)

lemma convertEntity_skips:
  assumes "snd (fn c) \<noteq> Done" and "same_env c (fst (fn c))" and "reports c (fst (fn c))"
  shows "emits (\<lambda>d. d) c (convertEntity s fn c)"
proof -
  obtain c' oc where fn: "fn c = (c', oc)" by (cases "fn c")
  have "reports c (reportError s' code r c')" for s' code r
    by (rule reports_trans [OF _ reportError_frame(2)]) (use assms(3) fn in simp)
  then have "reports c ((reportError s' code r c')\<lparr>cv_out := d\<rparr>)" for s' code r d
    by (simp add: reports_def)
  moreover have "reports c (c'\<lparr>cv_out := d\<rparr>)" for d
    using assms(3) fn by (simp add: reports_def)
  ultimately show ?thesis
    using assms fn
    by (cases oc) (auto simp: only_issues_iff same_env_iff convertEntity_def guard_def)
qed

end
