(* ===== verification/Config_Values.thy ===== *)
theory Config_Values
  imports Go_Prelude
begin

text \<open>
  Readers and writers of decoded config values that several parts of \<open>src/convert\<close> share
  (\<open>mcp_auth_strategy.go\<close>, \<open>mcp.go\<close>), and the text that \<open>%v\<close> prints for a value.
\<close>

definition isEmptyConfigValue :: "yval option \<Rightarrow> bool" where
  "isEmptyConfigValue v =
     (case v of
        None \<Rightarrow> True
      | Some YNull \<Rightarrow> True
      | Some (YMap m) \<Rightarrow> m = fmempty
      | Some (YList l) \<Rightarrow> l = []
      | Some _ \<Rightarrow> False)"

definition firstConfigString :: "ymap \<Rightarrow> string \<Rightarrow> string" where
  "firstConfigString config key =
     (case fmlookup config key of
        Some (YStr v) \<Rightarrow> v
      | Some (YList (YStr s # _)) \<Rightarrow> s
      | Some (YStrs (s # _)) \<Rightarrow> s
      | _ \<Rightarrow> [])"

definition firstConfigPath :: "ymap \<Rightarrow> string \<Rightarrow> yval list" where
  "firstConfigPath config key =
     (case fmlookup config key of
        Some (YList (YList p # _)) \<Rightarrow> p
      | Some (YList (YStrs p # _)) \<Rightarrow> map YStr p
      | _ \<Rightarrow> [])"

definition configStrings :: "ymap \<Rightarrow> string \<Rightarrow> string list" where
  "configStrings config key =
     (case fmlookup config key of
        Some (YStrs v) \<Rightarrow> v
      | Some (YList v) \<Rightarrow> List.map_filter (\<lambda>e. as_str (Some e)) v
      | _ \<Rightarrow> [])"

definition setIfNotEmpty :: "string \<Rightarrow> string \<Rightarrow> ymap \<Rightarrow> ymap" where
  "setIfNotEmpty key val m = (if val \<noteq> [] then fmupd key (YStr val) m else m)"

definition setIfNotEmptyMap :: "string \<Rightarrow> ymap \<Rightarrow> ymap \<Rightarrow> ymap" where
  "setIfNotEmptyMap key val m = (if val \<noteq> fmempty then fmupd key (YMap val) m else m)"

text \<open>\<open>%v\<close>: a map prints in key order.\<close>

definition show_int :: "int \<Rightarrow> string" where
  "show_int i = (if i < 0 then CHR ''-'' # dec (nat (- i)) else dec (nat i))"

definition show_map :: "(string, string) fmap \<Rightarrow> string" where
  "show_map m = ''map['' @ join '' '' (map (\<lambda>(k, v). k @ '':'' @ v) (sorted_list_of_fmap m)) @ '']''"

primrec show_value :: "yval \<Rightarrow> string" where
  "show_value YNull = ''<nil>''"
| "show_value (YStr s) = s"
| "show_value (YInt i) = show_int i"
| "show_value (YBool b) = (if b then ''true'' else ''false'')"
| "show_value (YFloat f) = f"
| "show_value (YList l) = ''['' @ join '' '' (map show_value l) @ '']''"
| "show_value (YStrs l) = ''['' @ join '' '' l @ '']''"
| "show_value (YMap m) = show_map (fmmap show_value m)"
| "show_value (YMaps ms) = ''['' @ join '' '' (map show_map (map (fmmap show_value) ms)) @ '']''"

lemma isEmptyConfigValue_simps [simp]:
  "isEmptyConfigValue None" "isEmptyConfigValue (Some YNull)" "\<not> isEmptyConfigValue (Some (YStr s))"
  "\<not> isEmptyConfigValue (Some (YInt i))" "\<not> isEmptyConfigValue (Some (YBool b))"
  "isEmptyConfigValue (Some (YMap m)) = (m = fmempty)" "isEmptyConfigValue (Some (YList l)) = (l = [])"
  by (simp_all add: isEmptyConfigValue_def)

end
