(* ===== verification/Upstream_Settings.thy ===== *)
theory Upstream_Settings
  imports Issues Token_Vault Config_Values
begin

text \<open>
  The settings of an upstream that the agents, the MCP servers and the models share, in both
  directions: the outbound proxy (\<open>src/convert/proxy.go\<close>, \<open>src/revert/proxy.go\<close>), the upstream
  authentication (\<open>src/convert/upstream.go\<close>, \<open>src/revert/upstream.go\<close>) and the logging
  (\<open>src/convert/agent.go\<close>, \<open>src/revert/util.go\<close>).

  A nil map of the plugin side is None.  The reverse direction keeps the warnings it makes, and an
  error when it is strict.
\<close>

section \<open>Source types\<close>

record ProxyHost =
  ph_Host :: string
  ph_Port :: "int option"

record ProxyAuth =
  pa_Username :: string
  pa_Password :: string

record ProxyConfig =
  pc_HTTPProxy :: "ProxyHost option"
  pc_HTTPSProxy :: "ProxyHost option"
  pc_ProxyScheme :: string
  pc_Auth :: "ProxyAuth option"
  pc_NoProxy :: string

record UpstreamAuth =
  ua_Type :: string
  ua_AccessKeyID :: string
  ua_SecretAccessKey :: string
  ua_SessionToken :: string
  ua_Region :: string
  ua_AssumeRoleARN :: string
  ua_RoleSessionName :: string
  ua_STSEndpointURL :: string

record UpstreamConfig =
  uc_Auth :: "UpstreamAuth option"

record Logging =
  lg_Payloads :: "bool option"
  lg_Statistics :: "bool option"
  lg_Audits :: "bool option"
  lg_MaxPayloadSize :: "int option"

definition no_logging :: Logging where
  "no_logging = \<lparr>lg_Payloads = None, lg_Statistics = None, lg_Audits = None, lg_MaxPayloadSize = None\<rparr>"

abbreviation (input) UpstreamAuthTypeAWS :: string where "UpstreamAuthTypeAWS \<equiv> ''aws''"
abbreviation (input) UpstreamAuthProviderAWSIAM :: string where "UpstreamAuthProviderAWSIAM \<equiv> ''aws_iam''"
abbreviation (input) UpstreamAuthProviderOff :: string where "UpstreamAuthProviderOff \<equiv> ''off''"
abbreviation (input) DefaultLogStatistics :: bool where "DefaultLogStatistics \<equiv> True"
abbreviation (input) DefaultLogPayloads :: bool where "DefaultLogPayloads \<equiv> False"
abbreviation (input) DefaultLogAudits :: bool where "DefaultLogAudits \<equiv> False"
abbreviation (input) DefaultMaxPayloadSize :: int where "DefaultMaxPayloadSize \<equiv> 1048576"

text \<open>A map that is dropped when it is empty.\<close>

definition unless_empty :: "ymap \<Rightarrow> ymap option" where
  "unless_empty m = (if fm_empty m then None else Some m)"

lemma unless_empty_eq [simp]:
  "unless_empty m = None \<longleftrightarrow> m = fmempty" "unless_empty m = Some m' \<longleftrightarrow> m = m' \<and> m \<noteq> fmempty"
  by (auto simp: unless_empty_def)

lemma unless_empty_default [simp]: "or_else (unless_empty m) fmempty = m"
  by (simp add: unless_empty_def)

section \<open>To the plugin\<close>

definition host_name :: "ProxyHost option \<Rightarrow> string" where
  "host_name h = (case h of None \<Rightarrow> [] | Some h \<Rightarrow> ph_Host h)"

definition host_port :: "ProxyHost option \<Rightarrow> int option" where
  "host_port h = (case h of None \<Rightarrow> None | Some h \<Rightarrow> ph_Port h)"

text \<open>A nil host sets nothing, as a host without name and port does.\<close>

definition put_host :: "string \<Rightarrow> string \<Rightarrow> ProxyHost option \<Rightarrow> ymap \<Rightarrow> ymap" where
  "put_host hk pk h cfg = setInt (setIfNotEmpty hk (host_name h) cfg) pk (host_port h)"

definition proxyConfigBlock :: "ProxyConfig option \<Rightarrow> ymap option" where
  "proxyConfigBlock p =
     (case p of
        None \<Rightarrow> None
      | Some p \<Rightarrow>
          (let cfg = fmempty;
               cfg = put_host ''http_proxy_host'' ''http_proxy_port'' (pc_HTTPProxy p) cfg;
               cfg = put_host ''https_proxy_host'' ''https_proxy_port'' (pc_HTTPSProxy p) cfg;
               cfg = setIfNotEmpty ''proxy_scheme'' (pc_ProxyScheme p) cfg;
               cfg = (case pc_Auth p of
                        Some a \<Rightarrow> setIfNotEmpty ''auth_password'' (pa_Password a)
                                    (setIfNotEmpty ''auth_username'' (pa_Username a) cfg)
                      | None \<Rightarrow> cfg);
               cfg = setIfNotEmpty ''no_proxy'' (pc_NoProxy p) cfg
           in unless_empty cfg))"

definition upstream_values :: "UpstreamAuth \<Rightarrow> (string \<times> string) list" where
  "upstream_values a =
     [(''access_key_id'', ua_AccessKeyID a), (''secret_access_key'', ua_SecretAccessKey a),
      (''session_token'', ua_SessionToken a), (''region'', ua_Region a),
      (''assume_role_arn'', ua_AssumeRoleARN a), (''role_session_name'', ua_RoleSessionName a),
      (''sts_endpoint_url'', ua_STSEndpointURL a)]"

definition upstreamAuthBlock ::
  "ConversionIssueSource \<Rightarrow> UpstreamConfig option \<Rightarrow> 'a conv_scheme \<Rightarrow>
   ('a conv_scheme \<times> outcome) \<times> ymap option"
where
  "upstreamAuthBlock src u c =
     (case u of
        None \<Rightarrow> ((c, Done), None)
      | Some u \<Rightarrow>
          (case uc_Auth u of
             None \<Rightarrow> ((c, Done), None)
           | Some a \<Rightarrow>
               if ua_Type a \<noteq> UpstreamAuthTypeAWS then
                 (fail (src_at src [''config.upstream.auth.type'']) ConfigFieldInvalid
                    (''unsupported upstream auth type %q; only %q is supported'', [ua_Type a, UpstreamAuthTypeAWS]) c,
                  None)
               else
                 (let awsIAM = fold (\<lambda>(g, p). setIfNotEmpty p (or_else (map_of (upstream_values a) g) []))
                                 AWSIAMAuthKeys fmempty;
                      auth = fmupd ''provider'' (YStr UpstreamAuthProviderAWSIAM) fmempty
                  in ((c, Done), Some (setIfNotEmptyMap ''aws_iam'' awsIAM auth)))))"

definition default_opt :: "bool \<Rightarrow> 'a \<Rightarrow> 'a option \<Rightarrow> 'a option" where
  "default_opt b d v = (if b \<and> v = None then Some d else v)"

definition withLoggingDefaults :: "Logging option \<Rightarrow> bool \<Rightarrow> bool \<Rightarrow> Logging" where
  "withLoggingDefaults l defaultAudits defaultMaxPayloadSize =
     (let l = or_else l no_logging in
      \<lparr>lg_Payloads = default_opt True DefaultLogPayloads (lg_Payloads l),
       lg_Statistics = default_opt True DefaultLogStatistics (lg_Statistics l),
       lg_Audits = default_opt defaultAudits DefaultLogAudits (lg_Audits l),
       lg_MaxPayloadSize = default_opt defaultMaxPayloadSize DefaultMaxPayloadSize (lg_MaxPayloadSize l)\<rparr>)"

definition loggingBlock :: "Logging option \<Rightarrow> ymap option" where
  "loggingBlock l =
     (case l of
        None \<Rightarrow> None
      | Some l \<Rightarrow>
          unless_empty
            (setBool (setInt (setBool (setBool fmempty ''log_statistics'' (lg_Statistics l))
               ''log_payloads'' (lg_Payloads l)) ''max_payload_size'' (lg_MaxPayloadSize l))
               ''log_audits'' (lg_Audits l)))"

section \<open>From the plugin\<close>

text \<open>The accessors of \<open>src/revert/util.go\<close>.  \<open>getInt\<close> also truncates a float; a float is opaque
  in \<open>yval\<close>, and reads as no integer here.\<close>

definition getStr :: "ymap \<Rightarrow> string \<Rightarrow> string" where
  "getStr m k = or_else (as_str (fmlookup m k)) []"

definition getBool :: "ymap \<Rightarrow> string \<Rightarrow> bool option" where
  "getBool m k = as_bool (fmlookup m k)"

definition getInt :: "ymap \<Rightarrow> string \<Rightarrow> int option" where
  "getInt m k = as_int (fmlookup m k)"

definition getMap :: "ymap \<Rightarrow> string \<Rightarrow> ymap" where
  "getMap m k = or_else (as_map (fmlookup m k)) fmempty"

definition getSlice :: "ymap \<Rightarrow> string \<Rightarrow> yval list" where
  "getSlice m k = or_else (as_list (fmlookup m k)) []"

definition toStrings :: "yval option \<Rightarrow> string list" where
  "toStrings v = (case v of Some (YList items) \<Rightarrow> List.map_filter (\<lambda>x. as_str (Some x)) items | _ \<Rightarrow> [])"

text \<open>The warnings of the reverse direction; strict makes the first one an error.\<close>

record rev =
  rv_strict :: bool
  rv_warnings :: "reason list"

definition rev_warn :: "reason \<Rightarrow> 'a rev_scheme \<Rightarrow> 'a rev_scheme \<times> reason option" where
  "rev_warn msg r =
     (if rv_strict r then (r, Some msg) else (r\<lparr>rv_warnings := rv_warnings r @ [msg]\<rparr>, None))"

definition proxy_host :: "string \<Rightarrow> int option \<Rightarrow> ProxyHost option" where
  "proxy_host host port = (if host \<noteq> [] \<or> port \<noteq> None then Some \<lparr>ph_Host = host, ph_Port = port\<rparr> else None)"

definition proxyFromConfig :: "ymap \<Rightarrow> ProxyConfig option" where
  "proxyFromConfig cfg =
     (if fm_empty cfg then None
      else
        let user = getStr cfg ''auth_username''; pass = getStr cfg ''auth_password''
        in Some \<lparr>pc_HTTPProxy = proxy_host (getStr cfg ''http_proxy_host'') (getInt cfg ''http_proxy_port''),
           pc_HTTPSProxy = proxy_host (getStr cfg ''https_proxy_host'') (getInt cfg ''https_proxy_port''),
           pc_ProxyScheme = getStr cfg ''proxy_scheme'',
           pc_Auth = (if user \<noteq> [] \<or> pass \<noteq> [] then Some \<lparr>pa_Username = user, pa_Password = pass\<rparr> else None),
           pc_NoProxy = getStr cfg ''no_proxy''\<rparr>)"

text \<open>\<open>values[g]\<close> of the non-empty fields the table renames.\<close>

definition upstream_value :: "ymap \<Rightarrow> string \<Rightarrow> string" where
  "upstream_value awsIAM g =
     or_else (map_of (List.map_filter (\<lambda>(g, p). let v = getStr awsIAM p in if v \<noteq> [] then Some (g, v) else None)
                AWSIAMAuthKeys) g) []"

definition upstream_auth_of :: "ymap \<Rightarrow> UpstreamAuth" where
  "upstream_auth_of awsIAM =
     (let get = upstream_value awsIAM in \<lparr>ua_Type = UpstreamAuthTypeAWS, ua_AccessKeyID = get ''access_key_id'',
          ua_SecretAccessKey = get ''secret_access_key'', ua_SessionToken = get ''session_token'',
          ua_Region = get ''region'', ua_AssumeRoleARN = get ''assume_role_arn'',
          ua_RoleSessionName = get ''role_session_name'', ua_STSEndpointURL = get ''sts_endpoint_url''\<rparr>)"

definition upstreamFromConfig ::
  "ymap \<Rightarrow> reason \<Rightarrow> 'a rev_scheme \<Rightarrow> ('a rev_scheme \<times> reason option) \<times> UpstreamConfig option"
where
  "upstreamFromConfig auth entity r =
     (if fm_empty auth then ((r, None), None)
      else
        let provider = getStr auth ''provider'' in
        if provider = [] \<or> provider = UpstreamAuthProviderOff then ((r, None), None)
        else if provider \<noteq> UpstreamAuthProviderAWSIAM then
          (rev_warn (fst entity @ '': unrecognized upstream auth provider %q; dropping auth'', snd entity @ [provider]) r, None)
        else
          (let awsIAM = getMap auth ''aws_iam'' in
           case (if getStr awsIAM ''bearer_token'' \<noteq> []
                 then rev_warn (fst entity @ '': upstream auth bearer_token has no AI Gateway representation; dropping it'', snd entity) r
                 else (r, None)) of
             (r, Some e) \<Rightarrow> ((r, Some e), None)
           | (r, None) \<Rightarrow> ((r, None), Some \<lparr>uc_Auth = Some (upstream_auth_of awsIAM)\<rparr>)))"

definition loggingFromBlock :: "ymap \<Rightarrow> Logging option" where
  "loggingFromBlock block =
     (if fm_empty block then None
      else let l = \<lparr>lg_Payloads = getBool block ''log_payloads'', lg_Statistics = getBool block ''log_statistics'',
                    lg_Audits = getBool block ''log_audits'', lg_MaxPayloadSize = getInt block ''max_payload_size''\<rparr>
           in if l = no_logging then None else Some l)"

definition loggingFromBlockWithDefaults :: "ymap \<Rightarrow> bool \<Rightarrow> bool \<Rightarrow> Logging" where
  "loggingFromBlockWithDefaults block defaultAudits defaultMaxPayloadSize =
     (let l = or_else (loggingFromBlock block) no_logging in
      \<lparr>lg_Payloads = default_opt True DefaultLogPayloads (lg_Payloads l),
       lg_Statistics = default_opt True DefaultLogStatistics (lg_Statistics l),
       lg_Audits = default_opt defaultAudits DefaultLogAudits (lg_Audits l),
       lg_MaxPayloadSize = default_opt defaultMaxPayloadSize DefaultMaxPayloadSize (lg_MaxPayloadSize l)\<rparr>)"

section \<open>Round trips\<close>

text \<open>The normal form of a proxy block: empty hosts and credentials are dropped, and an empty block.\<close>

definition norm_host :: "ProxyHost option \<Rightarrow> ProxyHost option" where
  "norm_host h = proxy_host (host_name h) (host_port h)"

definition norm_proxy_auth :: "ProxyAuth option \<Rightarrow> ProxyAuth option" where
  "norm_proxy_auth a =
     (case a of None \<Rightarrow> None | Some a \<Rightarrow> if pa_Username a = [] \<and> pa_Password a = [] then None else Some a)"

definition norm_fields :: "ProxyConfig \<Rightarrow> ProxyConfig" where
  "norm_fields p = p\<lparr>pc_HTTPProxy := norm_host (pc_HTTPProxy p), pc_HTTPSProxy := norm_host (pc_HTTPSProxy p),
     pc_Auth := norm_proxy_auth (pc_Auth p)\<rparr>"

definition empty_proxy :: ProxyConfig where
  "empty_proxy = \<lparr>pc_HTTPProxy = None, pc_HTTPSProxy = None, pc_ProxyScheme = [], pc_Auth = None, pc_NoProxy = []\<rparr>"

definition norm_proxy :: "ProxyConfig option \<Rightarrow> ProxyConfig option" where
  "norm_proxy p =
     (case p of None \<Rightarrow> None | Some p \<Rightarrow> if norm_fields p = empty_proxy then None else Some (norm_fields p))"

lemma setIfNotEmpty_lookup [block_lookup]:
  "fmlookup (setIfNotEmpty k v m) x = (if x = k \<and> v \<noteq> [] then Some (YStr v) else fmlookup m x)"
  by (simp add: setIfNotEmpty_def)

lemma block_empty [simp]:
  "setIfNotEmpty k v m = fmempty \<longleftrightarrow> v = [] \<and> m = fmempty"
  "setInt m k i = fmempty \<longleftrightarrow> i = None \<and> m = fmempty"
  "setBool m k b = fmempty \<longleftrightarrow> b = None \<and> m = fmempty"
  by (auto simp: setIfNotEmpty_def setInt_def setBool_def split: option.splits dest: arg_cong [where f = "\<lambda>m. fmlookup m k"])

lemma put_host_lookup [block_lookup]:
  "fmlookup (put_host hk pk h m) x =
     (if x = pk \<and> host_port h \<noteq> None then Some (YInt (the (host_port h)))
      else if x = hk \<and> host_name h \<noteq> [] then Some (YStr (host_name h)) else fmlookup m x)"
  unfolding put_host_def by (simp only: block_lookup)

lemma norm_host_None: "norm_host h = None \<longleftrightarrow> host_name h = [] \<and> host_port h = None"
  by (simp add: norm_host_def proxy_host_def)

lemma put_host_empty [simp]: "put_host hk pk h m = fmempty \<longleftrightarrow> norm_host h = None \<and> m = fmempty"
  by (auto simp: put_host_def norm_host_None)

lemma host_norm [simp]: "host_name (norm_host h) = host_name h" "host_port (norm_host h) = host_port h"
  by (auto simp: norm_host_def proxy_host_def host_name_def host_port_def)

lemma norm_host_idem [simp]: "norm_host (norm_host h) = norm_host h"
  by (simp add: norm_host_def [of "norm_host h"]) (simp add: norm_host_def)

lemma put_host_norm [simp]: "put_host hk pk (norm_host h) = put_host hk pk h"
  by (simp add: put_host_def fun_eq_iff)

lemma norm_proxy_auth_idem [simp]: "norm_proxy_auth (norm_proxy_auth a) = norm_proxy_auth a"
  by (simp add: norm_proxy_auth_def split: option.split)

text \<open>The lowered fields, read one by one.\<close>

lemma getters_lookup: "fmlookup m k = v \<Longrightarrow> getStr m k = or_else (as_str v) []" "fmlookup m k = v \<Longrightarrow> getInt m k = as_int v"
  by (simp_all add: getStr_def getInt_def)

lemma opt_read [simp]:
  "or_else (as_str (if v \<noteq> [] then Some (YStr v) else None)) [] = v"
  "as_int (if i \<noteq> None then Some (YInt (the i)) else None) = i"
  by auto

lemma proxy_lowered_hosts:
  fixes p defines "cfg \<equiv> or_else (proxyConfigBlock (Some p)) fmempty"
  shows "getStr cfg ''http_proxy_host'' = host_name (pc_HTTPProxy p)"
    and "getInt cfg ''http_proxy_port'' = host_port (pc_HTTPProxy p)"
    and "getStr cfg ''https_proxy_host'' = host_name (pc_HTTPSProxy p)"
    and "getInt cfg ''https_proxy_port'' = host_port (pc_HTTPSProxy p)"
    and "getStr cfg ''proxy_scheme'' = pc_ProxyScheme p" and "getStr cfg ''no_proxy'' = pc_NoProxy p"
  by (cases "pc_Auth p"; simp add: cfg_def proxyConfigBlock_def Let_def getStr_def getInt_def block_lookup)+

lemma proxy_lowered_auth:
  fixes p defines "cfg \<equiv> or_else (proxyConfigBlock (Some p)) fmempty"
  shows "(if getStr cfg ''auth_username'' \<noteq> [] \<or> getStr cfg ''auth_password'' \<noteq> []
          then Some \<lparr>pa_Username = getStr cfg ''auth_username'', pa_Password = getStr cfg ''auth_password''\<rparr>
          else None) = norm_proxy_auth (pc_Auth p)"
  by (cases "pc_Auth p"; simp add: cfg_def proxyConfigBlock_def Let_def getStr_def block_lookup norm_proxy_auth_def)

lemma norm_fields_empty:
  "norm_fields p = empty_proxy \<longleftrightarrow> norm_host (pc_HTTPProxy p) = None \<and> norm_host (pc_HTTPSProxy p) = None \<and>
     pc_ProxyScheme p = [] \<and> norm_proxy_auth (pc_Auth p) = None \<and> pc_NoProxy p = []"
  by (cases p) (auto simp: norm_fields_def empty_proxy_def)

lemma proxy_lowered_empty: "or_else (proxyConfigBlock (Some p)) fmempty = fmempty \<longleftrightarrow> norm_fields p = empty_proxy"
  by (cases "pc_Auth p"; simp add: proxyConfigBlock_def Let_def norm_fields_empty norm_proxy_auth_def)
    (auto split: if_splits)

lemma norm_fields_idem [simp]: "norm_fields (norm_fields p) = norm_fields p"
  by (simp add: norm_fields_def)

lemma proxy_lift: "proxyFromConfig (or_else (proxyConfigBlock p) fmempty) = norm_proxy p"
proof (cases p)
  case None
  then show ?thesis by (simp add: proxyConfigBlock_def proxyFromConfig_def norm_proxy_def)
next
  case (Some q)
  have "norm_fields q = \<lparr>pc_HTTPProxy = norm_host (pc_HTTPProxy q), pc_HTTPSProxy = norm_host (pc_HTTPSProxy q),
      pc_ProxyScheme = pc_ProxyScheme q, pc_Auth = norm_proxy_auth (pc_Auth q), pc_NoProxy = pc_NoProxy q\<rparr>"
    by (simp add: norm_fields_def)
  then show ?thesis
    unfolding Some proxyFromConfig_def Let_def proxy_lowered_hosts proxy_lowered_auth fm_empty_iff proxy_lowered_empty
    by (simp add: norm_proxy_def norm_host_def)
qed

lemma proxy_lower_norm: "proxyConfigBlock (norm_proxy p) = proxyConfigBlock p"
proof (cases p)
  case None
  then show ?thesis by (simp add: norm_proxy_def)
next
  case (Some q)
  have low: "proxyConfigBlock (Some (norm_fields q)) = proxyConfigBlock (Some q)"
    by (cases "pc_Auth q") (simp_all add: proxyConfigBlock_def Let_def norm_fields_def norm_proxy_auth_def setIfNotEmpty_def)
  moreover have "proxyConfigBlock (Some empty_proxy) = None"
    by (simp add: proxyConfigBlock_def empty_proxy_def norm_host_def proxy_host_def host_name_def host_port_def)
  moreover have "proxyConfigBlock None = None" by (simp add: proxyConfigBlock_def)
  ultimately show ?thesis using Some by (auto simp: norm_proxy_def)
qed

lemma default_opt_idem [simp]: "default_opt b d (default_opt b d v) = default_opt b d v"
  by (simp add: default_opt_def)

lemma logging_read:
  fixes l defines "m \<equiv> or_else (loggingBlock (Some l)) fmempty"
  shows "getBool m ''log_payloads'' = lg_Payloads l" "getBool m ''log_statistics'' = lg_Statistics l"
    "getBool m ''log_audits'' = lg_Audits l" "getInt m ''max_payload_size'' = lg_MaxPayloadSize l"
  by (simp_all add: m_def loggingBlock_def getBool_def getInt_def block_lookup)

lemma logging_read_empty: "or_else (loggingBlock (Some l)) fmempty = fmempty \<longleftrightarrow> l = no_logging"
  by (cases l) (auto simp: loggingBlock_def no_logging_def)

lemma loggingFromBlock_lowered:
  "or_else (loggingFromBlock (or_else (loggingBlock (Some l)) fmempty)) no_logging = l"
  unfolding loggingFromBlock_def fm_empty_iff logging_read logging_read_empty by (cases l) (simp add: Let_def)

lemma logging_lift:
  "loggingFromBlockWithDefaults (or_else (loggingBlock (Some (withLoggingDefaults l a m))) fmempty) a m =
     withLoggingDefaults l a m"
  unfolding loggingFromBlockWithDefaults_def loggingFromBlock_lowered by (simp add: withLoggingDefaults_def Let_def)

text \<open>A table-driven block, read through the same table.\<close>

lemma fold_table_other:
  "k \<notin> snd ` set keys \<Longrightarrow> fmlookup (fold (\<lambda>(g, p). setIfNotEmpty p (v g)) keys m) k = fmlookup m k"
  by (induction keys arbitrary: m) (auto simp: block_lookup)

lemma fold_table_lookup:
  assumes "distinct (map snd keys)" and "(g, p) \<in> set keys"
  shows "fmlookup (fold (\<lambda>(g, p). setIfNotEmpty p (v g)) keys m) p =
     (if v g \<noteq> [] then Some (YStr (v g)) else fmlookup m p)"
  using assms
proof (induction keys arbitrary: m)
  case (Cons k keys)
  show ?case
  proof (cases "k = (g, p)")
    case True
    then have "p \<notin> snd ` set keys" using Cons.prems(1) by simp
    then show ?thesis using True by (simp add: fold_table_other block_lookup)
  next
    case False
    with Cons.prems(2) have k: "(g, p) \<in> set keys" by simp
    have "snd (g, p) \<in> snd ` set keys" using k by (rule imageI)
    moreover have "snd k \<notin> snd ` set keys" using Cons.prems(1) by simp
    ultimately have "p \<noteq> snd k" by (metis snd_conv)
    with k have "(g, p) \<in> set keys" "p \<noteq> snd k" by simp_all
    then show ?thesis using Cons by (auto simp: case_prod_beta block_lookup)
  qed
qed simp

lemma filter_table_other:
  "g \<notin> fst ` set keys \<Longrightarrow>
   map_of (List.map_filter (\<lambda>(g, p). let v = f p in if v \<noteq> [] then Some (g, v) else None) keys) g = None"
  by (induction keys) (auto simp: List.map_filter_simps Let_def)

lemma filter_table:
  "distinct (map fst keys) \<Longrightarrow>
   or_else (map_of (List.map_filter (\<lambda>(g, p). let v = f p in if v \<noteq> [] then Some (g, v) else None) keys) g) [] =
     or_else (map_option f (map_of keys g)) []"
proof (induction keys)
  case (Cons k keys)
  then show ?case using filter_table_other [of g keys f]
    by (cases k) (auto simp: List.map_filter_simps Let_def)
qed (simp add: List.map_filter_simps)

lemma upstream_lowered:
  fixes a defines "m \<equiv> fold (\<lambda>(g, p). setIfNotEmpty p (or_else (map_of (upstream_values a) g) [])) AWSIAMAuthKeys fmempty"
  shows "upstream_auth_of m = a\<lparr>ua_Type := UpstreamAuthTypeAWS\<rparr>" and "getStr m ''bearer_token'' = []"
proof -
  have get: "getStr m p = or_else (map_of (upstream_values a) g) []" if "(g, p) \<in> set AWSIAMAuthKeys" for g p
    using fold_table_lookup [OF key_tables_injective(4) that] by (simp add: m_def getStr_def)
  have val: "upstream_value m g = or_else (map_of (upstream_values a) g) []" if "(g, p) \<in> set AWSIAMAuthKeys" for g p
    using get [OF that] map_of_is_SomeI [OF key_tables_injective(3) that]
    by (simp add: upstream_value_def filter_table [OF key_tables_injective(3)])
  have "upstream_value m ''access_key_id'' = ua_AccessKeyID a"
    "upstream_value m ''secret_access_key'' = ua_SecretAccessKey a"
    "upstream_value m ''session_token'' = ua_SessionToken a" "upstream_value m ''region'' = ua_Region a"
    "upstream_value m ''assume_role_arn'' = ua_AssumeRoleARN a"
    "upstream_value m ''role_session_name'' = ua_RoleSessionName a"
    "upstream_value m ''sts_endpoint_url'' = ua_STSEndpointURL a"
    by (subst val; simp add: AWSIAMAuthKeys_def upstream_values_def; fail)+
  then show "upstream_auth_of m = a\<lparr>ua_Type := UpstreamAuthTypeAWS\<rparr>"
    by (simp add: upstream_auth_of_def Let_def)
  have "''bearer_token'' \<notin> snd ` set AWSIAMAuthKeys" by code_simp
  then show "getStr m ''bearer_token'' = []"
    by (simp add: m_def getStr_def fold_table_other)
qed

lemma upstream_lift:
  assumes "upstreamAuthBlock src u c = ((c', Done), block)"
  shows "upstreamFromConfig (or_else block fmempty) entity r =
    ((r, None), case u of Some u' \<Rightarrow> (if uc_Auth u' = None then None else u) | None \<Rightarrow> None)"
proof (cases "u = None \<or> uc_Auth (the u) = None")
  case True
  then show ?thesis
    using assms by (auto simp: upstreamAuthBlock_def upstreamFromConfig_def split: option.splits)
next
  case False
  then obtain a where u: "u = Some \<lparr>uc_Auth = Some a\<rparr>"
    by (metis (full_types) UpstreamConfig.surjective old.unit.exhaust option.exhaust option.sel)
  let ?m = "fold (\<lambda>(g, p). setIfNotEmpty p (or_else (map_of (upstream_values a) g) [])) AWSIAMAuthKeys fmempty"
  have ty: "ua_Type a = UpstreamAuthTypeAWS"
    and block: "block = Some (setIfNotEmptyMap ''aws_iam'' ?m (fmupd ''provider'' (YStr UpstreamAuthProviderAWSIAM) fmempty))"
    using assms u by (auto simp: upstreamAuthBlock_def fail_def Let_def split: if_splits)
  let ?b = "or_else block fmempty"
  have b: "getStr ?b ''provider'' = UpstreamAuthProviderAWSIAM" "getMap ?b ''aws_iam'' = ?m" "?b \<noteq> fmempty"
    unfolding block by (auto simp: getStr_def getMap_def setIfNotEmptyMap_def dest: arg_cong [where f = "\<lambda>m. fmlookup m ''provider''"])
  show ?thesis
    using b ty upstream_lowered [of a] by (cases a) (simp add: upstreamFromConfig_def Let_def u)
qed

text \<open>C35: The proxy, the logging and the upstream authentication that were lowered are lifted back: a
  proxy to its normal form, which lowers to the same block; logging to itself with the defaults
  filled in; an AWS authentication to itself, without a warning.\<close>

theorem upstream_settings_roundtrip:
  assumes "upstreamAuthBlock src (Some \<lparr>uc_Auth = Some a\<rparr>) c = ((c', Done), auth)"
  shows "upstreamFromConfig (or_else auth fmempty) entity r = ((r, None), Some \<lparr>uc_Auth = Some a\<rparr>) \<and>
    proxyFromConfig (or_else (proxyConfigBlock p) fmempty) = norm_proxy p \<and>
    proxyConfigBlock (norm_proxy p) = proxyConfigBlock p \<and>
    loggingFromBlockWithDefaults (or_else (loggingBlock (Some (withLoggingDefaults l d m))) fmempty) d m =
      withLoggingDefaults l d m"
  using upstream_lift [OF assms, of entity r] proxy_lift [of p] proxy_lower_norm [of p] logging_lift [of l d m]
  by simp

definition sample_auth_block :: UpstreamAuth where
  "sample_auth_block = \<lparr>ua_Type = ''aws'', ua_AccessKeyID = ''id'', ua_SecretAccessKey = [], ua_SessionToken = [],
     ua_Region = ''eu'', ua_AssumeRoleARN = [], ua_RoleSessionName = [], ua_STSEndpointURL = []\<rparr>"

definition sample_state :: conv where
  "sample_state = \<lparr>cv_out = NewDocument, cv_issues = [], cv_minRuntimeVersion = LatestVersion\<rparr>"

theorem upstream_settings_roundtrip_witness:
  "snd (upstreamFromConfig (or_else (snd (upstreamAuthBlock (issueSource kindAgent ''a'')
     (Some \<lparr>uc_Auth = Some sample_auth_block\<rparr>) sample_state)) fmempty) ([], []) \<lparr>rv_strict = True, rv_warnings = []\<rparr>) =
   Some \<lparr>uc_Auth = Some sample_auth_block\<rparr>"
proof -
  obtain c' auth where u: "upstreamAuthBlock (issueSource kindAgent ''a'') (Some \<lparr>uc_Auth = Some sample_auth_block\<rparr>)
      sample_state = ((c', Done), auth)"
    by (simp add: upstreamAuthBlock_def sample_auth_block_def Let_def)
  from conjunct1 [OF upstream_settings_roundtrip [OF this, of "([], [])" "\<lparr>rv_strict = True, rv_warnings = []\<rparr>"]]
  show ?thesis unfolding u by simp
qed

end
