(* ===== verification/Source_Entities.thy ===== *)
theory Source_Entities
  imports Datastores Tags Upstream_Settings
begin

text \<open>
  The AI Gateway entities the converter reads (\<open>src/internal/aigw\<close>).

  An entity is a record with the source's fields; an absent pointer is None.  A record of the model
  has the fields that the modelled code reads.  Records that the upstream settings share are in
  \<open>Upstream_Settings\<close>, those of Token Vaults in \<open>Token_Vault\<close>.
\<close>

section \<open>Entities\<close>

record ACLs =
  acl_Allow :: "string list"
  acl_Deny :: "string list"
  acl_AllowWhen :: "string list"
  acl_DenyWhen :: "string list"

definition no_acls :: ACLs where
  "no_acls = \<lparr>acl_Allow = [], acl_Deny = [], acl_AllowWhen = [], acl_DenyWhen = []\<rparr>"

definition ACLs_IsEmpty :: "ACLs \<Rightarrow> bool" where
  "ACLs_IsEmpty a = (acl_Allow a = [] \<and> acl_Deny a = [] \<and> acl_AllowWhen a = [] \<and> acl_DenyWhen a = [])"

record DatastoreRef =
  dr_Name :: string
  dr_Path :: "string option"

record Policy =
  po_ID :: string
  po_Type :: string
  po_Name :: string
  po_Enabled :: "bool option"
  po_Global :: "bool option"
  po_Config :: ymap
  po_Labels :: labels
  po_Condition :: string
  po_Datastores :: "DatastoreRef list"
  po_Expressions :: ymap

record CustomPolicy =
  cup_ID :: string
  cup_Name :: string
  cup_Type :: string
  cup_Schema :: string
  cup_Handler :: string

record Credential =
  cr_ID :: string
  cr_Name :: string
  cr_Type :: string
  cr_TTL :: "int option"
  cr_APIKey :: string
  cr_Labels :: labels

record aigw_Consumer =
  ac_ID :: string
  ac_Name :: string
  ac_CustomID :: string
  ac_ConsumerGroups :: "string list"
  ac_Policies :: "string list"
  ac_Credentials :: "Credential list"
  ac_Labels :: labels

record aigw_ConsumerGroup =
  ag_ID :: string
  ag_Name :: string
  ag_Policies :: "string list"
  ag_Labels :: labels

record aigw_Vault =
  av_ID :: string
  av_Type :: string
  av_Name :: string
  av_Description :: string
  av_Config :: ymap
  av_Labels :: labels

record aigw_Certificate =
  act_ID :: string
  act_Name :: string
  act_Cert :: string
  act_Key :: string
  act_CertAlt :: string
  act_KeyAlt :: string
  act_Labels :: labels

record aigw_CACertificate =
  aca_ID :: string
  aca_Name :: string
  aca_Cert :: string
  aca_CertDigest :: string
  aca_Labels :: labels

record aigw_SNI =
  as_ID :: string
  as_Name :: string
  as_Hostname :: string
  as_Certificate :: string
  as_Labels :: labels

text \<open>A nil \<open>token_vault\<close> block and an empty one are told apart.\<close>

record AuthStrategy =
  ast_ID :: string
  ast_Type :: string
  ast_Name :: string
  ast_Config :: ymap
  ast_Labels :: labels
  ast_Datastores :: "DatastoreRef list"
  ast_TokenVault :: "ymap option"

section \<open>Model providers\<close>

record AuthHeader =
  ah_Name :: string
  ah_Value :: string

record AuthParam =
  ap_Name :: string
  ap_Value :: string
  ap_Location :: string

record GCPWorkloadIdentityFederation =
  wif_Source :: string
  wif_AuthJSON :: string
  wif_AWSAccessKeyID :: string
  wif_AWSSecretAccessKey :: string
  wif_AWSSessionToken :: string
  wif_AWSRegion :: string
  wif_AWSAssumeRoleARN :: string
  wif_AWSRoleSessionName :: string
  wif_AWSSTSEndpointURL :: string

record ProviderAuth =
  pva_Type :: string
  pva_Headers :: "AuthHeader list"
  pva_Params :: "AuthParam list"
  pva_AccessKeyID :: string
  pva_SecretAccessKey :: string
  pva_AWSSessionToken :: string
  pva_AssumeRoleARN :: string
  pva_RoleSessionName :: string
  pva_STSEndpointURL :: string
  pva_BatchRoleARN :: string
  pva_ClientID :: string
  pva_ClientSecret :: string
  pva_TenantID :: string
  pva_UseManagedIdentity :: "bool option"
  pva_ServiceAccountJSON :: string
  pva_MetadataURL :: string
  pva_OAuthTokenURL :: string
  pva_UseGCPServiceAccount :: "bool option"
  pva_WIF :: "GCPWorkloadIdentityFederation option"
  pva_SessionToken :: string

record AzureFoundry =
  af_Resource :: string
  af_Domain :: string

record ProviderConfig =
  pvc_Auth :: ProviderAuth
  pvc_Instance :: string
  pvc_Service :: string
  pvc_Foundry :: "AzureFoundry option"

record Provider =
  pr_Type :: string
  pr_Name :: string
  pr_Config :: ProviderConfig
  pr_Datastores :: "DatastoreRef list"
  pr_TokenVault :: "TokenVaultConfig option"

section \<open>Models\<close>

text \<open>\<open>Options\<close> of a target is the block without its \<open>type\<close>; \<open>Fields\<close> of a balancer the block
  without its \<open>algorithm\<close>.\<close>

record TargetModelConfig =
  tmc_Type :: string
  tmc_Options :: ymap

record TargetModel =
  tm_Name :: string
  tm_Weight :: "int option"
  tm_SemanticDesc :: string
  tm_AllowAuthOverride :: "bool option"
  tm_Provider :: string
  tm_Config :: TargetModelConfig

record ModelSelectorConfig =
  msc_Values :: "string list"
  msc_BodyParam :: string
  msc_HeaderParam :: string
  msc_PathParam :: string

record ModelRouteConfig = RouteConfig +
  mrc_Model :: ModelSelectorConfig

record Balancer =
  bal_Algorithm :: string
  bal_Fields :: ymap

record ModelConfig =
  moc_Route :: ModelRouteConfig
  moc_Logging :: "Logging option"
  moc_ResponseStreaming :: string
  moc_MaxRequestBodySize :: "int option"
  moc_NameHeader :: "bool option"
  moc_Proxy :: "ProxyConfig option"
  moc_Balancer :: "Balancer option"

record ModelAccess =
  moa_AuthStrategies :: "string list"
  moa_ACLs :: ACLs

record Model =
  mo_ID :: string
  mo_Type :: string
  mo_Name :: string
  mo_Enabled :: "bool option"
  mo_Capabilities :: "string list"
  mo_Formats :: "string list"
  mo_TargetModels :: "TargetModel list"
  mo_Policies :: "string list"
  mo_Datastores :: "DatastoreRef list"
  mo_Access :: ModelAccess
  mo_Config :: ModelConfig
  mo_Labels :: labels

section \<open>Agents and MCP servers\<close>

record AgentConfig =
  agc_URL :: string
  agc_Route :: RouteConfig
  agc_MaxRequestBodySize :: "int option"
  agc_Logging :: "Logging option"
  agc_Upstream :: "UpstreamConfig option"
  agc_Proxy :: "ProxyConfig option"
  agc_Certificates :: "string list"
  agc_CACertificates :: "string list"

record Agent =
  agt_ID :: string
  agt_Type :: string
  agt_Name :: string
  agt_Enabled :: "bool option"
  agt_Policies :: "string list"
  agt_ACLs :: ACLs
  agt_AuthStrategies :: "string list"
  agt_Config :: AgentConfig
  agt_Labels :: labels

record MCPProtectedResourceMetadata =
  prm_DiscoveryEndpoint :: string
  prm_Endpoint :: string
  prm_AuthorizationServers :: "string list"
  prm_Resource :: string
  prm_ScopesSupported :: "string list"

record MCPAccess =
  mac_ACLAttributeType :: string
  mac_AccessTokenClaimField :: string
  mac_ACLs :: ACLs
  mac_DefaultToolACLs :: ACLs
  mac_AuthStrategies :: "string list"
  mac_Metadata :: "MCPProtectedResourceMetadata option"

record MCPServerConfig =
  msg_Route :: RouteConfig
  msg_Logging :: "Logging option"
  msg_MaxRequestBodySize :: "int option"
  msg_Server :: ymap
  msg_Proxy :: "ProxyConfig option"
  msg_Upstream :: "UpstreamConfig option"
  msg_ToolsCacheTTLSeconds :: "int option"
  msg_Sources :: "string list"
  msg_Certificates :: "string list"
  msg_CACertificates :: "string list"

record MCPTool =
  mt_Name :: string
  mt_Description :: string
  mt_Method :: string
  mt_Path :: string
  mt_Scheme :: string
  mt_Host :: string
  mt_Headers :: ymap
  mt_Query :: ymap
  mt_RequestBody :: ymap
  mt_Responses :: ymap
  mt_Parameters :: "ymap list"
  mt_Annotations :: ymap
  mt_ACLs :: ACLs
  mt_InputSchema :: ymap
  mt_OutputSchema :: ymap

record MCPServer =
  mcp_ID :: string
  mcp_Type :: string
  mcp_Name :: string
  mcp_Enabled :: "bool option"
  mcp_Config :: MCPServerConfig
  mcp_Tools :: "MCPTool list"
  mcp_Policies :: "string list"
  mcp_Datastores :: "DatastoreRef list"
  mcp_Access :: MCPAccess
  mcp_Labels :: labels
  mcp_UpstreamURL :: string
  mcp_TokenVault :: "TokenVaultConfig option"
  mcp_RateLimiting :: "MCPRateLimit list option"

end
