(* ===== verification/Source_Model.thy ===== *)
theory Source_Model
  imports Source_Entities
begin

text \<open>
  The source document and the converter's state (\<open>src/convert/convert.go\<close>), with the registries it
  builds first (\<open>registry.go\<close>).  The state \<open>converter\<close> extends \<open>conv\<close> (output, issues,
  version) by the options, the source document and the registries.
\<close>

record SourceDocument =
  sd_Models :: "Model list"
  sd_ModelProviders :: "Provider list"
  sd_MCPServers :: "MCPServer list"
  sd_Agents :: "Agent list"
  sd_Policies :: "Policy list"
  sd_CustomPolicies :: "CustomPolicy list"
  sd_Datastores :: "Datastore list"
  sd_AuthStrategies :: "AuthStrategy list"
  sd_Consumers :: "aigw_Consumer list"
  sd_ConsumerGroups :: "aigw_ConsumerGroup list"
  sd_Vaults :: "aigw_Vault list"
  sd_CACertificates :: "aigw_CACertificate list"
  sd_Certificates :: "aigw_Certificate list"
  sd_SNIs :: "aigw_SNI list"

definition empty_source :: SourceDocument where
  "empty_source = \<lparr>sd_Models = [], sd_ModelProviders = [], sd_MCPServers = [], sd_Agents = [],
     sd_Policies = [], sd_CustomPolicies = [], sd_Datastores = [],
     sd_AuthStrategies = [],
     sd_Consumers = [], sd_ConsumerGroups = [], sd_Vaults = [], sd_CACertificates = [],
     sd_Certificates = [], sd_SNIs = []\<rparr>"

section \<open>The converter\<close>

record Options =
  opt_LabelTagPrefix :: string
  opt_MinRuntimeVersion :: string

record converter = conv +
  cn_opts :: Options
  cn_src :: SourceDocument
  cn_providers :: "(string, Provider) fmap"
  cn_policies :: "(string, Policy) fmap"
  cn_authStrategies :: "(string, AuthStrategy) fmap"
  cn_consumerGroups :: "(string, aigw_ConsumerGroup) fmap"
  cn_datastores :: "(string, Datastore) fmap"
  cn_tvOIDCWarned :: "string list"
  cn_tvOIDCSilent :: bool
  cn_modelRouteModels :: "(string, string list) fmap"

definition newConverter :: "SourceDocument \<Rightarrow> Options \<Rightarrow> converter" where
  "newConverter doc opts = \<lparr>cv_out = NewDocument, cv_issues = [], cv_minRuntimeVersion = LatestVersion,
     cn_opts = opts, cn_src = doc, cn_providers = fmempty, cn_policies = fmempty,
     cn_authStrategies = fmempty, cn_consumerGroups = fmempty, cn_datastores = fmempty,
     cn_tvOIDCWarned = [], cn_tvOIDCSilent = False, cn_modelRouteModels = fmempty\<rparr>"

text \<open>\<open>for i := range xs { m[name(xs[i])] = &xs[i] }\<close>.\<close>

definition index_by :: "('a \<Rightarrow> string) \<Rightarrow> 'a list \<Rightarrow> (string, 'a) fmap \<Rightarrow> (string, 'a) fmap" where
  "index_by name xs m = fold (\<lambda>x. fmupd (name x) x) xs m"

definition buildRegistries :: "converter \<Rightarrow> converter" where
  "buildRegistries c = c\<lparr>
     cn_providers := index_by pr_Name (sd_ModelProviders (cn_src c)) (cn_providers c),
     cn_policies := index_by po_Name (sd_Policies (cn_src c)) (cn_policies c),
     cn_authStrategies := index_by ast_Name (sd_AuthStrategies (cn_src c)) (cn_authStrategies c),
     cn_consumerGroups := index_by ag_Name (sd_ConsumerGroups (cn_src c)) (cn_consumerGroups c),
     cn_datastores := index_by ds_Name (sd_Datastores (cn_src c)) (cn_datastores c)\<rparr>"

definition labelsToTags :: "converter \<Rightarrow> labels \<Rightarrow> string list" where
  "labelsToTags c ls = LabelsToTags ls (opt_LabelTagPrefix (cn_opts c))"

text \<open>\<open>Converter.source\<close> values (\<open>provenance.go\<close>).\<close>

definition source :: "string \<Rightarrow> string \<Rightarrow> string \<Rightarrow> FieldMapping list \<Rightarrow> Source option" where
  "source entityType entityName fieldPrefix mappings =
     Some \<lparr>src_EntityType = entityType, src_EntityName = entityName, src_FieldPrefix = fieldPrefix,
           src_FieldMappings = mappings\<rparr>"

definition field_mapping :: "string \<Rightarrow> string \<Rightarrow> FieldMapping" where
  "field_mapping g s = \<lparr>fm_GeneratedPrefix = g, fm_SourcePrefix = s\<rparr>"

definition sourceScopedPlugins :: "Plugin list \<Rightarrow> string \<Rightarrow> string \<Rightarrow> Plugin list" where
  "sourceScopedPlugins plugins entityType entityName =
     map (\<lambda>p. if pl_Name p = ''acl''
              then p\<lparr>pl_Source := source entityType entityName ''access.acls'' []\<rparr> else p) plugins"

definition serviceURLSource :: "string \<Rightarrow> string \<Rightarrow> Source option" where
  "serviceURLSource entityType entityName = source entityType entityName ''config.url''
     [field_mapping ''url'' ''config.url'', field_mapping ''host'' ''config.url'',
      field_mapping ''port'' ''config.url'', field_mapping ''protocol'' ''config.url'',
      field_mapping ''path'' ''config.url'',
      field_mapping ''client_certificate'' ''config.certificates'',
      field_mapping ''ca_certificates'' ''config.ca_certificates'']"

section \<open>Laws of the registries\<close>

lemma find_append: "find P (xs @ ys) = (case find P xs of Some x \<Rightarrow> Some x | None \<Rightarrow> find P ys)"
  by (induction xs) auto

lemma find_in_set: "find P xs = Some x \<Longrightarrow> x \<in> set xs \<and> P x"
  by (induction xs) (auto split: if_splits)

lemma lookup_index_by:
  "fmlookup (index_by name xs m) k =
     (case find (\<lambda>x. name x = k) (rev xs) of Some x \<Rightarrow> Some x | None \<Rightarrow> fmlookup m k)"
  by (induction xs arbitrary: m) (auto simp: index_by_def find_append split: option.splits)

lemma index_by_named:
  "fmlookup (index_by name xs fmempty) k = Some x \<Longrightarrow> x \<in> set xs \<and> name x = k"
  by (auto simp: lookup_index_by dest!: find_in_set split: option.splits)

lemma index_by_defined:
  "fmlookup (index_by name xs fmempty) k = None \<longleftrightarrow> k \<notin> name ` set xs"
  by (auto simp: lookup_index_by find_None_iff dest!: find_in_set split: option.splits)

end
