(* ===== verification/Policies.thy ===== *)
theory Policies
  imports Source_Model
begin

text \<open>
  Access control lists (\<open>src/convert/acl.go\<close>) and policies (\<open>src/convert/policy.go\<close>): the plugins a
  referencing entity gets, the global plugins, and the checks for the WebSocket Service.

  A function that returns an error of the source returns the state and an option; None is
  \<open>errSkipEntity\<close>, whose issue is already in the state.
\<close>

section \<open>Access control lists\<close>

definition aclFields :: "(string \<times> bool \<times> (ACLs \<Rightarrow> string list)) list" where
  "aclFields =
     [(''allow'', False, acl_Allow), (''deny'', False, acl_Deny),
      (''allow_when'', True, acl_AllowWhen), (''deny_when'', True, acl_DenyWhen)]"

definition aclConfig :: "ACLs \<Rightarrow> ymap option" where
  "aclConfig acls =
     (let config = fold (\<lambda>(name, cel, field) m. if field acls \<noteq> [] then fmupd name (YStrs (field acls)) m else m)
                     aclFields fmempty
      in if config = fmempty then None else Some config)"

definition fieldPaths :: "string \<Rightarrow> ACLs \<Rightarrow> bool \<Rightarrow> string list" where
  "fieldPaths pre acls celOnly =
     map (\<lambda>(name, cel, field). pre @ name)
       (filter (\<lambda>(name, cel, field). (cel \<or> \<not> celOnly) \<and> field acls \<noteq> []) aclFields)"

definition aclFieldPaths :: "string \<Rightarrow> ACLs \<Rightarrow> string list" where
  "aclFieldPaths pre acls = fieldPaths pre acls False"

definition celFieldPaths :: "string \<Rightarrow> ACLs \<Rightarrow> string list" where
  "celFieldPaths pre acls = fieldPaths pre acls True"

definition mixesACLPairs :: "ACLs \<Rightarrow> bool" where
  "mixesACLPairs a \<longleftrightarrow> length (acl_Allow a) + length (acl_Deny a) > 0 \<and>
     length (acl_AllowWhen a) + length (acl_DenyWhen a) > 0"

definition defaultACLBlock :: "ACLs \<Rightarrow> ymap list" where
  "defaultACLBlock acls = (case aclConfig acls of None \<Rightarrow> [] | Some block \<Rightarrow> [block])"

definition aclPlugin :: "ACLs \<Rightarrow> Plugin" where
  "aclPlugin acls = empty_plugin\<lparr>pl_Name := ''acl'',
     pl_Config := fmupd ''include_consumer_groups'' (YBool True) (or_else (aclConfig acls) fmempty)\<rparr>"

section \<open>Policies\<close>

definition authPolicyTypes :: "string list" where
  "authPolicyTypes = [''key-auth'', ''openid-connect'']"

definition is_global :: "Policy \<Rightarrow> bool" where
  "is_global p = (po_Global p = Some True)"

definition ContainsAny :: "string \<Rightarrow> string \<Rightarrow> bool" where
  "ContainsAny s chars = list_ex (\<lambda>c. c \<in> set chars) s"

text \<open>
  The nested loops of \<open>normalizeRateLimitingProviderMatches\<close>, innermost first.  The code copies a
  branch only when it changes; as values, an unchanged branch and its copy are the same.
\<close>

definition norm_value :: "converter \<Rightarrow> yval \<Rightarrow> yval" where
  "norm_value c v =
     (case v of
        YStr value \<Rightarrow>
          if ContainsAny value ''*?'' then v
          else (case fmlookup (cn_providers c) value of
                  None \<Rightarrow> v
                | Some provider \<Rightarrow>
                    if pr_Type provider = [] \<or> pr_Type provider = value then v
                    else YStr (pr_Type provider))
      | _ \<Rightarrow> v)"

definition norm_match :: "converter \<Rightarrow> yval \<Rightarrow> yval" where
  "norm_match c rawMatch =
     (case rawMatch of
        YMap match \<Rightarrow>
          if fmlookup match ''type'' \<noteq> Some (YStr ''provider'') then rawMatch
          else (case fmlookup match ''values'' of
                  Some (YList vs) \<Rightarrow> YMap (fmupd ''values'' (YList (map (norm_value c) vs)) match)
                | _ \<Rightarrow> rawMatch)
      | _ \<Rightarrow> rawMatch)"

definition norm_policy :: "converter \<Rightarrow> yval \<Rightarrow> yval" where
  "norm_policy c rawPolicy =
     (case rawPolicy of
        YMap policy \<Rightarrow>
          (case fmlookup policy ''match'' of
             Some (YList matches) \<Rightarrow> YMap (fmupd ''match'' (YList (map (norm_match c) matches)) policy)
           | _ \<Rightarrow> rawPolicy)
      | _ \<Rightarrow> rawPolicy)"

definition normalizeRateLimitingProviderMatches :: "converter \<Rightarrow> Policy \<Rightarrow> ymap" where
  "normalizeRateLimitingProviderMatches c p =
     (if po_Type p \<noteq> ''ai-rate-limiting-advanced'' \<or> po_Config p = fmempty then po_Config p
      else case fmlookup (po_Config p) ''policies'' of
             Some (YList policies) \<Rightarrow>
               fmupd ''policies'' (YList (map (norm_policy c) policies)) (po_Config p)
           | _ \<Rightarrow> po_Config p)"

definition datastoreField :: "DatastoreRef list \<Rightarrow> string \<Rightarrow> string" where
  "datastoreField refs name =
     (case find (\<lambda>(i, ref). dr_Name ref = name) (enumerate 0 refs) of
        Some (i, _) \<Rightarrow> at ''datastores'' i @ ''.name''
      | None \<Rightarrow> ''datastores'')"

text \<open>The text of an error as its format and arguments.\<close>

fun datastore_reason :: "datastore_error \<Rightarrow> reason" where
  "datastore_reason (PluginTypeUnsupported t) = (''plugin type %q does not support datastores'', [t])"
| "datastore_reason TooManyDatastores = (''a policy may reference at most one datastore'', [])"
| "datastore_reason (UnknownDatastoreError n) = (''references unknown datastore %q'', [n])"
| "datastore_reason (DatastoreTypeUnsupported p t) = (''plugin type %q does not support a %q datastore'', [p, t])"
| "datastore_reason (UnhandledConfigPath p) = (''unhandled Datastore config path %q'', [p])"
| "datastore_reason (ModelDatastoreUnsupported t) =
     (''a model does not support a %q datastore; use one of %v instead'', t # modelDatastoreTypes)"
| "datastore_reason (TokenVaultDatastoreUnsupported t) =
     (''an MCP server does not support a %q datastore; use %q instead'', [t, DatastoreTypeTokenVault])"
| "datastore_reason (DirectoryRequired n) = (''token-vault datastore %q requires config.directory'', [n])"

definition wrap_reason :: "string \<Rightarrow> string list \<Rightarrow> reason \<Rightarrow> reason" where
  "wrap_reason fmt args r = (fmt @ fst r, args @ snd r)"

definition applyDatastore :: "Policy \<Rightarrow> ymap \<Rightarrow> converter \<Rightarrow> converter \<times> ymap option" where
  "applyDatastore p config c =
     (if po_Datastores p = [] then (c, Some config)
      else
        let src = issueSource kindPolicy (po_Name p) in
        case ApplyDatastore config (po_Type p) (map dr_Name (po_Datastores p)) (cn_datastores c) of
          (out, Some (UnknownDatastoreError name)) \<Rightarrow>
            (reportError (src_at src [datastoreField (po_Datastores p) name]) UndefinedReference
               (wrap_reason ''policy %q '' [po_Name p] (datastore_reason (UnknownDatastoreError name))) c,
             Some (or_else out fmempty))
        | (out, Some e) \<Rightarrow>
            (reportError (src_at src [''datastores'']) ConfigFieldInvalid
               (wrap_reason ''policy %q: '' [po_Name p] (datastore_reason e)) c, None)
        | (out, None) \<Rightarrow> (c, Some (or_else out fmempty)))"

definition policyPlugin :: "Policy \<Rightarrow> string list \<Rightarrow> bool \<Rightarrow> converter \<Rightarrow> converter \<times> Plugin option" where
  "policyPlugin p tags preserveID c =
     (if po_Condition p \<noteq> [] \<and> \<not> conv_supports FeaturePolicyCondition c
      then (reportUnsupported (src_at (issueSource kindPolicy (po_Name p)) [''condition'']) Error
              FeaturePolicyCondition ''condition'' c, None)
      else if po_Expressions p \<noteq> fmempty \<and> \<not> conv_supports FeaturePolicyExpressions c
      then (reportUnsupported (src_at (issueSource kindPolicy (po_Name p)) [''expressions'']) Error
              FeaturePolicyExpressions ''expressions'' c, None)
      else case applyDatastore p (normalizeRateLimitingProviderMatches c p) c of
        (c, None) \<Rightarrow> (c, None)
      | (c, Some config) \<Rightarrow>
          (c, Some (empty_plugin\<lparr>
             pl_Name := po_Type p,
             pl_Condition := po_Condition p,
             pl_Expressions := po_Expressions p,
             pl_Config := config,
             pl_Tags := tags,
             pl_Source := source ''policy'' (po_Name p) ''config'' [],
             pl_ID := (if preserveID then po_ID p else []),
             pl_Enabled := (if po_Enabled p = Some False then Some False else None)\<rparr>)))"

fun scoped_policies ::
  "ConversionIssueSource \<Rightarrow> nat \<Rightarrow> string list \<Rightarrow> string list \<Rightarrow> Plugin list \<Rightarrow> converter \<Rightarrow>
   converter \<times> Plugin list option"
where
  "scoped_policies src i [] seen plugins c = (c, Some plugins)"
| "scoped_policies src i (ref # refs) seen plugins c =
     (if ref \<in> set seen then scoped_policies src (Suc i) refs seen plugins c
      else
        case fmlookup (cn_policies c) ref of
          None \<Rightarrow>
            scoped_policies src (Suc i) refs (ref # seen) plugins
              (reportError (src_at src [at ''policies'' i]) UndefinedReference
                 (''unknown policy reference %q'', [ref]) c)
        | Some p \<Rightarrow>
            if is_Kind src = kindModel \<and> po_Type p \<in> set authPolicyTypes
            then (fst (fail (src_at src [at ''policies'' i]) ConfigFieldInvalid
                    (''model policy %q has type %q, but authentication policies can only be applied to models via auth_strategies, not policies'',
                     [ref, po_Type p]) c), None)
            else if is_global p then scoped_policies src (Suc i) refs (ref # seen) plugins c
            else case policyPlugin p [] False c of
              (c, Some plugin) \<Rightarrow> scoped_policies src (Suc i) refs (ref # seen) (plugins @ [plugin]) c
            | (c, None) \<Rightarrow> scoped_policies src (Suc i) refs (ref # seen) plugins c)"

definition acl_feature :: "ConversionIssueSource \<Rightarrow> Feature" where
  "acl_feature src = (if is_Kind src = kindMCPServer then FeatureMCPACLWhen else FeatureACLWhen)"

definition access_control ::
  "ConversionIssueSource \<Rightarrow> ACLs \<Rightarrow> Plugin list \<Rightarrow> converter \<Rightarrow> converter \<times> Plugin list option"
where
  "access_control src acls plugins c =
     (if ACLs_IsEmpty acls then (c, Some plugins)
      else if length (aclFieldPaths [] acls) > 1
      then (fst (fail (src_at src (aclFieldPaths ''access.acls.'' acls)) ConfigFieldInvalid
              (''acl policy sets %s, but a Kong acl plugin permits exactly one of allow, deny, allow_when, or deny_when'',
               [join '' and '' (aclFieldPaths [] acls)]) c), None)
      else if celFieldPaths ''access.acls.'' acls \<noteq> [] \<and> \<not> conv_supports (acl_feature src) c
      then (fst (failUnsupported (src_at src (celFieldPaths ''access.acls.'' acls)) (acl_feature src)
              (hd (celFieldPaths ''access.acls.'' acls)) c), None)
      else (c, Some (plugins @ [aclPlugin acls])))"

definition scopedPlugins ::
  "ConversionIssueSource \<Rightarrow> string list \<Rightarrow> ACLs \<Rightarrow> converter \<Rightarrow> converter \<times> Plugin list option"
where
  "scopedPlugins src refs acls c =
     (case scoped_policies src 0 refs [] [] c of
        (c, None) \<Rightarrow> (c, None)
      | (c, Some plugins) \<Rightarrow> access_control src acls plugins c)"

section \<open>Global policies\<close>

definition global_policy_step :: "Policy \<Rightarrow> converter step" where
  "global_policy_step p c =
     (case policyPlugin p (labelsToTags c (po_Labels p)) True c of
        (c, Some plugin) \<Rightarrow>
          (c\<lparr>cv_out := (cv_out c)\<lparr>doc_Plugins := doc_Plugins (cv_out c) @ [plugin]\<rparr>\<rparr>, Done)
      | (c, None) \<Rightarrow> (c, Done))"

definition convertGlobalPolicies :: "converter \<Rightarrow> converter" where
  "convertGlobalPolicies c =
     fold (\<lambda>p c. if \<not> is_global p then c
                 else convertEntity (issueSource kindPolicy (po_Name p)) (global_policy_step p) c)
       (sd_Policies (cn_src c)) c"

definition GatewayWebSocketServiceName :: string where
  "GatewayWebSocketServiceName = ''ai-gateway-websocket''"

definition hasWebSocketRoute :: "converter \<Rightarrow> bool" where
  "hasWebSocketRoute c =
     list_ex (\<lambda>svc. svc_Name svc = GatewayWebSocketServiceName \<and> svc_Routes svc \<noteq> []) (doc_Services (cv_out c))"

definition warnGlobalPoliciesForWebSocket :: "converter \<Rightarrow> converter" where
  "warnGlobalPoliciesForWebSocket c =
     (if \<not> hasWebSocketRoute c then c
      else fold (\<lambda>p c. if \<not> is_global p \<or> po_Type p \<in> set authPolicyTypes then c
                  else warn (src_at (issueSource kindPolicy (po_Name p)) [''global'']) BehaviorMayDiffer
                    (''global policy %q (type %q) keeps Kong's http/https default protocols, so it will not run on the WebSocket routes this document emits'',
                     [po_Name p, po_Type p]) c)
             (sd_Policies (cn_src c)) c)"

definition globalAuthPolicy :: "converter \<Rightarrow> Policy option" where
  "globalAuthPolicy c =
     find (\<lambda>p. is_global p \<and> po_Type p \<in> set authPolicyTypes \<and> po_Enabled p \<in> {None, Some True})
       (sd_Policies (cn_src c))"

section \<open>Laws\<close>

text \<open>What the conversion of a policy reads is not the issue list.\<close>

lemma conv_supports_issues [simp]: "conv_supports f (c\<lparr>cv_issues := x\<rparr>) = conv_supports f c"
  by (simp add: conv_supports_def)

lemma normalize_issues [simp]:
  "normalizeRateLimitingProviderMatches (c\<lparr>cv_issues := x\<rparr>) p = normalizeRateLimitingProviderMatches c p"
proof -
  have "norm_value (c\<lparr>cv_issues := x\<rparr>) = norm_value c"
    by (rule ext) (simp add: norm_value_def split: yval.split)
  then have "norm_match (c\<lparr>cv_issues := x\<rparr>) = norm_match c"
    by (intro ext) (simp add: norm_match_def split: yval.split option.split)
  then have "norm_policy (c\<lparr>cv_issues := x\<rparr>) = norm_policy c"
    by (intro ext) (simp add: norm_policy_def split: yval.split option.split)
  then show ?thesis
    by (simp add: normalizeRateLimitingProviderMatches_def split: option.split yval.split)
qed

lemma applyDatastore_issues [simp]:
  "snd (applyDatastore p cfg (c\<lparr>cv_issues := x\<rparr>)) = snd (applyDatastore p cfg c)"
  by (simp add: applyDatastore_def Let_def split: prod.split option.split datastore_error.split)

lemma policyPlugin_issues [simp]:
  "snd (policyPlugin p t b (c\<lparr>cv_issues := x\<rparr>)) = snd (policyPlugin p t b c)"
proof -
  have "snd (applyDatastore p cfg (c\<lparr>cv_issues := x\<rparr>)) = snd (applyDatastore p cfg c)" for cfg
    by simp
  then show ?thesis
    by (auto simp: policyPlugin_def prod.case_eq_if split: option.split)
qed

lemma conv_supports_out [simp]: "conv_supports f (c\<lparr>cv_out := d\<rparr>) = conv_supports f c"
  by (simp add: conv_supports_def)

lemma normalize_out [simp]:
  "normalizeRateLimitingProviderMatches (c\<lparr>cv_out := d\<rparr>) p = normalizeRateLimitingProviderMatches c p"
proof -
  have "norm_value (c\<lparr>cv_out := d\<rparr>) = norm_value c"
    by (rule ext) (simp add: norm_value_def split: yval.split)
  then have "norm_match (c\<lparr>cv_out := d\<rparr>) = norm_match c"
    by (intro ext) (simp add: norm_match_def split: yval.split option.split)
  then have "norm_policy (c\<lparr>cv_out := d\<rparr>) = norm_policy c"
    by (intro ext) (simp add: norm_policy_def split: yval.split option.split)
  then show ?thesis
    by (simp add: normalizeRateLimitingProviderMatches_def split: option.split yval.split)
qed

lemma applyDatastore_out [simp]:
  "snd (applyDatastore p cfg (c\<lparr>cv_out := d\<rparr>)) = snd (applyDatastore p cfg c)"
  by (simp add: applyDatastore_def Let_def split: prod.split option.split datastore_error.split)

lemma policyPlugin_out [simp]:
  "snd (policyPlugin p t b (c\<lparr>cv_out := d\<rparr>)) = snd (policyPlugin p t b c)"
proof -
  have "snd (applyDatastore p cfg (c\<lparr>cv_out := d\<rparr>)) = snd (applyDatastore p cfg c)" for cfg
    by simp
  then show ?thesis
    by (auto simp: policyPlugin_def prod.case_eq_if split: option.split)
qed

lemma policyPlugin_env: "same_env c c' \<Longrightarrow> snd (policyPlugin p t b c') = snd (policyPlugin p t b c)"
  by (metis same_env_def policyPlugin_issues policyPlugin_out)

lemma env_fields:
  assumes "same_env c c'"
  shows "cn_opts c' = cn_opts c" "cn_src c' = cn_src c" "cn_providers c' = cn_providers c"
    "cn_policies c' = cn_policies c" "cn_consumerGroups c' = cn_consumerGroups c"
    "cn_datastores c' = cn_datastores c" "cv_minRuntimeVersion c' = cv_minRuntimeVersion c"
    "labelsToTags c' = labelsToTags c" "conv_supports f c' = conv_supports f c"
proof -
  obtain d iss where c': "c' = c\<lparr>cv_out := d, cv_issues := iss\<rparr>"
    using assms unfolding same_env_def by blast
  show "cn_opts c' = cn_opts c" "cn_src c' = cn_src c" "cn_providers c' = cn_providers c"
    "cn_policies c' = cn_policies c" "cn_consumerGroups c' = cn_consumerGroups c"
    "cn_datastores c' = cn_datastores c" "cv_minRuntimeVersion c' = cv_minRuntimeVersion c"
    "labelsToTags c' = labelsToTags c" "conv_supports f c' = conv_supports f c"
    by (simp_all add: c' labelsToTags_def conv_supports_def fun_eq_iff)
qed

lemma only_issues_warned [simp]: "only_issues a b \<Longrightarrow> only_issues a (warn s code r b)"
  by (rule only_issues_trans [OF _ only_issues_warn(1)])

lemma only_issues_env: "only_issues c c' \<Longrightarrow> same_env c c'"
  by (simp add: only_issues_iff)

lemma applyDatastore_only_issues [simp]: "only_issues c (fst (applyDatastore p cfg c))"
  by (simp add: applyDatastore_def Let_def split: prod.split option.split datastore_error.split)

lemma applyDatastore_error: "snd (applyDatastore p cfg c) = None \<Longrightarrow> HasErrors (cv_issues (fst (applyDatastore p cfg c)))"
  by (simp add: applyDatastore_def Let_def split: prod.splits option.splits datastore_error.splits if_splits)

lemma policyPlugin_only_issues [simp]: "only_issues c (fst (policyPlugin p t b c))"
  using applyDatastore_only_issues [of c p "normalizeRateLimitingProviderMatches c p"]
  by (simp add: policyPlugin_def prod.case_eq_if split: option.split)

lemma policyPlugin_error: "snd (policyPlugin p t b c) = None \<Longrightarrow> HasErrors (cv_issues (fst (policyPlugin p t b c)))"
  using applyDatastore_error [of p "normalizeRateLimitingProviderMatches c p" c]
  by (simp add: policyPlugin_def prod.case_eq_if split: option.splits if_splits)

text \<open>The references that count: the first of each name.\<close>

fun first_refs :: "string list \<Rightarrow> string list \<Rightarrow> string list" where
  "first_refs seen [] = []"
| "first_refs seen (r # rs) = (if r \<in> set seen then first_refs seen rs else r # first_refs (r # seen) rs)"

lemma set_first_refs [simp]: "set (first_refs seen rs) = set rs - set seen"
  by (induction rs arbitrary: seen) auto

lemma distinct_first_refs [simp]: "distinct (first_refs seen rs)"
  by (induction rs arbitrary: seen) auto

text \<open>What one reference yields.\<close>

definition ref_plugin :: "converter \<Rightarrow> string \<Rightarrow> Plugin option" where
  "ref_plugin c ref =
     (case fmlookup (cn_policies c) ref of
        None \<Rightarrow> None
      | Some p \<Rightarrow> if is_global p then None else snd (policyPlugin p [] False c))"

definition auth_ref :: "converter \<Rightarrow> string \<Rightarrow> bool" where
  "auth_ref c ref =
     (case fmlookup (cn_policies c) ref of None \<Rightarrow> False | Some p \<Rightarrow> po_Type p \<in> set authPolicyTypes)"

definition dropped_ref :: "converter \<Rightarrow> string \<Rightarrow> bool" where
  "dropped_ref c ref =
     (case fmlookup (cn_policies c) ref of
        None \<Rightarrow> True | Some p \<Rightarrow> \<not> is_global p \<and> snd (policyPlugin p [] False c) = None)"

lemma ref_stable:
  assumes "same_env c c'"
  shows "ref_plugin c' = ref_plugin c" "auth_ref c' = auth_ref c" "dropped_ref c' = dropped_ref c"
  using env_fields(4) [OF assms] policyPlugin_env [OF assms]
  by (simp_all add: ref_plugin_def auth_ref_def dropped_ref_def fun_eq_iff split: option.split)

lemma only_issues_HasErrors: "only_issues c c' \<Longrightarrow> HasErrors (cv_issues c) \<Longrightarrow> HasErrors (cv_issues c')"
  by (metis HasErrors_mono only_issues_reports)

definition scoped_spec ::
  "ConversionIssueSource \<Rightarrow> string list \<Rightarrow> string list \<Rightarrow> Plugin list \<Rightarrow> converter \<Rightarrow>
   converter \<times> Plugin list option \<Rightarrow> bool"
where
  "scoped_spec src refs seen plugins c res \<longleftrightarrow>
     only_issues c (fst res) \<and>
     snd res = (if is_Kind src = kindModel \<and> (\<exists>x \<in> set refs - set seen. auth_ref c x) then None
                else Some (plugins @ List.map_filter (ref_plugin c) (first_refs seen refs))) \<and>
     (snd res = None \<or> (\<exists>x \<in> set refs - set seen. dropped_ref c x) \<longrightarrow> HasErrors (cv_issues (fst res)))"

lemma scoped_spec_Cons:
  assumes o: "only_issues c c1" and new: "ref \<notin> set seen"
    and na: "\<not> (is_Kind src = kindModel \<and> auth_ref c ref)"
    and dr: "dropped_ref c ref \<Longrightarrow> HasErrors (cv_issues c1)"
    and sp: "scoped_spec src refs (ref # seen)
               (plugins @ (case ref_plugin c ref of None \<Rightarrow> [] | Some p \<Rightarrow> [p])) c1 res"
  shows "scoped_spec src (ref # refs) seen plugins c res"
proof -
  have "only_issues c (fst res)" using sp o only_issues_trans by (auto simp: scoped_spec_def)
  moreover have "dropped_ref c ref \<Longrightarrow> HasErrors (cv_issues (fst res))"
    using sp dr only_issues_HasErrors by (auto simp: scoped_spec_def)
  moreover have "(\<exists>x \<in> set (ref # refs) - set seen. P x) \<longleftrightarrow>
      P ref \<or> (\<exists>x \<in> set refs - set (ref # seen). P x)" for P using new by auto
  ultimately show ?thesis
    using sp na new unfolding scoped_spec_def ref_stable [OF only_issues_env [OF o]]
    by (auto simp: List.map_filter_simps split: option.splits)
qed

lemma scoped_policies_spec: "scoped_spec src refs seen plugins c (scoped_policies src i refs seen plugins c)"
proof (induction src i refs seen plugins c rule: scoped_policies.induct)
  case (1 src i seen plugins c)
  then show ?case by (simp add: scoped_spec_def List.map_filter_def)
next
  case (2 src i ref refs seen plugins c)
  show ?case
  proof (cases "ref \<in> set seen")
    case True
    then have "set (ref # refs) - set seen = set refs - set seen" by auto
    then show ?thesis using 2(1) True by (simp add: scoped_spec_def)
  next
    case new: False
    show ?thesis
    proof (cases "fmlookup (cn_policies c) ref")
      case None
      then show ?thesis using new 2(2) [OF new None]
        by (intro scoped_spec_Cons [OF only_issues_warn(2) new])
          (simp_all add: ref_plugin_def auth_ref_def dropped_ref_def)
    next
      case (Some p)
      show ?thesis
      proof (cases "is_Kind src = kindModel \<and> po_Type p \<in> set authPolicyTypes")
        case True
        then have "auth_ref c ref" using Some by (simp add: auth_ref_def)
        then have "\<exists>x \<in> set (ref # refs) - set seen. auth_ref c x" using new by auto
        with True show ?thesis using new Some by (simp add: scoped_spec_def)
      next
        case na: False
        show ?thesis
        proof (cases "is_global p")
          case True
          then show ?thesis using new Some na 2(3) [OF new Some na True]
            by (intro scoped_spec_Cons [OF only_issues_refl new])
              (auto simp: ref_plugin_def auth_ref_def dropped_ref_def)
        next
          case ng: False
          obtain c2 r where pp: "policyPlugin p [] False c = (c2, r)"
            by (cases "policyPlugin p [] False c")
          have o: "only_issues c c2" using policyPlugin_only_issues [of c p "[]" False] pp by simp
          have e: "r = None \<Longrightarrow> HasErrors (cv_issues c2)"
            using policyPlugin_error [of p "[]" False c] pp by simp
          show ?thesis
            using new Some na ng pp e 2(4,5) [OF new Some na ng pp [symmetric]]
            by (intro scoped_spec_Cons [OF o new])
              (auto simp: ref_plugin_def auth_ref_def dropped_ref_def split: option.split)
        qed
      qed
    qed
  qed
qed

text \<open>When the access control of an entity is refused.\<close>

definition acl_refused :: "ConversionIssueSource \<Rightarrow> ACLs \<Rightarrow> converter \<Rightarrow> bool" where
  "acl_refused src acls c \<longleftrightarrow>
     length (aclFieldPaths [] acls) > 1 \<or>
     (celFieldPaths [] acls \<noteq> [] \<and> \<not> conv_supports (acl_feature src) c)"

lemma fieldPaths_Nil [simp]: "fieldPaths pre acls cel = [] \<longleftrightarrow> fieldPaths [] acls cel = []"
  by (simp add: fieldPaths_def)

lemma acl_paths_empty: "ACLs_IsEmpty acls \<longleftrightarrow> aclFieldPaths [] acls = []"
  by (auto simp: ACLs_IsEmpty_def aclFieldPaths_def fieldPaths_def aclFields_def)

lemma acl_cel_subset: "aclFieldPaths [] acls = [] \<Longrightarrow> celFieldPaths [] acls = []"
  by (auto simp: aclFieldPaths_def celFieldPaths_def fieldPaths_def filter_empty_conv)

lemma access_control_result:
  "let (c', r) = access_control src acls plugins c in
     only_issues c c' \<and>
     r = (if acl_refused src acls c then None
          else Some (plugins @ (if ACLs_IsEmpty acls then [] else [aclPlugin acls]))) \<and>
     (r = None \<longrightarrow> HasErrors (cv_issues c'))"
proof -
  have "celFieldPaths ''access.acls.'' acls = [] \<longleftrightarrow> celFieldPaths [] acls = []"
    unfolding celFieldPaths_def by (rule fieldPaths_Nil)
  then show ?thesis
    using acl_paths_empty [of acls] acl_cel_subset [of acls]
    by (auto simp: access_control_def acl_refused_def Let_def)
qed

definition entity_refused :: "ConversionIssueSource \<Rightarrow> string list \<Rightarrow> ACLs \<Rightarrow> converter \<Rightarrow> bool" where
  "entity_refused src refs acls c \<longleftrightarrow>
     is_Kind src = kindModel \<and> (\<exists>x \<in> set refs. auth_ref c x) \<or> acl_refused src acls c"

definition entity_plugins :: "string list \<Rightarrow> ACLs \<Rightarrow> converter \<Rightarrow> Plugin list" where
  "entity_plugins refs acls c =
     List.map_filter (ref_plugin c) (first_refs [] refs) @ (if ACLs_IsEmpty acls then [] else [aclPlugin acls])"

lemma scopedPlugins_facts:
  shows scopedPlugins_only_issues: "only_issues c (fst (scopedPlugins src refs acls c))" (is ?issues)
    and scopedPlugins_value: "snd (scopedPlugins src refs acls c) =
       (if entity_refused src refs acls c then None else Some (entity_plugins refs acls c))" (is ?val)
    and scopedPlugins_errors: "entity_refused src refs acls c \<or> (\<exists>x \<in> set refs. dropped_ref c x) \<Longrightarrow>
       HasErrors (cv_issues (fst (scopedPlugins src refs acls c)))" (is "?bad \<Longrightarrow> ?err")
proof -
  obtain c1 r1 where sp: "scoped_policies src 0 refs [] [] c = (c1, r1)"
    by (cases "scoped_policies src 0 refs [] [] c")
  have spec: "scoped_spec src refs [] [] c (c1, r1)"
    using scoped_policies_spec [of src refs "[]" "[]" c 0] sp by simp
  then have o: "only_issues c c1" by (simp add: scoped_spec_def)
  have v: "acl_refused src acls c1 = acl_refused src acls c"
    using arg_cong [OF only_issues_eq [OF o], of cv_minRuntimeVersion]
    by (simp add: acl_refused_def conv_supports_def)
  have "?issues \<and> ?val \<and> (?bad \<longrightarrow> ?err)"
  proof (cases r1)
    case None
    with spec sp show ?thesis
      by (auto simp: scopedPlugins_def scoped_spec_def entity_refused_def split: if_splits)
  next
    case (Some plugins)
    obtain c2 r2 where ac: "access_control src acls plugins c1 = (c2, r2)"
      by (cases "access_control src acls plugins c1")
    have "only_issues c1 c2 \<and>
        r2 = (if acl_refused src acls c then None
              else Some (plugins @ (if ACLs_IsEmpty acls then [] else [aclPlugin acls]))) \<and>
        (r2 = None \<longrightarrow> HasErrors (cv_issues c2))"
      using access_control_result [of src acls plugins c1] ac v by simp
    moreover from this have "HasErrors (cv_issues c1) \<Longrightarrow> HasErrors (cv_issues c2)"
      using only_issues_HasErrors by blast
    moreover have "only_issues c c2" using calculation o only_issues_trans by blast
    ultimately show ?thesis
      using spec sp ac Some
      by (auto simp: scopedPlugins_def scoped_spec_def entity_refused_def entity_plugins_def split: if_splits)
  qed
  then show ?issues ?val "?bad \<Longrightarrow> ?err" by blast+
qed

section \<open>Properties\<close>

text \<open>C12: The plugins of a referencing entity are exactly those of the distinct references, in
  order, that name a non-global policy that converts, and last the acl plugin when the entity has
  ACLs.  The entity is refused exactly for an authentication policy on a model and for an access
  control that one acl plugin cannot express, and neither a refusal nor a dropped reference goes
  without an error.  Nothing but the issues changes.\<close>

theorem scoped_plugins_exact:
  "let (c', r) = scopedPlugins src refs acls c
   in only_issues c c' \<and>
      r = (if entity_refused src refs acls c then None
           else Some (List.map_filter (ref_plugin c) (first_refs [] refs) @
                      (if ACLs_IsEmpty acls then [] else [aclPlugin acls]))) \<and>
      (entity_refused src refs acls c \<or> (\<exists>x \<in> set refs. dropped_ref c x) \<longrightarrow> HasErrors (cv_issues c'))"
  using scopedPlugins_only_issues [of c src refs acls] scopedPlugins_value [of src refs acls c]
    scopedPlugins_errors [of src refs acls c]
  by (simp add: case_prod_beta Let_def entity_plugins_def)

definition sample_policy :: "string \<Rightarrow> Policy" where
  "sample_policy name = \<lparr>po_ID = ''p1'', po_Type = ''cors'', po_Name = name, po_Enabled = Some False,
     po_Global = None, po_Config = fmempty, po_Labels = fmempty, po_Condition = [],
     po_Datastores = [], po_Expressions = fmempty\<rparr>"

definition sample_converter :: converter where
  "sample_converter = buildRegistries (newConverter
     (empty_source\<lparr>sd_Policies := [sample_policy ''a'', (sample_policy ''g'')\<lparr>po_Global := Some True\<rparr>]\<rparr>)
     \<lparr>opt_LabelTagPrefix = [], opt_MinRuntimeVersion = ''2.0''\<rparr>)"

theorem scoped_plugins_exact_witness:
  "dropped_ref sample_converter ''nope'' \<and>
   HasErrors (cv_issues (fst (scopedPlugins (issueSource kindAgent ''x'') [''a'', ''g'', ''a'', ''nope'']
     (no_acls\<lparr>acl_DenyWhen := [''c'']\<rparr>) sample_converter))) \<and>
   map_option (map pl_Name) (snd (scopedPlugins (issueSource kindAgent ''x'') [''a'', ''g'', ''a'', ''nope'']
     (no_acls\<lparr>acl_DenyWhen := [''c'']\<rparr>) sample_converter)) = Some [''cors'', ''acl'']"
proof -
  have d: "dropped_ref sample_converter ''nope''"
    by code_simp
  obtain c' r where eq: "scopedPlugins (issueSource kindAgent ''x'') [''a'', ''g'', ''a'', ''nope'']
     (no_acls\<lparr>acl_DenyWhen := [''c'']\<rparr>) sample_converter = (c', r)" by (rule prod.exhaust)
  have "HasErrors (cv_issues c')"
    using scoped_plugins_exact [of "issueSource kindAgent ''x''" "[''a'', ''g'', ''a'', ''nope'']"
      "no_acls\<lparr>acl_DenyWhen := [''c'']\<rparr>" sample_converter] d
    unfolding eq Let_def prod.case by (blast intro: list.set_intros)
  then have "HasErrors (cv_issues (fst (scopedPlugins (issueSource kindAgent ''x'') [''a'', ''g'', ''a'', ''nope'']
     (no_acls\<lparr>acl_DenyWhen := [''c'']\<rparr>) sample_converter)))"
    unfolding eq fst_conv .
  moreover have "map_option (map pl_Name) (snd (scopedPlugins (issueSource kindAgent ''x'')
      [''a'', ''g'', ''a'', ''nope''] (no_acls\<lparr>acl_DenyWhen := [''c'']\<rparr>) sample_converter)) = Some [''cors'', ''acl'']"
    by code_simp
  ultimately show ?thesis using d by blast
qed



end
