(* ===== verification/Entities.thy ===== *)
theory Entities
  imports Policies Stable_ID Go_Url
begin

text \<open>
  The entities that convert one to one: custom policies, vaults, CA certificates, certificates and
  their SNIs, consumer groups and consumers (\<open>src/convert/custom_policy.go\<close>, \<open>vault.go\<close>,
  \<open>ca_certificate.go\<close>, \<open>certificate.go\<close>, \<open>sni.go\<close>, \<open>consumer.go\<close>), and the TLS material of an
  upstream Service (\<open>upstream_tls.go\<close>).
\<close>

section \<open>Custom policies\<close>

definition custom_policy_step :: "CustomPolicy \<Rightarrow> converter step" where
  "custom_policy_step policy c =
     (let src = issueSource kindCustomPolicy (cup_Name policy) in
      if cup_Name policy = []
      then fail (src_at src [''name'']) MissingRequiredConfigField (''custom policy name is required'', []) c
      else if cup_Schema policy = []
      then fail (src_at src [''schema'']) MissingRequiredConfigField (''custom policy schema is required'', []) c
      else (c\<lparr>cv_out := (cv_out c)\<lparr>doc_CustomPlugins := doc_CustomPlugins (cv_out c) @
              [\<lparr>cp_ID = (if cup_ID policy \<noteq> [] then cup_ID policy
                         else StableUUID (''custom_plugin:'' @ cup_Name policy)),
                cp_Name = cup_Name policy, cp_Schema = cup_Schema policy,
                cp_Handler = cup_Handler policy\<rparr>]\<rparr>\<rparr>, Done))"

definition convertCustomPolicies :: "converter \<Rightarrow> converter" where
  "convertCustomPolicies c =
     fold (\<lambda>policy c. if cup_Type policy \<noteq> ''streaming'' \<or> cup_Handler policy = [] then c
             else convertEntity (issueSource kindCustomPolicy (cup_Name policy)) (custom_policy_step policy) c)
       (sd_CustomPolicies (cn_src c)) c"

section \<open>Vaults and certificates\<close>

definition convertVaults :: "converter \<Rightarrow> converter" where
  "convertVaults c =
     fold (\<lambda>v c. c\<lparr>cv_out := (cv_out c)\<lparr>doc_Vaults := doc_Vaults (cv_out c) @
              [\<lparr>va_ID = av_ID v, va_Prefix = av_Name v, va_Name = av_Type v,
                va_Description = av_Description v, va_Config = av_Config v,
                va_Tags = labelsToTags c (av_Labels v)\<rparr>]\<rparr>\<rparr>)
       (sd_Vaults (cn_src c)) c"

definition convertCACertificates :: "converter \<Rightarrow> converter" where
  "convertCACertificates c =
     fold (\<lambda>cert c. c\<lparr>cv_out := (cv_out c)\<lparr>doc_CACertificates := doc_CACertificates (cv_out c) @
              [\<lparr>cac_ID = aca_ID cert, cac_Cert = aca_Cert cert, cac_CertDigest = aca_CertDigest cert,
                cac_Tags = (if aca_Name cert \<noteq> [] then [EncodeCACertificateName (aca_Name cert)] else []) @
                           labelsToTags c (aca_Labels cert)\<rparr>]\<rparr>\<rparr>)
       (sd_CACertificates (cn_src c)) c"

definition convertCertificates :: "converter \<Rightarrow> converter" where
  "convertCertificates c =
     fold (\<lambda>cert c. c\<lparr>cv_out := (cv_out c)\<lparr>doc_Certificates := doc_Certificates (cv_out c) @
              [\<lparr>crt_ID = act_ID cert, crt_Cert = act_Cert cert, crt_Key = act_Key cert,
                crt_CertAlt = act_CertAlt cert, crt_KeyAlt = act_KeyAlt cert,
                crt_Tags = labelsToTags c (act_Labels cert), crt_SNIs = [],
                crt_SourceName = act_Name cert\<rparr>]\<rparr>\<rparr>)
       (sd_Certificates (cn_src c)) c"

text \<open>\<open>certIndex\<close>: the last certificate of a name.  The index of an unknown certificate panics in
  the source when it is out of range; here it is the outcome \<open>Panic\<close>.\<close>

definition certIndex :: "aigw_Certificate list \<Rightarrow> (string, nat) fmap" where
  "certIndex certs = fold (\<lambda>(i, cert). fmupd (act_Name cert) i) (enumerate 0 certs) fmempty"

definition sni_step :: "(string, nat) fmap \<Rightarrow> aigw_SNI \<Rightarrow> converter step" where
  "sni_step index sni c =
     (case fmlookup index (as_Certificate sni) of
        None \<Rightarrow> fail (src_at (issueSource kindSNI (as_Name sni)) [''certificate'']) UndefinedReference
                  (''sni %q references unknown certificate %q'', [as_Name sni, as_Certificate sni]) c
      | Some idx \<Rightarrow>
          if idx < length (doc_Certificates (cv_out c)) then
            (c\<lparr>cv_out := (cv_out c)\<lparr>doc_Certificates := (doc_Certificates (cv_out c))
               [idx := (let crt = doc_Certificates (cv_out c) ! idx in
                 crt\<lparr>crt_SNIs := crt_SNIs crt @
                   [\<lparr>sni_ID = as_ID sni, sni_Name = as_Hostname sni,
                     sni_Tags = labelsToTags c (as_Labels sni)\<rparr>]\<rparr>)]\<rparr>\<rparr>, Done)
          else (c, Panic ''index out of range''))"

definition convertSNIs :: "converter \<Rightarrow> converter" where
  "convertSNIs c =
     (let index = certIndex (sd_Certificates (cn_src c)) in
      fold (\<lambda>sni. convertEntity (issueSource kindSNI (as_Name sni)) (sni_step index sni))
        (sd_SNIs (cn_src c)) c)"

section \<open>Consumers\<close>

definition consumer_group_step :: "aigw_ConsumerGroup \<Rightarrow> converter step" where
  "consumer_group_step g c =
     (case scopedPlugins (issueSource kindConsumerGroup (ag_Name g)) (ag_Policies g) no_acls c of
        (c, None) \<Rightarrow> (c, SkipEntity)
      | (c, Some plugins) \<Rightarrow>
          (c\<lparr>cv_out := (cv_out c)\<lparr>doc_ConsumerGroups := doc_ConsumerGroups (cv_out c) @
             [\<lparr>cg_ID = ag_ID g, cg_Name = ag_Name g, cg_Plugins = plugins,
               cg_Tags = labelsToTags c (ag_Labels g)\<rparr>]\<rparr>\<rparr>, Done))"

definition convertConsumerGroups :: "converter \<Rightarrow> converter" where
  "convertConsumerGroups c =
     fold (\<lambda>g. convertEntity (issueSource kindConsumerGroup (ag_Name g)) (consumer_group_step g))
       (sd_ConsumerGroups (cn_src c)) c"

definition supported_credential :: "Credential \<Rightarrow> bool" where
  "supported_credential cred = (cr_Type cred = [] \<or> cr_Type cred = ''api-key'')"

fun convert_credentials ::
  "ConversionIssueSource \<Rightarrow> string \<Rightarrow> nat \<Rightarrow> Credential list \<Rightarrow> KeyAuthCredential list \<Rightarrow> converter \<Rightarrow>
   converter \<times> KeyAuthCredential list"
where
  "convert_credentials src name j [] acc c = (c, acc)"
| "convert_credentials src name j (cred # creds) acc c =
     (if \<not> supported_credential cred then
        convert_credentials src name (Suc j) creds acc
          (warn (src_at src [at ''credentials'' j @ ''.type'']) ConfigFieldIgnored
             (''consumer %q credential %q has unsupported type %q; only api-key (keyauth) is supported'',
              [name, cr_Name cred, cr_Type cred]) c)
      else
        convert_credentials src name (Suc j) creds
          (acc @ [\<lparr>kac_ID = cr_ID cred, kac_Key = cr_APIKey cred, kac_TTL = cr_TTL cred,
                   kac_Tags = labelsToTags c (cr_Labels cred)\<rparr>]) c)"

definition convertConsumer :: "ConversionIssueSource \<Rightarrow> aigw_Consumer \<Rightarrow> converter step" where
  "convertConsumer src cons c =
     (case scopedPlugins src (ac_Policies cons) no_acls c of
        (c, None) \<Rightarrow> (c, SkipEntity)
      | (c, Some plugins) \<Rightarrow>
          (let (c, creds) = convert_credentials src (ac_Name cons) 0 (ac_Credentials cons) [] c in
           (c\<lparr>cv_out := (cv_out c)\<lparr>doc_Consumers := doc_Consumers (cv_out c) @
              [\<lparr>co_ID = ac_ID cons, co_Username = ac_Name cons, co_CustomID = ac_CustomID cons,
                co_Groups = ac_ConsumerGroups cons, co_KeyAuthCredentials = creds,
                co_Plugins = plugins, co_Tags = labelsToTags c (ac_Labels cons)\<rparr>]\<rparr>\<rparr>, Done)))"

definition convertConsumers :: "converter \<Rightarrow> converter" where
  "convertConsumers c =
     fold (\<lambda>cons. let src = issueSource kindConsumer (ac_Name cons) in
             convertEntity src (convertConsumer src cons)) (sd_Consumers (cn_src c)) c"

section \<open>TLS of an upstream Service\<close>

text \<open>The scan with early return; a found certificate without an ID gets the derived one.\<close>

fun scan_certs :: "string \<Rightarrow> Certificate list \<Rightarrow> Certificate list \<times> string option" where
  "scan_certs name [] = ([], None)"
| "scan_certs name (cert # certs) =
     (if crt_SourceName cert \<noteq> name then let (certs, r) = scan_certs name certs in (cert # certs, r)
      else let cert = (if crt_ID cert = [] then cert\<lparr>crt_ID := StableUUID (''certificate:'' @ name)\<rparr> else cert)
           in (cert # certs, Some (crt_ID cert)))"

definition certificateID :: "string \<Rightarrow> converter \<Rightarrow> converter \<times> string option" where
  "certificateID name c =
     (let (certs, r) = scan_certs name (doc_Certificates (cv_out c)) in
      (c\<lparr>cv_out := (cv_out c)\<lparr>doc_Certificates := certs\<rparr>\<rparr>, r))"

text \<open>The source and the output list run in parallel; reading past the output list panics in the
  source, which convertCACertificates rules out, and gives None here.\<close>

fun scan_ca_certs :: "string \<Rightarrow> aigw_CACertificate list \<Rightarrow> CACertificate list \<Rightarrow> CACertificate list \<times> string option" where
  "scan_ca_certs name (s # ss) (cert # certs) =
     (if aca_Name s \<noteq> name then let (certs, r) = scan_ca_certs name ss certs in (cert # certs, r)
      else let cert = (if cac_ID cert = [] then cert\<lparr>cac_ID := StableUUID (''ca_certificate:'' @ cac_Cert cert)\<rparr>
                       else cert)
           in (cert # certs, Some (cac_ID cert)))"
| "scan_ca_certs name ss certs = (certs, None)"

definition caCertificateID :: "string \<Rightarrow> converter \<Rightarrow> converter \<times> string option" where
  "caCertificateID name c =
     (let (certs, r) = scan_ca_certs name (sd_CACertificates (cn_src c)) (doc_CACertificates (cv_out c)) in
      (c\<lparr>cv_out := (cv_out c)\<lparr>doc_CACertificates := certs\<rparr>\<rparr>, r))"

fun apply_ca_certs ::
  "ConversionIssueSource \<Rightarrow> nat \<Rightarrow> string list \<Rightarrow> Service \<Rightarrow> converter \<Rightarrow> converter \<times> Service"
where
  "apply_ca_certs src i [] svc c = (c, svc)"
| "apply_ca_certs src i (name # names) svc c =
     (case caCertificateID name c of
        (c, None) \<Rightarrow> apply_ca_certs src (Suc i) names svc
            (reportError (src_at src [at ''config.ca_certificates'' i]) UndefinedReference
               (''%s %q references unknown CA certificate %q'', [is_Kind src, is_Name src, name]) c)
      | (c, Some i') \<Rightarrow> apply_ca_certs src (Suc i) names
            (svc\<lparr>svc_CACertificates := svc_CACertificates svc @ [i']\<rparr>) c)"

definition apply_client_cert ::
  "ConversionIssueSource \<Rightarrow> string list \<Rightarrow> Service \<Rightarrow> converter \<Rightarrow> converter \<times> Service"
where
  "apply_client_cert src certs svc c =
     (case certs of
        [] \<Rightarrow> (c, svc)
      | first # rest \<Rightarrow>
          (let c = (if rest = [] then c
                    else warn (src_at src [''config.certificates'']) ConfigFieldDropped
                      (''%s %q sets %d certificates, but a Service presents one client certificate; only %q is used'',
                       [is_Kind src, is_Name src, dec (length certs), first]) c)
           in case certificateID first c of
                (c, Some i) \<Rightarrow> (c, svc\<lparr>svc_ClientCertificate := fmap_of_list [(''id'', i)]\<rparr>)
              | (c, None) \<Rightarrow>
                  (reportError (src_at src [''config.certificates[0]'']) UndefinedReference
                     (''%s %q references unknown certificate %q'', [is_Kind src, is_Name src, first]) c, svc)))"

definition applyUpstreamTLS ::
  "ConversionIssueSource \<Rightarrow> Service \<Rightarrow> string list \<Rightarrow> string list \<Rightarrow> converter \<Rightarrow> converter \<times> Service"
where
  "applyUpstreamTLS src svc certs caCerts c =
     (if certs = [] \<and> caCerts = [] then (c, svc)
      else if \<not> (case url_Parse (svc_URL svc) of None \<Rightarrow> False | Some u \<Rightarrow> u_Scheme u = ''https'')
      then (reportError (src_at src [''config.certificates'', ''config.ca_certificates'']) ConfigFieldInvalid
              (''%s %q sets certificates or ca_certificates, but its url %q is not https'',
               [is_Kind src, is_Name src, svc_URL svc]) c, svc)
      else let (c, svc) = apply_client_cert src certs svc c in apply_ca_certs src 0 caCerts svc c)"

section \<open>What each stage emits\<close>

text \<open>The rows of the document as functions of the source, without any state threading.\<close>

definition global_rows :: "converter \<Rightarrow> Policy \<Rightarrow> Plugin list" where
  "global_rows c p =
     (if is_global p
      then (case snd (policyPlugin p (labelsToTags c (po_Labels p)) True c) of None \<Rightarrow> [] | Some pl \<Rightarrow> [pl])
      else [])"

definition custom_policy_rows :: "CustomPolicy \<Rightarrow> CustomPlugin list" where
  "custom_policy_rows p =
     (if cup_Type p = ''streaming'' \<and> cup_Handler p \<noteq> [] \<and> cup_Name p \<noteq> [] \<and> cup_Schema p \<noteq> []
      then [\<lparr>cp_ID = (if cup_ID p \<noteq> [] then cup_ID p else StableUUID (''custom_plugin:'' @ cup_Name p)),
             cp_Name = cup_Name p, cp_Schema = cup_Schema p, cp_Handler = cup_Handler p\<rparr>]
      else [])"

definition vault_row :: "converter \<Rightarrow> aigw_Vault \<Rightarrow> Vault" where
  "vault_row c v = \<lparr>va_ID = av_ID v, va_Prefix = av_Name v, va_Name = av_Type v,
     va_Description = av_Description v, va_Config = av_Config v, va_Tags = labelsToTags c (av_Labels v)\<rparr>"

definition ca_row :: "converter \<Rightarrow> aigw_CACertificate \<Rightarrow> CACertificate" where
  "ca_row c cert = \<lparr>cac_ID = aca_ID cert, cac_Cert = aca_Cert cert, cac_CertDigest = aca_CertDigest cert,
     cac_Tags = (if aca_Name cert \<noteq> [] then [EncodeCACertificateName (aca_Name cert)] else []) @
                labelsToTags c (aca_Labels cert)\<rparr>"

definition sni_row :: "converter \<Rightarrow> aigw_SNI \<Rightarrow> SNI" where
  "sni_row c sni = \<lparr>sni_ID = as_ID sni, sni_Name = as_Hostname sni, sni_Tags = labelsToTags c (as_Labels sni)\<rparr>"

definition certificate_row :: "converter \<Rightarrow> aigw_Certificate \<Rightarrow> Certificate" where
  "certificate_row c cert = \<lparr>crt_ID = act_ID cert, crt_Cert = act_Cert cert, crt_Key = act_Key cert,
     crt_CertAlt = act_CertAlt cert, crt_KeyAlt = act_KeyAlt cert,
     crt_Tags = labelsToTags c (act_Labels cert), crt_SNIs = [], crt_SourceName = act_Name cert\<rparr>"

definition group_row :: "converter \<Rightarrow> aigw_ConsumerGroup \<Rightarrow> ConsumerGroup" where
  "group_row c g = \<lparr>cg_ID = ag_ID g, cg_Name = ag_Name g, cg_Plugins = entity_plugins (ag_Policies g) no_acls c,
     cg_Tags = labelsToTags c (ag_Labels g)\<rparr>"

definition credential_row :: "converter \<Rightarrow> Credential \<Rightarrow> KeyAuthCredential" where
  "credential_row c cred = \<lparr>kac_ID = cr_ID cred, kac_Key = cr_APIKey cred, kac_TTL = cr_TTL cred,
     kac_Tags = labelsToTags c (cr_Labels cred)\<rparr>"

definition consumer_row :: "converter \<Rightarrow> aigw_Consumer \<Rightarrow> Consumer" where
  "consumer_row c cons = \<lparr>co_ID = ac_ID cons, co_Username = ac_Name cons, co_CustomID = ac_CustomID cons,
     co_Groups = ac_ConsumerGroups cons,
     co_KeyAuthCredentials = map (credential_row c) (filter supported_credential (ac_Credentials cons)),
     co_Plugins = entity_plugins (ac_Policies cons) no_acls c, co_Tags = labelsToTags c (ac_Labels cons)\<rparr>"

lemmas stage_rows = vault_row_def ca_row_def sni_row_def certificate_row_def credential_row_def

lemma row_env:
  assumes "same_env c c'"
  shows "vault_row c' = vault_row c" "ca_row c' = ca_row c" "sni_row c' = sni_row c"
    "certificate_row c' = certificate_row c" "group_row c' = group_row c"
    "credential_row c' = credential_row c" "consumer_row c' = consumer_row c"
    "global_rows c' = global_rows c"
  using env_fields(8) [OF assms] ref_stable [OF assms] policyPlugin_env [OF assms]
  by (auto simp: stage_rows group_row_def consumer_row_def entity_plugins_def global_rows_def intro!: ext)

lemma fold_append_field:
  "fold (\<lambda>x d. d\<lparr>doc_Plugins := doc_Plugins d @ g1 x\<rparr>) xs d = d\<lparr>doc_Plugins := doc_Plugins d @ concat (map g1 xs)\<rparr>"
  "fold (\<lambda>x d. d\<lparr>doc_CustomPlugins := doc_CustomPlugins d @ g2 x\<rparr>) ys d = d\<lparr>doc_CustomPlugins := doc_CustomPlugins d @ concat (map g2 ys)\<rparr>"
  "fold (\<lambda>x d. d\<lparr>doc_Vaults := doc_Vaults d @ [g3 x]\<rparr>) vs d = d\<lparr>doc_Vaults := doc_Vaults d @ map g3 vs\<rparr>"
  "fold (\<lambda>x d. d\<lparr>doc_CACertificates := doc_CACertificates d @ [g4 x]\<rparr>) as d = d\<lparr>doc_CACertificates := doc_CACertificates d @ map g4 as\<rparr>"
  "fold (\<lambda>x d. d\<lparr>doc_Certificates := doc_Certificates d @ [g5 x]\<rparr>) bs d = d\<lparr>doc_Certificates := doc_Certificates d @ map g5 bs\<rparr>"
  "fold (\<lambda>x d. d\<lparr>doc_ConsumerGroups := doc_ConsumerGroups d @ [g6 x]\<rparr>) gs d = d\<lparr>doc_ConsumerGroups := doc_ConsumerGroups d @ map g6 gs\<rparr>"
  "fold (\<lambda>x d. d\<lparr>doc_Consumers := doc_Consumers d @ [g7 x]\<rparr>) cs d = d\<lparr>doc_Consumers := doc_Consumers d @ map g7 cs\<rparr>"
  by (induction xs arbitrary: d, simp_all) (induction ys arbitrary: d, simp_all,
      induction vs arbitrary: d, simp_all, induction as arbitrary: d, simp_all,
      induction bs arbitrary: d, simp_all, induction gs arbitrary: d, simp_all,
      induction cs arbitrary: d, simp_all)

text \<open>\<open>append_rows\<close>: one stage as an update of its field.\<close>

lemma stage:
  assumes step: "\<And>x c'. same_env c c' \<Longrightarrow> emits (app x) c' (f x c')"
    and closed: "fold app xs (cv_out c) = g (cv_out c)"
  shows "emits g c (fold f xs c)"
proof -
  have "emits (fold app xs) c (fold f xs c)"
    by (rule fold_entities [where Inv = "\<lambda>_. True", OF _ same_env_refl]) (use step in auto)
  with closed show ?thesis by (simp add: emits_def)
qed

lemma emits_cong: "emits f c c' \<Longrightarrow> f (cv_out c) = g (cv_out c) \<Longrightarrow> emits g c c'"
  by (simp add: emits_def)

lemma globals_stage:
  "emits (\<lambda>d. d\<lparr>doc_Plugins := doc_Plugins d @ concat (map (global_rows c) (sd_Policies (cn_src c)))\<rparr>)
     c (convertGlobalPolicies c)"
proof -
  have "emits (\<lambda>d. d\<lparr>doc_Plugins := doc_Plugins d @ global_rows c p\<rparr>) c'
      (if \<not> is_global p then c' else convertEntity (issueSource kindPolicy (po_Name p)) (global_policy_step p) c')"
    if env: "same_env c c'" for p c'
  proof (cases "is_global p")
    case False
    then show ?thesis by (simp add: global_rows_def)
  next
    case True
    obtain c2 r where pp: "policyPlugin p (labelsToTags c' (po_Labels p)) True c' = (c2, r)"
      by (cases "policyPlugin p (labelsToTags c' (po_Labels p)) True c'")
    have o: "only_issues c' c2" using policyPlugin_only_issues [of c' p] pp by (metis fst_conv)
    then have out: "cv_out c2 = cv_out c'" by (simp add: only_issues_iff)
    have "global_rows c p = (case r of None \<Rightarrow> [] | Some pl \<Rightarrow> [pl])"
      using True pp row_env(8) [OF env] by (metis global_rows_def snd_conv)
    then have "snd (global_policy_step p c') = Done \<and>
        emits (\<lambda>d. d\<lparr>doc_Plugins := doc_Plugins d @ global_rows c p\<rparr>) c' (fst (global_policy_step p c'))"
      using pp o out emits_upd [OF o, of "\<lambda>d. d\<lparr>doc_Plugins := doc_Plugins d @ global_rows c p\<rparr>"]
      by (cases r) (simp_all add: global_policy_step_def)
    then have "emits (\<lambda>d. d\<lparr>doc_Plugins := doc_Plugins d @ global_rows c p\<rparr>) c'
        (convertEntity (issueSource kindPolicy (po_Name p)) (global_policy_step p) c')"
      by (blast intro: convertEntity_emits)
    with True show ?thesis by simp
  qed
  then show ?thesis
    unfolding convertGlobalPolicies_def by (rule stage) (assumption, rule fold_append_field)
qed

lemma custom_policies_stage:
  "emits (\<lambda>d. d\<lparr>doc_CustomPlugins := doc_CustomPlugins d @
      concat (map custom_policy_rows (sd_CustomPolicies (cn_src c)))\<rparr>) c (convertCustomPolicies c)"
proof -
  have "emits (\<lambda>d. d\<lparr>doc_CustomPlugins := doc_CustomPlugins d @ custom_policy_rows p\<rparr>) c'
      (if cup_Type p \<noteq> ''streaming'' \<or> cup_Handler p = [] then c'
       else convertEntity (issueSource kindCustomPolicy (cup_Name p)) (custom_policy_step p) c')" for p c'
  proof (cases "cup_Type p = ''streaming'' \<and> cup_Handler p \<noteq> [] \<and> (cup_Name p = [] \<or> cup_Schema p = [])")
    case True
    then have bad: "snd (custom_policy_step p c') = SkipEntity"
        "only_issues c' (fst (custom_policy_step p c'))"
      by (auto simp: custom_policy_step_def Let_def)
    then have "emits (\<lambda>d. d) c' (convertEntity (issueSource kindCustomPolicy (cup_Name p)) (custom_policy_step p) c')"
      by (intro convertEntity_skips) (auto simp: only_issues_iff)
    moreover have "custom_policy_rows p = []" using True by (auto simp: custom_policy_rows_def)
    ultimately show ?thesis using True by simp
  next
    case False
    have "cup_Name p \<noteq> [] \<Longrightarrow> cup_Schema p \<noteq> [] \<Longrightarrow> cup_Type p = ''streaming'' \<Longrightarrow> cup_Handler p \<noteq> [] \<Longrightarrow>
        snd (custom_policy_step p c') = Done \<and>
        emits (\<lambda>d. d\<lparr>doc_CustomPlugins := doc_CustomPlugins d @ custom_policy_rows p\<rparr>) c'
          (fst (custom_policy_step p c'))"
      by (simp add: custom_policy_rows_def custom_policy_step_def Let_def emits_def reports_def)
    then show ?thesis
      using False by (auto intro!: convertEntity_emits simp: custom_policy_rows_def)
  qed
  then show ?thesis
    unfolding convertCustomPolicies_def by (rule stage) (rule fold_append_field)
qed

lemma plain_stages:
  "emits (\<lambda>d. d\<lparr>doc_Vaults := doc_Vaults d @ map (vault_row c) (sd_Vaults (cn_src c))\<rparr>) c (convertVaults c)"
  "emits (\<lambda>d. d\<lparr>doc_CACertificates := doc_CACertificates d @ map (ca_row c) (sd_CACertificates (cn_src c))\<rparr>)
     c (convertCACertificates c)"
  "emits (\<lambda>d. d\<lparr>doc_Certificates := doc_Certificates d @ map (certificate_row c) (sd_Certificates (cn_src c))\<rparr>)
     c (convertCertificates c)"
  subgoal unfolding convertVaults_def
    by (rule stage [where app = "\<lambda>x d. d\<lparr>doc_Vaults := doc_Vaults d @ [vault_row c x]\<rparr>"],
        frule env_fields(8), simp add: emits_def reports_def stage_rows, simp only: fold_append_field)
  subgoal unfolding convertCACertificates_def
    by (rule stage [where app = "\<lambda>x d. d\<lparr>doc_CACertificates := doc_CACertificates d @ [ca_row c x]\<rparr>"],
        frule env_fields(8), simp add: emits_def reports_def stage_rows, simp only: fold_append_field)
  subgoal unfolding convertCertificates_def
    by (rule stage [where app = "\<lambda>x d. d\<lparr>doc_Certificates := doc_Certificates d @ [certificate_row c x]\<rparr>"],
        frule env_fields(8), simp add: emits_def reports_def stage_rows, simp only: fold_append_field)
  done

lemma scopedPlugins_no_acls:
  assumes "is_Kind src \<noteq> kindModel"
  shows "\<exists>c'. scopedPlugins src refs no_acls c = (c', Some (entity_plugins refs no_acls c)) \<and> only_issues c c'"
proof -
  have "\<not> entity_refused src refs no_acls c"
    using assms by (auto simp: entity_refused_def acl_refused_def no_acls_def aclFieldPaths_def
        celFieldPaths_def fieldPaths_def aclFields_def)
  then show ?thesis
    using scopedPlugins_value [of src refs no_acls c] scopedPlugins_only_issues [of c src refs no_acls]
    by (cases "scopedPlugins src refs no_acls c") auto
qed

lemma groups_stage:
  "emits (\<lambda>d. d\<lparr>doc_ConsumerGroups := doc_ConsumerGroups d @ map (group_row c) (sd_ConsumerGroups (cn_src c))\<rparr>)
     c (convertConsumerGroups c)"
proof -
  have "emits (\<lambda>d. d\<lparr>doc_ConsumerGroups := doc_ConsumerGroups d @ [group_row c g]\<rparr>) c'
      (convertEntity (issueSource kindConsumerGroup (ag_Name g)) (consumer_group_step g) c')"
    if env: "same_env c c'" for g c'
  proof -
    obtain c2 where sp: "scopedPlugins (issueSource kindConsumerGroup (ag_Name g)) (ag_Policies g) no_acls c' =
        (c2, Some (entity_plugins (ag_Policies g) no_acls c'))" and o: "only_issues c' c2"
      using scopedPlugins_no_acls [of "issueSource kindConsumerGroup (ag_Name g)"]
      by (auto simp: issueSource_def)
    have "group_row c g = \<lparr>cg_ID = ag_ID g, cg_Name = ag_Name g,
        cg_Plugins = entity_plugins (ag_Policies g) no_acls c', cg_Tags = labelsToTags c2 (ag_Labels g)\<rparr>"
      using row_env(5) [OF env] env_fields(8) [OF only_issues_env [OF o]] by (metis group_row_def)
    moreover have "cv_out c2 = cv_out c'" using o by (simp add: only_issues_iff)
    ultimately show ?thesis
      using sp emits_upd [OF o, of "\<lambda>d. d\<lparr>doc_ConsumerGroups := doc_ConsumerGroups d @ [group_row c g]\<rparr>"]
      by (intro convertEntity_emits) (simp_all add: consumer_group_step_def)
  qed
  then show ?thesis
    unfolding convertConsumerGroups_def by (rule stage) (assumption, rule fold_append_field)
qed

lemma convert_credentials_result:
  "\<exists>c'. convert_credentials src name j creds acc c =
     (c', acc @ map (credential_row c) (filter supported_credential creds)) \<and> only_issues c c'"
proof (induction src name j creds acc c rule: convert_credentials.induct)
  case (2 src name j cred creds acc c)
  let ?w = "warn (src_at src [at ''credentials'' j @ ''.type'']) ConfigFieldIgnored
      (''consumer %q credential %q has unsupported type %q; only api-key (keyauth) is supported'',
       [name, cr_Name cred, cr_Type cred]) c"
  have o: "only_issues c ?w" by simp
  have "credential_row ?w = credential_row c" by (rule row_env(6) [OF only_issues_env [OF o]])
  then show ?case
    using 2 only_issues_trans [OF o] by (cases "supported_credential cred") (auto simp: credential_row_def)
qed simp

lemma consumers_stage:
  "emits (\<lambda>d. d\<lparr>doc_Consumers := doc_Consumers d @ map (consumer_row c) (sd_Consumers (cn_src c))\<rparr>)
     c (convertConsumers c)"
proof -
  have "emits (\<lambda>d. d\<lparr>doc_Consumers := doc_Consumers d @ [consumer_row c cons]\<rparr>) c'
      (convertEntity (issueSource kindConsumer (ac_Name cons))
        (convertConsumer (issueSource kindConsumer (ac_Name cons)) cons) c')"
    if env: "same_env c c'" for cons c'
  proof -
    let ?src = "issueSource kindConsumer (ac_Name cons)"
    obtain c2 where sp: "scopedPlugins ?src (ac_Policies cons) no_acls c' =
        (c2, Some (entity_plugins (ac_Policies cons) no_acls c'))" and o: "only_issues c' c2"
      using scopedPlugins_no_acls [of ?src] by (auto simp: issueSource_def)
    obtain c3 where cc: "convert_credentials ?src (ac_Name cons) 0 (ac_Credentials cons) [] c2 =
        (c3, map (credential_row c2) (filter supported_credential (ac_Credentials cons)))"
      and o3: "only_issues c2 c3"
      using convert_credentials_result [of ?src "ac_Name cons" 0 "ac_Credentials cons" "[]" c2] by auto
    note o' = only_issues_trans [OF o o3]
    have "consumer_row c cons = \<lparr>co_ID = ac_ID cons, co_Username = ac_Name cons,
        co_CustomID = ac_CustomID cons, co_Groups = ac_ConsumerGroups cons,
        co_KeyAuthCredentials = map (credential_row c2) (filter supported_credential (ac_Credentials cons)),
        co_Plugins = entity_plugins (ac_Policies cons) no_acls c', co_Tags = labelsToTags c3 (ac_Labels cons)\<rparr>"
      using row_env(6,7) [OF env] row_env(6) [OF only_issues_env [OF o]]
        env_fields(8) [OF only_issues_env [OF o']] by (metis consumer_row_def)
    moreover have "cv_out c3 = cv_out c'" using o' by (simp add: only_issues_iff)
    ultimately show ?thesis
      using sp cc emits_upd [OF o', of "\<lambda>d. d\<lparr>doc_Consumers := doc_Consumers d @ [consumer_row c cons]\<rparr>"]
      by (intro convertEntity_emits) (simp_all add: convertConsumer_def)
  qed
  then show ?thesis
    unfolding convertConsumers_def Let_def by (rule stage) (assumption, rule fold_append_field)
qed

subsection \<open>SNIs\<close>

text \<open>The certificate an SNI goes to: the last one of its name.\<close>

lemma certIndex_lookup:
  "fmlookup (certIndex certs) n = Some i \<longleftrightarrow>
     i < length certs \<and> act_Name (certs ! i) = n \<and> (\<forall>j. i < j \<and> j < length certs \<longrightarrow> act_Name (certs ! j) \<noteq> n)"
proof (induction certs arbitrary: i rule: rev_induct)
  case Nil
  then show ?case by (simp add: certIndex_def)
next
  case (snoc x xs)
  have eq: "certIndex (xs @ [x]) = fmupd (act_Name x) (length xs) (certIndex xs)"
    by (simp add: certIndex_def enumerate_append_eq)
  show ?case
  proof (cases "act_Name x = n")
    case True
    then show ?thesis by (auto simp: eq nth_append not_less less_Suc_eq)
  next
    case False
    then show ?thesis using snoc by (auto simp: eq nth_append less_Suc_eq)
  qed
qed

lemma certIndex_bound: "fmlookup (certIndex certs) n = Some i \<Longrightarrow> i < length certs"
  by (simp add: certIndex_lookup)

lemma certIndex_None: "fmlookup (certIndex certs) n = None \<longleftrightarrow> n \<notin> act_Name ` set certs"
proof (induction certs rule: rev_induct)
  case Nil
  then show ?case by (simp add: certIndex_def)
next
  case (snoc x xs)
  have "certIndex (xs @ [x]) = fmupd (act_Name x) (length xs) (certIndex xs)"
    by (simp add: certIndex_def enumerate_append_eq)
  with snoc show ?case by auto
qed

definition nest_sni :: "converter \<Rightarrow> (string, nat) fmap \<Rightarrow> aigw_SNI \<Rightarrow> Certificate list \<Rightarrow> Certificate list" where
  "nest_sni c index sni certs =
     (case fmlookup index (as_Certificate sni) of
        None \<Rightarrow> certs
      | Some i \<Rightarrow> certs[i := (certs ! i)\<lparr>crt_SNIs := crt_SNIs (certs ! i) @ [sni_row c sni]\<rparr>])"

lemma length_nest_sni [simp]: "length (nest_sni c index sni certs) = length certs"
  by (simp add: nest_sni_def split: option.split)

lemma length_fold_nest [simp]: "length (fold (nest_sni c index) snis certs) = length certs"
  by (induction snis arbitrary: certs) simp_all

text \<open>The SNIs certificate \<open>i\<close> ends up with.\<close>

definition snis_of :: "converter \<Rightarrow> nat \<Rightarrow> SNI list" where
  "snis_of c i = map (sni_row c)
     (filter (\<lambda>sni. fmlookup (certIndex (sd_Certificates (cn_src c))) (as_Certificate sni) = Some i)
       (sd_SNIs (cn_src c)))"

lemma nth_fold_nest:
  "i < length certs \<Longrightarrow> fold (nest_sni c index) snis certs ! i =
     (certs ! i)\<lparr>crt_SNIs := crt_SNIs (certs ! i) @
        map (sni_row c) (filter (\<lambda>sni. fmlookup index (as_Certificate sni) = Some i) snis)\<rparr>"
proof (induction snis arbitrary: certs)
  case (Cons s snis)
  show ?case
  proof (cases "fmlookup index (as_Certificate s) = Some i")
    case True
    then have "nest_sni c index s certs ! i = (certs ! i)\<lparr>crt_SNIs := crt_SNIs (certs ! i) @ [sni_row c s]\<rparr>"
      using Cons.prems by (simp add: nest_sni_def)
    then show ?thesis using Cons True by simp
  next
    case False
    then have "nest_sni c index s certs ! i = certs ! i"
      by (auto simp: nest_sni_def split: option.split)
    then show ?thesis using Cons False by simp
  qed
qed simp

lemma fold_certs: "fold (\<lambda>x d. d\<lparr>doc_Certificates := f x (doc_Certificates d)\<rparr>) xs d =
    d\<lparr>doc_Certificates := fold f xs (doc_Certificates d)\<rparr>"
  by (induction xs arbitrary: d) simp_all

lemma snis_stage:
  assumes "length (doc_Certificates (cv_out c)) = length (sd_Certificates (cn_src c))"
  shows "emits (\<lambda>d. d\<lparr>doc_Certificates :=
      fold (nest_sni c (certIndex (sd_Certificates (cn_src c)))) (sd_SNIs (cn_src c)) (doc_Certificates d)\<rparr>)
      c (convertSNIs c)"
proof -
  let ?index = "certIndex (sd_Certificates (cn_src c))"
  let ?n = "length (sd_Certificates (cn_src c))"
  let ?app = "\<lambda>sni d. d\<lparr>doc_Certificates := nest_sni c ?index sni (doc_Certificates d)\<rparr>"
  have step: "emits (?app sni) c' (convertEntity (issueSource kindSNI (as_Name sni)) (sni_step ?index sni) c')"
    if env: "same_env c c'" and len: "length (doc_Certificates (cv_out c')) = ?n" for sni c'
  proof (cases "fmlookup ?index (as_Certificate sni)")
    case None
    have "sni_step ?index sni c' = fail (src_at (issueSource kindSNI (as_Name sni)) [''certificate'']) UndefinedReference
        (''sni %q references unknown certificate %q'', [as_Name sni, as_Certificate sni]) c'"
      using None by (simp add: sni_step_def)
    moreover have "emits (\<lambda>d. d) c' (convertEntity (issueSource kindSNI (as_Name sni)) (sni_step ?index sni) c')"
      by (rule convertEntity_skips)
        (use calculation in simp_all)
    moreover have eq: "?app sni = (\<lambda>d. d)" using None by (simp add: nest_sni_def)
    ultimately show ?thesis unfolding eq by blast
  next
    case (Some i)
    then have "i < length (doc_Certificates (cv_out c'))"
      using certIndex_bound len by simp
    moreover have "sni_row c sni = \<lparr>sni_ID = as_ID sni, sni_Name = as_Hostname sni,
        sni_Tags = labelsToTags c' (as_Labels sni)\<rparr>"
      using env_fields(8) [OF env] by (simp add: sni_row_def)
    ultimately show ?thesis
      using Some by (intro convertEntity_emits)
        (simp_all add: sni_step_def nest_sni_def emits_def reports_def Let_def)
  qed
  have "emits (fold ?app (sd_SNIs (cn_src c))) c (convertSNIs c)"
    unfolding convertSNIs_def Let_def
    by (rule fold_entities [where Inv = "\<lambda>d. length (doc_Certificates d) = ?n", OF _ same_env_refl assms])
      (use step in simp)
  then show ?thesis by (rule emits_cong) (rule fold_certs)
qed

lemma certificates_with_snis:
  "fold (nest_sni c (certIndex (sd_Certificates (cn_src c)))) (sd_SNIs (cn_src c))
      (map (certificate_row c) (sd_Certificates (cn_src c))) =
   map (\<lambda>(i, cert). (certificate_row c cert)\<lparr>crt_SNIs := snis_of c i\<rparr>) (enumerate 0 (sd_Certificates (cn_src c)))"
  by (rule nth_equalityI) (simp_all add: nth_fold_nest nth_enumerate_eq snis_of_def certificate_row_def)

section \<open>The contract of the entity conversions\<close>

lemma scopedPlugins_skip:
  "snd (scopedPlugins src refs acls c) = None \<Longrightarrow> HasErrors (cv_issues (fst (scopedPlugins src refs acls c)))"
  using scopedPlugins_value [of src refs acls c] scopedPlugins_errors [of src refs acls c]
  by (auto split: if_splits)

lemma reports_out [simp]: "reports c (c'\<lparr>cv_out := d\<rparr>) \<longleftrightarrow> reports c c'"
  by (simp add: reports_def)

lemma scopedPlugins_cases:
  obtains (refused) c' where "scopedPlugins src refs acls c = (c', None)" "reports c c'" "HasErrors (cv_issues c')"
  | (plugins) c' ps where "scopedPlugins src refs acls c = (c', Some ps)" "reports c c'"
  using scopedPlugins_skip [of src refs acls c] only_issues_reports [OF scopedPlugins_only_issues [of c src refs acls]]
  by (cases "scopedPlugins src refs acls c"; cases "snd (scopedPlugins src refs acls c)") auto

interpretation custom_policy: entity_step "custom_policy_step p" for p
  by unfold_locales (auto simp: custom_policy_step_def Let_def)

interpretation global_policy: entity_step "global_policy_step p" for p
proof unfold_locales
  fix c
  obtain c2 r where pp: "policyPlugin p (labelsToTags c (po_Labels p)) True c = (c2, r)"
    by (cases "policyPlugin p (labelsToTags c (po_Labels p)) True c")
  have "reports c c2"
    using policyPlugin_only_issues [of c p "labelsToTags c (po_Labels p)" True] pp by (simp add: only_issues_iff)
  then show "reports c (fst (global_policy_step p c))"
    "snd (global_policy_step p c) = SkipEntity \<Longrightarrow> HasErrors (cv_issues (fst (global_policy_step p c)))"
    using pp by (cases r; simp add: global_policy_step_def)+
qed

interpretation sni: entity_step "sni_step index s" for index s
  by unfold_locales (auto simp: sni_step_def split: option.splits if_splits)

interpretation consumer_group: entity_step "consumer_group_step g" for g
proof unfold_locales
  fix c
  show "reports c (fst (consumer_group_step g c))"
    by (rule scopedPlugins_cases [of "issueSource kindConsumerGroup (ag_Name g)" "ag_Policies g" no_acls c])
      (simp_all add: consumer_group_step_def)
  show "snd (consumer_group_step g c) = SkipEntity \<Longrightarrow> HasErrors (cv_issues (fst (consumer_group_step g c)))"
    by (rule scopedPlugins_cases [of "issueSource kindConsumerGroup (ag_Name g)" "ag_Policies g" no_acls c])
      (simp_all add: consumer_group_step_def)
qed

interpretation consumer: entity_step "convertConsumer src cons" for src cons
proof unfold_locales
  fix c
  have creds: "reports c' (fst (convert_credentials s n j cs acc c'))" for s n j cs acc c'
    using convert_credentials_result [of s n j cs acc c'] by (auto simp: only_issues_iff)
  show "reports c (fst (convertConsumer src cons c))"
    by (rule scopedPlugins_cases [of src "ac_Policies cons" no_acls c])
      (auto simp: convertConsumer_def case_prod_beta Let_def intro: reports_trans [OF _ creds])
  show "snd (convertConsumer src cons c) = SkipEntity \<Longrightarrow> HasErrors (cv_issues (fst (convertConsumer src cons c)))"
    by (rule scopedPlugins_cases [of src "ac_Policies cons" no_acls c])
      (simp_all add: convertConsumer_def case_prod_beta Let_def)
qed

section \<open>Properties\<close>

text \<open>The stages of \<open>Converter.run\<close> that this theory models, in their order.\<close>

definition convert_entities :: "converter \<Rightarrow> converter" where
  "convert_entities c =
     convertConsumers (convertConsumerGroups (convertSNIs (convertCertificates (convertCACertificates
       (convertVaults (convertCustomPolicies (convertGlobalPolicies c)))))))"

text \<open>The document they should make, as a function of the source.\<close>

definition entities_spec :: "converter \<Rightarrow> Document \<Rightarrow> Document" where
  "entities_spec c d =
     d\<lparr>doc_Plugins := doc_Plugins d @ concat (map (global_rows c) (sd_Policies (cn_src c))),
       doc_CustomPlugins := doc_CustomPlugins d @ concat (map custom_policy_rows (sd_CustomPolicies (cn_src c))),
       doc_Vaults := doc_Vaults d @ map (vault_row c) (sd_Vaults (cn_src c)),
       doc_CACertificates := doc_CACertificates d @ map (ca_row c) (sd_CACertificates (cn_src c)),
       doc_Certificates := map (\<lambda>(i, cert). (certificate_row c cert)\<lparr>crt_SNIs := snis_of c i\<rparr>)
         (enumerate 0 (sd_Certificates (cn_src c))),
       doc_ConsumerGroups := doc_ConsumerGroups d @ map (group_row c) (sd_ConsumerGroups (cn_src c)),
       doc_Consumers := doc_Consumers d @ map (consumer_row c) (sd_Consumers (cn_src c))\<rparr>"

lemma emits_env: "emits f c c' \<Longrightarrow> same_env c c'"
  by (simp add: emits_def)

lemma spec_env:
  assumes "same_env c c'"
  shows "snis_of c' = snis_of c" "cn_src c' = cn_src c" "nest_sni c' = nest_sni c"
  unfolding snis_of_def nest_sni_def row_env(3) [OF assms] env_fields(2) [OF assms] by (rule refl)+


definition sample_certificate :: aigw_Certificate where
  "sample_certificate = \<lparr>act_ID = [], act_Name = ''web'', act_Cert = ''C'', act_Key = ''K'', act_CertAlt = [],
     act_KeyAlt = [], act_Labels = fmempty\<rparr>"

definition sample_sni :: aigw_SNI where
  "sample_sni = \<lparr>as_ID = [], as_Name = ''s'', as_Hostname = ''a.example'', as_Certificate = ''web'',
     as_Labels = fmempty\<rparr>"

definition sample_entities :: converter where
  "sample_entities = newConverter
     (empty_source\<lparr>sd_Certificates := [sample_certificate, sample_certificate\<lparr>act_Cert := ''D''\<rparr>],
                   sd_SNIs := [sample_sni, sample_sni\<lparr>as_Certificate := ''nope''\<rparr>]\<rparr>)
     \<lparr>opt_LabelTagPrefix = [], opt_MinRuntimeVersion = ''2.0''\<rparr>"


text \<open>With two certificates of one name, an SNI goes to the last, an upstream to the first.\<close>

lemma upstream_takes_first_certificate:
  assumes "crt_SourceName cert = name"
  shows "snd (scan_certs name (cert # certs)) = Some (if crt_ID cert = [] then StableUUID (''certificate:'' @ name) else crt_ID cert)"
    and "length (fst (scan_certs name (cert # certs))) = length (cert # certs)"
    and "tl (fst (scan_certs name (cert # certs))) = certs"
  using assms by (auto simp: Let_def)

end
