(* ===== verification/Routes.thy ===== *)
theory Routes
  imports Kong_Model
begin

text \<open>
  Building a Kong route from a route config (\<open>src/convert/route.go\<close>), with the protocols of the HTTP
  and the WebSocket transport.

  \<open>cloneStrings\<close> and \<open>toKongCIDRPorts\<close> copy their input, which is the identity on values.
\<close>

definition route_of :: "'a RouteConfig_scheme \<Rightarrow> string \<Rightarrow> Route" where
  "route_of rc name =
     \<lparr>rt_Name = name, rt_Paths = rt_Paths rc, rt_Hosts = rt_Hosts rc, rt_Methods = rt_Methods rc,
      rt_Protocols = rt_Protocols rc, rt_Headers = rt_Headers rc, rt_SNIs = rt_SNIs rc,
      rt_Sources = rt_Sources rc, rt_Destinations = rt_Destinations rc,
      rt_StripPath = rt_StripPath rc, rt_PreserveHost = rt_PreserveHost rc,
      rt_HTTPSRedirectStatusCode = rt_HTTPSRedirectStatusCode rc,
      rt_RegexPriority = rt_RegexPriority rc, rt_PathHandling = rt_PathHandling rc,
      rt_RequestBuffering = rt_RequestBuffering rc, rt_ResponseBuffering = rt_ResponseBuffering rc,
      rt_Tags = rt_Tags rc, rt_Plugins = [], rt_Source = None\<rparr>"

definition buildRoute :: "'a RouteConfig_scheme \<Rightarrow> string \<Rightarrow> Route" where
  "buildRoute rc entityName =
     route_of rc (if rt_Name rc = [] then entityName @ ''-route'' else rt_Name rc)"

definition transport_counterpart :: "bool \<Rightarrow> (string \<times> string) list" where
  "transport_counterpart websocket =
     (if websocket
      then [(''http'', ''ws''), (''https'', ''wss''), (''ws'', ''ws''), (''wss'', ''wss'')]
      else [(''ws'', ''http''), (''wss'', ''https'')])"

fun transport_loop :: "bool \<Rightarrow> string list \<Rightarrow> string list \<Rightarrow> string list" where
  "transport_loop websocket [] out = out"
| "transport_loop websocket (p # ps) out =
     (case map_of (transport_counterpart websocket) p of
        Some mapped \<Rightarrow> transport_loop websocket ps (append_new out mapped)
      | None \<Rightarrow> if websocket then transport_loop websocket ps out
                else transport_loop websocket ps (append_new out p))"

definition transportProtocols :: "string list \<Rightarrow> bool \<Rightarrow> string list" where
  "transportProtocols protocols websocket =
     (if \<not> websocket \<and> \<not> list_ex (\<lambda>p. p = ''ws'' \<or> p = ''wss'') protocols then protocols
      else let out = transport_loop websocket protocols [] in
           if websocket \<and> out = [] then [''ws'', ''wss''] else out)"

definition buildModelRoute ::
  "'a RouteConfig_scheme \<Rightarrow> string \<Rightarrow> string list \<Rightarrow> string list \<Rightarrow> bool \<Rightarrow> Route"
where
  "buildModelRoute rc routeName paths defaultMethods websocket =
     (let route = buildRoute rc routeName in
      route\<lparr>rt_Name := routeName,
            rt_Paths := paths,
            rt_Protocols := transportProtocols (rt_Protocols route) websocket,
            rt_Methods := (if websocket then []
                           else if rt_Methods route = [] then defaultMethods else rt_Methods route),
            rt_StripPath := (if rt_StripPath route = None then Some False else rt_StripPath route)\<rparr>)"

section \<open>Laws\<close>

text \<open>Which protocols encrypt.\<close>

definition tls_protocol :: "string \<Rightarrow> bool" where
  "tls_protocol p = (p \<in> {''https'', ''wss''})"

definition transport :: "bool \<Rightarrow> string \<Rightarrow> string option" where
  "transport websocket p =
     (case map_of (transport_counterpart websocket) p of
        Some q \<Rightarrow> Some q | None \<Rightarrow> if websocket then None else Some p)"

lemma transport_True: "transport True p = Some q \<longleftrightarrow>
    (p \<in> {''http'', ''ws''} \<and> q = ''ws'') \<or> (p \<in> {''https'', ''wss''} \<and> q = ''wss'')"
  by (auto simp: transport_def transport_counterpart_def)

lemma transport_False: "transport False p = Some q \<longleftrightarrow>
    (p = ''ws'' \<and> q = ''http'') \<or> (p = ''wss'' \<and> q = ''https'') \<or> (p \<notin> {''ws'', ''wss''} \<and> q = p)"
  by (auto simp: transport_def transport_counterpart_def)

lemma transport_loop_fold:
  "transport_loop ws ps out = fold (\<lambda>q out. append_new out q) (List.map_filter (transport ws) ps) out"
proof (induction ps arbitrary: out)
  case (Cons p ps)
  then show ?case
    by (cases "map_of (transport_counterpart ws) p"; cases ws)
      (simp_all add: transport_def List.map_filter_simps)
qed (simp add: List.map_filter_simps)

lemma fold_append_new:
  "set (fold (\<lambda>q out. append_new out q) qs out) = set out \<union> set qs"
  "distinct out \<Longrightarrow> distinct (fold (\<lambda>q out. append_new out q) qs out)"
  by (induction qs arbitrary: out) auto

lemma set_map_filter: "q \<in> set (List.map_filter f ps) \<longleftrightarrow> (\<exists>p \<in> set ps. f p = Some q)"
  by (induction ps) (auto simp: List.map_filter_simps split: option.splits)

lemma mem_transport_loop: "q \<in> set (transport_loop ws ps []) \<longleftrightarrow> (\<exists>p \<in> set ps. transport ws p = Some q)"
  by (simp add: transport_loop_fold fold_append_new set_map_filter)

lemma distinct_transport_loop: "distinct (transport_loop ws ps [])"
  by (simp add: transport_loop_fold fold_append_new)

definition usable :: "string list \<Rightarrow> bool" where
  "usable ps = list_ex (\<lambda>p. p \<in> {''http'', ''https'', ''ws'', ''wss''}) ps"

lemma websocket_loop:
  shows websocket_loop_empty: "transport_loop True ps [] = [] \<longleftrightarrow> \<not> usable ps"
    and websocket_loop_range: "set (transport_loop True ps []) \<subseteq> {''ws'', ''wss''}"
    and websocket_loop_tls: "(\<exists>q \<in> set (transport_loop True ps []). tls_protocol q) = (\<exists>p \<in> set ps. tls_protocol p)"
proof -
  have "transport_loop True ps [] = [] \<longleftrightarrow> (\<forall>q. q \<notin> set (transport_loop True ps []))"
    by (metis list.set_sel(1) empty_iff empty_set)
  then show "transport_loop True ps [] = [] \<longleftrightarrow> \<not> usable ps"
    unfolding mem_transport_loop transport_True usable_def list_ex_iff by blast
  show "set (transport_loop True ps []) \<subseteq> {''ws'', ''wss''}"
    using mem_transport_loop [of _ True ps] unfolding transport_True by blast
  show "(\<exists>q \<in> set (transport_loop True ps []). tls_protocol q) = (\<exists>p \<in> set ps. tls_protocol p)"
    unfolding Bex_def mem_transport_loop transport_True tls_protocol_def by auto
qed

lemma http_transport:
  shows http_transport_range: "set (transportProtocols ps False) \<inter> {''ws'', ''wss''} = {}"
    and http_transport_tls: "(\<exists>q \<in> set (transportProtocols ps False). tls_protocol q) = (\<exists>p \<in> set ps. tls_protocol p)"
proof -
  have r: "set (transport_loop False ps []) \<inter> {''ws'', ''wss''} = {}"
  proof -
    have "q \<notin> {''ws'', ''wss''}" if "q \<in> set (transport_loop False ps [])" for q
      using that unfolding mem_transport_loop transport_False by auto
    then show ?thesis by blast
  qed
  have t: "(\<exists>q \<in> set (transport_loop False ps []). tls_protocol q) = (\<exists>p \<in> set ps. tls_protocol p)"
    unfolding Bex_def mem_transport_loop transport_False tls_protocol_def by auto
  show "set (transportProtocols ps False) \<inter> {''ws'', ''wss''} = {}"
    using r by (auto simp: transportProtocols_def Let_def list_ex_iff)
  show "(\<exists>q \<in> set (transportProtocols ps False). tls_protocol q) = (\<exists>p \<in> set ps. tls_protocol p)"
    using t by (simp add: transportProtocols_def Let_def)
qed

text \<open>C31: On the WebSocket transport a model route has only ws and wss protocols, at least one and no
  duplicates; on the HTTP transport it has no ws or wss.  Either way it offers an encrypted protocol
  exactly when the configured list has one, except that a WebSocket route whose list has no usable
  protocol offers both.\<close>

theorem transport_protocols_safe:
  "set (transportProtocols ps True) \<subseteq> {''ws'', ''wss''} \<and> transportProtocols ps True \<noteq> [] \<and>
   distinct (transportProtocols ps True) \<and>
   set (transportProtocols ps False) \<inter> {''ws'', ''wss''} = {} \<and>
   (if usable ps
    then (\<exists>p \<in> set (transportProtocols ps True). tls_protocol p) = (\<exists>p \<in> set ps. tls_protocol p)
    else transportProtocols ps True = [''ws'', ''wss'']) \<and>
   (\<exists>p \<in> set (transportProtocols ps False). tls_protocol p) = (\<exists>p \<in> set ps. tls_protocol p)"
proof (cases "usable ps")
  case True
  then have "transportProtocols ps True = transport_loop True ps []"
    by (simp add: transportProtocols_def websocket_loop_empty)
  then show ?thesis
    using True websocket_loop [of ps] distinct_transport_loop [of True ps] http_transport [of ps] by simp
next
  case False
  then have "transportProtocols ps True = [''ws'', ''wss'']"
    using websocket_loop_empty [of ps] by (simp add: transportProtocols_def)
  then show ?thesis using False http_transport [of ps] by simp
qed

end
