(* ===== verification/Go_Netip.thy ===== *)
theory Go_Netip
  imports Go_Prelude
begin

text \<open>
  The part of \<open>net/netip\<close> that the routing lint uses: parsing an address or a prefix, and whether two
  prefixes overlap.  An address is its list of bits, most significant first: 32 of them for IPv4, 128
  for IPv6, with the zone of an IPv6 address.
\<close>

record ip_addr =
  ip_bits :: "bool list"
  ip_zone :: string

definition Is4 :: "ip_addr \<Rightarrow> bool" where
  "Is4 a = (length (ip_bits a) = 32)"

definition BitLen :: "ip_addr \<Rightarrow> nat" where
  "BitLen a = length (ip_bits a)"

fun bits_of :: "nat \<Rightarrow> nat \<Rightarrow> bool list" where
  "bits_of 0 n = []"
| "bits_of (Suc w) n = bits_of w (n div 2) @ [n mod 2 = 1]"

lemma length_bits_of [simp]: "length (bits_of w n) = w"
  by (induction w arbitrary: n) auto

section \<open>Parsing\<close>

definition digit :: "char \<Rightarrow> nat option" where
  "digit c = (let n = of_char c in if 48 \<le> n \<and> n \<le> 57 then Some (n - 48) else None)"

definition hex_digit :: "char \<Rightarrow> nat option" where
  "hex_digit c =
     (let n = of_char c in
      if 48 \<le> n \<and> n \<le> 57 then Some (n - 48)
      else if 97 \<le> n \<and> n \<le> 102 then Some (n - 87)
      else if 65 \<le> n \<and> n \<le> 70 then Some (n - 55)
      else None)"

text \<open>\<open>parseIPv4Fields\<close>: \<open>prev_dot\<close> holds at the start and after a dot.\<close>

fun ipv4_fields :: "string \<Rightarrow> nat \<Rightarrow> nat \<Rightarrow> bool \<Rightarrow> nat list \<Rightarrow> nat list option" where
  "ipv4_fields [] val digLen prev_dot fs =
     (if length fs < 3 then None else Some (fs @ [val]))"
| "ipv4_fields (c # cs) val digLen prev_dot fs =
     (case digit c of
        Some d \<Rightarrow>
          if digLen = 1 \<and> val = 0 then None
          else if val * 10 + d > 255 then None
          else ipv4_fields cs (val * 10 + d) (Suc digLen) False fs
      | None \<Rightarrow>
          if c = CHR ''.'' then
            if prev_dot \<or> cs = [] then None
            else if length fs = 3 then None
            else ipv4_fields cs 0 0 True (fs @ [val])
          else None)"

definition parseIPv4Fields :: "string \<Rightarrow> nat list option" where
  "parseIPv4Fields s = ipv4_fields s 0 0 True []"

definition parseIPv4 :: "string \<Rightarrow> ip_addr option" where
  "parseIPv4 s = map_option (\<lambda>fs. \<lparr>ip_bits = concat (map (bits_of 8) fs), ip_zone = []\<rparr>) (parseIPv4Fields s)"

text \<open>The hexadecimal digits at the start: at most four, with the rest of the input.\<close>

fun hex_group :: "string \<Rightarrow> nat \<Rightarrow> nat \<Rightarrow> (nat \<times> nat \<times> string) option" where
  "hex_group [] off acc = Some (off, acc, [])"
| "hex_group (c # cs) off acc =
     (case hex_digit c of
        None \<Rightarrow> Some (off, acc, c # cs)
      | Some d \<Rightarrow> if off > 3 then None else hex_group cs (Suc off) (acc * 16 + d))"

text \<open>The loop of \<open>parseIPv6\<close>.  The groups read so far are bytes; \<open>ell\<close> is the position of the
  ellipsis among them.  Each round but the last adds two bytes, so the first argument counts the
  rounds left.\<close>

fun ipv6_groups :: "nat \<Rightarrow> string \<Rightarrow> nat list \<Rightarrow> nat option \<Rightarrow> (nat list \<times> nat option) option" where
  "ipv6_groups 0 s ip ell = (if s = [] then Some (ip, ell) else None)"
| "ipv6_groups (Suc n) s ip ell =
     (case hex_group s 0 0 of
        None \<Rightarrow> None
      | Some (off, acc, rest) \<Rightarrow>
          if off = 0 then None
          else case rest of
            [] \<Rightarrow> Some (ip @ [acc div 256, acc mod 256], ell)
          | c # cs \<Rightarrow>
              if c = CHR ''.'' then
                if ell = None \<and> length ip \<noteq> 12 then None
                else if length ip + 4 > 16 then None
                else map_option (\<lambda>fs. (ip @ fs, ell)) (parseIPv4Fields s)
              else if c \<noteq> CHR '':'' then None
              else (case cs of
                  [] \<Rightarrow> None
                | d # ds \<Rightarrow>
                    if d = CHR '':'' then
                      if ell \<noteq> None then None
                      else if ds = [] then Some (ip @ [acc div 256, acc mod 256], Some (length ip + 2))
                      else ipv6_groups n ds (ip @ [acc div 256, acc mod 256]) (Some (length ip + 2))
                    else ipv6_groups n cs (ip @ [acc div 256, acc mod 256]) ell))"

definition expand_ellipsis :: "nat list \<Rightarrow> nat option \<Rightarrow> nat list option" where
  "expand_ellipsis ip ell =
     (if length ip < 16 then
        (case ell of None \<Rightarrow> None
         | Some e \<Rightarrow> Some (take e ip @ replicate (16 - length ip) 0 @ drop e ip))
      else if ell \<noteq> None then None
      else Some ip)"

definition parseIPv6 :: "string \<Rightarrow> ip_addr option" where
  "parseIPv6 input =
     (let (s, zone, bad) = (case Cut input (CHR ''%'') of
                              None \<Rightarrow> (input, [], False) | Some (s, z) \<Rightarrow> (s, z, z = [])) in
      if bad then None
      else
        let (s, ell) = (case CutPrefix s ''::'' of Some r \<Rightarrow> (r, Some 0) | None \<Rightarrow> (s, None)) in
        if s = [] \<and> ell = Some 0
        then Some \<lparr>ip_bits = replicate 128 False, ip_zone = zone\<rparr>
        else case ipv6_groups 8 s [] ell of
          None \<Rightarrow> None
        | Some (ip, ell) \<Rightarrow>
            map_option (\<lambda>bytes. \<lparr>ip_bits = concat (map (bits_of 8) bytes), ip_zone = zone\<rparr>)
              (expand_ellipsis ip ell))"

text \<open>The first dot, colon or percent sign decides the form.\<close>

definition ParseAddr :: "string \<Rightarrow> ip_addr option" where
  "ParseAddr s =
     (case find (\<lambda>c. c = CHR ''.'' \<or> c = CHR '':'' \<or> c = CHR ''%'') s of
        None \<Rightarrow> None
      | Some c \<Rightarrow> if c = CHR ''.'' then parseIPv4 s else if c = CHR '':'' then parseIPv6 s else None)"

record ip_prefix =
  px_addr :: "bool list"
  px_len :: nat

definition PrefixFrom :: "ip_addr \<Rightarrow> nat \<Rightarrow> ip_prefix" where
  "PrefixFrom a n = \<lparr>px_addr = ip_bits a, px_len = n\<rparr>"

fun parse_nat :: "string \<Rightarrow> nat \<Rightarrow> nat option" where
  "parse_nat [] acc = Some acc"
| "parse_nat (c # cs) acc = (case digit c of None \<Rightarrow> None | Some d \<Rightarrow> parse_nat cs (acc * 10 + d))"

text \<open>The decimal length: no sign, no leading zero; a long text only exceeds every bound.\<close>

definition parse_bits :: "string \<Rightarrow> nat option" where
  "parse_bits s =
     (if s = [] \<or> (length s > 1 \<and> hd s = CHR ''0'') then None else parse_nat s 0)"

definition cut_last_slash :: "string \<Rightarrow> (string \<times> string) option" where
  "cut_last_slash s = map_option (\<lambda>(b, a). (rev a, rev b)) (Cut (rev s) (CHR ''/''))"

definition ParsePrefix :: "string \<Rightarrow> ip_prefix option" where
  "ParsePrefix s =
     (case cut_last_slash s of
        None \<Rightarrow> None
      | Some (addr, len) \<Rightarrow>
          (case ParseAddr addr of
             None \<Rightarrow> None
           | Some ip \<Rightarrow>
               if ip_zone ip \<noteq> [] then None
               else case parse_bits len of
                 None \<Rightarrow> None
               | Some n \<Rightarrow> if n > BitLen ip then None else Some (PrefixFrom ip n)))"

section \<open>Overlap\<close>

definition Overlaps :: "ip_prefix \<Rightarrow> ip_prefix \<Rightarrow> bool" where
  "Overlaps p q =
     (if p = q then True
      else if length (px_addr p) \<noteq> length (px_addr q) then False
      else let n = min (px_len p) (px_len q) in
           n = 0 \<or> take n (px_addr p) = take n (px_addr q))"

text \<open>The addresses of a prefix.\<close>

definition prefix_contains :: "ip_prefix \<Rightarrow> bool list \<Rightarrow> bool" where
  "prefix_contains p bits \<longleftrightarrow>
     length bits = length (px_addr p) \<and> take (px_len p) bits = take (px_len p) (px_addr p)"

lemma overlaps_exact:
  assumes "px_len p \<le> length (px_addr p)" and "px_len q \<le> length (px_addr q)"
  shows "Overlaps p q \<longleftrightarrow> (\<exists>bits. prefix_contains p bits \<and> prefix_contains q bits)"
proof
  assume o: "Overlaps p q"
  show "\<exists>bits. prefix_contains p bits \<and> prefix_contains q bits"
  proof (cases "px_len p \<le> px_len q")
    case True
    then have "take (px_len p) (px_addr q) = take (px_len p) (px_addr p)" "length (px_addr p) = length (px_addr q)"
      using o by (auto simp: Overlaps_def Let_def min_def split: if_splits)
    then show ?thesis by (auto simp: prefix_contains_def)
  next
    case False
    then have "take (px_len q) (px_addr q) = take (px_len q) (px_addr p)" "length (px_addr p) = length (px_addr q)"
      using o by (auto simp: Overlaps_def Let_def min_def split: if_splits)
    then show ?thesis by (auto simp: prefix_contains_def)
  qed
next
  assume "\<exists>bits. prefix_contains p bits \<and> prefix_contains q bits"
  then obtain bits where b: "length bits = length (px_addr p)" "length bits = length (px_addr q)"
    "take (px_len p) bits = take (px_len p) (px_addr p)" "take (px_len q) bits = take (px_len q) (px_addr q)"
    by (auto simp: prefix_contains_def)
  have "take (min (px_len p) (px_len q)) (px_addr p) = take (min (px_len p) (px_len q)) bits"
    "take (min (px_len p) (px_len q)) (px_addr q) = take (min (px_len p) (px_len q)) bits"
    using arg_cong [OF b(3), of "take (px_len q)"] arg_cong [OF b(4), of "take (px_len p)"]
    by (simp_all add: min.commute)
  with b(1,2) show "Overlaps p q" by (simp add: Overlaps_def Let_def)
qed

lemma fields_length: "ipv4_fields s v d b fs = Some r \<Longrightarrow> length fs \<le> 3 \<Longrightarrow> length r = 4"
  by (induction s v d b fs rule: ipv4_fields.induct) (auto split: option.splits if_splits)

lemma length_bytes [simp]: "length (concat (map (bits_of 8) bs)) = 8 * length bs"
  by (induction bs) simp_all

lemma parseIPv4_bits: "parseIPv4 s = Some a \<Longrightarrow> length (ip_bits a) = 32"
  by (auto simp: parseIPv4_def parseIPv4Fields_def simp del: length_concat dest!: fields_length)

lemma ipv6_groups_length:
  "ipv6_groups n s ip ell = Some (ip', ell') \<Longrightarrow> length ip + 2 * n = 16 \<Longrightarrow> length ip' \<le> 16"
proof (induction n arbitrary: s ip ell)
  case 0
  then show ?case by (auto split: if_splits)
next
  case (Suc n)
  from Suc.prems show ?case
    by (auto simp: parseIPv4Fields_def split: option.splits prod.splits if_splits list.splits
        dest!: fields_length dest: Suc.IH)
qed

lemma expand_ellipsis_length: "expand_ellipsis ip ell = Some bytes \<Longrightarrow> length ip \<le> 16 \<Longrightarrow> length bytes = 16"
  by (auto simp: expand_ellipsis_def split: option.splits if_splits)

lemma parseIPv6_bits: "parseIPv6 s = Some a \<Longrightarrow> length (ip_bits a) = 128"
  by (auto simp: parseIPv6_def Let_def simp del: length_concat split: option.splits prod.splits if_splits
      dest!: expand_ellipsis_length ipv6_groups_length)

lemma ParseAddr_bits: "ParseAddr s = Some a \<Longrightarrow> length (ip_bits a) \<in> {32, 128}"
  by (auto simp: ParseAddr_def split: option.splits if_splits dest: parseIPv4_bits parseIPv6_bits)

lemma ParsePrefix_wf: "ParsePrefix s = Some p \<Longrightarrow> px_len p \<le> length (px_addr p)"
  by (auto simp: ParsePrefix_def PrefixFrom_def BitLen_def split: option.splits if_splits)

end
