(* ===== verification/Routing_Lint.thy ===== *)
theory Routing_Lint
  imports Source_Model Routes Go_Netip
begin

text \<open>
  The lint of the output (\<open>src/convert/lint.go\<close>): a warning for each pair of routes that one request
  can match, unless one route refines the other.

  The checks are proved against a semantics of requests: \<open>route_matches\<close> says which requests a Kong
  route accepts.  A path is compared by its text, as the code does; so the semantics keeps with a
  request the configured path by which it matches.
\<close>

section \<open>Lists of matchers\<close>

definition listWithin :: "'a list \<Rightarrow> 'a list \<Rightarrow> ('a \<Rightarrow> 'a \<Rightarrow> bool) \<Rightarrow> bool" where
  "listWithin a b equal =
     (if b = [] then True else if a = [] then False
      else list_all (\<lambda>x. list_ex (\<lambda>y. equal x y) b) a)"

definition listsOverlap :: "'a list \<Rightarrow> 'a list \<Rightarrow> ('a \<Rightarrow> 'a \<Rightarrow> bool) \<Rightarrow> bool" where
  "listsOverlap a b overlap =
     (if a = [] \<or> b = [] then True else list_ex (\<lambda>x. list_ex (\<lambda>y. overlap x y) b) a)"

definition defaultRouteProtocols :: "string list" where
  "defaultRouteProtocols = [''http'', ''https'']"

definition protocolsOrDefault :: "string list \<Rightarrow> string list" where
  "protocolsOrDefault protocols = (if protocols = [] then defaultRouteProtocols else protocols)"

section \<open>Single matchers\<close>

definition hostsOverlap :: "string \<Rightarrow> string \<Rightarrow> bool" where
  "hostsOverlap a0 b0 =
     (let a = ToLower a0; b = ToLower b0;
          aLeading = HasPrefix a ''*''; aSuffix = TrimPrefix a ''*'';
          aTrailing = HasSuffix a ''*''; aPrefix = TrimSuffix a ''*'';
          bLeading = HasPrefix b ''*''; bSuffix = TrimPrefix b ''*'';
          bTrailing = HasSuffix b ''*''; bPrefix = TrimSuffix b ''*''
      in if aLeading \<and> bLeading then HasSuffix aSuffix bSuffix \<or> HasSuffix bSuffix aSuffix
         else if aTrailing \<and> bTrailing then HasPrefix aPrefix bPrefix \<or> HasPrefix bPrefix aPrefix
         else if (aLeading \<and> bTrailing) \<or> (aTrailing \<and> bLeading) then True
         else if aLeading then HasSuffix b aSuffix
         else if aTrailing then HasPrefix b aPrefix
         else if bLeading then HasSuffix a bSuffix
         else if bTrailing then HasPrefix a bPrefix
         else a = b)"

definition is_regex_value :: "string \<Rightarrow> bool" where
  "is_regex_value v = HasPrefix v ''~''"

definition headerValuesOverlap :: "string \<Rightarrow> string \<Rightarrow> bool" where
  "headerValuesOverlap a b =
     (if is_regex_value a \<or> is_regex_value b then a = b else EqualFold a b)"

type_synonym header_map = "(string, string list) fmap"

definition headersOverlap :: "header_map \<Rightarrow> header_map \<Rightarrow> bool" where
  "headersOverlap a b =
     list_all (\<lambda>(nameA, valuesA). list_all (\<lambda>(nameB, valuesB).
        \<not> (EqualFold nameA nameB \<and> \<not> listsOverlap valuesA valuesB headerValuesOverlap))
        (sorted_list_of_fmap b)) (sorted_list_of_fmap a)"

text \<open>The inner loop stops at the first name of \<open>a\<close> that equals \<open>nameB\<close>.\<close>

definition headersWithin :: "header_map \<Rightarrow> header_map \<Rightarrow> bool" where
  "headersWithin a b =
     list_all (\<lambda>(nameB, valuesB).
        case find (\<lambda>(nameA, _). EqualFold nameA nameB) (sorted_list_of_fmap a) of
          None \<Rightarrow> False
        | Some (_, valuesA) \<Rightarrow> listWithin valuesA valuesB headerValuesOverlap) (sorted_list_of_fmap b)"

definition sameCIDRPort :: "CIDRPort \<Rightarrow> CIDRPort \<Rightarrow> bool" where
  "sameCIDRPort a b = (cidr_IP a = cidr_IP b \<and> cidr_Port a = cidr_Port b)"

definition parsePrefix :: "string \<Rightarrow> ip_prefix option" where
  "parsePrefix s =
     (if \<not> Contains s ''/'' then map_option (\<lambda>addr. PrefixFrom addr (BitLen addr)) (ParseAddr s)
      else ParsePrefix s)"

definition cidrPortsOverlap :: "CIDRPort \<Rightarrow> CIDRPort \<Rightarrow> bool" where
  "cidrPortsOverlap a b =
     (if (case (cidr_Port a, cidr_Port b) of (Some p, Some q) \<Rightarrow> p \<noteq> q | _ \<Rightarrow> False) then False
      else if cidr_IP a = [] \<or> cidr_IP b = [] then True
      else case (parsePrefix (cidr_IP a), parsePrefix (cidr_IP b)) of
        (Some p, Some q) \<Rightarrow> Overlaps p q
      | _ \<Rightarrow> cidr_IP a = cidr_IP b)"

section \<open>Routes\<close>

definition routesOverlap :: "Route \<Rightarrow> Route \<Rightarrow> bool" where
  "routesOverlap a b \<longleftrightarrow>
     listsOverlap (protocolsOrDefault (rt_Protocols a)) (protocolsOrDefault (rt_Protocols b)) EqualFold \<and>
     listsOverlap (rt_Methods a) (rt_Methods b) EqualFold \<and>
     listsOverlap (rt_Paths a) (rt_Paths b) (\<lambda>x y. x = y) \<and>
     listsOverlap (rt_Hosts a) (rt_Hosts b) hostsOverlap \<and>
     listsOverlap (rt_SNIs a) (rt_SNIs b) hostsOverlap \<and>
     headersOverlap (rt_Headers a) (rt_Headers b) \<and>
     listsOverlap (rt_Sources a) (rt_Sources b) cidrPortsOverlap \<and>
     listsOverlap (rt_Destinations a) (rt_Destinations b) cidrPortsOverlap"

definition refines :: "Route \<Rightarrow> Route \<Rightarrow> bool" where
  "refines specific general \<longleftrightarrow>
     (rt_Hosts general = [] \<and> rt_Hosts specific \<noteq> [] \<or>
        fcard (fmdom (rt_Headers specific)) > fcard (fmdom (rt_Headers general))) \<and>
     listWithin (protocolsOrDefault (rt_Protocols specific)) (protocolsOrDefault (rt_Protocols general)) EqualFold \<and>
     listWithin (rt_Methods specific) (rt_Methods general) EqualFold \<and>
     listWithin (rt_Paths specific) (rt_Paths general) (\<lambda>x y. x = y) \<and>
     listWithin (rt_Hosts specific) (rt_Hosts general) EqualFold \<and>
     listWithin (rt_SNIs specific) (rt_SNIs general) EqualFold \<and>
     listWithin (rt_Sources specific) (rt_Sources general) sameCIDRPort \<and>
     listWithin (rt_Destinations specific) (rt_Destinations general) sameCIDRPort \<and>
     headersWithin (rt_Headers specific) (rt_Headers general)"

definition routesRefine :: "Route \<Rightarrow> Route \<Rightarrow> bool" where
  "routesRefine a b = (refines a b \<or> refines b a)"

definition VideoLifecycleRouteTag :: string where
  "VideoLifecycleRouteTag = ''aigw:video-lifecycle''"

definition isLifecycle :: "Route \<Rightarrow> bool" where
  "isLifecycle r = (VideoLifecycleRouteTag \<in> set (rt_Tags r))"

definition sharedLifecycleRoutes :: "Route \<Rightarrow> Route \<Rightarrow> bool" where
  "sharedLifecycleRoutes a b =
     (if \<not> isLifecycle a \<or> \<not> isLifecycle b then False
      else a\<lparr>rt_Name := [], rt_Plugins := [], rt_Source := None\<rparr> =
           b\<lparr>rt_Name := [], rt_Plugins := [], rt_Source := None\<rparr>)"

section \<open>The lint\<close>

record routeEntry =
  re_route :: Route
  re_owners :: "ConversionIssueSource list"

definition routeOwners :: "converter \<Rightarrow> Route \<Rightarrow> ConversionIssueSource list" where
  "routeOwners c route =
     (case rt_Source route of
        None \<Rightarrow> []
      | Some s \<Rightarrow>
          (case (if src_EntityType s = kindModel then or_else (fmlookup (cn_modelRouteModels c) (rt_Name route)) [] else []) of
             [] \<Rightarrow> [src_at (issueSource (src_EntityType s) (src_EntityName s)) [src_FieldPrefix s]]
           | models \<Rightarrow> map (\<lambda>m. src_at (issueSource kindModel m) [src_FieldPrefix s]) models))"

definition ownerNames :: "ConversionIssueSource list \<Rightarrow> string" where
  "ownerNames owners = join '', '' (map (\<lambda>o'. is_Kind o' @ '' %q'' @ is_Name o') owners)"

definition route_entry :: "converter \<Rightarrow> Route \<Rightarrow> routeEntry list" where
  "route_entry c route =
     (let owners = routeOwners c route in
      if owners = [] then [] else [\<lparr>re_route = route, re_owners = owners\<rparr>])"

definition routeEntries :: "converter \<Rightarrow> routeEntry list" where
  "routeEntries c =
     concat (map (\<lambda>s. if svc_Enabled s = Some False then [] else concat (map (route_entry c) (svc_Routes s)))
               (doc_Services (cv_out c))) @
     concat (map (route_entry c) (doc_Routes (cv_out c)))"

definition conflicting :: "routeEntry \<Rightarrow> routeEntry \<Rightarrow> bool" where
  "conflicting earlier later \<longleftrightarrow>
     routesOverlap (re_route earlier) (re_route later) \<and>
     \<not> sharedLifecycleRoutes (re_route earlier) (re_route later) \<and>
     \<not> routesRefine (re_route earlier) (re_route later)"

definition conflict_reason :: "routeEntry \<Rightarrow> routeEntry \<Rightarrow> ConversionIssueSource \<Rightarrow> reason" where
  "conflict_reason earlier later owner =
     (''route %q of %s %q can match the same requests as route %q of %s. Kong sends each such request to only one of these routes.'',
      [rt_Name (re_route later), is_Kind owner, is_Name owner, rt_Name (re_route earlier),
       ownerNames (re_owners earlier)])"

definition warn_pair :: "routeEntry \<Rightarrow> routeEntry \<Rightarrow> 'a conv_scheme \<Rightarrow> 'a conv_scheme" where
  "warn_pair later earlier c =
     (if \<not> conflicting earlier later then c
      else fold (\<lambda>owner c.
             if list_ex (sameEntity owner) (re_owners earlier) then c
             else warn owner RoutingConflict (conflict_reason earlier later owner) c) (re_owners later) c)"

fun warn_entries :: "routeEntry list \<Rightarrow> routeEntry list \<Rightarrow> 'a conv_scheme \<Rightarrow> 'a conv_scheme" where
  "warn_entries earlier [] c = c"
| "warn_entries earlier (later # rest) c =
     warn_entries (earlier @ [later]) rest (fold (warn_pair later) earlier c)"

definition warnRoutingConflicts :: "converter \<Rightarrow> converter" where
  "warnRoutingConflicts c = warn_entries [] (routeEntries c) c"

definition lint :: "converter \<Rightarrow> converter" where
  "lint c = warnRoutingConflicts c"

section \<open>Requests\<close>

text \<open>The host of a pattern with at most one wildcard, at its start or at its end.\<close>

definition host_matches :: "string \<Rightarrow> string \<Rightarrow> bool" where
  "host_matches pattern host =
     (let p = ToLower pattern; h = ToLower host in
      if HasPrefix p ''*'' then HasSuffix h (TrimPrefix p ''*'')
      else if HasSuffix p ''*'' then HasPrefix h (TrimSuffix p ''*'')
      else h = p)"

definition host_pattern :: "string \<Rightarrow> bool" where
  "host_pattern p \<longleftrightarrow> \<not> (HasPrefix p ''*'' \<and> HasSuffix p ''*'') \<or> p = ''*''"

text \<open>A request: the header values by lower-case name, the addresses as bits with the port.\<close>

record request =
  rq_protocol :: string
  rq_method :: string
  rq_path :: string
  rq_host :: string
  rq_sni :: string
  rq_headers :: "string \<Rightarrow> string option"
  rq_source :: "bool list \<times> int"
  rq_destination :: "bool list \<times> int"

definition any_match :: "'a list \<Rightarrow> ('a \<Rightarrow> bool) \<Rightarrow> bool" where
  "any_match xs f = (xs = [] \<or> list_ex f xs)"

definition cidr_matches :: "CIDRPort \<Rightarrow> bool list \<times> int \<Rightarrow> bool" where
  "cidr_matches s peer =
     ((case cidr_Port s of None \<Rightarrow> True | Some p \<Rightarrow> snd peer = p) \<and>
      (cidr_IP s = [] \<or>
       (case parsePrefix (cidr_IP s) of None \<Rightarrow> False | Some p \<Rightarrow> prefix_contains p (fst peer))))"

text \<open>\<open>rx\<close> stands for the regex engine of the gateway.\<close>

definition header_value_matches :: "(string \<Rightarrow> string \<Rightarrow> bool) \<Rightarrow> string \<Rightarrow> string \<Rightarrow> bool" where
  "header_value_matches rx v w = (if is_regex_value v then rx v w else EqualFold v w)"

definition headers_match :: "(string \<Rightarrow> string \<Rightarrow> bool) \<Rightarrow> header_map \<Rightarrow> (string \<Rightarrow> string option) \<Rightarrow> bool" where
  "headers_match rx hs sent =
     list_all (\<lambda>(name, vs). case sent (ToLower name) of
          None \<Rightarrow> False | Some w \<Rightarrow> any_match vs (\<lambda>v. header_value_matches rx v w)) (sorted_list_of_fmap hs)"

definition route_matches :: "(string \<Rightarrow> string \<Rightarrow> bool) \<Rightarrow> Route \<Rightarrow> request \<Rightarrow> bool" where
  "route_matches rx r q \<longleftrightarrow>
     any_match (protocolsOrDefault (rt_Protocols r)) (\<lambda>p. EqualFold p (rq_protocol q)) \<and>
     any_match (rt_Methods r) (\<lambda>m. EqualFold m (rq_method q)) \<and>
     any_match (rt_Paths r) (\<lambda>p. p = rq_path q) \<and>
     any_match (rt_Hosts r) (\<lambda>h. host_matches h (rq_host q)) \<and>
     any_match (rt_SNIs r) (\<lambda>h. host_matches h (rq_sni q)) \<and>
     headers_match rx (rt_Headers r) (rq_headers q) \<and>
     any_match (rt_Sources r) (\<lambda>s. cidr_matches s (rq_source q)) \<and>
     any_match (rt_Destinations r) (\<lambda>s. cidr_matches s (rq_destination q))"

subsection \<open>Hosts\<close>

lemma ToLower_append [simp]: "ToLower (a @ b) = ToLower a @ ToLower b"
  by (simp add: ToLower_def)

lemma lower_char_idem [simp]: "lower_char (lower_char c) = lower_char c"
proof (cases "65 \<le> (of_char c :: nat) \<and> (of_char c :: nat) \<le> 90")
  case True
  then have "(of_char (char_of (of_char c + 32 :: nat) :: char) :: nat) = of_char c + 32" by simp
  with True show ?thesis by (simp add: lower_char_def Let_def)
next
  case False
  then have "lower_char c = c" unfolding lower_char_def Let_def by (rule if_not_P)
  then show ?thesis by simp
qed

lemma ToLower_idem [simp]: "ToLower (ToLower s) = ToLower s"
  by (simp add: ToLower_def)

lemma ToLower_parts:
  assumes "ToLower s = a @ b"
  shows "ToLower a = a" "ToLower b = b"
proof -
  have "ToLower a @ ToLower b = a @ b"
    using ToLower_idem [of s] assms by simp
  then show "ToLower a = a" "ToLower b = b" by (simp_all add: ToLower_def)
qed

text \<open>A pattern as a prefix and a suffix, or a text.\<close>

lemma host_pattern_cases:
  assumes "host_pattern p"
  obtains (leading) s where "ToLower p = CHR ''*'' # s" "ToLower s = s" "s = [] \<or> \<not> HasSuffix (CHR ''*'' # s) ''*''"
  | (trailing) s where "ToLower p = s @ ''*''" "ToLower s = s" "s \<noteq> []" "\<not> HasPrefix (s @ ''*'') ''*''"
  | (exact) "\<not> HasPrefix (ToLower p) ''*''" "\<not> HasSuffix (ToLower p) ''*''"
proof -
  have star: "lower_char c = CHR ''*'' \<longleftrightarrow> c = CHR ''*''" for c
    by (auto simp: lower_char_def Let_def dest!: arg_cong [where f = "of_char :: char \<Rightarrow> nat"])
  have pre: "HasPrefix (ToLower p) ''*'' = HasPrefix p ''*''"
    by (cases p) (simp_all add: ToLower_def star)
  have suf: "HasSuffix (ToLower p) ''*'' = HasSuffix p ''*''"
    by (cases p rule: rev_cases) (auto simp: ToLower_def star HasSuffix_iff)
  show ?thesis
  proof (cases "HasPrefix p ''*''")
    case True
    then obtain s where s: "ToLower p = ''*'' @ s" using pre by (auto simp: HasPrefix_iff)
    then have "s = [] \<or> \<not> HasSuffix (CHR ''*'' # s) ''*''"
      using assms True suf by (auto simp: host_pattern_def ToLower_def)
    then show ?thesis using leading s ToLower_parts(2) [OF s] by simp
  next
    case np: False
    show ?thesis
    proof (cases "HasSuffix p ''*''")
      case True
      then obtain s where s: "ToLower p = s @ ''*''" using suf by (auto simp: HasSuffix_iff)
      then show ?thesis using trailing np pre ToLower_parts(1) [OF s] by fastforce
    next
      case False
      then show ?thesis using exact np pre suf by simp
    qed
  qed
qed

lemma suffix_both: "(\<exists>h. HasSuffix h a \<and> HasSuffix h b) \<longleftrightarrow> HasSuffix a b \<or> HasSuffix b a"
  unfolding HasSuffix_iff_suffix by (metis suffix_same_cases suffix_order.refl)

lemma prefix_both: "(\<exists>h. HasPrefix h a \<and> HasPrefix h b) \<longleftrightarrow> HasPrefix a b \<or> HasPrefix b a"
  unfolding HasPrefix_iff_prefix by (metis prefix_same_cases prefix_order.refl)

lemma TrimSuffix_append [simp]: "TrimSuffix (s @ p) p = s" "TrimSuffix p p = []"
  by (simp_all add: TrimSuffix_def HasSuffix_def)

lemma HasSuffix_simps [simp]: "HasSuffix s []" "HasSuffix s s"
  by (simp_all add: HasSuffix_def)

lemma leading_matches: "ToLower p = CHR ''*'' # s \<Longrightarrow> host_matches p h = HasSuffix (ToLower h) s"
  by (simp add: host_matches_def Let_def)

lemma trailing_matches:
  "ToLower p = s @ ''*'' \<Longrightarrow> \<not> HasPrefix (s @ ''*'') ''*'' \<Longrightarrow> host_matches p h = HasPrefix (ToLower h) s"
  by (simp add: host_matches_def Let_def)

lemma exact_matches:
  "\<not> HasPrefix (ToLower p) ''*'' \<Longrightarrow> \<not> HasSuffix (ToLower p) ''*'' \<Longrightarrow> host_matches p h = (ToLower h = ToLower p)"
  by (simp add: host_matches_def Let_def)

lemma lower_ex: "ToLower h = h \<Longrightarrow> P h \<Longrightarrow> \<exists>h. P (ToLower h)"
  by (rule exI [of _ h]) simp

lemma lower_suffixes:
  assumes "ToLower s = s" "ToLower t = t"
  shows "(\<exists>h. HasSuffix (ToLower h) s \<and> HasSuffix (ToLower h) t) \<longleftrightarrow> HasSuffix s t \<or> HasSuffix t s"
    and "(\<exists>h. HasPrefix (ToLower h) s \<and> HasPrefix (ToLower h) t) \<longleftrightarrow> HasPrefix s t \<or> HasPrefix t s"
    and "\<exists>h. HasPrefix (ToLower h) s \<and> HasSuffix (ToLower h) t"
proof -
  show "(\<exists>h. HasSuffix (ToLower h) s \<and> HasSuffix (ToLower h) t) \<longleftrightarrow> HasSuffix s t \<or> HasSuffix t s"
    using assms suffix_both [of s t] by (metis HasSuffix_simps(2))
  show "(\<exists>h. HasPrefix (ToLower h) s \<and> HasPrefix (ToLower h) t) \<longleftrightarrow> HasPrefix s t \<or> HasPrefix t s"
    using assms prefix_both [of s t] by (metis HasPrefix_append append_Nil2)
  show "\<exists>h. HasPrefix (ToLower h) s \<and> HasSuffix (ToLower h) t"
    by (rule exI [of _ "s @ t"]) (simp add: assms)
qed

lemma hosts_overlap:
  assumes "host_pattern a" and "host_pattern b"
  shows "hostsOverlap a b \<longleftrightarrow> (\<exists>h. host_matches a h \<and> host_matches b h)"
  using assms(1)
proof (cases rule: host_pattern_cases)
  case a: (leading s)
  from assms(2) show ?thesis
  proof (cases rule: host_pattern_cases)
    case b: (leading t)
    then show ?thesis using a lower_suffixes(1) [of s t]
      by (simp add: hostsOverlap_def Let_def leading_matches)
  next
    case b: (trailing t)
    then show ?thesis using a lower_suffixes(3) [of t s]
      by (auto simp: hostsOverlap_def Let_def leading_matches trailing_matches conj_commute)
  next
    case b: exact
    then show ?thesis using a
      by (auto simp: hostsOverlap_def Let_def leading_matches exact_matches intro: exI [of _ b])
  qed
next
  case a: (trailing s)
  from assms(2) show ?thesis
  proof (cases rule: host_pattern_cases)
    case b: (leading t)
    then show ?thesis using a lower_suffixes(3) [of s t]
      by (auto simp: hostsOverlap_def Let_def leading_matches trailing_matches)
  next
    case b: (trailing t)
    then show ?thesis using a lower_suffixes(2) [of s t]
      by (simp add: hostsOverlap_def Let_def trailing_matches)
  next
    case b: exact
    then show ?thesis using a
      by (auto simp: hostsOverlap_def Let_def trailing_matches exact_matches intro: exI [of _ b])
  qed
next
  case a: exact
  from assms(2) show ?thesis
  proof (cases rule: host_pattern_cases)
    case b: (leading t)
    then show ?thesis using a
      by (auto simp: hostsOverlap_def Let_def leading_matches exact_matches intro: exI [of _ a])
  next
    case b: (trailing t)
    then show ?thesis using a
      by (auto simp: hostsOverlap_def Let_def trailing_matches exact_matches intro: exI [of _ a])
  next
    case b: exact
    then show ?thesis using a
      by (auto simp: hostsOverlap_def Let_def exact_matches intro: exI [of _ a])
  qed
qed

text \<open>C32: The host check is exact: two host patterns with at most one wildcard each, at the start or
  the end, overlap exactly when some host name matches both.\<close>

theorem hosts_overlap_exact:
  assumes "host_pattern a" and "host_pattern b"
  shows "hostsOverlap a b \<longleftrightarrow> (\<exists>h. host_matches a h \<and> host_matches b h)"
  by (rule hosts_overlap [OF assms])

theorem hosts_overlap_exact_witness:
  "hostsOverlap ''*.Example.com'' ''api.*'' \<and>
   (\<exists>h. host_matches ''*.Example.com'' h \<and> host_matches ''api.*'' h)"
proof -
  have "host_pattern ''*.Example.com''" "host_pattern ''api.*''" by code_simp+
  from hosts_overlap_exact [OF this] show ?thesis by (simp add: hostsOverlap_def HasSuffix_def HasPrefix_def ToLower_def lower_char_def)
qed

subsection \<open>Overlap finds every conflict\<close>

lemma overlap_complete:
  "any_match a f \<Longrightarrow> any_match b g \<Longrightarrow>
   (\<And>x y. x \<in> set a \<Longrightarrow> y \<in> set b \<Longrightarrow> f x \<Longrightarrow> g y \<Longrightarrow> ov x y) \<Longrightarrow> listsOverlap a b ov"
  by (auto simp: any_match_def listsOverlap_def list_ex_iff)

definition plain_headers :: "Route \<Rightarrow> bool" where
  "plain_headers r = list_all (\<lambda>(_, vs). list_all (\<lambda>v. \<not> is_regex_value v) vs) (sorted_list_of_fmap (rt_Headers r))"

definition plain_hosts :: "Route \<Rightarrow> bool" where
  "plain_hosts r = list_all host_pattern (rt_Hosts r @ rt_SNIs r)"

lemma headers_overlap_complete:
  assumes a: "headers_match rx (rt_Headers a) sent" and b: "headers_match rx (rt_Headers b) sent"
    and pa: "plain_headers a" and pb: "plain_headers b"
  shows "headersOverlap (rt_Headers a) (rt_Headers b)"
proof -
  have "listsOverlap va vb headerValuesOverlap"
    if na: "(na, va) \<in> set (sorted_list_of_fmap (rt_Headers a))"
      and nb: "(nb, vb) \<in> set (sorted_list_of_fmap (rt_Headers b))" and eq: "EqualFold na nb" for na va nb vb
  proof -
    obtain w where w: "sent (ToLower na) = Some w" "any_match va (\<lambda>v. header_value_matches rx v w)"
      "any_match vb (\<lambda>v. header_value_matches rx v w)"
      using a b na nb eq by (fastforce simp: headers_match_def list_all_iff EqualFold_def split: option.splits)
    show ?thesis
    proof (rule overlap_complete [OF w(2,3)])
      fix x y assume "x \<in> set va" "y \<in> set vb" and m: "header_value_matches rx x w" "header_value_matches rx y w"
      then have "\<not> is_regex_value x" "\<not> is_regex_value y"
        using pa pb na nb by (fastforce simp: plain_headers_def list_all_iff)+
      then show "headerValuesOverlap x y"
        using m by (simp add: headerValuesOverlap_def header_value_matches_def EqualFold_def)
    qed
  qed
  then show ?thesis by (force simp: headersOverlap_def list_all_iff)
qed

lemma PrefixFrom_wf: "px_len (PrefixFrom a (BitLen a)) \<le> length (px_addr (PrefixFrom a (BitLen a)))"
  by (simp add: PrefixFrom_def BitLen_def)

lemma parsePrefix_wf: "parsePrefix s = Some p \<Longrightarrow> px_len p \<le> length (px_addr p)"
  using PrefixFrom_wf by (auto simp: parsePrefix_def split: if_splits dest: ParsePrefix_wf)

lemma cidr_overlap_complete: "cidr_matches a peer \<Longrightarrow> cidr_matches b peer \<Longrightarrow> cidrPortsOverlap a b"
  using overlaps_exact parsePrefix_wf
  by (fastforce simp: cidr_matches_def cidrPortsOverlap_def split: option.splits if_splits)


subsection \<open>Refinement is inclusion\<close>

lemma within_sound:
  "listWithin a b equal \<Longrightarrow> any_match a f \<Longrightarrow> (\<And>x y. equal x y \<Longrightarrow> f x \<Longrightarrow> f y) \<Longrightarrow> any_match b f"
  by (fastforce simp: listWithin_def any_match_def list_ex_iff list_all_iff split: if_splits)

lemma headers_within_sound:
  assumes w: "headersWithin a b" and m: "headers_match rx a sent"
  shows "headers_match rx b sent"
  unfolding headers_match_def list_all_iff
proof (clarify)
  fix nb vb assume nb: "(nb, vb) \<in> set (sorted_list_of_fmap b)"
  with w obtain na va where f: "find (\<lambda>(nameA, _). EqualFold nameA nb) (sorted_list_of_fmap a) = Some (na, va)"
    and l: "listWithin va vb headerValuesOverlap"
    by (force simp: headersWithin_def list_all_iff split: option.splits)
  then have na: "(na, va) \<in> set (sorted_list_of_fmap a)" "EqualFold na nb"
    using find_in_set [OF f] by auto
  then obtain v where v: "sent (ToLower nb) = Some v" "any_match va (\<lambda>x. header_value_matches rx x v)"
    using m by (fastforce simp: headers_match_def list_all_iff EqualFold_def split: option.splits)
  have "any_match vb (\<lambda>x. header_value_matches rx x v)"
    by (rule within_sound [OF l v(2)])
      (auto simp: headerValuesOverlap_def header_value_matches_def EqualFold_def split: if_splits)
  with v(1) show "case sent (ToLower nb) of None \<Rightarrow> False
      | Some w \<Rightarrow> any_match vb (\<lambda>v. header_value_matches rx v w)" by simp
qed

text \<open>C33: Refinement is sound: a route that refines another accepts only requests that the other
  accepts too, whatever its header regexes mean; so leaving the pair out of the warnings hides no
  request that belongs to the refining route alone.\<close>

theorem routes_refine_sound:
  assumes "refines s g" and "route_matches rx s q"
  shows "route_matches rx g q"
proof -
  note r = assms(1) [unfolded refines_def] and m = assms(2) [unfolded route_matches_def]
  have host: "EqualFold x y \<Longrightarrow> host_matches x h \<Longrightarrow> host_matches y h" for x y h
    by (simp add: EqualFold_def host_matches_def)
  have cidr: "sameCIDRPort x y \<Longrightarrow> cidr_matches x p \<Longrightarrow> cidr_matches y p" for x y p
    by (simp add: sameCIDRPort_def cidr_matches_def)
  have fold: "EqualFold x y \<Longrightarrow> EqualFold x w \<Longrightarrow> EqualFold y w" for x y w
    by (simp add: EqualFold_def)
  show ?thesis
    unfolding route_matches_def
    using r m host cidr fold headers_within_sound
    by (intro conjI) (blast intro: within_sound headers_within_sound)+
qed

lemma no_headers [simp]: "sorted_list_of_fmap fmempty = []"
  by (simp add: sorted_list_of_fmap_def sorted_list_of_fset.rep_eq)

definition sample_route :: "string \<Rightarrow> string list \<Rightarrow> Route" where
  "sample_route name hosts = route_of (empty_route\<lparr>rt_Paths := [''/chat''], rt_Hosts := hosts\<rparr>) name"

definition sample_request :: request where
  "sample_request = \<lparr>rq_protocol = ''https'', rq_method = ''POST'', rq_path = ''/chat'', rq_host = ''api.x'',
     rq_sni = [], rq_headers = (\<lambda>_. None), rq_source = ([], 0), rq_destination = ([], 0)\<rparr>"

lemma sample_route_matches: "hosts = [] \<or> list_ex (\<lambda>h. host_matches h ''api.x'') hosts \<Longrightarrow>
    route_matches rx (sample_route n hosts) sample_request"
  by (auto simp: route_matches_def sample_route_def sample_request_def route_of_def empty_route_def any_match_def
      protocolsOrDefault_def defaultRouteProtocols_def headers_match_def)


theorem routes_refine_sound_witness:
  "route_matches (\<lambda>_ _. False) (sample_route ''b'' []) sample_request"
proof (rule routes_refine_sound)
  show "refines (sample_route ''a'' [''api.x'']) (sample_route ''b'' [])"
    by (simp add: refines_def sample_route_def route_of_def empty_route_def listWithin_def headersWithin_def
        protocolsOrDefault_def defaultRouteProtocols_def)
  show "route_matches (\<lambda>_ _. False) (sample_route ''a'' [''api.x'']) sample_request"
    by (rule sample_route_matches) code_simp
qed

section \<open>The warnings\<close>

definition conflict_issue :: "routeEntry \<Rightarrow> routeEntry \<Rightarrow> ConversionIssueSource \<Rightarrow> ConversionIssue" where
  "conflict_issue earlier later owner =
     \<lparr>iss_Code = RoutingConflict, iss_Reason = conflict_reason earlier later owner, iss_Source = owner,
      iss_Severity = Warning\<rparr>"

definition pair_issues :: "routeEntry \<Rightarrow> routeEntry \<Rightarrow> ConversionIssue set" where
  "pair_issues earlier later =
     (if conflicting earlier later
      then conflict_issue earlier later ` {o' \<in> set (re_owners later). \<not> list_ex (sameEntity o') (re_owners earlier)}
      else {})"

lemma set_warn: "set (cv_issues (warn src code r c)) =
    insert \<lparr>iss_Code = code, iss_Reason = r, iss_Source = src, iss_Severity = Warning\<rparr> (set (cv_issues c))"
  by (auto simp: warn_def report_def Let_def)

lemma warn_pair_issues: "set (cv_issues (warn_pair later earlier c)) = set (cv_issues c) \<union> pair_issues earlier later"
proof -
  have "set (cv_issues (fold (\<lambda>owner c. if list_ex (sameEntity owner) (re_owners earlier) then c
          else warn owner RoutingConflict (conflict_reason earlier later owner) c) os c)) =
      set (cv_issues c) \<union> conflict_issue earlier later ` {o' \<in> set os. \<not> list_ex (sameEntity o') (re_owners earlier)}" for os
    by (induction os arbitrary: c) (auto simp: set_warn conflict_issue_def)
  then show ?thesis by (simp add: warn_pair_def pair_issues_def)
qed

lemma warn_pair_env: "only_issues c (warn_pair later earlier c)"
proof -
  have "only_issues c (fold (\<lambda>owner c. if list_ex (sameEntity owner) (re_owners earlier) then c
          else warn owner RoutingConflict (conflict_reason earlier later owner) c) os c)" for os
    by (induction os arbitrary: c) (auto intro: only_issues_trans [OF only_issues_warn(1)])
  then show ?thesis by (simp add: warn_pair_def)
qed

lemma warn_pairs:
  "set (cv_issues (fold (warn_pair later) es c)) = set (cv_issues c) \<union> (\<Union>e \<in> set es. pair_issues e later) \<and>
   only_issues c (fold (warn_pair later) es c)"
  by (induction es arbitrary: c) (auto simp: warn_pair_issues intro: only_issues_trans [OF warn_pair_env])

definition later_pairs :: "routeEntry list \<Rightarrow> routeEntry list \<Rightarrow> (routeEntry \<times> routeEntry) set" where
  "later_pairs before es =
     {(e, l). \<exists>j < length es. es ! j = l \<and> (e \<in> set before \<or> (\<exists>i < j. es ! i = e))}"

lemma later_pairs_Cons: "later_pairs before (l # es) = (\<lambda>e. (e, l)) ` set before \<union> later_pairs (before @ [l]) es"
proof (rule set_eqI, clarify)
  fix e x
  have "(e, x) \<in> later_pairs before (l # es) \<longleftrightarrow>
      (l = x \<and> e \<in> set before) \<or>
      (\<exists>j < length es. es ! j = x \<and> (e \<in> set before \<or> e = l \<or> (\<exists>i < j. es ! i = e)))"
    unfolding later_pairs_def by (simp add: Ex_less_Suc2) blast
  then show "(e, x) \<in> later_pairs before (l # es) \<longleftrightarrow>
      (e, x) \<in> (\<lambda>e. (e, l)) ` set before \<union> later_pairs (before @ [l]) es"
    by (auto simp: later_pairs_def)
qed

lemma warn_entries_issues:
  "set (cv_issues (warn_entries before es c)) =
     set (cv_issues c) \<union> (\<Union>(e, l) \<in> later_pairs before es. pair_issues e l) \<and>
   only_issues c (warn_entries before es c)"
proof (induction before es c rule: warn_entries.induct)
  case (1 before c)
  then show ?case by (simp add: later_pairs_def)
next
  case (2 before l es c)
  then show ?case
    using warn_pairs [of l before c] by (auto simp: later_pairs_Cons intro: only_issues_trans)
qed

text \<open>C34: The lint adds exactly one warning per conflicting pair of routes, earlier and later in the
  document, and owner of the later one that does not own the earlier one; a route of a disabled service
  or without a source takes no part; and nothing but the issues changes.\<close>

theorem lint_warnings_exact:
  "only_issues c (lint c) \<and>
   set (cv_issues (lint c)) = set (cv_issues c) \<union>
     {conflict_issue (routeEntries c ! i) (routeEntries c ! j) owner | i j owner.
        i < j \<and> j < length (routeEntries c) \<and> conflicting (routeEntries c ! i) (routeEntries c ! j) \<and>
        owner \<in> set (re_owners (routeEntries c ! j)) \<and>
        \<not> list_ex (sameEntity owner) (re_owners (routeEntries c ! i))}"
proof -
  have "(\<Union>(e, l) \<in> later_pairs [] es. pair_issues e l) =
     {conflict_issue (es ! i) (es ! j) owner | i j owner. i < j \<and> j < length es \<and> conflicting (es ! i) (es ! j) \<and>
        owner \<in> set (re_owners (es ! j)) \<and> \<not> list_ex (sameEntity owner) (re_owners (es ! i))}" for es
    by (force simp: later_pairs_def pair_issues_def split: if_splits)
  then show ?thesis
    using warn_entries_issues [of "[]" "routeEntries c" c] by (simp add: lint_def warnRoutingConflicts_def)
qed

end
