(* ===== verification/Auth_Strategies.thy ===== *)
theory Auth_Strategies
  imports Policies Config_Values Go_Url Routes
begin

text \<open>
  Auth strategies (\<open>src/convert/authstrategy.go\<close>): the authentication plugins of an entity, the
  anonymous consumer they fall back to, and the routes of the Token Vault that a strategy with a
  token-vault datastore adds (with \<open>ensureTokenVaultCallbackRoute\<close> of \<open>mcp.go\<close>).

  A function that may fail returns the state and its outcome: \<open>Done\<close> for nil, \<open>SkipEntity\<close> when an
  error issue was recorded, \<open>Panic\<close> for an index out of range or a nil pointer.
\<close>

abbreviation (input) authStrategyTypeOpenIDConnect :: string where
  "authStrategyTypeOpenIDConnect \<equiv> ''openid-connect''"
abbreviation (input) enableCredentialManagerKey :: string where
  "enableCredentialManagerKey \<equiv> ''enable_credential_manager''"
abbreviation (input) defaultUpstreamAccessTokenHeader :: string where
  "defaultUpstreamAccessTokenHeader \<equiv> ''authorization:bearer''"
abbreviation (input) anonymousConsumerName :: string where
  "anonymousConsumerName \<equiv> ''anonymous''"
abbreviation (input) TokenVaultCallbackName :: string where
  "TokenVaultCallbackName \<equiv> ''token-vault-callback-handler''"
abbreviation (input) TokenVaultCallbackInitiateName :: string where
  "TokenVaultCallbackInitiateName \<equiv> ''token-vault-callback-handler-initiate''"
abbreviation (input) TokenVaultCallbackPath :: string where
  "TokenVaultCallbackPath \<equiv> ''/_vault''"
abbreviation (input) TokenVaultCallbackInitiatePath :: string where
  "TokenVaultCallbackInitiatePath \<equiv> ''/_vault/callback/initiate''"
abbreviation (input) TokenVaultCredentialManagerName :: string where
  "TokenVaultCredentialManagerName \<equiv> ''token-vault-credential-manager''"
abbreviation (input) TokenVaultCredentialManagerPath :: string where
  "TokenVaultCredentialManagerPath \<equiv> ''/vuc''"
abbreviation (input) managerAnonymousConsumerName :: string where
  "managerAnonymousConsumerName \<equiv> ''token-vault-credential-manager-anonymous''"
abbreviation (input) tokenVaultExchangePlugin :: string where
  "tokenVaultExchangePlugin \<equiv> ''token-vault-exchange''"
abbreviation (input) UpstreamAuthProviderTokenVault :: string where
  "UpstreamAuthProviderTokenVault \<equiv> ''token-vault''"

definition http_protocols :: "string list" where
  "http_protocols = [''http'', ''https'']"

section \<open>The plugins of an entity\<close>

definition keyAuthPrincipalsEnabled :: "ymap \<Rightarrow> bool" where
  "keyAuthPrincipalsEnabled cfg =
     (case as_map (fmlookup cfg ''principals'') of
        None \<Rightarrow> False
      | Some principals \<Rightarrow> as_bool (fmlookup principals ''enabled'') = Some True)"

definition forceKeyAuthIdentityRealms :: "ymap \<Rightarrow> ymap" where
  "forceKeyAuthIdentityRealms cfg =
     (if keyAuthPrincipalsEnabled cfg then fmupd ''identity_realms'' (YList []) cfg else cfg)"

definition authStrategyPlugin :: "AuthStrategy \<Rightarrow> Plugin" where
  "authStrategyPlugin idp =
     (let cfg = fmupd ''anonymous'' (YStr anonymousConsumerName) (ast_Config idp);
          cfg = (if ast_Type idp = ''key-auth'' then forceKeyAuthIdentityRealms cfg else cfg)
      in empty_plugin\<lparr>pl_Name := ast_Type idp, pl_Config := cfg,
           pl_Source := source ''identity_provider'' (ast_Name idp) ''config'' []\<rparr>)"

definition hideOIDCAccessToken :: "ymap \<Rightarrow> ymap" where
  "hideOIDCAccessToken cfg =
     (if fmlookup cfg ''upstream_access_token_header'' \<noteq> None then cfg
      else if as_bool (fmlookup cfg ''hide_credentials'') = Some False then cfg
      else fmupd ''upstream_access_token_header'' YNull cfg)"

definition withoutAnonymousFallback :: "Plugin \<Rightarrow> Plugin" where
  "withoutAnonymousFallback p = p\<lparr>pl_Config := fmdrop ''anonymous'' (pl_Config p)\<rparr>"

definition checkAuthStrategyType ::
  "ConversionIssueSource \<Rightarrow> string \<Rightarrow> AuthStrategy \<Rightarrow> converter step"
where
  "checkAuthStrategyType src field idp c =
     (if ast_Type idp \<in> set authPolicyTypes then (c, Done)
      else fail (src_at src [field]) ConfigFieldInvalid
        (''auth strategy %q has type %q, but the type must be key-auth or openid-connect'',
         [ast_Name idp, ast_Type idp]) c)"

definition warnAuthStrategyOverrides :: "AuthStrategy \<Rightarrow> converter \<Rightarrow> converter" where
  "warnAuthStrategyOverrides idp c =
     (let src = issueSource kindAuthStrategy (ast_Name idp);
          v = fmlookup (ast_Config idp) ''anonymous'';
          c = (if \<not> isEmptyConfigValue v \<and> v \<noteq> Some (YStr []) \<and> v \<noteq> Some (YStr anonymousConsumerName)
               then warn (src_at src [''config.anonymous'']) ConfigFieldOverridden
                 (''auth strategy %q sets config.anonymous to %v. This will be ignored. Where an entity has more than one auth strategy, or on an agent or MCP server, anonymous will be overridden to %q, which a request-termination plugin rejects. On a model route with one auth strategy, anonymous will be removed, so the auth plugin rejects unauthenticated requests itself.'',
                  [ast_Name idp, show_value (or_else v YNull), anonymousConsumerName]) c
               else c)
      in if ast_Type idp = ''key-auth'' \<and> keyAuthPrincipalsEnabled (ast_Config idp) \<and>
            \<not> isEmptyConfigValue (fmlookup (ast_Config idp) ''identity_realms'')
         then warn (src_at src [''config.identity_realms'']) ConfigFieldOverridden
           (''auth strategy %q enables config.principals and sets config.identity_realms. This will be ignored, and identity_realms will be overridden to [] because the key-auth schema requires it when principals is enabled.'', [ast_Name idp]) c
         else c)"

section \<open>Consumers to fall back to\<close>

definition requestTerminationPlugin :: Plugin where
  "requestTerminationPlugin = empty_plugin\<lparr>pl_Name := ''request-termination'', pl_Enabled := Some True,
     pl_Config := fmap_of_list [(''status_code'', YInt 401), (''message'', YStr ''Unauthorized'')]\<rparr>"

definition withPlugin :: "Plugin list \<Rightarrow> Plugin \<Rightarrow> Plugin list \<times> bool" where
  "withPlugin plugins p =
     (case find (\<lambda>(i, q). pl_Name q = pl_Name p) (enumerate 0 plugins) of
        Some (i, q) \<Rightarrow> if q = p then (plugins, False) else (plugins[i := p], True)
      | None \<Rightarrow> (plugins @ [p], True))"

definition is_named_consumer :: "string \<Rightarrow> Consumer \<Rightarrow> bool" where
  "is_named_consumer name co = (co_Username co = name \<or> co_CustomID co = name)"

definition ensureAnonymousConsumer :: "converter \<Rightarrow> converter" where
  "ensureAnonymousConsumer c =
     (let consumers = doc_Consumers (cv_out c);
          updated = map (\<lambda>co. if is_named_consumer anonymousConsumerName co
                              then co\<lparr>co_Plugins := fst (withPlugin (co_Plugins co) requestTerminationPlugin)\<rparr>
                              else co) consumers;
          provided = list_ex (is_named_consumer anonymousConsumerName) consumers
      in c\<lparr>cv_out := (cv_out c)\<lparr>doc_Consumers :=
           (if provided then updated
            else updated @ [\<lparr>co_ID = [], co_Username = anonymousConsumerName, co_CustomID = anonymousConsumerName,
                   co_Groups = [], co_KeyAuthCredentials = [], co_Plugins = [requestTerminationPlugin],
                   co_Tags = []\<rparr>])\<rparr>\<rparr>)"

definition ensureManagerAnonymousConsumer :: "converter \<Rightarrow> converter" where
  "ensureManagerAnonymousConsumer c =
     (if list_ex (is_named_consumer managerAnonymousConsumerName) (doc_Consumers (cv_out c)) then c
      else c\<lparr>cv_out := (cv_out c)\<lparr>doc_Consumers := doc_Consumers (cv_out c) @
             [\<lparr>co_ID = [], co_Username = managerAnonymousConsumerName,
               co_CustomID = managerAnonymousConsumerName, co_Groups = [], co_KeyAuthCredentials = [],
               co_Plugins = [], co_Tags = []\<rparr>]\<rparr>\<rparr>)"

section \<open>openid-connect configs of the Token Vault routes\<close>

text \<open>The builder \<open>tvOIDC\<close>: the config under construction beside the converter.\<close>

type_synonym tv = "ymap \<times> converter"

definition tv_report ::
  "ConversionIssueSource \<Rightarrow> AuthStrategy \<Rightarrow> ConversionIssueCode \<Rightarrow> string \<Rightarrow> reason \<Rightarrow> converter \<Rightarrow> converter"
where
  "tv_report src idp code field r c =
     (if cn_tvOIDCSilent c then c
      else let key = ast_Name idp @ [char_of (0::nat)] @ field in
        if key \<in> set (cn_tvOIDCWarned c) then c
        else warn (src_at src [''config.'' @ field]) code r (c\<lparr>cn_tvOIDCWarned := key # cn_tvOIDCWarned c\<rparr>))"

definition tv_remove1 :: "ConversionIssueSource \<Rightarrow> AuthStrategy \<Rightarrow> string \<Rightarrow> tv \<Rightarrow> tv" where
  "tv_remove1 src idp field b =
     (let (cfg, c) = b;
          c = (if isEmptyConfigValue (fmlookup cfg field) then c
               else tv_report src idp ConfigFieldIgnored field
                 ((if field = ''redirect_uri''
                   then ''auth strategy %q sets config.%s. The Token Vault enrollment routes leave it out. The authorization server must recognize the enrollment route URL (gateway-hosted /_vault/callback/initiate).''
                   else ''auth strategy %q sets config.%s. The Token Vault enrollment routes leave it out, because the enrollment flow needs the default value.''),
                  [ast_Name idp, field]) c)
      in (fmdrop field cfg, c))"

definition tv_remove :: "ConversionIssueSource \<Rightarrow> AuthStrategy \<Rightarrow> string list \<Rightarrow> tv \<Rightarrow> tv" where
  "tv_remove src idp fs b = fold (tv_remove1 src idp) fs b"

definition tv_set :: "ConversionIssueSource \<Rightarrow> AuthStrategy \<Rightarrow> string \<Rightarrow> yval \<Rightarrow> tv \<Rightarrow> tv" where
  "tv_set src idp field value b =
     (let (cfg, c) = b; old = fmlookup cfg field;
          c = (if \<not> isEmptyConfigValue old \<and> old \<noteq> Some value
               then tv_report src idp ConfigFieldOverridden field
                 (''auth strategy %q sets config.%s to %v. The Token Vault enrollment routes use %v, because the browser flow needs that value.'',
                  [ast_Name idp, field, show_value (or_else old YNull), show_value value]) c
               else c)
      in (fmupd field value cfg, c))"

definition tv_forceAuthMethods ::
  "ConversionIssueSource \<Rightarrow> AuthStrategy \<Rightarrow> string \<Rightarrow> string list \<Rightarrow> tv \<Rightarrow> tv"
where
  "tv_forceAuthMethods src idp why methods b =
     (let (cfg, c) = b; old = configStrings cfg ''auth_methods'';
          c = (if old \<noteq> [] \<and> old \<noteq> methods
               then tv_report src idp ConfigFieldOverridden ''auth_methods''
                 (''auth strategy %q sets config.auth_methods to %v. '' @ why,
                  [ast_Name idp, show_value (YStrs old)]) c
               else c)
      in (fmupd ''auth_methods'' (YList (map YStr methods)) cfg, c))"

definition applyTokenEndpointAuthMethod :: "ymap \<Rightarrow> ymap" where
  "applyTokenEndpointAuthMethod cfg =
     (if \<not> isEmptyConfigValue (fmlookup cfg ''token_endpoint_auth_method'') \<or>
         \<not> isEmptyConfigValue (fmlookup cfg ''client_secret'') then cfg
      else fmupd ''token_endpoint_auth_method'' (YStr ''none'') cfg)"

definition tvManagerOIDCRemovedFields :: "string list" where
  "tvManagerOIDCRemovedFields =
     [''authorization_cookie_same_site'', ''authorization_cookie_samesite'', ''login_redirect_uri'',
      ''session_cookie_path'', ''session_cookie_same_site'', ''session_cookie_samesite'']"

definition tvEnrollmentOIDCRemovedFields :: "string list" where
  "tvEnrollmentOIDCRemovedFields = tvManagerOIDCRemovedFields @ [''anonymous'', ''redirect_uri'']"

definition tvManagerOIDCConfig :: "ConversionIssueSource \<Rightarrow> AuthStrategy \<Rightarrow> converter \<Rightarrow> tv" where
  "tvManagerOIDCConfig src idp c =
     (let b = (ast_Config idp, c);
          b = tv_remove src idp tvManagerOIDCRemovedFields b;
          b = apfst (fmdrop ''redirect_uri'') b;
          b = tv_set src idp ''hide_credentials'' (YBool False) b;
          b = tv_set src idp ''upstream_access_token_header'' (YStr defaultUpstreamAccessTokenHeader) b;
          b = tv_set src idp ''anonymous'' (YStr managerAnonymousConsumerName) b;
          b = tv_set src idp ''logout_query_arg'' (YStr ''logout'') b;
          b = tv_forceAuthMethods src idp
                ''The credential manager page route uses [session], because an anonymous caller must reach the plugin login page.''
                [''session''] b
      in apfst applyTokenEndpointAuthMethod b)"

record managerRedirectTargetData =
  mrt_cookiePath :: string
  mrt_loginRedirectURI :: string

definition managerRedirectTarget :: "yval option \<Rightarrow> string \<Rightarrow> managerRedirectTargetData option" where
  "managerRedirectTarget redirect strategyName =
     (let uri = firstConfigString (case redirect of None \<Rightarrow> fmempty | Some v \<Rightarrow> fmap_of_list [(''redirect_uri'', v)])
                  ''redirect_uri'' in
      if uri = [] then None
      else case url_Parse uri of
        None \<Rightarrow> None
      | Some u \<Rightarrow>
          if u_Host u = [] then None
          else Some \<lparr>mrt_cookiePath = (if u_Path u = [] then ''/'' else u_Path u),
                     mrt_loginRedirectURI = u_Scheme u @ ''://'' @ u_Host u @ TokenVaultCredentialManagerPath @
                       ''/'' @ strategyName\<rparr>)"

definition managerAuthorizationCookiePath :: "ymap \<Rightarrow> AuthStrategy \<Rightarrow> string" where
  "managerAuthorizationCookiePath cfg idp =
     (case managerRedirectTarget (fmlookup cfg ''redirect_uri'') (ast_Name idp) of
        Some target \<Rightarrow> mrt_cookiePath target
      | None \<Rightarrow> TokenVaultCredentialManagerPath @ ''/'' @ ast_Name idp)"

definition tvManagerLoginOIDCConfig :: "ConversionIssueSource \<Rightarrow> AuthStrategy \<Rightarrow> converter \<Rightarrow> tv" where
  "tvManagerLoginOIDCConfig src idp c =
     (let b = (ast_Config idp, c);
          b = tv_remove src idp tvManagerOIDCRemovedFields b;
          b = tv_remove src idp [''anonymous''] b;
          b = tv_set src idp ''hide_credentials'' (YBool False) b;
          b = tv_set src idp ''upstream_access_token_header'' (YStr defaultUpstreamAccessTokenHeader) b;
          b = tv_forceAuthMethods src idp
                ''The credential manager login route uses [session, authorization_code], because the route starts the browser login.''
                [''session'', ''authorization_code''] b;
          b = apfst applyTokenEndpointAuthMethod b;
          redirect = fmlookup (fst b) ''redirect_uri'';
          b = (if \<not> isEmptyConfigValue redirect \<and> managerRedirectTarget redirect (ast_Name idp) = None
               then apfst (fmdrop ''redirect_uri'')
                 (apsnd (tv_report src idp ConfigFieldIgnored ''redirect_uri''
                    (''auth strategy %q sets config.redirect_uri without a scheme and host. The credential manager login route leaves it out. The plugin gets the redirect URI from the request.'',
                     [ast_Name idp])) b)
               else b);
          b = tv_set src idp ''authorization_cookie_path'' (YStr (managerAuthorizationCookiePath (fst b) idp)) b;
          b = (case managerRedirectTarget (fmlookup (fst b) ''redirect_uri'') (ast_Name idp) of
                 None \<Rightarrow> b
               | Some target \<Rightarrow>
                   tv_set src idp ''login_tokens'' (YList [])
                     (tv_set src idp ''login_methods'' (YList [YStr ''session'', YStr ''authorization_code''])
                       (tv_set src idp ''login_redirect_uri'' (YList [YStr (mrt_loginRedirectURI target)])
                         (tv_set src idp ''login_action'' (YStr ''redirect'') b))))
      in if as_str (fmlookup (fst b) ''token_endpoint_auth_method'') = Some ''none''
         then tv_set src idp ''require_proof_key_for_code_exchange'' (YBool True) b else b)"

definition tvEnrollmentOIDCConfig :: "ConversionIssueSource \<Rightarrow> AuthStrategy \<Rightarrow> converter \<Rightarrow> tv" where
  "tvEnrollmentOIDCConfig src idp c =
     (let b = (ast_Config idp, c);
          b = tv_remove src idp tvEnrollmentOIDCRemovedFields b;
          b = tv_set src idp ''hide_credentials'' (YBool False) b;
          b = tv_set src idp ''upstream_access_token_header'' (YStr defaultUpstreamAccessTokenHeader) b;
          b = tv_set src idp ''preserve_query_args'' (YBool True) b;
          b = tv_set src idp ''authorization_cookie_path'' (YStr TokenVaultCallbackInitiatePath) b;
          b = tv_set src idp ''login_action'' (YStr ''redirect'') b;
          b = tv_set src idp ''login_methods'' (YList [YStr ''authorization_code'']) b;
          b = tv_set src idp ''login_tokens'' (YList []) b;
          b = apfst applyTokenEndpointAuthMethod b
      in tv_forceAuthMethods src idp
           ''The enrollment start route uses [session, authorization_code], because the route starts the browser login.''
           [''session'', ''authorization_code''] b)"

section \<open>Routes of the Token Vault\<close>

text \<open>The first callback route decides: equal connection or failure.  A callback route without plugin
  would panic; only the converter makes one.\<close>

definition ensureTokenVaultCallbackRoute ::
  "ConversionIssueSource \<Rightarrow> string \<Rightarrow> string list \<Rightarrow> Datastore \<Rightarrow> Source option \<Rightarrow> converter step"
where
  "ensureTokenVaultCallbackRoute src ownerFmt owner ds routeSource c =
     (case ApplyTokenVaultDatastore fmempty ds of
        (_, Some e) \<Rightarrow> fail src ConfigFieldInvalid (wrap_reason (ownerFmt @ '': '') owner (datastore_reason e)) c
      | (None, None) \<Rightarrow> (c, Panic ''nil config'')
      | (Some config, None) \<Rightarrow>
          (case find (\<lambda>r. rt_Name r = TokenVaultCallbackName) (doc_Routes (cv_out c)) of
             Some route \<Rightarrow>
               (case rt_Plugins route of
                  [] \<Rightarrow> (c, Panic ''index out of range'')
                | p # _ \<Rightarrow>
                    if pl_Config p \<noteq> config
                    then fail src ConfigFieldInvalid
                      (ownerFmt @ '' references datastore %q, but another entity already uses a different token-vault datastore'',
                       owner @ [ds_Name ds]) c
                    else (c, Done))
           | None \<Rightarrow>
               (c\<lparr>cv_out := (cv_out c)\<lparr>doc_Routes := doc_Routes (cv_out c) @
                  [(route_of (empty_route\<lparr>rt_Paths := [TokenVaultCallbackPath], rt_Protocols := http_protocols\<rparr>)
                      TokenVaultCallbackName)
                   \<lparr>rt_Plugins := [empty_plugin\<lparr>pl_Name := TokenVaultCallbackName, pl_Config := config,
                                                pl_Source := routeSource\<rparr>],
                    rt_Source := routeSource\<rparr>]\<rparr>\<rparr>, Done)))"

definition authStrategyTokenVaultDatastore ::
  "ConversionIssueSource \<Rightarrow> AuthStrategy \<Rightarrow> bool \<Rightarrow> converter \<Rightarrow> (converter \<times> outcome) \<times> Datastore option"
where
  "authStrategyTokenVaultDatastore src idp required c =
     (case ast_Datastores idp of
        [] \<Rightarrow>
          if \<not> required then ((c, Done), None)
          else (fail (src_at src [''datastores'']) MissingRequiredConfigField
                  (''auth strategy %q: token_vault requires exactly one %q datastore'',
                   [ast_Name idp, DatastoreTypeTokenVault]) c, None)
      | ref # rest \<Rightarrow>
          if rest \<noteq> []
          then (fail (src_at src [''datastores'']) MissingRequiredConfigField
                  (''auth strategy %q: token_vault requires exactly one %q datastore'',
                   [ast_Name idp, DatastoreTypeTokenVault]) c, None)
          else case fmlookup (cn_datastores c) (dr_Name ref) of
            None \<Rightarrow> (fail (src_at src [''datastores[0].name'']) UndefinedReference
                       (''auth strategy %q references unknown datastore %q'', [ast_Name idp, dr_Name ref]) c, None)
          | Some ds \<Rightarrow>
              if ds_Type ds \<noteq> DatastoreTypeTokenVault
              then (fail (src_at src [''datastores[0].name'']) ConfigFieldInvalid
                      (''auth strategy %q does not support a %q datastore; use %q instead'',
                       [ast_Name idp, ds_Type ds, DatastoreTypeTokenVault]) c, None)
              else (case CheckTokenVaultDirectory ds of
                  Some e \<Rightarrow>
                    if required
                    then (fail (src_at src [''datastores[0].name'']) ConfigFieldInvalid
                            (wrap_reason ''auth strategy %q: '' [ast_Name idp] (datastore_reason e)) c, None)
                    else ((c, Done), Some ds)
                | None \<Rightarrow> ((c, Done), Some ds)))"

definition vault_route :: "string \<Rightarrow> string \<Rightarrow> Plugin list \<Rightarrow> Source option \<Rightarrow> Route" where
  "vault_route name path plugins src =
     (route_of (empty_route\<lparr>rt_Paths := [path], rt_Protocols := http_protocols\<rparr>) name)
       \<lparr>rt_Plugins := plugins, rt_Source := src\<rparr>"

definition credentialManagerRoute ::
  "ConversionIssueSource \<Rightarrow> AuthStrategy \<Rightarrow> Datastore \<Rightarrow> converter step"
where
  "credentialManagerRoute src idp ds c =
     (let name = TokenVaultCredentialManagerName @ ''-'' @ ast_Name idp in
      if list_ex (\<lambda>r. rt_Name r \<in> {name, name @ ''-login''}) (doc_Routes (cv_out c)) then (c, Done)
      else
        let (pageConfig, c) = tvManagerOIDCConfig src idp c;
            (loginConfig, c) = tvManagerLoginOIDCConfig src idp c in
        case ApplyTokenVaultDatastore fmempty ds of
          (_, Some e) \<Rightarrow>
            fail (src_at src [''datastores[0].name'']) ConfigFieldInvalid
              (wrap_reason ''auth strategy %q: '' [ast_Name idp] (datastore_reason e)) c
        | (config, None) \<Rightarrow>
            (let routeSource = source kindAuthStrategy (ast_Name idp) ''token_vault'' [];
                 base = TokenVaultCredentialManagerPath @ ''/'' @ ast_Name idp;
                 managerPlugin = empty_plugin\<lparr>pl_Name := TokenVaultCredentialManagerName,
                   pl_Config := or_else config fmempty, pl_Source := routeSource\<rparr>;
                 oidcPlugin = (\<lambda>cfg. empty_plugin\<lparr>pl_Name := authStrategyTypeOpenIDConnect, pl_Config := cfg,
                   pl_Source := routeSource\<rparr>);
                 c = ensureManagerAnonymousConsumer c
             in (c\<lparr>cv_out := (cv_out c)\<lparr>doc_Routes := doc_Routes (cv_out c) @
                    [vault_route name base [oidcPlugin pageConfig, managerPlugin] routeSource,
                     vault_route (name @ ''-login'') (base @ ''/login'') [oidcPlugin loginConfig, managerPlugin]
                       routeSource]\<rparr>\<rparr>, Done)))"

definition credential_manager_enabled :: "AuthStrategy \<Rightarrow> bool" where
  "credential_manager_enabled idp =
     (as_bool (fmlookup (or_else (ast_TokenVault idp) fmempty) enableCredentialManagerKey) = Some True)"

definition applyAuthStrategyTokenVault :: "AuthStrategy \<Rightarrow> converter step" where
  "applyAuthStrategyTokenVault idp c =
     (let src = issueSource kindAuthStrategy (ast_Name idp) in
      if ast_TokenVault idp \<noteq> None \<and> ast_Type idp \<noteq> authStrategyTypeOpenIDConnect
      then fail (src_at src [''token_vault'']) ConfigFieldInvalid
        (''auth strategy %q: token_vault requires type %q, not %q'',
         [ast_Name idp, authStrategyTypeOpenIDConnect, ast_Type idp]) c
      else if ast_Type idp \<noteq> authStrategyTypeOpenIDConnect then (c, Done)
      else
        let enabled = credential_manager_enabled idp in
        if enabled \<and> \<not> conv_supports FeatureAuthStrategyTokenVault c
        then failUnsupported (src_at src [''token_vault'']) FeatureAuthStrategyTokenVault ''token_vault'' c
        else case authStrategyTokenVaultDatastore src idp enabled c of
          ((c, oc), None) \<Rightarrow> (c, oc)
        | ((c, oc), Some ds) \<Rightarrow>
            if oc \<noteq> Done then (c, oc)
            else
              let c = c\<lparr>cv_out := (cv_out c)\<lparr>doc_TokenVaultAuthStrategies :=
                         append_new (doc_TokenVaultAuthStrategies (cv_out c)) (ast_Name idp)\<rparr>\<rparr> in
              if \<not> enabled then (c, Done)
              else case ensureTokenVaultCallbackRoute (src_at src [''datastores[0].name'']) ''auth strategy %q''
                     [ast_Name idp] ds (source kindAuthStrategy (ast_Name idp) ''datastores'' []) c of
                (c, Done) \<Rightarrow> credentialManagerRoute src idp ds c
              | (c, oc) \<Rightarrow> (c, oc))"

text \<open>The restore of the shallow snapshot: nothing above changes an element in place.\<close>

definition validateAuthStrategyTokenVaults :: "converter \<Rightarrow> converter" where
  "validateAuthStrategyTokenVaults c =
     (fold (\<lambda>idp c. (fst (applyAuthStrategyTokenVault idp c))\<lparr>cv_out := cv_out c\<rparr>)
        (sd_AuthStrategies (cn_src c)) (c\<lparr>cn_tvOIDCSilent := True\<rparr>))\<lparr>cn_tvOIDCSilent := False\<rparr>"

definition convertCredentialManagers :: "converter \<Rightarrow> converter" where
  "convertCredentialManagers c =
     fold (\<lambda>idp c.
         if ast_Type idp \<noteq> authStrategyTypeOpenIDConnect \<or> \<not> credential_manager_enabled idp then c
         else let (c', oc) = applyAuthStrategyTokenVault idp c in
              if oc = Done then c' else c'\<lparr>cv_out := cv_out c\<rparr>)
       (sd_AuthStrategies (cn_src c)) c"

fun scopedAuthStrategyPlugins ::
  "ConversionIssueSource \<Rightarrow> nat \<Rightarrow> string list \<Rightarrow> string list \<Rightarrow> Plugin list \<Rightarrow> converter \<Rightarrow>
   (converter \<times> outcome) \<times> Plugin list"
where
  "scopedAuthStrategyPlugins src i [] seen plugins c = ((c, Done), plugins)"
| "scopedAuthStrategyPlugins src i (ref # refs) seen plugins c =
     (if ref \<in> set seen then scopedAuthStrategyPlugins src (Suc i) refs seen plugins c
      else case fmlookup (cn_authStrategies c) ref of
        None \<Rightarrow> (fail (src_at src [at ''access.auth_strategies'' i]) UndefinedReference
                   (''unknown auth strategy reference %q'', [ref]) c, [])
      | Some idp \<Rightarrow>
          (case checkAuthStrategyType src (at ''access.auth_strategies'' i) idp c of
             (c, Done) \<Rightarrow>
               (case applyAuthStrategyTokenVault idp (warnAuthStrategyOverrides idp c) of
                  (c, Done) \<Rightarrow>
                    (let plugin = authStrategyPlugin idp;
                         plugin = (if is_Kind src = kindAgent \<and> ast_Type idp = authStrategyTypeOpenIDConnect
                                   then plugin\<lparr>pl_Config := hideOIDCAccessToken (pl_Config plugin)\<rparr> else plugin)
                     in scopedAuthStrategyPlugins src (Suc i) refs (ref # seen) (plugins @ [plugin]) c)
                | (c, oc) \<Rightarrow> ((c, oc), []))
           | (c, oc) \<Rightarrow> ((c, oc), [])))"

section \<open>After the entities\<close>

text \<open>The scan over \<open>TokenVaultAuthStrategies\<close>; None is a nil pointer or an index out of range, when
  the strategy that is registered under the name is not the one that was recorded.\<close>

fun choose_callback_strategy ::
  "ymap \<Rightarrow> string list \<Rightarrow> AuthStrategy option \<Rightarrow> converter \<Rightarrow> (converter \<times> AuthStrategy option) option"
where
  "choose_callback_strategy callback [] chosen c = Some (c, chosen)"
| "choose_callback_strategy callback (name # names) chosen c =
     (case fmlookup (cn_authStrategies c) name of
        None \<Rightarrow> None
      | Some idp \<Rightarrow>
          (case ast_Datastores idp of
             [] \<Rightarrow> None
           | ref # _ \<Rightarrow>
               (case fmlookup (cn_datastores c) (dr_Name ref) of
                  None \<Rightarrow> None
                | Some ds \<Rightarrow>
                    (let src = issueSource kindAuthStrategy name in
                     if ApplyTokenVaultDatastore fmempty ds \<noteq> (Some callback, None)
                     then choose_callback_strategy callback names chosen
                       (warn (src_at src [''datastores[0].name'']) ConfigFieldIgnored
                         (''auth strategy %q references datastore %q, but the Token Vault callback route uses a different token-vault datastore. The strategy does not protect the callback route.'',
                          [name, ds_Name ds]) c)
                     else (case chosen of
                         Some ch \<Rightarrow>
                           choose_callback_strategy callback names chosen
                             (warn (src_at src [''datastores'']) ConfigFieldIgnored
                               (''auth strategy %q does not protect the Token Vault callback route. Auth strategy %q already protects it.'',
                                [name, ast_Name ch]) c)
                       | None \<Rightarrow> choose_callback_strategy callback names (Some idp) c)))))"

definition secureTokenVaultCallbackRoute :: "converter step" where
  "secureTokenVaultCallbackRoute c =
     (case find (\<lambda>(i, r). rt_Name r = TokenVaultCallbackName) (enumerate 0 (doc_Routes (cv_out c))) of
        None \<Rightarrow> (c, Done)
      | Some (i, callback) \<Rightarrow>
          (case rt_Plugins callback of
             [] \<Rightarrow> (c, if doc_TokenVaultAuthStrategies (cv_out c) = [] then Done else Panic ''index out of range'')
           | p # _ \<Rightarrow>
               (case choose_callback_strategy (pl_Config p) (doc_TokenVaultAuthStrategies (cv_out c)) None c of
                  None \<Rightarrow> (c, Panic ''index out of range'')
                | Some (c, None) \<Rightarrow> (c, Done)
                | Some (c, Some idp) \<Rightarrow>
                    (let src = issueSource kindAuthStrategy (ast_Name idp);
                         (initiate, c) = tvEnrollmentOIDCConfig src idp c;
                         rs = doc_Routes (cv_out c);
                         new = vault_route TokenVaultCallbackInitiateName TokenVaultCallbackInitiatePath
                           [empty_plugin\<lparr>pl_Name := TokenVaultCallbackName, pl_Config := pl_Config p, pl_Source := pl_Source p\<rparr>,
                            empty_plugin\<lparr>pl_Name := authStrategyTypeOpenIDConnect, pl_Config := initiate,
                              pl_Source := source kindAuthStrategy (ast_Name idp) ''datastores'' []\<rparr>]
                           (rt_Source callback)
                     in (c\<lparr>cv_out := (cv_out c)\<lparr>doc_Routes := take (Suc i) rs @ [new] @ drop (Suc i) rs\<rparr>\<rparr>, Done)))))"

definition tokenVaultRouteNames :: "Document \<Rightarrow> string list" where
  "tokenVaultRouteNames d =
     List.map_filter (\<lambda>p. if pl_Name p = tokenVaultExchangePlugin then pl_Route p else None) (doc_Plugins d) @
     concat (map (\<lambda>s. concat (map (\<lambda>r.
        if list_ex (\<lambda>p. pl_Name p = ''ai-mcp-proxy'' \<and>
              fmlookup (or_else (as_map (fmlookup (pl_Config p) ''auth'')) fmempty) ''provider'' =
                Some (YStr UpstreamAuthProviderTokenVault)) (rt_Plugins r)
        then [rt_Name r] else []) (svc_Routes s))) (doc_Services d))"

definition reveals :: "Plugin \<Rightarrow> bool" where
  "reveals p = (pl_Name p = authStrategyTypeOpenIDConnect \<and>
     as_bool (fmlookup (pl_Config p) ''hide_credentials'') = Some True)"

definition reveal_plugin :: "(Plugin \<Rightarrow> bool) \<Rightarrow> Plugin \<Rightarrow> converter \<Rightarrow> converter \<times> Plugin" where
  "reveal_plugin selected p c =
     (if \<not> (selected p \<and> reveals p) then (c, p)
      else
        ((case pl_Source p of
            None \<Rightarrow> c
          | Some s \<Rightarrow> warn (src_at (issueSource kindAuthStrategy (src_EntityName s)) [''config.hide_credentials''])
              ConfigFieldOverridden
              (''auth strategy %q sets config.hide_credentials to true. On a route that uses a Token Vault, hide_credentials will be overridden to false, because the Token Vault reads the subject token of the caller from the request.'',
               [src_EntityName s]) c),
         p\<lparr>pl_Config := fmupd ''hide_credentials'' (YBool False) (pl_Config p)\<rparr>))"

text \<open>A loop that threads the converter and rebuilds the list; the code clones a slice only when an
  element changes, which is the same value.\<close>

fun map_state :: "('a \<Rightarrow> 's \<Rightarrow> 's \<times> 'b) \<Rightarrow> 'a list \<Rightarrow> 's \<Rightarrow> 's \<times> 'b list" where
  "map_state f [] s = (s, [])"
| "map_state f (x # xs) s =
     (let (s, y) = f x s; (s, ys) = map_state f xs s in (s, y # ys))"

definition revealedTokenVaultPlugins ::
  "(Plugin \<Rightarrow> bool) \<Rightarrow> Plugin list \<Rightarrow> converter \<Rightarrow> converter \<times> Plugin list"
where
  "revealedTokenVaultPlugins selected plugins c = map_state (reveal_plugin selected) plugins c"

definition revealTokenVaultCredentials :: "converter \<Rightarrow> converter" where
  "revealTokenVaultCredentials c =
     (let routes = tokenVaultRouteNames (cv_out c) in
      if routes = [] then c
      else
        let (c, plugins) = revealedTokenVaultPlugins
              (\<lambda>p. case pl_Route p of None \<Rightarrow> False | Some r \<Rightarrow> r \<in> set routes) (doc_Plugins (cv_out c)) c;
            (c, services) = map_state (\<lambda>s c.
               let (c, rs) = map_state (\<lambda>r c.
                     let (c, ps) = revealedTokenVaultPlugins (\<lambda>_. rt_Name r \<in> set routes) (rt_Plugins r) c
                     in (c, r\<lparr>rt_Plugins := ps\<rparr>)) (svc_Routes s) c
               in (c, s\<lparr>svc_Routes := rs\<rparr>)) (doc_Services (cv_out c)) c
        in c\<lparr>cv_out := (cv_out c)\<lparr>doc_Plugins := plugins, doc_Services := services\<rparr>\<rparr>)"

section \<open>Laws\<close>

subsection \<open>The anonymous consumer\<close>

definition terminates :: "Consumer \<Rightarrow> bool" where
  "terminates co = (find (\<lambda>p. pl_Name p = ''request-termination'') (co_Plugins co) = Some requestTerminationPlugin)"

lemma find_enumerate:
  "find (\<lambda>(i, q). P q) (enumerate n xs) = (case find P xs of None \<Rightarrow> None
     | Some x \<Rightarrow> Some (n + length (takeWhile (\<lambda>y. \<not> P y) xs), x))"
  by (induction xs arbitrary: n) (auto split: option.splits)

lemma find_update:
  "find P xs = Some x \<Longrightarrow> P y \<Longrightarrow> find P (xs[length (takeWhile (\<lambda>y. \<not> P y) xs) := y]) = Some y"
  by (induction xs) (auto split: if_splits)

lemma update_found:
  "find P xs = Some x \<Longrightarrow> xs[length (takeWhile (\<lambda>y. \<not> P y) xs) := x] = xs"
  by (induction xs) (auto split: if_splits)

lemma withPlugin_find: "find (\<lambda>q. pl_Name q = pl_Name p) (fst (withPlugin ps p)) = Some p"
proof (cases "find (\<lambda>q. pl_Name q = pl_Name p) ps")
  case None
  then show ?thesis by (simp add: withPlugin_def find_enumerate find_append)
next
  case (Some q)
  then show ?thesis by (simp add: withPlugin_def find_enumerate find_update)
qed

lemma withPlugin_idem: "find (\<lambda>q. pl_Name q = pl_Name p) ps = Some p \<Longrightarrow> fst (withPlugin ps p) = ps"
  by (simp add: withPlugin_def find_enumerate)

lemma withPlugin_terminates: "terminates (co\<lparr>co_Plugins := fst (withPlugin ps requestTerminationPlugin)\<rparr>)"
  using withPlugin_find [of requestTerminationPlugin ps]
  by (simp add: terminates_def requestTerminationPlugin_def empty_plugin_def)

lemma terminates_unchanged: "terminates co \<Longrightarrow> co\<lparr>co_Plugins := fst (withPlugin (co_Plugins co) requestTerminationPlugin)\<rparr> = co"
  using withPlugin_idem [of requestTerminationPlugin "co_Plugins co"]
  by (simp add: terminates_def requestTerminationPlugin_def empty_plugin_def)

lemma named_update [simp]: "is_named_consumer n (co\<lparr>co_Plugins := ps\<rparr>) = is_named_consumer n co"
  by (simp add: is_named_consumer_def)

text \<open>C20: After the anonymous consumer is ensured there is one, every consumer an authentication
  plugin can take for it, by username or by custom_id, rejects the request with 401, the other
  consumers and the rest of the output are as before, and ensuring it again changes nothing.\<close>

theorem anonymous_consumer_terminates:
  "let c' = ensureAnonymousConsumer c; cos = doc_Consumers (cv_out c) in
     (\<exists>co \<in> set (doc_Consumers (cv_out c')). co_Username co = anonymousConsumerName \<or> co_CustomID co = anonymousConsumerName) \<and>
     (\<forall>co \<in> set (doc_Consumers (cv_out c')). is_named_consumer anonymousConsumerName co \<longrightarrow> terminates co) \<and>
     filter (\<lambda>co. \<not> is_named_consumer anonymousConsumerName co) (doc_Consumers (cv_out c')) =
       filter (\<lambda>co. \<not> is_named_consumer anonymousConsumerName co) cos \<and>
     (cv_out c')\<lparr>doc_Consumers := cos\<rparr> = cv_out c \<and> c'\<lparr>cv_out := cv_out c\<rparr> = c \<and>
     ensureAnonymousConsumer c' = c'"
proof -
  let ?named = "is_named_consumer anonymousConsumerName"
  let ?fix = "\<lambda>co. if ?named co then co\<lparr>co_Plugins := fst (withPlugin (co_Plugins co) requestTerminationPlugin)\<rparr> else co"
  let ?new = "\<lparr>co_ID = [], co_Username = anonymousConsumerName, co_CustomID = anonymousConsumerName,
       co_Groups = [], co_KeyAuthCredentials = [], co_Plugins = [requestTerminationPlugin], co_Tags = []\<rparr>"
  define cos where "cos = doc_Consumers (cv_out c)"
  define out where "out = (if list_ex ?named cos then map ?fix cos else map ?fix cos @ [?new])"
  have c': "ensureAnonymousConsumer c = c\<lparr>cv_out := (cv_out c)\<lparr>doc_Consumers := out\<rparr>\<rparr>"
    by (simp add: ensureAnonymousConsumer_def Let_def out_def cos_def)
  have new: "?named ?new" "terminates ?new"
    by (simp_all add: is_named_consumer_def terminates_def requestTerminationPlugin_def empty_plugin_def)
  have "list_ex ?named (map ?fix cos) = list_ex ?named cos"
    by (induction cos) auto
  then have "list_ex ?named out"
    using new(1) by (cases "list_ex ?named cos") (simp_all only: out_def if_True if_False list_ex_append list_ex_Cons_iff simp_thms)
  then have ex: "\<exists>co \<in> set out. ?named co" unfolding list_ex_iff .
  have rej: "\<forall>co \<in> set out. ?named co \<longrightarrow> terminates co"
    using new withPlugin_terminates by (auto simp: out_def)
  have "filter (\<lambda>co. \<not> ?named co) (map ?fix cos) = filter (\<lambda>co. \<not> ?named co) cos" for cos
    by (induction cos) auto
  then have rest: "filter (\<lambda>co. \<not> ?named co) out = filter (\<lambda>co. \<not> ?named co) cos"
    using new by (simp add: out_def)
  have "map ?fix out = out"
    by (rule map_idI) (use rej terminates_unchanged in auto)
  moreover note \<open>list_ex ?named out\<close>
  ultimately have "ensureAnonymousConsumer (ensureAnonymousConsumer c) = ensureAnonymousConsumer c"
    unfolding c' by (simp add: ensureAnonymousConsumer_def Let_def)
  then have idem: "ensureAnonymousConsumer (c\<lparr>cv_out := (cv_out c)\<lparr>doc_Consumers := out\<rparr>\<rparr>) =
      c\<lparr>cv_out := (cv_out c)\<lparr>doc_Consumers := out\<rparr>\<rparr>"
    unfolding c' .
  show ?thesis
    unfolding Let_def c' idem cos_def [symmetric]
    using ex rej rest by (simp add: is_named_consumer_def cos_def)
qed

theorem anonymous_consumer_terminates_witness:
  "\<exists>co \<in> set (doc_Consumers (cv_out (ensureAnonymousConsumer sample_converter))).
     is_named_consumer anonymousConsumerName co \<and> terminates co"
  using anonymous_consumer_terminates [of sample_converter] by (auto simp: Let_def is_named_consumer_def)

subsection \<open>No entity is left without its authentication\<close>

text \<open>What this part may change: the output, the issues and the list of reported fields.\<close>

definition auth_env :: "converter \<Rightarrow> converter \<Rightarrow> bool" where
  "auth_env c c' \<longleftrightarrow> reports c c' \<and>
     c' = c\<lparr>cv_out := cv_out c', cv_issues := cv_issues c', cn_tvOIDCWarned := cn_tvOIDCWarned c'\<rparr>"

lemma auth_env_refl [simp]: "auth_env c c"
  by (simp add: auth_env_def)

lemma auth_env_fields:
  "auth_env c c' \<Longrightarrow> cn_authStrategies c' = cn_authStrategies c \<and> cn_datastores c' = cn_datastores c \<and>
     cn_policies c' = cn_policies c \<and> cn_src c' = cn_src c \<and> cn_opts c' = cn_opts c \<and>
     cv_minRuntimeVersion c' = cv_minRuntimeVersion c \<and> cn_tvOIDCSilent c' = cn_tvOIDCSilent c"
  by (cases c; cases c') (simp add: auth_env_def)

lemma auth_env_trans [trans]: "auth_env a b \<Longrightarrow> auth_env b c \<Longrightarrow> auth_env a c"
  by (cases a; cases b; cases c) (auto simp: auth_env_def intro: reports_trans)

lemma auth_env_out [simp]: "auth_env c (c'\<lparr>cv_out := d\<rparr>) \<longleftrightarrow> auth_env c c'"
  by (cases c; cases c') (auto simp: auth_env_def reports_def)

lemma auth_env_report [simp]: "auth_env c (report s sv code r c)"
  by (cases c) (auto simp: auth_env_def report_def Let_def reports_def)

lemma auth_env_warn [simp]:
  "auth_env c (warn s code r c)" "auth_env c (fst (fail s code r c))" "auth_env c (fst (failUnsupported s f fld c))"
  by (simp_all add: warn_def fail_def failUnsupported_def reportUnsupported_def)

lemma auth_env_tv_report [simp]: "auth_env c (tv_report s i code f r c)"
proof -
  have "auth_env c (c\<lparr>cn_tvOIDCWarned := w\<rparr>)" for w
    by (cases c) (simp add: auth_env_def reports_def)
  then show ?thesis
    using auth_env_trans [OF _ auth_env_warn(1)] by (simp add: tv_report_def Let_def)
qed

lemma auth_env_tv_steps [simp]:
  "auth_env (snd b) (snd (tv_remove1 s i f b))" "auth_env (snd b) (snd (tv_set s i f v b))"
  "auth_env (snd b) (snd (tv_forceAuthMethods s i w ms b))" "snd (apfst g b) = snd b"
  by (cases b; simp add: tv_remove1_def tv_set_def tv_forceAuthMethods_def Let_def)+

lemma auth_env_tv_remove [simp]: "auth_env (snd b) (snd (tv_remove s i fs b))"
  unfolding tv_remove_def
  by (rule fold_invariant_set [where P = "\<lambda>b'. auth_env (snd b) (snd b')"])
    (auto intro: auth_env_trans [OF _ auth_env_tv_steps(1)])

lemma tv_chain:
  "auth_env c (snd b) \<Longrightarrow> auth_env c (snd (tv_remove s i fs b))"
  "auth_env c (snd b) \<Longrightarrow> auth_env c (snd (tv_set s i f v b))"
  "auth_env c (snd b) \<Longrightarrow> auth_env c (snd (tv_forceAuthMethods s i w ms b))"
  "auth_env c (snd b) \<Longrightarrow> auth_env c (snd (apfst g b))"
  "auth_env c (snd b) \<Longrightarrow> auth_env c (snd (apsnd (tv_report s i code f r) b))"
  by (auto intro: auth_env_trans)

lemma tv_let:
  "auth_env c (snd b) \<Longrightarrow> (\<And>b. auth_env c (snd b) \<Longrightarrow> auth_env c (snd (f b))) \<Longrightarrow> auth_env c (snd (Let b f))"
  "(\<And>x. auth_env c (snd (g x))) \<Longrightarrow> auth_env c (snd (Let (t :: yval option) g))"
  by (simp_all add: Let_def)

lemma tv_branch:
  "auth_env c (snd a) \<Longrightarrow> auth_env c (snd b) \<Longrightarrow> auth_env c (snd (if P then a else b))"
  "auth_env c (snd a) \<Longrightarrow> (\<And>x. auth_env c (snd (f x))) \<Longrightarrow> auth_env c (snd (case x of None \<Rightarrow> a | Some x \<Rightarrow> f x))"
  by (auto split: option.split)

lemma tv_configs_env:
  "auth_env c (snd (tvManagerOIDCConfig s i c))" "auth_env c (snd (tvManagerLoginOIDCConfig s i c))"
  "auth_env c (snd (tvEnrollmentOIDCConfig s i c))"
  unfolding tvManagerOIDCConfig_def tvManagerLoginOIDCConfig_def tvEnrollmentOIDCConfig_def
  by (intro tv_let tv_chain tv_branch; simp)+

lemma ensureManager_env [simp]: "auth_env c (ensureManagerAnonymousConsumer c)"
  by (simp add: ensureManagerAnonymousConsumer_def)

text \<open>Every way to end without success explains itself.\<close>

definition explained :: "converter \<times> outcome \<Rightarrow> bool" where
  "explained r \<longleftrightarrow> (snd r = SkipEntity \<longrightarrow> HasErrors (cv_issues (fst r)))"

lemma explained_simps [simp]:
  "explained (c, Done)" "explained (c, Panic p)" "explained (fail s code r c)" "explained (failUnsupported s f fld c)"
  by (simp_all add: explained_def)

lemma callback_route_step:
  "auth_env c (fst (ensureTokenVaultCallbackRoute s f o' ds rs c))" "explained (ensureTokenVaultCallbackRoute s f o' ds rs c)"
  by (auto simp: ensureTokenVaultCallbackRoute_def split: prod.split option.split list.split)

lemma datastore_step:
  "auth_env c (fst (fst (authStrategyTokenVaultDatastore s i b c)))" "explained (fst (authStrategyTokenVaultDatastore s i b c))"
  by (auto simp: authStrategyTokenVaultDatastore_def split: option.split list.split)

lemma credential_route_step:
  "auth_env c (fst (credentialManagerRoute s i ds c)) \<and> explained (credentialManagerRoute s i ds c)"
proof -
  obtain cfg1 c1 where p: "tvManagerOIDCConfig s i c = (cfg1, c1)" by (cases "tvManagerOIDCConfig s i c")
  obtain cfg2 c2 where l: "tvManagerLoginOIDCConfig s i c1 = (cfg2, c2)" by (cases "tvManagerLoginOIDCConfig s i c1")
  have "auth_env c c1" "auth_env c1 c2"
    using tv_configs_env(1) [of c s i] tv_configs_env(2) [of c1 s i] p l by simp_all
  then have e: "auth_env c c2" by (rule auth_env_trans)
  then have "auth_env c (fst (fail x code r c2))" for x code r
    by (rule auth_env_trans) simp
  moreover have "auth_env c (ensureManagerAnonymousConsumer c2)"
    using e by (rule auth_env_trans) simp
  ultimately show ?thesis
    using p l by (auto simp: credentialManagerRoute_def Let_def split: prod.split option.split)
qed

lemma token_vault_step:
  "auth_env c (fst (applyAuthStrategyTokenVault idp c)) \<and> explained (applyAuthStrategyTokenVault idp c)"
proof -
  let ?src = "issueSource kindAuthStrategy (ast_Name idp)"
  let ?e = "credential_manager_enabled idp"
  obtain c1 oc d where ds: "authStrategyTokenVaultDatastore ?src idp ?e c = ((c1, oc), d)"
    by (metis prod.exhaust)
  have e1: "auth_env c c1" and x1: "explained (c1, oc)"
    using datastore_step ds by (metis fst_conv)+
  let ?c2 = "c1\<lparr>cv_out := (cv_out c1)\<lparr>doc_TokenVaultAuthStrategies :=
     append_new (doc_TokenVaultAuthStrategies (cv_out c1)) (ast_Name idp)\<rparr>\<rparr>"
  have e2: "auth_env c ?c2" using e1 by simp
  show ?thesis
  proof (cases d)
    case None
    then show ?thesis using ds e1 x1 by (simp add: applyAuthStrategyTokenVault_def Let_def)
  next
    case (Some d')
    obtain c3 oc3 where cb: "ensureTokenVaultCallbackRoute (src_at ?src [''datastores[0].name'']) ''auth strategy %q''
        [ast_Name idp] d' (source kindAuthStrategy (ast_Name idp) ''datastores'' []) ?c2 = (c3, oc3)"
      by (metis prod.exhaust)
    have e3: "auth_env c c3" and x3: "explained (c3, oc3)"
      using auth_env_trans [OF e2 callback_route_step(1)] callback_route_step(2) cb by (metis fst_conv)+
    have e4: "auth_env c (fst (credentialManagerRoute ?src idp d' c3))" "explained (credentialManagerRoute ?src idp d' c3)"
      using auth_env_trans [OF e3] credential_route_step by blast+
    show ?thesis
      using ds Some cb e1 e2 e3 e4 x1 x3
      by (auto simp: applyAuthStrategyTokenVault_def Let_def split: outcome.split)
  qed
qed

lemma overrides_env [simp]: "auth_env c (warnAuthStrategyOverrides idp c)"
  by (auto simp: warnAuthStrategyOverrides_def Let_def intro: auth_env_trans [OF auth_env_warn(1) auth_env_warn(1)])

definition entity_auth_plugin :: "ConversionIssueSource \<Rightarrow> AuthStrategy \<Rightarrow> Plugin" where
  "entity_auth_plugin src idp =
     (let plugin = authStrategyPlugin idp in
      if is_Kind src = kindAgent \<and> ast_Type idp = authStrategyTypeOpenIDConnect
      then plugin\<lparr>pl_Config := hideOIDCAccessToken (pl_Config plugin)\<rparr> else plugin)"

definition strategy_ok :: "converter \<Rightarrow> string \<Rightarrow> bool" where
  "strategy_ok c r =
     (case fmlookup (cn_authStrategies c) r of None \<Rightarrow> False | Some idp \<Rightarrow> ast_Type idp \<in> set authPolicyTypes)"

definition strategy_plugin :: "ConversionIssueSource \<Rightarrow> converter \<Rightarrow> string \<Rightarrow> Plugin" where
  "strategy_plugin src c r = entity_auth_plugin src (the (fmlookup (cn_authStrategies c) r))"

lemma entity_auth_plugin_anonymous:
  "fmlookup (pl_Config (entity_auth_plugin src idp)) ''anonymous'' = Some (YStr anonymousConsumerName)"
  "pl_Name (entity_auth_plugin src idp) = ast_Type idp"
  by (simp_all add: entity_auth_plugin_def authStrategyPlugin_def Let_def hideOIDCAccessToken_def
      forceKeyAuthIdentityRealms_def)

lemma strategy_env:
  assumes "auth_env c c'"
  shows "strategy_ok c' = strategy_ok c" "strategy_plugin src c' = strategy_plugin src c"
  using auth_env_fields [OF assms] by (auto simp: strategy_ok_def strategy_plugin_def intro!: ext)

definition auth_spec ::
  "ConversionIssueSource \<Rightarrow> string list \<Rightarrow> string list \<Rightarrow> Plugin list \<Rightarrow> converter \<Rightarrow>
   (converter \<times> outcome) \<times> Plugin list \<Rightarrow> bool"
where
  "auth_spec src refs seen plugins c res \<longleftrightarrow>
     auth_env c (fst (fst res)) \<and> explained (fst res) \<and>
     (snd (fst res) = Done \<longrightarrow>
        (\<forall>r \<in> set refs - set seen. strategy_ok c r) \<and>
        snd res = plugins @ map (strategy_plugin src c) (first_refs seen refs))"

lemma auth_spec_failed: "oc \<noteq> Done \<Longrightarrow> auth_env c c' \<Longrightarrow> explained (c', oc) \<Longrightarrow> auth_spec src refs seen plugins c ((c', oc), ps)"
  by (simp add: auth_spec_def)

lemma scopedAuth_spec:
  "auth_spec src refs seen plugins c (scopedAuthStrategyPlugins src i refs seen plugins c)"
proof (induction src i refs seen plugins c rule: scopedAuthStrategyPlugins.induct)
  case (1 src i seen plugins c)
  then show ?case by (simp add: auth_spec_def)
next
  case (2 src i ref refs seen plugins c)
  show ?case
  proof (cases "ref \<in> set seen")
    case True
    then have "set (ref # refs) - set seen = set refs - set seen" by auto
    then show ?thesis using 2(1) True by (simp add: auth_spec_def)
  next
    case new: False
    show ?thesis
    proof (cases "fmlookup (cn_authStrategies c) ref")
      case None
      then show ?thesis using new by (simp add: auth_spec_def fail_def [abs_def] explained_def)
    next
      case idp: (Some idp)
      show ?thesis
      proof (cases "ast_Type idp \<in> set authPolicyTypes")
        case False
        then show ?thesis using new idp by (simp add: auth_spec_def checkAuthStrategyType_def fail_def explained_def)
      next
        case ok: True
        let ?c1 = "warnAuthStrategyOverrides idp c"
        obtain c2 oc where tv: "applyAuthStrategyTokenVault idp ?c1 = (c2, oc)" by (metis prod.exhaust)
        have e: "auth_env c c2" and x: "explained (c2, oc)"
          using token_vault_step [of ?c1 idp] tv auth_env_trans [OF overrides_env] by auto
        show ?thesis
        proof (cases "oc = Done")
          case True
          let ?p = "entity_auth_plugin src idp"
          have rec: "scopedAuthStrategyPlugins src i (ref # refs) seen plugins c =
              scopedAuthStrategyPlugins src (Suc i) refs (ref # seen) (plugins @ [?p]) c2"
            using new idp ok tv True
            by (simp add: checkAuthStrategyType_def entity_auth_plugin_def Let_def)
          have "auth_spec src refs (ref # seen) (plugins @ [?p]) c2
              (scopedAuthStrategyPlugins src (Suc i) refs (ref # seen) (plugins @ [?p]) c2)"
            using 2(2) [OF new idp, of c Done c2 oc "authStrategyPlugin idp" ?p] ok tv True
            by (simp add: checkAuthStrategyType_def entity_auth_plugin_def Let_def)
          then have h: "auth_env c2 (fst (fst (scopedAuthStrategyPlugins src (Suc i) refs (ref # seen) (plugins @ [?p]) c2)))"
              "auth_spec src refs (ref # seen) (plugins @ [?p]) c
                 (scopedAuthStrategyPlugins src (Suc i) refs (ref # seen) (plugins @ [?p]) c2)"
            using auth_env_trans [OF e] strategy_env [OF e] by (auto simp: auth_spec_def)
          moreover have "strategy_ok c ref" "strategy_plugin src c ref = ?p"
            using idp ok by (simp_all add: strategy_ok_def strategy_plugin_def)
          ultimately show ?thesis
            using new unfolding rec by (auto simp: auth_spec_def)
        next
          case False
          then have "scopedAuthStrategyPlugins src i (ref # refs) seen plugins c = ((c2, oc), [])"
            using new idp ok tv by (simp add: checkAuthStrategyType_def split: outcome.split)
          then show ?thesis using False e x auth_spec_failed by simp
        qed
      qed
    qed
  qed
qed

text \<open>C13: When an entity gets its authentication plugins, every reference resolves to a key-auth or
  openid-connect strategy, the plugins are one per distinct reference in order, and each falls back
  to the anonymous consumer whatever the strategy's own config says.  An entity that does not is
  skipped with an error, so it is never published unprotected.\<close>

theorem entity_authentication_kept:
  "let ((c', oc), ps) = scopedAuthStrategyPlugins src 0 refs [] [] c in
     (oc = Done \<longrightarrow>
        (\<forall>r \<in> set refs. \<exists>idp. fmlookup (cn_authStrategies c) r = Some idp \<and> ast_Type idp \<in> set authPolicyTypes) \<and>
        ps = map (strategy_plugin src c) (first_refs [] refs) \<and>
        (\<forall>p \<in> set ps. pl_Name p \<in> set authPolicyTypes \<and>
           fmlookup (pl_Config p) ''anonymous'' = Some (YStr anonymousConsumerName))) \<and>
     (oc = SkipEntity \<longrightarrow> HasErrors (cv_issues c'))"
proof -
  obtain c' oc ps where eq: "scopedAuthStrategyPlugins src 0 refs [] [] c = ((c', oc), ps)"
    by (metis prod.exhaust)
  have sp: "auth_spec src refs [] [] c ((c', oc), ps)"
    using scopedAuth_spec [of src refs "[]" "[]" c 0] eq by simp
  then have ok: "oc = Done \<Longrightarrow> \<forall>r \<in> set refs. \<exists>idp. fmlookup (cn_authStrategies c) r = Some idp \<and>
      ast_Type idp \<in> set authPolicyTypes"
    by (force simp: auth_spec_def strategy_ok_def split: option.splits)
  then have "oc = Done \<Longrightarrow> \<forall>p \<in> set (map (strategy_plugin src c) (first_refs [] refs)).
      pl_Name p \<in> set authPolicyTypes \<and> fmlookup (pl_Config p) ''anonymous'' = Some (YStr anonymousConsumerName)"
    by (fastforce simp: strategy_plugin_def entity_auth_plugin_anonymous)
  with ok sp show ?thesis unfolding eq Let_def prod.case
    by (simp add: auth_spec_def explained_def)
qed

definition sample_strategy :: AuthStrategy where
  "sample_strategy = \<lparr>ast_ID = [], ast_Type = ''key-auth'', ast_Name = ''k'',
     ast_Config = fmap_of_list [(''anonymous'', YStr ''guest'')], ast_Labels = fmempty,
     ast_Datastores = [], ast_TokenVault = None\<rparr>"

definition sample_auth :: converter where
  "sample_auth = sample_converter\<lparr>cn_authStrategies := fmap_of_list [(''k'', sample_strategy)]\<rparr>"

theorem entity_authentication_kept_witness:
  "snd (scopedAuthStrategyPlugins (issueSource kindAgent ''a'') 0 [''k'', ''k''] [] [] sample_auth) =
     [strategy_plugin (issueSource kindAgent ''a'') sample_auth ''k''] \<and>
   HasErrors (cv_issues (fst (fst (scopedAuthStrategyPlugins (issueSource kindAgent ''a'') 0 [''x''] [] [] sample_auth))))"
proof -
  let ?src = "issueSource kindAgent ''a''"
  have d: "snd (fst (scopedAuthStrategyPlugins ?src 0 [''k'', ''k''] [] [] sample_auth)) = Done"
    by code_simp
  have s: "snd (fst (scopedAuthStrategyPlugins ?src 0 [''x''] [] [] sample_auth)) = SkipEntity"
    by code_simp
  from d s entity_authentication_kept [of ?src "[''k'', ''k'']" sample_auth]
    entity_authentication_kept [of ?src "[''x'']" sample_auth]
  show ?thesis by (simp add: Let_def case_prod_beta)
qed

subsection \<open>The configs of the Token Vault routes\<close>

lemma tv_fst [simp]:
  "fst (tv_remove1 s i f b) = fmdrop f (fst b)" "fst (tv_set s i f v b) = fmupd f v (fst b)"
  "fst (tv_forceAuthMethods s i w ms b) = fmupd ''auth_methods'' (YList (map YStr ms)) (fst b)"
  by (cases b; simp add: tv_remove1_def tv_set_def tv_forceAuthMethods_def Let_def)+

lemma tv_remove_lookup: "fmlookup (fst (tv_remove s i fs b)) k = (if k \<in> set fs then None else fmlookup (fst b) k)"
  unfolding tv_remove_def by (induction fs arbitrary: b) auto

text \<open>What the enrollment start route and the credential manager page fix.\<close>

definition enrollment_fixed :: "(string \<times> yval) list" where
  "enrollment_fixed =
     [(''auth_methods'', YList [YStr ''session'', YStr ''authorization_code'']), (''login_tokens'', YList []),
      (''login_methods'', YList [YStr ''authorization_code'']), (''login_action'', YStr ''redirect''),
      (''authorization_cookie_path'', YStr TokenVaultCallbackInitiatePath), (''preserve_query_args'', YBool True),
      (''upstream_access_token_header'', YStr defaultUpstreamAccessTokenHeader), (''hide_credentials'', YBool False)]"

definition manager_fixed :: "(string \<times> yval) list" where
  "manager_fixed =
     [(''auth_methods'', YList [YStr ''session'']), (''logout_query_arg'', YStr ''logout''),
      (''anonymous'', YStr managerAnonymousConsumerName),
      (''upstream_access_token_header'', YStr defaultUpstreamAccessTokenHeader), (''hide_credentials'', YBool False)]"

definition public_client :: "ymap \<Rightarrow> bool" where
  "public_client cfg = (isEmptyConfigValue (fmlookup cfg ''token_endpoint_auth_method'') \<and>
     isEmptyConfigValue (fmlookup cfg ''client_secret''))"

definition locked_config :: "(string \<times> yval) list \<Rightarrow> string list \<Rightarrow> ymap \<Rightarrow> string \<Rightarrow> yval option" where
  "locked_config fixed removed cfg k =
     (case map_of fixed k of
        Some v \<Rightarrow> Some v
      | None \<Rightarrow>
          if k \<in> set removed then None
          else if k = ''token_endpoint_auth_method'' \<and> public_client cfg then Some (YStr ''none'')
          else fmlookup cfg k)"

lemma applyTokenEndpoint_lookup:
  "fmlookup (applyTokenEndpointAuthMethod cfg) k =
     (if k = ''token_endpoint_auth_method'' \<and> public_client cfg then Some (YStr ''none'') else fmlookup cfg k)"
  by (simp add: applyTokenEndpointAuthMethod_def public_client_def)

lemma foldr_fmupd_lookup:
  "fmlookup (foldr (\<lambda>(k, v). fmupd k v) kvs m) k = (case map_of kvs k of Some v \<Rightarrow> Some v | None \<Rightarrow> fmlookup m k)"
  by (induction kvs) auto

lemma applyTokenEndpoint_upd:
  "a \<noteq> ''token_endpoint_auth_method'' \<Longrightarrow> a \<noteq> ''client_secret'' \<Longrightarrow>
   applyTokenEndpointAuthMethod (fmupd a v m) = fmupd a v (applyTokenEndpointAuthMethod m)"
  by (simp add: applyTokenEndpointAuthMethod_def fmupd_twist)

lemma enrollment_config:
  "fst (tvEnrollmentOIDCConfig src idp c) = foldr (\<lambda>(k, v). fmupd k v) enrollment_fixed
     (applyTokenEndpointAuthMethod (fst (tv_remove src idp tvEnrollmentOIDCRemovedFields (ast_Config idp, c))))"
  by (simp add: tvEnrollmentOIDCConfig_def Let_def enrollment_fixed_def applyTokenEndpoint_upd)

lemma manager_config:
  "fst (tvManagerOIDCConfig src idp c) = foldr (\<lambda>(k, v). fmupd k v) manager_fixed
     (applyTokenEndpointAuthMethod (fmdrop ''redirect_uri''
        (fst (tv_remove src idp tvManagerOIDCRemovedFields (ast_Config idp, c)))))"
  by (simp add: tvManagerOIDCConfig_def Let_def manager_fixed_def applyTokenEndpoint_upd)

text \<open>C21: The openid-connect configs of the enrollment start route and of the credential manager page
  have the fixed values, lack the removed fields, and keep every other field of the strategy: no
  strategy can add an anonymous fallback or another redirect_uri to the enrollment, or another login
  method to either.\<close>

theorem vault_oidc_locked:
  "fmlookup (fst (tvEnrollmentOIDCConfig src idp c)) k =
     locked_config enrollment_fixed tvEnrollmentOIDCRemovedFields (ast_Config idp) k \<and>
   fmlookup (fst (tvManagerOIDCConfig src idp c)) k =
     locked_config manager_fixed (''redirect_uri'' # tvManagerOIDCRemovedFields) (ast_Config idp) k"
proof -
  let ?e = "fst (tv_remove src idp tvEnrollmentOIDCRemovedFields (ast_Config idp, c))"
  let ?m = "fmdrop ''redirect_uri'' (fst (tv_remove src idp tvManagerOIDCRemovedFields (ast_Config idp, c)))"
  have "public_client ?e = public_client (ast_Config idp)" "public_client ?m = public_client (ast_Config idp)"
    by (simp_all add: public_client_def tv_remove_lookup tvEnrollmentOIDCRemovedFields_def
        tvManagerOIDCRemovedFields_def)
  moreover have "''token_endpoint_auth_method'' \<notin> set tvEnrollmentOIDCRemovedFields"
    "''token_endpoint_auth_method'' \<notin> set tvManagerOIDCRemovedFields"
    by (simp_all add: tvEnrollmentOIDCRemovedFields_def tvManagerOIDCRemovedFields_def)
  ultimately have "fmlookup (fst (tvEnrollmentOIDCConfig src idp c)) k =
      locked_config enrollment_fixed tvEnrollmentOIDCRemovedFields (ast_Config idp) k"
    "fmlookup (fst (tvManagerOIDCConfig src idp c)) k =
      locked_config manager_fixed (''redirect_uri'' # tvManagerOIDCRemovedFields) (ast_Config idp) k"
    by (auto simp: enrollment_config manager_config foldr_fmupd_lookup locked_config_def applyTokenEndpoint_lookup
        tv_remove_lookup split: option.split)
  then show ?thesis by blast
qed

subsection \<open>Two strategies of one name\<close>

text \<open>The scan after the entities looks a strategy up by name, so a recorded strategy that a later one
  of the same name hides is not the one it finds; without a datastore there, the run panics outside
  every guard.\<close>

definition vault_strategy :: AuthStrategy where
  "vault_strategy = \<lparr>ast_ID = [], ast_Type = ''openid-connect'', ast_Name = ''o'', ast_Config = fmempty,
     ast_Labels = fmempty, ast_Datastores = [\<lparr>dr_Name = ''tv'', dr_Path = None\<rparr>],
     ast_TokenVault = Some (fmap_of_list [(enableCredentialManagerKey, YBool True)])\<rparr>"

definition hidden_strategy :: converter where
  "hidden_strategy = buildRegistries (newConverter
     (empty_source\<lparr>sd_AuthStrategies := [vault_strategy,
          vault_strategy\<lparr>ast_Datastores := [], ast_TokenVault := None\<rparr>],
        sd_Datastores := [\<lparr>ds_Type = DatastoreTypeTokenVault, ds_Name = ''tv'',
          ds_Config = fmap_of_list [(''directory'', YStr ''d'')]\<rparr>]\<rparr>)
     \<lparr>opt_LabelTagPrefix = [], opt_MinRuntimeVersion = ''2.3''\<rparr>)"

lemma hidden_strategy_panics:
  "snd (secureTokenVaultCallbackRoute (convertCredentialManagers hidden_strategy)) = Panic ''index out of range''"
  by code_simp

end
