(* ===== verification/Agents.thy ===== *)
theory Agents
  imports Entities Routes Auth_Strategies
begin

text \<open>
  Agents (\<open>src/convert/agent.go\<close>): a Service with one Route, the policies and the authentication of
  the agent on the route, and an ai-a2a-proxy plugin for an \<open>a2a\<close> agent.
\<close>

section \<open>Definitions\<close>

definition a2aPlugin :: "ConversionIssueSource \<Rightarrow> Agent \<Rightarrow> converter \<Rightarrow> (converter \<times> outcome) \<times> Plugin" where
  "a2aPlugin src a c =
     (let cfg = fmempty;
          logging = map_option (fmdrop ''log_audits'')
            (loggingBlock (Some (withLoggingDefaults (agc_Logging (agt_Config a)) False True)));
          cfg = setIfNotEmptyMap ''logging'' (or_else logging fmempty) cfg;
          cfg = setInt cfg ''max_request_body_size'' (agc_MaxRequestBodySize (agt_Config a));
          cfg = set_opt cfg ''proxy_config'' (map_option YMap (proxyConfigBlock (agc_Proxy (agt_Config a))))
      in case upstreamAuthBlock src (agc_Upstream (agt_Config a)) c of
           ((c, Done), auth) \<Rightarrow>
             ((c, Done), empty_plugin\<lparr>pl_Name := ''ai-a2a-proxy'',
                pl_Config := set_opt cfg ''auth'' (map_option YMap auth)\<rparr>)
         | ((c, oc), _) \<Rightarrow> ((c, oc), empty_plugin))"

definition agent_plugins :: "ConversionIssueSource \<Rightarrow> Agent \<Rightarrow> converter \<Rightarrow> (converter \<times> outcome) \<times> Plugin list" where
  "agent_plugins src a c =
     (if agt_Type a = ''a2a'' then
        (case a2aPlugin src a c of
           ((c, Done), plugin) \<Rightarrow>
             ((c, Done), [plugin\<lparr>pl_Source := source ''agent'' (agt_Name a) ''config''
                [field_mapping ''config.proxy_config'' ''config.proxy'',
                 field_mapping ''config.auth'' ''config.upstream.auth'']\<rparr>])
         | ((c, oc), _) \<Rightarrow> ((c, oc), []))
      else if agt_Type a = ''http'' then ((c, Done), [])
      else ((warn (src_at src [''type'']) ConfigFieldOverridden
               (''agent %q has unknown type %q; treating as plain http proxy'', [agt_Name a, agt_Type a]) c, Done), []))"

definition agent_service :: "Agent \<Rightarrow> Route \<Rightarrow> converter \<Rightarrow> Service" where
  "agent_service a route c =
     empty_service\<lparr>svc_Name := agt_Name a, svc_ID := agt_ID a, svc_URL := agc_URL (agt_Config a),
       svc_Routes := [route], svc_Tags := labelsToTags c (agt_Labels a),
       svc_Source := serviceURLSource ''agent'' (agt_Name a),
       svc_Enabled := (if agt_Enabled a = Some False then Some False else None)\<rparr>"

definition convertAgent :: "ConversionIssueSource \<Rightarrow> Agent \<Rightarrow> converter step" where
  "convertAgent src a c =
     (if agc_URL (agt_Config a) = [] then
        fail (src_at src [''config.url'']) MissingRequiredConfigField
          (''agent %q has no config.url; the Service needs an upstream'', [agt_Name a]) c
      else
        let route = (buildRoute (agc_Route (agt_Config a)) (agt_Name a))
              \<lparr>rt_Source := source ''agent'' (agt_Name a) ''config.route'' []\<rparr>
        in case scopedPlugins src (agt_Policies a) (agt_ACLs a) c of
             (c, None) \<Rightarrow> (c, SkipEntity)
           | (c, Some policies) \<Rightarrow>
               (case scopedAuthStrategyPlugins src 0 (agt_AuthStrategies a) [] [] c of
                  ((c, Done), auth) \<Rightarrow>
                    (case agent_plugins src a c of
                       ((c, Done), ps) \<Rightarrow>
                         (let c = (if auth \<noteq> [] then ensureAnonymousConsumer c else c);
                              route = route\<lparr>rt_Plugins := sourceScopedPlugins policies ''agent'' (agt_Name a) @ auth @ ps\<rparr>;
                              (c, svc) = applyUpstreamTLS src (agent_service a route c)
                                (agc_Certificates (agt_Config a)) (agc_CACertificates (agt_Config a)) c
                          in (c\<lparr>cv_out := (cv_out c)\<lparr>doc_Services := doc_Services (cv_out c) @ [svc]\<rparr>\<rparr>, Done))
                     | ((c, oc), _) \<Rightarrow> (c, oc))
                | ((c, oc), _) \<Rightarrow> (c, oc)))"

definition convertAgents :: "converter \<Rightarrow> converter" where
  "convertAgents c =
     fold (\<lambda>a. convertEntity (issueSource kindAgent (agt_Name a)) (convertAgent (issueSource kindAgent (agt_Name a)) a))
       (sd_Agents (cn_src c)) c"

section \<open>What the steps of an agent may change\<close>

text \<open>The Token Vault part of an auth strategy touches the top-level routes, the consumers and the list
  of strategies only: what it keeps is the rest of the document.\<close>

definition kept :: "Document \<Rightarrow> Document" where
  "kept d = d\<lparr>doc_Routes := [], doc_Consumers := [], doc_TokenVaultAuthStrategies := []\<rparr>"

lemma kept_upd [simp]:
  "kept (d\<lparr>doc_Routes := rs\<rparr>) = kept d" "kept (d\<lparr>doc_Consumers := cs\<rparr>) = kept d"
  "kept (d\<lparr>doc_TokenVaultAuthStrategies := ts\<rparr>) = kept d"
  by (simp_all add: kept_def)

lemma kept_Services: "kept d = kept d' \<Longrightarrow> doc_Services d = doc_Services d' \<and> doc_Certificates d = doc_Certificates d' \<and>
    doc_CACertificates d = doc_CACertificates d' \<and> doc_Plugins d = doc_Plugins d'"
  by (cases d; cases d') (simp add: kept_def)

text \<open>The tables that no entity after the models touches.\<close>

definition same_tables :: "Document \<Rightarrow> Document \<Rightarrow> bool" where
  "same_tables d d' \<longleftrightarrow>
     doc_Plugins d' = doc_Plugins d \<and> doc_AIModels d' = doc_AIModels d \<and> doc_CustomPlugins d' = doc_CustomPlugins d \<and>
     doc_Vaults d' = doc_Vaults d \<and> doc_ConsumerGroups d' = doc_ConsumerGroups d"

lemma kept_tables: "kept d' = kept d \<Longrightarrow> same_tables d d'"
  by (cases d; cases d') (simp add: kept_def same_tables_def)

lemma same_tables_trans: "same_tables a b \<Longrightarrow> same_tables b c \<Longrightarrow> same_tables a c"
  by (simp add: same_tables_def)

lemma tv_out [simp]:
  "cv_out (tv_report s i code f r c) = cv_out c"
  "cv_out (snd (tv_remove1 s i f b)) = cv_out (snd b)" "cv_out (snd (tv_set s i f v b)) = cv_out (snd b)"
  "cv_out (snd (tv_forceAuthMethods s i w ms b)) = cv_out (snd b)"
  by (cases b; simp add: tv_report_def tv_remove1_def tv_set_def tv_forceAuthMethods_def Let_def)+

lemma tv_remove_out [simp]: "cv_out (snd (tv_remove s i fs b)) = cv_out (snd b)"
  unfolding tv_remove_def by (rule fold_invariant_set [where P = "\<lambda>b'. cv_out (snd b') = cv_out (snd b)"]) simp_all

lemma failUnsupported_out [simp]: "cv_out (fst (failUnsupported s f fld c)) = cv_out c"
  by (simp add: failUnsupported_def reportUnsupported_def)

lemma tv_out_chain:
  "cv_out (snd b) = d \<Longrightarrow> cv_out (snd (tv_remove s i fs b)) = d"
  "cv_out (snd b) = d \<Longrightarrow> cv_out (snd (tv_set s i f v b)) = d"
  "cv_out (snd b) = d \<Longrightarrow> cv_out (snd (tv_forceAuthMethods s i w ms b)) = d"
  "cv_out (snd b) = d \<Longrightarrow> cv_out (snd (apfst g b)) = d"
  "cv_out (snd b) = d \<Longrightarrow> cv_out (snd (apsnd (tv_report s i code f r) b)) = d"
  by simp_all

lemma tv_out_let:
  "cv_out (snd b) = d \<Longrightarrow> (\<And>b. cv_out (snd b) = d \<Longrightarrow> cv_out (snd (f b)) = d) \<Longrightarrow> cv_out (snd (Let b f)) = d"
  "(\<And>x. cv_out (snd (g x)) = d) \<Longrightarrow> cv_out (snd (Let (t :: yval option) g)) = d"
  by (simp_all add: Let_def)

lemma tv_out_branch:
  "cv_out (snd a) = d \<Longrightarrow> cv_out (snd b) = d \<Longrightarrow> cv_out (snd (if P then a else b)) = d"
  "cv_out (snd a) = d \<Longrightarrow> (\<And>x. cv_out (snd (f x)) = d) \<Longrightarrow> cv_out (snd (case y of None \<Rightarrow> a | Some x \<Rightarrow> f x)) = d"
  by (auto split: option.split)

lemma tv_configs_out [simp]:
  "cv_out (snd (tvManagerOIDCConfig s i c)) = cv_out c"
  "cv_out (snd (tvManagerLoginOIDCConfig s i c)) = cv_out c"
  "cv_out (snd (tvEnrollmentOIDCConfig s i c)) = cv_out c"
  unfolding tvManagerOIDCConfig_def tvManagerLoginOIDCConfig_def tvEnrollmentOIDCConfig_def
  by (intro tv_out_let tv_out_chain tv_out_branch; simp)+

lemma callback_route_kept [simp]:
  "kept (cv_out (fst (ensureTokenVaultCallbackRoute s f o' ds rs c))) = kept (cv_out c)"
  by (auto simp: ensureTokenVaultCallbackRoute_def split: prod.split option.split list.split)

lemma datastore_kept [simp]:
  "cv_out (fst (fst (authStrategyTokenVaultDatastore s i b c))) = cv_out c"
  by (auto simp: authStrategyTokenVaultDatastore_def split: option.split list.split)

lemma ensureManager_kept [simp]: "kept (cv_out (ensureManagerAnonymousConsumer c)) = kept (cv_out c)"
  by (simp add: ensureManagerAnonymousConsumer_def)

lemma ensureAnonymous_kept [simp]: "kept (cv_out (ensureAnonymousConsumer c)) = kept (cv_out c)"
  by (simp add: ensureAnonymousConsumer_def Let_def)

lemma credential_route_kept: "kept (cv_out (fst (credentialManagerRoute s i ds c))) = kept (cv_out c)"
proof -
  obtain cfg1 c1 where p: "tvManagerOIDCConfig s i c = (cfg1, c1)" by (cases "tvManagerOIDCConfig s i c")
  obtain cfg2 c2 where l: "tvManagerLoginOIDCConfig s i c1 = (cfg2, c2)" by (cases "tvManagerLoginOIDCConfig s i c1")
  have "cv_out c1 = cv_out c" "cv_out c2 = cv_out c1"
    using tv_configs_out(1) [of s i c] tv_configs_out(2) [of s i c1] p l by simp_all
  then show ?thesis using p l by (auto simp: credentialManagerRoute_def Let_def split: prod.split option.split)
qed

lemma token_vault_kept [simp]: "kept (cv_out (fst (applyAuthStrategyTokenVault idp c))) = kept (cv_out c)"
proof -
  let ?src = "issueSource kindAuthStrategy (ast_Name idp)"
  let ?e = "credential_manager_enabled idp"
  obtain c1 oc d where ds: "authStrategyTokenVaultDatastore ?src idp ?e c = ((c1, oc), d)"
    by (metis prod.exhaust)
  have o1: "cv_out c1 = cv_out c" using datastore_kept [of ?src idp ?e c] ds by simp
  show ?thesis
  proof (cases d)
    case None
    then show ?thesis using ds o1 by (simp add: applyAuthStrategyTokenVault_def Let_def)
  next
    case (Some d')
    let ?c2 = "c1\<lparr>cv_out := (cv_out c1)\<lparr>doc_TokenVaultAuthStrategies :=
       append_new (doc_TokenVaultAuthStrategies (cv_out c1)) (ast_Name idp)\<rparr>\<rparr>"
    obtain c3 oc3 where cb: "ensureTokenVaultCallbackRoute (src_at ?src [''datastores[0].name'']) ''auth strategy %q''
        [ast_Name idp] d' (source kindAuthStrategy (ast_Name idp) ''datastores'' []) ?c2 = (c3, oc3)"
      by (metis prod.exhaust)
    have "kept (cv_out c3) = kept (cv_out ?c2)"
      using callback_route_kept cb by (metis fst_conv)
    then have "kept (cv_out c3) = kept (cv_out c)" using o1 by simp
    then show ?thesis
      using ds Some cb o1 by (auto simp: applyAuthStrategyTokenVault_def Let_def credential_route_kept split: outcome.split)
  qed
qed

lemma overrides_out [simp]: "cv_out (warnAuthStrategyOverrides idp c) = cv_out c"
  by (simp add: warnAuthStrategyOverrides_def Let_def)

lemma scopedAuth_kept: "kept (cv_out (fst (fst (scopedAuthStrategyPlugins src i refs seen plugins c)))) = kept (cv_out c)"
proof (induction src i refs seen plugins c rule: scopedAuthStrategyPlugins.induct)
  case (2 src i ref refs seen plugins c)
  show ?case
  proof (cases "ref \<in> set seen \<or> fmlookup (cn_authStrategies c) ref = None")
    case True
    then show ?thesis using 2(1) by (auto simp: fail_def)
  next
    case False
    then obtain idp where new: "ref \<notin> set seen" and idp: "fmlookup (cn_authStrategies c) ref = Some idp" by auto
    obtain c2 oc where tv: "applyAuthStrategyTokenVault idp (warnAuthStrategyOverrides idp c) = (c2, oc)"
      by (metis prod.exhaust)
    have k: "kept (cv_out c2) = kept (cv_out c)"
      using token_vault_kept [of idp "warnAuthStrategyOverrides idp c"] tv by simp
    show ?thesis
    proof (cases "ast_Type idp \<in> set authPolicyTypes \<and> oc = Done")
      case True
      then show ?thesis using 2(2) [OF new idp, of c Done c2 oc "authStrategyPlugin idp" "entity_auth_plugin src idp"]
          new idp tv k by (simp add: checkAuthStrategyType_def entity_auth_plugin_def Let_def)
    next
      case False
      then show ?thesis using new idp tv k
        by (cases "ast_Type idp \<in> set authPolicyTypes") (auto simp: checkAuthStrategyType_def fail_def split: outcome.split)
    qed
  qed
qed simp

text \<open>The TLS part of a Service assigns certificate ids and sets two fields of the Service.\<close>

lemma no_update [simp]:
  "\<exists>x. d = d\<lparr>doc_Certificates := x\<rparr>" "\<exists>x. d = d\<lparr>doc_CACertificates := x\<rparr>"
  "\<exists>x. s = s\<lparr>svc_ClientCertificate := x\<rparr>" "\<exists>x. s = s\<lparr>svc_CACertificates := x\<rparr>"
  "\<exists>x y. d = d\<lparr>doc_Certificates := x, doc_CACertificates := y\<rparr>"
  "\<exists>x y. s = s\<lparr>svc_ClientCertificate := x, svc_CACertificates := y\<rparr>"
  by (rule exI [of _ "doc_Certificates d"], simp, rule exI [of _ "doc_CACertificates d"], simp,
      rule exI [of _ "svc_ClientCertificate s"], simp, rule exI [of _ "svc_CACertificates s"], simp,
      rule exI [of _ "doc_Certificates d"], rule exI [of _ "doc_CACertificates d"], simp,
      rule exI [of _ "svc_ClientCertificate s"], rule exI [of _ "svc_CACertificates s"], simp)

lemma client_cert_frame:
  assumes "apply_client_cert src certs svc c = (c', svc')"
  shows "reports c c' \<and> same_env c c' \<and> (\<exists>cs. cv_out c' = (cv_out c)\<lparr>doc_Certificates := cs\<rparr>) \<and>
    (\<exists>x. svc' = svc\<lparr>svc_ClientCertificate := x\<rparr>)"
proof (cases certs)
  case Nil
  then show ?thesis using assms by (simp add: apply_client_cert_def)
next
  case (Cons first rest)
  define c1 where "c1 = (if rest = [] then c else warn (src_at src [''config.certificates'']) ConfigFieldDropped
      (''%s %q sets %d certificates, but a Service presents one client certificate; only %q is used'',
       [is_Kind src, is_Name src, dec (length certs), first]) c)"
  have c1: "reports c c1" "same_env c c1" "cv_out c1 = cv_out c" by (simp_all add: c1_def same_env_iff)
  obtain cs i where sc: "scan_certs first (doc_Certificates (cv_out c)) = (cs, i)" by (metis prod.exhaust)
  let ?c2 = "c1\<lparr>cv_out := (cv_out c)\<lparr>doc_Certificates := cs\<rparr>\<rparr>"
  have id: "certificateID first c1 = (?c2, i)" using sc c1 by (simp add: certificateID_def)
  have c2: "reports c ?c2" "same_env c ?c2" using c1 by simp_all
  have step: "apply_client_cert src certs svc c =
      (case certificateID first c1 of
         (c, Some i) \<Rightarrow> (c, svc\<lparr>svc_ClientCertificate := fmap_of_list [(''id'', i)]\<rparr>)
       | (c, None) \<Rightarrow> (reportError (src_at src [''config.certificates[0]'']) UndefinedReference
             (''%s %q references unknown certificate %q'', [is_Kind src, is_Name src, first]) c, svc))"
    unfolding apply_client_cert_def Cons c1_def Let_def list.case by (rule refl)
  have "reports c (reportError s code r ?c2)" "same_env c (reportError s code r ?c2)" for s code r
    using reports_trans [OF c2(1) reportError_frame(2)] c2(2) by (simp_all add: same_env_iff)
  then show ?thesis
    using assms c2 unfolding step id by (cases i) auto
qed

lemma ca_certs_frame:
  "apply_ca_certs src i names svc c = (c', svc') \<Longrightarrow>
   reports c c' \<and> same_env c c' \<and> (\<exists>cas. cv_out c' = (cv_out c)\<lparr>doc_CACertificates := cas\<rparr>) \<and>
   (\<exists>xs. svc' = svc\<lparr>svc_CACertificates := xs\<rparr>)"
proof (induction names arbitrary: i svc c)
  case (Cons name names)
  obtain cs id where sc: "scan_ca_certs name (sd_CACertificates (cn_src c)) (doc_CACertificates (cv_out c)) = (cs, id)"
    by (metis prod.exhaust)
  let ?c2 = "c\<lparr>cv_out := (cv_out c)\<lparr>doc_CACertificates := cs\<rparr>\<rparr>"
  have ca: "caCertificateID name c = (?c2, id)" using sc by (simp add: caCertificateID_def)
  show ?case
  proof (cases id)
    case None
    let ?c3 = "reportError (src_at src [at ''config.ca_certificates'' i]) UndefinedReference
        (''%s %q references unknown CA certificate %q'', [is_Kind src, is_Name src, name]) ?c2"
    have c3: "reports c ?c3" "same_env c ?c3" "cv_out ?c3 = (cv_out c)\<lparr>doc_CACertificates := cs\<rparr>"
      using reports_trans [of c ?c2 ?c3] by (simp_all add: same_env_iff)
    have "apply_ca_certs src (Suc i) names svc ?c3 = (c', svc')" using Cons.prems ca None by simp
    from Cons.IH [OF this] show ?thesis
      using c3 reports_trans [OF c3(1)] same_env_trans [OF c3(2)] by (auto simp: Document.defs)
  next
    case (Some id')
    have c2: "reports c ?c2" "same_env c ?c2" by simp_all
    have "apply_ca_certs src (Suc i) names (svc\<lparr>svc_CACertificates := svc_CACertificates svc @ [id']\<rparr>) ?c2 = (c', svc')"
      using Cons.prems ca Some by simp
    from Cons.IH [OF this] show ?thesis
      using reports_trans [OF c2(1)] same_env_trans [OF c2(2)] by auto
  qed
qed simp

lemma upstream_tls_frame:
  assumes "applyUpstreamTLS src svc certs caCerts c = (c', svc')"
  shows "reports c c' \<and> same_env c c' \<and>
    (\<exists>cs cas. cv_out c' = (cv_out c)\<lparr>doc_Certificates := cs, doc_CACertificates := cas\<rparr>) \<and>
    (\<exists>x xs. svc' = svc\<lparr>svc_ClientCertificate := x, svc_CACertificates := xs\<rparr>)"
proof -
  obtain c1 svc1 where cl: "apply_client_cert src certs svc c = (c1, svc1)" by (metis prod.exhaust)
  note f1 = client_cert_frame [OF this]
  consider "(c', svc') = (c, svc)" | r where "(c', svc') = (reportError (src_at src [''config.certificates'', ''config.ca_certificates'']) ConfigFieldInvalid r c, svc)"
    | "apply_ca_certs src 0 caCerts svc1 c1 = (c', svc')"
    using assms [symmetric] cl unfolding applyUpstreamTLS_def
    by (cases "certs = [] \<and> caCerts = []";
        cases "case url_Parse (svc_URL svc) of None \<Rightarrow> False | Some u \<Rightarrow> u_Scheme u = ''https''") simp_all
  then show ?thesis
  proof cases
    case 3
    note f2 = ca_certs_frame [OF this]
    obtain cs cas x xs where "cv_out c1 = (cv_out c)\<lparr>doc_Certificates := cs\<rparr>" "cv_out c' = (cv_out c1)\<lparr>doc_CACertificates := cas\<rparr>"
      "svc1 = svc\<lparr>svc_ClientCertificate := x\<rparr>" "svc' = svc1\<lparr>svc_CACertificates := xs\<rparr>"
      using f1 f2 by auto
    then have "cv_out c' = (cv_out c)\<lparr>doc_Certificates := cs, doc_CACertificates := cas\<rparr>"
      "svc' = svc\<lparr>svc_ClientCertificate := x, svc_CACertificates := xs\<rparr>" by simp_all
    then show ?thesis using f1 f2 reports_trans same_env_trans by blast
  qed (simp_all add: same_env_iff)
qed

section \<open>An agent is published with its access control\<close>

lemma only_issues_auth_env: "only_issues c c' \<Longrightarrow> auth_env c c'"
  by (cases c; cases c') (auto simp: only_issues_def auth_env_def reports_def)

lemma upstreamAuthBlock_step:
  "only_issues c (fst (fst (upstreamAuthBlock src u c)))" "explained (fst (upstreamAuthBlock src u c))"
  by (auto simp: upstreamAuthBlock_def Let_def split: option.split)

lemma a2aPlugin_step:
  "only_issues c (fst (fst (a2aPlugin src a c))) \<and> explained (fst (a2aPlugin src a c))"
proof -
  obtain c1 oc auth where u: "upstreamAuthBlock src (agc_Upstream (agt_Config a)) c = ((c1, oc), auth)"
    by (metis prod.exhaust)
  have "only_issues c c1" "explained (c1, oc)"
    using upstreamAuthBlock_step u by (metis fst_conv)+
  then show ?thesis using u by (cases oc) (simp_all add: a2aPlugin_def Let_def)
qed

lemma a2aPlugin_name:
  assumes "a2aPlugin src a c = ((c', Done), p)"
  shows "pl_Name p = ''ai-a2a-proxy''"
proof -
  obtain c1 oc auth where u: "upstreamAuthBlock src (agc_Upstream (agt_Config a)) c = ((c1, oc), auth)"
    by (metis prod.exhaust)
  then show ?thesis using assms by (cases oc) (auto simp: a2aPlugin_def Let_def)
qed

lemma agent_plugins_step:
  assumes "agent_plugins src a c = ((c', oc), ps)"
  shows "only_issues c c' \<and> explained (c', oc) \<and>
    (oc = Done \<longrightarrow> map pl_Name ps = (if agt_Type a = ''a2a'' then [''ai-a2a-proxy''] else []))"
proof (cases "agt_Type a = ''a2a''")
  case True
  obtain c1 oc1 p where a: "a2aPlugin src a c = ((c1, oc1), p)" by (metis prod.exhaust)
  have s: "only_issues c c1" "explained (c1, oc1)"
    using a2aPlugin_step [of c src a] a by simp_all
  show ?thesis
    using assms True a s a2aPlugin_name [of src a c c1 p] by (cases oc1) (auto simp: agent_plugins_def)
next
  case False
  then show ?thesis using assms by (auto simp: agent_plugins_def split: if_splits)
qed

lemma ensureAnonymous_reports [simp]: "reports c (ensureAnonymousConsumer c')  \<longleftrightarrow> reports c c'"
  by (simp add: ensureAnonymousConsumer_def Let_def)

definition anonymous_rejected :: "Document \<Rightarrow> bool" where
  "anonymous_rejected d \<longleftrightarrow>
     (\<exists>co \<in> set (doc_Consumers d). is_named_consumer anonymousConsumerName co) \<and>
     (\<forall>co \<in> set (doc_Consumers d). is_named_consumer anonymousConsumerName co \<longrightarrow> terminates co)"

lemma ensureAnonymous_rejects: "anonymous_rejected (cv_out (ensureAnonymousConsumer c))"
proof -
  let ?named = "is_named_consumer anonymousConsumerName"
  let ?fix = "\<lambda>co. if ?named co then co\<lparr>co_Plugins := fst (withPlugin (co_Plugins co) requestTerminationPlugin)\<rparr> else co"
  let ?new = "\<lparr>co_ID = [], co_Username = anonymousConsumerName, co_CustomID = anonymousConsumerName,
       co_Groups = [], co_KeyAuthCredentials = [], co_Plugins = [requestTerminationPlugin], co_Tags = []\<rparr>"
  have new: "?named ?new" "terminates ?new"
    by (simp_all add: is_named_consumer_def terminates_def requestTerminationPlugin_def empty_plugin_def)
  have fixed: "?named (?fix co) = ?named co" "?named co \<Longrightarrow> terminates (?fix co)" for co
    using withPlugin_terminates by auto
  define cos where "cos = doc_Consumers (cv_out c)"
  have out: "doc_Consumers (cv_out (ensureAnonymousConsumer c)) =
      (if list_ex ?named cos then map ?fix cos else map ?fix cos @ [?new])"
    by (simp add: ensureAnonymousConsumer_def Let_def cos_def)
  show ?thesis
  proof (cases "list_ex ?named cos")
    case True
    then obtain co where co: "co \<in> set cos" "?named co" by (auto simp: list_ex_iff)
    then have "?fix co \<in> set (map ?fix cos)" unfolding set_map by (intro imageI)
    moreover have "?named (?fix co)" using co(2) fixed(1) by blast
    moreover have "\<forall>x \<in> set (map ?fix cos). ?named x \<longrightarrow> terminates x"
      using fixed withPlugin_terminates by auto
    ultimately show ?thesis unfolding anonymous_rejected_def out if_P [OF True] by (intro conjI bexI)
  next
    case False
    have "\<forall>x \<in> set (map ?fix cos @ [?new]). ?named x \<longrightarrow> terminates x"
      using withPlugin_terminates new by auto
    moreover have "?new \<in> set (map ?fix cos @ [?new])" by simp
    ultimately show ?thesis unfolding anonymous_rejected_def out if_not_P [OF False]
      using new(1) by (intro conjI bexI)
  qed
qed

text \<open>What a published agent looks like, as a function of the source.\<close>

definition agent_published :: "ConversionIssueSource \<Rightarrow> Agent \<Rightarrow> converter \<Rightarrow> converter \<Rightarrow> bool" where
  "agent_published src a c c' \<longleftrightarrow>
     (\<exists>svc route ps.
        doc_Services (cv_out c') = doc_Services (cv_out c) @ [svc] \<and>
        svc_Name svc = agt_Name a \<and> svc_URL svc = agc_URL (agt_Config a) \<and> svc_URL svc \<noteq> [] \<and>
        (svc_Enabled svc = Some False \<longleftrightarrow> agt_Enabled a = Some False) \<and>
        svc_Routes svc = [route] \<and>
        route\<lparr>rt_Plugins := [], rt_Source := None\<rparr> = buildRoute (agc_Route (agt_Config a)) (agt_Name a) \<and>
        rt_Plugins route = sourceScopedPlugins (entity_plugins (agt_Policies a) (agt_ACLs a) c) ''agent'' (agt_Name a) @
          map (strategy_plugin src c) (first_refs [] (agt_AuthStrategies a)) @ ps \<and>
        map pl_Name ps = (if agt_Type a = ''a2a'' then [''ai-a2a-proxy''] else [])) \<and>
     \<not> entity_refused src (agt_Policies a) (agt_ACLs a) c \<and>
     (\<forall>r \<in> set (agt_AuthStrategies a). strategy_ok c r) \<and>
     (agt_AuthStrategies a \<noteq> [] \<longrightarrow> anonymous_rejected (cv_out c')) \<and>
     same_tables (cv_out c) (cv_out c')"

lemma convertAgent_result:
  assumes run: "convertAgent src a c = (c', oc)"
  shows "reports c c' \<and> explained (c', oc) \<and> (oc = Done \<longrightarrow> agent_published src a c c')"
proof (cases "agc_URL (agt_Config a) = []")
  case True
  then show ?thesis using run by (auto simp: convertAgent_def fail_def explained_def)
next
  case url: False
  define route0 where "route0 = (buildRoute (agc_Route (agt_Config a)) (agt_Name a))
      \<lparr>rt_Source := source ''agent'' (agt_Name a) ''config.route'' []\<rparr>"
  obtain c1 r where sp: "scopedPlugins src (agt_Policies a) (agt_ACLs a) c = (c1, r)" by (metis prod.exhaust)
  have o1: "only_issues c c1" and r: "r = (if entity_refused src (agt_Policies a) (agt_ACLs a) c then None
      else Some (entity_plugins (agt_Policies a) (agt_ACLs a) c))"
    using scopedPlugins_only_issues [of c src "agt_Policies a" "agt_ACLs a"]
      scopedPlugins_value [of src "agt_Policies a" "agt_ACLs a" c] sp by simp_all
  show ?thesis
  proof (cases r)
    case None
    then have "HasErrors (cv_issues c1)"
      using scopedPlugins_errors [of src "agt_Policies a" "agt_ACLs a" c] r sp by (auto split: if_splits)
    then show ?thesis using run url sp None only_issues_reports [OF o1]
      by (auto simp: convertAgent_def Let_def explained_def)
  next
    case (Some policies)
    obtain c2 oc2 auth where sa: "scopedAuthStrategyPlugins src 0 (agt_AuthStrategies a) [] [] c1 = ((c2, oc2), auth)"
      by (metis prod.exhaust)
    have as: "auth_spec src (agt_AuthStrategies a) [] [] c1 ((c2, oc2), auth)"
      using scopedAuth_spec [of src "agt_AuthStrategies a" "[]" "[]" c1 0] sa by simp
    have k2: "kept (cv_out c2) = kept (cv_out c)"
      using scopedAuth_kept [of src 0 "agt_AuthStrategies a" "[]" "[]" c1] sa o1 by (simp add: only_issues_iff)
    have r2: "reports c c2"
      using as only_issues_reports [OF o1] reports_trans by (auto simp: auth_spec_def auth_env_def)
    show ?thesis
    proof (cases "oc2 = Done")
      case False
      then show ?thesis using run url sp Some sa r2 as
        by (auto simp: convertAgent_def Let_def auth_spec_def split: outcome.splits)
    next
      case True
      obtain c3 oc3 ps where ap: "agent_plugins src a c2 = ((c3, oc3), ps)" by (metis prod.exhaust)
      have o3: "only_issues c2 c3" "explained (c3, oc3)"
        "oc3 = Done \<Longrightarrow> map pl_Name ps = (if agt_Type a = ''a2a'' then [''ai-a2a-proxy''] else [])"
        using agent_plugins_step [OF ap] by simp_all
      have r3: "reports c c3" using r2 only_issues_reports [OF o3(1)] reports_trans by blast
      show ?thesis
      proof (cases "oc3 = Done")
        case False
        then show ?thesis using run url sp Some sa True ap r3 o3
          by (auto simp: convertAgent_def Let_def split: outcome.splits)
      next
        case ok: True
        define c4 where "c4 = (if auth \<noteq> [] then ensureAnonymousConsumer c3 else c3)"
        define route where "route = route0\<lparr>rt_Plugins := sourceScopedPlugins policies ''agent'' (agt_Name a) @ auth @ ps\<rparr>"
        obtain c5 svc where tls: "applyUpstreamTLS src (agent_service a route c4) (agc_Certificates (agt_Config a))
            (agc_CACertificates (agt_Config a)) c4 = (c5, svc)" by (metis prod.exhaust)
        have c': "c' = c5\<lparr>cv_out := (cv_out c5)\<lparr>doc_Services := doc_Services (cv_out c5) @ [svc]\<rparr>\<rparr>" and oc: "oc = Done"
          using run url sp Some sa True ap ok tls
          by (simp_all add: convertAgent_def Let_def route_def route0_def c4_def)
        note f = upstream_tls_frame [OF tls]
        have "reports c c4" using r3 by (simp add: c4_def)
        then have "reports c c'" using f reports_trans unfolding c' by (auto simp: reports_def)
        moreover have "agent_published src a c c'"
        proof -
          have env: "auth_env c c1" by (rule only_issues_auth_env [OF o1])
          have strat: "\<forall>r \<in> set (agt_AuthStrategies a). strategy_ok c r"
            "auth = map (strategy_plugin src c) (first_refs [] (agt_AuthStrategies a))"
            using as True strategy_env [OF env] by (auto simp: auth_spec_def)
          have k4: "kept (cv_out c4) = kept (cv_out c)" using k2 o3(1) by (simp add: c4_def only_issues_iff)
          then have docs: "doc_Services (cv_out c') = doc_Services (cv_out c) @ [svc]"
            "same_tables (cv_out c) (cv_out c')"
            using f kept_Services [OF k4] kept_tables [OF k4] unfolding c' by (auto simp: same_tables_def)
          have refused: "\<not> entity_refused src (agt_Policies a) (agt_ACLs a) c"
            "policies = entity_plugins (agt_Policies a) (agt_ACLs a) c"
            using r Some by (simp_all split: if_splits)
          have ne: "auth \<noteq> []" if "agt_AuthStrategies a \<noteq> []"
            using that strat(2) by (cases "agt_AuthStrategies a") simp_all
          have anon: "anonymous_rejected (cv_out c')" if "agt_AuthStrategies a \<noteq> []"
          proof -
            have "anonymous_rejected (cv_out (ensureAnonymousConsumer c3))" by (rule ensureAnonymous_rejects)
            then show ?thesis using f ne [OF that] unfolding c' by (auto simp: c4_def anonymous_rejected_def)
          qed
          have svc: "svc_Name svc = agt_Name a" "svc_URL svc = agc_URL (agt_Config a)" "svc_Routes svc = [route]"
            "svc_Enabled svc = Some False \<longleftrightarrow> agt_Enabled a = Some False"
            using f by (auto simp: agent_service_def split: if_splits)
          have rt: "route\<lparr>rt_Plugins := [], rt_Source := None\<rparr> = buildRoute (agc_Route (agt_Config a)) (agt_Name a)"
            by (simp add: route_def route0_def buildRoute_def route_of_def)
          show ?thesis
            unfolding agent_published_def
            using docs svc rt refused strat anon o3(3) [OF ok] url by (auto simp: route_def)
        qed
        ultimately show ?thesis by (simp add: oc)
      qed
    qed
  qed
qed

interpretation agent: entity_step "convertAgent src a" for src a
proof unfold_locales
  fix c
  obtain c' oc where "convertAgent src a c = (c', oc)" by (metis prod.exhaust)
  from convertAgent_result [OF this] this
  show "reports c (fst (convertAgent src a c))"
    "snd (convertAgent src a c) = SkipEntity \<Longrightarrow> HasErrors (cv_issues (fst (convertAgent src a c)))"
    by (auto simp: explained_def)
qed

lemma agent_entity:
  "let c' = convertEntity src (convertAgent src a) c in
     reports c c' \<and>
     (agent_published src a c c' \<or> cv_out c' = cv_out c \<and> HasErrors (cv_issues c'))"
proof -
  obtain c1 oc where run: "convertAgent src a c = (c1, oc)" by (metis prod.exhaust)
  have "let c' = convertEntity src (convertAgent src a) c in reports c c' \<and>
      (if snd (convertAgent src a c) = Done then c' = fst (convertAgent src a c)
       else cv_out c' = cv_out c \<and> HasErrors (cv_issues c'))"
    by (rule agent.atomic)
  then show ?thesis
    using convertAgent_result [OF run] run by (cases "oc = Done") (simp_all add: Let_def)
qed

text \<open>C11: An agent is either left out, the output as before and an error recorded, or published with
  one enabled-as-configured Service and Route that carries the plugins of its policies, its acl
  plugin, one authentication plugin per strategy and, for an a2a agent, the proxy plugin; then all
  its references resolve, and with a strategy the anonymous consumer rejects.\<close>

theorem agent_published_guarded:
  "let c' = convertEntity src (convertAgent src a) c in
     reports c c' \<and>
     (agent_published src a c c' \<or> cv_out c' = cv_out c \<and> HasErrors (cv_issues c'))"
  by (rule agent_entity)

definition sample_agent :: Agent where
  "sample_agent = \<lparr>agt_ID = [], agt_Type = ''a2a'', agt_Name = ''a'', agt_Enabled = None, agt_Policies = [],
     agt_ACLs = no_acls\<lparr>acl_Allow := [''team'']\<rparr>, agt_AuthStrategies = [''k''],
     agt_Config = \<lparr>agc_URL = ''https://a.example'', agc_Route = RouteConfig.truncate empty_route,
       agc_MaxRequestBodySize = Some 8, agc_Logging = None, agc_Upstream = None, agc_Proxy = None,
       agc_Certificates = [''nope''], agc_CACertificates = []\<rparr>,
     agt_Labels = fmempty\<rparr>"

text \<open>The plugins of a protected agent, and the agent that is left out without its strategy.\<close>

lemma sample_agent_route:
  "map (map (map pl_Name \<circ> rt_Plugins) \<circ> svc_Routes) (doc_Services (cv_out (fst
     (convertAgent (issueSource kindAgent ''a'') sample_agent sample_auth)))) =
   [[[''acl'', ''key-auth'', ''ai-a2a-proxy'']]]"
  "snd (convertAgent (issueSource kindAgent ''a'') sample_agent sample_converter) = SkipEntity"
  by code_simp+

end
