(* ===== verification/Providers.thy ===== *)
theory Providers
  imports Auth_Strategies Route_Paths Gemini "HOL-Library.Multiset"
begin

text \<open>
  Model providers (\<open>src/convert/provider.go\<close>): the auth block and the options of an
  ai-proxy-advanced target, the embeddings of a semantic balancer, and the Token Vault of a provider.

  \<open>mapOptions\<close> ranges over a Go map, so it is a definition over an enumeration of the map
  (\<open>mapOptions_on\<close>), run over the sorted one.  A failed type assertion is the result None.
\<close>

section \<open>The auth block of a target\<close>

definition first_header :: "(AuthHeader \<Rightarrow> string) \<Rightarrow> ProviderAuth \<Rightarrow> string" where
  "first_header f a = (case pva_Headers a of [] \<Rightarrow> [] | h # _ \<Rightarrow> f h)"

definition first_param :: "(AuthParam \<Rightarrow> string) \<Rightarrow> ProviderAuth \<Rightarrow> string" where
  "first_param f a = (case pva_Params a of [] \<Rightarrow> [] | p # _ \<Rightarrow> f p)"

definition provider_auth :: "Provider \<Rightarrow> ymap" where
  "provider_auth p =
     (let a = pvc_Auth (pr_Config p);
          auth = fmempty;
          auth = setIfNotEmpty ''header_name'' (first_header ah_Name a) auth;
          auth = setIfNotEmpty ''header_value'' (first_header ah_Value a) auth;
          auth = setIfNotEmpty ''param_name'' (first_param ap_Name a) auth;
          auth = setIfNotEmpty ''param_value'' (first_param ap_Value a) auth;
          auth = setIfNotEmpty ''param_location'' (first_param ap_Location a) auth;
          auth = setIfNotEmpty ''aws_access_key_id'' (pva_AccessKeyID a) auth;
          auth = setIfNotEmpty ''aws_secret_access_key'' (pva_SecretAccessKey a) auth;
          auth = (if pr_Type p \<noteq> ''sagemaker'' then setIfNotEmpty ''aws_session_token'' (pva_AWSSessionToken a) auth
                  else auth);
          auth = setIfNotEmpty ''azure_client_id'' (pva_ClientID a) auth;
          auth = setIfNotEmpty ''azure_client_secret'' (pva_ClientSecret a) auth;
          auth = setIfNotEmpty ''azure_tenant_id'' (pva_TenantID a) auth;
          auth = setBool auth ''azure_use_managed_identity'' (pva_UseManagedIdentity a);
          auth = setIfNotEmpty ''gcp_service_account_json'' (pva_ServiceAccountJSON a) auth;
          auth = (case pva_UseGCPServiceAccount a of
                    Some b \<Rightarrow> fmupd ''gcp_use_service_account'' (YBool b) auth
                  | None \<Rightarrow>
                      if pva_Type a = ''gcp'' \<and> pva_ServiceAccountJSON a \<noteq> []
                      then fmupd ''gcp_use_service_account'' (YBool True) auth else auth);
          auth = setIfNotEmpty ''gcp_metadata_url'' (pva_MetadataURL a) auth;
          auth = setIfNotEmpty ''gcp_oauth_token_url'' (pva_OAuthTokenURL a) auth;
          auth = (case pva_WIF a of
                    None \<Rightarrow> auth
                  | Some wif \<Rightarrow>
                      (let auth = setIfNotEmpty ''gcp_workload_identity_federation_source'' (wif_Source wif) auth;
                           auth = setIfNotEmpty ''gcp_workload_identity_federation_auth_json'' (wif_AuthJSON wif) auth;
                           auth = setIfNotEmpty ''aws_access_key_id'' (wif_AWSAccessKeyID wif) auth;
                           auth = setIfNotEmpty ''aws_secret_access_key'' (wif_AWSSecretAccessKey wif) auth
                       in setIfNotEmpty ''aws_session_token'' (wif_AWSSessionToken wif) auth))
      in if pr_Type p = ''sagemaker'' then setIfNotEmpty ''aws_session_token'' (pva_SessionToken a) auth else auth)"

definition resolveAuth :: "Provider option \<Rightarrow> bool option \<Rightarrow> ymap option" where
  "resolveAuth p allowOverride =
     unless_empty (setBool (case p of None \<Rightarrow> fmempty | Some p \<Rightarrow> provider_auth p) ''allow_override'' allowOverride)"

section \<open>The options of a target\<close>

text \<open>Where the switch stores an option: in the options, or in the block of a provider.  Touch is
  the block that \<open>appendNested\<close> makes before it copies the fields.\<close>

datatype option_write = Put string yval | Add string string yval | Touch string

text \<open>The cases of the switch; None is the failed assertion of \<open>appendNested\<close>.\<close>

definition option_writes :: "string \<Rightarrow> string \<times> yval \<Rightarrow> option_write list option" where
  "option_writes providerType = (\<lambda>(k, v).
     if providerType = ''azure'' \<and> k = ''deployment_id'' then Some [Put ''azure_deployment_id'' v]
     else if providerType = ''azure'' \<and> k = ''api_version'' then Some [Put ''azure_api_version'' v]
     else if providerType = ''azure'' \<and> k = ''foundry_path_prefix'' then Some [Put ''azure_foundry_path_prefix'' v]
     else if providerType = ''anthropic'' \<and> k = ''version'' then Some [Put ''anthropic_version'' v]
     else if providerType = ''gemini'' \<and> k = ''gcp_environment'' then
       Some (case v of
               YMap env \<Rightarrow> map (\<lambda>(ek, ev). if ek \<in> set GeminiOptionKeys then Add ''gemini'' ek ev else Put ek ev)
                             (sorted_list_of_fmap env)
             | _ \<Rightarrow> [])
     else if providerType = ''bedrock'' \<and> k \<in> set BedrockOptionKeys then
       Some [Add ''bedrock'' (if k = ''region'' then ''aws_region'' else k) v]
     else if providerType = ''llama2'' \<and> k = ''format'' then Some [Put ''llama2_format'' v]
     else if providerType = ''mistral'' \<and> k = ''format'' then Some [Put ''mistral_format'' v]
     else if providerType = ''dashscope'' \<and> k = ''international'' then Some [Add ''dashscope'' k v]
     else if providerType = ''kimi'' \<and> k = ''international'' then Some [Add ''kimi'' k v]
     else if providerType = ''cohere'' \<and> k \<in> {''embedding_input_type'', ''wait_for_model'', ''api_version''} then
       Some [Add ''cohere'' k v]
     else if providerType = ''huggingface'' \<and> k \<in> {''use_cache'', ''wait_for_model''} then Some [Add ''huggingface'' k v]
     else if providerType = ''databricks'' \<and> k = ''workspace_instance_id'' then Some [Add ''databricks'' k v]
     else if providerType = ''sagemaker'' \<and> k \<in> {''aws'', ''target''} then
       (case v of
          YMap m \<Rightarrow> Some (Touch ''sagemaker'' #
            map (\<lambda>(mk, mv). Add ''sagemaker'' (k @ ''_'' @ mk) mv) (sorted_list_of_fmap m))
        | _ \<Rightarrow> None)
     else Some [Put k v])"

type_synonym option_state = "ymap \<times> (string, ymap) fmap"

definition addNested :: "string \<Rightarrow> string \<Rightarrow> yval \<Rightarrow> option_state \<Rightarrow> option_state" where
  "addNested prov key val = apsnd (\<lambda>nested. fmupd prov (fmupd key val (or_else (fmlookup nested prov) fmempty)) nested)"

definition apply_write :: "option_write \<Rightarrow> option_state \<Rightarrow> option_state" where
  "apply_write w s =
     (case w of
        Put k v \<Rightarrow> apfst (fmupd k v) s
      | Add prov key val \<Rightarrow> addNested prov key val s
      | Touch prov \<Rightarrow> apsnd (\<lambda>nested. fmupd prov (or_else (fmlookup nested prov) fmempty) nested) s)"

fun option_loop :: "string \<Rightarrow> (string \<times> yval) list \<Rightarrow> option_state \<Rightarrow> option_state option" where
  "option_loop providerType [] s = Some s"
| "option_loop providerType (kv # kvs) s =
     (case option_writes providerType kv of
        None \<Rightarrow> None
      | Some ws \<Rightarrow> option_loop providerType kvs (fold apply_write ws s))"

definition isBedrockAnthropicModelName :: "string \<Rightarrow> bool" where
  "isBedrockAnthropicModelName name = Contains (ToLower name) ''anthropic.claude''"

text \<open>\<open>m[k] == nil\<close>, and a guarded \<open>addNested\<close>.\<close>

definition is_nil :: "yval option \<Rightarrow> bool" where
  "is_nil v = (v = None \<or> v = Some YNull)"

definition add_str :: "string \<Rightarrow> string \<Rightarrow> string \<Rightarrow> option_state \<Rightarrow> option_state" where
  "add_str prov key v s = (if v \<noteq> [] then addNested prov key (YStr v) s else s)"

definition put_when :: "bool \<Rightarrow> string \<Rightarrow> string \<Rightarrow> option_state \<Rightarrow> option_state" where
  "put_when b k v s = (if b then apfst (fmupd k (YStr v)) s else s)"

definition nested_at :: "string \<Rightarrow> string \<Rightarrow> option_state \<Rightarrow> yval option" where
  "nested_at prov key s = fmlookup (or_else (fmlookup (snd s) prov) fmempty) key"

definition provider_options ::
  "ymap \<Rightarrow> string \<Rightarrow> string \<Rightarrow> bool \<Rightarrow> Provider \<Rightarrow> option_state \<Rightarrow> option_state"
where
  "provider_options opts providerType modelName passthrough provider s =
     (let pc = pr_Config provider; a = pvc_Auth pc;
          s = put_when (providerType = ''anthropic'' \<and> is_nil (fmlookup (fst s) ''anthropic_version'') \<and> \<not> passthrough)
                ''anthropic_version'' ''2023-06-01'' s;
          s = put_when (providerType = ''bedrock'' \<and> isBedrockAnthropicModelName modelName \<and>
                  is_nil (fmlookup (fst s) ''anthropic_version'') \<and> \<not> passthrough)
                ''anthropic_version'' ''bedrock-2023-05-31'' s;
          s = (if providerType = ''bedrock'' \<and> fmlookup opts ''endpoint_type'' = Some (YStr ''mantle'') \<and>
                  is_nil (nested_at ''bedrock'' ''mantle_openai_path_prefix'' s)
               then addNested ''bedrock'' ''mantle_openai_path_prefix'' (YStr (MantlePathPrefix modelName)) s else s);
          s = put_when (providerType = ''azure'' \<and> pvc_Instance pc \<noteq> []) ''azure_instance'' (pvc_Instance pc) s;
          s = put_when (providerType = ''azure'' \<and> pvc_Service pc = ''azure-foundry'') ''azure_service'' ''azure-foundry'' s;
          s = (case pvc_Foundry pc of
                 None \<Rightarrow> s
               | Some f \<Rightarrow>
                   put_when (providerType = ''azure'' \<and> af_Domain f \<noteq> []) ''azure_foundry_domain'' (af_Domain f)
                     (put_when (providerType = ''azure'' \<and> af_Resource f \<noteq> []) ''azure_foundry_resource'' (af_Resource f) s));
          s = (case (if providerType = ''gemini'' then pva_WIF a else None) of
                 None \<Rightarrow> s
               | Some wif \<Rightarrow>
                   add_str ''bedrock'' ''aws_sts_endpoint_url'' (wif_AWSSTSEndpointURL wif)
                     (add_str ''bedrock'' ''aws_role_session_name'' (wif_AWSRoleSessionName wif)
                        (add_str ''bedrock'' ''aws_assume_role_arn'' (wif_AWSAssumeRoleARN wif)
                           (add_str ''bedrock'' ''aws_region'' (wif_AWSRegion wif) s))))
      in if providerType = ''bedrock''
         then add_str ''bedrock'' ''batch_role_arn'' (pva_BatchRoleARN a)
                (add_str ''bedrock'' ''aws_sts_endpoint_url'' (pva_STSEndpointURL a)
                   (add_str ''bedrock'' ''aws_role_session_name'' (pva_RoleSessionName a)
                      (add_str ''bedrock'' ''aws_assume_role_arn'' (pva_AssumeRoleARN a) s)))
         else s)"

text \<open>\<open>for prov, m := range nested { out[prov] = m }\<close>.\<close>

definition merge_nested :: "option_state \<Rightarrow> ymap" where
  "merge_nested s = fst s ++\<^sub>f fmmap YMap (snd s)"

text \<open>The outer option is the panic, the inner one the nil map.\<close>

definition mapOptions_on ::
  "(string \<times> yval) list \<Rightarrow> ymap \<Rightarrow> string \<Rightarrow> string \<Rightarrow> Provider option \<Rightarrow> bool \<Rightarrow> ymap option option"
where
  "mapOptions_on entries opts providerType modelName provider passthrough =
     (case option_loop providerType entries (fmempty, fmempty) of
        None \<Rightarrow> None
      | Some s \<Rightarrow>
          Some (unless_empty (merge_nested
            (case provider of None \<Rightarrow> s | Some p \<Rightarrow> provider_options opts providerType modelName passthrough p s))))"

definition mapOptions :: "ymap \<Rightarrow> string \<Rightarrow> string \<Rightarrow> Provider option \<Rightarrow> bool \<Rightarrow> ymap option option" where
  "mapOptions opts = mapOptions_on (sorted_list_of_fmap opts) opts"

section \<open>Embeddings\<close>

definition nest_azure_step :: "string \<times> yval \<Rightarrow> ymap \<Rightarrow> ymap" where
  "nest_azure_step = (\<lambda>(k, v) options.
     case CutPrefix k ''azure_'' of
       None \<Rightarrow> options
     | Some rest \<Rightarrow>
         (let azure = or_else (as_map (fmlookup options ''azure'')) fmempty
          in fmdrop k (fmupd ''azure'' (YMap (fmupd rest v azure)) options)))"

definition nestAzureEmbeddingsOptions :: "ymap \<Rightarrow> ymap" where
  "nestAzureEmbeddingsOptions options = fold nest_azure_step (sorted_list_of_fmap options) options"

text \<open>The lowered model, the provider type and whether the config block named it.\<close>

definition lower_config :: "ymap \<Rightarrow> ymap \<Rightarrow> Provider option \<Rightarrow> (ymap \<times> string \<times> bool) option" where
  "lower_config model config provider =
     (let model = fmdrop ''config'' model;
          type' = or_else (as_str (fmlookup config ''type'')) [];
          explicit = (type' \<noteq> []);
          providerType = (if \<not> explicit then (case provider of Some p \<Rightarrow> pr_Type p | None \<Rightarrow> type') else type');
          model = fmupd ''provider'' (YStr (PluginProvider providerType)) model;
          opts = fmdrop ''type'' config;
          name = or_else (as_str (fmlookup model ''name'')) []
      in case mapOptions opts providerType name provider False of
           None \<Rightarrow> None
         | Some options \<Rightarrow>
             (let options = or_else options fmempty;
                  options = (if providerType = ''azure'' then nestAzureEmbeddingsOptions options else options)
              in Some (setIfNotEmptyMap ''options'' options model, providerType, explicit)))"

definition lowerEmbeddingsModel :: "ymap \<Rightarrow> Provider option \<Rightarrow> (ymap \<times> string \<times> bool) option" where
  "lowerEmbeddingsModel emb provider =
     (case as_map (fmlookup emb ''model'') of
        None \<Rightarrow> Some (emb, [], False)
      | Some model \<Rightarrow>
          (case as_map (fmlookup model ''config'') of
             None \<Rightarrow> Some (emb, [], False)
           | Some config \<Rightarrow>
               (case lower_config model config provider of
                  None \<Rightarrow> None
                | Some (model, providerType, explicit) \<Rightarrow> Some (fmupd ''model'' (YMap model) emb, providerType, explicit))))"

text \<open>\<open>resolveEmbeddings\<close> of a block; \<open>deepCopy\<close> is the identity on values.\<close>

definition merge_auth :: "ymap \<Rightarrow> ymap \<Rightarrow> ymap" where
  "merge_auth resolved emb =
     (case as_map (fmlookup emb ''auth'') of
        None \<Rightarrow> fmupd ''auth'' (YMap resolved) emb
      | Some existing \<Rightarrow> fmupd ''auth'' (YMap (resolved ++\<^sub>f existing)) emb)"

definition add_provider_auth :: "Provider option \<Rightarrow> ymap \<Rightarrow> ymap" where
  "add_provider_auth provider emb =
     (case provider of
        None \<Rightarrow> emb
      | Some p \<Rightarrow> (case resolveAuth (Some p) None of None \<Rightarrow> emb | Some resolved \<Rightarrow> merge_auth resolved emb))"

definition unsupported_provider :: "string \<Rightarrow> 'a conv_scheme \<Rightarrow> Feature option" where
  "unsupported_provider providerType c =
     (case ProviderFeature providerType of
        None \<Rightarrow> None
      | Some f \<Rightarrow> if conv_supports f c then None else Some f)"

definition resolveEmbeddings ::
  "ConversionIssueSource \<Rightarrow> yval option \<Rightarrow> converter \<Rightarrow> (converter \<times> outcome) \<times> yval option"
where
  "resolveEmbeddings src raw c =
     (case as_map raw of
        None \<Rightarrow> ((c, Done), raw)
      | Some emb \<Rightarrow>
          (let provName = or_else (as_str (fmlookup emb ''provider'')) [];
               provider = (if provName = [] then None else fmlookup (cn_providers c) provName);
               c = (if provName \<noteq> [] \<and> provider = None
                    then warn (src_at src [''config.balancer.embeddings.provider'']) UndefinedReference
                      (''model embeddings reference unknown provider %q; auth may be incomplete'', [provName]) c
                    else c);
               emb = (if provName = [] then emb else fmdrop ''provider'' emb)
           in case lowerEmbeddingsModel emb provider of
                None \<Rightarrow> ((c, Panic ''interface conversion''), None)
              | Some (emb, providerType, explicit) \<Rightarrow>
                  (case unsupported_provider providerType c of
                     Some f \<Rightarrow>
                       (failUnsupported (src_at src
                          [if explicit then ''config.balancer.embeddings.model.config.type''
                           else ''config.balancer.embeddings.provider'']) f
                          (''provider type '' @ providerType) c, None)
                   | None \<Rightarrow> ((c, Done), Some (YMap (add_provider_auth provider emb))))))"

section \<open>The Token Vault of a provider\<close>

record tokenVaultProblem =
  tvp_Field :: string
  tvp_Code :: ConversionIssueCode
  tvp_Reason :: reason

text \<open>\<open>owner\<close> is a format and its arguments.\<close>

definition providerTokenVaultDatastore ::
  "reason \<Rightarrow> Provider \<Rightarrow> converter \<Rightarrow> (Datastore, tokenVaultProblem) sum"
where
  "providerTokenVaultDatastore owner p c =
     (let problem = (\<lambda>field code text args. Inr \<lparr>tvp_Field = field, tvp_Code = code,
            tvp_Reason = (fst owner @ text, snd owner @ args)\<rparr>)
      in if resolveAuth (Some p) None \<noteq> None
         then problem ''token_vault'' ConfigFieldInvalid
           '': token_vault and credentials in config.auth are mutually exclusive'' []
         else if (case pr_TokenVault p of None \<Rightarrow> True | Some tv \<Rightarrow> tv_Provider tv = [])
         then problem ''token_vault'' MissingRequiredConfigField '': token_vault requires provider'' []
         else case pr_Datastores p of
           [ref] \<Rightarrow>
             (case fmlookup (cn_datastores c) (dr_Name ref) of
                None \<Rightarrow> problem ''datastores[0].name'' UndefinedReference '' references unknown datastore %q'' [dr_Name ref]
              | Some ds \<Rightarrow>
                  if ds_Type ds \<noteq> DatastoreTypeTokenVault
                  then problem ''datastores[0].name'' ConfigFieldInvalid
                    '': token_vault does not support a %q datastore; use %q instead'' [ds_Type ds, DatastoreTypeTokenVault]
                  else Inl ds)
         | _ \<Rightarrow> problem ''datastores'' MissingRequiredConfigField
             '': token_vault requires exactly one %q datastore'' [DatastoreTypeTokenVault])"

definition validate_provider :: "Provider \<Rightarrow> converter \<Rightarrow> converter" where
  "validate_provider p c =
     (case pr_TokenVault p of
        None \<Rightarrow> c
      | Some tv \<Rightarrow>
          (let src = issueSource kindModelProvider (pr_Name p);
               owner = (''provider %q'', [pr_Name p])
           in case providerTokenVaultDatastore owner p c of
                Inr problem \<Rightarrow> reportError (src_at src [tvp_Field problem]) (tvp_Code problem) (tvp_Reason problem) c
              | Inl ds \<Rightarrow>
                  (let c' = fst (ensureTokenVaultCallbackRoute (src_at src [''datastores[0].name'']) (fst owner) (snd owner)
                         ds (source kindModelProvider (pr_Name p) ''token_vault'' []) c);
                       c' = (if tv_Directory tv \<noteq> [] \<and> fmlookup (ds_Config ds) ''directory'' \<noteq> None
                             then warn (src_at src [''token_vault.directory'']) ConfigFieldIgnored
                               (''Datastore %q overrides token_vault.directory of provider %q.'', [ds_Name ds, pr_Name p]) c'
                             else c')
                   in c'\<lparr>cv_out := cv_out c\<rparr>)))"

definition validateModelProviderTokenVaults :: "converter \<Rightarrow> converter" where
  "validateModelProviderTokenVaults c = fold validate_provider (sd_ModelProviders (cn_src c)) c"

definition target_name :: "Model \<Rightarrow> nat \<Rightarrow> string" where
  "target_name m j = (if j < length (mo_TargetModels m) then tm_Name (mo_TargetModels m ! j) else [])"

definition providerTokenVault ::
  "ConversionIssueSource \<Rightarrow> Model \<Rightarrow> nat \<Rightarrow> Provider \<Rightarrow> converter \<Rightarrow> (converter \<times> outcome) \<times> ymap option"
where
  "providerTokenVault src m j p c =
     (let here = src_at src [at ''targets'' j @ ''.provider''];
          owner = (''model %q target %q: provider %q'', [mo_Name m, target_name m j, pr_Name p])
      in case pr_TokenVault p of
           None \<Rightarrow>
             (case pr_Datastores p of
                [] \<Rightarrow> ((c, Done), None)
              | ref # _ \<Rightarrow>
                  (fail here ConfigFieldInvalid
                     (fst owner @ '' references datastore %q, but datastores require token_vault'',
                      snd owner @ [dr_Name ref]) c, None))
         | Some tv \<Rightarrow>
             if \<not> conv_supports FeatureProviderTokenVault c
             then (failUnsupported here FeatureProviderTokenVault ''provider token_vault'' c, None)
             else case providerTokenVaultDatastore owner p c of
               Inr problem \<Rightarrow> (fail here (tvp_Code problem) (tvp_Reason problem) c, None)
             | Inl ds \<Rightarrow>
                 (case ApplyTokenVaultDatastore (or_else (TokenVaultToPlugin (Some tv)) fmempty) ds of
                    (_, Some e) \<Rightarrow> (fail here ConfigFieldInvalid (wrap_reason (fst owner @ '': '') (snd owner) (datastore_reason e)) c, None)
                  | (cfg, None) \<Rightarrow>
                      (case ensureTokenVaultCallbackRoute here (fst owner) (snd owner) ds
                              (source kindModel (mo_Name m) (at ''targets'' j @ ''.provider'') []) c of
                         (c, Done) \<Rightarrow> ((c, Done), cfg)
                       | (c, oc) \<Rightarrow> ((c, oc), None))))"

definition balancerExtra :: "Balancer option \<Rightarrow> string \<Rightarrow> yval option" where
  "balancerExtra b key = (case b of None \<Rightarrow> None | Some b \<Rightarrow> fmlookup (bal_Fields b) key)"

definition checkEmbeddingsTokenVault :: "ConversionIssueSource \<Rightarrow> Model \<Rightarrow> converter step" where
  "checkEmbeddingsTokenVault src m c =
     (let emb = or_else (as_map (balancerExtra (moc_Balancer (mo_Config m)) ''embeddings'')) fmempty;
          name = or_else (as_str (fmlookup emb ''provider'')) []
      in case fmlookup (cn_providers c) name of
           Some p \<Rightarrow>
             if pr_TokenVault p \<noteq> None then
               fail (src_at src [''config.balancer.embeddings.provider'']) ConfigFieldInvalid
                 (''model %q: embeddings provider %q has token_vault, but %s cannot set the credential of the embeddings request'',
                  [mo_Name m, name, tokenVaultExchangePlugin]) c
             else (c, Done)
         | None \<Rightarrow> (c, Done))"

section \<open>The order of the options\<close>

definition all_writes :: "string \<Rightarrow> (string \<times> yval) list \<Rightarrow> option_write list" where
  "all_writes providerType es = concat (map (\<lambda>kv. or_else (option_writes providerType kv) []) es)"

lemma option_loop_writes:
  "option_loop t es s =
     (if \<exists>kv \<in> set es. option_writes t kv = None then None else Some (fold apply_write (all_writes t es) s))"
  by (induction es arbitrary: s) (auto simp: all_writes_def split: option.split)

text \<open>Two writes to one place.\<close>

fun same_place :: "option_write \<Rightarrow> option_write \<Rightarrow> bool" where
  "same_place (Put k _) (Put k' _) = (k = k')"
| "same_place (Add p k _) (Add p' k' _) = (p = p' \<and> k = k')"
| "same_place _ _ = False"

definition clash_free :: "string \<Rightarrow> (string \<times> yval) list \<Rightarrow> bool" where
  "clash_free t es \<longleftrightarrow> (\<forall>w \<in> set (all_writes t es). \<forall>w' \<in> set (all_writes t es). same_place w w' \<longrightarrow> w = w')"

lemma fmupd_commute: "k \<noteq> k' \<Longrightarrow> fmupd k v (fmupd k' v' m) = fmupd k' v' (fmupd k v m)"
  by (rule fmap_ext) auto

lemma apply_write_commute:
  assumes "same_place w w' \<longrightarrow> w = w'"
  shows "apply_write w \<circ> apply_write w' = apply_write w' \<circ> apply_write w"
proof
  fix s :: option_state
  obtain out nested where s: "s = (out, nested)" by (cases s)
  show "(apply_write w \<circ> apply_write w') s = (apply_write w' \<circ> apply_write w) s"
  proof (cases "w = w'")
    case False
    then have ns: "\<not> same_place w w'" using assms by blast
    then show ?thesis
      by (cases w; cases w')
        (auto simp: s apply_write_def addNested_def fmupd_commute split: option.split intro!: fmap_ext)
  qed simp
qed

lemma option_loop_permuted:
  assumes "mset es = mset es'" and "clash_free t es"
  shows "option_loop t es s = option_loop t es' s"
proof -
  have "mset (all_writes t es) = sum_mset (image_mset (\<lambda>kv. mset (or_else (option_writes t kv) [])) (mset es))" for es
    by (induction es) (simp_all add: all_writes_def)
  then have "mset (all_writes t es) = mset (all_writes t es')"
    using assms(1) by simp
  then have "fold apply_write (all_writes t es) = fold apply_write (all_writes t es')"
    by (rule fold_multiset_equiv [rotated])
      (use assms(2) in \<open>auto simp: clash_free_def intro!: apply_write_commute\<close>)
  then show ?thesis
    using mset_eq_setD [OF assms(1)] by (simp add: option_loop_writes)
qed

text \<open>C36: The options of a target do not depend on the order in which the map of its options is read,
  when no two options are written to one place with different values: every enumeration gives the
  result of the sorted one, panics included.\<close>

theorem map_options_order_independent:
  assumes "mset entries = mset (sorted_list_of_fmap opts)" and "clash_free providerType entries"
  shows "mapOptions_on entries opts providerType modelName provider passthrough =
    mapOptions opts providerType modelName provider passthrough"
  using option_loop_permuted [OF assms] by (simp add: mapOptions_def mapOptions_on_def)

text \<open>Without that, it does: a target that sets both spellings of the Azure deployment.\<close>

definition clashing_options :: "(string \<times> yval) list" where
  "clashing_options = [(''azure_deployment_id'', YStr ''old''), (''deployment_id'', YStr ''new'')]"

lemma map_options_clash:
  "mapOptions_on clashing_options opts ''azure'' m None False = Some (Some (fmap_of_list [(''azure_deployment_id'', YStr ''new'')]))"
  "mapOptions_on (rev clashing_options) opts ''azure'' m None False = Some (Some (fmap_of_list [(''azure_deployment_id'', YStr ''old'')]))"
  by (simp_all add: clashing_options_def mapOptions_on_def option_writes_def apply_write_def merge_nested_def
      unless_empty_def)

definition sample_options :: "(string \<times> yval) list" where
  "sample_options = [(''temperature'', YInt 1), (''region'', YStr ''eu''), (''endpoint_type'', YStr ''mantle'')]"

theorem map_options_order_independent_witness:
  "mapOptions_on sample_options (fmap_of_list sample_options) ''bedrock'' ''m'' None False =
   mapOptions (fmap_of_list sample_options) ''bedrock'' ''m'' None False"
proof (rule map_options_order_independent)
  have "sorted_list_of_fmap (fmap_of_list sample_options) = [sample_options ! 2, sample_options ! 1, sample_options ! 0]"
    by code_simp
  then show "mset sample_options = mset (sorted_list_of_fmap (fmap_of_list sample_options))"
    by (simp add: sample_options_def)
  show "clash_free ''bedrock'' sample_options" by code_simp
qed

section \<open>Embeddings are lowered once\<close>

lemma add_provider_auth_lookup [simp]:
  "k \<noteq> ''auth'' \<Longrightarrow> fmlookup (add_provider_auth p emb) k = fmlookup emb k"
  by (simp add: add_provider_auth_def merge_auth_def split: option.split)

lemma setIfNotEmptyMap_other: "k' \<noteq> k \<Longrightarrow> fmlookup (setIfNotEmptyMap k v m) k' = fmlookup m k'"
  by (simp add: setIfNotEmptyMap_def)

lemma lower_config_drops: "lower_config model config p = Some (model', t, e) \<Longrightarrow> fmlookup model' ''config'' = None"
  unfolding lower_config_def Let_def by (auto simp: setIfNotEmptyMap_other split: option.splits)

definition config_free :: "ymap \<Rightarrow> bool" where
  "config_free emb =
     (case as_map (fmlookup emb ''model'') of None \<Rightarrow> True | Some model \<Rightarrow> as_map (fmlookup model ''config'') = None)"

lemma lowered_model:
  assumes "lowerEmbeddingsModel emb provider = Some (emb', t, e)"
  shows "config_free emb'" and "k \<noteq> ''model'' \<Longrightarrow> fmlookup emb' k = fmlookup emb k"
proof -
  consider "emb' = emb" "config_free emb" | model config model' where "lower_config model config provider = Some (model', t, e)"
      "emb' = fmupd ''model'' (YMap model') emb"
    using assms unfolding lowerEmbeddingsModel_def config_free_def by (auto split: option.splits)
  then show "config_free emb'" "k \<noteq> ''model'' \<Longrightarrow> fmlookup emb' k = fmlookup emb k"
    by (cases; simp add: config_free_def lower_config_drops)+
qed

lemma already_lowered: "config_free emb \<Longrightarrow> lowerEmbeddingsModel emb p = Some (emb, [], False)"
  by (auto simp: lowerEmbeddingsModel_def config_free_def split: option.splits)

text \<open>C37: Lowered embeddings are a fixed point: what resolveEmbeddings returns it returns again, in every
  state, without an issue and whatever the providers are.\<close>

theorem embeddings_lowered_once:
  assumes "resolveEmbeddings src raw c = ((c', Done), emb)"
  shows "resolveEmbeddings src' emb d = ((d, Done), emb)"
proof (cases "as_map raw")
  case None
  then show ?thesis using assms by (auto simp: resolveEmbeddings_def)
next
  case (Some m)
  define provName where "provName = or_else (as_str (fmlookup m ''provider'')) []"
  define provider where "provider = (if provName = [] then None else fmlookup (cn_providers c) provName)"
  define m1 where "m1 = (if provName = [] then m else fmdrop ''provider'' m)"
  obtain m2 t e where low: "lowerEmbeddingsModel m1 provider = Some (m2, t, e)"
    and emb: "emb = Some (YMap (add_provider_auth provider m2))"
    using assms Some
    by (auto simp: resolveEmbeddings_def Let_def provName_def [symmetric] provider_def [symmetric] m1_def [symmetric]
        fail_def failUnsupported_def split: option.splits)
  have "or_else (as_str (fmlookup m1 ''provider'')) [] = []"
    by (simp add: m1_def provName_def)
  then have "or_else (as_str (fmlookup (add_provider_auth provider m2) ''provider'')) [] = []"
    using lowered_model(2) [OF low, of "''provider''"] by simp
  moreover have "lowerEmbeddingsModel (add_provider_auth provider m2) None = Some (add_provider_auth provider m2, [], False)"
    by (rule already_lowered) (use lowered_model(1) [OF low] in \<open>simp add: config_free_def\<close>)
  ultimately show ?thesis
    by (simp add: emb resolveEmbeddings_def Let_def unsupported_provider_def ProviderFeature_def add_provider_auth_def)
qed

lemma embeddings_tail:
  assumes "only_issues c d"
  shows "case (case low of
       None \<Rightarrow> ((d, Panic p), None)
     | Some (emb, t, e) \<Rightarrow>
         (case unsupported_provider t d of
            Some f \<Rightarrow> (failUnsupported (s e) f (field t) d, None)
          | None \<Rightarrow> ((d, Done), Some (out emb)))) of
       (r, _) \<Rightarrow> only_issues c (fst r) \<and> explained r"
  using assms
  by (auto simp: explained_def split: option.split prod.split intro: only_issues_trans [OF _ only_issues_fail(2)])

lemma resolveEmbeddings_step:
  "only_issues c (fst (fst (resolveEmbeddings src raw c)))" "explained (fst (resolveEmbeddings src raw c))"
proof -
  have "case resolveEmbeddings src raw c of (r, _) \<Rightarrow> only_issues c (fst r) \<and> explained r"
  proof (cases "as_map raw")
    case None
    then show ?thesis by (simp add: resolveEmbeddings_def explained_def)
  next
    case (Some emb)
    show ?thesis
      unfolding resolveEmbeddings_def Some option.case Let_def by (rule embeddings_tail) simp
  qed
  then show "only_issues c (fst (fst (resolveEmbeddings src raw c)))" "explained (fst (resolveEmbeddings src raw c))"
    by (simp_all split: prod.splits)
qed

definition sample_provider_auth :: ProviderAuth where
  "sample_provider_auth = \<lparr>pva_Type = ''basic'', pva_Headers = [], pva_Params = [], pva_AccessKeyID = [],
     pva_SecretAccessKey = [], pva_AWSSessionToken = [], pva_AssumeRoleARN = [], pva_RoleSessionName = [],
     pva_STSEndpointURL = [], pva_BatchRoleARN = [], pva_ClientID = [], pva_ClientSecret = [], pva_TenantID = [],
     pva_UseManagedIdentity = None, pva_ServiceAccountJSON = [], pva_MetadataURL = [], pva_OAuthTokenURL = [],
     pva_UseGCPServiceAccount = None, pva_WIF = None, pva_SessionToken = []\<rparr>"

definition sample_provider :: Provider where
  "sample_provider = \<lparr>pr_Type = ''openai'', pr_Name = ''p'',
     pr_Config = \<lparr>pvc_Auth = sample_provider_auth\<lparr>pva_Headers := [\<lparr>ah_Name = ''Authorization'', ah_Value = ''k''\<rparr>]\<rparr>,
       pvc_Instance = [], pvc_Service = [], pvc_Foundry = None\<rparr>,
     pr_Datastores = [], pr_TokenVault = None\<rparr>"

definition sample_embeddings :: yval where
  "sample_embeddings = YMap (fmap_of_list [(''provider'', YStr ''p''),
     (''model'', YMap (fmap_of_list [(''name'', YStr ''m''), (''config'', YMap (fmap_of_list [(''k'', YInt 1)]))]))])"

definition sample_providers :: converter where
  "sample_providers = sample_converter\<lparr>cn_providers := fmap_of_list [(''p'', sample_provider)]\<rparr>"

theorem embeddings_lowered_once_witness:
  "\<exists>emb. resolveEmbeddings (issueSource kindModel ''m'') (Some sample_embeddings) sample_providers =
       ((sample_providers, Done), Some emb) \<and> emb \<noteq> sample_embeddings \<and>
     resolveEmbeddings (issueSource kindModel ''n'') (Some emb) sample_converter = ((sample_converter, Done), Some emb)"
proof -
  let ?r = "resolveEmbeddings (issueSource kindModel ''m'') (Some sample_embeddings) sample_providers"
  have "snd (fst ?r) = Done" "cv_issues (fst (fst ?r)) = []" "snd ?r \<noteq> None" "snd ?r \<noteq> Some sample_embeddings"
    by code_simp+
  moreover have "fst (fst ?r) = sample_providers"
  proof -
    have "fst (fst ?r) = sample_providers\<lparr>cv_issues := cv_issues (fst (fst ?r))\<rparr>"
      by (rule only_issues_eq [OF resolveEmbeddings_step(1)])
    moreover have "cv_issues sample_providers = []"
      by (simp add: sample_providers_def sample_converter_def newConverter_def buildRegistries_def)
    ultimately show ?thesis using \<open>cv_issues (fst (fst ?r)) = []\<close> by simp
  qed
  ultimately obtain emb where r: "?r = ((sample_providers, Done), Some emb)" "emb \<noteq> sample_embeddings"
    by (metis option.exhaust prod.collapse)
  from r embeddings_lowered_once [OF r(1)] show ?thesis by blast
qed

section \<open>A vaulted credential excludes a static one\<close>

definition has_callback_route :: "ymap \<Rightarrow> Document \<Rightarrow> bool" where
  "has_callback_route config d =
     (case find (\<lambda>r. rt_Name r = TokenVaultCallbackName) (doc_Routes d) of
        None \<Rightarrow> False
      | Some route \<Rightarrow> (case rt_Plugins route of [] \<Rightarrow> False | p # _ \<Rightarrow> pl_Config p = config))"

lemma callback_route_made:
  assumes "ensureTokenVaultCallbackRoute src f o' ds rs c = (c', Done)"
  shows "\<exists>config. ApplyTokenVaultDatastore fmempty ds = (Some config, None) \<and> has_callback_route config (cv_out c')"
proof -
  obtain r e where app: "ApplyTokenVaultDatastore fmempty ds = (r, e)" by (metis prod.exhaust)
  have "e = None" using assms app by (cases e; cases r) (simp_all add: ensureTokenVaultCallbackRoute_def fail_def)
  moreover from this obtain config where r: "r = Some config"
    using assms app by (cases r) (simp_all add: ensureTokenVaultCallbackRoute_def)
  moreover have "has_callback_route config (cv_out c')"
  proof (cases "find (\<lambda>r. rt_Name r = TokenVaultCallbackName) (doc_Routes (cv_out c))")
    case None
    then show ?thesis using assms app r \<open>e = None\<close>
      by (auto simp: ensureTokenVaultCallbackRoute_def has_callback_route_def find_append route_of_def)
  next
    case (Some route)
    then show ?thesis using assms app r \<open>e = None\<close>
      by (auto simp: ensureTokenVaultCallbackRoute_def has_callback_route_def fail_def split: list.splits if_splits)
  qed
  ultimately show ?thesis using app by simp
qed

lemma vault_datastore:
  assumes "providerTokenVaultDatastore owner p c = Inl ds"
  shows "resolveAuth (Some p) None = None" "\<exists>tv. pr_TokenVault p = Some tv \<and> tv_Provider tv \<noteq> []"
    "\<exists>ref. pr_Datastores p = [ref] \<and> fmlookup (cn_datastores c) (dr_Name ref) = Some ds"
    "ds_Type ds = DatastoreTypeTokenVault"
  using assms by (auto simp: providerTokenVaultDatastore_def Let_def split: if_splits list.splits option.splits)

lemma no_static_auth: "resolveAuth (Some p) None = None \<longleftrightarrow> provider_auth p = fmempty"
  by (simp add: resolveAuth_def setBool_def)

text \<open>A target's provider, with the exchange that replaces its credential.\<close>

definition vaulted :: "Provider \<Rightarrow> ymap \<Rightarrow> converter \<Rightarrow> Document \<Rightarrow> bool" where
  "vaulted p cfg c d \<longleftrightarrow>
     provider_auth p = fmempty \<and> conv_supports FeatureProviderTokenVault c \<and>
     (\<exists>tv ref ds config.
        pr_TokenVault p = Some tv \<and> tv_Provider tv \<noteq> [] \<and> pr_Datastores p = [ref] \<and>
        fmlookup (cn_datastores c) (dr_Name ref) = Some ds \<and> ds_Type ds = DatastoreTypeTokenVault \<and>
        ApplyTokenVaultDatastore (or_else (TokenVaultToPlugin (Some tv)) fmempty) ds = (Some cfg, None) \<and>
        ApplyTokenVaultDatastore fmempty ds = (Some config, None) \<and> has_callback_route config d)"

text \<open>C16: The credential of a target comes from the provider's auth or from its Token Vault, never from
  both: when a provider has a vault and its targets convert, the provider has no static credential,
  exactly one token-vault datastore gives the connection, and the callback route of that connection is
  in the output; otherwise the model is skipped with an error, or the provider has no vault and
  nothing changes.\<close>

theorem provider_vault_exclusive:
  "let ((c', oc), cfg) = providerTokenVault src m j p c in
     reports c c' \<and>
     (oc = SkipEntity \<longrightarrow> HasErrors (cv_issues c')) \<and>
     (oc = Done \<longrightarrow>
        (if pr_TokenVault p = None then cfg = None \<and> pr_Datastores p = [] \<and> c' = c
         else \<exists>block. cfg = Some block \<and> vaulted p block c (cv_out c')))"
proof (cases "pr_TokenVault p")
  case None
  then show ?thesis by (auto simp: providerTokenVault_def Let_def fail_def split: list.split)
next
  case tv: (Some tv)
  let ?owner = "(''model %q target %q: provider %q'', [mo_Name m, target_name m j, pr_Name p])"
  show ?thesis
  proof (cases "conv_supports FeatureProviderTokenVault c")
    case False
    then show ?thesis using tv
      by (simp add: providerTokenVault_def Let_def failUnsupported_def reportUnsupported_def)
  next
    case sup: True
    show ?thesis
    proof (cases "providerTokenVaultDatastore ?owner p c")
      case (Inr problem)
      then show ?thesis using tv sup by (simp add: providerTokenVault_def Let_def fail_def)
    next
      case (Inl ds)
      note vd = vault_datastore [OF Inl]
      obtain r e where app: "ApplyTokenVaultDatastore (or_else (TokenVaultToPlugin (Some tv)) fmempty) ds = (r, e)"
        by (metis prod.exhaust)
      show ?thesis
      proof (cases e)
        case (Some e')
        then show ?thesis using tv sup Inl app
          by (auto simp: providerTokenVault_def Let_def fail_def split: option.splits)
      next
        case None
        obtain block where r: "r = Some block"
          using app None vd(4) by (auto simp: ApplyTokenVaultDatastore_def Let_def split: option.splits)
        obtain c' oc where cb: "ensureTokenVaultCallbackRoute (src_at src [at ''targets'' j @ ''.provider''])
            (fst ?owner) (snd ?owner) ds (source kindModel (mo_Name m) (at ''targets'' j @ ''.provider'') []) c = (c', oc)"
          by (metis prod.exhaust)
        have run: "providerTokenVault src m j p c = ((c', oc), if oc = Done then Some block else None)"
          using tv sup Inl app None r cb by (cases oc) (simp_all add: providerTokenVault_def Let_def)
        have env: "auth_env c c'" "explained (c', oc)"
          using callback_route_step cb by (metis fst_conv)+
        have "vaulted p block c (cv_out c')" if "oc = Done"
          using callback_route_made [OF cb [unfolded that]] vd tv sup app r None
          unfolding vaulted_def no_static_auth [symmetric] by auto
        then show ?thesis
          using env tv unfolding run by (auto simp: Let_def auth_env_def explained_def)
      qed
    qed
  qed
qed

definition sample_vault_provider :: Provider where
  "sample_vault_provider = sample_provider\<lparr>
     pr_Config := (pr_Config sample_provider)\<lparr>pvc_Auth := sample_provider_auth\<rparr>,
     pr_Datastores := [\<lparr>dr_Name = ''tv'', dr_Path = None\<rparr>],
     pr_TokenVault := Some \<lparr>tv_Directory = [], tv_Provider = ''okta'', tv_SubjectTokenType = [],
       tv_Credential = None, tv_Cache = fmempty\<rparr>\<rparr>"

definition sample_model :: Model where
  "sample_model = \<lparr>mo_ID = [], mo_Type = ''model'', mo_Name = ''m'', mo_Enabled = None, mo_Capabilities = [],
     mo_Formats = [], mo_TargetModels = [], mo_Policies = [], mo_Datastores = [],
     mo_Access = \<lparr>moa_AuthStrategies = [], moa_ACLs = no_acls\<rparr>,
     mo_Config = \<lparr>moc_Route = RouteConfig.extend (RouteConfig.truncate empty_route)
         \<lparr>mrc_Model = \<lparr>msc_Values = [], msc_BodyParam = [], msc_HeaderParam = [], msc_PathParam = []\<rparr>\<rparr>,
       moc_Logging = None, moc_ResponseStreaming = [], moc_MaxRequestBodySize = None, moc_NameHeader = None,
       moc_Proxy = None, moc_Balancer = None\<rparr>,
     mo_Labels = fmempty\<rparr>"

definition sample_vault :: converter where
  "sample_vault = sample_converter\<lparr>cv_minRuntimeVersion := LatestVersion,
     cn_datastores := fmap_of_list [(''tv'', \<lparr>ds_Type = DatastoreTypeTokenVault, ds_Name = ''tv'',
       ds_Config = fmap_of_list [(''directory'', YStr ''d'')]\<rparr>)]\<rparr>"

theorem provider_vault_exclusive_witness:
  "\<exists>c' block. providerTokenVault (issueSource kindModel ''m'') sample_model 0 sample_vault_provider sample_vault =
       ((c', Done), Some block) \<and> vaulted sample_vault_provider block sample_vault (cv_out c') \<and>
   HasErrors (cv_issues (fst (fst (providerTokenVault (issueSource kindModel ''m'') sample_model 0
     (sample_vault_provider\<lparr>pr_Datastores := []\<rparr>) sample_vault))))"
proof -
  let ?run = "\<lambda>p. providerTokenVault (issueSource kindModel ''m'') sample_model 0 p sample_vault"
  let ?bad = "sample_vault_provider\<lparr>pr_Datastores := []\<rparr>"
  have "snd (fst (?run sample_vault_provider)) = Done" "snd (fst (?run ?bad)) = SkipEntity" by code_simp+
  then obtain c' cfg c2 cfg2 where r: "?run sample_vault_provider = ((c', Done), cfg)" "?run ?bad = ((c2, SkipEntity), cfg2)"
    by (metis prod.collapse)
  have "pr_TokenVault sample_vault_provider \<noteq> None" by (simp add: sample_vault_provider_def)
  with r provider_vault_exclusive [of "issueSource kindModel ''m''" sample_model 0 sample_vault_provider sample_vault]
    provider_vault_exclusive [of "issueSource kindModel ''m''" sample_model 0 ?bad sample_vault]
  show ?thesis by (auto simp: Let_def)
qed

end
