(* ===== verification/MCP_Auth.thy ===== *)
theory MCP_Auth
  imports Agents
begin

text \<open>
  Authentication of MCP servers (\<open>src/convert/mcp_auth_strategy.go\<close>): the auth plugin of a server from
  its strategy and its Protected Resource Metadata, the lowering of an openid-connect strategy to the
  ai-mcp-oauth2 plugin with its proxy settings, and the decoding of Basic proxy credentials.
\<close>

section \<open>Basic proxy credentials\<close>

text \<open>\<open>unicode.IsSpace\<close> on UTF-8 text: the length of the white space rune at the head, or 0.  A first
  byte of such a rune is no continuation byte, so a match is a rune of the text.\<close>

definition space_runes :: "string list" where
  "space_runes =
     map (map char_of)
       ([[9], [10], [11], [12], [13], [32], [194, 133], [194, 160], [225, 154, 128]] @
        map (\<lambda>n. [226, 128, n]) [128 ..< 139] @
        [[226, 128, 168], [226, 128, 169], [226, 128, 175], [226, 129, 159], [227, 128, 128 :: nat]])"

definition space_len :: "string \<Rightarrow> nat" where
  "space_len s = (case find (HasPrefix s) space_runes of None \<Rightarrow> 0 | Some r \<Rightarrow> length r)"

definition flush :: "string \<Rightarrow> string list" where
  "flush cur = (if cur = [] then [] else [cur])"

function fields_loop :: "string \<Rightarrow> string \<Rightarrow> string list" where
  "fields_loop cur [] = flush cur"
| "fields_loop cur (x # s) =
     (if space_len (x # s) = 0 then fields_loop (cur @ [x]) s
      else flush cur @ fields_loop [] (drop (space_len (x # s)) (x # s)))"
  by pat_completeness auto
termination by (relation "measure (length \<circ> snd)") auto

definition strings_Fields :: "string \<Rightarrow> string list" where
  "strings_Fields s = fields_loop [] s"

text \<open>The base64 alphabet of RFC 4648.\<close>

definition b64_val :: "char \<Rightarrow> nat option" where
  "b64_val c =
     (let n = (of_char c :: nat) in
      if 65 \<le> n \<and> n \<le> 90 then Some (n - 65)
      else if 97 \<le> n \<and> n \<le> 122 then Some (n - 71)
      else if 48 \<le> n \<and> n \<le> 57 then Some (n + 4)
      else if c = CHR ''+'' then Some 62
      else if c = CHR ''/'' then Some 63
      else None)"

definition byte1 :: "nat \<Rightarrow> nat \<Rightarrow> char" where "byte1 x y = char_of (4 * x + y div 16)"
definition byte2 :: "nat \<Rightarrow> nat \<Rightarrow> char" where "byte2 y z = char_of (16 * (y mod 16) + z div 4)"
definition byte3 :: "nat \<Rightarrow> nat \<Rightarrow> char" where "byte3 z w = char_of (64 * (z mod 4) + w)"

text \<open>\<open>decodeQuantum\<close> after line breaks are left out: padding ends the text, and only the unpadded
  encoding ends in a short quantum.\<close>

fun b64_quanta :: "bool \<Rightarrow> string \<Rightarrow> string option" where
  "b64_quanta padded [] = Some []"
| "b64_quanta padded [a] = None"
| "b64_quanta padded [a, b] =
     (case (b64_val a, b64_val b) of
        (Some x, Some y) \<Rightarrow> if padded then None else Some [byte1 x y]
      | _ \<Rightarrow> None)"
| "b64_quanta padded [a, b, c] =
     (case (b64_val a, b64_val b, b64_val c) of
        (Some x, Some y, Some z) \<Rightarrow> if padded then None else Some [byte1 x y, byte2 y z]
      | _ \<Rightarrow> None)"
| "b64_quanta padded (a # b # c # d # rest) =
     (case (b64_val a, b64_val b) of
        (Some x, Some y) \<Rightarrow>
          (case b64_val c of
             None \<Rightarrow> if padded \<and> c = CHR ''='' \<and> d = CHR ''='' \<and> rest = [] then Some [byte1 x y] else None
           | Some z \<Rightarrow>
               (case b64_val d of
                  None \<Rightarrow> if padded \<and> d = CHR ''='' \<and> rest = [] then Some [byte1 x y, byte2 y z] else None
                | Some w \<Rightarrow> map_option (\<lambda>bs. byte1 x y # byte2 y z # byte3 z w # bs) (b64_quanta padded rest)))
      | _ \<Rightarrow> None)"

definition DecodeString :: "bool \<Rightarrow> string \<Rightarrow> string option" where
  "DecodeString padded s = b64_quanta padded (filter (\<lambda>c. of_char c \<noteq> (10 :: nat) \<and> of_char c \<noteq> (13 :: nat)) s)"

text \<open>\<open>strings.EqualFold(s, "Basic")\<close>: the long s (U+017F) folds to s.\<close>

definition is_basic :: "string \<Rightarrow> bool" where
  "is_basic s = (ToLower s = ''basic'' \<or> ToLower s = ''ba'' @ map char_of [197, 191 :: nat] @ ''ic'')"

definition basicProxyCredentials :: "string \<Rightarrow> string + string \<times> string" where
  "basicProxyCredentials authorization =
     (case strings_Fields authorization of
        [scheme, credentials] \<Rightarrow>
          if \<not> is_basic scheme then Inl ''proxy authorization must use the Basic scheme''
          else (case (case DecodeString True credentials of
                        None \<Rightarrow> DecodeString False credentials | Some d \<Rightarrow> Some d) of
                  None \<Rightarrow> Inl ''proxy authorization has invalid Basic credentials''
                | Some decoded \<Rightarrow>
                    (case Cut decoded (CHR '':'') of
                       None \<Rightarrow> Inl ''proxy authorization Basic credentials must contain a username and password''
                     | Some (username, password) \<Rightarrow> Inr (username, password)))
      | _ \<Rightarrow> Inl ''proxy authorization must use the Basic scheme'')"

section \<open>Proxy settings of an openid-connect strategy\<close>

definition configString :: "ymap \<Rightarrow> string \<Rightarrow> string" where
  "configString config key = or_else (as_str (fmlookup config key)) []"

record oidcProxyEndpointConfig =
  pe_host :: string
  pe_port :: "int option"
  pe_scheme :: string

definition oidcProxyEndpoint :: "string \<Rightarrow> string + oidcProxyEndpointConfig option" where
  "oidcProxyEndpoint raw =
     (if raw = [] then Inr None
      else case url_Parse raw of
        None \<Rightarrow> Inl ''must be an absolute URL''
      | Some u \<Rightarrow>
          if u_Scheme u = [] \<or> u_Host u = [] then Inl ''must be an absolute URL''
          else if u_User u \<or> u_Path u \<noteq> [] \<and> u_Path u \<noteq> ''/'' \<or> u_RawQuery u \<noteq> [] \<or> u_Fragment u \<noteq> []
          then Inl ''must not include user info, a path, a query, or a fragment''
          else if u_Scheme u \<noteq> ''http'' \<and> u_Scheme u \<noteq> ''https'' then Inl ''scheme must be http or https''
          else if url_Port u = []
          then Inr (Some \<lparr>pe_host = url_Hostname u, pe_port = None, pe_scheme = u_Scheme u\<rparr>)
          else case Atoi (url_Port u) of
            None \<Rightarrow> Inl ''has an invalid port''
          | Some port \<Rightarrow>
              if port < 1 \<or> port > 65535 then Inl ''has an invalid port''
              else Inr (Some \<lparr>pe_host = url_Hostname u, pe_port = Some port, pe_scheme = u_Scheme u\<rparr>))"

text \<open>One proxy of the record; the scheme is shared, the first writer keeps it.\<close>

definition put_proxy :: "string \<Rightarrow> oidcProxyEndpointConfig option \<Rightarrow> ymap \<Rightarrow> ymap" where
  "put_proxy name proxy m =
     (case proxy of
        None \<Rightarrow> m
      | Some p \<Rightarrow>
          let m = fmupd (name @ ''_host'') (YStr (pe_host p)) m;
              m = setInt m (name @ ''_port'') (pe_port p)
          in if fmlookup m ''proxy_scheme'' = None then fmupd ''proxy_scheme'' (YStr (pe_scheme p)) m else m)"

definition proxy_conflict ::
  "oidcProxyEndpointConfig option \<Rightarrow> oidcProxyEndpointConfig option \<Rightarrow> string \<Rightarrow> string \<Rightarrow> string option"
where
  "proxy_conflict http https httpAuth httpsAuth =
     (if httpAuth \<noteq> [] \<and> http = None then Some ''http_proxy_authorization requires http_proxy''
      else if httpsAuth \<noteq> [] \<and> https = None then Some ''https_proxy_authorization requires https_proxy''
      else case (http, https) of
        (Some p, Some q) \<Rightarrow>
          if pe_scheme p \<noteq> pe_scheme q then Some ''http_proxy and https_proxy must use the same scheme''
          else if (httpAuth = []) \<noteq> (httpsAuth = []) \<or> httpAuth \<noteq> [] \<and> httpAuth \<noteq> httpsAuth
          then Some ''http_proxy and https_proxy must use the same authorization''
          else None
      | _ \<Rightarrow> None)"

definition oidcProxyConfig :: "ymap \<Rightarrow> string + ymap option" where
  "oidcProxyConfig oidc =
     (case oidcProxyEndpoint (configString oidc ''http_proxy'') of
        Inl e \<Rightarrow> Inl (''http_proxy: '' @ e)
      | Inr http \<Rightarrow>
     (case oidcProxyEndpoint (configString oidc ''https_proxy'') of
        Inl e \<Rightarrow> Inl (''https_proxy: '' @ e)
      | Inr https \<Rightarrow>
     let httpAuth = configString oidc ''http_proxy_authorization'';
         httpsAuth = configString oidc ''https_proxy_authorization'';
         noProxy = configString oidc ''no_proxy''
     in case proxy_conflict http https httpAuth httpsAuth of
          Some e \<Rightarrow> Inl e
        | None \<Rightarrow>
            if http = None \<and> https = None \<and> httpAuth = [] \<and> httpsAuth = [] \<and> noProxy = [] then Inr None
            else
              let m = put_proxy ''https_proxy'' https (put_proxy ''http_proxy'' http fmempty);
                  m = setIfNotEmpty ''no_proxy'' noProxy m;
                  authorization = (if httpAuth = [] then httpsAuth else httpAuth)
              in if authorization = [] then Inr (Some m)
                 else case basicProxyCredentials authorization of
                   Inl e \<Rightarrow> Inl e
                 | Inr (username, password) \<Rightarrow>
                     Inr (Some (fmupd ''auth_password'' (YStr password)
                                 (fmupd ''auth_username'' (YStr username) m)))))"


section \<open>The ai-mcp-oauth2 plugin\<close>

definition oidcAudienceRequired :: "AuthStrategy option \<Rightarrow> string list" where
  "oidcAudienceRequired idp =
     (case idp of None \<Rightarrow> [] | Some i \<Rightarrow> configStrings (ast_Config i) ''audience_required'')"

definition oauth2_field :: "ymap \<Rightarrow> OAuth2FieldMap \<Rightarrow> ymap \<Rightarrow> ymap" where
  "oauth2_field oidc f cfg =
     (case of_Kind f of
        OAuth2Passthrough \<Rightarrow> set_opt cfg (of_OAuth2Key f) (fmlookup oidc (of_OIDCKey f))
      | OAuth2FirstOfArray \<Rightarrow> setIfNotEmpty (of_OAuth2Key f) (firstConfigString oidc (of_OIDCKey f)) cfg
      | OAuth2FirstOfPaths \<Rightarrow>
          (let p = firstConfigPath oidc (of_OIDCKey f) in
           if p \<noteq> [] then fmupd (of_OAuth2Key f) (YList p) cfg else cfg))"

definition applyOIDCFieldsToOAuth2 :: "ymap \<Rightarrow> ymap \<Rightarrow> ymap" where
  "applyOIDCFieldsToOAuth2 cfg oidc =
     (let cfg = fold (oauth2_field oidc) OIDCToMCPOAuth2Fields cfg;
          p = firstConfigPath oidc ''credential_claims''
      in if p \<noteq> [] then fmupd ''credential_claim'' (YList p) cfg else cfg)"

definition mcpEffectiveAuthServers :: "MCPProtectedResourceMetadata \<Rightarrow> AuthStrategy option \<Rightarrow> string list" where
  "mcpEffectiveAuthServers meta idp =
     (case (prm_AuthorizationServers meta, idp) of
        ([], Some i) \<Rightarrow>
          (let issuer = firstConfigString (ast_Config i) ''issuer'' in
           if issuer \<noteq> [] then [issuer] else [])
      | (servers, _) \<Rightarrow> servers)"

definition mcpEffectiveScopes :: "MCPProtectedResourceMetadata \<Rightarrow> AuthStrategy option \<Rightarrow> string list" where
  "mcpEffectiveScopes meta idp =
     (case (prm_ScopesSupported meta, idp) of
        ([], Some i) \<Rightarrow> configStrings (ast_Config i) ''scopes''
      | (scopes, _) \<Rightarrow> scopes)"

definition authorizationServersSource :: "AuthStrategy option \<Rightarrow> MCPProtectedResourceMetadata \<Rightarrow> string" where
  "authorizationServersSource idp meta =
     (if prm_AuthorizationServers meta = [] \<and> mcpEffectiveAuthServers meta idp \<noteq> []
      then ''access.auth_strategies'' else ''access.metadata.authorization_servers'')"

definition scopesSupportedSource :: "AuthStrategy option \<Rightarrow> MCPProtectedResourceMetadata \<Rightarrow> string" where
  "scopesSupportedSource idp meta =
     (if prm_ScopesSupported meta = [] \<and> mcpEffectiveScopes meta idp \<noteq> []
      then ''access.auth_strategies'' else ''access.metadata.scopes_supported'')"

abbreviation (input) mcpAuthStrategyField :: string where
  "mcpAuthStrategyField \<equiv> ''access.auth_strategies[0]''"

definition mcpProtectedResource ::
  "ConversionIssueSource \<Rightarrow> MCPServer \<Rightarrow> AuthStrategy option \<Rightarrow> MCPProtectedResourceMetadata \<Rightarrow> converter \<Rightarrow>
   (converter \<times> outcome) \<times> string \<times> string list"
where
  "mcpProtectedResource src m idp meta c =
     (if prm_Resource meta = [] then
        (fail (src_at src [''access.metadata.resource'']) MissingRequiredConfigField
           (''MCP server %q access.metadata has no resource; MCP auth requires one'', [mcp_Name m]) c, [], [])
      else if mcpEffectiveAuthServers meta idp = [] then
        (fail (src_at src [''access.metadata.authorization_servers'']) MissingRequiredConfigField
           (''MCP server %q access.metadata has no authorization_servers and no issuer to fall back to; MCP auth requires authorization_servers'',
            [mcp_Name m]) c, [], [])
      else ((c, Done), prm_Resource meta, mcpEffectiveAuthServers meta idp))"

text \<open>The fields that both plugins have of the metadata.\<close>

definition protected_resource_fields ::
  "MCPProtectedResourceMetadata \<Rightarrow> AuthStrategy option \<Rightarrow> string \<Rightarrow> string list \<Rightarrow> ymap"
where
  "protected_resource_fields meta idp resource servers =
     (let cfg = fmupd ''authorization_servers'' (YStrs servers) (fmupd ''resource'' (YStr resource) fmempty);
          scopes = mcpEffectiveScopes meta idp;
          cfg = (if scopes \<noteq> [] then fmupd ''scopes_supported'' (YStrs scopes) cfg else cfg)
      in setIfNotEmpty ''metadata_endpoint'' (prm_Endpoint meta) cfg)"

text \<open>The part of \<open>mcpOAuth2Plugin\<close> that a strategy adds.\<close>

definition oauth2_strategy_fields ::
  "ConversionIssueSource \<Rightarrow> MCPServer \<Rightarrow> AuthStrategy \<Rightarrow> ymap \<Rightarrow> converter \<Rightarrow> (converter \<times> outcome) \<times> ymap"
where
  "oauth2_strategy_fields src m idp cfg c =
     (if \<not> isEmptyConfigValue (fmlookup (ast_Config idp) ''token_exchange'') then
        (fail (src_at src [mcpAuthStrategyField]) ConfigFieldInvalid
           (''MCP server %q auth strategy %q sets config.token_exchange, which ai-mcp-oauth2 cannot represent; the token exchange would NOT be applied and the caller's token forwarded verbatim. Remove access.metadata to keep an openid-connect plugin, or drop token_exchange from the strategy.'',
            [mcp_Name m, ast_Name idp]) c, cfg)
      else
        let cfg = applyOIDCFieldsToOAuth2 cfg (ast_Config idp);
            no_secret = firstConfigString (ast_Config idp) ''client_id'' \<noteq> [] \<and>
              firstConfigString (ast_Config idp) ''client_secret'' = [];
            cfg = (if no_secret then fmdrop ''client_id'' cfg else cfg);
            c = (if no_secret
                 then warn (src_at src [mcpAuthStrategyField]) ConfigFieldIgnored
                   (''MCP server %q auth strategy %q sets client_id but no client_secret. The gateway requires a client credential with client_id, so the plugin leaves client_id out. Token validation does not use it.'',
                    [mcp_Name m, ast_Name idp]) c
                 else c)
        in case oidcProxyConfig (ast_Config idp) of
             Inl e \<Rightarrow>
               (fail (src_at src [mcpAuthStrategyField]) ConfigFieldInvalid
                  (''MCP server %q references an auth strategy with unsupported proxy configuration: %s'',
                   [mcp_Name m, e]) c, cfg)
           | Inr proxy \<Rightarrow>
               let cfg = set_opt cfg ''proxy_config'' (map_option YMap proxy);
                   cfg = (if as_bool (fmlookup (ast_Config idp) ''hide_credentials'') = Some False
                          then fmupd ''passthrough_credentials'' (YBool True) cfg else cfg)
               in ((c, Done), cfg))"

text \<open>The audience of \<open>mcpOAuth2Plugin\<close>; with an audience there is a strategy.\<close>

definition oauth2_audience ::
  "ConversionIssueSource \<Rightarrow> MCPServer \<Rightarrow> AuthStrategy option \<Rightarrow> ymap \<Rightarrow> converter \<Rightarrow> converter \<times> ymap"
where
  "oauth2_audience src m idp cfg c =
     (case oidcAudienceRequired idp of
        [] \<Rightarrow> (c, fmupd ''insecure_relaxed_audience_validation'' (YBool True) cfg)
      | aud # rest \<Rightarrow>
          ((if rest \<noteq> []
            then warn (src_at src [mcpAuthStrategyField]) ConfigFieldIgnored
              (''MCP server %q auth strategy %q sets %d values in config.audience_required. ai-mcp-oauth2 validates a single config.expected_audience, so only %q is kept.'',
               [mcp_Name m, (case idp of None \<Rightarrow> [] | Some i \<Rightarrow> ast_Name i), dec (Suc (length rest)), aud]) c
            else c),
           fmupd ''insecure_relaxed_audience_validation'' (YBool False) (fmupd ''expected_audience'' (YStr aud) cfg)))"

definition mcpOAuth2Plugin ::
  "ConversionIssueSource \<Rightarrow> MCPServer \<Rightarrow> AuthStrategy option \<Rightarrow> MCPProtectedResourceMetadata \<Rightarrow> converter \<Rightarrow>
   (converter \<times> outcome) \<times> Plugin"
where
  "mcpOAuth2Plugin src m idp meta c =
     (case mcpProtectedResource src m idp meta c of
        ((c, Done), resource, servers) \<Rightarrow>
          (let cfg = protected_resource_fields meta idp resource servers;
               cfg = setIfNotEmpty ''metadata_discovery_endpoint'' (prm_DiscoveryEndpoint meta) cfg
           in case (case idp of None \<Rightarrow> ((c, Done), cfg) | Some i \<Rightarrow> oauth2_strategy_fields src m i cfg c) of
                ((c, Done), cfg) \<Rightarrow>
                  (let cfg = (if mcp_TokenVault m \<noteq> None then fmupd ''passthrough_credentials'' (YBool True) cfg
                              else cfg);
                       (c, cfg) = oauth2_audience src m idp cfg c
                   in ((c, Done), empty_plugin\<lparr>pl_Name := ''ai-mcp-oauth2'', pl_Config := cfg\<rparr>))
              | (r, _) \<Rightarrow> (r, empty_plugin))
      | (r, _) \<Rightarrow> (r, empty_plugin))"

definition mcpOAuth2Source ::
  "MCPServer \<Rightarrow> AuthStrategy option \<Rightarrow> MCPProtectedResourceMetadata \<Rightarrow> Source option"
where
  "mcpOAuth2Source m idp meta = source ''mcp_server'' (mcp_Name m) ''access.metadata''
     [field_mapping ''config.resource'' ''access.metadata.resource'',
      field_mapping ''config.authorization_servers'' (authorizationServersSource idp meta),
      field_mapping ''config.scopes_supported'' (scopesSupportedSource idp meta),
      field_mapping ''config.metadata_endpoint'' ''access.metadata.endpoint'',
      field_mapping ''config.metadata_discovery_endpoint'' ''access.metadata.discovery_endpoint'',
      field_mapping ''config.client_id'' ''access.auth_strategies'',
      field_mapping ''config.client_secret'' ''access.auth_strategies'',
      field_mapping ''config.ssl_verify'' ''access.auth_strategies'']"

section \<open>The openid-connect and key-auth plugins\<close>

definition revealMCPCredentials ::
  "ConversionIssueSource \<Rightarrow> MCPServer \<Rightarrow> AuthStrategy \<Rightarrow> ymap \<Rightarrow> string \<Rightarrow> converter \<Rightarrow> converter \<times> ymap"
where
  "revealMCPCredentials src m idp cfg reason c =
     ((if as_bool (fmlookup (ast_Config idp) ''hide_credentials'') = Some True
       then warn (src_at src [mcpAuthStrategyField]) ConfigFieldOverridden
         (''MCP server %q references %s auth strategy %q with hide_credentials: true. This will be ignored, and hide_credentials will be overridden to false because %s.'',
          [mcp_Name m, ast_Type idp, ast_Name idp, reason]) c
       else c), fmupd ''hide_credentials'' (YBool False) cfg)"

definition mcpReentersKeyAuthRoute :: "converter \<Rightarrow> MCPServer \<Rightarrow> bool" where
  "mcpReentersKeyAuthRoute c m =
     (mcp_Type m = ''conversion-listener'' \<and>
      (case mac_AuthStrategies (mcp_Access m) of
         [] \<Rightarrow> False
       | ref # _ \<Rightarrow>
           (case fmlookup (cn_authStrategies c) ref of None \<Rightarrow> False | Some idp \<Rightarrow> ast_Type idp = ''key-auth'')))"

definition mcpKeyAuthRevealReason :: "converter \<Rightarrow> MCPServer \<Rightarrow> AuthStrategy \<Rightarrow> string" where
  "mcpKeyAuthRevealReason c m idp =
     (if ast_Type idp \<noteq> ''key-auth'' then []
      else if mcpReentersKeyAuthRoute c m then ''ai-mcp-proxy needs the credential to execute tools''
      else if mcp_TokenVault m \<noteq> None
      then ''the Token Vault reads the credential of the caller from the request''
      else [])"

text \<open>The fields of the strategy and the metadata that the plugin cannot have.\<close>

definition mcp_oidc_warnings ::
  "ConversionIssueSource \<Rightarrow> MCPServer \<Rightarrow> AuthStrategy \<Rightarrow> MCPProtectedResourceMetadata \<Rightarrow> converter \<Rightarrow> converter"
where
  "mcp_oidc_warnings src m idp meta c =
     (let methods = configStrings (ast_Config idp) ''auth_methods'';
          c = (if length methods > 1 \<or> length methods = 1 \<and> methods ! 0 \<noteq> ''bearer''
               then warn (src_at src [mcpAuthStrategyField]) ConfigFieldOverridden
                 (''MCP server %q auth strategy %q sets auth_methods beyond bearer. This will be overridden to [bearer] because MCP routes validate bearer tokens only (matching ai-mcp-oauth2); interactive flows would break the MCP authorization challenge.'',
                  [mcp_Name m, ast_Name idp]) c
               else c)
      in if prm_DiscoveryEndpoint meta \<noteq> []
         then warn (src_at src [''access.metadata.discovery_endpoint'']) ConfigFieldIgnored
           (''MCP server %q access.metadata sets discovery_endpoint, which the openid-connect plugin's protected_resource_metadata block does not support; it will be ignored.'',
            [mcp_Name m]) c
         else c)"

definition mcp_reveal_bearer ::
  "ConversionIssueSource \<Rightarrow> MCPServer \<Rightarrow> AuthStrategy \<Rightarrow> ymap \<Rightarrow> converter \<Rightarrow> converter \<times> ymap"
where
  "mcp_reveal_bearer src m idp cfg c =
     (if mcp_TokenVault m \<noteq> None
      then revealMCPCredentials src m idp cfg
        ''the Token Vault needs the caller's bearer token to resolve the upstream credential'' c
      else (c, cfg))"

definition mcpOIDCPlugin ::
  "ConversionIssueSource \<Rightarrow> MCPServer \<Rightarrow> AuthStrategy option \<Rightarrow> MCPProtectedResourceMetadata \<Rightarrow> converter \<Rightarrow>
   (converter \<times> outcome) \<times> Plugin"
where
  "mcpOIDCPlugin src m idp0 meta c =
     (case mcpProtectedResource src m idp0 meta c of
        ((c, Done), resource, servers) \<Rightarrow>
          (case idp0 of
             None \<Rightarrow> ((c, Panic ''nil auth strategy''), empty_plugin)
           | Some idp \<Rightarrow>
               let cfg = fmupd ''auth_methods'' (YList [YStr ''bearer'']) (ast_Config idp);
                   prm = protected_resource_fields meta idp0 resource servers;
                   cfg = fmupd ''protected_resource_metadata'' (YMap prm) cfg;
                   (c, cfg) = mcp_reveal_bearer src m idp cfg (mcp_oidc_warnings src m idp meta c)
               in ((c, Done), empty_plugin\<lparr>pl_Name := authStrategyTypeOpenIDConnect,
                                            pl_Config := hideOIDCAccessToken cfg\<rparr>))
      | (r, _) \<Rightarrow> (r, empty_plugin))"

definition mcpOIDCSource ::
  "MCPServer \<Rightarrow> AuthStrategy option \<Rightarrow> MCPProtectedResourceMetadata \<Rightarrow> Source option"
where
  "mcpOIDCSource m idp meta = source ''mcp_server'' (mcp_Name m) ''access.metadata''
     [field_mapping ''config.protected_resource_metadata.resource'' ''access.metadata.resource'',
      field_mapping ''config.protected_resource_metadata.authorization_servers'' (authorizationServersSource idp meta),
      field_mapping ''config.protected_resource_metadata.scopes_supported'' (scopesSupportedSource idp meta),
      field_mapping ''config.protected_resource_metadata.metadata_endpoint'' ''access.metadata.endpoint'',
      field_mapping ''config.client_id'' ''access.auth_strategies'',
      field_mapping ''config.client_secret'' ''access.auth_strategies'',
      field_mapping ''config.ssl_verify'' ''access.auth_strategies'']"

text \<open>The plugin of a strategy without metadata.\<close>

definition mcp_plain_plugin ::
  "ConversionIssueSource \<Rightarrow> MCPServer \<Rightarrow> AuthStrategy \<Rightarrow> converter \<Rightarrow> converter \<times> Plugin"
where
  "mcp_plain_plugin src m idp c =
     (let reason = mcpKeyAuthRevealReason c m idp;
          (c, cfg) = (if reason \<noteq> [] then revealMCPCredentials src m idp (ast_Config idp) reason c
                      else (c, ast_Config idp));
          cfg = (if ast_Type idp = authStrategyTypeOpenIDConnect \<and> mcp_TokenVault m = None
                 then hideOIDCAccessToken cfg else cfg)
      in (c, empty_plugin\<lparr>pl_Name := ast_Type idp, pl_Config := cfg,
               pl_Source := source ''identity_provider'' (ast_Name idp) ''config'' []\<rparr>))"

section \<open>The authentication of a server\<close>

definition mcpAccessAuthStrategy ::
  "ConversionIssueSource \<Rightarrow> MCPServer \<Rightarrow> converter \<Rightarrow> (converter \<times> outcome) \<times> AuthStrategy option"
where
  "mcpAccessAuthStrategy src m c =
     (case mac_AuthStrategies (mcp_Access m) of
        [] \<Rightarrow> ((c, Done), None)
      | ref # _ \<Rightarrow>
          (case fmlookup (cn_authStrategies c) ref of
             None \<Rightarrow> (fail (src_at src [mcpAuthStrategyField]) UndefinedReference
                        (''MCP server %q references unknown auth strategy %q'', [mcp_Name m, ref]) c, None)
           | Some idp \<Rightarrow>
               (case checkAuthStrategyType src mcpAuthStrategyField idp c of
                  (c, Done) \<Rightarrow> ((c, Done), Some idp)
                | r \<Rightarrow> (r, None))))"

definition mcp_metadata_plugin ::
  "ConversionIssueSource \<Rightarrow> MCPServer \<Rightarrow> AuthStrategy option \<Rightarrow> MCPProtectedResourceMetadata \<Rightarrow> converter \<Rightarrow>
   (converter \<times> outcome) \<times> Plugin"
where
  "mcp_metadata_plugin src m idp meta c =
     (let oidc = (case idp of
            None \<Rightarrow> False
          | Some i \<Rightarrow> ast_Type i = authStrategyTypeOpenIDConnect \<and> conv_supports FeatureMCPIdentityAuth c)
      in case (if oidc then mcpOIDCPlugin src m idp meta c else mcpOAuth2Plugin src m idp meta c) of
           ((c, Done), plugin) \<Rightarrow>
             ((c, Done), plugin\<lparr>pl_Source := (if oidc then mcpOIDCSource m idp meta else mcpOAuth2Source m idp meta)\<rparr>)
         | r \<Rightarrow> r)"

definition warn_token_subjects :: "ConversionIssueSource \<Rightarrow> MCPServer \<Rightarrow> Plugin \<Rightarrow> converter \<Rightarrow> converter" where
  "warn_token_subjects src m plugin c =
     (let oidcPublishesACLClaims =
            pl_Name plugin = authStrategyTypeOpenIDConnect \<and> conv_supports FeatureMCPIdentityAuth c
      in if mac_ACLAttributeType (mcp_Access m) = ''oauth_access_token'' \<and> pl_Name plugin \<noteq> ''ai-mcp-oauth2'' \<and>
            \<not> oidcPublishesACLClaims
         then warn (src_at src [''access.acl_attribute_type'']) BehaviorMayDiffer
           (''MCP server %q sets acl_attribute_type oauth_access_token, but the route's auth plugin is %q. oauth_access_token ACL subjects read the token claims published by ai-mcp-oauth2, or by openid-connect from runtime 2.3. On older runtimes the ACL has no subjects to match and denies every request.'',
            [mcp_Name m, pl_Name plugin]) c
         else c)"

text \<open>The plugins and the path that the metadata endpoint adds to the route.\<close>

definition mcpAuthStrategyPlugins ::
  "ConversionIssueSource \<Rightarrow> MCPServer \<Rightarrow> Route \<Rightarrow> converter \<Rightarrow> (converter \<times> outcome) \<times> Plugin list \<times> Route"
where
  "mcpAuthStrategyPlugins src m route c =
     (let strategies = mac_AuthStrategies (mcp_Access m); meta = mac_Metadata (mcp_Access m) in
      if strategies = [] \<and> meta = None then ((c, Done), [], route)
      else if \<not> MCPAccessAllowed (mcp_Type m) then
        (fail (src_at src ((if strategies \<noteq> [] then [''access.auth_strategies''] else []) @
                           (if meta \<noteq> None then [''access.metadata''] else []))) ConfigFieldInvalid
           (''MCP server %q has type %q; access.auth_strategies/metadata are only supported for listener, conversion-listener, and passthrough-listener'',
            [mcp_Name m, mcp_Type m]) c, [], route)
      else case mcpAccessAuthStrategy src m c of
        ((c, Done), idp) \<Rightarrow>
          (case (case idp of None \<Rightarrow> (c, Done) | Some i \<Rightarrow> applyAuthStrategyTokenVault i c) of
             (c, Done) \<Rightarrow>
               (case (meta, idp) of
                  (Some meta, _) \<Rightarrow>
                    (if (case idp of None \<Rightarrow> False | Some i \<Rightarrow> ast_Type i = ''key-auth'') then
                       (fail (src_at src [''access.metadata'', mcpAuthStrategyField]) ConfigFieldInvalid
                          (''MCP server %q references key-auth auth strategy %q with access.metadata; OAuth Protected Resource Metadata is not supported for key-auth'',
                           [mcp_Name m, ast_Name (the idp)]) c, [], route)
                     else case mcp_metadata_plugin src m idp meta c of
                       ((c, Done), plugin) \<Rightarrow>
                         ((warn_token_subjects src m plugin c, Done), [plugin],
                          if prm_Endpoint meta \<noteq> [] then route\<lparr>rt_Paths := rt_Paths route @ [prm_Endpoint meta]\<rparr>
                          else route)
                     | (r, _) \<Rightarrow> (r, [], route))
                | (None, Some i) \<Rightarrow>
                    (let (c, plugin) = mcp_plain_plugin src m i c
                     in ((warn_token_subjects src m plugin c, Done), [plugin], route))
                | (None, None) \<Rightarrow> ((c, Panic ''nil auth strategy''), [], route))
           | r \<Rightarrow> (r, [], route))
      | (r, _) \<Rightarrow> (r, [], route))"


section \<open>Decoding inverts encoding\<close>

text \<open>A reference encoder of RFC 4648, with or without padding.\<close>

definition b64_char :: "nat \<Rightarrow> char" where
  "b64_char n =
     (if n < 26 then char_of (65 + n) else if n < 52 then char_of (71 + n) else if n < 62 then char_of (n - 4)
      else if n = 62 then CHR ''+'' else CHR ''/'')"

fun b64_encode :: "bool \<Rightarrow> nat list \<Rightarrow> string" where
  "b64_encode padded [] = []"
| "b64_encode padded [a] =
     [b64_char (a div 4), b64_char (16 * (a mod 4))] @ (if padded then ''=='' else [])"
| "b64_encode padded [a, b] =
     [b64_char (a div 4), b64_char (16 * (a mod 4) + b div 16), b64_char (4 * (b mod 16))] @
     (if padded then ''='' else [])"
| "b64_encode padded (a # b # c # rest) =
     b64_char (a div 4) # b64_char (16 * (a mod 4) + b div 16) # b64_char (4 * (b mod 16) + c div 64) #
     b64_char (c mod 64) # b64_encode padded rest"

definition EncodeToString :: "bool \<Rightarrow> string \<Rightarrow> string" where
  "EncodeToString padded s = b64_encode padded (map of_char s)"

lemma b64_char_code:
  "n < 64 \<Longrightarrow> (of_char (b64_char n) :: nat) =
     (if n < 26 then 65 + n else if n < 52 then 71 + n else if n < 62 then n - 4 else if n = 62 then 43 else 47)"
  by (simp add: b64_char_def)

lemma b64_val_char [simp]: "n < 64 \<Longrightarrow> b64_val (b64_char n) = Some n"
  using b64_char_code [of n] by (auto simp: b64_val_def Let_def b64_char_def split: if_splits)

lemma b64_char_graph: "n < 64 \<Longrightarrow> 32 < (of_char (b64_char n) :: nat) \<and> (of_char (b64_char n) :: nat) < 128"
  using b64_char_code [of n] by (auto split: if_splits)

lemma b64_val_pad [simp]: "b64_val CHR ''='' = None"
  by code_simp

text \<open>The bytes of a quantum are the bytes that were split over its characters.\<close>

lemma b64_bytes:
  fixes a b c :: nat
  assumes "a < 256" "b < 256" "c < 256"
  shows "a div 4 < 64" "16 * (a mod 4) < 64" "16 * (a mod 4) + b div 16 < 64"
    "4 * (b mod 16) < 64" "4 * (b mod 16) + c div 64 < 64" "c mod 64 < 64"
    "byte1 (a div 4) (16 * (a mod 4)) = char_of a"
    "byte1 (a div 4) (16 * (a mod 4) + b div 16) = char_of a"
    "byte2 (16 * (a mod 4) + b div 16) (4 * (b mod 16)) = char_of b"
    "byte2 (16 * (a mod 4) + b div 16) (4 * (b mod 16) + c div 64) = char_of b"
    "byte3 (4 * (b mod 16) + c div 64) (c mod 64) = char_of c"
proof -
  show "a div 4 < 64" "16 * (a mod 4) < 64" "4 * (b mod 16) < 64" "c mod 64 < 64"
    using assms by auto
  have y: "b div 16 < 16" and z: "c div 64 < 4" using assms by auto
  show "16 * (a mod 4) + b div 16 < 64" "4 * (b mod 16) + c div 64 < 64" using y z by linarith+
  have d: "(16 * (a mod 4) + b div 16) div 16 = a mod 4" "(16 * (a mod 4) + b div 16) mod 16 = b div 16"
    "(4 * (b mod 16) + c div 64) div 4 = b mod 16" "(4 * (b mod 16) + c div 64) mod 4 = c div 64"
    using y z by simp_all
  have e: "16 * (b div 16) + b mod 16 = b" "64 * (c div 64) + c mod 64 = c" "4 * (a div 4) + a mod 4 = a"
    by simp_all
  show "byte1 (a div 4) (16 * (a mod 4)) = char_of a"
    "byte1 (a div 4) (16 * (a mod 4) + b div 16) = char_of a"
    by (simp_all add: byte1_def d)
  show "byte2 (16 * (a mod 4) + b div 16) (4 * (b mod 16)) = char_of b"
    "byte2 (16 * (a mod 4) + b div 16) (4 * (b mod 16) + c div 64) = char_of b"
    unfolding byte2_def d by (simp_all only: e nonzero_mult_div_cancel_left zero_neq_numeral not_False_eq_True)
  show "byte3 (4 * (b mod 16) + c div 64) (c mod 64) = char_of c"
    unfolding byte3_def d e by (rule refl)
qed

lemma b64_decode_encode:
  "list_all (\<lambda>n. n < 256) s \<Longrightarrow> b64_quanta padded (b64_encode padded s) = Some (map char_of s)"
proof (induction padded s rule: b64_encode.induct)
  case (2 padded a)
  then show ?case using b64_bytes [of a 0 0] by simp
next
  case (3 padded a b)
  then show ?case using b64_bytes [of a b 0] by simp
next
  case (4 padded a b c rest)
  then show ?case using b64_bytes [of a b c] by simp
qed simp

text \<open>The padded reader accepts an unpadded text only where both readers agree.\<close>

lemma b64_decode_other:
  "list_all (\<lambda>n. n < 256) s \<Longrightarrow> b64_quanta True (b64_encode False s) \<in> {None, Some (map char_of s)}"
proof (induction False s rule: b64_encode.induct)
  case (2 a)
  then show ?case using b64_bytes [of a 0 0] by simp
next
  case (3 a b)
  then show ?case using b64_bytes [of a b 0] by simp
next
  case (4 a b c rest)
  then show ?case using b64_bytes [of a b c] by auto
qed simp

lemma b64_encode_graph:
  "list_all (\<lambda>n. n < 256) s \<Longrightarrow> x \<in> set (b64_encode padded s) \<Longrightarrow>
   32 < (of_char x :: nat) \<and> (of_char x :: nat) < 128"
proof (induction padded s rule: b64_encode.induct)
  case (2 padded a)
  then show ?case using b64_bytes [of a 0 0] b64_char_graph by (auto split: if_splits)
next
  case (3 padded a b)
  then show ?case using b64_bytes [of a b 0] b64_char_graph by (auto split: if_splits)
next
  case (4 padded a b c rest)
  then show ?case using b64_bytes [of a b c] b64_char_graph by auto
qed simp

text \<open>A text without white space and without bytes above ASCII is one field.\<close>

lemma space_len_graph: "32 < (of_char x :: nat) \<Longrightarrow> (of_char x :: nat) < 128 \<Longrightarrow> space_len (x # s) = 0"
proof -
  assume x: "32 < (of_char x :: nat)" "(of_char x :: nat) < 128"
  have heads: "\<forall>r \<in> set space_runes. r \<noteq> [] \<and> \<not> (32 < (of_char (hd r) :: nat) \<and> (of_char (hd r) :: nat) < 128)"
    by code_simp
  have "find (HasPrefix (x # s)) space_runes = None"
    unfolding find_None_iff
  proof
    assume "\<exists>r. r \<in> set space_runes \<and> HasPrefix (x # s) r"
    then obtain r where r: "r \<in> set space_runes" "HasPrefix (x # s) r" by blast
    with heads obtain y ys where "r = y # ys" by (cases r) auto
    with r heads x show False by auto
  qed
  then show ?thesis by (simp add: space_len_def)
qed

lemma fields_loop_graph:
  "list_all (\<lambda>x. 32 < (of_char x :: nat) \<and> (of_char x :: nat) < 128) s \<Longrightarrow> fields_loop cur s = flush (cur @ s)"
  by (induction s arbitrary: cur) (simp_all add: space_len_graph)

lemma strings_Fields_basic:
  assumes "list_all (\<lambda>x. 32 < (of_char x :: nat) \<and> (of_char x :: nat) < 128) s" and "s \<noteq> []"
  shows "strings_Fields (''Basic '' @ s) = [''Basic'', s]"
proof -
  define a where "a = map (map char_of) [[9], [10], [11], [12], [13 :: nat]]"
  define b where "b = drop 6 space_runes"
  have "char_of (32 :: nat) = CHR '' ''" by code_simp
  then have runes: "space_runes = a @ [CHR '' ''] # b" by (simp add: a_def b_def space_runes_def)
  have a: "\<forall>r \<in> set a. hd r \<noteq> CHR '' '' \<and> r \<noteq> []" unfolding a_def by code_simp
  have "\<not> HasPrefix (CHR '' '' # t) r" if "r \<in> set a" for r t
    using a that by (cases r) auto
  then have "find (HasPrefix (CHR '' '' # t)) a = None" for t
    by (auto simp: find_None_iff)
  then have sp: "space_len (CHR '' '' # t) = 1" for t
    unfolding space_len_def by (subst runes) (simp add: find_append)
  show ?thesis
    using assms by (simp add: strings_Fields_def space_len_graph sp fields_loop_graph flush_def)
qed

text \<open>The credentials that the Basic scheme encodes are read back as they were, from the padded and
  from the unpadded base64 form, whatever bytes the password has; a username has no colon.\<close>

theorem basic_credentials_roundtrip:
  assumes "CHR '':'' \<notin> set username"
  shows "basicProxyCredentials (''Basic '' @ EncodeToString padded (username @ '':'' @ password)) =
    Inr (username, password)"
proof -
  let ?t = "username @ '':'' @ password"
  let ?n = "map of_char ?t :: nat list"
  let ?e = "EncodeToString padded ?t"
  have n: "list_all (\<lambda>n. n < 256) ?n" by (auto simp: list_all_iff)
  have graph: "list_all (\<lambda>x. 32 < (of_char x :: nat) \<and> (of_char x :: nat) < 128) ?e"
    unfolding list_all_iff EncodeToString_def using b64_encode_graph [OF n] by blast
  have "length ?n \<noteq> 0" by simp
  then have ne: "?e \<noteq> []"
    unfolding EncodeToString_def by (cases "(padded, ?n)" rule: b64_encode.cases) simp_all
  have filt: "filter (\<lambda>c. of_char c \<noteq> (10 :: nat) \<and> of_char c \<noteq> (13 :: nat)) ?e = ?e"
    using graph unfolding filter_id_conv list_all_iff by fastforce
  have unsplit: "map char_of ?n = ?t" unfolding map_map by (rule map_idI) simp
  have dec: "(case DecodeString True ?e of None \<Rightarrow> DecodeString False ?e | Some d \<Rightarrow> Some d) = Some ?t"
  proof (cases padded)
    case True
    then show ?thesis
      using b64_decode_encode [OF n, of True] filt unsplit by (simp add: DecodeString_def EncodeToString_def)
  next
    case False
    then show ?thesis
      using b64_decode_encode [OF n, of False] b64_decode_other [OF n] filt unsplit
      by (auto simp: DecodeString_def EncodeToString_def)
  qed
  have basic: "is_basic ''Basic''" by code_simp
  have cut: "Cut ?t (CHR '':'') = Some (username, password)" using assms by simp
  show ?thesis
    unfolding basicProxyCredentials_def strings_Fields_basic [OF graph ne]
    by (simp only: list.case dec basic cut not_True_eq_False if_False option.case prod.case)
qed

theorem basic_credentials_roundtrip_witness:
  "EncodeToString True ''user:pa:ss'' = ''dXNlcjpwYTpzcw=='' \<and>
   basicProxyCredentials (''Basic '' @ EncodeToString True ''user:pa:ss'') = Inr (''user'', ''pa:ss'')"
proof
  show "EncodeToString True ''user:pa:ss'' = ''dXNlcjpwYTpzcw==''" by code_simp
  have "CHR '':'' \<notin> set ''user''" by simp
  from basic_credentials_roundtrip [OF this, of True "''pa:ss''"]
  show "basicProxyCredentials (''Basic '' @ EncodeToString True ''user:pa:ss'') = Inr (''user'', ''pa:ss'')"
    by (simp only: append.simps)
qed


section \<open>Proxy settings are kept or refused\<close>

text \<open>The record \<open>m\<close> makes the plugin use the proxy \<open>name\<close> as the strategy has it: host, port, scheme and
  credentials, and none of them when the strategy has none.\<close>

definition proxy_kept :: "ymap \<Rightarrow> string \<Rightarrow> ymap \<Rightarrow> bool" where
  "proxy_kept oidc name m \<longleftrightarrow>
     (case oidcProxyEndpoint (configString oidc name) of
        Inl e \<Rightarrow> False
      | Inr None \<Rightarrow>
          fmlookup m (name @ ''_host'') = None \<and> fmlookup m (name @ ''_port'') = None \<and>
          configString oidc (name @ ''_authorization'') = []
      | Inr (Some p) \<Rightarrow>
          fmlookup m (name @ ''_host'') = Some (YStr (pe_host p)) \<and>
          fmlookup m (name @ ''_port'') = map_option YInt (pe_port p) \<and>
          fmlookup m ''proxy_scheme'' = Some (YStr (pe_scheme p)) \<and>
          (if configString oidc (name @ ''_authorization'') = []
           then fmlookup m ''auth_username'' = None \<and> fmlookup m ''auth_password'' = None
           else case basicProxyCredentials (configString oidc (name @ ''_authorization'')) of
             Inl e \<Rightarrow> False
           | Inr (u, w) \<Rightarrow> fmlookup m ''auth_username'' = Some (YStr u) \<and> fmlookup m ''auth_password'' = Some (YStr w)))"

definition proxy_base :: "oidcProxyEndpointConfig option \<Rightarrow> oidcProxyEndpointConfig option \<Rightarrow> string \<Rightarrow> ymap" where
  "proxy_base http https noProxy =
     setIfNotEmpty ''no_proxy'' noProxy (put_proxy ''https_proxy'' https (put_proxy ''http_proxy'' http fmempty))"

lemma setInt_map: "fmlookup (setInt m k v) j = (if j = k \<and> v \<noteq> None then map_option YInt v else fmlookup m j)"
  by (cases v) (auto simp: setInt_def)

lemma proxy_base_lookup:
  "fmlookup (proxy_base http https np) ''http_proxy_host'' = map_option (YStr \<circ> pe_host) http"
  "fmlookup (proxy_base http https np) ''http_proxy_port'' = map_option YInt (Option.bind http pe_port)"
  "fmlookup (proxy_base http https np) ''https_proxy_host'' = map_option (YStr \<circ> pe_host) https"
  "fmlookup (proxy_base http https np) ''https_proxy_port'' = map_option YInt (Option.bind https pe_port)"
  "fmlookup (proxy_base http https np) ''auth_username'' = None"
  "fmlookup (proxy_base http https np) ''auth_password'' = None"
  "fmlookup (proxy_base http https np) ''no_proxy'' = (if np = [] then None else Some (YStr np))"
  "fmlookup (proxy_base http https np) ''proxy_scheme'' =
     map_option (YStr \<circ> pe_scheme) (case http of None \<Rightarrow> https | Some p \<Rightarrow> Some p)"
  by (cases http; cases https; simp add: proxy_base_def put_proxy_def Let_def setInt_map setIfNotEmpty_def)+

text \<open>How a result comes about.\<close>

lemma oidcProxyConfig_Inr:
  assumes "oidcProxyConfig oidc = Inr r"
  obtains http https where
    "oidcProxyEndpoint (configString oidc ''http_proxy'') = Inr http"
    "oidcProxyEndpoint (configString oidc ''https_proxy'') = Inr https"
    "proxy_conflict http https (configString oidc ''http_proxy_authorization'')
       (configString oidc ''https_proxy_authorization'') = None"
    "let a = configString oidc ''http_proxy_authorization''; b = configString oidc ''https_proxy_authorization'';
         np = configString oidc ''no_proxy''; auth = (if a = [] then b else a); base = proxy_base http https np in
     (r = None \<and> http = None \<and> https = None \<and> a = [] \<and> b = [] \<and> np = []) \<or>
     (auth = [] \<and> r = Some base) \<or>
     (auth \<noteq> [] \<and> (\<exists>u w. basicProxyCredentials auth = Inr (u, w) \<and>
        r = Some (fmupd ''auth_password'' (YStr w) (fmupd ''auth_username'' (YStr u) base))))"
proof -
  obtain http where h: "oidcProxyEndpoint (configString oidc ''http_proxy'') = Inr http"
    using assms by (cases "oidcProxyEndpoint (configString oidc ''http_proxy'')") (auto simp: oidcProxyConfig_def)
  obtain https where hs: "oidcProxyEndpoint (configString oidc ''https_proxy'') = Inr https"
    using assms h by (cases "oidcProxyEndpoint (configString oidc ''https_proxy'')") (auto simp: oidcProxyConfig_def)
  let ?a = "configString oidc ''http_proxy_authorization''" and ?b = "configString oidc ''https_proxy_authorization''"
  have c: "proxy_conflict http https ?a ?b = None"
    using assms h hs by (cases "proxy_conflict http https ?a ?b") (simp_all add: oidcProxyConfig_def Let_def)
  show thesis
  proof (rule that [OF h hs c])
    show "let a = configString oidc ''http_proxy_authorization''; b = configString oidc ''https_proxy_authorization'';
         np = configString oidc ''no_proxy''; auth = (if a = [] then b else a); base = proxy_base http https np in
     (r = None \<and> http = None \<and> https = None \<and> a = [] \<and> b = [] \<and> np = []) \<or>
     (auth = [] \<and> r = Some base) \<or>
     (auth \<noteq> [] \<and> (\<exists>u w. basicProxyCredentials auth = Inr (u, w) \<and>
        r = Some (fmupd ''auth_password'' (YStr w) (fmupd ''auth_username'' (YStr u) base))))"
      using assms unfolding oidcProxyConfig_def h hs Let_def c sum.case option.case proxy_base_def
      by (auto split: if_splits sum.splits)
  qed
qed

text \<open>When an openid-connect strategy's proxy settings are lowered, the one record of the plugin gives
  each of the two proxies the host, the port, the scheme and the credentials that the strategy gives
  it, and no credentials to a proxy without; every other combination is refused.\<close>

theorem mcp_proxy_settings_kept:
  assumes "oidcProxyConfig oidc = Inr r"
  shows "proxy_kept oidc ''http_proxy'' (or_else r fmempty) \<and> proxy_kept oidc ''https_proxy'' (or_else r fmempty) \<and>
    getAnyStr (or_else r fmempty) ''no_proxy'' = configString oidc ''no_proxy''"
proof -
  from assms obtain http https where e: "oidcProxyEndpoint (configString oidc ''http_proxy'') = Inr http"
      "oidcProxyEndpoint (configString oidc ''https_proxy'') = Inr https"
    and c: "proxy_conflict http https (configString oidc ''http_proxy_authorization'')
       (configString oidc ''https_proxy_authorization'') = None"
    and r: "let a = configString oidc ''http_proxy_authorization''; b = configString oidc ''https_proxy_authorization'';
         np = configString oidc ''no_proxy''; auth = (if a = [] then b else a); base = proxy_base http https np in
     (r = None \<and> http = None \<and> https = None \<and> a = [] \<and> b = [] \<and> np = []) \<or>
     (auth = [] \<and> r = Some base) \<or>
     (auth \<noteq> [] \<and> (\<exists>u w. basicProxyCredentials auth = Inr (u, w) \<and>
        r = Some (fmupd ''auth_password'' (YStr w) (fmupd ''auth_username'' (YStr u) base))))"
    by (rule oidcProxyConfig_Inr)
  from r consider
      (none) "r = None" "http = None" "https = None" "configString oidc ''http_proxy_authorization'' = []"
        "configString oidc ''https_proxy_authorization'' = []" "configString oidc ''no_proxy'' = []"
    | (plain) "r = Some (proxy_base http https (configString oidc ''no_proxy''))"
        "configString oidc ''http_proxy_authorization'' = []" "configString oidc ''https_proxy_authorization'' = []"
    | (auth) u w where "r = Some (fmupd ''auth_password'' (YStr w) (fmupd ''auth_username'' (YStr u)
           (proxy_base http https (configString oidc ''no_proxy''))))"
        "basicProxyCredentials (if configString oidc ''http_proxy_authorization'' = []
           then configString oidc ''https_proxy_authorization''
           else configString oidc ''http_proxy_authorization'') = Inr (u, w)"
        "(if configString oidc ''http_proxy_authorization'' = []
           then configString oidc ''https_proxy_authorization''
           else configString oidc ''http_proxy_authorization'') \<noteq> []"
    unfolding Let_def by (auto split: if_splits)
  then show ?thesis
  proof cases
    case none
    then show ?thesis using e by (simp add: proxy_kept_def getAnyStr_def)
  next
    case plain
    then show ?thesis using e c
      by (cases http; cases https)
        (simp_all add: proxy_kept_def proxy_base_lookup getAnyStr_def proxy_conflict_def split: if_splits)
  next
    case auth
    then show ?thesis using e c
      by (cases http; cases https)
        (simp_all add: proxy_kept_def proxy_base_lookup getAnyStr_def proxy_conflict_def split: if_splits)
  qed
qed

definition sample_proxy :: ymap where
  "sample_proxy = fmap_of_list [(''http_proxy'', YStr ''http://p.example:3128''),
     (''http_proxy_authorization'', YStr ''Basic dTpw''), (''no_proxy'', YStr ''localhost'')]"

theorem mcp_proxy_settings_kept_witness:
  "oidcProxyConfig sample_proxy = Inr (Some (fmap_of_list [(''http_proxy_host'', YStr ''p.example''),
     (''http_proxy_port'', YInt 3128), (''proxy_scheme'', YStr ''http''), (''no_proxy'', YStr ''localhost''),
     (''auth_username'', YStr ''u''), (''auth_password'', YStr ''p'')])) \<and>
   proxy_kept sample_proxy ''https_proxy'' (or_else (projr (oidcProxyConfig sample_proxy)) fmempty)"
proof
  have h: "oidcProxyEndpoint ''http://p.example:3128'' =
      Inr (Some \<lparr>pe_host = ''p.example'', pe_port = Some 3128, pe_scheme = ''http''\<rparr>)" by code_simp
  have "list_all (\<lambda>x. 32 < (of_char x :: nat) \<and> (of_char x :: nat) < 128) ''dTpw''" by code_simp
  from strings_Fields_basic [OF this]
  have f: "strings_Fields ''Basic dTpw'' = [''Basic'', ''dTpw'']" by simp
  have d: "DecodeString True ''dTpw'' = Some ''u:p''" "is_basic ''Basic''" by code_simp+
  have b: "basicProxyCredentials ''Basic dTpw'' = Inr (''u'', ''p'')"
    unfolding basicProxyCredentials_def f by (simp add: d)
  show run: "oidcProxyConfig sample_proxy = Inr (Some (fmap_of_list [(''http_proxy_host'', YStr ''p.example''),
     (''http_proxy_port'', YInt 3128), (''proxy_scheme'', YStr ''http''), (''no_proxy'', YStr ''localhost''),
     (''auth_username'', YStr ''u''), (''auth_password'', YStr ''p'')]))"
    using h b by (simp add: oidcProxyConfig_def sample_proxy_def configString_def oidcProxyEndpoint_def [of "[]"]
        proxy_conflict_def put_proxy_def Let_def setIfNotEmpty_def setInt_def, intro fmap_ext, auto)
  show "proxy_kept sample_proxy ''https_proxy'' (or_else (projr (oidcProxyConfig sample_proxy)) fmempty)"
    using mcp_proxy_settings_kept [OF run] unfolding run sum.sel by blast
qed


section \<open>A server that asks for authentication gets it\<close>

definition mcp_strategy :: "converter \<Rightarrow> MCPServer \<Rightarrow> AuthStrategy option" where
  "mcp_strategy c m =
     (case mac_AuthStrategies (mcp_Access m) of [] \<Rightarrow> None | ref # _ \<Rightarrow> fmlookup (cn_authStrategies c) ref)"

text \<open>The plugin carries the config of the strategy except for the given fields.\<close>

definition carries :: "AuthStrategy \<Rightarrow> string set \<Rightarrow> ymap \<Rightarrow> bool" where
  "carries i except cfg \<longleftrightarrow> (\<forall>k. k \<notin> except \<longrightarrow> fmlookup cfg k = fmlookup (ast_Config i) k)"

definition serves_metadata :: "MCPProtectedResourceMetadata \<Rightarrow> AuthStrategy option \<Rightarrow> ymap \<Rightarrow> bool" where
  "serves_metadata meta idp cfg \<longleftrightarrow>
     prm_Resource meta \<noteq> [] \<and> mcpEffectiveAuthServers meta idp \<noteq> [] \<and>
     fmlookup cfg ''resource'' = Some (YStr (prm_Resource meta)) \<and>
     fmlookup cfg ''authorization_servers'' = Some (YStrs (mcpEffectiveAuthServers meta idp))"

definition oauth2_enforces :: "MCPProtectedResourceMetadata \<Rightarrow> AuthStrategy option \<Rightarrow> Plugin \<Rightarrow> bool" where
  "oauth2_enforces meta idp p \<longleftrightarrow>
     pl_Name p = ''ai-mcp-oauth2'' \<and> serves_metadata meta idp (pl_Config p) \<and>
     (\<forall>i. idp = Some i \<longrightarrow> isEmptyConfigValue (fmlookup (ast_Config i) ''token_exchange'')) \<and>
     fmlookup (pl_Config p) ''insecure_relaxed_audience_validation'' = Some (YBool (oidcAudienceRequired idp = [])) \<and>
     (oidcAudienceRequired idp \<noteq> [] \<longrightarrow>
        fmlookup (pl_Config p) ''expected_audience'' = Some (YStr (hd (oidcAudienceRequired idp))))"

definition oidc_enforces :: "MCPProtectedResourceMetadata \<Rightarrow> AuthStrategy \<Rightarrow> Plugin \<Rightarrow> bool" where
  "oidc_enforces meta i p \<longleftrightarrow>
     pl_Name p = authStrategyTypeOpenIDConnect \<and>
     fmlookup (pl_Config p) ''auth_methods'' = Some (YList [YStr ''bearer'']) \<and>
     (\<exists>prm. fmlookup (pl_Config p) ''protected_resource_metadata'' = Some (YMap prm) \<and> serves_metadata meta (Some i) prm) \<and>
     carries i {''auth_methods'', ''protected_resource_metadata'', ''hide_credentials'', ''upstream_access_token_header''}
       (pl_Config p)"

definition mcp_enforces :: "converter \<Rightarrow> MCPServer \<Rightarrow> Plugin \<Rightarrow> bool" where
  "mcp_enforces c m p \<longleftrightarrow>
     (case (mac_Metadata (mcp_Access m), mcp_strategy c m) of
        (None, None) \<Rightarrow> False
      | (None, Some i) \<Rightarrow>
          pl_Name p = ast_Type i \<and> carries i {''hide_credentials'', ''upstream_access_token_header''} (pl_Config p)
      | (Some meta, idp) \<Rightarrow>
          (case idp of
             Some i \<Rightarrow> ast_Type i \<noteq> ''key-auth'' \<and>
               (if ast_Type i = authStrategyTypeOpenIDConnect \<and> conv_supports FeatureMCPIdentityAuth c
                then oidc_enforces meta i p else oauth2_enforces meta idp p)
           | None \<Rightarrow> oauth2_enforces meta idp p))"

text \<open>The field table leaves other fields alone.\<close>

definition oauth2_keys :: "string list" where
  "oauth2_keys = ''credential_claim'' # map of_OAuth2Key OIDCToMCPOAuth2Fields"

lemma oauth2_field_other: "k \<noteq> of_OAuth2Key f \<Longrightarrow> fmlookup (oauth2_field oidc f cfg) k = fmlookup cfg k"
  by (auto simp: oauth2_field_def set_opt_lookup setIfNotEmpty_lookup Let_def split: OAuth2FieldKind.split)

lemma applyOIDC_other:
  assumes "k \<notin> set oauth2_keys"
  shows "fmlookup (applyOIDCFieldsToOAuth2 cfg oidc) k = fmlookup cfg k"
proof -
  have "fmlookup (fold (oauth2_field oidc) fs cfg) k = fmlookup cfg k" if "k \<notin> of_OAuth2Key ` set fs" for fs
    using that by (induction fs arbitrary: cfg) (simp_all add: oauth2_field_other)
  then show ?thesis using assms by (auto simp: applyOIDCFieldsToOAuth2_def Let_def oauth2_keys_def)
qed

lemma oauth2_own_keys:
  "''resource'' \<notin> set oauth2_keys" "''authorization_servers'' \<notin> set oauth2_keys"
  by code_simp+

lemma protected_resource_step:
  assumes "mcpProtectedResource src m idp meta c = ((c', oc), res, servers)"
  shows "only_issues c c' \<and> explained (c', oc) \<and>
    (oc = Done \<longrightarrow> c' = c \<and> res = prm_Resource meta \<and> servers = mcpEffectiveAuthServers meta idp \<and>
       res \<noteq> [] \<and> servers \<noteq> [])"
  using assms by (auto simp: mcpProtectedResource_def fail_def explained_def split: if_splits)

lemma strategy_fields_step:
  assumes "oauth2_strategy_fields src m i cfg c = ((c', oc), cfg')"
  shows "only_issues c c' \<and> explained (c', oc) \<and>
    (oc = Done \<longrightarrow> isEmptyConfigValue (fmlookup (ast_Config i) ''token_exchange'') \<and>
       (\<forall>k \<in> {''resource'', ''authorization_servers''}. fmlookup cfg' k = fmlookup cfg k))"
proof (cases "isEmptyConfigValue (fmlookup (ast_Config i) ''token_exchange'')")
  case False
  then show ?thesis using assms by (auto simp: oauth2_strategy_fields_def fail_def explained_def)
next
  case True
  define cw where "cw = (if firstConfigString (ast_Config i) ''client_id'' \<noteq> [] \<and>
      firstConfigString (ast_Config i) ''client_secret'' = []
    then warn (src_at src [mcpAuthStrategyField]) ConfigFieldIgnored
      (''MCP server %q auth strategy %q sets client_id but no client_secret. The gateway requires a client credential with client_id, so the plugin leaves client_id out. Token validation does not use it.'',
       [mcp_Name m, ast_Name i]) c else c)"
  have cw: "only_issues c cw" by (simp add: cw_def)
  have err: "only_issues c (report s sv code r cw)" for s sv code r
    by (rule only_issues_trans [OF cw]) simp
  show ?thesis
    using assms True cw err applyOIDC_other oauth2_own_keys
    unfolding oauth2_strategy_fields_def Let_def cw_def [symmetric]
    by (cases "oidcProxyConfig (ast_Config i)") (auto simp: fail_def explained_def set_opt_lookup)
qed

lemma audience_step:
  assumes "oauth2_audience src m idp cfg c = (c', cfg')"
  shows "only_issues c c' \<and>
    fmlookup cfg' ''insecure_relaxed_audience_validation'' = Some (YBool (oidcAudienceRequired idp = [])) \<and>
    (oidcAudienceRequired idp \<noteq> [] \<longrightarrow> fmlookup cfg' ''expected_audience'' = Some (YStr (hd (oidcAudienceRequired idp)))) \<and>
    (\<forall>k \<in> {''resource'', ''authorization_servers''}. fmlookup cfg' k = fmlookup cfg k)"
  using assms by (auto simp: oauth2_audience_def split: list.splits)


lemma effective_nonempty: "prm_Resource meta \<noteq> [] \<Longrightarrow> mcpEffectiveAuthServers meta idp \<noteq> [] \<Longrightarrow>
    fmlookup cfg ''resource'' = Some (YStr (prm_Resource meta)) \<Longrightarrow>
    fmlookup cfg ''authorization_servers'' = Some (YStrs (mcpEffectiveAuthServers meta idp)) \<Longrightarrow>
    serves_metadata meta idp cfg"
  by (simp add: serves_metadata_def)

lemma oauth2_plugin_step:
  assumes "mcpOAuth2Plugin src m idp meta c = ((c', oc), p)"
  shows "only_issues c c' \<and> explained (c', oc) \<and> (oc = Done \<longrightarrow> oauth2_enforces meta idp p)"
proof -
  obtain c1 oc1 res servers where pr: "mcpProtectedResource src m idp meta c = ((c1, oc1), res, servers)"
    by (metis prod.exhaust)
  note ps = protected_resource_step [OF pr]
  show ?thesis
  proof (cases "oc1 = Done")
    case False
    then show ?thesis using assms pr ps by (cases oc1) (auto simp: mcpOAuth2Plugin_def)
  next
    case True
    then have pr': "mcpProtectedResource src m idp meta c = ((c, Done), res, servers)" using pr ps by simp
    define cfg where "cfg = setIfNotEmpty ''metadata_discovery_endpoint'' (prm_DiscoveryEndpoint meta)
      (protected_resource_fields meta idp res servers)"
    have cfg: "fmlookup cfg ''resource'' = Some (YStr res)" "fmlookup cfg ''authorization_servers'' = Some (YStrs servers)"
      by (simp_all add: cfg_def protected_resource_fields_def Let_def setIfNotEmpty_lookup)
    obtain c2 oc2 cfg2 where sf:
      "(case idp of None \<Rightarrow> ((c, Done), cfg) | Some i \<Rightarrow> oauth2_strategy_fields src m i cfg c) = ((c2, oc2), cfg2)"
      by (metis prod.exhaust)
    have s2: "only_issues c c2" "explained (c2, oc2)"
      "oc2 = Done \<Longrightarrow> (\<forall>i. idp = Some i \<longrightarrow> isEmptyConfigValue (fmlookup (ast_Config i) ''token_exchange'')) \<and>
         fmlookup cfg2 ''resource'' = Some (YStr res) \<and> fmlookup cfg2 ''authorization_servers'' = Some (YStrs servers)"
      using sf cfg strategy_fields_step [of src m _ cfg c c2 oc2 cfg2] by (auto split: option.splits)
    show ?thesis
    proof (cases "oc2 = Done")
      case False
      have "mcpOAuth2Plugin src m idp meta c = ((c2, oc2), empty_plugin)"
        unfolding mcpOAuth2Plugin_def pr' Let_def cfg_def [symmetric] prod.case outcome.case sf
        using False by (cases oc2) simp_all
      then show ?thesis using assms False s2 by simp
    next
      case done2: True
      define cfg3 where "cfg3 = (if mcp_TokenVault m \<noteq> None then fmupd ''passthrough_credentials'' (YBool True) cfg2 else cfg2)"
      obtain c4 cfg4 where au: "oauth2_audience src m idp cfg3 c2 = (c4, cfg4)" by (metis prod.exhaust)
      note a = audience_step [OF au]
      have "mcpOAuth2Plugin src m idp meta c =
          ((c4, Done), empty_plugin\<lparr>pl_Name := ''ai-mcp-oauth2'', pl_Config := cfg4\<rparr>)"
        unfolding mcpOAuth2Plugin_def pr' Let_def cfg_def [symmetric] prod.case outcome.case sf done2
          cfg3_def [symmetric] au by (rule refl)
      then have res: "c' = c4" "oc = Done" "p = empty_plugin\<lparr>pl_Name := ''ai-mcp-oauth2'', pl_Config := cfg4\<rparr>"
        using assms by simp_all
      have "fmlookup cfg3 k = fmlookup cfg2 k" if "k \<in> {''resource'', ''authorization_servers''}" for k
        using that by (auto simp: cfg3_def)
      moreover have "prm_Resource meta \<noteq> []" "mcpEffectiveAuthServers meta idp \<noteq> []" using ps True by auto
      ultimately have "serves_metadata meta idp cfg4"
        using a s2(3) [OF done2] ps True by (simp add: serves_metadata_def)
      then show ?thesis
        using res a s2 done2 only_issues_trans by (auto simp: oauth2_enforces_def)
    qed
  qed
qed

lemma hide_token_carries:
  "carries i X cfg \<Longrightarrow> ''upstream_access_token_header'' \<in> X \<Longrightarrow> carries i X (hideOIDCAccessToken cfg)"
  by (auto simp: carries_def hideOIDCAccessToken_def)

lemma upd_carries: "carries i X cfg \<Longrightarrow> k \<in> X \<Longrightarrow> carries i X (fmupd k v cfg)"
  by (auto simp: carries_def)

lemma hide_token_other:
  "k \<noteq> ''upstream_access_token_header'' \<Longrightarrow> fmlookup (hideOIDCAccessToken cfg) k = fmlookup cfg k"
  by (simp add: hideOIDCAccessToken_def)

lemma reveal_step:
  assumes "revealMCPCredentials src m i cfg r c = (c', cfg')"
  shows "only_issues c c' \<and> cfg' = fmupd ''hide_credentials'' (YBool False) cfg"
  using assms by (auto simp: revealMCPCredentials_def)

lemma reveal_bearer_step:
  assumes "mcp_reveal_bearer src m i cfg c = (c', cfg')"
  shows "only_issues c c' \<and> (cfg' = cfg \<or> cfg' = fmupd ''hide_credentials'' (YBool False) cfg)"
proof (cases "mcp_TokenVault m \<noteq> None")
  case True
  from reveal_step [OF assms [unfolded mcp_reveal_bearer_def if_P [OF True]]] show ?thesis by blast
next
  case False
  then show ?thesis using assms by (simp add: mcp_reveal_bearer_def)
qed

lemma oidc_plugin_step:
  assumes "mcpOIDCPlugin src m (Some i) meta c = ((c', oc), p)"
  shows "only_issues c c' \<and> explained (c', oc) \<and> (oc = Done \<longrightarrow> oidc_enforces meta i p)"
proof -
  obtain c1 oc1 res servers where pr: "mcpProtectedResource src m (Some i) meta c = ((c1, oc1), res, servers)"
    by (metis prod.exhaust)
  note ps = protected_resource_step [OF pr]
  show ?thesis
  proof (cases "oc1 = Done")
    case False
    then show ?thesis using assms pr ps by (cases oc1) (auto simp: mcpOIDCPlugin_def)
  next
    case True
    define prm where "prm = protected_resource_fields meta (Some i) res servers"
    have "prm_Resource meta \<noteq> []" "mcpEffectiveAuthServers meta (Some i) \<noteq> []" using ps True by auto
    then have prm: "serves_metadata meta (Some i) prm"
      using ps True by (simp add: serves_metadata_def prm_def protected_resource_fields_def Let_def setIfNotEmpty_lookup)
    define cfg where "cfg = fmupd ''protected_resource_metadata'' (YMap prm)
      (fmupd ''auth_methods'' (YList [YStr ''bearer'']) (ast_Config i))"
    let ?X = "{''auth_methods'', ''protected_resource_metadata'', ''hide_credentials'', ''upstream_access_token_header''}"
    have cfg: "carries i ?X cfg" "carries i ?X (fmupd ''hide_credentials'' (YBool False) cfg)"
      by (auto simp: cfg_def carries_def)
    have pr': "mcpProtectedResource src m (Some i) meta c = ((c, Done), res, servers)" using pr ps True by blast
    let ?c2 = "mcp_oidc_warnings src m i meta c"
    have c2: "only_issues c ?c2"
      by (simp add: mcp_oidc_warnings_def Let_def)
    obtain c3 cfg3 where rv: "mcp_reveal_bearer src m i cfg ?c2 = (c3, cfg3)" by (metis prod.exhaust)
    have c3: "only_issues ?c2 c3" and cfg3: "cfg3 = cfg \<or> cfg3 = fmupd ''hide_credentials'' (YBool False) cfg"
      using reveal_bearer_step [OF rv] by blast+
    have "mcpOIDCPlugin src m (Some i) meta c = ((c3, Done),
        empty_plugin\<lparr>pl_Name := authStrategyTypeOpenIDConnect, pl_Config := hideOIDCAccessToken cfg3\<rparr>)"
      unfolding mcpOIDCPlugin_def pr' Let_def prod.case outcome.case option.case prm_def [symmetric]
        cfg_def [symmetric] rv by (rule refl)
    then have out: "c' = c3" "oc = Done"
      "p = empty_plugin\<lparr>pl_Name := authStrategyTypeOpenIDConnect, pl_Config := hideOIDCAccessToken cfg3\<rparr>"
      using assms by simp_all
    have "carries i ?X cfg3" using cfg3 by (elim disjE) (simp_all only: cfg)
    then have "carries i ?X (hideOIDCAccessToken cfg3)" by (rule hide_token_carries) simp
    moreover have "fmlookup (hideOIDCAccessToken cfg3) ''auth_methods'' = Some (YList [YStr ''bearer''])"
      "fmlookup (hideOIDCAccessToken cfg3) ''protected_resource_metadata'' = Some (YMap prm)"
      using cfg3 by (auto simp: hide_token_other cfg_def)
    ultimately show ?thesis
      using out prm only_issues_trans [OF c2 c3] by (auto simp: oidc_enforces_def)
  qed
qed

lemma plain_plugin_step:
  assumes "mcp_plain_plugin src m i c = (c', p)"
  shows "only_issues c c' \<and> pl_Name p = ast_Type i \<and>
    carries i {''hide_credentials'', ''upstream_access_token_header''} (pl_Config p)"
proof -
  let ?X = "{''hide_credentials'', ''upstream_access_token_header''}"
  let ?r = "mcpKeyAuthRevealReason c m i"
  obtain c1 cfg where rv: "(if ?r \<noteq> [] then revealMCPCredentials src m i (ast_Config i) ?r c else (c, ast_Config i)) = (c1, cfg)"
    by (metis prod.exhaust)
  have c1: "only_issues c c1" and "cfg = ast_Config i \<or> cfg = fmupd ''hide_credentials'' (YBool False) (ast_Config i)"
    using rv reveal_step [of src m i "ast_Config i" ?r c c1 cfg] by (auto split: if_splits)
  then have "carries i ?X cfg" by (auto simp: carries_def)
  moreover from this have "carries i ?X (hideOIDCAccessToken cfg)" by (rule hide_token_carries) simp
  ultimately show ?thesis
    using assms c1 unfolding mcp_plain_plugin_def Let_def rv by auto
qed


lemma enforces_source [simp]:
  "oauth2_enforces meta idp (p\<lparr>pl_Source := x\<rparr>) = oauth2_enforces meta idp p"
  "oidc_enforces meta i (p\<lparr>pl_Source := x\<rparr>) = oidc_enforces meta i p"
  by (simp_all add: oauth2_enforces_def oidc_enforces_def)

lemma metadata_plugin_step:
  assumes "mcp_metadata_plugin src m idp meta c = ((c', oc), p)"
  shows "only_issues c c' \<and> explained (c', oc) \<and>
    (oc = Done \<longrightarrow>
       (case idp of
          Some i \<Rightarrow> if ast_Type i = authStrategyTypeOpenIDConnect \<and> conv_supports FeatureMCPIdentityAuth c
            then oidc_enforces meta i p else oauth2_enforces meta idp p
        | None \<Rightarrow> oauth2_enforces meta idp p))"
proof -
  define oidc where "oidc = (case idp of None \<Rightarrow> False
     | Some i \<Rightarrow> ast_Type i = authStrategyTypeOpenIDConnect \<and> conv_supports FeatureMCPIdentityAuth c)"
  obtain c1 oc1 q where b: "(if oidc then mcpOIDCPlugin src m idp meta c else mcpOAuth2Plugin src m idp meta c) = ((c1, oc1), q)"
    by (metis prod.exhaust)
  have step: "only_issues c c1 \<and> explained (c1, oc1) \<and>
      (oc1 = Done \<longrightarrow> (if oidc then oidc_enforces meta (the idp) q else oauth2_enforces meta idp q))"
  proof (cases oidc)
    case True
    then obtain i where "idp = Some i" by (cases idp) (auto simp: oidc_def)
    then show ?thesis using b True oidc_plugin_step [of src m i meta c c1 oc1 q] by simp
  next
    case False
    then show ?thesis using b oauth2_plugin_step [of src m idp meta c c1 oc1 q] by simp
  qed
  have "c' = c1 \<and> oc = oc1 \<and> (oc1 = Done \<longrightarrow> (\<exists>x. p = q\<lparr>pl_Source := x\<rparr>))"
    using assms unfolding mcp_metadata_plugin_def oidc_def [symmetric] Let_def b by (cases oc1) auto
  then show ?thesis using step by (cases idp) (auto simp: oidc_def)
qed

lemma access_strategy_step:
  assumes "mcpAccessAuthStrategy src m c = ((c', oc), idp)"
  shows "only_issues c c' \<and> explained (c', oc) \<and>
    (oc = Done \<longrightarrow> c' = c \<and> idp = mcp_strategy c m \<and>
       (mac_AuthStrategies (mcp_Access m) \<noteq> [] \<longrightarrow> (\<exists>i. idp = Some i \<and> ast_Type i \<in> set authPolicyTypes)))"
proof (cases "mac_AuthStrategies (mcp_Access m)")
  case Nil
  then show ?thesis using assms by (auto simp: mcpAccessAuthStrategy_def mcp_strategy_def)
next
  case (Cons ref rest)
  show ?thesis
  proof (cases "fmlookup (cn_authStrategies c) ref")
    case None
    then show ?thesis using assms Cons by (auto simp: mcpAccessAuthStrategy_def fail_def explained_def)
  next
    case (Some i)
    then show ?thesis using assms Cons
      by (cases "ast_Type i \<in> set authPolicyTypes")
        (auto simp: mcpAccessAuthStrategy_def mcp_strategy_def checkAuthStrategyType_def fail_def explained_def
          intro: sym)
  qed
qed

lemma token_subjects_step [simp]: "only_issues c (warn_token_subjects src m p c)"
  by (simp add: warn_token_subjects_def Let_def)

text \<open>The result of the authentication of a server, as a function of its source.\<close>

definition mcp_auth_result ::
  "converter \<Rightarrow> MCPServer \<Rightarrow> Route \<Rightarrow> (converter \<times> outcome) \<times> Plugin list \<times> Route \<Rightarrow> bool"
where
  "mcp_auth_result c m route res \<longleftrightarrow>
     (case res of ((c', oc), ps, route') \<Rightarrow>
        auth_env c c' \<and> kept (cv_out c') = kept (cv_out c) \<and> explained (c', oc) \<and>
        (oc = Done \<longrightarrow>
           (if mac_AuthStrategies (mcp_Access m) = [] \<and> mac_Metadata (mcp_Access m) = None
            then ps = [] \<and> route' = route
            else MCPAccessAllowed (mcp_Type m) \<and>
              (mac_AuthStrategies (mcp_Access m) \<noteq> [] \<longrightarrow>
                 (\<exists>i. mcp_strategy c m = Some i \<and> ast_Type i \<in> set authPolicyTypes)) \<and>
              (\<exists>p. ps = [p] \<and> mcp_enforces c m p) \<and>
              route' = route\<lparr>rt_Paths := rt_Paths route @
                (case mac_Metadata (mcp_Access m) of
                   None \<Rightarrow> [] | Some meta \<Rightarrow> if prm_Endpoint meta \<noteq> [] then [prm_Endpoint meta] else [])\<rparr>)))"

lemma only_issues_kept: "only_issues c c' \<Longrightarrow> cv_out c' = cv_out c"
  by (simp add: only_issues_iff)

lemma auth_result_failed:
  "oc \<noteq> Done \<Longrightarrow> auth_env c c' \<Longrightarrow> kept (cv_out c') = kept (cv_out c) \<Longrightarrow> explained (c', oc) \<Longrightarrow>
   mcp_auth_result c m route ((c', oc), ps, route')"
  by (simp add: mcp_auth_result_def)

lemma outcome_pass:
  "oc \<noteq> Done \<Longrightarrow> (case ((c, oc), x) of ((c, Done), y) \<Rightarrow> f c y | (r, _) \<Rightarrow> g r) = g (c, oc)"
  "oc \<noteq> Done \<Longrightarrow> (case (c, oc) of (c, Done) \<Rightarrow> h c | r \<Rightarrow> g r) = g (c, oc)"
  by (cases oc; simp)+


lemma mcp_auth_result:
  "mcp_auth_result c m route (mcpAuthStrategyPlugins src m route c)"
proof (cases "mac_AuthStrategies (mcp_Access m) = [] \<and> mac_Metadata (mcp_Access m) = None")
  case True
  then show ?thesis by (simp add: mcpAuthStrategyPlugins_def mcp_auth_result_def)
next
  case asked: False
  note step = mcpAuthStrategyPlugins_def [of src m route c, unfolded Let_def if_not_P [OF asked]]
  show ?thesis
  proof (cases "MCPAccessAllowed (mcp_Type m)")
    case False
    then show ?thesis unfolding step by (simp add: fail_def auth_result_failed explained_def)
  next
    case allowed: True
    obtain c1 oc1 idp where ref: "mcpAccessAuthStrategy src m c = ((c1, oc1), idp)" by (metis prod.exhaust)
    note r = access_strategy_step [OF ref]
    show ?thesis
    proof (cases "oc1 = Done")
      case False
      then have "mcpAuthStrategyPlugins src m route c = ((c1, oc1), [], route)"
        unfolding step ref using allowed by (cases oc1) simp_all
      moreover have "kept (cv_out c1) = kept (cv_out c)" "auth_env c c1"
        using r only_issues_kept [of c c1] only_issues_auth_env [of c c1] by simp_all
      ultimately show ?thesis using r False by (simp add: auth_result_failed)
    next
      case done1: True
      define tv where "tv = (case idp of None \<Rightarrow> (c, Done) | Some i \<Rightarrow> applyAuthStrategyTokenVault i c)"
      obtain c2 oc2 where tv2: "tv = (c2, oc2)" by (metis prod.exhaust)
      have t: "auth_env c c2" "explained (c2, oc2)"
        using tv2 token_vault_step [of c "the idp"] by (auto simp: tv_def split: option.splits)
      have "kept (cv_out (fst tv)) = kept (cv_out c)" by (simp add: tv_def split: option.split)
      then have k: "kept (cv_out c2) = kept (cv_out c)" by (simp add: tv2)
      have c1: "c1 = c" using r done1 by blast
      note step1 = step [unfolded if_not_P [OF not_not [THEN iffD2, OF allowed]] ref done1 c1 prod.case outcome.case
          tv_def [symmetric] tv2]
      show ?thesis
      proof (cases "oc2 = Done")
        case False
        then have "mcpAuthStrategyPlugins src m route c = ((c2, oc2), [], route)"
          unfolding step1 by (cases oc2) simp_all
        then show ?thesis using t k False by (simp add: auth_result_failed)
      next
        case done2: True
        note step2 = step1 [unfolded done2 prod.case outcome.case]
        have idp: "idp = mcp_strategy c m" and typed: "mac_AuthStrategies (mcp_Access m) \<noteq> [] \<Longrightarrow>
            \<exists>i. mcp_strategy c m = Some i \<and> ast_Type i \<in> set authPolicyTypes"
          using r done1 by auto
        have sup: "conv_supports f c2 = conv_supports f c" for f
          using auth_env_fields [OF t(1)] by (simp add: conv_supports_def)
        have issues: "auth_env c c'" "kept (cv_out c') = kept (cv_out c)" if "only_issues c2 c'" for c'
          using that k auth_env_trans [OF t(1) only_issues_auth_env [OF that]] by (simp_all add: only_issues_kept)
        show ?thesis
        proof (cases "mac_Metadata (mcp_Access m)")
          case None
          with asked typed obtain i where i: "idp = Some i" "mcp_strategy c m = Some i" by (auto simp: idp)
          obtain c3 p where pl: "mcp_plain_plugin src m i c2 = (c3, p)" by (metis prod.exhaust)
          note p = plain_plugin_step [OF pl]
          have "mcpAuthStrategyPlugins src m route c = ((warn_token_subjects src m p c3, Done), [p], route)"
            unfolding step2 None i prod.case option.case pl by (rule refl)
          moreover have "only_issues c2 (warn_token_subjects src m p c3)"
            using p only_issues_trans token_subjects_step by blast
          ultimately show ?thesis
            using issues asked allowed typed i None p by (simp add: mcp_auth_result_def mcp_enforces_def)
        next
          case (Some meta)
          show ?thesis
          proof (cases "case idp of None \<Rightarrow> False | Some i \<Rightarrow> ast_Type i = ''key-auth''")
            case True
            then obtain i where i: "idp = Some i" "ast_Type i = ''key-auth''" by (cases idp) auto
            have "\<exists>s r. mcpAuthStrategyPlugins src m route c = (fail s ConfigFieldInvalid r c2, [], route)"
              unfolding step2 Some prod.case option.case if_P [OF True] by blast
            then show ?thesis
              using issues by (auto simp: fail_def auth_result_failed explained_def)
          next
            case ka: False
            obtain c3 oc3 p where mp: "mcp_metadata_plugin src m idp meta c2 = ((c3, oc3), p)" by (metis prod.exhaust)
            note p = metadata_plugin_step [OF mp]
            note step3 = step2 [unfolded Some prod.case option.case if_not_P [OF ka] mp]
            show ?thesis
            proof (cases "oc3 = Done")
              case False
              then have "mcpAuthStrategyPlugins src m route c = ((c3, oc3), [], route)"
                unfolding step3 by (cases oc3) simp_all
              then show ?thesis using p issues False by (simp add: auth_result_failed)
            next
              case True
              have "mcpAuthStrategyPlugins src m route c = ((warn_token_subjects src m p c3, Done), [p],
                  if prm_Endpoint meta \<noteq> [] then route\<lparr>rt_Paths := rt_Paths route @ [prm_Endpoint meta]\<rparr> else route)"
                unfolding step3 True prod.case outcome.case by (rule refl)
              moreover have "only_issues c2 (warn_token_subjects src m p c3)"
                using p only_issues_trans token_subjects_step by blast
              moreover have "mcp_enforces c m p"
                using p True ka Some by (auto simp: mcp_enforces_def sup idp split: option.splits if_splits)
              ultimately show ?thesis
                using issues asked allowed typed Some by (auto simp: mcp_auth_result_def)
            qed
          qed
        qed
      qed
    qed
  qed
qed



definition sample_metadata :: MCPProtectedResourceMetadata where
  "sample_metadata = \<lparr>prm_DiscoveryEndpoint = [], prm_Endpoint = ''/.well-known/m'',
     prm_AuthorizationServers = [''https://idp.example''], prm_Resource = ''https://m.example'', prm_ScopesSupported = []\<rparr>"

definition sample_mcp :: MCPServer where
  "sample_mcp = \<lparr>mcp_ID = [], mcp_Type = ''conversion-listener'', mcp_Name = ''m'', mcp_Enabled = None,
     mcp_Config = \<lparr>msg_Route = RouteConfig.truncate empty_route, msg_Logging = None, msg_MaxRequestBodySize = None,
       msg_Server = fmempty, msg_Proxy = None, msg_Upstream = None, msg_ToolsCacheTTLSeconds = None,
       msg_Sources = [], msg_Certificates = [], msg_CACertificates = []\<rparr>,
     mcp_Tools = [], mcp_Policies = [], mcp_Datastores = [],
     mcp_Access = \<lparr>mac_ACLAttributeType = [], mac_AccessTokenClaimField = [], mac_ACLs = no_acls,
       mac_DefaultToolACLs = no_acls, mac_AuthStrategies = [], mac_Metadata = Some sample_metadata\<rparr>,
     mcp_Labels = fmempty, mcp_UpstreamURL = ''https://u.example'', mcp_TokenVault = None, mcp_RateLimiting = None\<rparr>"


end
