(* ===== verification/MCP_Servers.thy ===== *)
theory MCP_Servers
  imports MCP_Auth
begin

text \<open>
  MCP servers (\<open>src/convert/mcp.go\<close>): a Service with one Route and its ai-mcp-proxy plugin, the gate
  that closes the route of a server that only listeners may call, the tags that put the tools of a
  source into the bucket of a listener, and the removal of sources that no listener names.
\<close>

abbreviation (input) mcpConversionOnly :: string where "mcpConversionOnly \<equiv> ''conversion-only''"
abbreviation (input) placeholderHost :: string where "placeholderHost \<equiv> ''localhost''"
abbreviation (input) mcpUpstreamServer :: string where "mcpUpstreamServer \<equiv> ''upstream-server''"

section \<open>The proxy plugin\<close>

text \<open>A sequence of steps that build the config and end at the first failure.\<close>

type_synonym config_step = "ymap \<Rightarrow> converter \<Rightarrow> (converter \<times> outcome) \<times> ymap"

fun run_steps :: "config_step list \<Rightarrow> config_step" where
  "run_steps [] cfg c = ((c, Done), cfg)"
| "run_steps (f # fs) cfg c =
     (case f cfg c of
        ((c, Done), cfg) \<Rightarrow> run_steps fs cfg c
      | (r, cfg) \<Rightarrow> (r, cfg))"

definition mcpServerConfigForPlugin :: "ymap \<Rightarrow> ymap" where
  "mcpServerConfigForPlugin server = fmap_of_list (sorted_list_of_fmap server)"

definition mcp_mode_step :: "MCPServer \<Rightarrow> config_step" where
  "mcp_mode_step m cfg c =
     (let cfg = fmupd ''mode'' (YStr (mcp_Type m)) cfg;
          cfg = setInt cfg ''max_request_body_size'' (msg_MaxRequestBodySize (mcp_Config m))
      in ((c, Done), set_opt cfg ''logging''
            (map_option YMap (loggingBlock (Some (withLoggingDefaults (msg_Logging (mcp_Config m)) True False))))))"

definition mcp_server_step :: "ConversionIssueSource \<Rightarrow> MCPServer \<Rightarrow> config_step" where
  "mcp_server_step src m cfg c =
     (if fmlookup (msg_Server (mcp_Config m)) ''upstream_protocol_version'' \<noteq> None \<and>
         \<not> conv_supports FeatureMCPUpstreamProtocolVersion c
      then (failUnsupported (src_at src [''config.server.upstream_protocol_version''])
              FeatureMCPUpstreamProtocolVersion ''config.server.upstream_protocol_version'' c, cfg)
      else
        let server = mcpServerConfigForPlugin (msg_Server (mcp_Config m));
            reenters = mcpReentersKeyAuthRoute c m;
            c = (if reenters \<and> as_bool (fmlookup server ''forward_client_headers'') = Some False
                 then warn (src_at src [''config.server.forward_client_headers'']) ConfigFieldOverridden
                   (''MCP server %q of type %q uses a key-auth auth strategy and has forward_client_headers set to false. This will be ignored, and forward_client_headers will be overridden to true because ai-mcp-proxy needs the client's key to execute tools.'',
                    [mcp_Name m, mcp_Type m]) c
                 else c);
            server = (if reenters then fmupd ''forward_client_headers'' (YBool True) server else server);
            cfg = setIfNotEmptyMap ''server'' server cfg
        in ((c, Done), set_opt cfg ''proxy_config'' (map_option YMap (proxyConfigBlock (msg_Proxy (mcp_Config m))))))"

definition resolveMCPDatastore ::
  "ConversionIssueSource \<Rightarrow> MCPServer \<Rightarrow> converter \<Rightarrow> (converter \<times> outcome) \<times> Datastore option"
where
  "resolveMCPDatastore src m c =
     (case mcp_Datastores m of
        [] \<Rightarrow>
          ((if mcp_TokenVault m \<noteq> None
            then warn (src_at src [''datastores'']) MissingRequiredConfigField
              (''MCP server %q: token_vault has no %q datastore. The output has no Token Vault callback route for this server.'',
               [mcp_Name m, DatastoreTypeTokenVault]) c
            else c, Done), None)
      | ref # rest \<Rightarrow>
          if rest \<noteq> [] then
            (fail (src_at src [''datastores'']) ConfigFieldInvalid
               (''MCP server %q has %d datastores, but only one is allowed'',
                [mcp_Name m, dec (length (mcp_Datastores m))]) c, None)
          else if mcp_TokenVault m = None then
            (fail (src_at src [''datastores'', ''token_vault'']) ConfigFieldInvalid
               (''MCP server %q references datastore %q, but datastores require token_vault'',
                [mcp_Name m, dr_Name ref]) c, None)
          else case fmlookup (cn_datastores c) (dr_Name ref) of
            None \<Rightarrow> (fail (src_at src [''datastores[0].name'']) UndefinedReference
                       (''MCP server %q references unknown datastore %q'', [mcp_Name m, dr_Name ref]) c, None)
          | Some ds \<Rightarrow> ((c, Done), Some ds))"

text \<open>The Token Vault of a server with its datastore.\<close>

definition mcp_vault_block ::
  "ConversionIssueSource \<Rightarrow> MCPServer \<Rightarrow> TokenVaultConfig \<Rightarrow> Datastore option \<Rightarrow> config_step"
where
  "mcp_vault_block src m tv ds cfg c =
     (let auth = (\<lambda>block. fmupd ''token_vault'' (YMap block)
                    (fmupd ''provider'' (YStr UpstreamAuthProviderTokenVault) fmempty));
          block = or_else (TokenVaultToPlugin (Some tv)) fmempty
      in case ds of
           None \<Rightarrow> ((c, Done), fmupd ''auth'' (YMap (auth block)) cfg)
         | Some ds \<Rightarrow>
             (case ApplyTokenVaultDatastore block ds of
                (_, Some e) \<Rightarrow>
                  (fail (src_at src [''datastores'']) ConfigFieldInvalid
                     (wrap_reason ''MCP server %q: '' [mcp_Name m] (datastore_reason e)) c, cfg)
              | (block, None) \<Rightarrow>
                  (case ensureTokenVaultCallbackRoute (src_at src [''datastores[0].name'']) ''MCP server %q''
                          [mcp_Name m] ds (source kindMCPServer (mcp_Name m) ''datastores'' []) c of
                     (c, Done) \<Rightarrow> ((c, Done), fmupd ''auth'' (YMap (auth (or_else block fmempty))) cfg)
                   | r \<Rightarrow> (r, cfg))))"

definition warn_directory :: "ConversionIssueSource \<Rightarrow> MCPServer \<Rightarrow> TokenVaultConfig \<Rightarrow> Datastore option \<Rightarrow> converter \<Rightarrow> converter"
where
  "warn_directory src m tv ds c =
     (case ds of
        Some d \<Rightarrow>
          if tv_Directory tv \<noteq> [] \<and> fmlookup (ds_Config d) ''directory'' \<noteq> None
          then warn (src_at src [''token_vault.directory'']) ConfigFieldIgnored
            (''Datastore %q overrides token_vault.directory of MCP server %q.'', [ds_Name d, mcp_Name m]) c
          else c
      | None \<Rightarrow> c)"

definition mcp_vault_step :: "ConversionIssueSource \<Rightarrow> MCPServer \<Rightarrow> config_step" where
  "mcp_vault_step src m cfg c =
     (if mcp_TokenVault m \<noteq> None \<and> \<not> conv_supports FeatureMCPTokenVault c
      then (failUnsupported (src_at src [''token_vault'']) FeatureMCPTokenVault ''token_vault'' c, cfg)
      else if mcp_TokenVault m \<noteq> None \<and> (case msg_Upstream (mcp_Config m) of None \<Rightarrow> False | Some u \<Rightarrow> uc_Auth u \<noteq> None)
      then (fail (src_at src [''token_vault'', ''config.upstream.auth'']) ConfigFieldInvalid
              (''MCP server %q: token_vault and config.upstream.auth are mutually exclusive (both lower to the ai-mcp-proxy plugin's auth record)'',
               [mcp_Name m]) c, cfg)
      else case resolveMCPDatastore src m c of
        ((c, Done), ds) \<Rightarrow>
          (case (mcp_TokenVault m, ds) of
             (None, None) \<Rightarrow> ((c, Done), cfg)
           | (None, Some ds) \<Rightarrow> ((c, Panic ''nil token vault''), cfg)
           | (Some tv, ds) \<Rightarrow>
               let c = warn_directory src m tv ds c
               in if tv_Provider tv = []
                  then (fail (src_at src [''token_vault.provider'']) MissingRequiredConfigField
                          (''MCP server %q: token_vault requires provider'', [mcp_Name m]) c, cfg)
                  else mcp_vault_block src m tv ds cfg c)
      | (r, _) \<Rightarrow> (r, cfg))"

definition mcp_upstream_step :: "ConversionIssueSource \<Rightarrow> MCPServer \<Rightarrow> config_step" where
  "mcp_upstream_step src m cfg c =
     (case upstreamAuthBlock src (msg_Upstream (mcp_Config m)) c of
        (r, auth) \<Rightarrow> (r, set_opt cfg ''auth'' (map_option YMap auth)))"

definition mcp_limits_step :: "ConversionIssueSource \<Rightarrow> MCPServer \<Rightarrow> config_step" where
  "mcp_limits_step src m cfg c =
     (if mcp_RateLimiting m = None then ((c, Done), cfg)
      else if \<not> conv_supports FeatureMCPRateLimiting c
      then (failUnsupported (src_at src [''rate_limiting'']) FeatureMCPRateLimiting ''rate_limiting'' c, cfg)
      else if \<not> MCPRateLimitingAllowed (mcp_Type m)
      then (fail (src_at src [''rate_limiting'']) ConfigFieldInvalid
              (''MCP server %q: rate_limiting is only valid on conversion-listener and passthrough-listener, not %q'',
               [mcp_Name m, mcp_Type m]) c, cfg)
      else ((c, Done), fmupd ''rate_limiting''
              (YMap (or_else (MCPRateLimitingToPlugin (mcp_RateLimiting m)) fmempty)) cfg))"

definition mcp_access_step :: "ConversionIssueSource \<Rightarrow> MCPServer \<Rightarrow> config_step" where
  "mcp_access_step src m cfg c =
     (let cfg = setInt cfg ''tools_cache_ttl_seconds'' (msg_ToolsCacheTTLSeconds (mcp_Config m));
          cfg = setIfNotEmpty ''acl_attribute_type'' (mac_ACLAttributeType (mcp_Access m)) cfg;
          cfg = setIfNotEmpty ''access_token_claim_field'' (mac_AccessTokenClaimField (mcp_Access m)) cfg;
          toolACLs = mac_DefaultToolACLs (mcp_Access m);
          cel = celFieldPaths ''access.default_tool_acls.'' toolACLs
      in if mixesACLPairs toolACLs
         then (fail (src_at src (aclFieldPaths ''access.default_tool_acls.'' toolACLs)) ConfigFieldInvalid
                 (''MCP server %q: access.default_tool_acls must use either allow and deny, or allow_when and deny_when'',
                  [mcp_Name m]) c, cfg)
         else if cel \<noteq> [] \<and> \<not> conv_supports FeatureMCPACLWhen c
         then (failUnsupported (src_at src cel) FeatureMCPACLWhen (hd cel) c, cfg)
         else
           let cfg = (if defaultACLBlock toolACLs \<noteq> [] then fmupd ''default_acl'' (YMaps (defaultACLBlock toolACLs)) cfg
                      else cfg);
               cfg = (if mac_ACLAttributeType (mcp_Access m) \<noteq> ''oauth_access_token''
                      then fmupd ''include_consumer_groups'' (YBool True) cfg else cfg)
           in ((c, Done), cfg))"

text \<open>A tool is left out with a warning when it has no description or a condition that the runtime
  does not support.\<close>

definition mcp_tool_block :: "MCPTool \<Rightarrow> ymap" where
  "mcp_tool_block t =
     (let tool = fmupd ''name'' (YStr (mt_Name t)) fmempty;
          tool = setIfNotEmpty ''description'' (mt_Description t) tool;
          tool = setIfNotEmpty ''method'' (mt_Method t) tool;
          tool = setIfNotEmpty ''path'' (mt_Path t) tool;
          tool = setIfNotEmpty ''scheme'' (mt_Scheme t) tool;
          tool = setIfNotEmpty ''host'' (mt_Host t) tool;
          tool = setIfNotEmptyMap ''headers'' (mt_Headers t) tool;
          tool = setIfNotEmptyMap ''query'' (mt_Query t) tool;
          tool = setIfNotEmptyMap ''request_body'' (mt_RequestBody t) tool;
          tool = setIfNotEmptyMap ''responses'' (mt_Responses t) tool;
          tool = (if mt_Parameters t \<noteq> [] then fmupd ''parameters'' (YMaps (mt_Parameters t)) tool else tool);
          tool = setIfNotEmptyMap ''annotations'' (mt_Annotations t) tool;
          tool = setIfNotEmptyMap ''input_schema'' (mt_InputSchema t) tool;
          tool = setIfNotEmptyMap ''output_schema'' (mt_OutputSchema t) tool
      in set_opt tool ''acl'' (map_option YMap (aclConfig (mt_ACLs t))))"

definition tool_path :: "nat \<Rightarrow> string \<Rightarrow> string" where
  "tool_path i field = ''tools['' @ dec i @ ''].'' @ field"

fun mcpTools ::
  "ConversionIssueSource \<Rightarrow> string \<Rightarrow> nat \<Rightarrow> MCPTool list \<Rightarrow> ymap list \<Rightarrow> converter \<Rightarrow> converter \<times> ymap list"
where
  "mcpTools src serverName i [] out c = (c, out)"
| "mcpTools src serverName i (t # ts) out c =
     (if mt_Description t = [] then
        mcpTools src serverName (Suc i) ts out
          (warn (src_at src [tool_path i ''description'']) MissingRequiredConfigField
             (''MCP server %q tool %q has no description; ai-mcp-proxy requires one'', [serverName, mt_Name t]) c)
      else
        let cel = celFieldPaths (tool_path i ''access.acls.'') (mt_ACLs t) in
        if cel \<noteq> [] \<and> \<not> conv_supports FeatureMCPACLWhen c then
          mcpTools src serverName (Suc i) ts out
            (reportUnsupported (src_at src cel) Warning FeatureMCPACLWhen (hd cel) c)
        else mcpTools src serverName (Suc i) ts (out @ [mcp_tool_block t]) c)"

definition mcp_tools_step :: "ConversionIssueSource \<Rightarrow> MCPServer \<Rightarrow> config_step" where
  "mcp_tools_step src m cfg c =
     (let (c, tools) = mcpTools src (mcp_Name m) 0 (mcp_Tools m) [] c
      in ((c, Done), fmupd ''tools'' (YMaps tools) cfg))"

definition mcp_steps :: "ConversionIssueSource \<Rightarrow> MCPServer \<Rightarrow> config_step list" where
  "mcp_steps src m =
     [mcp_mode_step m, mcp_server_step src m, mcp_vault_step src m, mcp_upstream_step src m,
      mcp_limits_step src m, mcp_access_step src m, mcp_tools_step src m]"

definition mcpPlugin :: "ConversionIssueSource \<Rightarrow> MCPServer \<Rightarrow> converter \<Rightarrow> (converter \<times> outcome) \<times> Plugin" where
  "mcpPlugin src m c =
     (case run_steps (mcp_steps src m) fmempty c of
        ((c, Done), cfg) \<Rightarrow>
          ((c, Done), empty_plugin\<lparr>pl_Name := ''ai-mcp-proxy'', pl_Config := cfg, pl_Tags := labelsToTags c (mcp_Labels m)\<rparr>)
      | (r, _) \<Rightarrow> (r, empty_plugin))"


section \<open>One server\<close>

definition mcpToolsetGate :: "MCPServer \<Rightarrow> Plugin" where
  "mcpToolsetGate m = empty_plugin\<lparr>pl_Name := MCPToolsetGatePlugin, pl_Config := MCPToolsetGateConfig,
     pl_Tags := [MCPToolsetGateTag], pl_Source := source ''mcp_server'' (mcp_Name m) ''type'' []\<rparr>"

definition mcpRouteIdentifiesCaller :: "Plugin list \<Rightarrow> bool" where
  "mcpRouteIdentifiesCaller plugins =
     list_ex (\<lambda>p.
        let has = (\<lambda>k. case fmlookup (pl_Config p) k of None \<Rightarrow> False | Some v \<Rightarrow> v \<noteq> YNull) in
        if pl_Enabled p = Some False then False
        else if pl_Name p = ''key-auth'' then True
        else if pl_Name p = ''openid-connect''
        then has ''consumer_claims'' \<or> has ''consumer_by'' \<or> has ''authenticated_groups_claim''
        else if pl_Name p = ''ai-mcp-oauth2'' then has ''consumer_claim'' \<or> has ''consumer_groups_claim''
        else False) plugins"

definition mcp_route :: "ConversionIssueSource \<Rightarrow> MCPServer \<Rightarrow> converter \<Rightarrow> converter \<times> Route" where
  "mcp_route src m c =
     (let route = (buildRoute (msg_Route (mcp_Config m)) (mcp_Name m))
            \<lparr>rt_Source := source ''mcp_server'' (mcp_Name m) ''config.route'' []\<rparr>
      in if mcp_Type m = mcpConversionOnly \<and> rt_StripPath route = Some False
         then (warn (src_at src [''config.route.strip_path'']) ConfigFieldOverridden
                 (''MCP server %q of type %q has set strip_path set to false. This will be ignored, and strip_path will be overridden to true to enforce tool routing to behave as documented.'',
                  [mcp_Name m, mcp_Type m]) c, route\<lparr>rt_StripPath := Some True\<rparr>)
         else (c, route))"

definition mcp_plugin_source :: "MCPServer \<Rightarrow> Source option" where
  "mcp_plugin_source m = source ''mcp_server'' (mcp_Name m) ''config''
     [field_mapping ''config.mode'' ''type'', field_mapping ''config.tools'' ''tools'',
      field_mapping ''config.proxy_config'' ''config.proxy'',
      field_mapping ''config.auth'' ''config.upstream.auth'',
      field_mapping ''config.auth.token_vault'' ''token_vault'',
      field_mapping ''config.rate_limiting'' ''rate_limiting'',
      field_mapping ''config.default_acl'' ''access.default_tool_acls'',
      field_mapping ''config.acl_attribute_type'' ''access.acl_attribute_type'',
      field_mapping ''config.access_token_claim_field'' ''access.access_token_claim_field'',
      field_mapping ''config.server.tag'' ''config.server.tag'']"

text \<open>The warnings about an ACL that can match nobody.\<close>

definition warn_claim_acls :: "ConversionIssueSource \<Rightarrow> MCPServer \<Rightarrow> converter \<Rightarrow> converter" where
  "warn_claim_acls src m c =
     (let paths = filter (\<lambda>f. \<not> HasSuffix f ''_when'') (aclFieldPaths ''access.acls.'' (mac_ACLs (mcp_Access m)))
      in if mac_ACLAttributeType (mcp_Access m) = ''oauth_access_token'' \<and> paths \<noteq> []
         then warn (src_at src paths) BehaviorMayDiffer
           (''MCP server %q sets acl_attribute_type oauth_access_token, but %s is matched against consumers and consumer groups, not token claims. A claim value there matches no caller and denies the request. Move claim values to access.default_tool_acls, or use allow_when or deny_when on principal.'',
            [mcp_Name m, join '' and '' paths]) c
         else c)"

definition warn_unidentified :: "ConversionIssueSource \<Rightarrow> MCPServer \<Rightarrow> Plugin list \<Rightarrow> converter \<Rightarrow> converter" where
  "warn_unidentified src m plugins c =
     (if \<not> ACLs_IsEmpty (mac_ACLs (mcp_Access m)) \<and> \<not> mcpRouteIdentifiesCaller plugins \<and> globalAuthPolicy c = None
      then warn (src_at src [''access.acls'']) BehaviorMayDiffer
        (''MCP server %q sets access.acls, but no plugin on its route identifies a consumer or consumer group. The acl plugin has nothing to match and denies every request. Add a key-auth or openid-connect auth strategy to access.auth_strategies.'',
         [mcp_Name m]) c
      else c)"

definition is_gated :: "MCPServer \<Rightarrow> string list \<Rightarrow> bool" where
  "is_gated m exposed =
     (mcp_Type m = mcpUpstreamServer \<or> mcp_Type m = mcpConversionOnly \<and> mcp_Name m \<in> set exposed)"

definition mcp_gate ::
  "ConversionIssueSource \<Rightarrow> MCPServer \<Rightarrow> string list \<Rightarrow> Route \<Rightarrow> converter \<Rightarrow> (converter \<times> outcome) \<times> Route"
where
  "mcp_gate src m exposed route c =
     (if \<not> is_gated m exposed then ((c, Done), route)
      else if list_ex (\<lambda>p. pl_Name p = MCPToolsetGatePlugin) (rt_Plugins route)
      then (fail (src_at src [''policies'']) ConfigFieldInvalid
              (''MCP server %q is %s, so its route carries a generated %q gate; it cannot also have a %q policy'',
               [mcp_Name m, mcp_Type m, MCPToolsetGatePlugin, MCPToolsetGatePlugin]) c, route)
      else ((c, Done), route\<lparr>rt_Plugins := rt_Plugins route @ [mcpToolsetGate m]\<rparr>))"

definition mcp_service :: "ConversionIssueSource \<Rightarrow> MCPServer \<Rightarrow> Route \<Rightarrow> converter \<Rightarrow> converter \<times> Service" where
  "mcp_service src m route c =
     (let svc = empty_service\<lparr>svc_Name := mcp_Name m, svc_ID := mcp_ID m, svc_Routes := [route],
            svc_Tags := labelsToTags c (mcp_Labels m), svc_Source := serviceURLSource ''mcp_server'' (mcp_Name m)\<rparr>;
          svc = (if mcp_UpstreamURL m \<noteq> [] then svc\<lparr>svc_URL := mcp_UpstreamURL m\<rparr>
                 else svc\<lparr>svc_Host := placeholderHost\<rparr>);
          c = (if mcp_UpstreamURL m = [] \<and> mcp_Type m = ''passthrough-listener''
               then warn (src_at src [''upstream_url'']) MissingRequiredConfigField
                 (''MCP server %q is passthrough-listener but has no upstream_url; using placeholder host %q'',
                  [mcp_Name m, placeholderHost]) c
               else c);
          svc = (if mcp_Enabled m = Some False then svc\<lparr>svc_Enabled := Some False\<rparr> else svc)
      in applyUpstreamTLS src svc (msg_Certificates (mcp_Config m)) (msg_CACertificates (mcp_Config m)) c)"

definition convertMCPServer ::
  "ConversionIssueSource \<Rightarrow> MCPServer \<Rightarrow> string list \<Rightarrow> converter \<Rightarrow> (converter \<times> outcome) \<times> Service"
where
  "convertMCPServer src m exposed c =
     (case mcp_route src m c of (c, route) \<Rightarrow>
      case mcpPlugin src m c of
        ((c, Done), plugin) \<Rightarrow>
          (if \<not> ACLs_IsEmpty (mac_ACLs (mcp_Access m)) \<and> \<not> MCPAccessAllowed (mcp_Type m)
           then (fail (src_at src [''access.acls'']) ConfigFieldInvalid
                   (''MCP server %q has type %q; access.acls is only supported for listener, conversion-listener, and passthrough-listener'',
                    [mcp_Name m, mcp_Type m]) c, empty_service)
           else case scopedPlugins src (mcp_Policies m) (mac_ACLs (mcp_Access m)) c of
             (c, None) \<Rightarrow> ((c, SkipEntity), empty_service)
           | (c, Some guards) \<Rightarrow>
               let route = route\<lparr>rt_Plugins := plugin\<lparr>pl_Source := mcp_plugin_source m\<rparr> #
                             sourceScopedPlugins guards ''mcp_server'' (mcp_Name m)\<rparr>
               in case mcpAuthStrategyPlugins src m route c of
                 ((c, Done), auth, route) \<Rightarrow>
                   let c = warn_claim_acls src m c;
                       route = route\<lparr>rt_Plugins := rt_Plugins route @ auth\<rparr>;
                       c = warn_unidentified src m (rt_Plugins route) c
                   in (case mcp_gate src m exposed route c of
                         ((c, Done), route) \<Rightarrow>
                           let (c, svc) = mcp_service src m route c in ((c, Done), svc)
                       | (r, _) \<Rightarrow> (r, empty_service))
               | (r, _, _) \<Rightarrow> (r, empty_service))
      | (r, _) \<Rightarrow> (r, empty_service))"

section \<open>All servers\<close>

definition exposedSources :: "MCPServer list \<Rightarrow> string list" where
  "exposedSources servers =
     concat (map (\<lambda>m. if mcp_Type m = ''listener'' then msg_Sources (mcp_Config m) else []) servers)"

definition addTag :: "string list \<Rightarrow> string \<Rightarrow> string list" where
  "addTag tags tag = (if tag \<in> set tags then tags else sort (tags @ [tag]))"

text \<open>The ai-mcp-proxy plugin that the index has for each service name, by position: the last one.\<close>

definition plugin_positions :: "Service list \<Rightarrow> (string \<times> nat \<times> nat \<times> nat) list" where
  "plugin_positions services =
     concat (map (\<lambda>(si, svc).
       concat (map (\<lambda>(ri, route).
         concat (map (\<lambda>(pi, p). if pl_Name p = ''ai-mcp-proxy'' then [(svc_Name svc, si, ri, pi)] else [])
           (enumerate 0 (rt_Plugins route)))) (enumerate 0 (svc_Routes svc)))) (enumerate 0 services))"

definition pluginByServer :: "Service list \<Rightarrow> string \<Rightarrow> (nat \<times> nat \<times> nat) option" where
  "pluginByServer services = map_of (rev (plugin_positions services))"

definition map_plugin :: "(Plugin \<Rightarrow> Plugin) \<Rightarrow> nat \<times> nat \<times> nat \<Rightarrow> Service list \<Rightarrow> Service list" where
  "map_plugin f pos services =
     (case pos of (si, ri, pi) \<Rightarrow>
        let svc = services ! si; route = svc_Routes svc ! ri in
        services[si := svc\<lparr>svc_Routes := (svc_Routes svc)[ri :=
          route\<lparr>rt_Plugins := (rt_Plugins route)[pi := f (rt_Plugins route ! pi)]\<rparr>]\<rparr>])"

definition listener_tag :: "MCPServer \<Rightarrow> string" where
  "listener_tag m = or_else (as_str (fmlookup (msg_Server (mcp_Config m)) ''tag'')) []"

definition wire_listener ::
  "(string \<Rightarrow> (nat \<times> nat \<times> nat) option) \<Rightarrow> MCPServer \<Rightarrow> Service list \<Rightarrow> Service list"
where
  "wire_listener index m services =
     (if mcp_Type m \<noteq> ''listener'' \<or> msg_Sources (mcp_Config m) = [] \<or> listener_tag m = [] then services
      else fold (\<lambda>sourceName services.
             case index sourceName of
               None \<Rightarrow> services
             | Some pos \<Rightarrow> map_plugin (\<lambda>p. p\<lparr>pl_Tags := addTag (pl_Tags p) (listener_tag m)\<rparr>) pos services)
           (msg_Sources (mcp_Config m)) services)"

definition wireListenerSources :: "converter \<Rightarrow> converter" where
  "wireListenerSources c =
     (let services = doc_Services (cv_out c); index = pluginByServer services in
      c\<lparr>cv_out := (cv_out c)\<lparr>doc_Services := fold (wire_listener index) (sd_MCPServers (cn_src c)) services\<rparr>\<rparr>)"

definition uses_token_vault :: "Document \<Rightarrow> bool" where
  "uses_token_vault d \<longleftrightarrow>
     list_ex (\<lambda>p. pl_Name p = tokenVaultExchangePlugin) (doc_Plugins d) \<or>
     list_ex (\<lambda>r. HasPrefix (rt_Name r) (TokenVaultCredentialManagerName @ ''-'')) (doc_Routes d) \<or>
     list_ex (\<lambda>svc. list_ex (\<lambda>route. list_ex (\<lambda>p.
         pl_Name p = ''ai-mcp-proxy'' \<and>
         (case as_map (fmlookup (pl_Config p) ''auth'') of
            None \<Rightarrow> False
          | Some auth \<Rightarrow> fmlookup auth ''provider'' = Some (YStr UpstreamAuthProviderTokenVault)))
       (rt_Plugins route)) (svc_Routes svc)) (doc_Services d)"

definition pruneUnusedTokenVaultCallbackRoute :: "converter \<Rightarrow> converter" where
  "pruneUnusedTokenVaultCallbackRoute c =
     (if uses_token_vault (cv_out c) then c
      else c\<lparr>cv_out := (cv_out c)\<lparr>doc_Routes := filter
             (\<lambda>r. rt_Name r \<noteq> TokenVaultCallbackName \<and> rt_Name r \<noteq> TokenVaultCallbackInitiateName)
             (doc_Routes (cv_out c))\<rparr>\<rparr>)"

definition pruneUnexposedSources :: "nat list \<Rightarrow> string list \<Rightarrow> converter \<Rightarrow> converter" where
  "pruneUnexposedSources conversionOnlyServices exposed c =
     (let services = doc_Services (cv_out c);
          drops = filter (\<lambda>i. svc_Name (services ! i) \<notin> set exposed) conversionOnlyServices;
          c = fold (\<lambda>i c. warn (issueSource kindMCPServer (svc_Name (services ! i))) ConfigFieldDropped
                  (''MCP server %q is conversion-only but no listener names it in config.sources; dropping its service and route'',
                   [svc_Name (services ! i)]) c) drops c
      in if drops = [] then c
         else pruneUnusedTokenVaultCallbackRoute
           (c\<lparr>cv_out := (cv_out c)\<lparr>doc_Services :=
              map snd (filter (\<lambda>(i, svc). i \<notin> set drops) (enumerate 0 services))\<rparr>\<rparr>))"

text \<open>The closure of one server appends the Service; it also records the index of a conversion-only one.\<close>

definition mcp_entity :: "ConversionIssueSource \<Rightarrow> MCPServer \<Rightarrow> string list \<Rightarrow> converter step" where
  "mcp_entity src m exposed c =
     (case convertMCPServer src m exposed c of
        ((c, Done), svc) \<Rightarrow>
          (c\<lparr>cv_out := (cv_out c)\<lparr>doc_Services := doc_Services (cv_out c) @ [svc]\<rparr>\<rparr>, Done)
      | (r, _) \<Rightarrow> r)"

definition mcp_loop :: "string list \<Rightarrow> MCPServer \<Rightarrow> converter \<times> nat list \<Rightarrow> converter \<times> nat list" where
  "mcp_loop exposed m s =
     (case s of (c, indices) \<Rightarrow>
        let src = issueSource kindMCPServer (mcp_Name m); (r, svc) = convertMCPServer src m exposed c in
        (convertEntity src (mcp_entity src m exposed) c,
         if snd r = Done \<and> mcp_Type m = mcpConversionOnly
         then indices @ [length (doc_Services (cv_out (fst r)))] else indices))"

definition convertMCPServers :: "converter \<Rightarrow> converter" where
  "convertMCPServers c =
     (let exposed = exposedSources (sd_MCPServers (cn_src c));
          (c, conversionOnlyServices) = fold (mcp_loop exposed) (sd_MCPServers (cn_src c)) (c, [])
      in pruneUnexposedSources conversionOnlyServices exposed (wireListenerSources c))"


section \<open>What the steps may change\<close>

text \<open>A step of an entity keeps what earlier entities emitted, except for the shared Token Vault routes,
  consumers and strategies, and explains every end without success.\<close>

definition preserves :: "converter \<Rightarrow> converter \<times> outcome \<Rightarrow> bool" where
  "preserves c r \<longleftrightarrow>
     reports c (fst r) \<and> same_env c (fst r) \<and> kept (cv_out (fst r)) = kept (cv_out c) \<and> explained r"

lemma preserves_issues: "only_issues c c' \<Longrightarrow> explained (c', oc) \<Longrightarrow> preserves c (c', oc)"
  by (simp add: preserves_def only_issues_iff)

lemma preserves_Done: "only_issues c c' \<Longrightarrow> preserves c (c', Done)"
  by (rule preserves_issues) simp_all

lemma preserves_fail [simp]: "preserves c (fail s code r c)" "preserves c (failUnsupported s f fld c)"
  by (simp_all add: fail_def failUnsupported_def preserves_issues explained_def)

lemma preserves_refl [simp]: "preserves c (c, Done)" "preserves c (c, Panic x)"
  by (simp_all add: preserves_issues)

lemma preserves_trans: "preserves c (c1, oc1) \<Longrightarrow> preserves c1 r \<Longrightarrow> preserves c r"
  unfolding preserves_def using reports_trans same_env_trans by fastforce

lemma preserves_after: "only_issues c c1 \<Longrightarrow> preserves c1 r \<Longrightarrow> preserves c r"
  using preserves_trans [OF preserves_Done] by blast

text \<open>The contract of a config step.\<close>

locale chain_step =
  fixes f :: config_step
  assumes keeps: "preserves c (fst (f cfg c))"
begin

lemma then_keeps:
  assumes "\<And>cfg c. preserves c (fst (g cfg c))"
  shows "preserves c (fst (case f cfg c of ((c, Done), cfg) \<Rightarrow> g cfg c | (r, cfg) \<Rightarrow> (r, cfg)))"
proof -
  obtain c1 oc cfg1 where f: "f cfg c = ((c1, oc), cfg1)" by (metis prod.exhaust)
  then have k: "preserves c (c1, oc)" using keeps [of c cfg] by simp
  show ?thesis
    using f k preserves_trans [OF k assms] by (cases oc) simp_all
qed

end

lemma run_steps_keeps:
  "\<forall>f \<in> set fs. chain_step f \<Longrightarrow> preserves c (fst (run_steps fs cfg c))"
proof (induction fs arbitrary: cfg c)
  case (Cons f fs)
  then have "chain_step f" by simp
  from chain_step.then_keeps [OF this, of "run_steps fs"] show ?case using Cons by simp
qed simp

lemma mode_step: "chain_step (mcp_mode_step m)"
  by unfold_locales (simp add: mcp_mode_step_def Let_def)

lemma server_step: "chain_step (mcp_server_step src m)"
  by unfold_locales (auto simp: mcp_server_step_def Let_def intro!: preserves_Done)

lemma callback_preserves: "preserves c (ensureTokenVaultCallbackRoute s f o' ds rs c)"
proof -
  have "reports c (fst (ensureTokenVaultCallbackRoute s f o' ds rs c))"
    using callback_route_step(1) unfolding auth_env_def by blast
  moreover have "same_env c (fst (ensureTokenVaultCallbackRoute s f o' ds rs c))"
    by (auto simp: ensureTokenVaultCallbackRoute_def split: prod.split option.split list.split)
  ultimately show ?thesis using callback_route_step(2) by (simp add: preserves_def)
qed

lemma vault_block_keeps: "preserves c (fst (mcp_vault_block src m tv ds cfg c))"
proof (cases ds)
  case None
  then show ?thesis by (simp add: mcp_vault_block_def Let_def)
next
  case (Some d)
  define block where "block = or_else (TokenVaultToPlugin (Some tv)) fmempty"
  obtain b e where ap: "ApplyTokenVaultDatastore block d = (b, e)" by (metis prod.exhaust)
  show ?thesis
  proof (cases e)
    case None
    obtain c1 oc where cb: "ensureTokenVaultCallbackRoute (src_at src [''datastores[0].name'']) ''MCP server %q''
        [mcp_Name m] d (source kindMCPServer (mcp_Name m) ''datastores'' []) c = (c1, oc)" by (metis prod.exhaust)
    have k: "preserves c (c1, oc)" unfolding cb [symmetric] by (rule callback_preserves)
    have "fst (mcp_vault_block src m tv ds cfg c) = (c1, oc)"
      unfolding mcp_vault_block_def Some Let_def block_def [symmetric] option.case ap None prod.case cb
      by (cases oc) simp_all
    then show ?thesis using k by simp
  next
    case (Some e')
    then show ?thesis using \<open>ds = Some d\<close> ap by (simp add: mcp_vault_block_def Let_def block_def)
  qed
qed

lemma resolveMCP_step:
  assumes "resolveMCPDatastore src m c = ((c', oc), ds)"
  shows "only_issues c c' \<and> explained (c', oc) \<and> (oc = Done \<and> ds \<noteq> None \<longrightarrow> mcp_TokenVault m \<noteq> None)"
  using assms
  by (auto simp: resolveMCPDatastore_def fail_def explained_def split: list.splits option.splits if_splits)

lemma warn_directory_issues [simp]: "only_issues c (warn_directory src m tv ds c)"
  by (simp add: warn_directory_def split: option.split)

lemma vault_step: "chain_step (mcp_vault_step src m)"
proof
  fix c cfg
  obtain c1 oc ds where r: "resolveMCPDatastore src m c = ((c1, oc), ds)" by (metis prod.exhaust)
  have res: "only_issues c c1" "explained (c1, oc)" using resolveMCP_step [OF r] by blast+
  show "preserves c (fst (mcp_vault_step src m cfg c))"
  proof (cases "mcp_TokenVault m")
    case None
    then show ?thesis using r res
      by (cases oc; cases ds) (auto simp: mcp_vault_step_def preserves_issues)
  next
    case (Some tv)
    have w: "only_issues c (warn_directory src m tv ds c1)"
      using res(1) warn_directory_issues by (rule only_issues_trans)
    have p: "preserves c (c1, oc)" using res by (rule preserves_issues)
    have "preserves c (fst (mcp_vault_block src m tv ds cfg (warn_directory src m tv ds c1)))"
      and "preserves c (fail s code x (warn_directory src m tv ds c1))" for s code x
      using preserves_after [OF w] vault_block_keeps by auto
    then show ?thesis
      using p unfolding mcp_vault_step_def r Some prod.case option.case
      by (cases oc) (auto simp: Let_def)
  qed
qed

lemma upstream_step: "chain_step (mcp_upstream_step src m)"
proof
  fix c :: converter and cfg
  obtain c1 oc a where r: "upstreamAuthBlock src (msg_Upstream (mcp_Config m)) c = ((c1, oc), a)"
    by (metis prod.exhaust)
  then show "preserves c (fst (mcp_upstream_step src m cfg c))"
    using upstreamAuthBlock_step [where c = c and src = src and u = "msg_Upstream (mcp_Config m)"]
    by (simp add: mcp_upstream_step_def preserves_issues)
qed

lemma limits_step: "chain_step (mcp_limits_step src m)"
  by unfold_locales (simp add: mcp_limits_step_def)

lemma access_step: "chain_step (mcp_access_step src m)"
  by unfold_locales (simp add: mcp_access_step_def Let_def)

lemma mcpTools_issues: "only_issues c (fst (mcpTools src n i ts out c))"
proof (induction ts arbitrary: i out c)
  case (Cons t ts)
  show ?case
    using only_issues_trans [OF only_issues_warn(1) Cons] only_issues_trans [OF only_issues_warn(3) Cons] Cons
    by (auto simp: Let_def)
qed simp

lemma tools_step: "chain_step (mcp_tools_step src m)"
proof
  fix c cfg
  obtain c1 ts where t: "mcpTools src (mcp_Name m) 0 (mcp_Tools m) [] c = (c1, ts)" by (metis prod.exhaust)
  then have "only_issues c c1" using mcpTools_issues [of c src "mcp_Name m" 0 "mcp_Tools m" "[]"] by simp
  then show "preserves c (fst (mcp_tools_step src m cfg c))"
    using t by (simp add: mcp_tools_step_def preserves_Done)
qed

interpretation mcp_chain: chain_step "run_steps (mcp_steps src m)" for src m
proof
  fix c cfg
  show "preserves c (fst (run_steps (mcp_steps src m) cfg c))"
    by (rule run_steps_keeps)
      (simp add: mcp_steps_def mode_step server_step vault_step upstream_step limits_step access_step tools_step)
qed


section \<open>A server is published with its access control\<close>

text \<open>Later steps leave the mode alone.\<close>

lemma run_steps_key:
  "\<forall>f \<in> set fs. \<forall>cfg c. fmlookup (snd (f cfg c)) k = fmlookup cfg k \<Longrightarrow>
   fmlookup (snd (run_steps fs cfg c)) k = fmlookup cfg k"
proof (induction fs arbitrary: cfg c)
  case (Cons f fs)
  obtain c1 oc cfg1 where f: "f cfg c = ((c1, oc), cfg1)" by (metis prod.exhaust)
  have "fmlookup (snd (f cfg c)) k = fmlookup cfg k" using Cons.prems by simp
  then have "fmlookup cfg1 k = fmlookup cfg k" using f by simp
  then show ?case using Cons f by (cases oc) simp_all
qed simp

lemma mode_kept:
  "fmlookup (snd (mcp_server_step src m cfg c)) ''mode'' = fmlookup cfg ''mode''"
  "fmlookup (snd (mcp_vault_step src m cfg c)) ''mode'' = fmlookup cfg ''mode''"
  "fmlookup (snd (mcp_upstream_step src m cfg c)) ''mode'' = fmlookup cfg ''mode''"
  "fmlookup (snd (mcp_limits_step src m cfg c)) ''mode'' = fmlookup cfg ''mode''"
  "fmlookup (snd (mcp_access_step src m cfg c)) ''mode'' = fmlookup cfg ''mode''"
  "fmlookup (snd (mcp_tools_step src m cfg c)) ''mode'' = fmlookup cfg ''mode''"
proof -
  show "fmlookup (snd (mcp_server_step src m cfg c)) ''mode'' = fmlookup cfg ''mode''"
    by (simp add: mcp_server_step_def Let_def set_opt_lookup setIfNotEmptyMap_def)
  have "fmlookup (snd (mcp_vault_block src m tv ds cfg c)) ''mode'' = fmlookup cfg ''mode''" for tv ds c
    by (auto simp: mcp_vault_block_def Let_def split: option.split prod.split outcome.split)
  then show "fmlookup (snd (mcp_vault_step src m cfg c)) ''mode'' = fmlookup cfg ''mode''"
    by (auto simp: mcp_vault_step_def Let_def split: option.split prod.split outcome.split)
  show "fmlookup (snd (mcp_upstream_step src m cfg c)) ''mode'' = fmlookup cfg ''mode''"
    by (simp add: mcp_upstream_step_def set_opt_lookup split: prod.split)
  show "fmlookup (snd (mcp_limits_step src m cfg c)) ''mode'' = fmlookup cfg ''mode''"
    by (simp add: mcp_limits_step_def)
  show "fmlookup (snd (mcp_access_step src m cfg c)) ''mode'' = fmlookup cfg ''mode''"
    by (simp add: mcp_access_step_def Let_def setIfNotEmpty_lookup setInt_lookup)
  show "fmlookup (snd (mcp_tools_step src m cfg c)) ''mode'' = fmlookup cfg ''mode''"
    by (simp add: mcp_tools_step_def split: prod.split)
qed

lemma mcpPlugin_step:
  assumes "mcpPlugin src m c = ((c', oc), p)"
  shows "preserves c (c', oc) \<and>
    (oc = Done \<longrightarrow> pl_Name p = ''ai-mcp-proxy'' \<and> fmlookup (pl_Config p) ''mode'' = Some (YStr (mcp_Type m)))"
proof -
  obtain c1 oc1 cfg where r: "run_steps (mcp_steps src m) fmempty c = ((c1, oc1), cfg)" by (metis prod.exhaust)
  have k: "preserves c (c1, oc1)" using mcp_chain.keeps [of c src m fmempty] r by simp
  let ?fs = "[mcp_server_step src m, mcp_vault_step src m, mcp_upstream_step src m,
      mcp_limits_step src m, mcp_access_step src m, mcp_tools_step src m]"
  have m: "\<forall>f \<in> set ?fs. \<forall>cfg c. fmlookup (snd (f cfg c)) ''mode'' = fmlookup cfg ''mode''"
    by (simp add: mode_kept)
  obtain cfg0 where "run_steps (mcp_steps src m) fmempty c = run_steps ?fs cfg0 c"
    "fmlookup cfg0 ''mode'' = Some (YStr (mcp_Type m))"
  proof (rule that)
    show "run_steps (mcp_steps src m) fmempty c = run_steps ?fs (snd (mcp_mode_step m fmempty c)) c"
      unfolding mcp_steps_def by (subst run_steps.simps) (simp add: mcp_mode_step_def Let_def)
    show "fmlookup (snd (mcp_mode_step m fmempty c)) ''mode'' = Some (YStr (mcp_Type m))"
      by (simp add: mcp_mode_step_def Let_def set_opt_lookup setInt_lookup)
  qed
  then have "fmlookup cfg ''mode'' = Some (YStr (mcp_Type m))" using run_steps_key [OF m, of cfg0 c] r by (metis snd_conv)
  then show ?thesis using assms r k unfolding mcpPlugin_def by (cases oc1) auto
qed

lemma mcp_route_step:
  assumes "mcp_route src m c = (c', route)"
  shows "only_issues c c' \<and> (mcp_Type m = mcpConversionOnly \<longrightarrow> rt_StripPath route \<noteq> Some False) \<and>
    rt_Plugins route = [] \<and>
    route\<lparr>rt_StripPath := None, rt_Source := None\<rparr> = (buildRoute (msg_Route (mcp_Config m)) (mcp_Name m))\<lparr>rt_StripPath := None\<rparr>"
  using assms by (auto simp: mcp_route_def Let_def buildRoute_def route_of_def split: if_splits)

lemma mcp_service_step:
  assumes "mcp_service src m route c = (c', svc)"
  shows "reports c c' \<and> same_env c c' \<and>
    (\<exists>cs cas. cv_out c' = (cv_out c)\<lparr>doc_Certificates := cs, doc_CACertificates := cas\<rparr>) \<and>
    svc_Name svc = mcp_Name m \<and> svc_Routes svc = [route] \<and> svc_Plugins svc = [] \<and>
    (svc_Enabled svc = Some False \<longleftrightarrow> mcp_Enabled m = Some False) \<and>
    (if mcp_UpstreamURL m \<noteq> [] then svc_URL svc = mcp_UpstreamURL m else svc_URL svc = [] \<and> svc_Host svc = placeholderHost)"
proof -
  define c1 where "c1 = (if mcp_UpstreamURL m = [] \<and> mcp_Type m = ''passthrough-listener''
      then warn (src_at src [''upstream_url'']) MissingRequiredConfigField
        (''MCP server %q is passthrough-listener but has no upstream_url; using placeholder host %q'',
         [mcp_Name m, placeholderHost]) c else c)"
  define svc0 where "svc0 = (let svc = empty_service\<lparr>svc_Name := mcp_Name m, svc_ID := mcp_ID m, svc_Routes := [route],
            svc_Tags := labelsToTags c (mcp_Labels m), svc_Source := serviceURLSource ''mcp_server'' (mcp_Name m)\<rparr>;
          svc = (if mcp_UpstreamURL m \<noteq> [] then svc\<lparr>svc_URL := mcp_UpstreamURL m\<rparr>
                 else svc\<lparr>svc_Host := placeholderHost\<rparr>)
      in if mcp_Enabled m = Some False then svc\<lparr>svc_Enabled := Some False\<rparr> else svc)"
  have c1: "only_issues c c1" by (simp add: c1_def)
  have s0: "svc_Name svc0 = mcp_Name m" "svc_Routes svc0 = [route]" "svc_Plugins svc0 = []"
    "svc_Enabled svc0 = Some False \<longleftrightarrow> mcp_Enabled m = Some False"
    "if mcp_UpstreamURL m \<noteq> [] then svc_URL svc0 = mcp_UpstreamURL m else svc_URL svc0 = [] \<and> svc_Host svc0 = placeholderHost"
    by (simp_all add: svc0_def Let_def empty_service_def)
  have "applyUpstreamTLS src svc0 (msg_Certificates (mcp_Config m)) (msg_CACertificates (mcp_Config m)) c1 = (c', svc)"
    using assms unfolding mcp_service_def svc0_def c1_def Let_def .
  note f = upstream_tls_frame [OF this]
  have out1: "cv_out c1 = cv_out c" using c1 by (rule only_issues_kept)
  have frame: "\<exists>cs cas. cv_out c' = (cv_out c)\<lparr>doc_Certificates := cs, doc_CACertificates := cas\<rparr>"
    using f unfolding out1 by blast
  obtain x xs where "svc = svc0\<lparr>svc_ClientCertificate := x, svc_CACertificates := xs\<rparr>" using f by blast
  then have svc: "svc_Name svc = svc_Name svc0" "svc_Routes svc = svc_Routes svc0" "svc_Plugins svc = svc_Plugins svc0"
    "svc_Enabled svc = svc_Enabled svc0" "svc_URL svc = svc_URL svc0" "svc_Host svc = svc_Host svc0" by simp_all
  have "reports c c'" "same_env c c'"
    using f reports_trans [OF only_issues_reports [OF c1]] same_env_trans [OF only_issues_env [OF c1]] by blast+
  then show ?thesis using frame s0 unfolding svc by blast
qed


lemma mcp_gate_step:
  assumes "mcp_gate src m exposed route c = ((c', oc), route')"
  shows "only_issues c c' \<and> explained (c', oc) \<and>
    (oc = Done \<longrightarrow> c' = c \<and> rt_Paths route' = rt_Paths route \<and> rt_StripPath route' = rt_StripPath route \<and>
       rt_Plugins route' = rt_Plugins route @ (if is_gated m exposed then [mcpToolsetGate m] else []) \<and>
       (is_gated m exposed \<longrightarrow> MCPToolsetGatePlugin \<notin> pl_Name ` set (rt_Plugins route)))"
  using assms by (auto simp: mcp_gate_def list_ex_iff fail_def explained_def split: if_splits)

lemma warnings_step [simp]:
  "only_issues c (warn_claim_acls src m c)" "only_issues c (warn_unidentified src m ps c)"
  by (simp_all add: warn_claim_acls_def warn_unidentified_def Let_def)

lemma mcp_enforces_env:
  assumes "cn_authStrategies c' = cn_authStrategies c" and "cv_minRuntimeVersion c' = cv_minRuntimeVersion c"
  shows "mcp_enforces c' m p = mcp_enforces c m p"
  unfolding mcp_enforces_def mcp_strategy_def conv_supports_def assms by (rule refl)

lemma entity_env:
  assumes "same_env c c'"
  shows "entity_plugins refs acls c' = entity_plugins refs acls c" "entity_refused src refs acls c' = entity_refused src refs acls c"
  by (simp_all add: entity_plugins_def entity_refused_def acl_refused_def ref_stable [OF assms] env_fields(9) [OF assms])

definition asks_auth :: "MCPServer \<Rightarrow> bool" where
  "asks_auth m \<longleftrightarrow> mac_AuthStrategies (mcp_Access m) \<noteq> [] \<or> mac_Metadata (mcp_Access m) \<noteq> None"

text \<open>The Service of a server as a function of the source: what guards its only Route.\<close>

definition mcp_service_ok ::
  "ConversionIssueSource \<Rightarrow> MCPServer \<Rightarrow> string list \<Rightarrow> converter \<Rightarrow> Service \<Rightarrow> bool"
where
  "mcp_service_ok src m exposed c svc \<longleftrightarrow>
     svc_Name svc = mcp_Name m \<and> svc_Plugins svc = [] \<and>
     (svc_Enabled svc = Some False \<longleftrightarrow> mcp_Enabled m = Some False) \<and>
     (if mcp_UpstreamURL m \<noteq> [] then svc_URL svc = mcp_UpstreamURL m
      else svc_URL svc = [] \<and> svc_Host svc = placeholderHost) \<and>
     (\<exists>route proxy auth.
        svc_Routes svc = [route] \<and>
        (mcp_Type m = mcpConversionOnly \<longrightarrow> rt_StripPath route \<noteq> Some False) \<and>
        rt_Plugins route = proxy # sourceScopedPlugins (entity_plugins (mcp_Policies m) (mac_ACLs (mcp_Access m)) c)
            ''mcp_server'' (mcp_Name m) @ auth @ (if is_gated m exposed then [mcpToolsetGate m] else []) \<and>
        pl_Name proxy = ''ai-mcp-proxy'' \<and> fmlookup (pl_Config proxy) ''mode'' = Some (YStr (mcp_Type m)) \<and>
        (if asks_auth m then \<exists>p. auth = [p] \<and> mcp_enforces c m p else auth = []) \<and>
        (is_gated m exposed \<longrightarrow> MCPToolsetGatePlugin \<notin> pl_Name ` set (butlast (rt_Plugins route)))) \<and>
     \<not> entity_refused src (mcp_Policies m) (mac_ACLs (mcp_Access m)) c \<and>
     (asks_auth m \<or> \<not> ACLs_IsEmpty (mac_ACLs (mcp_Access m)) \<longrightarrow> MCPAccessAllowed (mcp_Type m))"

definition mcp_server_result ::
  "ConversionIssueSource \<Rightarrow> MCPServer \<Rightarrow> string list \<Rightarrow> converter \<Rightarrow> (converter \<times> outcome) \<times> Service \<Rightarrow> bool"
where
  "mcp_server_result src m exposed c res \<longleftrightarrow>
     (case res of ((c', oc), svc) \<Rightarrow>
        auth_env c c' \<and> explained (c', oc) \<and> doc_Services (cv_out c') = doc_Services (cv_out c) \<and>
        same_tables (cv_out c) (cv_out c') \<and>
        (oc = Done \<longrightarrow> mcp_service_ok src m exposed c svc))"

lemma server_failed:
  "oc \<noteq> Done \<Longrightarrow> auth_env c c' \<Longrightarrow> kept (cv_out c') = kept (cv_out c) \<Longrightarrow> explained (c', oc) \<Longrightarrow>
   mcp_server_result src m exposed c ((c', oc), svc)"
  using kept_Services [of "cv_out c'" "cv_out c"] kept_tables [of "cv_out c'" "cv_out c"]
  by (simp add: mcp_server_result_def)

lemma env_auth: "reports c c' \<Longrightarrow> same_env c c' \<Longrightarrow> auth_env c c'"
  by (cases c; cases c') (auto simp: same_env_iff auth_env_def reports_def)

lemma preserves_env: "preserves c (c', oc) \<Longrightarrow> auth_env c c'"
  by (simp add: preserves_def env_auth)


lemma convertMCPServer_result: "mcp_server_result src m exposed c (convertMCPServer src m exposed c)"
proof -
  let ?acls = "mac_ACLs (mcp_Access m)"
  obtain c1 route where ro: "mcp_route src m c = (c1, route)" by (metis prod.exhaust)
  have o1: "only_issues c c1" and strip: "mcp_Type m = mcpConversionOnly \<longrightarrow> rt_StripPath route \<noteq> Some False"
    using mcp_route_step [OF ro] by blast+
  obtain c2 oc2 plugin where pl: "mcpPlugin src m c1 = ((c2, oc2), plugin)" by (metis prod.exhaust)
  have p2: "preserves c (c2, oc2)" using mcpPlugin_step [OF pl] preserves_after [OF o1] by blast
  note step1 = convertMCPServer_def [of src m exposed c, unfolded ro prod.case pl]
  show ?thesis
  proof (cases "oc2 = Done")
    case False
    then have "convertMCPServer src m exposed c = ((c2, oc2), empty_service)"
      unfolding step1 by (cases oc2) simp_all
    then show ?thesis using p2 False preserves_env [OF p2] by (simp add: server_failed preserves_def)
  next
    case done2: True
    then have p2': "preserves c (c2, Done)" using p2 by simp
    note step2 = step1 [unfolded done2 prod.case outcome.case]
    have failed: "mcp_server_result src m exposed c ((c', SkipEntity), svc)"
      if "preserves c2 (c', SkipEntity)" for c' svc
      using preserves_trans [OF p2' that] preserves_env [OF preserves_trans [OF p2' that]]
      by (simp add: server_failed preserves_def)
    show ?thesis
    proof (cases "\<not> ACLs_IsEmpty ?acls \<and> \<not> MCPAccessAllowed (mcp_Type m)")
      case True
      have "\<exists>s r. convertMCPServer src m exposed c = (fail s ConfigFieldInvalid r c2, empty_service)"
        unfolding step2 if_P [OF True] by blast
      then show ?thesis using failed preserves_fail(1) by (metis fail_def)
    next
      case acl_ok: False
      obtain c3 guards where sp: "scopedPlugins src (mcp_Policies m) ?acls c2 = (c3, guards)" by (metis prod.exhaust)
      have o3: "only_issues c2 c3" using scopedPlugins_only_issues [of c2 src "mcp_Policies m" ?acls] sp by simp
      have g: "guards = (if entity_refused src (mcp_Policies m) ?acls c2 then None
          else Some (entity_plugins (mcp_Policies m) ?acls c2))"
        using scopedPlugins_value [of src "mcp_Policies m" ?acls c2] sp by simp
      have env2: "same_env c c2" using p2' by (simp add: preserves_def)
      note step3 = step2 [unfolded if_not_P [OF acl_ok] sp prod.case]
      show ?thesis
      proof (cases guards)
        case None
        then have "HasErrors (cv_issues c3)"
          using scopedPlugins_errors [of src "mcp_Policies m" ?acls c2] sp g by (simp split: if_splits)
        then have "preserves c2 (c3, SkipEntity)" using o3 by (simp add: preserves_issues explained_def)
        then show ?thesis using failed step3 None by simp
      next
        case (Some ps)
        have ps: "ps = entity_plugins (mcp_Policies m) ?acls c" "\<not> entity_refused src (mcp_Policies m) ?acls c"
          using g Some entity_env [OF env2] by (simp_all split: if_splits)
        define route1 where "route1 = route\<lparr>rt_Plugins := plugin\<lparr>pl_Source := mcp_plugin_source m\<rparr> #
          sourceScopedPlugins ps ''mcp_server'' (mcp_Name m)\<rparr>"
        obtain c4 oc4 auth route2 where au: "mcpAuthStrategyPlugins src m route1 c3 = ((c4, oc4), auth, route2)"
          by (metis prod.exhaust)
        note ar = mcp_auth_result [of c3 m route1 src, unfolded au mcp_auth_result_def prod.case]
        have p3: "preserves c (c3, Done)" using preserves_trans [OF p2' preserves_Done [OF o3]] .
        have e4: "auth_env c c4" using auth_env_trans [OF preserves_env [OF p3]] ar by blast
        have k4: "kept (cv_out c4) = kept (cv_out c)" using p3 ar by (simp add: preserves_def)
        note step4 = step3 [unfolded Some option.case Let_def route1_def [symmetric] au prod.case]
        show ?thesis
        proof (cases "oc4 = Done")
          case False
          then have "convertMCPServer src m exposed c = ((c4, oc4), empty_service)"
            unfolding step4 by (cases oc4) simp_all
          then show ?thesis using e4 k4 ar False by (simp add: server_failed)
        next
          case done4: True
          let ?w1 = "warn_claim_acls src m c4"
          define route3 where "route3 = route2\<lparr>rt_Plugins := rt_Plugins route2 @ auth\<rparr>"
          let ?w2 = "warn_unidentified src m (rt_Plugins route3) ?w1"
          have w2: "only_issues c4 ?w2" by (rule only_issues_trans [OF warnings_step(1) warnings_step(2)])
          obtain c5 oc5 route4 where ga: "mcp_gate src m exposed route3 ?w2 = ((c5, oc5), route4)"
            by (metis prod.exhaust)
          note gs = mcp_gate_step [OF ga]
          have o5: "only_issues c4 c5" using w2 gs only_issues_trans by blast
          have e5: "auth_env c c5" using auth_env_trans [OF e4 only_issues_auth_env [OF o5]] .
          have k5: "kept (cv_out c5) = kept (cv_out c)" using k4 only_issues_kept [OF o5] by simp
          note step5 = step4 [unfolded done4 outcome.case prod.case route3_def [symmetric] ga]
          show ?thesis
          proof (cases "oc5 = Done")
            case False
            then have "convertMCPServer src m exposed c = ((c5, oc5), empty_service)"
              unfolding step5 by (cases oc5) simp_all
            then show ?thesis using e5 k5 gs False by (simp add: server_failed)
          next
            case done5: True
            obtain c6 svc where sv: "mcp_service src m route4 c5 = (c6, svc)" by (metis prod.exhaust)
            note ss = mcp_service_step [OF sv]
            have run: "convertMCPServer src m exposed c = ((c6, Done), svc)"
              unfolding step5 done5 outcome.case prod.case sv by (rule refl)
            have e6: "auth_env c c6"
              using ss auth_env_trans [OF e5 env_auth] by blast
            have docs: "doc_Services (cv_out c6) = doc_Services (cv_out c)" "same_tables (cv_out c) (cv_out c6)"
              using ss kept_Services [OF k5] kept_tables [OF k5] by (auto simp: same_tables_def)
            have f3: "cn_authStrategies c3 = cn_authStrategies c" "cv_minRuntimeVersion c3 = cv_minRuntimeVersion c"
              using auth_env_fields [OF preserves_env [OF p3]] by blast+
            have r2: "rt_Plugins route2 = rt_Plugins route1 \<and> rt_StripPath route2 = rt_StripPath route1"
              and asked: "if asks_auth m then MCPAccessAllowed (mcp_Type m) \<and> (\<exists>p. auth = [p] \<and> mcp_enforces c m p) else auth = []"
              using ar done4 mcp_enforces_env [OF f3] by (auto simp: asks_auth_def split: if_splits)
            have r4: "rt_Plugins route4 = plugin\<lparr>pl_Source := mcp_plugin_source m\<rparr> #
                sourceScopedPlugins ps ''mcp_server'' (mcp_Name m) @ auth @
                (if is_gated m exposed then [mcpToolsetGate m] else [])"
              "rt_StripPath route4 = rt_StripPath route"
              using gs done5 r2 by (auto simp: route3_def route1_def)
            have alone: "is_gated m exposed \<longrightarrow> MCPToolsetGatePlugin \<notin> pl_Name ` set (butlast (rt_Plugins route4))"
              using gs done5 by simp
            have proxy: "pl_Name plugin = ''ai-mcp-proxy''" "fmlookup (pl_Config plugin) ''mode'' = Some (YStr (mcp_Type m))"
              using mcpPlugin_step [OF pl] done2 by blast+
            have "mcp_service_ok src m exposed c svc"
              unfolding mcp_service_ok_def
            proof (intro conjI)
              show "\<exists>route proxy auth. svc_Routes svc = [route] \<and>
                 (mcp_Type m = mcpConversionOnly \<longrightarrow> rt_StripPath route \<noteq> Some False) \<and>
                 rt_Plugins route = proxy # sourceScopedPlugins (entity_plugins (mcp_Policies m) ?acls c)
                     ''mcp_server'' (mcp_Name m) @ auth @ (if is_gated m exposed then [mcpToolsetGate m] else []) \<and>
                 pl_Name proxy = ''ai-mcp-proxy'' \<and> fmlookup (pl_Config proxy) ''mode'' = Some (YStr (mcp_Type m)) \<and>
                 (if asks_auth m then \<exists>p. auth = [p] \<and> mcp_enforces c m p else auth = []) \<and>
                 (is_gated m exposed \<longrightarrow> MCPToolsetGatePlugin \<notin> pl_Name ` set (butlast (rt_Plugins route)))"
                using ss strip r4 alone proxy asked
                by (intro exI [of _ route4] exI [of _ "plugin\<lparr>pl_Source := mcp_plugin_source m\<rparr>"] exI [of _ auth])
                  (simp add: ps split: if_splits)
              show "asks_auth m \<or> \<not> ACLs_IsEmpty ?acls \<longrightarrow> MCPAccessAllowed (mcp_Type m)"
                using asked acl_ok by (auto split: if_splits)
            qed (use ss ps in auto)
            then show ?thesis unfolding run by (simp add: mcp_server_result_def e6 docs)
          qed
        qed
      qed
    qed
  qed
qed


interpretation mcp_server: entity_step "mcp_entity src m exposed" for src m exposed
proof
  fix c
  obtain c' oc svc where run: "convertMCPServer src m exposed c = ((c', oc), svc)" by (metis prod.exhaust)
  note r = convertMCPServer_result [of src m exposed c, unfolded run mcp_server_result_def prod.case]
  have rep: "reports c c'" using r by (simp add: auth_env_def)
  show "reports c (fst (mcp_entity src m exposed c))"
    using rep run by (cases oc) (simp_all add: mcp_entity_def reports_def)
  show "snd (mcp_entity src m exposed c) = SkipEntity \<Longrightarrow> HasErrors (cv_issues (fst (mcp_entity src m exposed c)))"
    using r run by (cases oc) (simp_all add: mcp_entity_def explained_def)
qed

lemma mcp_entity_cases:
  assumes "convertMCPServer src m exposed c = ((c', oc), svc)"
  shows "(oc = Done \<and> convertEntity s (mcp_entity src m exposed) c =
            c'\<lparr>cv_out := (cv_out c')\<lparr>doc_Services := doc_Services (cv_out c') @ [svc]\<rparr>\<rparr>) \<or>
         (oc \<noteq> Done \<and> cv_out (convertEntity s (mcp_entity src m exposed) c) = cv_out c \<and>
            HasErrors (cv_issues (convertEntity s (mcp_entity src m exposed) c)))"
proof -
  have "snd (mcp_entity src m exposed c) = oc"
    using assms by (cases oc) (simp_all add: mcp_entity_def)
  then show ?thesis
    using mcp_server.atomic [of s src m exposed c] assms by (cases "oc = Done") (auto simp: Let_def mcp_entity_def)
qed

text \<open>C9: An MCP server is left out with an error and an unchanged output, or published with one Service
  and Route: the proxy plugin in the mode of its type, the plugins of its policies and its acl
  plugin, the authentication it asks for, and the gate when only listeners may call it.\<close>

theorem mcp_server_published:
  "let c' = convertEntity s (mcp_entity src m exposed) c in
     reports c c' \<and>
     ((\<exists>svc. doc_Services (cv_out c') = doc_Services (cv_out c) @ [svc] \<and> mcp_service_ok src m exposed c svc) \<or>
      cv_out c' = cv_out c \<and> HasErrors (cv_issues c'))"
proof -
  obtain c1 oc svc where run: "convertMCPServer src m exposed c = ((c1, oc), svc)" by (metis prod.exhaust)
  note r = convertMCPServer_result [of src m exposed c, unfolded run mcp_server_result_def prod.case]
  have "reports c (convertEntity s (mcp_entity src m exposed) c)" by (rule mcp_server.convert_reports)
  then show ?thesis
    using mcp_entity_cases [OF run, of s] r by (auto simp: Let_def)
qed

text \<open>What the plugins of an entity read of the converter.\<close>

lemma policyPlugin_reads:
  assumes p: "cn_providers c' = cn_providers c" and d: "cn_datastores c' = cn_datastores c"
    and v: "cv_minRuntimeVersion c' = cv_minRuntimeVersion c"
  shows "snd (policyPlugin po t b c') = snd (policyPlugin po t b c)"
proof -
  have nv: "norm_value c' = norm_value c" unfolding norm_value_def p by (rule refl)
  have nm: "norm_match c' = norm_match c" unfolding norm_match_def nv by (rule refl)
  have np: "norm_policy c' = norm_policy c" unfolding norm_policy_def nm by (rule refl)
  have n: "normalizeRateLimitingProviderMatches c' po = normalizeRateLimitingProviderMatches c po"
    unfolding normalizeRateLimitingProviderMatches_def np by (rule refl)
  have "snd (applyDatastore po cfg c') = snd (applyDatastore po cfg c)" for cfg
    by (simp add: applyDatastore_def Let_def d split: prod.split option.split datastore_error.split)
  then show ?thesis
    by (auto simp: policyPlugin_def prod.case_eq_if n conv_supports_def v split: option.split)
qed

lemma service_ok_env:
  assumes e: "auth_env c c'"
  shows "mcp_service_ok src m exposed c' svc = mcp_service_ok src m exposed c svc"
proof -
  obtain d i w where c': "c' = c\<lparr>cv_out := d, cv_issues := i, cn_tvOIDCWarned := w\<rparr>"
    using e unfolding auth_env_def by blast
  have f: "cn_providers c' = cn_providers c" "cn_datastores c' = cn_datastores c" "cn_policies c' = cn_policies c"
    "cn_authStrategies c' = cn_authStrategies c" "cv_minRuntimeVersion c' = cv_minRuntimeVersion c"
    by (simp_all add: c')
  have sup: "conv_supports g c' = conv_supports g c" for g by (simp add: conv_supports_def f)
  have "ref_plugin c' = ref_plugin c"
    unfolding ref_plugin_def f policyPlugin_reads [OF f(1,2,5)] by (rule refl)
  then have "entity_plugins refs acls c' = entity_plugins refs acls c" for refs acls
    by (simp add: entity_plugins_def)
  moreover have "entity_refused src refs acls c' = entity_refused src refs acls c" for refs acls
    unfolding entity_refused_def acl_refused_def auth_ref_def f sup by (rule refl)
  moreover have "mcp_enforces c' m = mcp_enforces c m"
    by (rule ext) (rule mcp_enforces_env [OF f(4,5)])
  ultimately show ?thesis unfolding mcp_service_ok_def by simp
qed


section \<open>No route of a toolset is open\<close>

text \<open>A Service without the tags of its ai-mcp-proxy plugins: what the wiring of listeners keeps.\<close>

definition untag_plugin :: "Plugin \<Rightarrow> Plugin" where
  "untag_plugin p = (if pl_Name p = ''ai-mcp-proxy'' then p\<lparr>pl_Tags := []\<rparr> else p)"

definition untag :: "Service \<Rightarrow> Service" where
  "untag svc = svc\<lparr>svc_Routes := map (\<lambda>r. r\<lparr>rt_Plugins := map untag_plugin (rt_Plugins r)\<rparr>) (svc_Routes svc)\<rparr>"

definition proxy_at :: "Service list \<Rightarrow> string \<Rightarrow> nat \<times> nat \<times> nat \<Rightarrow> bool" where
  "proxy_at services name pos \<longleftrightarrow>
     (case pos of (si, ri, pi) \<Rightarrow>
        si < length services \<and> svc_Name (services ! si) = name \<and> ri < length (svc_Routes (services ! si)) \<and>
        pi < length (rt_Plugins (svc_Routes (services ! si) ! ri)) \<and>
        pl_Name (rt_Plugins (svc_Routes (services ! si) ! ri) ! pi) = ''ai-mcp-proxy'')"

lemma ex_enumerate: "(\<exists>x \<in> set (enumerate 0 xs). P x) \<longleftrightarrow> (\<exists>i < length xs. P (i, xs ! i))"
  by (auto simp: Bex_def in_set_enumerate_eq)

lemma plugin_positions_iff:
  "(name, pos) \<in> set (plugin_positions services) \<longleftrightarrow> proxy_at services name pos"
  by (cases pos) (auto simp: plugin_positions_def proxy_at_def ex_enumerate split: if_splits)

lemma pluginByServer_proxy: "pluginByServer services name = Some pos \<Longrightarrow> proxy_at services name pos"
  unfolding pluginByServer_def using map_of_SomeD plugin_positions_iff by fastforce

lemma pluginByServer_None: "pluginByServer services name = None \<longleftrightarrow> (\<forall>pos. \<not> proxy_at services name pos)"
  unfolding pluginByServer_def map_of_eq_None_iff using plugin_positions_iff by force

lemma map_untag: "map untag services = map untag services' \<Longrightarrow> proxy_at services name pos = proxy_at services' name pos"
proof -
  assume eq: "map untag services = map untag services'"
  have untag_name: "pl_Name (untag_plugin p) = pl_Name p" for p by (simp add: untag_plugin_def)
  have shape: "proxy_at (map untag xs) name pos = proxy_at xs name pos" for xs
    by (cases pos) (auto simp: proxy_at_def untag_def untag_name)
  show ?thesis using shape [of services] shape [of services'] eq by simp
qed

lemma list_update_map: "i < length xs \<Longrightarrow> g y = g (xs ! i) \<Longrightarrow> map g (xs[i := y]) = map g xs"
  by (simp add: map_update list_update_same_conv)

lemma map_plugin_untag:
  assumes "proxy_at services name pos"
  shows "map untag (map_plugin (\<lambda>p. p\<lparr>pl_Tags := f (pl_Tags p)\<rparr>) pos services) = map untag services"
proof -
  obtain si ri pi where pos: "pos = (si, ri, pi)" by (metis prod.exhaust)
  let ?svc = "services ! si" let ?route = "svc_Routes ?svc ! ri" let ?p = "rt_Plugins ?route ! pi"
  have b: "si < length services" "ri < length (svc_Routes ?svc)" "pi < length (rt_Plugins ?route)"
    "pl_Name ?p = ''ai-mcp-proxy''" using assms by (simp_all add: proxy_at_def pos)
  have "map untag_plugin ((rt_Plugins ?route)[pi := ?p\<lparr>pl_Tags := f (pl_Tags ?p)\<rparr>]) = map untag_plugin (rt_Plugins ?route)"
    using b by (intro list_update_map) (simp_all add: untag_plugin_def)
  then have "untag (?svc\<lparr>svc_Routes := (svc_Routes ?svc)[ri :=
      ?route\<lparr>rt_Plugins := (rt_Plugins ?route)[pi := ?p\<lparr>pl_Tags := f (pl_Tags ?p)\<rparr>]\<rparr>]\<rparr>) = untag ?svc"
    using list_update_map [OF b(2), of "\<lambda>r. r\<lparr>rt_Plugins := map untag_plugin (rt_Plugins r)\<rparr>"]
    by (simp add: untag_def)
  then show ?thesis
    using list_update_map [OF b(1)] by (simp add: map_plugin_def pos Let_def)
qed

lemma wire_listener_untag:
  assumes "\<And>name pos. index name = Some pos \<Longrightarrow> proxy_at services name pos"
  shows "map untag (wire_listener index m services) = map untag services"
proof -
  let ?f = "\<lambda>sourceName services. case index sourceName of
               None \<Rightarrow> services
             | Some pos \<Rightarrow> map_plugin (\<lambda>p. p\<lparr>pl_Tags := addTag (pl_Tags p) (listener_tag m)\<rparr>) pos services"
  have "map untag (fold ?f names s) = map untag services" if "map untag s = map untag services" for names s
    using that
  proof (induction names arbitrary: s)
    case (Cons n names)
    have "map untag (?f n s) = map untag services"
    proof (cases "index n")
      case (Some pos)
      then have "proxy_at s n pos" using assms map_untag [OF Cons.prems] by simp
      from map_plugin_untag [OF this, of "\<lambda>ts. addTag ts (listener_tag m)"] show ?thesis
        using Some Cons.prems by simp
    qed (simp add: Cons.prems)
    then show ?case using Cons.IH by simp
  qed simp
  then show ?thesis by (simp add: wire_listener_def)
qed

lemma wire_fold_untag:
  assumes "\<And>name pos. index name = Some pos \<Longrightarrow> proxy_at services name pos"
    and "map untag s = map untag services"
  shows "map untag (fold (wire_listener index) ms s) = map untag services"
  using assms(2)
proof (induction ms arbitrary: s)
  case (Cons m ms)
  have "map untag (wire_listener index m s) = map untag s"
    by (rule wire_listener_untag) (use assms(1) map_untag [OF Cons.prems] in simp)
  then show ?case using Cons by simp
qed simp

lemma wire_untag:
  "map untag (doc_Services (cv_out (wireListenerSources c))) = map untag (doc_Services (cv_out c))"
  using wire_fold_untag [of "pluginByServer (doc_Services (cv_out c))" "doc_Services (cv_out c)"] pluginByServer_proxy
  by (simp add: wireListenerSources_def Let_def)


lemma auth_env_entity: "auth_env c (fst (fn c)) \<Longrightarrow> auth_env c (convertEntity s fn c)"
proof -
  assume e: "auth_env c (fst (fn c))"
  obtain c' oc where fn: "fn c = (c', oc)" by (metis prod.exhaust)
  have "auth_env c (reportError x code r c')" for x code r
    using auth_env_trans [of c c', OF _ auth_env_report] e fn by (simp add: reportError_def)
  then show ?thesis using e fn by (cases oc) (auto simp: convertEntity_def guard_def Let_def)
qed

lemma mcp_entity_env: "auth_env c (fst (mcp_entity src m exposed c))"
proof -
  obtain c' oc svc where run: "convertMCPServer src m exposed c = ((c', oc), svc)" by (metis prod.exhaust)
  have "auth_env c c'"
    using convertMCPServer_result [of src m exposed c] run by (simp add: mcp_server_result_def)
  then show ?thesis using run by (cases oc) (simp_all add: mcp_entity_def)
qed

text \<open>The loop: each converted server with its Service, and the indices of the conversion-only ones.\<close>

definition toolsets :: "nat \<Rightarrow> (MCPServer \<times> Service) list \<Rightarrow> nat list" where
  "toolsets n zs = map fst (filter (\<lambda>(i, m, svc). mcp_Type m = mcpConversionOnly) (enumerate n zs))"

definition loop_inv :: "converter \<Rightarrow> string list \<Rightarrow> MCPServer list \<Rightarrow> converter \<times> nat list \<Rightarrow> (MCPServer \<times> Service) list \<Rightarrow> bool"
where
  "loop_inv c0 exposed ms s zs \<longleftrightarrow>
     auth_env c0 (fst s) \<and>
     doc_Services (cv_out (fst s)) = doc_Services (cv_out c0) @ map snd zs \<and>
     subseq (map fst zs) ms \<and>
     (\<forall>(m, svc) \<in> set zs. mcp_service_ok (issueSource kindMCPServer (mcp_Name m)) m exposed c0 svc) \<and>
     (\<forall>m \<in> set ms. m \<in> fst ` set zs \<or> HasErrors (cv_issues (fst s))) \<and>
     snd s = toolsets (length (doc_Services (cv_out c0))) zs"

lemma mcp_loop_step:
  assumes inv: "loop_inv c0 exposed ms (c, idx) zs"
  shows "\<exists>zs'. loop_inv c0 exposed (ms @ [m]) (mcp_loop exposed m (c, idx)) zs'"
proof -
  let ?src = "issueSource kindMCPServer (mcp_Name m)"
  let ?c = "convertEntity ?src (mcp_entity ?src m exposed) c"
  obtain c1 oc svc where run: "convertMCPServer ?src m exposed c = ((c1, oc), svc)" by (metis prod.exhaust)
  note r = convertMCPServer_result [of ?src m exposed c, unfolded run mcp_server_result_def prod.case]
  have env: "auth_env c0 ?c"
    using inv auth_env_trans [of c0 c, OF _ auth_env_entity [of c "mcp_entity ?src m exposed", OF mcp_entity_env]]
    by (simp add: loop_inv_def)
  have mono: "HasErrors (cv_issues c) \<Longrightarrow> HasErrors (cv_issues ?c)"
    using HasErrors_mono [OF mcp_server.convert_reports] by blast
  from mcp_entity_cases [OF run, of ?src] show ?thesis
  proof (elim disjE conjE)
    assume d: "oc = Done"
      and c': "?c = c1\<lparr>cv_out := (cv_out c1)\<lparr>doc_Services := doc_Services (cv_out c1) @ [svc]\<rparr>\<rparr>"
    have ok: "mcp_service_ok ?src m exposed c0 svc"
      using r d inv service_ok_env by (auto simp: loop_inv_def)
    have "subseq (map fst (zs @ [(m, svc)])) (ms @ [m])"
      using inv by (auto simp: loop_inv_def intro: list_emb_append_mono)
    moreover have "doc_Services (cv_out c1) = doc_Services (cv_out c0) @ map snd zs"
      using r inv by (simp add: loop_inv_def)
    moreover have "snd (mcp_loop exposed m (c, idx)) = toolsets (length (doc_Services (cv_out c0))) (zs @ [(m, svc)])"
      using inv run d calculation(2)
      by (simp add: mcp_loop_def Let_def loop_inv_def toolsets_def enumerate_append_eq)
    ultimately have "loop_inv c0 exposed (ms @ [m]) (mcp_loop exposed m (c, idx)) (zs @ [(m, svc)])"
      using inv env mono ok c' run by (auto simp: loop_inv_def mcp_loop_def Let_def)
    then show ?thesis by blast
  next
    assume d: "oc \<noteq> Done" and out: "cv_out ?c = cv_out c" and err: "HasErrors (cv_issues ?c)"
    have "subseq (map fst zs) (ms @ [m])" using inv by (auto simp: loop_inv_def)
    then have "loop_inv c0 exposed (ms @ [m]) (mcp_loop exposed m (c, idx)) zs"
      using inv env err out run d by (auto simp: loop_inv_def mcp_loop_def Let_def)
    then show ?thesis by blast
  qed
qed

lemma mcp_fold:
  "loop_inv c0 exposed done (c, idx) zs \<Longrightarrow>
   \<exists>zs'. loop_inv c0 exposed (done @ ms) (fold (mcp_loop exposed) ms (c, idx)) zs'"
proof (induction ms arbitrary: c idx zs "done")
  case (Cons m ms)
  obtain c1 idx1 where s: "mcp_loop exposed m (c, idx) = (c1, idx1)" by (metis prod.exhaust)
  from mcp_loop_step [OF Cons.prems, of m] obtain zs1 where "loop_inv c0 exposed (done @ [m]) (c1, idx1) zs1"
    unfolding s by blast
  from Cons.IH [OF this] show ?case by (simp add: s)
qed auto

text \<open>Leaving entries out by index.\<close>

lemma enumerate_nths: "map snd (filter (\<lambda>(i, x). i \<notin> D) (enumerate 0 xs)) = nths xs (- D)"
  by (induction xs rule: rev_induct) (auto simp: enumerate_append_eq nths_append nths_singleton)

lemma nths_cong: "(\<And>i. i < length xs \<Longrightarrow> i \<in> A \<longleftrightarrow> i \<in> B) \<Longrightarrow> nths xs A = nths xs B"
  unfolding nths_def by (rule arg_cong [where f = "map fst"], rule filter_cong) (auto simp: in_set_zip)

lemma set_toolsets: "i \<in> set (toolsets n zs) \<longleftrightarrow> (\<exists>k < length zs. i = n + k \<and> mcp_Type (fst (zs ! k)) = mcpConversionOnly)"
  by (auto simp: toolsets_def in_set_enumerate_eq image_iff split: prod.splits)
    (metis add_diff_inverse_nat fst_conv less_diff_conv2 add.commute linorder_not_le)+


lemma prune_callback_services [simp]:
  "doc_Services (cv_out (pruneUnusedTokenVaultCallbackRoute c)) = doc_Services (cv_out c)"
  "cv_issues (pruneUnusedTokenVaultCallbackRoute c) = cv_issues c"
  by (simp_all add: pruneUnusedTokenVaultCallbackRoute_def)

definition survives :: "string list \<Rightarrow> MCPServer \<Rightarrow> bool" where
  "survives exposed m \<longleftrightarrow> \<not> (mcp_Type m = mcpConversionOnly \<and> mcp_Name m \<notin> set exposed)"

lemma prune_reports:
  "reports c (pruneUnexposedSources idx exposed c)"
  "doc_Services (cv_out (pruneUnexposedSources idx exposed c)) =
     nths (doc_Services (cv_out c)) (- {i \<in> set idx. svc_Name (doc_Services (cv_out c) ! i) \<notin> set exposed})"
proof -
  let ?services = "doc_Services (cv_out c)"
  let ?drops = "filter (\<lambda>i. svc_Name (?services ! i) \<notin> set exposed) idx"
  let ?w = "\<lambda>i c. warn (issueSource kindMCPServer (svc_Name (?services ! i))) ConfigFieldDropped
      (''MCP server %q is conversion-only but no listener names it in config.sources; dropping its service and route'',
       [svc_Name (?services ! i)]) c"
  define cw where "cw = fold ?w ?drops c"
  have cw: "only_issues c (fold ?w is c)" for "is"
    by (rule fold_invariant_set [where P = "only_issues c"]) simp_all
  then have w: "reports c cw" "cv_out cw = cv_out c" by (simp_all add: cw_def only_issues_iff)
  have run: "pruneUnexposedSources idx exposed c =
      (if ?drops = [] then cw
       else pruneUnusedTokenVaultCallbackRoute (cw\<lparr>cv_out := (cv_out cw)\<lparr>doc_Services :=
              map snd (filter (\<lambda>(i, svc). i \<notin> set ?drops) (enumerate 0 ?services))\<rparr>\<rparr>))"
    unfolding pruneUnexposedSources_def Let_def cw_def by (rule refl)
  show "reports c (pruneUnexposedSources idx exposed c)"
    unfolding run using w(1) by (simp add: reports_def)
  have "doc_Services (cv_out (pruneUnexposedSources idx exposed c)) = nths ?services (- set ?drops)"
  proof (cases "?drops = []")
    case True
    have "nths ?services (- set ?drops) = ?services" unfolding True by (rule nths_all) simp
    moreover have "pruneUnexposedSources idx exposed c = cw" unfolding run if_P [OF True] by (rule refl)
    ultimately show ?thesis using w(2) by metis
  next
    case False
    show ?thesis unfolding run if_not_P [OF False] enumerate_nths by simp
  qed
  moreover have "set ?drops = {i \<in> set idx. svc_Name (?services ! i) \<notin> set exposed}" by auto
  ultimately show "doc_Services (cv_out (pruneUnexposedSources idx exposed c)) =
     nths ?services (- {i \<in> set idx. svc_Name (?services ! i) \<notin> set exposed})" by simp
qed

lemma untag_name [simp]: "svc_Name (untag svc) = svc_Name svc"
  by (simp add: untag_def)

lemma pruned_survivors:
  assumes names: "\<And>m svc. (m, svc) \<in> set zs \<Longrightarrow> svc_Name svc = mcp_Name m"
    and services: "map untag services = map untag (old @ map snd zs)"
  shows "map untag (nths services (- {i \<in> set (toolsets (length old) zs). svc_Name (services ! i) \<notin> set exposed})) =
    map untag old @ map (untag \<circ> snd) (filter (survives exposed \<circ> fst) zs)"
proof -
  let ?D = "{i \<in> set (toolsets (length old) zs). svc_Name (services ! i) \<notin> set exposed}"
  have len: "length services = length old + length zs" using arg_cong [OF services, of length] by simp
  have at: "svc_Name (services ! (length old + k)) = mcp_Name (fst (zs ! k))" if "k < length zs" for k
  proof -
    have "untag (services ! (length old + k)) = untag (snd (zs ! k))"
      using arg_cong [OF services, of "\<lambda>xs. xs ! (length old + k)"] that len by (simp add: nth_append)
    then have "svc_Name (services ! (length old + k)) = svc_Name (snd (zs ! k))" by (metis untag_name)
    moreover have "(fst (zs ! k), snd (zs ! k)) \<in> set zs" using that by simp
    ultimately show ?thesis using names by metis
  qed
  have D: "i \<in> ?D \<longleftrightarrow> (\<exists>k < length zs. i = length old + k \<and> \<not> survives exposed (fst (zs ! k)))" for i
    using at by (auto simp: set_toolsets survives_def)
  have "map untag (nths services (- ?D)) = nths (map untag (old @ map snd zs)) (- ?D)"
    unfolding services [symmetric] by (rule nths_map [symmetric])
  also have "\<dots> = nths (map untag old) (- ?D) @ nths (map (untag \<circ> snd) zs) {k. k + length old \<in> - ?D}"
    by (simp add: nths_append)
  also have "nths (map untag old) (- ?D) = map untag old"
    by (rule nths_all) (use D in auto)
  also have "nths (map (untag \<circ> snd) zs) {k. k + length old \<in> - ?D} =
      map (untag \<circ> snd) (nths zs {k. k + length old \<in> - ?D})"
    by (rule nths_map)
  also have "nths zs {k. k + length old \<in> - ?D} = nths zs {k. k < length zs \<and> (survives exposed \<circ> fst) (zs ! k)}"
    by (rule nths_cong) (use D in \<open>auto simp: add.commute\<close>)
  also have "\<dots> = filter (survives exposed \<circ> fst) zs" by (rule filter_eq_nths [symmetric])
  finally show ?thesis .
qed

lemma converted_services:
  "let c' = convertMCPServers c; servers = sd_MCPServers (cn_src c); exposed = exposedSources servers in
   \<exists>zs. map untag (doc_Services (cv_out c')) = map untag (doc_Services (cv_out c)) @ map (untag \<circ> snd) zs \<and>
     subseq (map fst zs) servers \<and>
     (\<forall>(m, svc) \<in> set zs.
        mcp_service_ok (issueSource kindMCPServer (mcp_Name m)) m exposed c svc \<and> survives exposed m \<and>
        (mcp_Type m \<in> {mcpConversionOnly, mcpUpstreamServer} \<longrightarrow>
           (\<exists>route. svc_Routes svc = [route] \<and> last (rt_Plugins route) = mcpToolsetGate m))) \<and>
     (\<forall>m \<in> set servers. m \<in> fst ` set zs \<or> \<not> survives exposed m \<or> HasErrors (cv_issues c'))"
proof -
  let ?servers = "sd_MCPServers (cn_src c)" let ?exposed = "exposedSources ?servers"
  let ?old = "doc_Services (cv_out c)"
  have "loop_inv c ?exposed [] (c, []) []" by (simp add: loop_inv_def toolsets_def)
  from mcp_fold [OF this, of ?servers] obtain zs where
    inv: "loop_inv c ?exposed ?servers (fold (mcp_loop ?exposed) ?servers (c, [])) zs" by auto
  obtain c1 idx where run: "fold (mcp_loop ?exposed) ?servers (c, []) = (c1, idx)" by (metis prod.exhaust)
  let ?c2 = "wireListenerSources c1" let ?c3 = "pruneUnexposedSources idx ?exposed ?c2"
  have c': "convertMCPServers c = ?c3" by (simp add: convertMCPServers_def Let_def run)
  have services: "map untag (doc_Services (cv_out ?c2)) = map untag (?old @ map snd zs)"
    and idx: "idx = toolsets (length ?old) zs" and sub: "subseq (map fst zs) ?servers"
    and ok: "\<And>m svc. (m, svc) \<in> set zs \<Longrightarrow> mcp_service_ok (issueSource kindMCPServer (mcp_Name m)) m ?exposed c svc"
    and all: "\<And>m. m \<in> set ?servers \<Longrightarrow> m \<in> fst ` set zs \<or> HasErrors (cv_issues c1)"
    using inv wire_untag [of c1] by (auto simp: loop_inv_def run)
  have names: "svc_Name svc = mcp_Name m" if "(m, svc) \<in> set zs" for m svc
    using ok [OF that] by (simp add: mcp_service_ok_def)
  let ?zs = "filter (survives ?exposed \<circ> fst) zs"
  have out: "map untag (doc_Services (cv_out ?c3)) = map untag ?old @ map (untag \<circ> snd) ?zs"
    unfolding prune_reports(2) idx using pruned_survivors [OF names services] by simp
  have "subseq (map fst ?zs) (map fst zs)" by (intro subseq_map subseq_filter_left)
  then have sub': "subseq (map fst ?zs) ?servers" using sub by (rule subseq_order.trans)
  have each: "mcp_service_ok (issueSource kindMCPServer (mcp_Name m)) m ?exposed c svc \<and> survives ?exposed m \<and>
      (mcp_Type m \<in> {mcpConversionOnly, mcpUpstreamServer} \<longrightarrow>
         (\<exists>route. svc_Routes svc = [route] \<and> last (rt_Plugins route) = mcpToolsetGate m))"
    if "(m, svc) \<in> set ?zs" for m svc
  proof -
    have s: "survives ?exposed m" and o: "mcp_service_ok (issueSource kindMCPServer (mcp_Name m)) m ?exposed c svc"
      using that ok by auto
    moreover from o obtain route xs where "svc_Routes svc = [route]"
        "rt_Plugins route = xs @ (if is_gated m ?exposed then [mcpToolsetGate m] else [])"
      unfolding mcp_service_ok_def by (metis append_Cons append_assoc)
    moreover have "is_gated m ?exposed" if "mcp_Type m \<in> {mcpConversionOnly, mcpUpstreamServer}"
      using that s by (auto simp: is_gated_def survives_def)
    ultimately show ?thesis by auto
  qed
  have err: "HasErrors (cv_issues ?c3)" if "HasErrors (cv_issues c1)"
  proof -
    have "HasErrors (cv_issues ?c2)" using that by (simp add: wireListenerSources_def Let_def)
    then show ?thesis by (rule HasErrors_mono [OF prune_reports(1)])
  qed
  have left: "m \<in> fst ` set ?zs \<or> \<not> survives ?exposed m \<or> HasErrors (cv_issues ?c3)" if "m \<in> set ?servers" for m
    using all [OF that] err by auto
  show ?thesis
    unfolding Let_def c'
  proof (intro exI [of _ ?zs] conjI)
    show "\<forall>(m, svc) \<in> set ?zs.
        mcp_service_ok (issueSource kindMCPServer (mcp_Name m)) m ?exposed c svc \<and> survives ?exposed m \<and>
        (mcp_Type m \<in> {mcpConversionOnly, mcpUpstreamServer} \<longrightarrow>
           (\<exists>route. svc_Routes svc = [route] \<and> last (rt_Plugins route) = mcpToolsetGate m))"
      by (rule ballI, rule case_prodI2, rule each, simp)
    show "\<forall>m \<in> set ?servers. m \<in> fst ` set ?zs \<or> \<not> survives ?exposed m \<or> HasErrors (cv_issues ?c3)"
      by (rule ballI) (rule left)
  qed (rule out, rule sub')
qed

lemma convertMCPServers_tables: "same_tables (cv_out c) (cv_out (convertMCPServers c))"
proof -
  have loop: "same_tables (cv_out (fst s)) (cv_out (fst (mcp_loop exposed m s)))" for exposed m s
  proof -
    obtain c1 idx where s: "s = (c1, idx)" by fastforce
    let ?src = "issueSource kindMCPServer (mcp_Name m)"
    obtain c2 oc svc where run: "convertMCPServer ?src m exposed c1 = ((c2, oc), svc)" by (metis prod.exhaust)
    note r = convertMCPServer_result [of ?src m exposed c1, unfolded run mcp_server_result_def prod.case]
    from mcp_entity_cases [OF run, of ?src] r show ?thesis by (auto simp: s mcp_loop_def Let_def run same_tables_def)
  qed
  have loops: "same_tables (cv_out c) (cv_out (fst (fold (mcp_loop exposed) ms s)))"
    if "same_tables (cv_out c) (cv_out (fst s))" for exposed ms s
    using that by (induction ms arbitrary: s) (simp_all add: same_tables_trans [OF _ loop])
  obtain c1 idx where f: "fold (mcp_loop (exposedSources (sd_MCPServers (cn_src c)))) (sd_MCPServers (cn_src c)) (c, []) = (c1, idx)"
    by fastforce
  have wire: "same_tables d (cv_out (wireListenerSources c1))" if "same_tables d (cv_out c1)" for d
    using that by (simp add: wireListenerSources_def Let_def same_tables_def)
  have prune: "same_tables d (cv_out (pruneUnexposedSources idx exposed c2))" if "same_tables d (cv_out c2)" for d exposed c2
  proof -
    have w: "cv_out (fold (\<lambda>i c. warn (s i) code (r i) c) xs x) = cv_out x" for s code r xs x
      by (induction xs arbitrary: x) simp_all
    show ?thesis using that
      by (simp add: pruneUnexposedSources_def Let_def pruneUnusedTokenVaultCallbackRoute_def same_tables_def w)
  qed
  have "same_tables (cv_out c) (cv_out c1)"
    using loops [of "(c, [])"] f by (metis fst_conv same_tables_def)
  then show ?thesis using f wire prune by (simp add: convertMCPServers_def Let_def)
qed

text \<open>C8: After all MCP servers are converted, a conversion-only server that no listener names has no
  Service left, and the only Route of every conversion-only or upstream server ends in the gate; a
  server that is left out for another reason leaves an error.  The wiring of listeners changes
  only tags of ai-mcp-proxy plugins.\<close>

theorem no_open_toolset_route:
  "let c' = convertMCPServers c; servers = sd_MCPServers (cn_src c); exposed = exposedSources servers in
   \<exists>zs. map untag (doc_Services (cv_out c')) = map untag (doc_Services (cv_out c)) @ map (untag \<circ> snd) zs \<and>
     subseq (map fst zs) servers \<and>
     (\<forall>(m, svc) \<in> set zs.
        mcp_service_ok (issueSource kindMCPServer (mcp_Name m)) m exposed c svc \<and> survives exposed m \<and>
        (mcp_Type m \<in> {mcpConversionOnly, mcpUpstreamServer} \<longrightarrow>
           (\<exists>route. svc_Routes svc = [route] \<and> last (rt_Plugins route) = mcpToolsetGate m))) \<and>
     (\<forall>m \<in> set servers. m \<in> fst ` set zs \<or> \<not> survives exposed m \<or> HasErrors (cv_issues c'))"
  by (rule converted_services)


section \<open>The tools of a source are in the buckets of its listeners\<close>

definition plugin_at :: "Service list \<Rightarrow> nat \<times> nat \<times> nat \<Rightarrow> Plugin" where
  "plugin_at services pos = (case pos of (si, ri, pi) \<Rightarrow> rt_Plugins (svc_Routes (services ! si) ! ri) ! pi)"

lemma plugin_at_map:
  assumes "proxy_at services name pos" and "proxy_at services name' pos'"
  shows "plugin_at (map_plugin f pos services) pos' = (if pos' = pos then f (plugin_at services pos) else plugin_at services pos')"
  using assms by (cases pos; cases pos') (auto simp: proxy_at_def plugin_at_def map_plugin_def Let_def nth_list_update)

lemma set_addTag [simp]: "set (addTag ts t) = insert t (set ts)"
  by (auto simp: addTag_def)

lemma addTag_sorted: "addTag ts t = ts \<or> sorted (addTag ts t)"
  by (simp add: addTag_def)

definition names_source :: "string \<Rightarrow> MCPServer \<Rightarrow> bool" where
  "names_source name m \<longleftrightarrow> mcp_Type m = ''listener'' \<and> listener_tag m \<noteq> [] \<and> name \<in> set (msg_Sources (mcp_Config m))"

definition tagged_from :: "Plugin \<Rightarrow> string set \<Rightarrow> Plugin \<Rightarrow> bool" where
  "tagged_from p T q \<longleftrightarrow> q\<lparr>pl_Tags := []\<rparr> = p\<lparr>pl_Tags := []\<rparr> \<and> set (pl_Tags q) = set (pl_Tags p) \<union> T \<and>
     (pl_Tags q = pl_Tags p \<or> sorted (pl_Tags q))"

lemma tagged_refl [simp]: "tagged_from p {} p"
  by (simp add: tagged_from_def)

lemma tagged_add: "tagged_from p T q \<Longrightarrow> tagged_from p (insert t T) (q\<lparr>pl_Tags := addTag (pl_Tags q) t\<rparr>)"
  using addTag_sorted [of "pl_Tags q" t] by (cases p; cases q) (auto simp: tagged_from_def)

lemma wire_one:
  assumes index: "\<And>n pos. index n = Some pos \<Longrightarrow> proxy_at s n pos" and at: "proxy_at s name pos"
    and t: "tagged_from p T (plugin_at s pos)"
  shows "tagged_from p (T \<union> (if names_source name m \<and> index name = Some pos then {listener_tag m} else {}))
    (plugin_at (wire_listener index m s) pos)"
proof -
  let ?f = "\<lambda>sourceName services. case index sourceName of
               None \<Rightarrow> services
             | Some pos \<Rightarrow> map_plugin (\<lambda>p. p\<lparr>pl_Tags := addTag (pl_Tags p) (listener_tag m)\<rparr>) pos services"
  have "tagged_from p (T \<union> (if name \<in> set names \<and> index name = Some pos then {listener_tag m} else {}))
      (plugin_at (fold ?f names s) pos)" for names
    using index at t
  proof (induction names arbitrary: s T)
    case (Cons n names)
    show ?case
    proof (cases "index n")
      case None
      then show ?thesis using Cons.IH [OF Cons.prems] by (cases "n = name") simp_all
    next
      case (Some pos')
      let ?s = "map_plugin (\<lambda>p. p\<lparr>pl_Tags := addTag (pl_Tags p) (listener_tag m)\<rparr>) pos' s"
      have p': "proxy_at s n pos'" using Cons.prems(1) Some by simp
      have same: "proxy_at ?s k q = proxy_at s k q" for k q
        by (rule map_untag) (rule map_plugin_untag [OF p', of "\<lambda>ts. addTag ts (listener_tag m)"])
      have eq: "pos' = pos \<Longrightarrow> n = name" using p' Cons.prems(2) by (cases pos) (auto simp: proxy_at_def)
      have t': "tagged_from p (T \<union> (if pos' = pos then {listener_tag m} else {})) (plugin_at ?s pos)"
        using plugin_at_map [OF p' Cons.prems(2)] tagged_add [OF Cons.prems(3)] Cons.prems(3) by auto
      have "tagged_from p (T \<union> (if pos' = pos then {listener_tag m} else {}) \<union>
          (if name \<in> set names \<and> index name = Some pos then {listener_tag m} else {})) (plugin_at (fold ?f names ?s) pos)"
        by (rule Cons.IH) (use Cons.prems same t' in simp_all)
      moreover have "T \<union> (if pos' = pos then {listener_tag m} else {}) \<union>
          (if name \<in> set names \<and> index name = Some pos then {listener_tag m} else {}) =
          T \<union> (if name \<in> set (n # names) \<and> index name = Some pos then {listener_tag m} else {})"
        using Some eq by (cases "pos' = pos"; cases "n = name") auto
      ultimately show ?thesis using Some by simp
    qed
  qed simp
  from this [of "msg_Sources (mcp_Config m)"] show ?thesis
    using t by (auto simp: wire_listener_def names_source_def)
qed

lemma wire_all:
  assumes "\<And>n pos. index n = Some pos \<Longrightarrow> proxy_at s n pos" and "proxy_at s name pos"
    and "tagged_from p T (plugin_at s pos)"
  shows "tagged_from p (T \<union> (if index name = Some pos then listener_tag ` {m \<in> set ms. names_source name m} else {}))
    (plugin_at (fold (wire_listener index) ms s) pos)"
  using assms
proof (induction ms arbitrary: s T)
  case (Cons m ms)
  let ?s = "wire_listener index m s"
  have same: "proxy_at ?s k q = proxy_at s k q" for k q
    by (rule map_untag) (rule wire_listener_untag [OF Cons.prems(1)])
  have "tagged_from p (T \<union> (if names_source name m \<and> index name = Some pos then {listener_tag m} else {}) \<union>
      (if index name = Some pos then listener_tag ` {m \<in> set ms. names_source name m} else {}))
      (plugin_at (fold (wire_listener index) ms ?s) pos)"
    by (rule Cons.IH) (use Cons.prems same wire_one [of index s name pos p T m] in simp_all)
  moreover have "T \<union> (if names_source name m \<and> index name = Some pos then {listener_tag m} else {}) \<union>
      (if index name = Some pos then listener_tag ` {m \<in> set ms. names_source name m} else {}) =
      T \<union> (if index name = Some pos then listener_tag ` {k \<in> set (m # ms). names_source name k} else {})"
    by auto
  ultimately show ?case by simp
qed simp


section \<open>A small document\<close>

definition toolset_server :: "string \<Rightarrow> string \<Rightarrow> string list \<Rightarrow> MCPServer" where
  "toolset_server name type sources = sample_mcp\<lparr>mcp_Name := name, mcp_Type := type,
     mcp_Access := (mcp_Access sample_mcp)\<lparr>mac_Metadata := None\<rparr>,
     mcp_Config := (mcp_Config sample_mcp)\<lparr>msg_Server := fmap_of_list [(''tag'', YStr ''bucket'')],
       msg_Sources := sources\<rparr>\<rparr>"

definition sample_toolsets :: converter where
  "sample_toolsets = sample_converter\<lparr>cn_src := empty_source\<lparr>sd_MCPServers :=
     [toolset_server ''lost'' mcpConversionOnly [], toolset_server ''tools'' mcpConversionOnly [],
      toolset_server ''front'' ''listener'' [''tools'', ''absent'']]\<rparr>\<rparr>"

lemma sample_toolsets_out:
  "map (\<lambda>svc. (svc_Name svc, map (map (\<lambda>p. (pl_Name p, pl_Tags p)) \<circ> rt_Plugins) (svc_Routes svc)))
     (doc_Services (cv_out (convertMCPServers sample_toolsets))) =
   [(''tools'', [[(''ai-mcp-proxy'', [''bucket'']), (''pre-function'', [MCPToolsetGateTag])]]),
    (''front'', [[(''ai-mcp-proxy'', [])]])]"
  by code_simp

theorem no_open_toolset_route_witness:
  "map svc_Name (doc_Services (cv_out (convertMCPServers sample_toolsets))) = [''tools'', ''front''] \<and>
   (\<exists>zs :: (MCPServer \<times> Service) list. map (svc_Name \<circ> snd) zs = [''tools'', ''front''] \<and>
      (\<forall>(m, svc) \<in> set zs. survives (exposedSources (sd_MCPServers (cn_src sample_toolsets))) m))"
proof -
  let ?ss = "doc_Services (cv_out (convertMCPServers sample_toolsets))"
  have names: "map svc_Name ?ss = [''tools'', ''front'']"
    using arg_cong [OF sample_toolsets_out, of "map fst"] by (simp add: comp_def)
  have none: "doc_Services (cv_out sample_toolsets) = []" by code_simp
  from no_open_toolset_route [of sample_toolsets] obtain zs where
    zs: "map untag ?ss = map (untag \<circ> snd) zs"
      "\<forall>(m, svc) \<in> set zs. survives (exposedSources (sd_MCPServers (cn_src sample_toolsets))) m"
    unfolding Let_def none by (auto simp: case_prod_beta)
  have z: "map (svc_Name \<circ> snd) zs = [''tools'', ''front'']"
    using arg_cong [OF zs(1), of "map svc_Name"] names by (simp add: comp_def)
  show ?thesis by (rule conjI [OF names], rule exI [of _ zs], rule conjI [OF z zs(2)])
qed

definition wired_toolsets :: converter where
  "wired_toolsets = sample_toolsets\<lparr>cv_out := NewDocument\<lparr>doc_Services :=
     [empty_service\<lparr>svc_Name := ''tools'', svc_Routes := [(buildRoute empty_route ''tools'')
        \<lparr>rt_Plugins := [empty_plugin\<lparr>pl_Name := ''ai-mcp-proxy'', pl_Tags := [''own'']\<rparr>]\<rparr>]\<rparr>]\<rparr>\<rparr>"


end
