(* ===== verification/Model_Endpoints.thy ===== *)
theory Model_Endpoints
  imports Providers
begin

text \<open>
  The endpoints of a model (\<open>src/convert/model_endpoints.go\<close>): the effective formats and capabilities
  of a model, the pairs of format and capability that each of its targets serves, and the choice of one
  format for each path.

  The map \<open>pairsByTarget\<close> is a list of pairs of a target index and its endpoint pairs; the order of
  that list is the iteration order of the Go map, and the choice of a format is shown not to depend on it.
\<close>

section \<open>Small accessors of a model\<close>

definition formatsWildcard :: "Model \<Rightarrow> bool" where
  "formatsWildcard m = list_ex (\<lambda>f. f = Wildcard) (mo_Formats m)"

definition capabilitiesWildcard :: "Model \<Rightarrow> bool" where
  "capabilitiesWildcard m = (Wildcard \<in> set (mo_Capabilities m))"

definition isModelType :: "Model \<Rightarrow> bool" where
  "isModelType m = (mo_Type m \<noteq> ''api'')"

definition isPassthrough :: "Model \<Rightarrow> bool" where
  "isPassthrough m = (\<not> formatsWildcard m \<and> list_ex (\<lambda>f. f = PassthroughFormat) (mo_Formats m))"

definition isDisabled :: "Model \<Rightarrow> bool" where
  "isDisabled m = (mo_Enabled m = Some False)"

definition formatType :: "string \<Rightarrow> string" where
  "formatType f = (if f = [] then DefaultLLMFormat else f)"

text \<open>A nil slice is \<open>None\<close>: \<open>clientFormats\<close> tells it from an empty one.\<close>

definition explicitFormats :: "Model \<Rightarrow> string list option" where
  "explicitFormats m =
     (if formatsWildcard m then None
      else if mo_Formats m = [] then Some [DefaultLLMFormat]
      else Some (OrderFormats (map formatType (mo_Formats m))))"

definition explicitCapabilities :: "Model \<Rightarrow> string list" where
  "explicitCapabilities m = OrderCapabilities (concat (map NormalizeCapability (mo_Capabilities m)))"

definition format_field :: "nat \<Rightarrow> string" where
  "format_field i = ''formats['' @ dec i @ ''].type''"

text \<open>\<open>for i := range xs\<close>, the first element that satisfies a condition, with its index.\<close>

definition findi :: "('a \<Rightarrow> bool) \<Rightarrow> 'a list \<Rightarrow> (nat \<times> 'a) option" where
  "findi P xs = find (\<lambda>(i, x). P x) (enumerate 0 xs)"

definition capabilityField :: "Model \<Rightarrow> string \<Rightarrow> string" where
  "capabilityField m capability =
     (case findi (\<lambda>raw. capability \<in> set (NormalizeCapability raw)) (mo_Capabilities m) of
        Some (i, _) \<Rightarrow> ''capabilities['' @ dec i @ '']''
      | None \<Rightarrow> ''capabilities'')"

record modelLists =
  ml_formats :: "string list"
  ml_formatsWildcard :: bool
  ml_capabilities :: "string list"
  ml_capsWildcard :: bool

definition modelListsOf ::
  "ConversionIssueSource \<Rightarrow> Model \<Rightarrow> converter \<Rightarrow> (converter \<times> outcome) \<times> modelLists"
where
  "modelListsOf src m c =
     (let ml = \<lparr>ml_formats = [], ml_formatsWildcard = formatsWildcard m, ml_capabilities = [],
                   ml_capsWildcard = capabilitiesWildcard m\<rparr>;
          bad = (if formatsWildcard m then None
                 else findi (\<lambda>f. f \<noteq> [] \<and> f \<notin> set Formats) (mo_Formats m))
      in case bad of
           Some (i, f) \<Rightarrow>
             (fail (src_at src [format_field i]) ConfigFieldInvalid
                (''model %q: format %q is not one of %s'', [mo_Name m, f, join '', '' Formats]) c, ml)
         | None \<Rightarrow>
             ((c, Done), ml\<lparr>ml_formats := or_else (explicitFormats m) [],
                ml_capabilities := (if capabilitiesWildcard m then [] else explicitCapabilities m)\<rparr>))"

section \<open>Targets and endpoint pairs\<close>

record plannedTarget =
  pt_index :: nat
  pt_tm :: TargetModel
  pt_provider :: Provider
  pt_providerType :: string
  pt_target :: Target

definition isMantleTarget :: "TargetModel \<Rightarrow> string \<Rightarrow> bool" where
  "isMantleTarget tm providerType =
     (providerType = ''bedrock'' \<and> fmlookup (tmc_Options (tm_Config tm)) ''endpoint_type'' = Some (YStr ''mantle''))"

definition aimapTarget :: "TargetModel \<Rightarrow> string \<Rightarrow> Target" where
  "aimapTarget tm providerType =
     (let opts = tmc_Options (tm_Config tm) in
      \<lparr>tg_ProviderType = providerType, tg_Mantle = isMantleTarget tm providerType,
       tg_BatchBucketPrefix = (or_else (as_str (fmlookup opts ''batch_bucket_prefix'')) [] \<noteq> []),
       tg_Llama2RawFormat = (providerType = ''llama2'' \<and>
         (fmlookup opts ''format'' = Some (YStr ''raw'') \<or> fmlookup opts ''llama2_format'' = Some (YStr ''raw''))),
       tg_GeminiEnterprise = IsEnterprise (GeminiEnvFromOptions opts)\<rparr>)"

definition effectiveFormats :: "modelLists \<Rightarrow> plannedTarget list \<Rightarrow> converter \<Rightarrow> string list" where
  "effectiveFormats ml targets c =
     (if \<not> ml_formatsWildcard ml then ml_formats ml
      else SupportedFormats (map pt_target targets) (cv_minRuntimeVersion c))"

record endpointPair =
  ep_format :: string
  ep_capability :: string
  ep_specs :: "EndpointSpec list"

definition canProtectWebSocket :: "Model \<Rightarrow> converter \<Rightarrow> bool" where
  "canProtectWebSocket m c =
     (globalAuthPolicy c = None \<and> length (remdups_adj (sort (moa_AuthStrategies (mo_Access m)))) \<le> 1)"

text \<open>A loop that appends to a slice and may report issues.\<close>

fun collect :: "('a \<Rightarrow> 's \<Rightarrow> 's \<times> 'b list) \<Rightarrow> 'a list \<Rightarrow> 's \<Rightarrow> 's \<times> 'b list" where
  "collect f [] s = (s, [])"
| "collect f (x # xs) s =
     (case f x s of (s, ys) \<Rightarrow> case collect f xs s of (s, zs) \<Rightarrow> (s, ys @ zs))"

definition endpoint_gate :: "string \<Rightarrow> EndpointSpec \<Rightarrow> converter \<Rightarrow> Feature option" where
  "endpoint_gate section spec c =
     (case EndpointFeature section (RouteLabel spec) of
        None \<Rightarrow> None
      | Some f \<Rightarrow> if conv_supports f c then None else Some f)"

definition accept_spec ::
  "ConversionIssueSource \<Rightarrow> Model \<Rightarrow> modelLists \<Rightarrow> string \<Rightarrow> string \<Rightarrow> plannedTarget \<Rightarrow> EndpointSpec \<Rightarrow> converter \<Rightarrow>
   converter \<times> EndpointSpec list"
where
  "accept_spec src m ml format section t spec c =
     (if \<not> TargetSupports format (pt_target t) spec then (c, [])
      else case endpoint_gate section spec c of
             Some f \<Rightarrow> (reportUnsupported (src_at src [''capabilities'']) Warning f
                         (''capabilities: '' @ RouteLabel spec) c, [])
           | None \<Rightarrow>
               if ml_capsWildcard ml \<and> IsWebSocketEndpoint spec \<and> \<not> canProtectWebSocket m c then (c, [])
               else (c, [spec]))"

definition capability_open :: "string \<Rightarrow> string \<Rightarrow> converter \<Rightarrow> bool" where
  "capability_open section capability c =
     (case CapabilityFeature section capability of None \<Rightarrow> True | Some f \<Rightarrow> conv_supports f c)"

definition capability_pair ::
  "ConversionIssueSource \<Rightarrow> Model \<Rightarrow> modelLists \<Rightarrow> string \<Rightarrow> string \<Rightarrow> plannedTarget \<Rightarrow> string \<Rightarrow> converter \<Rightarrow>
   converter \<times> endpointPair list"
where
  "capability_pair src m ml format section t capability c =
     (case EndpointsFor section capability of
        None \<Rightarrow> (c, [])
      | Some specs \<Rightarrow>
          if \<not> capability_open section capability c then (c, [])
          else case collect (accept_spec src m ml format section t) specs c of
                 (c, accepted) \<Rightarrow>
                   (c, if accepted \<noteq> []
                       then [\<lparr>ep_format = format, ep_capability = capability, ep_specs = accepted\<rparr>] else []))"

definition pair_capabilities :: "Model \<Rightarrow> modelLists \<Rightarrow> string \<Rightarrow> plannedTarget \<Rightarrow> version \<Rightarrow> string list" where
  "pair_capabilities m ml format t v =
     (if ml_capsWildcard ml then SupportedCapabilities format (pt_target t) (mo_Type m) v
      else ml_capabilities ml)"

definition format_pairs ::
  "ConversionIssueSource \<Rightarrow> Model \<Rightarrow> modelLists \<Rightarrow> plannedTarget \<Rightarrow> string \<Rightarrow> converter \<Rightarrow> converter \<times> endpointPair list"
where
  "format_pairs src m ml t format c =
     collect (capability_pair src m ml format (SectionFor format (pt_providerType t)) t)
       (pair_capabilities m ml format t (cv_minRuntimeVersion c)) c"

definition targetPairs ::
  "ConversionIssueSource \<Rightarrow> Model \<Rightarrow> modelLists \<Rightarrow> string list \<Rightarrow> plannedTarget \<Rightarrow> converter \<Rightarrow>
   converter \<times> endpointPair list"
where
  "targetPairs src m ml formats t c = collect (format_pairs src m ml t) formats c"

section \<open>One format for each path\<close>

type_synonym target_pairs = "(nat \<times> endpointPair list) list"

definition pathKey :: "EndpointSpec \<Rightarrow> string" where
  "pathKey spec = PathSuffix spec @ ''|'' @ (if IsRegex spec then ''true'' else ''false'')"

definition claim_path :: "string \<Rightarrow> EndpointSpec \<Rightarrow> (string \<rightharpoonup> string) \<Rightarrow> (string \<rightharpoonup> string)" where
  "claim_path format spec owner =
     (if owner (pathKey spec) = None then owner(pathKey spec \<mapsto> format) else owner)"

definition claim_format :: "target_pairs \<Rightarrow> string \<Rightarrow> (string \<rightharpoonup> string) \<Rightarrow> (string \<rightharpoonup> string)" where
  "claim_format pairsByTarget format owner =
     fold (\<lambda>(index, pairs) owner. fold (\<lambda>p owner.
         if ep_format p \<noteq> format then owner else fold (claim_path format) (ep_specs p) owner) pairs owner)
       pairsByTarget owner"

definition path_owner :: "string list \<Rightarrow> target_pairs \<Rightarrow> (string \<rightharpoonup> string)" where
  "path_owner formats pairsByTarget = fold (claim_format pairsByTarget) formats Map.empty"

definition keep_pairs :: "(string \<rightharpoonup> string) \<Rightarrow> endpointPair list \<Rightarrow> endpointPair list" where
  "keep_pairs owner pairs =
     filter (\<lambda>p. ep_specs p \<noteq> [])
       (map (\<lambda>p. p\<lparr>ep_specs := filter (\<lambda>spec. or_else (owner (pathKey spec)) [] = ep_format p) (ep_specs p)\<rparr>) pairs)"

definition keepEqualPaths :: "string list \<Rightarrow> target_pairs \<Rightarrow> target_pairs" where
  "keepEqualPaths formats pairsByTarget =
     (let owner = path_owner formats pairsByTarget in map (apsnd (keep_pairs owner)) pairsByTarget)"

section \<open>Checks of the capabilities and formats\<close>

text \<open>The scan of the formats for one capability: whether one serves it, and the last gate met.\<close>

fun gate_scan :: "string \<Rightarrow> converter \<Rightarrow> string list \<Rightarrow> Feature option \<Rightarrow> bool \<times> Feature option" where
  "gate_scan capability c [] gate = (False, gate)"
| "gate_scan capability c (format # formats) gate =
     (let section = SectionFor format [] in
      if EndpointsFor section capability = None then gate_scan capability c formats gate
      else if capability_open section capability c then (True, gate)
      else gate_scan capability c formats (CapabilityFeature section capability))"

text \<open>The gate that an explicit capability fails at, if any.\<close>

definition capability_gate :: "string list \<Rightarrow> string \<Rightarrow> converter \<Rightarrow> Feature option" where
  "capability_gate formats capability c =
     (case gate_scan capability c formats None of
        (True, _) \<Rightarrow> None
      | (False, Some f) \<Rightarrow> Some f
      | (False, None) \<Rightarrow>
          let section = SectionFor (hd formats) [] in
          if capability_open section capability c then None else CapabilityFeature section capability)"

fun first_gate :: "string list \<Rightarrow> converter \<Rightarrow> string list \<Rightarrow> (string \<times> Feature) option" where
  "first_gate formats c [] = None"
| "first_gate formats c (capability # caps) =
     (case capability_gate formats capability c of
        Some f \<Rightarrow> Some (capability, f) | None \<Rightarrow> first_gate formats c caps)"

definition checkModelCapabilities :: "ConversionIssueSource \<Rightarrow> Model \<Rightarrow> modelLists \<Rightarrow> converter step" where
  "checkModelCapabilities src m ml c =
     (if ml_capsWildcard ml then (c, Done)
      else
        let formats = (if ml_formatsWildcard ml
                       then OrderFormats (filter (\<lambda>f. f \<noteq> PassthroughFormat) Formats) else ml_formats ml)
        in if formats = [] \<and> ml_capabilities ml \<noteq> [] then (c, Panic ''index out of range'')
           else case first_gate formats c (ml_capabilities ml) of
             None \<Rightarrow> (c, Done)
           | Some (capability, f) \<Rightarrow>
               let field = capabilityField m capability in
               failUnsupported (src_at src [field]) f (field @ '': '' @ capability) c)"

definition capability_served :: "string list \<Rightarrow> string \<Rightarrow> bool" where
  "capability_served formats capability =
     list_ex (\<lambda>format. EndpointsFor (SectionFor format []) capability \<noteq> None) formats"

definition checkCapabilityEndpoints :: "ConversionIssueSource \<Rightarrow> Model \<Rightarrow> modelLists \<Rightarrow> string list \<Rightarrow> converter step" where
  "checkCapabilityEndpoints src m ml formats c =
     (if ml_capsWildcard ml then (c, Done)
      else case find (\<lambda>capability. \<not> capability_served formats capability) (ml_capabilities ml) of
             None \<Rightarrow> (c, Done)
           | Some capability \<Rightarrow>
               fail (src_at src [capabilityField m capability]) ConfigFieldInvalid
                 (''model %q: capability %q is not supported with llm_format %q'',
                  [mo_Name m, capability, join '', '' formats]) c)"

definition explicitFormatsBefore :: "Model \<Rightarrow> nat \<Rightarrow> string list" where
  "explicitFormatsBefore m i = map formatType (take i (mo_Formats m))"

definition served_format :: "target_pairs \<Rightarrow> string \<Rightarrow> bool" where
  "served_format pairsByTarget format =
     list_ex (\<lambda>(index, pairs). list_ex (\<lambda>p. ep_format p = format) pairs) pairsByTarget"

definition warnUnservedFormats ::
  "ConversionIssueSource \<Rightarrow> Model \<Rightarrow> modelLists \<Rightarrow> target_pairs \<Rightarrow> converter \<Rightarrow> converter"
where
  "warnUnservedFormats src m ml pairsByTarget c =
     (if ml_formatsWildcard ml \<or> pairsByTarget = [] then c
      else if \<not> ml_capsWildcard ml \<and> ml_capabilities ml = [] then c
      else foldi (\<lambda>i f c.
          let format = formatType f in
          if served_format pairsByTarget format \<or> format \<in> set (explicitFormatsBefore m i) then c
          else warn (src_at src [format_field i]) ConfigFieldDropped
                 (''model %q: no target supports an endpoint of format %q. The converter makes no route for this format.'',
                  [mo_Name m, format]) c)
        0 (mo_Formats m) c)"

section \<open>What the pairs of a target are\<close>

lemma only_issues_unsupported [simp]:
  "only_issues a b \<Longrightarrow> only_issues a (reportUnsupported src sv f field b)"
  by (erule only_issues_trans) (simp add: reportUnsupported_def)

lemma collect_pure:
  assumes "\<And>x s. x \<in> set xs \<Longrightarrow> only_issues c s \<Longrightarrow> only_issues c (fst (f x s)) \<and> snd (f x s) = g x"
    and "only_issues c s"
  shows "only_issues c (fst (collect f xs s)) \<and> snd (collect f xs s) = concat (map g xs)"
  using assms
proof (induction xs arbitrary: s)
  case (Cons x xs)
  obtain s1 ys where step: "f x s = (s1, ys)" by fastforce
  have "only_issues c s1" "ys = g x" using Cons.prems(1) [of x s] Cons.prems(2) step by simp_all
  with Cons.IH [of s1] Cons.prems(1) show ?case by (auto simp: step split: prod.splits)
qed simp

lemma env_globalAuthPolicy: "only_issues c s \<Longrightarrow> globalAuthPolicy s = globalAuthPolicy c"
  using env_fields(2) [OF only_issues_env] by (auto simp: globalAuthPolicy_def)

definition served_spec :: "Model \<Rightarrow> modelLists \<Rightarrow> string \<Rightarrow> plannedTarget \<Rightarrow> converter \<Rightarrow> EndpointSpec \<Rightarrow> bool" where
  "served_spec m ml format t c spec \<longleftrightarrow>
     TargetSupports format (pt_target t) spec \<and>
     endpoint_gate (SectionFor format (pt_providerType t)) spec c = None \<and>
     (ml_capsWildcard ml \<and> IsWebSocketEndpoint spec \<longrightarrow> canProtectWebSocket m c)"

definition pair_of ::
  "Model \<Rightarrow> modelLists \<Rightarrow> plannedTarget \<Rightarrow> converter \<Rightarrow> string \<Rightarrow> string \<Rightarrow> endpointPair list"
where
  "pair_of m ml t c format capability =
     (let section = SectionFor format (pt_providerType t);
          specs = filter (served_spec m ml format t c) (cap_specs section capability)
      in if capability_open section capability c \<and> specs \<noteq> []
         then [\<lparr>ep_format = format, ep_capability = capability, ep_specs = specs\<rparr>] else [])"

lemma accept_spec_pure:
  assumes "only_issues c s" and "section = SectionFor format (pt_providerType t)"
  shows "only_issues c (fst (accept_spec src m ml format section t spec s)) \<and>
    snd (accept_spec src m ml format section t spec s) =
      (if served_spec m ml format t c spec then [spec] else [])"
  using assms env_globalAuthPolicy [OF assms(1)] env_fields(9) [OF only_issues_env [OF assms(1)]]
  by (auto simp: accept_spec_def served_spec_def endpoint_gate_def canProtectWebSocket_def split: option.split)

lemma filter_concat: "concat (map (\<lambda>x. if P x then [x] else []) xs) = filter P xs"
  by (induction xs) auto

lemma capability_pair_pure:
  assumes "only_issues c s"
  shows "only_issues c (fst (capability_pair src m ml format (SectionFor format (pt_providerType t)) t capability s)) \<and>
    snd (capability_pair src m ml format (SectionFor format (pt_providerType t)) t capability s) =
      pair_of m ml t c format capability"
proof (cases "EndpointsFor (SectionFor format (pt_providerType t)) capability")
  case None
  then show ?thesis using assms by (simp add: capability_pair_def pair_of_def cap_specs_def)
next
  case (Some specs)
  let ?sec = "SectionFor format (pt_providerType t)"
  have "capability_open ?sec capability s = capability_open ?sec capability c"
    using env_fields(9) [OF only_issues_env [OF assms]] by (simp add: capability_open_def split: option.split)
  moreover have "only_issues c (fst (collect (accept_spec src m ml format ?sec t) specs s)) \<and>
      snd (collect (accept_spec src m ml format ?sec t) specs s) = filter (served_spec m ml format t c) specs"
    unfolding filter_concat [symmetric] by (rule collect_pure [OF accept_spec_pure assms]) auto
  ultimately show ?thesis using assms
    by (auto simp: capability_pair_def pair_of_def cap_specs_def Some split: prod.split)
qed

lemma target_pairs_pure:
  "only_issues c (fst (targetPairs src m ml formats t c)) \<and>
   snd (targetPairs src m ml formats t c) =
     concat (map (\<lambda>format. concat (map (pair_of m ml t c format)
       (pair_capabilities m ml format t (cv_minRuntimeVersion c)))) formats)"
  unfolding targetPairs_def
proof (rule collect_pure, unfold format_pairs_def)
  fix format s assume s: "only_issues c s"
  have v: "cv_minRuntimeVersion s = cv_minRuntimeVersion c" using env_fields(7) [OF only_issues_env [OF s]] .
  show "only_issues c (fst (collect (capability_pair src m ml format (SectionFor format (pt_providerType t)) t)
        (pair_capabilities m ml format t (cv_minRuntimeVersion s)) s)) \<and>
      snd (collect (capability_pair src m ml format (SectionFor format (pt_providerType t)) t)
        (pair_capabilities m ml format t (cv_minRuntimeVersion s)) s) =
      concat (map (pair_of m ml t c format) (pair_capabilities m ml format t (cv_minRuntimeVersion c)))"
    unfolding v by (rule collect_pure [OF capability_pair_pure s])
qed simp

text \<open>The pairs of a target are exact: an endpoint is offered for a format and a capability exactly when the
  model asks for them, the release has the capability and the endpoint, the data plane accepts the target for
  it, and a WebSocket endpoint that only a wildcard asked for can be protected.\<close>

definition offers_endpoint :: "endpointPair list \<Rightarrow> string \<Rightarrow> string \<Rightarrow> EndpointSpec \<Rightarrow> bool" where
  "offers_endpoint pairs format capability spec \<longleftrightarrow>
     (\<exists>p \<in> set pairs. ep_format p = format \<and> ep_capability p = capability \<and> spec \<in> set (ep_specs p))"

theorem target_pairs_exact:
  "case targetPairs src m ml formats t c of (c', pairs) \<Rightarrow>
     only_issues c c' \<and> (\<forall>format capability spec.
       offers_endpoint pairs format capability spec =
        (format \<in> set formats \<and> capability \<in> set (pair_capabilities m ml format t (cv_minRuntimeVersion c)) \<and>
         capability_open (SectionFor format (pt_providerType t)) capability c \<and>
         spec \<in> set (cap_specs (SectionFor format (pt_providerType t)) capability) \<and>
         served_spec m ml format t c spec))"
proof -
  obtain c' pairs where res: "targetPairs src m ml formats t c = (c', pairs)" by fastforce
  have "only_issues c c'" and
    pairs: "pairs = concat (map (\<lambda>format. concat (map (pair_of m ml t c format)
       (pair_capabilities m ml format t (cv_minRuntimeVersion c)))) formats)"
    using target_pairs_pure [of c src m ml formats t] by (simp_all add: res)
  moreover have "p \<in> set (pair_of m ml t c f k) \<and> spec \<in> set (ep_specs p) \<longleftrightarrow>
      p \<in> set (pair_of m ml t c f k) \<and> ep_format p = f \<and> ep_capability p = k \<and>
      capability_open (SectionFor f (pt_providerType t)) k c \<and>
      spec \<in> set (cap_specs (SectionFor f (pt_providerType t)) k) \<and> served_spec m ml f t c spec"
    for p f k spec by (auto simp: pair_of_def Let_def)
  moreover have "\<exists>p \<in> set (pair_of m ml t c f k). ep_format p = f \<and> ep_capability p = k \<and> spec \<in> set (ep_specs p)"
    if "capability_open (SectionFor f (pt_providerType t)) k c"
      "spec \<in> set (cap_specs (SectionFor f (pt_providerType t)) k)" "served_spec m ml f t c spec" for f k spec
    using that by (auto simp: pair_of_def Let_def filter_empty_conv)
  ultimately show ?thesis
    unfolding res offers_endpoint_def by (fastforce simp: pairs)
qed

section \<open>Each path is served once\<close>

lemma pathKey_inj: "pathKey a = pathKey b \<longleftrightarrow> PathSuffix a = PathSuffix b \<and> IsRegex a = IsRegex b"
proof -
  have "pathKey a = pathKey b \<longleftrightarrow> rev (pathKey a) = rev (pathKey b)" by simp
  then show ?thesis by (simp add: pathKey_def split: if_splits)
qed

definition offers :: "target_pairs \<Rightarrow> string \<Rightarrow> string \<Rightarrow> bool" where
  "offers pt format k \<longleftrightarrow>
     (\<exists>(i, ps) \<in> set pt. \<exists>p \<in> set ps. ep_format p = format \<and> k \<in> pathKey ` set (ep_specs p))"

definition claimed :: "bool \<Rightarrow> string \<Rightarrow> string option \<Rightarrow> string option" where
  "claimed b format o' = (if o' = None \<and> b then Some format else o')"

lemma claimed_claimed [simp]: "claimed a f (claimed b f x) = claimed (a \<or> b) f x"
  by (simp add: claimed_def)

lemma claimed_False [simp]: "claimed False f x = x"
  by (simp add: claimed_def)

lemma claim_paths: "fold (claim_path format) specs owner k = claimed (k \<in> pathKey ` set specs) format (owner k)"
  by (induction specs arbitrary: owner) (auto simp: claim_path_def claimed_def)

lemma claim_pairs:
  "fold (\<lambda>p owner. if ep_format p \<noteq> format then owner else fold (claim_path format) (ep_specs p) owner) ps owner k =
   claimed (\<exists>p \<in> set ps. ep_format p = format \<and> k \<in> pathKey ` set (ep_specs p)) format (owner k)"
  by (induction ps arbitrary: owner) (auto simp: claim_paths claimed_def)

lemma claim_format_lookup: "claim_format pt format owner k = claimed (offers pt format k) format (owner k)"
proof (induction pt arbitrary: owner)
  case (Cons x pt)
  obtain i ps where "x = (i, ps)" by fastforce
  with Cons show ?case by (simp add: claim_format_def claim_pairs offers_def) (auto simp: claimed_def)
qed (simp add: claim_format_def offers_def)

lemma path_owner_first: "path_owner formats pt k = find (\<lambda>format. offers pt format k) formats"
proof -
  have "fold (claim_format pt) formats owner k =
      (case owner k of Some f \<Rightarrow> Some f | None \<Rightarrow> find (\<lambda>format. offers pt format k) formats)" for owner
    by (induction formats arbitrary: owner) (auto simp: claim_format_lookup claimed_def split: option.splits)
  then show ?thesis by (simp add: path_owner_def)
qed

text \<open>The iteration order of the Go map does not matter.\<close>

lemma path_owner_set: "set pt = set pt' \<Longrightarrow> path_owner formats pt = path_owner formats pt'"
  by (rule ext) (simp add: path_owner_first offers_def)

lemma kept_specs:
  "(\<exists>p \<in> set (keep_pairs owner ps). ep_format p = f \<and> ep_capability p = k \<and> spec \<in> set (ep_specs p)) \<longleftrightarrow>
   (\<exists>p \<in> set ps. ep_format p = f \<and> ep_capability p = k \<and> spec \<in> set (ep_specs p)) \<and>
   or_else (owner (pathKey spec)) [] = f"
proof
  assume "(\<exists>p \<in> set ps. ep_format p = f \<and> ep_capability p = k \<and> spec \<in> set (ep_specs p)) \<and>
    or_else (owner (pathKey spec)) [] = f"
  then obtain p where p: "p \<in> set ps" "ep_format p = f" "ep_capability p = k" "spec \<in> set (ep_specs p)"
    and f: "or_else (owner (pathKey spec)) [] = f" by blast
  let ?p = "p\<lparr>ep_specs := filter (\<lambda>spec. or_else (owner (pathKey spec)) [] = ep_format p) (ep_specs p)\<rparr>"
  have spec: "spec \<in> set (ep_specs ?p)" using p f by simp
  then have "ep_specs ?p \<noteq> []" by fastforce
  with p(1) have "?p \<in> set (keep_pairs owner ps)" unfolding keep_pairs_def by auto
  with spec p show "\<exists>p \<in> set (keep_pairs owner ps). ep_format p = f \<and> ep_capability p = k \<and> spec \<in> set (ep_specs p)"
    by (intro bexI [of _ ?p]) simp_all
qed (auto simp: keep_pairs_def)

definition offers_for :: "target_pairs \<Rightarrow> nat \<Rightarrow> string \<Rightarrow> string \<Rightarrow> EndpointSpec \<Rightarrow> bool" where
  "offers_for pt i format capability spec \<longleftrightarrow> (\<exists>(j, ps) \<in> set pt. j = i \<and> offers_endpoint ps format capability spec)"

lemma offers_for_offers: "offers pt f k \<longleftrightarrow> (\<exists>i c spec. offers_for pt i f c spec \<and> pathKey spec = k)"
  unfolding offers_def offers_for_def offers_endpoint_def by fastforce

lemma offers_for_kept:
  "offers_for (keepEqualPaths formats pt) i f c spec \<longleftrightarrow>
   offers_for pt i f c spec \<and> or_else (path_owner formats pt (pathKey spec)) [] = f"
  unfolding offers_for_def keepEqualPaths_def Let_def offers_endpoint_def by (simp add: split_def kept_specs) blast

lemma find_SomeD: "find P xs = Some x \<Longrightarrow> P x \<and> x \<in> set xs"
  by (auto dest: find_in_set)

text \<open>When two formats of a model reach one path, only the first format in the order of the model keeps it,
  for every target; each path that some target served before is still served, by exactly one format.\<close>

theorem equal_paths_kept_once:
  assumes "\<And>format k. offers pt format k \<Longrightarrow> format \<in> set formats"
  shows "(\<forall>i format capability spec.
      offers_for (keepEqualPaths formats pt) i format capability spec =
        (offers_for pt i format capability spec \<and>
         find (\<lambda>f. offers pt f (pathKey spec)) formats = Some format)) \<and>
    (\<forall>k. (\<exists>format. offers pt format k) = (\<exists>!format. offers (keepEqualPaths formats pt) format k))"
proof (intro conjI allI)
  fix i format capability spec
  show kept: "offers_for (keepEqualPaths formats pt) i format capability spec =
      (offers_for pt i format capability spec \<and> find (\<lambda>f. offers pt f (pathKey spec)) formats = Some format)"
    for i format capability spec
  proof -
    have "path_owner formats pt (pathKey spec) \<noteq> None" if "offers_for pt i format capability spec"
      using that assms [of format "pathKey spec"]
      by (auto simp: path_owner_first find_None_iff offers_for_offers)
    then show ?thesis by (auto simp: offers_for_kept path_owner_first)
  qed
  fix k
  have "offers (keepEqualPaths formats pt) format k \<longleftrightarrow> find (\<lambda>f. offers pt f k) formats = Some format" for format
    using find_SomeD [of "\<lambda>f. offers pt f k" formats format]
    by (auto simp: offers_for_offers [of "keepEqualPaths formats pt"] offers_for_offers [of pt format k] kept)
  moreover have "(\<exists>format. offers pt format k) \<longleftrightarrow> (\<exists>format. find (\<lambda>f. offers pt f k) formats = Some format)"
  proof -
    have "find (\<lambda>f. offers pt f k) formats \<noteq> None \<longleftrightarrow> (\<exists>format. offers pt format k)"
      using assms by (auto simp: find_None_iff)
    then show ?thesis by auto
  qed
  ultimately show "(\<exists>format. offers pt format k) = (\<exists>!format. offers (keepEqualPaths formats pt) format k)"
    by auto
qed

definition sample_spec :: EndpointSpec where
  "sample_spec = endpoint ''chat'' ''/v1/chat'' False mPost ''llm/v1/chat'' catTextGen None True"

definition sample_pairs :: target_pairs where
  "sample_pairs =
     [(0, [\<lparr>ep_format = ''anthropic'', ep_capability = ''generate'', ep_specs = [sample_spec]\<rparr>]),
      (1, [\<lparr>ep_format = ''openai'', ep_capability = ''generate'', ep_specs = [sample_spec]\<rparr>])]"

theorem equal_paths_kept_once_witness:
  "keepEqualPaths [''openai'', ''anthropic''] sample_pairs = [(0, []), (1, snd (sample_pairs ! 1))] \<and>
   (\<exists>!format. offers (keepEqualPaths [''openai'', ''anthropic''] sample_pairs) format (pathKey sample_spec))"
proof
  show "keepEqualPaths [''openai'', ''anthropic''] sample_pairs = [(0, []), (1, snd (sample_pairs ! 1))]"
    by code_simp
  have "format \<in> set [''openai'', ''anthropic'']" if "offers sample_pairs format k" for format k
    using that by (auto simp: offers_def sample_pairs_def)
  then have "(\<forall>k. (\<exists>format. offers sample_pairs format k) =
      (\<exists>!format. offers (keepEqualPaths [''openai'', ''anthropic''] sample_pairs) format k))"
    using equal_paths_kept_once [of sample_pairs "[''openai'', ''anthropic'']"] by blast
  moreover have "offers sample_pairs ''openai'' (pathKey sample_spec)"
    by (auto simp: offers_def sample_pairs_def)
  ultimately show "\<exists>!format. offers (keepEqualPaths [''openai'', ''anthropic''] sample_pairs) format (pathKey sample_spec)"
    by blast
qed

section \<open>The checks\<close>

lemma checkModelCapabilities_step:
  "only_issues c (fst (checkModelCapabilities src m ml c))" "explained (checkModelCapabilities src m ml c)"
  unfolding checkModelCapabilities_def Let_def explained_def
  by (auto split: option.split intro: only_issues_fail(2))

lemma checkCapabilityEndpoints_step:
  "only_issues c (fst (checkCapabilityEndpoints src m ml formats c))"
  "explained (checkCapabilityEndpoints src m ml formats c)"
  unfolding checkCapabilityEndpoints_def explained_def
  by (auto split: option.split intro: only_issues_fail(1))

lemma foldi_only_issues:
  assumes "\<And>i x s. only_issues c s \<Longrightarrow> only_issues c (f i x s)" and "only_issues c s"
  shows "only_issues c (foldi f i xs s)"
  using assms(2) by (induction xs arbitrary: i s) (simp_all add: assms(1))

lemma warnUnservedFormats_step [simp]: "only_issues c (warnUnservedFormats src m ml pt c)"
  unfolding warnUnservedFormats_def Let_def by (auto intro!: foldi_only_issues)

lemma modelListsOf_step:
  "only_issues c (fst (fst (modelListsOf src m c)))" "explained (fst (modelListsOf src m c))"
  unfolding modelListsOf_def Let_def explained_def
  by (auto split: option.split intro: only_issues_fail(1))

text \<open>The formats of a model that passed are values of the table.\<close>

lemma modelListsOf_formats:
  assumes "modelListsOf src m c = ((c', Done), ml)"
  shows "ml_formatsWildcard ml = formatsWildcard m" "ml_capsWildcard ml = capabilitiesWildcard m"
    "\<not> formatsWildcard m \<Longrightarrow> ml_formats ml = the (explicitFormats m)" "c' = c"
    "\<not> capabilitiesWildcard m \<Longrightarrow> ml_capabilities ml = explicitCapabilities m"
  using assms by (auto simp: modelListsOf_def Let_def fail_def explicitFormats_def split: option.splits if_splits)

end
