(* ===== verification/Model_Selectors.thy ===== *)
theory Model_Selectors
  imports Model_Endpoints
begin

text \<open>
  The ai-model-selector of a route (\<open>src/convert/model.go\<close>: \<open>addSelector\<close>, \<open>selectorConfig\<close>,
  \<open>buildModelSelectorConfig\<close> and their helpers).  A model contributes the places it reads the model name
  from; a route that several models share has one selector with every distinct place and one size limit.

  The code uses the JSON text of an entry as the key of a map.  The text is only compared, so the entries
  themselves are the keys here.
\<close>

abbreviation (input) DefaultMaxBodySize :: int where "DefaultMaxBodySize \<equiv> 8388608"
abbreviation (input) body_size_key :: string where "body_size_key \<equiv> ''max_request_body_size''"

definition bodySizeOrDefault :: "Model \<Rightarrow> int" where
  "bodySizeOrDefault m =
     (case moc_MaxRequestBodySize (mo_Config m) of
        Some n \<Rightarrow> if n = 0 \<or> n > DefaultMaxBodySize then n else DefaultMaxBodySize
      | None \<Rightarrow> DefaultMaxBodySize)"

section \<open>The accumulated selector of a route\<close>

record selectors =
  sel_order :: "ymap list"
  sel_max :: int
  sel_unlimited :: bool

definition no_selectors :: selectors where
  "no_selectors = \<lparr>sel_order = [], sel_max = 0, sel_unlimited = False\<rparr>"

definition selector_size :: "ymap \<Rightarrow> int option" where
  "selector_size cfg = as_int (fmlookup cfg body_size_key)"

definition selector_entry :: "ymap \<Rightarrow> ymap" where
  "selector_entry cfg = (if selector_size cfg \<noteq> None then fmdrop body_size_key cfg else cfg)"

definition addSelector :: "ymap option \<Rightarrow> selectors \<Rightarrow> selectors" where
  "addSelector cfg g =
     (case cfg of
        None \<Rightarrow> g
      | Some cfg \<Rightarrow>
          let g = (case selector_size cfg of
                     None \<Rightarrow> g
                   | Some n \<Rightarrow> g\<lparr>sel_unlimited := sel_unlimited g \<or> n = 0,
                                    sel_max := (if n > sel_max g then n else sel_max g)\<rparr>)
          in g\<lparr>sel_order := append_new (sel_order g) (selector_entry cfg)\<rparr>)"

definition setSelectorBodySize :: "selectors \<Rightarrow> ymap \<Rightarrow> ymap" where
  "setSelectorBodySize g cfg =
     (if sel_unlimited g then fmupd body_size_key (YInt 0) cfg
      else if sel_max g > 0 then fmupd body_size_key (YInt (sel_max g)) cfg else cfg)"

definition selectorConfig :: "selectors \<Rightarrow> ymap option" where
  "selectorConfig g =
     (if sel_order g = [] then None
      else Some (setSelectorBodySize g (fmupd ''sources'' (YMaps (sel_order g)) fmempty)))"

section \<open>Where a model reads its name from\<close>

definition ident_start :: "char \<Rightarrow> bool" where
  "ident_start ch = (let n = (of_char ch :: nat) in 65 \<le> n \<and> n \<le> 90 \<or> 97 \<le> n \<and> n \<le> 122 \<or> ch = CHR ''_'')"

definition ident_char :: "char \<Rightarrow> bool" where
  "ident_char ch = (ident_start ch \<or> is_digit ch)"

text \<open>An identifier and the character that must end it.\<close>

definition ident_until :: "char \<Rightarrow> string \<Rightarrow> string option" where
  "ident_until close s =
     (let name = takeWhile ident_char s; rest = dropWhile ident_char s in
      if name \<noteq> [] \<and> ident_start (hd name) \<and> rest \<noteq> [] \<and> hd rest = close then Some name else None)"

text \<open>The group name of a match of \<open>pcreNamedCaptureOpen\<close> at the start of a text.\<close>

definition named_capture :: "string \<Rightarrow> string option" where
  "named_capture s =
     (case CutPrefix s ''(?'' of
        None \<Rightarrow> None
      | Some s \<Rightarrow>
          (case (case CutPrefix s ''P<'' of Some r \<Rightarrow> Some r | None \<Rightarrow> CutPrefix s ''<'') of
             Some r \<Rightarrow> ident_until CHR ''>'' r
           | None \<Rightarrow> (case CutPrefix s [CHR 0x27] of Some r \<Rightarrow> ident_until (CHR 0x27) r | None \<Rightarrow> None)))"

text \<open>A match has one opening bracket, at its start, so the matches are those at every position.\<close>

definition pathHasNamedCapture :: "string \<Rightarrow> string \<Rightarrow> bool" where
  "pathHasNamedCapture s param = list_ex (\<lambda>i. named_capture (drop i s) = Some param) [0..<length s]"

definition pathParamCaptured :: "string list \<Rightarrow> string \<Rightarrow> bool \<Rightarrow> bool" where
  "pathParamCaptured paths param specIsRegex =
     (if paths = [] \<or> param = [] then False
      else list_all (\<lambda>p. (specIsRegex \<or> HasPrefix p ''~'') \<and> pathHasNamedCapture p param) paths)"

definition defaultModelSelectorConfig :: "Model \<Rightarrow> EndpointSpec \<Rightarrow> ymap option" where
  "defaultModelSelectorConfig m spec =
     (case DefaultModelSelectorConfig spec of
        None \<Rightarrow> None
      | Some config \<Rightarrow> Some (fmupd body_size_key (YInt (bodySizeOrDefault m)) config))"

definition defaultSourceIsBody :: "ymap option \<Rightarrow> bool" where
  "defaultSourceIsBody def =
     (case def of
        None \<Rightarrow> False
      | Some def \<Rightarrow> let src = or_else (as_str (fmlookup def ''source'')) [] in src = [] \<or> src = ''body'')"

definition warnPathParamNotCaptured ::
  "ConversionIssueSource \<Rightarrow> Model \<Rightarrow> string \<Rightarrow> EndpointSpec \<Rightarrow> converter \<Rightarrow> converter"
where
  "warnPathParamNotCaptured src m param spec c =
     (let src = src_at src [''config.route.model.path.path_param''] in
      case find (\<lambda>p. \<not> IsRegex spec \<and> \<not> HasPrefix p ''~'') (rt_Paths (moc_Route (mo_Config m))) of
        Some p \<Rightarrow>
          warn src BehaviorMayDiffer
            (''model %q sets model.path.path_param %q but route path %q is not a regex path (it must start with %q); the model will be read from the request body instead'',
             [mo_Name m, param, p, ''~'']) c
      | None \<Rightarrow>
          warn src BehaviorMayDiffer
            (''model %q sets model.path.path_param %q but no matching named capture group %q is present in its regex route paths; the model will be read from the request body instead'',
             [mo_Name m, param, param]) c)"

definition path_selector :: "Model \<Rightarrow> string \<Rightarrow> string \<Rightarrow> ymap" where
  "path_selector m param sourcePath =
     fmap_of_list [(''source'', YStr ''path''), (''pcre_pattern'', YStr sourcePath),
       (''pcre_capture_name'', YStr param), (body_size_key, YInt (bodySizeOrDefault m))]"

definition body_selector :: "Model \<Rightarrow> string \<Rightarrow> ymap" where
  "body_selector m param =
     fmap_of_list [(''source'', YStr ''body''), (''body_path'', YStr param), (body_size_key, YInt (bodySizeOrDefault m))]"

definition header_selector :: "string \<Rightarrow> ymap" where
  "header_selector param = fmap_of_list [(''source'', YStr ''header''), (''header_name'', YStr param)]"

definition buildModelSelectorConfig ::
  "ConversionIssueSource \<Rightarrow> Model \<Rightarrow> EndpointSpec \<Rightarrow> converter \<Rightarrow> converter \<times> ymap option list"
where
  "buildModelSelectorConfig src m spec c =
     (let route = moc_Route (mo_Config m); sel = mrc_Model route in
      if msc_PathParam sel \<noteq> [] then
        (if \<not> pathParamCaptured (rt_Paths route) (msc_PathParam sel) (IsRegex spec) then
           let def = defaultModelSelectorConfig m spec in
           (if defaultSourceIsBody def then warnPathParamNotCaptured src m (msc_PathParam sel) spec c else c, [def])
         else (c, map (\<lambda>p. Some (path_selector m (msc_PathParam sel) p)) (rt_Paths route)))
      else if msc_BodyParam sel \<noteq> [] then (c, [Some (body_selector m (msc_BodyParam sel))])
      else if msc_HeaderParam sel \<noteq> [] then (c, [Some (header_selector (msc_HeaderParam sel))])
      else (c, [defaultModelSelectorConfig m spec]))"

text \<open>The shapes of a model's selectors.  The code sorts the keys and removes repetitions, then compares
  them with those of other models: the comparison is that of sets.\<close>

definition selectorShapes :: "ymap option list \<Rightarrow> ymap list" where
  "selectorShapes selectors =
     remdups (map (\<lambda>s. fmdrop ''pcre_pattern'' (fmdrop body_size_key s)) (List.map_filter (\<lambda>s. s) selectors))"

section \<open>The selector covers every model of the route\<close>

lemma bodySizeOrDefault_bounds:
  "bodySizeOrDefault m = 0 \<or> DefaultMaxBodySize \<le> bodySizeOrDefault m"
  "moc_MaxRequestBodySize (mo_Config m) = Some n \<Longrightarrow> bodySizeOrDefault m = 0 \<and> n = 0 \<or> n \<le> bodySizeOrDefault m \<and> n \<noteq> 0"
  by (auto simp: bodySizeOrDefault_def split: option.split)

text \<open>A limit of 0 is none; \<open>covers a b\<close> says that limit \<open>a\<close> reads at least as much as limit \<open>b\<close>.\<close>

definition covers :: "int \<Rightarrow> int \<Rightarrow> bool" where
  "covers a b \<longleftrightarrow> a = 0 \<or> b \<noteq> 0 \<and> b \<le> a"

definition sizes_inv :: "int list \<Rightarrow> selectors \<Rightarrow> bool" where
  "sizes_inv sizes g \<longleftrightarrow> sel_max g = fold max sizes 0 \<and> (sel_unlimited g \<longleftrightarrow> 0 \<in> set sizes)"

definition cfg_sizes :: "ymap option list \<Rightarrow> int list" where
  "cfg_sizes cfgs = List.map_filter (\<lambda>o'. case o' of None \<Rightarrow> None | Some cfg \<Rightarrow> selector_size cfg) cfgs"

definition cfg_entries :: "ymap option list \<Rightarrow> ymap list" where
  "cfg_entries cfgs = List.map_filter (map_option selector_entry) cfgs"

lemma fold_max_start: "(a :: int) \<le> fold max sizes a"
proof (induction sizes arbitrary: a)
  case (Cons y ys)
  have "a \<le> max y a" by simp
  also have "\<dots> \<le> fold max ys (max y a)" by (rule Cons.IH)
  finally show ?case by simp
qed simp

lemma fold_max_ge: "x \<in> set sizes \<Longrightarrow> x \<le> fold max sizes (a :: int)"
proof (induction sizes arbitrary: a)
  case (Cons y ys)
  then show ?case using fold_max_start [of "max y a" ys] by auto
qed simp

lemma fold_max_mem: "fold max sizes (a :: int) = a \<or> fold max sizes a \<in> set sizes"
  by (induction sizes arbitrary: a) (auto simp: max_def split: if_splits)

lemma selectors_fold:
  "sizes_inv sizes g \<Longrightarrow> sizes_inv (sizes @ cfg_sizes cfgs) (fold addSelector cfgs g)"
  "sel_order (fold addSelector cfgs g) = fold (\<lambda>e es. append_new es e) (cfg_entries cfgs) (sel_order g)"
proof -
  show "sizes_inv sizes g \<Longrightarrow> sizes_inv (sizes @ cfg_sizes cfgs) (fold addSelector cfgs g)"
  proof (induction cfgs arbitrary: sizes g)
    case (Cons o' cfgs)
    have step: "sizes_inv (sizes @ cfg_sizes [o']) (addSelector o' g)"
      using Cons.prems
      by (auto simp: sizes_inv_def addSelector_def Let_def cfg_sizes_def map_filter_simps split: option.split)
    have "cfg_sizes (o' # cfgs) = cfg_sizes [o'] @ cfg_sizes cfgs"
      by (simp add: cfg_sizes_def map_filter_simps split: option.split)
    with Cons.IH [OF step] show ?case by simp
  qed (simp add: cfg_sizes_def map_filter_simps)
  show "sel_order (fold addSelector cfgs g) = fold (\<lambda>e es. append_new es e) (cfg_entries cfgs) (sel_order g)"
    by (induction cfgs arbitrary: g)
      (auto simp: addSelector_def Let_def cfg_entries_def map_filter_simps split: option.split)
qed

text \<open>When at least one model asks for a selector, the selector of the route has every distinct place a
  model reads its name from exactly once, and its size limit is 0 (none) when some contributor has none and
  the largest one otherwise: it covers the limit of every contributor.\<close>

theorem selector_covers_contributors:
  assumes "cfg_entries cfgs \<noteq> []" and "\<forall>n \<in> set (cfg_sizes cfgs). 0 \<le> n"
  shows "\<exists>cfg sources. selectorConfig (fold addSelector cfgs no_selectors) = Some cfg \<and>
    fmlookup cfg ''sources'' = Some (YMaps sources) \<and> distinct sources \<and> set sources = set (cfg_entries cfgs) \<and>
    (case selector_size cfg of
       None \<Rightarrow> cfg_sizes cfgs = []
     | Some limit \<Rightarrow> limit \<in> set (cfg_sizes cfgs) \<and> (\<forall>n \<in> set (cfg_sizes cfgs). covers limit n))"
proof -
  define g where "g = fold addSelector cfgs no_selectors"
  have inv: "sizes_inv (cfg_sizes cfgs) g"
    using selectors_fold(1) [of "[]" no_selectors cfgs] by (simp add: g_def sizes_inv_def no_selectors_def)
  have fold_new: "distinct es \<Longrightarrow> distinct (fold (\<lambda>e es. append_new es e) xs es) \<and>
      set (fold (\<lambda>e es. append_new es e) xs es) = set es \<union> set xs" for xs es :: "ymap list"
    by (induction xs arbitrary: es) auto
  have order: "distinct (sel_order g)" "set (sel_order g) = set (cfg_entries cfgs)"
    using selectors_fold(2) [of cfgs no_selectors] fold_new [of "[]" "cfg_entries cfgs"]
    by (simp_all add: g_def no_selectors_def)
  with assms(1) have some: "sel_order g \<noteq> []" by force
  have ge: "n \<le> sel_max g" if "n \<in> set (cfg_sizes cfgs)" for n
    using inv fold_max_ge [OF that] by (simp add: sizes_inv_def)
  have mem: "sel_max g \<in> set (cfg_sizes cfgs)" if "0 < sel_max g"
    using inv fold_max_mem [of "cfg_sizes cfgs" 0] that by (auto simp: sizes_inv_def)
  have none: "cfg_sizes cfgs = []" if "\<not> sel_unlimited g" "\<not> 0 < sel_max g"
  proof (rule ccontr)
    assume "cfg_sizes cfgs \<noteq> []"
    then obtain n where "n \<in> set (cfg_sizes cfgs)" by (cases "cfg_sizes cfgs") auto
    with assms(2) ge [of n] that(2) have "n = 0" by fastforce
    with \<open>n \<in> set (cfg_sizes cfgs)\<close> that(1) inv show False by (simp add: sizes_inv_def)
  qed
  show ?thesis
    using some order inv ge mem none assms(2)
    by (auto simp: g_def [symmetric] selectorConfig_def setSelectorBodySize_def selector_size_def covers_def sizes_inv_def as_int_def)
qed

theorem selector_covers_contributors_witness:
  "selectorConfig (fold addSelector [Some (body_selector sample_model ''model''), None, Some (header_selector ''X-Model'')] no_selectors) =
     Some (fmap_of_list [(''sources'', YMaps [fmap_of_list [(''source'', YStr ''body''), (''body_path'', YStr ''model'')],
       header_selector ''X-Model'']), (body_size_key, YInt DefaultMaxBodySize)]) \<and>
   (\<exists>sources. distinct sources \<and>
     set sources = set (cfg_entries [Some (body_selector sample_model ''model''), None, Some (header_selector ''X-Model'')]))"
proof
  let ?cfgs = "[Some (body_selector sample_model ''model''), None, Some (header_selector ''X-Model'')]"
  show "selectorConfig (fold addSelector ?cfgs no_selectors) =
     Some (fmap_of_list [(''sources'', YMaps [fmap_of_list [(''source'', YStr ''body''), (''body_path'', YStr ''model'')],
       header_selector ''X-Model'']), (body_size_key, YInt DefaultMaxBodySize)])" by code_simp
  have "cfg_entries ?cfgs \<noteq> []" by code_simp
  moreover have "\<forall>n \<in> set (cfg_sizes ?cfgs). 0 \<le> n" by code_simp
  ultimately show "\<exists>sources. distinct sources \<and> set sources = set (cfg_entries ?cfgs)"
    using selector_covers_contributors [of ?cfgs] by blast
qed

section \<open>Steps and samples\<close>

lemma buildModelSelectorConfig_step [simp]: "only_issues c (fst (buildModelSelectorConfig src m spec c))"
  by (simp add: buildModelSelectorConfig_def warnPathParamNotCaptured_def Let_def split: option.split)

lemma path_captures:
  "pathHasNamedCapture ''~/ai/(?<model_name>[^/]+)'' ''model_name''"
  "pathHasNamedCapture ''~/(?P<a>x)/(?<b>y)'' ''b''"
  "\<not> pathHasNamedCapture ''~/ai/(?:model_name)'' ''model_name''"
  by code_simp+

end
