(* ===== verification/Model_Targets.thy ===== *)
theory Model_Targets
  imports Model_Selectors Vector_DB
begin

text \<open>
  The targets of a model (\<open>src/convert/model.go\<close>): which targets the converter keeps (\<open>checkTarget\<close>), the
  block each one becomes (\<open>buildTarget\<close>), the balancer and vector database of the plugin, and the checks of
  the features a model uses.
\<close>

section \<open>Which targets are kept\<close>

record targetProblem =
  tp_field :: string
  tp_code :: ConversionIssueCode
  tp_reason :: reason

definition target_field :: "nat \<Rightarrow> string \<Rightarrow> string" where
  "target_field j rest = ''targets['' @ dec j @ '']'' @ rest"

definition target_problem :: "nat \<Rightarrow> string \<Rightarrow> ConversionIssueCode \<Rightarrow> reason \<Rightarrow> targetProblem" where
  "target_problem j rest code r = \<lparr>tp_field = target_field j rest, tp_code = code, tp_reason = r\<rparr>"

definition clientFormats :: "string list option \<Rightarrow> string \<Rightarrow> string list option" where
  "clientFormats formats providerType = map_option (map (\<lambda>f. ClientFormat f providerType)) formats"

definition mantle_problem :: "Model \<Rightarrow> nat \<Rightarrow> TargetModel \<Rightarrow> string \<Rightarrow> targetProblem option" where
  "mantle_problem m j tm providerType =
     (case clientFormats (explicitFormats m) providerType of
        None \<Rightarrow> None
      | Some formats \<Rightarrow>
          if isMantleTarget tm providerType \<and> ''openai'' \<notin> set formats \<and> ''anthropic'' \<notin> set formats
          then Some (target_problem j ''.config.endpoint_type'' ConfigFieldInvalid
                 (''model %q target %q: the mantle endpoint type is not supported with the %s format; the target is omitted'',
                  [mo_Name m, tm_Name tm, join '', '' formats]))
          else None)"

definition gemini_problem :: "Model \<Rightarrow> nat \<Rightarrow> TargetModel \<Rightarrow> string \<Rightarrow> targetProblem option" where
  "gemini_problem m j tm providerType =
     (let key = InvalidField (GeminiEnvFromOptions (tmc_Options (tm_Config tm))) in
      if providerType = ''gemini'' \<and> key \<noteq> []
      then Some (target_problem j (''.config.gcp_environment.'' @ key) ConfigFieldInvalid
             (''model %q target %q: gcp_environment.%s is not a valid Google Cloud ID; the target is omitted'',
              [mo_Name m, tm_Name tm, key]))
      else None)"

text \<open>The checks of a target whose provider and provider type are known, in order.\<close>

definition typed_problem :: "Model \<Rightarrow> nat \<Rightarrow> TargetModel \<Rightarrow> string \<Rightarrow> converter \<Rightarrow> targetProblem option" where
  "typed_problem m j tm providerType c =
     (case unsupported_provider providerType c of
        Some f \<Rightarrow>
          Some (target_problem j (if tmc_Type (tm_Config tm) = [] then ''.provider'' else ''.config.type'')
            UnsupportedInMinRuntimeVersion
            (let r = unsupportedReason f (''provider type '' @ providerType) (cv_minRuntimeVersion c) in
             (fst r @ ''; the target is omitted'', snd r)))
      | None \<Rightarrow>
          if isPassthrough m \<and> providerType = ''databricks'' \<and>
             is_nil (fmlookup (tmc_Options (tm_Config tm)) ''upstream_url'')
          then Some (target_problem j ''.config.upstream_url'' MissingRequiredConfigField
                 (''model %q target %q: the passthrough format requires upstream_url for databricks; the target is omitted'',
                  [mo_Name m, tm_Name tm]))
          else (case mantle_problem m j tm providerType of
                  Some p \<Rightarrow> Some p | None \<Rightarrow> gemini_problem m j tm providerType))"

definition checkTarget :: "Model \<Rightarrow> nat \<Rightarrow> converter \<Rightarrow> (targetProblem, Provider \<times> string) sum" where
  "checkTarget m j c =
     (let tm = mo_TargetModels m ! j in
      if tm_Provider tm = [] then
        Inl (target_problem j ''.provider'' MissingRequiredConfigField
          (''model %q target %q has no provider; the target is omitted'', [mo_Name m, tm_Name tm]))
      else case fmlookup (cn_providers c) (tm_Provider tm) of
             None \<Rightarrow>
               Inl (target_problem j ''.provider'' UndefinedReference
                 (''model %q target %q references unknown provider %q; the target is omitted'',
                  [mo_Name m, tm_Name tm, tm_Provider tm]))
           | Some provider \<Rightarrow>
               let providerType = (if tmc_Type (tm_Config tm) = [] then pr_Type provider else tmc_Type (tm_Config tm)) in
               if providerType = [] then
                 Inl (target_problem j ''.config.type'' MissingRequiredConfigField
                   (''model %q target %q has no resolvable provider type; the target is omitted'', [mo_Name m, tm_Name tm]))
               else (case typed_problem m j tm providerType c of
                       Some p \<Rightarrow> Inl p | None \<Rightarrow> Inr (provider, providerType)))"

section \<open>The block of a target\<close>

definition modelLoggingBlock :: "Logging option \<Rightarrow> bool \<Rightarrow> bool \<Rightarrow> ymap option" where
  "modelLoggingBlock l supportsLogStatistics realtime =
     (case loggingBlock l of
        None \<Rightarrow> None
      | Some block \<Rightarrow>
          let block = (if \<not> supportsLogStatistics then fmupd ''log_statistics'' (YBool False) block else block);
              block = (if realtime then fmupd ''log_payloads'' (YBool False) block else block)
          in unless_empty (fmdrop ''log_audits'' (fmdrop ''max_payload_size'' block)))"

definition supportedTargetOptions :: "ymap \<Rightarrow> converter \<Rightarrow> ymap" where
  "supportedTargetOptions opts c =
     (if conv_supports FeatureTargetCostList c then opts else fold fmdrop TargetCostListKeys opts)"

text \<open>None is the panic of a failed assertion in \<open>mapOptions\<close>.\<close>

definition buildTarget ::
  "TargetModel \<Rightarrow> Provider \<Rightarrow> string \<Rightarrow> string \<Rightarrow> ymap option \<Rightarrow> converter \<Rightarrow> ymap option"
where
  "buildTarget tm provider providerType routeType logging c =
     (case mapOptions (supportedTargetOptions (tmc_Options (tm_Config tm)) c) providerType (tm_Name tm)
             (Some provider) (routeType = PassthroughRouteType) of
        None \<Rightarrow> None
      | Some opts \<Rightarrow>
          let model = fmap_of_list [(''provider'', YStr (PluginProvider providerType)), (''name'', YStr (tm_Name tm))];
              model = set_opt model ''options'' (map_option YMap opts);
              target = fmap_of_list [(''route_type'', YStr routeType), (''model'', YMap model)];
              target = set_opt target ''auth'' (map_option YMap (resolveAuth (Some provider) (tm_AllowAuthOverride tm)));
              target = setInt target ''weight'' (tm_Weight tm);
              target = fmupd ''description''
                (YStr (if tm_SemanticDesc tm \<noteq> [] then tm_SemanticDesc tm else tm_Name tm)) target
          in Some (set_opt target ''logging'' (map_option YMap logging)))"

definition setEndpointUpstreamURL :: "ymap \<Rightarrow> string \<Rightarrow> EndpointSpec \<Rightarrow> TargetModel \<Rightarrow> ymap" where
  "setEndpointUpstreamURL target section spec tm =
     (case EndpointUpstreamURL section spec (tmc_Options (tm_Config tm)) of
        None \<Rightarrow> target
      | Some url \<Rightarrow>
          let model = or_else (as_map (fmlookup target ''model'')) fmempty;
              opts = or_else (as_map (fmlookup model ''options'')) fmempty;
              opts = (if is_nil (fmlookup opts ''upstream_url'') then fmupd ''upstream_url'' (YStr url) opts else opts)
          in fmupd ''model'' (YMap (fmupd ''options'' (YMap opts) model)) target)"

definition alias_target :: "string \<Rightarrow> string \<Rightarrow> ymap \<Rightarrow> ymap" where
  "alias_target alias llmFormat t =
     (let model = or_else (as_map (fmlookup t ''model'')) fmempty;
          provider = or_else (as_str (fmlookup model ''provider'')) [];
          routeType = or_else (as_str (fmlookup t ''route_type'')) []
      in if GeminiInteractions llmFormat provider routeType then t
         else fmupd ''model'' (YMap (fmupd ''model_alias'' (YStr alias) model)) t)"

definition withModelAlias :: "ymap list \<Rightarrow> string \<Rightarrow> string \<Rightarrow> ymap list" where
  "withModelAlias targets alias llmFormat = map (alias_target alias llmFormat) targets"

section \<open>Balancer, datastore and vector database\<close>

definition balancerHoisted :: "string list" where
  "balancerHoisted = [''vectordb'', ''embeddings'']"

definition is_failover_code :: "yval \<Rightarrow> bool" where
  "is_failover_code v = (or_else (as_str (Some v)) [] \<in> set FailoverHTTPCodes)"

definition balancerAlgorithm :: "Balancer option \<Rightarrow> string" where
  "balancerAlgorithm b =
     (case b of None \<Rightarrow> ''round-robin''
      | Some b \<Rightarrow> if bal_Algorithm b = [] then ''round-robin'' else bal_Algorithm b)"

definition balancerConfig :: "Balancer option \<Rightarrow> converter \<Rightarrow> ymap" where
  "balancerConfig b c =
     (case b of
        None \<Rightarrow> fmap_of_list [(''algorithm'', YStr ''round-robin'')]
      | Some bal \<Rightarrow>
          let cfg = fmfilter (\<lambda>k. k \<notin> set balancerHoisted) (bal_Fields bal);
              cfg = (case as_list (fmlookup cfg ''failover_criteria'') of
                       Some criteria \<Rightarrow>
                         if conv_supports FeatureFailoverHTTPCodes c then cfg
                         else fmupd ''failover_criteria'' (YList (filter (\<lambda>v. \<not> is_failover_code v) criteria)) cfg
                     | None \<Rightarrow> cfg)
          in fmupd ''algorithm'' (YStr (balancerAlgorithm b)) cfg)"

definition resolveModelDatastore ::
  "ConversionIssueSource \<Rightarrow> Model \<Rightarrow> converter \<Rightarrow> (converter \<times> outcome) \<times> Datastore option"
where
  "resolveModelDatastore src m c =
     (case mo_Datastores m of
        [] \<Rightarrow> ((c, Done), None)
      | [ref] \<Rightarrow>
          (if (case moc_Balancer (mo_Config m) of None \<Rightarrow> True | Some b \<Rightarrow> bal_Algorithm b \<noteq> ''semantic'') then
             (fail (src_at src [''datastores'', ''config.balancer.algorithm'']) ConfigFieldInvalid
                (''model %q references datastore %q, but datastores require the semantic balancer (set config.balancer.algorithm: semantic)'',
                 [mo_Name m, dr_Name ref]) c, None)
           else (case fmlookup (cn_datastores c) (dr_Name ref) of
                  None \<Rightarrow>
                    ((reportError (src_at src [''datastores[0].name'']) UndefinedReference
                       (''model %q references unknown datastore %q'', [mo_Name m, dr_Name ref]) c, Done), None)
                | Some ds \<Rightarrow> ((c, Done), Some ds)))
      | refs \<Rightarrow>
          (fail (src_at src [''datastores'']) ConfigFieldInvalid
             (''model %q has %d datastores, but only one is allowed'', [mo_Name m, dec (length refs)]) c, None))"

definition modelVectorDB ::
  "ConversionIssueSource \<Rightarrow> Model \<Rightarrow> Datastore option \<Rightarrow> converter \<Rightarrow> (converter \<times> outcome) \<times> yval option"
where
  "modelVectorDB src m ds c =
     (let vdb = balancerExtra (moc_Balancer (mo_Config m)) ''vectordb''; vectordb = VectorDBToPlugin vdb in
      case ds of
        None \<Rightarrow> ((c, Done), vectordb)
      | Some ds \<Rightarrow>
          let strategy = or_else (VectorDBStrategyForDatastoreType (ds_Type ds)) [] in
          if \<not> is_nil vdb \<and> as_map vdb = None then
            (fail (src_at src [''config.balancer.vectordb'']) ConfigFieldInvalid
               (''model %q's balancer.vectordb is not a map'', [mo_Name m]) c, None)
          else if \<not> is_nil vdb \<and> fmlookup (or_else (as_map vdb) fmempty) ''strategy'' \<noteq> Some (YStr strategy) then
            (fail (src_at src [''config.balancer.vectordb.strategy'', ''datastores[0].name'']) ConfigFieldInvalid
               (''model %q's balancer.vectordb.strategy %q does not match the datastore type %q (expected %q)'',
                [mo_Name m, or_else (as_str (fmlookup (or_else (as_map vdb) fmempty) ''strategy'')) [], ds_Type ds, strategy]) c,
             None)
          else (case ApplyModelDatastore vectordb (ds_Type ds) (ds_Config ds) of
                  (_, Some e) \<Rightarrow>
                   (fail (src_at src [''datastores[0].name'']) ConfigFieldInvalid
                      (''model %q's datastore %q: '' @ fst (datastore_reason e),
                       [mo_Name m, ds_Name ds] @ snd (datastore_reason e)) c, None)
                | (block, None) \<Rightarrow> ((c, Done), map_option YMap block)))"

section \<open>Features of a model\<close>

definition format_gate :: "string \<Rightarrow> converter \<Rightarrow> Feature option" where
  "format_gate format c =
     (case FormatFeature format of None \<Rightarrow> None | Some f \<Rightarrow> if conv_supports f c then None else Some f)"

definition warn_failover :: "ConversionIssueSource \<Rightarrow> Balancer option \<Rightarrow> converter \<Rightarrow> converter" where
  "warn_failover src b c =
     (case b of
        None \<Rightarrow> c
      | Some b \<Rightarrow>
          if conv_supports FeatureFailoverHTTPCodes c then c
          else foldi (\<lambda>i v c.
                 if is_failover_code v then
                   let field = ''config.balancer.failover_criteria['' @ dec i @ '']'' in
                   reportUnsupported (src_at src [field]) Warning FeatureFailoverHTTPCodes
                     (field @ '': '' @ or_else (as_str (Some v)) []) c
                 else c) 0 (or_else (as_list (fmlookup (bal_Fields b) ''failover_criteria'')) []) c)"

definition checkModelFeatures :: "ConversionIssueSource \<Rightarrow> Model \<Rightarrow> converter step" where
  "checkModelFeatures src m c =
     (case (if formatsWildcard m then None else findi (\<lambda>f. format_gate f c \<noteq> None) (mo_Formats m)) of
        Some (i, format) \<Rightarrow>
          failUnsupported (src_at src [format_field i]) (the (format_gate format c))
            (format_field i @ '': '' @ format) c
      | None \<Rightarrow> (warn_failover src (moc_Balancer (mo_Config m)) c, Done))"

definition checkBedrockEndpointType :: "ConversionIssueSource \<Rightarrow> TargetModel \<Rightarrow> nat \<Rightarrow> converter step" where
  "checkBedrockEndpointType src tm j c =
     (if conv_supports FeatureBedrockEndpointType c then (c, Done)
      else case find (\<lambda>key. fmlookup (tmc_Options (tm_Config tm)) key \<noteq> None) BedrockEndpointTypeKeys of
             None \<Rightarrow> (c, Done)
           | Some key \<Rightarrow>
               let field = target_field j (''.config.'' @ key) in
               failUnsupported (src_at src [field]) FeatureBedrockEndpointType field c)"

definition warnUnsupportedCostLists :: "ConversionIssueSource \<Rightarrow> TargetModel \<Rightarrow> nat \<Rightarrow> converter \<Rightarrow> converter" where
  "warnUnsupportedCostLists src tm j c =
     (if conv_supports FeatureTargetCostList c then c
      else fold (\<lambda>key c.
             if fmlookup (tmc_Options (tm_Config tm)) key = None then c
             else let field = target_field j (''.config.'' @ key) in
                  reportUnsupported (src_at src [field]) Warning FeatureTargetCostList field c)
           TargetCostListKeys c)"

text \<open>\<open>served\<close> holds the indexes of the targets that serve each capability.\<close>

fun check_capabilities ::
  "ConversionIssueSource \<Rightarrow> Model \<Rightarrow> string \<Rightarrow> (string \<Rightarrow> nat list) \<Rightarrow> plannedTarget list \<Rightarrow> string list \<Rightarrow> converter step"
where
  "check_capabilities src m format served targets [] c = (c, Done)"
| "check_capabilities src m format served targets (capability # caps) c =
     (let field = capabilityField m capability in
      if served capability = [] then
        fail (src_at src [field]) ConfigFieldInvalid
          (''model %q: no target can serve capability %q with llm_format %q'', [mo_Name m, capability, format]) c
      else
        check_capabilities src m format served targets caps
          (fold (\<lambda>t c. if pt_index t \<in> set (served capability) then c
             else warn (src_at src [field, target_field (pt_index t) []]) BehaviorMayDiffer
               (''model %q target %q: the data plane does not accept this target for capability %q with llm_format %q. The routes of this capability will not fail over to it.'',
                [mo_Name m, tm_Name (pt_tm t), capability, format]) c) targets c))"

definition checkTargetSupport ::
  "ConversionIssueSource \<Rightarrow> Model \<Rightarrow> modelLists \<Rightarrow> string list \<Rightarrow> (string \<Rightarrow> nat list) \<Rightarrow> plannedTarget list \<Rightarrow> converter step"
where
  "checkTargetSupport src m ml formats served targets c =
     (if targets = [] \<or> ml_capsWildcard ml then (c, Done)
      else check_capabilities src m (join '', '' formats) served targets (ml_capabilities ml) c)"

section \<open>Warnings on a route\<close>

definition loggingStatisticsSet :: "Logging option \<Rightarrow> bool" where
  "loggingStatisticsSet l = (case l of None \<Rightarrow> False | Some l \<Rightarrow> lg_Statistics l = Some True)"

definition loggingPayloadsSet :: "Logging option \<Rightarrow> bool" where
  "loggingPayloadsSet l = (case l of None \<Rightarrow> False | Some l \<Rightarrow> lg_Payloads l = Some True)"

text \<open>The list holds the routes warned about so far.\<close>

definition warnStatisticsOverride ::
  "ConversionIssueSource \<Rightarrow> Model \<Rightarrow> string \<Rightarrow> bool \<Rightarrow> string list \<Rightarrow> converter \<Rightarrow> converter \<times> string list"
where
  "warnStatisticsOverride src m routeName supported warned c =
     (if supported \<or> routeName \<in> set warned \<or> \<not> loggingStatisticsSet (moc_Logging (mo_Config m)) then (c, warned)
      else (warn (src_at src [''config.logging.statistics'']) ConfigFieldOverridden
              (''model %q sets config.logging.statistics to true. This will be ignored on the %q route, and log_statistics will be overridden to false because the endpoint does not support it.'',
               [mo_Name m, routeName]) c, routeName # warned))"

definition warnTransportOverrides :: "ConversionIssueSource \<Rightarrow> Model \<Rightarrow> Route \<Rightarrow> converter \<Rightarrow> converter" where
  "warnTransportOverrides src m route c =
     (let rc = moc_Route (mo_Config m);
          c = (if rt_Methods rc \<noteq> [] \<and> rt_Methods route = []
               then warn (src_at src [''config.route.methods'']) ConfigFieldIgnored
                 (''model %q sets config.route.methods. This will be ignored on the WebSocket route %q, because Kong does not match methods on ws and wss routes.'',
                  [mo_Name m, rt_Name route]) c else c)
      in if rt_Protocols rc \<noteq> [] \<and> rt_Protocols rc \<noteq> rt_Protocols route
         then warn (src_at src [''config.route.protocols'']) ConfigFieldOverridden
           (''model %q sets config.route.protocols to %v. This will be overridden to %v on the %q route, because the route transport supports only these protocols.'',
            [mo_Name m, ''['' @ join '' '' (rt_Protocols rc) @ '']'', ''['' @ join '' '' (rt_Protocols route) @ '']'',
             rt_Name route]) c
         else c)"

section \<open>The steps only report\<close>

lemma resolveModelDatastore_step:
  "only_issues c (fst (fst (resolveModelDatastore src m c)))" "explained (fst (resolveModelDatastore src m c))"
  unfolding resolveModelDatastore_def explained_def
  by (auto split: list.split option.split intro: only_issues_fail(1))

lemma modelVectorDB_step:
  "only_issues c (fst (fst (modelVectorDB src m ds c)))" "explained (fst (modelVectorDB src m ds c))"
  unfolding modelVectorDB_def Let_def explained_def
  by (auto split: option.split prod.split intro: only_issues_fail(1))

lemma fold_only_issues:
  assumes "\<And>x s. only_issues c s \<Longrightarrow> only_issues c (f x s)" and "only_issues c s"
  shows "only_issues c (fold f xs s)"
  using assms(2) by (induction xs arbitrary: s) (simp_all add: assms(1))

lemma warn_failover_step [simp]: "only_issues c (warn_failover src b c)"
  unfolding warn_failover_def Let_def by (auto split: option.split intro!: foldi_only_issues)

lemma checkModelFeatures_step:
  "only_issues c (fst (checkModelFeatures src m c))" "explained (checkModelFeatures src m c)"
  unfolding checkModelFeatures_def explained_def
  by (auto split: option.split intro: only_issues_fail(2))

lemma checkBedrockEndpointType_step:
  "only_issues c (fst (checkBedrockEndpointType src tm j c))" "explained (checkBedrockEndpointType src tm j c)"
  unfolding checkBedrockEndpointType_def Let_def explained_def
  by (auto split: option.split intro: only_issues_fail(2))

lemma warnUnsupportedCostLists_step [simp]: "only_issues c (warnUnsupportedCostLists src tm j c)"
  unfolding warnUnsupportedCostLists_def Let_def by (auto intro!: fold_only_issues)

lemma check_capabilities_step:
  "only_issues c s \<Longrightarrow> only_issues c (fst (check_capabilities src m format served targets caps s)) \<and>
     explained (check_capabilities src m format served targets caps s)"
proof (induction caps arbitrary: s)
  case (Cons cap caps)
  have "only_issues c (fold (\<lambda>t c. if pt_index t \<in> set (served cap) then c
             else warn (src_at src [capabilityField m cap, target_field (pt_index t) []]) BehaviorMayDiffer
               (''model %q target %q: the data plane does not accept this target for capability %q with llm_format %q. The routes of this capability will not fail over to it.'',
                [mo_Name m, tm_Name (pt_tm t), cap, format]) c) targets s)"
    by (rule fold_only_issues) (simp_all add: Cons.prems)
  from Cons.IH [OF this] show ?case
    using only_issues_trans [OF Cons.prems only_issues_fail(1)] by (simp add: Let_def explained_def)
qed (simp add: explained_def)

lemma checkTargetSupport_step:
  "only_issues c (fst (checkTargetSupport src m ml formats served targets c))"
  "explained (checkTargetSupport src m ml formats served targets c)"
  using check_capabilities_step [of c c]
  by (simp_all add: checkTargetSupport_def explained_def [of "(c, Done)"])

lemma warnStatisticsOverride_step [simp]:
  "only_issues a c \<Longrightarrow> only_issues a (fst (warnStatisticsOverride src m r b warned c))"
  by (simp add: warnStatisticsOverride_def)

lemma warnTransportOverrides_step [simp]: "only_issues a c \<Longrightarrow> only_issues a (warnTransportOverrides src m route c)"
  by (simp add: warnTransportOverrides_def Let_def)

section \<open>What a kept target is\<close>

text \<open>A target that is kept has its provider and a provider type the release has.\<close>

lemma checkTarget_kept:
  assumes "checkTarget m j c = Inr (provider, t)"
  shows "fmlookup (cn_providers c) (tm_Provider (mo_TargetModels m ! j)) = Some provider" "t \<noteq> []"
    "unsupported_provider t c = None"
    "t = (if tmc_Type (tm_Config (mo_TargetModels m ! j)) = [] then pr_Type provider
          else tmc_Type (tm_Config (mo_TargetModels m ! j)))"
  using assms by (auto simp: checkTarget_def typed_problem_def Let_def split: if_splits option.splits)

text \<open>A kept gemini target cannot leave the URL of its project, and a kept mantle target of an explicit list
  has a format that the endpoint speaks.\<close>

lemma checkTarget_gemini:
  "checkTarget m j c = Inr (provider, ''gemini'') \<Longrightarrow>
     InvalidField (GeminiEnvFromOptions (tmc_Options (tm_Config (mo_TargetModels m ! j)))) = []"
  by (auto simp: checkTarget_def typed_problem_def gemini_problem_def Let_def split: if_splits option.splits)

lemma buildTarget_fields:
  assumes "buildTarget tm p t r logging c = Some target"
  shows "fmlookup target ''route_type'' = Some (YStr r)"
    "\<exists>model. fmlookup target ''model'' = Some (YMap model) \<and> fmlookup model ''name'' = Some (YStr (tm_Name tm)) \<and>
       fmlookup model ''provider'' = Some (YStr (PluginProvider t)) \<and> fmlookup model ''model_alias'' = None"
    "fmlookup target ''auth'' = map_option YMap (resolveAuth (Some p) (tm_AllowAuthOverride tm))"
    "fmlookup target ''logging'' = map_option YMap logging"
  using assms
  by (auto simp: buildTarget_def Let_def set_opt_def setInt_def split: option.splits)

end
