(* ===== verification/Model_Aliases.thy ===== *)
theory Model_Aliases
  imports Model_Targets
begin

text \<open>
  The names a client selects a model by (\<open>src/convert/model.go\<close>): \<open>extractModelAliases\<close>, the ai_models
  entries of a pass (\<open>writeAIModels\<close> and its helpers) and the aliases claimed on a route.
\<close>

section \<open>Aliases of a model\<close>

fun split_duplicates :: "string list \<Rightarrow> string list \<Rightarrow> string list \<Rightarrow> string list \<times> string list" where
  "split_duplicates [] unique dupes = (unique, dupes)"
| "split_duplicates (v # vs) unique dupes =
     (if v \<in> set unique then split_duplicates vs unique (append_new dupes v)
      else split_duplicates vs (unique @ [v]) dupes)"

definition extractModelAliases :: "ConversionIssueSource \<Rightarrow> Model \<Rightarrow> converter \<Rightarrow> converter \<times> string list" where
  "extractModelAliases src m c =
     (case msc_Values (mrc_Model (moc_Route (mo_Config m))) of
        [] \<Rightarrow> (c, [mo_Name m])
      | values \<Rightarrow>
          case split_duplicates values [] [] of (unique, dupes) \<Rightarrow>
            (if dupes \<noteq> []
             then warn (src_at src [''config.route.model.values'']) ConfigFieldDropped
               (''model %q drops duplicate alias values in config.route.model.values: %s'',
                [mo_Name m, join '', '' dupes]) c
             else c, unique))"

section \<open>Entries of the ai_models table\<close>

record aiModelRow =
  ar_owner :: string
  ar_id :: string
  ar_labelTags :: "string list"
  ar_index :: nat

type_synonym ai_rows = "(string, aiModelRow) fmap"

definition no_row :: aiModelRow where
  "no_row = \<lparr>ar_owner = [], ar_id = [], ar_labelTags = [], ar_index = 0\<rparr>"

definition warnSharedAIModel ::
  "ConversionIssueSource \<Rightarrow> Model \<Rightarrow> string \<Rightarrow> string list \<Rightarrow> aiModelRow \<Rightarrow> converter \<Rightarrow> converter"
where
  "warnSharedAIModel src m alias labelTags got c =
     (let c = (if labelTags \<noteq> [] \<and> labelTags \<noteq> ar_labelTags got
               then warn (src_at src [''labels'']) ConfigFieldDropped
                 (''model %q shares the ai_models entry %q with model %q. The entry keeps the labels of model %q.'',
                  [mo_Name m, alias, ar_owner got, ar_owner got]) c else c)
      in if length (msc_Values (mrc_Model (moc_Route (mo_Config m)))) > 1
         then warn (src_at src [''config.route.model.values'']) ConfigFieldDropped
           (''model %q shares the ai_models entry %q with model %q. A revert gives %q its own model and does not restore the alias list of model %q.'',
            [mo_Name m, alias, ar_owner got, alias, mo_Name m]) c
         else c)"

definition write_row ::
  "ConversionIssueSource \<Rightarrow> Model \<Rightarrow> string list \<Rightarrow> string \<Rightarrow> ai_rows \<times> converter \<Rightarrow> ai_rows \<times> converter"
where
  "write_row src m owned alias s =
     (case s of (rows, c) \<Rightarrow>
        let labelTags = labelsToTags c (mo_Labels m);
            groupTag = (if length owned > 1 then [EncodeModelAliasGroup (hd owned)] else [])
        in (case fmlookup rows alias of
             Some existing \<Rightarrow> (rows, warnSharedAIModel src m alias labelTags existing c)
           | None \<Rightarrow>
               let row = \<lparr>ar_owner = mo_Name m, ar_id = (if alias = hd owned then mo_ID m else []),
                          ar_labelTags = labelTags, ar_index = length (doc_AIModels (cv_out c))\<rparr>
               in (fmupd alias row rows,
                   c\<lparr>cv_out := (cv_out c)\<lparr>doc_AIModels := doc_AIModels (cv_out c) @
                     [\<lparr>am_ID = ar_id row, am_Name = alias, am_Alias = [], am_Tags = labelTags @ groupTag\<rparr>]\<rparr>\<rparr>)))"

definition placeSharedID ::
  "ConversionIssueSource \<Rightarrow> Model \<Rightarrow> string list \<Rightarrow> ai_rows \<times> converter \<Rightarrow> ai_rows \<times> converter"
where
  "placeSharedID src m aliases s =
     (case s of (rows, c) \<Rightarrow>
        (case find (\<lambda>alias. ar_id (or_else (fmlookup rows alias) no_row) = []) aliases of
           Some alias \<Rightarrow>
             (let row = or_else (fmlookup rows alias) no_row; ms = doc_AIModels (cv_out c) in
              (fmupd alias (row\<lparr>ar_id := mo_ID m\<rparr>) rows,
               c\<lparr>cv_out := (cv_out c)\<lparr>doc_AIModels :=
                 ms[ar_index row := (ms ! ar_index row)\<lparr>am_ID := mo_ID m\<rparr>]\<rparr>\<rparr>))
         | None \<Rightarrow>
             (let row = or_else (fmlookup rows (hd aliases)) no_row in
              (rows, warn (src_at src [''id'']) ConfigFieldDropped
                 (''model %q shares the ai_models entry %q with model %q. The entry keeps the ID of model %q.'',
                  [mo_Name m, hd aliases, ar_owner row, ar_owner row]) c))))"

definition writeAIModels ::
  "ConversionIssueSource \<Rightarrow> Model \<Rightarrow> string list \<Rightarrow> ai_rows \<times> converter \<Rightarrow> ai_rows \<times> converter"
where
  "writeAIModels src m aliases s =
     (let owned = filter (\<lambda>alias. fmlookup (fst s) alias = None) aliases;
          s = fold (write_row src m owned) aliases s
      in if mo_ID m \<noteq> [] \<and> owned = [] then placeSharedID src m aliases s else s)"

section \<open>Aliases on a route\<close>

definition claim_alias ::
  "ConversionIssueSource \<Rightarrow> Model \<Rightarrow> string \<Rightarrow> string \<Rightarrow>
   (string, string) fmap \<times> (string \<times> string) list \<times> converter \<Rightarrow> (string, string) fmap \<times> (string \<times> string) list \<times> converter"
where
  "claim_alias src m routeName alias s =
     (case s of (owners, conflicts, c) \<Rightarrow>
       (case fmlookup owners alias of
          None \<Rightarrow> (fmupd alias (mo_Name m) owners, conflicts, c)
        | Some other \<Rightarrow>
            if (mo_Name m, alias) \<in> set conflicts then (owners, conflicts, c)
            else (owners, (mo_Name m, alias) # conflicts,
              warn (src_at src [if msc_Values (mrc_Model (moc_Route (mo_Config m))) \<noteq> []
                                then ''config.route.model.values'' else ''name'']) RoutingConflict
                (''model %q uses the alias %q on the route %q, but model %q already uses it there. Both models make plugins with the same route and ai_models scope.'',
                 [mo_Name m, alias, routeName, other]) c)))"

definition claimRouteAliases ::
  "ConversionIssueSource \<Rightarrow> Model \<Rightarrow> string \<Rightarrow> string list \<Rightarrow>
   (string, string) fmap \<times> (string \<times> string) list \<times> converter \<Rightarrow> (string, string) fmap \<times> (string \<times> string) list \<times> converter"
where
  "claimRouteAliases src m routeName aliases s = fold (claim_alias src m routeName) aliases s"

section \<open>Every alias is one entry\<close>

lemma split_duplicates_unique:
  "distinct unique \<Longrightarrow> distinct (fst (split_duplicates vs unique dupes)) \<and>
     set (fst (split_duplicates vs unique dupes)) = set unique \<union> set vs"
  by (induction vs unique dupes rule: split_duplicates.induct) auto

lemma extractModelAliases_step:
  "only_issues c (fst (extractModelAliases src m c))" "distinct (snd (extractModelAliases src m c))"
  "snd (extractModelAliases src m c) \<noteq> []"
  "set (snd (extractModelAliases src m c)) =
     (let vs = msc_Values (mrc_Model (moc_Route (mo_Config m))) in if vs = [] then {mo_Name m} else set vs)"
proof -
  let ?vs = "msc_Values (mrc_Model (moc_Route (mo_Config m)))"
  have split: "distinct (fst (split_duplicates ?vs [] [])) \<and> set (fst (split_duplicates ?vs [] [])) = set ?vs"
    using split_duplicates_unique [of "[]" ?vs "[]"] by simp
  then have "?vs \<noteq> [] \<Longrightarrow> fst (split_duplicates ?vs [] []) \<noteq> []" by (metis set_empty)
  with split show "only_issues c (fst (extractModelAliases src m c))" "distinct (snd (extractModelAliases src m c))"
    "snd (extractModelAliases src m c) \<noteq> []"
    "set (snd (extractModelAliases src m c)) = (let vs = ?vs in if vs = [] then {mo_Name m} else set vs)"
    by (auto simp: extractModelAliases_def Let_def split: list.split prod.split)
qed

text \<open>The invariant of the rows: each names its entry, entries and rows correspond, and each entry carries
  the ID of its row.\<close>

definition rows_inv :: "AIModel list \<Rightarrow> ai_rows \<Rightarrow> bool" where
  "rows_inv ms rows \<longleftrightarrow>
     distinct (map am_Name ms) \<and> (\<forall>e \<in> set ms. fmlookup rows (am_Name e) \<noteq> None) \<and>
     (\<forall>alias row. fmlookup rows alias = Some row \<longrightarrow>
        ar_index row < length ms \<and> am_Name (ms ! ar_index row) = alias \<and> am_ID (ms ! ar_index row) = ar_id row)"

lemma rows_inv_new:
  assumes "rows_inv ms rows" and "fmlookup rows alias = None" and "ar_index row = length ms"
  shows "rows_inv (ms @ [\<lparr>am_ID = ar_id row, am_Name = alias, am_Alias = [], am_Tags = tags\<rparr>]) (fmupd alias row rows)"
  using assms by (fastforce simp: rows_inv_def nth_append)

lemma rows_inv_id:
  assumes inv: "rows_inv ms rows" and row: "fmlookup rows alias = Some row"
  shows "rows_inv (ms[ar_index row := (ms ! ar_index row)\<lparr>am_ID := i\<rparr>]) (fmupd alias (row\<lparr>ar_id := i\<rparr>) rows)"
proof -
  let ?ms = "ms[ar_index row := (ms ! ar_index row)\<lparr>am_ID := i\<rparr>]"
  have ix: "ar_index row < length ms" "am_Name (ms ! ar_index row) = alias"
    using inv row by (auto simp: rows_inv_def)
  have names: "map am_Name ?ms = map am_Name ms"
    using ix by (intro nth_equalityI) (auto simp: nth_list_update)
  have other: "ar_index r \<noteq> ar_index row" if "fmlookup rows a = Some r" "a \<noteq> alias" for a r
    using inv that ix unfolding rows_inv_def by metis
  have defined: "fmlookup rows (am_Name e) \<noteq> None" if "e \<in> set ?ms" for e
  proof -
    have "am_Name e \<in> set (map am_Name ms)" using that names by (metis image_eqI list.set_map)
    then show ?thesis using inv by (auto simp: rows_inv_def)
  qed
  have pos: "ar_index r < length ?ms \<and> am_Name (?ms ! ar_index r) = a \<and> am_ID (?ms ! ar_index r) = ar_id r"
    if "fmlookup (fmupd alias (row\<lparr>ar_id := i\<rparr>) rows) a = Some r" for a r
  proof (cases "a = alias")
    case True
    then show ?thesis using that ix by auto
  next
    case False
    then have r: "fmlookup rows a = Some r" using that by simp
    with inv have "ar_index r < length ms \<and> am_Name (ms ! ar_index r) = a \<and> am_ID (ms ! ar_index r) = ar_id r"
      unfolding rows_inv_def by blast
    then show ?thesis using other [OF r False] by simp
  qed
  show ?thesis
    unfolding rows_inv_def names using inv defined pos by (auto simp: rows_inv_def)
qed

text \<open>What writing rows may change: the ai_models entries and the issues.\<close>

definition rows_frame :: "converter \<Rightarrow> converter \<Rightarrow> bool" where
  "rows_frame c c' \<longleftrightarrow> reports c c' \<and>
     (\<exists>ms es. c' = c\<lparr>cv_out := (cv_out c)\<lparr>doc_AIModels := ms\<rparr>, cv_issues := es\<rparr>)"

lemma rows_frame_trans:
  assumes "rows_frame a b" and "rows_frame b c"
  shows "rows_frame a c"
proof -
  obtain ms es ms' es' where b: "b = a\<lparr>cv_out := (cv_out a)\<lparr>doc_AIModels := ms\<rparr>, cv_issues := es\<rparr>"
    and c: "c = b\<lparr>cv_out := (cv_out b)\<lparr>doc_AIModels := ms'\<rparr>, cv_issues := es'\<rparr>"
    using assms unfolding rows_frame_def by blast
  have "c = a\<lparr>cv_out := (cv_out a)\<lparr>doc_AIModels := ms'\<rparr>, cv_issues := es'\<rparr>" by (simp add: c b)
  then show ?thesis using assms reports_trans [of a b c] unfolding rows_frame_def by blast
qed

lemma rows_frame_issues: "only_issues c c' \<Longrightarrow> rows_frame c c'"
proof -
  assume only: "only_issues c c'"
  then have "c' = c\<lparr>cv_issues := cv_issues c'\<rparr>" by (simp add: only_issues_def)
  then have "c' = c\<lparr>cv_out := (cv_out c)\<lparr>doc_AIModels := doc_AIModels (cv_out c)\<rparr>, cv_issues := cv_issues c'\<rparr>" by simp
  with only_issues_reports [OF only] show ?thesis unfolding rows_frame_def by blast
qed

lemma rows_frame_refl [simp]: "rows_frame c c"
  by (simp add: rows_frame_issues)

lemma rows_frame_out [simp]: "rows_frame c (c\<lparr>cv_out := (cv_out c)\<lparr>doc_AIModels := ms\<rparr>\<rparr>)"
proof -
  have "c\<lparr>cv_out := (cv_out c)\<lparr>doc_AIModels := ms\<rparr>\<rparr> =
      c\<lparr>cv_out := (cv_out c)\<lparr>doc_AIModels := ms\<rparr>, cv_issues := cv_issues c\<rparr>" by simp
  moreover have "reports c (c\<lparr>cv_out := (cv_out c)\<lparr>doc_AIModels := ms\<rparr>\<rparr>)" by (simp add: reports_def)
  ultimately show ?thesis unfolding rows_frame_def by blast
qed

lemma rows_frame_labels: "rows_frame c c' \<Longrightarrow> labelsToTags c' = labelsToTags c"
  unfolding rows_frame_def labelsToTags_def by (elim conjE exE) (simp add: fun_eq_iff)

text \<open>How a row may change: a new alias of the model gets a row of the model, the first of them with its ID.\<close>

definition rows_written :: "Model \<Rightarrow> string list \<Rightarrow> string list \<Rightarrow> ai_rows \<Rightarrow> ai_rows \<Rightarrow> bool" where
  "rows_written m owned aliases rows rows' \<longleftrightarrow>
     (\<forall>a r. fmlookup rows a = Some r \<longrightarrow> fmlookup rows' a = Some r) \<and>
     (\<forall>a. fmlookup rows a = None \<longrightarrow> (case fmlookup rows' a of
        None \<Rightarrow> a \<notin> set aliases
      | Some r \<Rightarrow> a \<in> set aliases \<and> ar_owner r = mo_Name m \<and> ar_id r = (if a = hd owned then mo_ID m else [])))"

lemma warnSharedAIModel_step [simp]: "only_issues a c \<Longrightarrow> only_issues a (warnSharedAIModel src m alias ls got c)"
  by (simp add: warnSharedAIModel_def Let_def)

lemma write_row_step:
  assumes "write_row src m owned alias (rows, c) = (rows', c')" and "rows_inv (doc_AIModels (cv_out c)) rows"
  shows "rows_frame c c'" "rows_inv (doc_AIModels (cv_out c')) rows'" "rows_written m owned [alias] rows rows'"
proof -
  have "rows_frame c c' \<and> rows_inv (doc_AIModels (cv_out c')) rows' \<and> rows_written m owned [alias] rows rows'"
  proof (cases "fmlookup rows alias")
    case None
    define row where "row = \<lparr>ar_owner = mo_Name m, ar_id = (if alias = hd owned then mo_ID m else []),
      ar_labelTags = labelsToTags c (mo_Labels m), ar_index = length (doc_AIModels (cv_out c))\<rparr>"
    have "rows' = fmupd alias row rows" "\<exists>tags. c' = c\<lparr>cv_out := (cv_out c)\<lparr>doc_AIModels := doc_AIModels (cv_out c) @
        [\<lparr>am_ID = ar_id row, am_Name = alias, am_Alias = [], am_Tags = tags\<rparr>]\<rparr>\<rparr>"
      using assms(1) by (auto simp: write_row_def None Let_def row_def)
    moreover have "rows_written m owned [alias] rows (fmupd alias row rows)"
      using None by (auto simp: rows_written_def row_def split: option.split)
    ultimately show ?thesis
      using rows_inv_new [OF assms(2) None, of row] by (auto simp: row_def)
  next
    case (Some r)
    then have rows: "rows' = rows" and only: "only_issues c c'"
      using assms(1) by (auto simp: write_row_def Let_def)
    have "rows_written m owned [alias] rows rows" using Some by (auto simp: rows_written_def)
    moreover have "cv_out c' = cv_out c" using only by (simp add: only_issues_iff)
    ultimately show ?thesis using rows assms(2) rows_frame_issues [OF only] by simp
  qed
  then show "rows_frame c c'" "rows_inv (doc_AIModels (cv_out c')) rows'" "rows_written m owned [alias] rows rows'"
    by blast+
qed

lemma write_rows_step:
  assumes "rows_inv (doc_AIModels (cv_out c)) rows"
  shows "case fold (write_row src m owned) aliases (rows, c) of (rows', c') \<Rightarrow>
    rows_frame c c' \<and> rows_inv (doc_AIModels (cv_out c')) rows' \<and> rows_written m owned aliases rows rows'"
  using assms
proof (induction aliases arbitrary: rows c)
  case Nil
  then show ?case by (auto simp: rows_written_def split: option.split)
next
  case (Cons x xs)
  obtain rows1 c1 where step: "write_row src m owned x (rows, c) = (rows1, c1)" by fastforce
  note one = write_row_step [OF step Cons.prems]
  obtain rows2 c2 where rest: "fold (write_row src m owned) xs (rows1, c1) = (rows2, c2)" by fastforce
  have two: "rows_frame c1 c2" "rows_inv (doc_AIModels (cv_out c2)) rows2" "rows_written m owned xs rows1 rows2"
    using Cons.IH [OF one(2)] by (simp_all add: rest)
  have "rows_written m owned (x # xs) rows rows2"
    unfolding rows_written_def
  proof (intro conjI allI impI)
    fix a r assume "fmlookup rows a = Some r"
    then show "fmlookup rows2 a = Some r" using one(3) two(3) by (simp add: rows_written_def)
  next
    fix a assume none: "fmlookup rows a = None"
    show "case fmlookup rows2 a of
        None \<Rightarrow> a \<notin> set (x # xs)
      | Some r \<Rightarrow> a \<in> set (x # xs) \<and> ar_owner r = mo_Name m \<and> ar_id r = (if a = hd owned then mo_ID m else [])"
    proof (cases "fmlookup rows1 a")
      case None
      have "case fmlookup rows1 a of None \<Rightarrow> a \<notin> set [x]
        | Some r \<Rightarrow> a \<in> set [x] \<and> ar_owner r = mo_Name m \<and> ar_id r = (if a = hd owned then mo_ID m else [])"
        using one(3) none unfolding rows_written_def by blast
      moreover have "case fmlookup rows2 a of None \<Rightarrow> a \<notin> set xs
        | Some r \<Rightarrow> a \<in> set xs \<and> ar_owner r = mo_Name m \<and> ar_id r = (if a = hd owned then mo_ID m else [])"
        using two(3) None unfolding rows_written_def by blast
      ultimately show ?thesis using None by (auto split: option.split)
    next
      case (Some r)
      have "case fmlookup rows1 a of None \<Rightarrow> a \<notin> set [x]
        | Some r \<Rightarrow> a \<in> set [x] \<and> ar_owner r = mo_Name m \<and> ar_id r = (if a = hd owned then mo_ID m else [])"
        using one(3) none unfolding rows_written_def by blast
      moreover have "fmlookup rows2 a = Some r" using two(3) Some by (simp add: rows_written_def)
      ultimately show ?thesis using Some by simp
    qed
  qed
  with rows_frame_trans [OF one(1) two(1)] two(2) show ?case by (simp add: step rest)
qed

lemma placeSharedID_step:
  assumes inv: "rows_inv (doc_AIModels (cv_out c)) rows" and rows: "\<forall>a \<in> set aliases. fmlookup rows a \<noteq> None"
    and res: "placeSharedID src m aliases (rows, c) = (rows', c')"
  shows "rows_frame c c'" "rows_inv (doc_AIModels (cv_out c')) rows'" "fmdom rows' = fmdom rows"
    "(\<exists>a \<in> set aliases. \<exists>r. fmlookup rows' a = Some r \<and> ar_id r = mo_ID m) \<or>
     (\<exists>i \<in> set (cv_issues c'). iss_Source i = src_at src [''id''])"
proof -
  let ?free = "find (\<lambda>alias. ar_id (or_else (fmlookup rows alias) no_row) = []) aliases"
  have "rows_frame c c' \<and> rows_inv (doc_AIModels (cv_out c')) rows' \<and> fmdom rows' = fmdom rows \<and>
    ((\<exists>a \<in> set aliases. \<exists>r. fmlookup rows' a = Some r \<and> ar_id r = mo_ID m) \<or>
     (\<exists>i \<in> set (cv_issues c'). iss_Source i = src_at src [''id'']))"
  proof (cases ?free)
    case None
    then have "rows' = rows" and c': "\<exists>r. c' = warn (src_at src [''id'']) ConfigFieldDropped r c"
      using res by (auto simp: placeSharedID_def Let_def)
    then obtain r where r: "c' = warn (src_at src [''id'']) ConfigFieldDropped r c" by blast
    have "\<exists>i \<in> set (cv_issues c'). iss_Source i = src_at src [''id'']"
      unfolding r warn_def by (rule bexI [OF _ report_recorded]) simp
    with \<open>rows' = rows\<close> inv r show ?thesis by (simp add: rows_frame_issues)
  next
    case (Some a)
    then have "a \<in> set aliases" by (auto dest: find_in_set)
    with rows obtain row where row: "fmlookup rows a = Some row" by blast
    have rows': "rows' = fmupd a (row\<lparr>ar_id := mo_ID m\<rparr>) rows" and
      c': "c' = c\<lparr>cv_out := (cv_out c)\<lparr>doc_AIModels := (doc_AIModels (cv_out c))
        [ar_index row := (doc_AIModels (cv_out c) ! ar_index row)\<lparr>am_ID := mo_ID m\<rparr>]\<rparr>\<rparr>"
      using res Some row by (auto simp: placeSharedID_def Let_def)
    have "fmdom rows' = fmdom rows" using row by (auto simp: rows' fmdom_notI dest: fmdomI)
    with rows_inv_id [OF inv row, of "mo_ID m"] \<open>a \<in> set aliases\<close> show ?thesis
      by (auto simp: c' rows')
  qed
  then show "rows_frame c c'" "rows_inv (doc_AIModels (cv_out c')) rows'" "fmdom rows' = fmdom rows"
    "(\<exists>a \<in> set aliases. \<exists>r. fmlookup rows' a = Some r \<and> ar_id r = mo_ID m) \<or>
     (\<exists>i \<in> set (cv_issues c'). iss_Source i = src_at src [''id''])" by blast+
qed

lemma writeAIModels_step:
  assumes "rows_inv (doc_AIModels (cv_out c)) rows" and "distinct aliases" and "aliases \<noteq> []"
  shows "case writeAIModels src m aliases (rows, c) of (rows', c') \<Rightarrow>
    rows_frame c c' \<and> rows_inv (doc_AIModels (cv_out c')) rows' \<and>
    (\<forall>a. fmlookup rows' a = None \<longleftrightarrow> fmlookup rows a = None \<and> a \<notin> set aliases) \<and>
    (mo_ID m = [] \<or>
     (\<exists>a \<in> set aliases. \<exists>e \<in> set (doc_AIModels (cv_out c')). am_Name e = a \<and> am_ID e = mo_ID m) \<or>
     (\<exists>i \<in> set (cv_issues c'). iss_Source i = src_at src [''id'']))"
proof -
  define owned where "owned = filter (\<lambda>a. fmlookup rows a = None) aliases"
  obtain rows1 c1 where fold: "fold (write_row src m owned) aliases (rows, c) = (rows1, c1)" by fastforce
  have one: "rows_frame c c1" "rows_inv (doc_AIModels (cv_out c1)) rows1" "rows_written m owned aliases rows rows1"
    using write_rows_step [OF assms(1), where src = src and m = m and owned = owned and aliases = aliases] by (simp_all add: fold)
  have entry: "\<exists>e \<in> set (doc_AIModels (cv_out d)). am_Name e = a \<and> am_ID e = i"
    if "rows_inv (doc_AIModels (cv_out d)) rs" "fmlookup rs a = Some r" "ar_id r = i" for d rs a r i
    using that unfolding rows_inv_def by (metis nth_mem)
  have dom: "fmlookup rows1 a = None \<longleftrightarrow> fmlookup rows a = None \<and> a \<notin> set aliases" for a
  proof (cases "fmlookup rows a")
    case None
    then have "case fmlookup rows1 a of None \<Rightarrow> a \<notin> set aliases
      | Some r \<Rightarrow> a \<in> set aliases \<and> ar_owner r = mo_Name m \<and> ar_id r = (if a = hd owned then mo_ID m else [])"
      using one(3) unfolding rows_written_def by blast
    then show ?thesis using None by (auto split: option.splits)
  next
    case (Some r)
    then show ?thesis using one(3) by (auto simp: rows_written_def)
  qed
  show ?thesis
  proof (cases "mo_ID m \<noteq> [] \<and> owned = []")
    case False
    then have res: "writeAIModels src m aliases (rows, c) = (rows1, c1)"
      unfolding writeAIModels_def fst_conv owned_def [symmetric] Let_def fold by (rule if_not_P)
    have "\<exists>a \<in> set aliases. \<exists>r. fmlookup rows1 a = Some r \<and> ar_id r = mo_ID m" if "owned \<noteq> []"
    proof -
      have hd: "hd owned \<in> set aliases" "fmlookup rows (hd owned) = None"
        using hd_in_set [OF that] by (simp_all add: owned_def)
      have "case fmlookup rows1 (hd owned) of None \<Rightarrow> hd owned \<notin> set aliases
        | Some r \<Rightarrow> hd owned \<in> set aliases \<and> ar_owner r = mo_Name m \<and>
            ar_id r = (if hd owned = hd owned then mo_ID m else [])"
        using one(3) hd(2) unfolding rows_written_def by blast
      with hd(1) show ?thesis by (auto split: option.splits)
    qed
    with False entry [OF one(2)] one(1,2) dom show ?thesis unfolding res prod.case by blast
  next
    case True
    obtain rows2 c2 where place: "placeSharedID src m aliases (rows1, c1) = (rows2, c2)" by fastforce
    then have res: "writeAIModels src m aliases (rows, c) = (rows2, c2)"
      using True unfolding writeAIModels_def fst_conv owned_def [symmetric] Let_def fold by simp
    have all: "\<forall>a \<in> set aliases. fmlookup rows1 a \<noteq> None" using dom by blast
    note two = placeSharedID_step [OF one(2) all place]
    have "fmlookup rows2 a = None \<longleftrightarrow> fmlookup rows1 a = None" for a
      using two(3) by (metis fmdom_notD fmdom_notI)
    with dom have dom2: "fmlookup rows2 a = None \<longleftrightarrow> fmlookup rows a = None \<and> a \<notin> set aliases" for a
      by simp
    have "(\<exists>a \<in> set aliases. \<exists>e \<in> set (doc_AIModels (cv_out c2)). am_Name e = a \<and> am_ID e = mo_ID m) \<or>
      (\<exists>i \<in> set (cv_issues c2). iss_Source i = src_at src [''id''])"
      using two(4)
    proof
      assume "\<exists>a \<in> set aliases. \<exists>r. fmlookup rows2 a = Some r \<and> ar_id r = mo_ID m"
      then show ?thesis using entry [OF two(2)] by blast
    qed simp
    then show ?thesis
      unfolding res prod.case by (intro conjI allI rows_frame_trans [OF one(1) two(1)] two(2) dom2) (erule disjI2)
  qed
qed


definition aliased_model :: "string list \<Rightarrow> Model" where
  "aliased_model values = sample_model\<lparr>mo_ID := ''id'', mo_Config := (mo_Config sample_model)\<lparr>
     moc_Route := (moc_Route (mo_Config sample_model))\<lparr>mrc_Model :=
       (mrc_Model (moc_Route (mo_Config sample_model)))\<lparr>msc_Values := values\<rparr>\<rparr>\<rparr>\<rparr>"


end
