(* ===== verification/Model_Pass.thy ===== *)
theory Model_Pass
  imports Model_Aliases Routing_Lint
begin

text \<open>
  The state that the models of one conversion pass share (\<open>src/convert/model.go\<close>: \<open>routeGroup\<close>,
  \<open>proxyGroup\<close>, \<open>modelPass\<close>), the names of generated routes, and the helpers that read the state.

  A Go map that is read by key and listed in a separate order slice is an association list in that order.
  The keys that the code builds as texts (route groups, matchers, the pairs already warned about) are
  tuples of their parts: the texts are only compared.
\<close>

section \<open>Route names\<close>

definition numbered :: "string \<Rightarrow> nat \<Rightarrow> string" where
  "numbered base n = base @ ''-'' @ dec n"

lemma numbered_inject [simp]: "numbered base m = numbered base n \<longleftrightarrow> m = n"
  by (simp add: numbered_def dec_inject)

definition taken_from :: "string \<Rightarrow> string list \<Rightarrow> nat \<Rightarrow> nat set" where
  "taken_from base used n = {k. n \<le> k \<and> numbered base k \<in> set used}"

lemma finite_taken: "finite (taken_from base used n)"
proof -
  have "finite (numbered base ` taken_from base used n)"
    by (rule finite_subset [of _ "set used"]) (auto simp: taken_from_def)
  then show ?thesis by (rule finite_imageD) (simp add: inj_on_def)
qed

text \<open>The loop \<open>for n := 2; ; n++\<close>.  It ends because each number that is taken is used up.\<close>

function first_free :: "string \<Rightarrow> string list \<Rightarrow> nat \<Rightarrow> string" where
  "first_free base used n =
     (if numbered base n \<in> set used then first_free base used (Suc n) else numbered base n)"
  by pat_completeness auto

termination first_free
proof (relation "measure (\<lambda>(base, used, n). card (taken_from base used n))")
  fix base used n assume "numbered base n \<in> set used"
  then have "n \<in> taken_from base used n" "n \<notin> taken_from base used (Suc n)" by (simp_all add: taken_from_def)
  moreover have "taken_from base used (Suc n) \<subseteq> taken_from base used n" by (auto simp: taken_from_def)
  ultimately have "taken_from base used (Suc n) \<subset> taken_from base used n" by blast
  then show "((base, used, Suc n), base, used, n) \<in> measure (\<lambda>(base, used, n). card (taken_from base used n))"
    by (simp add: psubset_card_mono finite_taken)
qed simp

declare first_free.simps [simp del]

definition uniqueModelRouteName :: "string \<Rightarrow> string list \<Rightarrow> string \<times> string list" where
  "uniqueModelRouteName base used =
     (let name = (if base \<in> set used then first_free base used 2 else base) in (name, name # used))"

lemma first_free_spec:
  "\<exists>k \<ge> n. first_free base used n = numbered base k \<and> numbered base k \<notin> set used \<and>
     (\<forall>j. n \<le> j \<and> j < k \<longrightarrow> numbered base j \<in> set used)"
proof (induction base used n rule: first_free.induct)
  case (1 base used n)
  show ?case
  proof (cases "numbered base n \<in> set used")
    case True
    from 1 [OF True] obtain k where k: "k \<ge> Suc n" "first_free base used (Suc n) = numbered base k"
      "numbered base k \<notin> set used" "\<forall>j. Suc n \<le> j \<and> j < k \<longrightarrow> numbered base j \<in> set used" by blast
    have "numbered base j \<in> set used" if "n \<le> j" "j < k" for j
      using that k(4) True by (cases "j = n") auto
    with k True show ?thesis by (intro exI [of _ k]) (simp add: first_free.simps [of base used n])
  next
    case False
    then show ?thesis by (intro exI [of _ n]) (auto simp: first_free.simps [of base used n])
  qed
qed

lemma uniqueModelRouteName_spec:
  "case uniqueModelRouteName base used of (name, used') \<Rightarrow>
     name \<notin> set used \<and> used' = name # used \<and>
     (if base \<notin> set used then name = base
      else \<exists>k. name = numbered base k \<and> 2 \<le> k \<and> k \<le> Suc (length used) \<and>
             (\<forall>j. 2 \<le> j \<and> j < k \<longrightarrow> numbered base j \<in> set used))"
proof (cases "base \<in> set used")
  case True
  obtain k where k: "2 \<le> k" "first_free base used 2 = numbered base k" "numbered base k \<notin> set used"
    "\<forall>j. 2 \<le> j \<and> j < k \<longrightarrow> numbered base j \<in> set used"
    using first_free_spec [of 2 base used] by blast
  have "insert base (numbered base ` {2..<k}) \<subseteq> set used" using k(4) True by auto
  then have "card (insert base (numbered base ` {2..<k})) \<le> card (set used)" by (simp add: card_mono)
  moreover have "base \<notin> numbered base ` {2..<k}" by (auto simp: numbered_def)
  ultimately have "Suc (card {2..<k}) \<le> card (set used)" by (simp add: card_image inj_on_def)
  then have "k \<le> Suc (length used)" using card_length [of used] k(1) by simp
  with k True show ?thesis by (auto simp: uniqueModelRouteName_def Let_def)
qed (simp add: uniqueModelRouteName_def Let_def)

lemma uniqueModelRouteName_step:
  "fst (uniqueModelRouteName base used) \<notin> set used" "snd (uniqueModelRouteName base used) = fst (uniqueModelRouteName base used) # used"
  using uniqueModelRouteName_spec [where base = base and used = used] by (simp_all add: prod.case_eq_if)

text \<open>C39: The search for a route name ends: the name is new, it is the base itself when that is free and else
  the base with the least free number from 2 on, and that number is at most one more than the number of
  names used so far.\<close>

theorem unique_route_name:
  "case uniqueModelRouteName base used of (name, used') \<Rightarrow>
     name \<notin> set used \<and> used' = name # used \<and>
     (if base \<notin> set used then name = base
      else \<exists>k. name = numbered base k \<and> 2 \<le> k \<and> k \<le> Suc (length used) \<and>
             (\<forall>j. 2 \<le> j \<and> j < k \<longrightarrow> numbered base j \<in> set used))"
  by (rule uniqueModelRouteName_spec)

theorem unique_route_name_witness:
  "uniqueModelRouteName ''openai-chat'' [''openai-chat-2'', ''openai-chat''] =
     (''openai-chat-3'', [''openai-chat-3'', ''openai-chat-2'', ''openai-chat'']) \<and>
   fst (uniqueModelRouteName ''openai-chat'' [''openai-chat-2'', ''openai-chat'']) \<notin> {''openai-chat-2'', ''openai-chat''}"
proof
  have two: "numbered ''openai-chat'' 2 = ''openai-chat-2''" "numbered ''openai-chat'' 3 = ''openai-chat-3''" by code_simp+
  show "uniqueModelRouteName ''openai-chat'' [''openai-chat-2'', ''openai-chat''] =
     (''openai-chat-3'', [''openai-chat-3'', ''openai-chat-2'', ''openai-chat''])"
    by (simp add: uniqueModelRouteName_def Let_def first_free.simps [of _ _ 2] first_free.simps [of _ _ 3] two)
  show "fst (uniqueModelRouteName ''openai-chat'' [''openai-chat-2'', ''openai-chat'']) \<notin> {''openai-chat-2'', ''openai-chat''}"
    using unique_route_name [where base = "''openai-chat''" and used = "[''openai-chat-2'', ''openai-chat'']"]
    by (simp add: prod.case_eq_if)
qed

section \<open>Keys\<close>

definition authStrategyKey :: "string list \<Rightarrow> string" where
  "authStrategyKey refs = join [CHR 0x00] (sort (remdups refs))"

text \<open>References without an empty name or the separator: the key determines the set of strategies.\<close>

definition plain_refs :: "string list \<Rightarrow> bool" where
  "plain_refs refs \<longleftrightarrow> (\<forall>r \<in> set refs. r \<noteq> [] \<and> CHR 0x00 \<notin> set r)"

lemma join_head:
  assumes "c \<notin> set x"
  shows "takeWhile (\<lambda>d. d \<noteq> c) (join [c] (x # xs)) = x"
    "dropWhile (\<lambda>d. d \<noteq> c) (join [c] (x # xs)) = (if xs = [] then [] else c # join [c] xs)"
proof -
  have all: "\<forall>d \<in> set x. d \<noteq> c" using assms by metis
  show "takeWhile (\<lambda>d. d \<noteq> c) (join [c] (x # xs)) = x"
    using all by (cases xs) (simp_all add: takeWhile_append2)
  show "dropWhile (\<lambda>d. d \<noteq> c) (join [c] (x # xs)) = (if xs = [] then [] else c # join [c] xs)"
    using all by (cases xs) (simp_all add: dropWhile_append2)
qed

lemma join_inject:
  assumes "\<forall>x \<in> set xs. x \<noteq> [] \<and> c \<notin> set x" and "\<forall>y \<in> set ys. y \<noteq> [] \<and> c \<notin> set y"
    and "join [c] xs = join [c] ys"
  shows "xs = ys"
  using assms
proof (induction xs arbitrary: ys)
  case Nil
  then show ?case by (cases ys rule: remdups_adj.cases) auto
next
  case (Cons x xs)
  show ?case
  proof (cases ys)
    case Nil
    then show ?thesis using Cons.prems by (cases xs) auto
  next
    case (Cons y zs)
    have "x = y" using Cons.prems join_head(1) [of c x xs] join_head(1) [of c y zs] Cons by simp
    moreover have "(if xs = [] then [] else c # join [c] xs) = (if zs = [] then [] else c # join [c] zs)"
      using Cons.prems join_head(2) [of c x xs] join_head(2) [of c y zs] Cons by simp
    then have "join [c] xs = join [c] zs" by (auto split: if_splits)
    then have "xs = zs" by (rule Cons.IH [rotated 2]) (use Cons.prems Cons in auto)
    ultimately show ?thesis using Cons by simp
  qed
qed

lemma authStrategyKey_set:
  assumes "plain_refs a" and "plain_refs b"
  shows "authStrategyKey a = authStrategyKey b \<longleftrightarrow> set a = set b"
proof
  assume "authStrategyKey a = authStrategyKey b"
  then have "sort (remdups a) = sort (remdups b)"
    using assms unfolding authStrategyKey_def plain_refs_def by (intro join_inject) auto
  then have "set (sort (remdups a)) = set (sort (remdups b))" by simp
  then show "set a = set b" by simp
next
  assume "set a = set b"
  then show "authStrategyKey a = authStrategyKey b"
    unfolding authStrategyKey_def by (metis sorted_list_of_set_sort_remdups)
qed

definition no_model_selector :: ModelSelectorConfig where
  "no_model_selector = \<lparr>msc_Values = [], msc_BodyParam = [], msc_HeaderParam = [], msc_PathParam = []\<rparr>"

definition modelRouteConfigKey :: "ModelRouteConfig \<Rightarrow> ModelRouteConfig" where
  "modelRouteConfigKey route = route\<lparr>mrc_Model := no_model_selector\<rparr>"

definition passthroughMatcherKey :: "string \<Rightarrow> ModelRouteConfig \<Rightarrow> RouteConfig" where
  "passthroughMatcherKey b route =
     empty_route\<lparr>rt_Paths := [b], rt_Hosts := rt_Hosts route, rt_Methods := rt_Methods route,
       rt_Protocols := rt_Protocols route, rt_Headers := rt_Headers route, rt_SNIs := rt_SNIs route,
       rt_Sources := rt_Sources route, rt_Destinations := rt_Destinations route\<rparr>"

record routeKey =
  rk_section :: string
  rk_label :: string
  rk_mantle :: bool
  rk_identity :: string
  rk_config :: ModelRouteConfig
  rk_model :: "string option"

definition basePaths :: "Model \<Rightarrow> string list" where
  "basePaths m =
     (let paths = filter (\<lambda>p. p \<noteq> []) (rt_Paths (moc_Route (mo_Config m))) in
      if paths = [] then [''/''] else paths)"

end
