(* ===== verification/Model_Groups.thy ===== *)
theory Model_Groups
  imports Model_Pass "HOL-Library.AList"
begin

text \<open>
  The state that the models of one pass share (\<open>src/convert/model.go\<close>: \<open>proxyGroup\<close>, \<open>routeGroup\<close>,
  \<open>modelPass\<close>), with the operations that change or read one group: joining a route, merging targets,
  selector conflicts, the config of an ai-proxy-advanced plugin, and the ordering of a selector.

  The code keys the route groups and the proxies of a group by a text and keeps their order beside the map;
  here both are association lists in that order.  A model is known to the pass by its index, as the code
  knows it by its address.  Two targets are the same when their JSON texts are; here, when they are equal.
\<close>

section \<open>State\<close>

record proxyGroup =
  pg_routeName :: string
  pg_aliases :: "string list"
  pg_realtimeModel :: string
  pg_llmFormat :: string
  pg_genaiCategory :: string
  pg_balancer :: ymap
  pg_vectordb :: "yval option"
  pg_datastoreName :: string
  pg_tokenVault :: "ymap option"
  pg_embeddings :: "yval option"
  pg_responseStreaming :: string
  pg_modelNameHeader :: "bool option"
  pg_maxBodySize :: "int option"
  pg_proxy :: "ymap option"
  pg_targets :: "ymap list"
  pg_targetSources :: "TargetSource list"
  pg_source :: "Source option"

record routeGroup =
  rg_route :: Route
  rg_websocket :: bool
  rg_selectors :: selectors
  rg_proxies :: "(string \<times> proxyGroup) list"
  rg_models :: "string list"
  rg_selectorShapes :: "(string, ymap list) fmap"
  rg_aliasOwners :: "(string, string) fmap"

record modelPolicyRef =
  mpr_model :: string
  mpr_field :: string

record modelPass =
  mp_groups :: "(routeKey \<times> routeGroup) list"
  mp_guardPlugins :: "Plugin list"
  mp_usedRouteNames :: "string list"
  mp_passthroughMatchers :: "(RouteConfig \<times> string) list"
  mp_identityPluginSeen :: "(string \<times> string) list"
  mp_websocketRoutes :: "(string, string list) fmap"
  mp_selectorBefore :: "(string, string list) fmap"
  mp_selectorAfter :: "(string, string list) fmap"
  mp_requestTerminations :: "(string, modelPolicyRef list) fmap"
  mp_aiModelRows :: ai_rows
  mp_selectorConflicts :: "(string \<times> string) list"
  mp_aliasConflicts :: "(string \<times> string) list"
  mp_skipped :: "(nat, ConversionIssue list) fmap"
  mp_tokenVaults :: "(nat, ymap option) fmap"

definition new_pass :: "(nat, ConversionIssue list) fmap \<Rightarrow> modelPass" where
  "new_pass skipped = \<lparr>mp_groups = [], mp_guardPlugins = [], mp_usedRouteNames = [], mp_passthroughMatchers = [],
     mp_identityPluginSeen = [], mp_websocketRoutes = fmempty, mp_selectorBefore = fmempty,
     mp_selectorAfter = fmempty, mp_requestTerminations = fmempty, mp_aiModelRows = fmempty,
     mp_selectorConflicts = [], mp_aliasConflicts = [], mp_skipped = skipped, mp_tokenVaults = fmempty\<rparr>"

text \<open>The slice of a key, nil when there is none, and an append that keeps it free of repetitions.\<close>

definition slice_of :: "('k, 'a list) fmap \<Rightarrow> 'k \<Rightarrow> 'a list" where
  "slice_of m k = or_else (fmlookup m k) []"

definition add_slice :: "'k \<Rightarrow> 'a \<Rightarrow> ('k, 'a list) fmap \<Rightarrow> ('k, 'a list) fmap" where
  "add_slice k x m = (if x \<in> set (slice_of m k) then m else fmupd k (slice_of m k @ [x]) m)"

section \<open>Targets of a proxy\<close>

definition set_any :: "string \<Rightarrow> yval option \<Rightarrow> ymap \<Rightarrow> ymap" where
  "set_any k v m = (if is_nil v then m else fmupd k (or_else v YNull) m)"

definition proxyConfig :: "proxyGroup \<Rightarrow> ymap" where
  "proxyConfig g =
     (let cfg = fmap_of_list [(''balancer'', YMap (pg_balancer g)), (''llm_format'', YStr (pg_llmFormat g)),
                 (''genai_category'', YStr (pg_genaiCategory g)), (''targets'', YMaps (pg_targets g))];
          cfg = set_any ''vectordb'' (pg_vectordb g) cfg;
          cfg = set_any ''embeddings'' (pg_embeddings g) cfg;
          cfg = (if pg_responseStreaming g \<noteq> [] then fmupd ''response_streaming'' (YStr (pg_responseStreaming g)) cfg else cfg);
          cfg = set_opt cfg ''model_name_header'' (map_option YBool (pg_modelNameHeader g));
          cfg = set_opt cfg ''max_request_body_size'' (map_option YInt (pg_maxBodySize g))
      in set_opt cfg ''proxy_config'' (map_option YMap (pg_proxy g)))"

definition add_capability :: "string \<Rightarrow> TargetSource \<Rightarrow> TargetSource" where
  "add_capability capability s =
     (if capability \<noteq> [] \<and> capability \<notin> set (ts_Capabilities s)
      then s\<lparr>ts_Capabilities := ts_Capabilities s @ [capability]\<rparr> else s)"

definition add_target :: "string \<Rightarrow> nat \<Rightarrow> string \<Rightarrow> ymap \<Rightarrow> proxyGroup \<Rightarrow> proxyGroup" where
  "add_target model j capability target pg =
     (case findi (\<lambda>t. t = target) (pg_targets pg) of
        Some (i, _) \<Rightarrow>
          pg\<lparr>pg_targetSources := (pg_targetSources pg)[i := add_capability capability (pg_targetSources pg ! i)]\<rparr>
      | None \<Rightarrow>
          pg\<lparr>pg_targets := pg_targets pg @ [target],
             pg_targetSources := pg_targetSources pg @
               [\<lparr>ts_ModelName = model, ts_ModelTargetIndex = j,
                 ts_Capabilities = (if capability \<noteq> [] then [capability] else [])\<rparr>]\<rparr>)"

text \<open>The token-vault-exchange plugin of a proxy, with the proxy's scope.\<close>

definition emit_plugins :: "Plugin list \<Rightarrow> converter \<Rightarrow> converter" where
  "emit_plugins ps c = c\<lparr>cv_out := (cv_out c)\<lparr>doc_Plugins := doc_Plugins (cv_out c) @ ps\<rparr>\<rparr>"

definition appendTokenVaultExchange :: "proxyGroup \<Rightarrow> string option \<Rightarrow> converter \<Rightarrow> converter" where
  "appendTokenVaultExchange pg model c =
     (case pg_tokenVault pg of
        None \<Rightarrow> c
      | Some cfg \<Rightarrow>
          emit_plugins [empty_plugin\<lparr>pl_Name := tokenVaultExchangePlugin, pl_Route := Some (pg_routeName pg),
            pl_Model := model, pl_Config := cfg,
            pl_Source := source kindModel (case pg_source pg of None \<Rightarrow> [] | Some s \<Rightarrow> src_EntityName s) ''targets'' []\<rparr>] c)"

section \<open>Selectors on a shared route\<close>

definition selector_pair ::
  "ConversionIssueSource \<Rightarrow> routeGroup \<Rightarrow> string \<Rightarrow> ymap list \<Rightarrow> string \<Rightarrow>
   (string \<times> string) list \<times> converter \<Rightarrow> (string \<times> string) list \<times> converter"
where
  "selector_pair src g model shapes other s =
     (case s of (conflicts, c) \<Rightarrow>
        let otherShapes = slice_of (rg_selectorShapes g) other in
        if other = model \<or> otherShapes = [] \<or> set otherShapes = set shapes \<or> (other, model) \<in> set conflicts
        then (conflicts, c)
        else ((other, model) # conflicts,
              warn (src_at src [''config.route.model'']) RoutingConflict
                (''model %q and model %q share the route %q, but read the model name from different sources. The order of the ai-model-selector sources decides the model for a request that names a model in more than one source.'',
                 [model, other, rt_Name (rg_route g)]) c))"

definition checkSelectorConflict ::
  "ConversionIssueSource \<Rightarrow> routeGroup \<Rightarrow> string \<Rightarrow> ymap option list \<Rightarrow> (string \<times> string) list \<times> converter \<Rightarrow>
   routeGroup \<times> (string \<times> string) list \<times> converter"
where
  "checkSelectorConflict src g model cfgs s =
     (let shapes = selectorShapes cfgs in
      if shapes = [] then (g, s)
      else let g = g\<lparr>rg_selectorShapes := fmupd model shapes (rg_selectorShapes g)\<rparr>
           in (g, fold (selector_pair src g model shapes) (rg_models g) s))"

definition warnModelScopedRequestTermination :: "string \<Rightarrow> modelPolicyRef list \<Rightarrow> converter \<Rightarrow> converter" where
  "warnModelScopedRequestTermination routeName refs c =
     fold (\<lambda>ref c. warn (src_at (issueSource kindModel (mpr_model ref)) [mpr_field ref]) BehaviorMayDiffer
       (''route %q: ordering moves request-termination before ai-model-selector. A model-scoped request-termination policy on this route never runs. Scope the policy to the route or globally instead.'',
        [routeName]) c) refs c"

definition selectorOrdering :: "modelPass \<Rightarrow> string \<Rightarrow> converter \<Rightarrow> converter \<times> Ordering option" where
  "selectorOrdering st routeName c =
     (let earlier = slice_of (mp_selectorBefore st) routeName; after = slice_of (mp_selectorAfter st) routeName in
      if earlier = [] then (c, None)
      else if after = [] then (c, Some \<lparr>ord_Before = Some earlier, ord_After = None\<rparr>)
      else (if ''request-termination'' \<in> set after
            then warnModelScopedRequestTermination routeName (slice_of (mp_requestTerminations st) routeName) c
            else c, Some \<lparr>ord_Before = Some earlier, ord_After = Some after\<rparr>))"

section \<open>Plugins of policies\<close>

text \<open>\<open>customPolicyPriority\<close> (\<open>custom_policy.go\<close>) reads the number of the first \<open>PRIORITY = n\<close>.\<close>

definition re_space :: "char \<Rightarrow> bool" where
  "re_space ch = ((of_char ch :: nat) \<in> {9, 10, 12, 13, 32})"

definition priority_here :: "string \<Rightarrow> string option" where
  "priority_here s =
     (case CutPrefix s ''PRIORITY'' of
        None \<Rightarrow> None
      | Some r \<Rightarrow>
          (case CutPrefix (dropWhile re_space r) ''='' of
             None \<Rightarrow> None
           | Some r \<Rightarrow>
               let r = dropWhile re_space r; sign = (if HasPrefix r ''-'' then ''-'' else []);
                   digits = takeWhile is_digit (TrimPrefix r ''-'')
               in if digits = [] then None else Some (sign @ digits)))"

definition luaPriority :: "string \<Rightarrow> string option" where
  "luaPriority s =
     (case find (\<lambda>i. priority_here (drop i s) \<noteq> None) [0..<length s] of
        None \<Rightarrow> None | Some i \<Rightarrow> priority_here (drop i s))"

definition signed_Atoi :: "string \<Rightarrow> int option" where
  "signed_Atoi s =
     (if HasPrefix s ''-'' then
        (let n = int (digits_val (tl s)) in if n \<le> max_int + 1 then Some (- n) else None)
      else Atoi s)"

definition customPolicyPriority :: "string \<Rightarrow> converter \<Rightarrow> int option" where
  "customPolicyPriority pluginName c =
     (case find (\<lambda>cp. cup_Name cp = pluginName \<and> cup_Type cp = ''streaming'' \<and> cup_Handler cp \<noteq> [])
             (sd_CustomPolicies (cn_src c)) of
        None \<Rightarrow> None
      | Some cp \<Rightarrow> (case luaPriority (cup_Handler cp) of None \<Rightarrow> None | Some digits \<Rightarrow> signed_Atoi digits))"

definition scopedPluginField :: "string list \<Rightarrow> Plugin \<Rightarrow> string" where
  "scopedPluginField refs p =
     (case pl_Source p of
        None \<Rightarrow> ''access.acls''
      | Some s \<Rightarrow>
          (if src_EntityType s = ''policy'' then
             (case findi (\<lambda>r. r = src_EntityName s) refs of
                Some (i, _) \<Rightarrow> at ''policies'' i | None \<Rightarrow> ''access.acls'')
           else ''access.acls''))"

definition needsAnonymousFallback :: "Plugin list \<Rightarrow> bool" where
  "needsAnonymousFallback idpPlugins = (length idpPlugins > 1)"

definition reads_prompt :: "Policy \<Rightarrow> bool" where
  "reads_prompt policy =
     (po_Type policy \<in> set PromptReadingPolicies \<or>
      po_Type policy = ''ai-sanitizer'' \<and> SanitizerAnonymizesCredentials (po_Config policy))"

definition warnPassthroughPolicies :: "ConversionIssueSource \<Rightarrow> Model \<Rightarrow> converter \<Rightarrow> converter" where
  "warnPassthroughPolicies src m c =
     fold (\<lambda>ref c.
       case fmlookup (cn_policies c) ref of
         None \<Rightarrow> c
       | Some policy \<Rightarrow>
           (if \<not> reads_prompt policy then c
            else warn (src_at src (case findi (\<lambda>r. r = ref) (mo_Policies m) of
                                     Some (i, _) \<Rightarrow> [at ''policies'' i] | None \<Rightarrow> [])) BehaviorMayDiffer
              (''model %q uses the passthrough format, so policy %q (%s) may not work properly: the body reaches the provider unchanged, in the provider's own shape'',
               [mo_Name m, ref, po_Type policy]) c))
       (fold (\<lambda>p refs. if is_global p then append_new refs (po_Name p) else refs)
          (sd_Policies (cn_src c)) (mo_Policies m)) c"

definition buildVideoLifecycleRoute :: "ModelRouteConfig \<Rightarrow> string \<Rightarrow> string list \<Rightarrow> Route" where
  "buildVideoLifecycleRoute rc routeName bases =
     (let paths = map (\<lambda>base. TrimRight base CHR ''/'' @ ''/videos'') bases;
          route = buildModelRoute (rc\<lparr>rt_Methods := []\<rparr>) routeName paths [''GET'', ''DELETE''] False
      in route\<lparr>rt_Tags := rt_Tags route @ [VideoLifecycleRouteTag]\<rparr>)"

end
