(* ===== verification/Model_Routing.thy ===== *)
theory Model_Routing
  imports Model_Groups
begin

text \<open>
  One model joins the routes of the pass (\<open>convertModel\<close> of \<open>src/convert/model.go\<close>).  The function is one
  long body; its parts are the definitions here, in the order of the body: the checks before the targets,
  the plan of the targets, the pairs of endpoints, and the loop over the pairs, whose body finds or makes the
  route group and the proxy group and adds the target.

  The state is the pass and the converter; a step that fails returns the state it reached.
\<close>

type_synonym pass_conv = "modelPass \<times> converter"

type_synonym pass_step = "pass_conv \<Rightarrow> pass_conv \<times> outcome"

definition fkScoped :: "Model \<Rightarrow> bool" where
  "fkScoped m = (isModelType m \<and> \<not> isPassthrough m)"

definition ownerKey :: "Model \<Rightarrow> string" where
  "ownerKey m = (if isModelType m \<or> isPassthrough m then mo_Name m else [])"

abbreviation (input) model_source :: "Model \<Rightarrow> ConversionIssueSource" where
  "model_source m \<equiv> issueSource kindModel (mo_Name m)"

section \<open>Before the targets\<close>

fun claim_matchers :: "Model \<Rightarrow> string list \<Rightarrow> pass_step" where
  "claim_matchers m [] (st, c) = ((st, c), Done)"
| "claim_matchers m (b # bases) (st, c) =
     (let key = passthroughMatcherKey b (moc_Route (mo_Config m)) in
      case map_of (mp_passthroughMatchers st) key of
        Some other \<Rightarrow>
          (if other \<noteq> mo_Name m then
             ((st, fst (fail (src_at (model_source m) [''config.route.paths'']) RoutingConflict
                (''model %q: a passthrough model cannot share route path %q with passthrough model %q'',
                 [mo_Name m, b, other]) c)), SkipEntity)
           else claim_matchers m bases (st, c))
      | None \<Rightarrow>
          claim_matchers m bases (st\<lparr>mp_passthroughMatchers := (key, mo_Name m) # mp_passthroughMatchers st\<rparr>, c))"

definition check_passthrough :: "Model \<Rightarrow> pass_step" where
  "check_passthrough m s =
     (case s of (st, c) \<Rightarrow>
        if \<not> isPassthrough m then ((st, c), Done)
        else if length (mo_Formats m) > 1 then
          ((st, fst (fail (src_at (model_source m) [''formats'']) ConfigFieldInvalid
             (''model %q: the passthrough format cannot be combined with other formats'', [mo_Name m]) c)), SkipEntity)
        else
          let c = warnPassthroughPolicies (model_source m) m c in
          if balancerAlgorithm (moc_Balancer (mo_Config m)) = ''semantic'' then
            ((st, fst (fail (src_at (model_source m) [''formats'', ''config.balancer.algorithm'']) ConfigFieldInvalid
               (''model %q: the passthrough format cannot use the semantic balancer algorithm'', [mo_Name m]) c)), SkipEntity)
          else claim_matchers m (basePaths m) (st, c))"

definition warn_route_name :: "Model \<Rightarrow> converter \<Rightarrow> converter" where
  "warn_route_name m c =
     (let name = rt_Name (moc_Route (mo_Config m)) in
      if name = [] then c
      else warn (src_at (model_source m) [''config.route.name'']) ConfigFieldOverridden
        (''model %q sets config.route.name to %q. This will be ignored, and each route name will be overridden to the generated {format}-{endpoint} name.'',
         [mo_Name m, name]) c)"

text \<open>The checks of the model as a whole; they yield its lists and its datastore.\<close>

definition check_model :: "Model \<Rightarrow> converter \<Rightarrow> (converter \<times> outcome) \<times> modelLists \<times> Datastore option" where
  "check_model m c =
     (let src = model_source m in
      case modelListsOf src m c of
        ((c, Done), ml) \<Rightarrow>
          (case checkModelFeatures src m c of
             (c, Done) \<Rightarrow>
               (case (if isPassthrough m then (c, Done) else checkModelCapabilities src m ml c) of
                  (c, Done) \<Rightarrow>
                    (case resolveModelDatastore src m c of
                       ((c, Done), ds) \<Rightarrow>
                         (case checkEmbeddingsTokenVault src m c of
                            (c, Done) \<Rightarrow> ((warn_route_name m c, Done), ml, ds)
                          | r \<Rightarrow> (r, ml, ds))
                     | (r, ds) \<Rightarrow> (r, ml, ds))
                | r \<Rightarrow> (r, ml, None))
           | r \<Rightarrow> (r, ml, None))
      | (r, ml) \<Rightarrow> (r, ml, None))"

section \<open>The plan of the targets\<close>

record targetPlan =
  tp_targets :: "plannedTarget list"
  tp_tokenVault :: "ymap option"
  tp_passthroughFormat :: string

definition no_targets :: targetPlan where
  "no_targets = \<lparr>tp_targets = [], tp_tokenVault = None, tp_passthroughFormat = []\<rparr>"

definition check_passthrough_format ::
  "Model \<Rightarrow> nat \<Rightarrow> TargetModel \<Rightarrow> string \<Rightarrow> targetPlan \<Rightarrow> converter \<Rightarrow> (converter \<times> outcome) \<times> targetPlan"
where
  "check_passthrough_format m j tm providerType plan c =
     (if \<not> isPassthrough m then ((c, Done), plan)
      else
        let src = model_source m; field = target_field j ''.config.type'';
            c = (if HasNativeFormat providerType then c
                 else warn (src_at src [field]) BehaviorMayDiffer
                   (''model %q target %q: provider type %q has no native llm_format, so the passthrough format may not extract usage or cost'',
                    [mo_Name m, tm_Name tm, providerType]) c);
            format = ClientFormat PassthroughFormat providerType
        in if tp_passthroughFormat plan = [] then ((c, Done), plan\<lparr>tp_passthroughFormat := format\<rparr>)
           else if format \<noteq> tp_passthroughFormat plan then
             (fail (src_at src [field]) ConfigFieldInvalid
                (''model %q target %q: the passthrough format forwards %s bodies unchanged, so every target must speak %s, not %s'',
                 [mo_Name m, tm_Name tm, tp_passthroughFormat plan, tp_passthroughFormat plan, format]) c, plan)
           else ((c, Done), plan))"

definition plan_target :: "Model \<Rightarrow> nat \<Rightarrow> targetPlan \<Rightarrow> converter \<Rightarrow> (converter \<times> outcome) \<times> targetPlan" where
  "plan_target m j plan c =
     (let src = model_source m; tm = mo_TargetModels m ! j in
      case checkTarget m j c of
        Inl p \<Rightarrow> ((warn (src_at src [tp_field p]) (tp_code p) (tp_reason p) c, Done), plan)
      | Inr (provider, providerType) \<Rightarrow>
          (if fmlookup (tmc_Options (tm_Config tm)) ''vpc_endpoint'' \<noteq> None \<and> \<not> conv_supports FeatureBedrockVPCEndpoint c then
             (failUnsupported (src_at src [target_field j ''.config.vpc_endpoint'']) FeatureBedrockVPCEndpoint
                (target_field j ''.config.vpc_endpoint'') c, plan)
           else
             case checkBedrockEndpointType src tm j c of
               (c, Done) \<Rightarrow>
                 (case providerTokenVault src m j provider c of
                    ((c, Done), tv) \<Rightarrow>
                      (if tp_targets plan \<noteq> [] \<and> tv \<noteq> tp_tokenVault plan then
                         (fail (src_at src [target_field j ''.provider'']) ConfigFieldInvalid
                            (''model %q target %q: every target must use the same provider token_vault'',
                             [mo_Name m, tm_Name tm]) c, plan)
                       else
                         check_passthrough_format m j tm providerType
                           (plan\<lparr>tp_tokenVault := (if tp_targets plan = [] then tv else tp_tokenVault plan),
                                 tp_targets := tp_targets plan @
                                   [\<lparr>pt_index = j, pt_tm = tm, pt_provider = provider, pt_providerType = providerType,
                                     pt_target = aimapTarget tm providerType\<rparr>]\<rparr>)
                           (warnUnsupportedCostLists src tm j c))
                  | (r, _) \<Rightarrow> (r, plan))
             | r \<Rightarrow> (r, plan)))"

fun plan_targets :: "Model \<Rightarrow> nat list \<Rightarrow> targetPlan \<Rightarrow> converter \<Rightarrow> (converter \<times> outcome) \<times> targetPlan" where
  "plan_targets m [] plan c = ((c, Done), plan)"
| "plan_targets m (j # js) plan c =
     (case plan_target m j plan c of
        ((c, Done), plan) \<Rightarrow> plan_targets m js plan c
      | r \<Rightarrow> r)"

section \<open>The endpoint pairs of the targets\<close>

definition passthrough_pairs :: "plannedTarget list \<Rightarrow> target_pairs" where
  "passthrough_pairs targets =
     map (\<lambda>t. (pt_index t, [\<lparr>ep_format = PassthroughFormat, ep_capability = [], ep_specs = [PassthroughEndpoint]\<rparr>]))
       targets"

fun offered_pairs ::
  "Model \<Rightarrow> modelLists \<Rightarrow> string list \<Rightarrow> plannedTarget list \<Rightarrow> converter \<Rightarrow> converter \<times> target_pairs"
where
  "offered_pairs m ml formats [] c = (c, [])"
| "offered_pairs m ml formats (t # ts) c =
     (case targetPairs (model_source m) m ml formats t c of
        (c, ps) \<Rightarrow> (case offered_pairs m ml formats ts c of (c, rest) \<Rightarrow> (c, (pt_index t, ps) # rest)))"

text \<open>The pairs that get routes, and those the targets support before equal paths are removed.\<close>

definition model_pairs ::
  "Model \<Rightarrow> modelLists \<Rightarrow> string list \<Rightarrow> plannedTarget list \<Rightarrow> converter \<Rightarrow>
   (converter \<times> outcome) \<times> target_pairs \<times> target_pairs"
where
  "model_pairs m ml formats targets c =
     (if isPassthrough m then ((c, Done), passthrough_pairs targets, [])
      else
        case (if targets = [] then (c, Done) else checkCapabilityEndpoints (model_source m) m ml formats c) of
          (c, Done) \<Rightarrow>
            (case offered_pairs m ml formats targets c of
               (c, supported) \<Rightarrow> ((c, Done), keepEqualPaths formats supported, supported))
        | r \<Rightarrow> (r, [], []))"

definition served_by :: "target_pairs \<Rightarrow> string \<Rightarrow> nat list" where
  "served_by pairs capability =
     map fst (filter (\<lambda>(j, ps). list_ex (\<lambda>p. ep_capability p = capability) ps) pairs)"

section \<open>One endpoint of one target\<close>

text \<open>What a model brings to its loop, and what the loop records for it.  A capability that collides with
  the category of its route is recorded once, with the category, the route and the route's category.\<close>

record modelPlan =
  mq_index :: nat
  mq_model :: Model
  mq_aliases :: "string list"
  mq_datastore :: "Datastore option"
  mq_tokenVault :: "ymap option"

record modelLoop =
  lo_routeNames :: "string list"
  lo_statsWarned :: "string list"
  lo_routed :: "string list"
  lo_collapsed :: "(string \<times> string \<times> string \<times> string) list"

definition no_routes :: modelLoop where
  "no_routes = \<lparr>lo_routeNames = [], lo_statsWarned = [], lo_routed = [], lo_collapsed = []\<rparr>"

record workItem =
  wi_target :: plannedTarget
  wi_format :: string
  wi_capability :: string
  wi_spec :: EndpointSpec

definition work_items :: "plannedTarget list \<Rightarrow> target_pairs \<Rightarrow> workItem list" where
  "work_items targets pairs =
     concat (map (\<lambda>t. concat (map (\<lambda>p. map (\<lambda>spec.
         \<lparr>wi_target = t, wi_format = ep_format p, wi_capability = ep_capability p, wi_spec = spec\<rparr>)
       (ep_specs p)) (or_else (map_of pairs (pt_index t)) []))) targets)"

definition item_section :: "workItem \<Rightarrow> string" where
  "item_section w = SectionFor (wi_format w) (pt_providerType (wi_target w))"

definition item_format :: "workItem \<Rightarrow> string" where
  "item_format w = ClientFormat (wi_format w) (pt_providerType (wi_target w))"

definition item_stats :: "workItem \<Rightarrow> bool" where
  "item_stats w = LogStatisticsSupported (pt_providerType (wi_target w)) (wi_spec w)"

abbreviation (input) item_websocket :: "workItem \<Rightarrow> bool" where
  "item_websocket w \<equiv> IsWebSocketEndpoint (wi_spec w)"

definition check_websocket :: "modelPlan \<Rightarrow> workItem \<Rightarrow> converter step" where
  "check_websocket q w c =
     (let m = mq_model q; here = src_at (model_source m) [capabilityField m (wi_capability w)] in
      if item_websocket w \<and> mq_tokenVault q \<noteq> None then
        fail here ConfigFieldInvalid
          (''model %q: capability %q needs a WebSocket route, but %s does not support the ws and wss protocols'',
           [mo_Name m, wi_capability w, tokenVaultExchangePlugin]) c
      else if item_websocket w then
        (case globalAuthPolicy c of
           Some global \<Rightarrow>
             fail here ConfigFieldInvalid
               (''model %q: capability %q needs a WebSocket route, but global policy %q of type %q keeps Kong's http/https default protocols and cannot authenticate it'',
                [mo_Name m, wi_capability w, po_Name global, po_Type global]) c
         | None \<Rightarrow> (c, Done))
      else (c, Done))"

definition item_mantle :: "workItem \<Rightarrow> bool" where
  "item_mantle w = (tg_Mantle (pt_target (wi_target w)) \<and> MantleMultiPath (item_format w) (wi_spec w))"

definition item_key :: "modelPlan \<Rightarrow> workItem \<Rightarrow> routeKey" where
  "item_key q w =
     (let m = mq_model q in
      \<lparr>rk_section = (if isPassthrough m then [] else item_section w), rk_label = RouteLabel (wi_spec w),
       rk_mantle = item_mantle w, rk_identity = authStrategyKey (moa_AuthStrategies (mo_Access m)),
       rk_config = modelRouteConfigKey (moc_Route (mo_Config m)),
       rk_model = (if item_websocket w then Some (mo_Name m) else None)\<rparr>)"

definition item_route :: "modelPlan \<Rightarrow> workItem \<Rightarrow> string \<Rightarrow> Route" where
  "item_route q w routeName =
     (let m = mq_model q in
      (buildModelRoute (moc_Route (mo_Config m)) routeName
         (concat (map (\<lambda>b. RoutePaths b (wi_spec w) (item_format w) (item_mantle w)) (basePaths m)))
         (Methods (wi_spec w)) (item_websocket w))
       \<lparr>rt_Source := source ''model'' (mo_Name m) ''config.route'' []\<rparr>)"

text \<open>The group of the item's route, made when there is none.\<close>

definition find_group :: "modelPlan \<Rightarrow> workItem \<Rightarrow> modelPass \<Rightarrow> modelPass \<times> routeGroup" where
  "find_group q w st =
     (case map_of (mp_groups st) (item_key q w) of
        Some g \<Rightarrow> (st, g)
      | None \<Rightarrow>
          (case uniqueModelRouteName (item_section w @ ''-'' @ RouteLabel (wi_spec w)) (mp_usedRouteNames st) of
             (routeName, used) \<Rightarrow>
               let route = item_route q w routeName;
                   g = \<lparr>rg_route = route, rg_websocket = item_websocket w, rg_selectors = no_selectors, rg_proxies = [],
                        rg_models = [], rg_selectorShapes = fmempty, rg_aliasOwners = fmempty\<rparr>
               in (st\<lparr>mp_usedRouteNames := used,
                      mp_websocketRoutes := (if item_websocket w then fmupd routeName (rt_Protocols route) (mp_websocketRoutes st)
                                             else mp_websocketRoutes st),
                      mp_groups := mp_groups st @ [(item_key q w, g)]\<rparr>, g)))"

definition set_group :: "routeKey \<Rightarrow> routeGroup \<Rightarrow> modelPass \<Rightarrow> modelPass" where
  "set_group key g st = st\<lparr>mp_groups := AList.update key g (mp_groups st)\<rparr>"

text \<open>The model joins the group: its aliases are claimed and its selectors compared once.\<close>

definition join_group ::
  "modelPlan \<Rightarrow> ymap option list \<Rightarrow> routeGroup \<Rightarrow> pass_conv \<Rightarrow> routeGroup \<times> pass_conv"
where
  "join_group q selectorCfgs g s =
     (case s of (st, c) \<Rightarrow>
        let m = mq_model q; src = model_source m;
            g = g\<lparr>rg_selectors := fold addSelector selectorCfgs (rg_selectors g)\<rparr>
        in if mo_Name m \<in> set (rg_models g) then (g, st, c)
           else
             case (if fkScoped m
                   then claimRouteAliases src m (rt_Name (rg_route g)) (mq_aliases q) (rg_aliasOwners g, mp_aliasConflicts st, c)
                   else (rg_aliasOwners g, mp_aliasConflicts st, c)) of
               (owners, aliasConflicts, c) \<Rightarrow>
                 (case checkSelectorConflict src (g\<lparr>rg_aliasOwners := owners, rg_models := rg_models g @ [mo_Name m]\<rparr>)
                         (mo_Name m) selectorCfgs (mp_selectorConflicts st, c) of
                    (g, selectorConflicts, c) \<Rightarrow>
                      (g, st\<lparr>mp_aliasConflicts := aliasConflicts, mp_selectorConflicts := selectorConflicts\<rparr>, c)))"

definition warn_route :: "modelPlan \<Rightarrow> workItem \<Rightarrow> Route \<Rightarrow> modelLoop \<Rightarrow> converter \<Rightarrow> modelLoop \<times> converter" where
  "warn_route q w route lo c =
     (let m = mq_model q; src = model_source m; new = rt_Name route \<notin> set (lo_routeNames lo) in
      case warnStatisticsOverride src m (rt_Name route) (item_stats w) (lo_statsWarned lo) c of
        (c, warned) \<Rightarrow>
          if \<not> new then (lo\<lparr>lo_statsWarned := warned\<rparr>, c)
          else (lo\<lparr>lo_statsWarned := warned, lo_routeNames := lo_routeNames lo @ [rt_Name route]\<rparr>,
            warnTransportOverrides src m route
              (if item_websocket w \<and> loggingPayloadsSet (moc_Logging (mo_Config m))
               then warn (src_at src [''config.logging.payloads'']) ConfigFieldOverridden
                 (''model %q sets config.logging.payloads to true. This will be ignored on the %q route, and log_payloads will be overridden to false because the data plane rejects it on realtime routes.'',
                  [mo_Name m, rt_Name route]) c
               else c)))"

text \<open>Two api models share one plugin on a route only with the same datastore and the same Token Vault.\<close>

definition check_shared_proxy :: "modelPlan \<Rightarrow> routeGroup \<Rightarrow> proxyGroup \<Rightarrow> converter step" where
  "check_shared_proxy q g pg c =
     (let m = mq_model q; src = model_source m;
          name = (case mq_datastore q of None \<Rightarrow> [] | Some ds \<Rightarrow> ds_Name ds);
          shown = (\<lambda>present name. if present then ''datastore '' @ name else ''no datastore'') in
      if (mq_datastore q = None) \<noteq> (pg_datastoreName pg = []) \<or>
         mq_datastore q \<noteq> None \<and> name \<noteq> pg_datastoreName pg then
        fail (src_at src [''datastores'']) ConfigFieldInvalid
          (''model %q cannot share route %q with another api model: shared route-scoped ai-proxy-advanced would mix %s and %s'',
           [mo_Name m, rt_Name (rg_route g), shown (pg_datastoreName pg \<noteq> []) (pg_datastoreName pg),
            shown (mq_datastore q \<noteq> None) name]) c
      else if pg_tokenVault pg \<noteq> mq_tokenVault q then
        fail (src_at src [''targets'']) ConfigFieldInvalid
          (''model %q cannot share route %q with another api model that uses a different provider token_vault'',
           [mo_Name m, rt_Name (rg_route g)]) c
      else (c, Done))"

definition proxy_mappings :: "FieldMapping list" where
  "proxy_mappings =
     [field_mapping ''config.proxy_config'' ''config.proxy'',
      field_mapping ''config.model_name_header'' ''config.model.name_header'',
      field_mapping ''config.vectordb'' ''config.balancer.vectordb'',
      field_mapping ''config.embeddings'' ''config.balancer.embeddings'']"

definition new_proxy ::
  "modelPlan \<Rightarrow> workItem \<Rightarrow> routeGroup \<Rightarrow> yval option \<Rightarrow> yval option \<Rightarrow> converter \<Rightarrow> proxyGroup"
where
  "new_proxy q w g embeddings vectordb c =
     (let m = mq_model q; cfg = mo_Config m in
      \<lparr>pg_routeName = rt_Name (rg_route g),
       pg_aliases = (if fkScoped m \<and> \<not> item_websocket w then mq_aliases q else []),
       pg_realtimeModel = (if fkScoped m \<and> item_websocket w then hd (mq_aliases q) else []),
       pg_llmFormat = item_format w, pg_genaiCategory = GenaiCategory (wi_spec w),
       pg_balancer = balancerConfig (moc_Balancer cfg) c, pg_vectordb = vectordb,
       pg_datastoreName = (case mq_datastore q of None \<Rightarrow> [] | Some ds \<Rightarrow> ds_Name ds),
       pg_tokenVault = mq_tokenVault q, pg_embeddings = embeddings,
       pg_responseStreaming = moc_ResponseStreaming cfg,
       pg_modelNameHeader = (if SupportsModelNameHeader (wi_spec w) then moc_NameHeader cfg else Some False),
       pg_maxBodySize = moc_MaxRequestBodySize cfg, pg_proxy = proxyConfigBlock (moc_Proxy cfg),
       pg_targets = [], pg_targetSources = [],
       pg_source = source ''model'' (mo_Name m) ''config'' proxy_mappings\<rparr>)"

text \<open>The proxy of the item: the owner's on the group, made when there is none.\<close>

definition find_proxy ::
  "modelPlan \<Rightarrow> workItem \<Rightarrow> routeGroup \<Rightarrow> converter \<Rightarrow> (converter \<times> outcome) \<times> proxyGroup option"
where
  "find_proxy q w g c =
     (let m = mq_model q; src = model_source m in
      case map_of (rg_proxies g) (ownerKey m) of
        Some pg \<Rightarrow> (if isModelType m then (c, Done) else check_shared_proxy q g pg c, Some pg)
      | None \<Rightarrow>
          (case resolveEmbeddings src (balancerExtra (moc_Balancer (mo_Config m)) ''embeddings'') c of
             ((c, Done), embeddings) \<Rightarrow>
               (case modelVectorDB src m (mq_datastore q) c of
                  ((c, Done), vectordb) \<Rightarrow> ((c, Done), Some (new_proxy q w g embeddings vectordb c))
                | (r, _) \<Rightarrow> (r, None))
           | (r, _) \<Rightarrow> (r, None)))"

definition item_target :: "modelPlan \<Rightarrow> workItem \<Rightarrow> converter \<Rightarrow> ymap option" where
  "item_target q w c =
     (let t = wi_target w;
          logging = modelLoggingBlock (Some (withLoggingDefaults (moc_Logging (mo_Config (mq_model q))) False False))
            (item_stats w) (item_websocket w)
      in map_option (\<lambda>target. setEndpointUpstreamURL target (item_section w) (wi_spec w) (pt_tm t))
           (buildTarget (pt_tm t) (pt_provider t) (pt_providerType t) (RouteType (wi_spec w)) logging c))"

definition record_collapse :: "workItem \<Rightarrow> routeGroup \<Rightarrow> proxyGroup \<Rightarrow> modelLoop \<Rightarrow> modelLoop" where
  "record_collapse w g pg lo =
     (if map_of (lo_collapsed lo) (wi_capability w) \<noteq> None then lo
      else lo\<lparr>lo_collapsed := lo_collapsed lo @
        [(wi_capability w, GenaiCategory (wi_spec w), rt_Name (rg_route g), pg_genaiCategory pg)]\<rparr>)"

definition set_proxy :: "string \<Rightarrow> proxyGroup \<Rightarrow> routeGroup \<Rightarrow> routeGroup" where
  "set_proxy owner pg g = g\<lparr>rg_proxies := AList.update owner pg (rg_proxies g)\<rparr>"

definition serve_proxy :: "modelPlan \<Rightarrow> workItem \<Rightarrow> routeGroup \<Rightarrow> modelLoop \<times> pass_conv \<Rightarrow> (modelLoop \<times> pass_conv) \<times> outcome" where
  "serve_proxy q w g s =
     (case s of (lo, st, c) \<Rightarrow>
        let m = mq_model q; st = set_group (item_key q w) g st in
        case find_proxy q w g c of
          ((c, Done), Some pg) \<Rightarrow>
            (let st = set_group (item_key q w) (set_proxy (ownerKey m) pg g) st in
             if pg_genaiCategory pg \<noteq> GenaiCategory (wi_spec w) then ((record_collapse w g pg lo, st, c), Done)
             else
               let lo = lo\<lparr>lo_routed := append_new (lo_routed lo) (wi_capability w)\<rparr> in
               case item_target q w c of
                 None \<Rightarrow> ((lo, st, c), Panic ''interface conversion'')
               | Some target \<Rightarrow>
                   let pg = add_target (mo_Name m) (pt_index (wi_target w)) (wi_capability w) target pg in
                   ((lo, set_group (item_key q w) (set_proxy (ownerKey m) pg g) st, c), Done))
        | ((c, oc), _) \<Rightarrow> ((lo, st, c), oc))"

definition serve_item :: "modelPlan \<Rightarrow> workItem \<Rightarrow> modelLoop \<times> pass_conv \<Rightarrow> (modelLoop \<times> pass_conv) \<times> outcome" where
  "serve_item q w s =
     (case s of (lo, st, c) \<Rightarrow>
        case check_websocket q w c of
          (c, Done) \<Rightarrow>
            (case (if isPassthrough (mq_model q) \<or> item_websocket w then (c, [])
                   else buildModelSelectorConfig (model_source (mq_model q)) (mq_model q) (wi_spec w) c) of
               (c, selectorCfgs) \<Rightarrow>
                 case find_group q w st of
                   (st, g) \<Rightarrow>
                     case join_group q selectorCfgs g (st, c) of
                       (g, st, c) \<Rightarrow>
                         case warn_route q w (rg_route g) lo c of
                           (lo, c) \<Rightarrow> serve_proxy q w g (lo, st, c))
        | (c, oc) \<Rightarrow> ((lo, st, c), oc))"

text \<open>A loop whose body can return from the function.\<close>

fun run_loop :: "('a \<Rightarrow> 's \<Rightarrow> 's \<times> outcome) \<Rightarrow> 'a list \<Rightarrow> 's \<Rightarrow> 's \<times> outcome" where
  "run_loop f [] s = (s, Done)"
| "run_loop f (x # xs) s = (case f x s of (s, Done) \<Rightarrow> run_loop f xs s | r \<Rightarrow> r)"

definition warn_collapsed :: "Model \<Rightarrow> modelLists \<Rightarrow> modelLoop \<Rightarrow> converter \<Rightarrow> converter" where
  "warn_collapsed m ml lo c =
     fold (\<lambda>(capability, category, route, existing) c.
       if capability \<in> set (lo_routed lo) \<or> ml_capsWildcard ml then c
       else warn (src_at (model_source m) [capabilityField m capability]) ConfigFieldDropped
         (''model %q: capability %q (genai_category %q) collapses onto route %q, which already serves genai_category %q; a single ai-proxy-advanced cannot serve multiple genai categories, skipping this capability'',
          [mo_Name m, capability, category, route, existing]) c)
       (lo_collapsed lo) c"

end
