(* ===== verification/Model_Protection.thy ===== *)
theory Model_Protection
  imports Model_Routing
begin

text \<open>
  The plugins that guard the routes of a model (the last part of \<open>convertModel\<close> in
  \<open>src/convert/model.go\<close>): its policies and access control, scoped to each route and, for a model that a
  selector chooses, to each of its aliases; and its auth strategies, once for each route.
\<close>

section \<open>Policies and access control\<close>

definition guard_with :: "Plugin list \<Rightarrow> modelPass \<Rightarrow> modelPass" where
  "guard_with ps st = st\<lparr>mp_guardPlugins := mp_guardPlugins st @ ps\<rparr>"

text \<open>A plugin that runs before the selector by default: the selector of the route carries its ordering.\<close>

definition order_plugin :: "Model \<Rightarrow> string \<Rightarrow> Plugin \<Rightarrow> pass_conv \<Rightarrow> pass_conv" where
  "order_plugin m routeName p s =
     (case s of (st, c) \<Rightarrow>
        if OutranksModelSelector (pl_Name p)
        then (st\<lparr>mp_selectorBefore := add_slice routeName (pl_Name p) (mp_selectorBefore st)\<rparr>, c)
        else case customPolicyPriority (pl_Name p) c of
               Some priority \<Rightarrow>
                 (if priority > AIModelSelectorPriority
                  then (st, warn (src_at (model_source m) [scopedPluginField (mo_Policies m) p]) BehaviorMayDiffer
                    (''model %q: custom policy %q sets PRIORITY %d, which outranks ai-model-selector (%d). The converter cannot reorder a custom plugin, so this model-scoped instance on route %q never runs. Give the policy a lower PRIORITY for it to run for this model.'',
                     [mo_Name m, pl_Name p, show_int priority, show_int AIModelSelectorPriority, routeName]) c)
                  else (st, c))
             | None \<Rightarrow> (st, c))"

definition place_plugin :: "Model \<Rightarrow> string list \<Rightarrow> string \<Rightarrow> Plugin \<Rightarrow> pass_conv \<Rightarrow> pass_conv" where
  "place_plugin m aliases routeName p s =
     (case s of (st, c) \<Rightarrow>
        let p = p\<lparr>pl_Route := Some routeName\<rparr> in
        case fmlookup (mp_websocketRoutes st) routeName of
          Some protocols \<Rightarrow>
            (if \<not> SupportsWebSocket (pl_Name p)
             then (st, warn (src_at (model_source m) [scopedPluginField (mo_Policies m) p]) ConfigFieldDropped
               (''model %q uses plugin %q, which does not support the ws and wss protocols. This plugin will be ignored on the WebSocket route %q.'',
                [mo_Name m, pl_Name p, routeName]) c)
             else (guard_with [p\<lparr>pl_Protocols := protocols\<rparr>] st, c))
        | None \<Rightarrow>
            (if \<not> fkScoped m then (guard_with [p] st, c)
             else
               case order_plugin m routeName p (st, c) of
                 (st, c) \<Rightarrow>
                   let st = (if pl_Name p = ''request-termination''
                             then st\<lparr>mp_requestTerminations := add_slice routeName
                               \<lparr>mpr_model = mo_Name m, mpr_field = scopedPluginField (mo_Policies m) p\<rparr>
                               (mp_requestTerminations st)\<rparr>
                             else st)
                   in (guard_with (map (\<lambda>alias. p\<lparr>pl_Model := Some alias\<rparr>) aliases) st, c)))"

definition place_plugins :: "Model \<Rightarrow> string list \<Rightarrow> string list \<Rightarrow> Plugin list \<Rightarrow> pass_conv \<Rightarrow> pass_conv" where
  "place_plugins m aliases routeNames plugins s =
     fold (\<lambda>routeName. fold (place_plugin m aliases routeName) plugins) routeNames s"

section \<open>Authentication\<close>

text \<open>The plugins of the strategies on one route.  With one strategy the anonymous fallback goes.\<close>

definition route_auth_plugins :: "string \<Rightarrow> string list option \<Rightarrow> Plugin list \<Rightarrow> Plugin list" where
  "route_auth_plugins routeName protocols idpPlugins =
     map (\<lambda>p.
       let p = p\<lparr>pl_Route := Some routeName\<rparr>;
           p = (if needsAnonymousFallback idpPlugins then p else withoutAnonymousFallback p)
       in case protocols of Some ps \<Rightarrow> p\<lparr>pl_Protocols := ps\<rparr> | None \<Rightarrow> p) idpPlugins"

definition protect_route :: "Model \<Rightarrow> Plugin list \<Rightarrow> string \<Rightarrow> pass_step" where
  "protect_route m idpPlugins routeName s =
     (case s of (st, c) \<Rightarrow>
        let key = (routeName, authStrategyKey (moa_AuthStrategies (mo_Access m)));
            protocols = fmlookup (mp_websocketRoutes st) routeName;
            fallback = needsAnonymousFallback idpPlugins;
            ps = route_auth_plugins routeName protocols idpPlugins
        in if key \<in> set (mp_identityPluginSeen st) \<or> idpPlugins = [] then ((st, c), Done)
           else
             let st = st\<lparr>mp_identityPluginSeen := key # mp_identityPluginSeen st\<rparr> in
             if protocols \<noteq> None \<and> length idpPlugins > 1 then
               ((st, fst (fail (src_at (model_source m) [''access.auth_strategies'']) ConfigFieldInvalid
                  (''model %q: the WebSocket route %q supports only one auth strategy, because request-termination cannot reject the anonymous consumer on ws and wss routes'',
                   [mo_Name m, routeName]) c)), SkipEntity)
             else
               let c = (if fallback then ensureAnonymousConsumer c else c);
                   after = (if protocols = None
                            then fold (\<lambda>p. add_slice routeName (pl_Name p)) ps (mp_selectorAfter st)
                            else mp_selectorAfter st);
                   after = (if fallback then add_slice routeName ''request-termination'' after else after)
               in ((guard_with ps (st\<lparr>mp_selectorAfter := after\<rparr>), c), Done))"

section \<open>The whole model\<close>

definition check_served ::
  "modelPlan \<Rightarrow> modelLists \<Rightarrow> string list \<Rightarrow> plannedTarget list \<Rightarrow> target_pairs \<times> target_pairs \<Rightarrow> converter step"
where
  "check_served q ml formats targets pairs c =
     (let m = mq_model q; src = model_source m in
      if isPassthrough m then (c, Done)
      else case checkTargetSupport src m ml formats (served_by (fst pairs)) targets c of
             (c, Done) \<Rightarrow> (warnUnservedFormats src m ml (snd pairs) c, Done)
           | r \<Rightarrow> r)"

definition guard_model :: "modelPlan \<Rightarrow> string list \<Rightarrow> pass_step" where
  "guard_model q routeNames s =
     (case s of (st, c) \<Rightarrow>
        let m = mq_model q; src = model_source m in
        case scopedPlugins src (mo_Policies m) (moa_ACLs (mo_Access m)) c of
          (c, None) \<Rightarrow> ((st, c), SkipEntity)
        | (c, Some plugins) \<Rightarrow>
            (case place_plugins m (mq_aliases q) routeNames (sourceScopedPlugins plugins ''model'' (mo_Name m)) (st, c) of
               (st, c) \<Rightarrow>
                 (case scopedAuthStrategyPlugins src 0 (moa_AuthStrategies (mo_Access m)) [] [] c of
                    ((c, Done), idpPlugins) \<Rightarrow> run_loop (protect_route m idpPlugins) routeNames (st, c)
                  | ((c, oc), _) \<Rightarrow> ((st, c), oc))))"

text \<open>What follows the routes: the ai_models entries, the checks of what is served, and the guards.\<close>

definition finish_model ::
  "modelPlan \<Rightarrow> modelLists \<Rightarrow> string list \<Rightarrow> plannedTarget list \<Rightarrow> target_pairs \<times> target_pairs \<Rightarrow>
   modelLoop \<times> pass_conv \<Rightarrow> pass_conv \<times> outcome"
where
  "finish_model q ml formats targets pairs s =
     (case s of (lo, st, c) \<Rightarrow>
        let m = mq_model q; src = model_source m;
            c = warn_collapsed m ml lo c;
            st = st\<lparr>mp_tokenVaults := fmupd (mq_index q) (mq_tokenVault q) (mp_tokenVaults st)\<rparr>
        in case writeAIModels src m (mq_aliases q) (mp_aiModelRows st, c) of
             (rows, c) \<Rightarrow>
               let st = st\<lparr>mp_aiModelRows := rows\<rparr> in
               if mo_TargetModels m \<noteq> [] \<and> targets = [] then
                 ((st, fst (fail (src_at src [''targets'']) MissingRequiredConfigField
                    (''model %q has no target that the converter can convert'', [mo_Name m]) c)), SkipEntity)
               else
                 (case check_served q ml formats targets pairs c of
                    (c, Done) \<Rightarrow> guard_model q (lo_routeNames lo) (st, c)
                  | (c, oc) \<Rightarrow> ((st, c), oc)))"

definition convertModel :: "nat \<Rightarrow> Model \<Rightarrow> pass_step" where
  "convertModel i m s =
     (case s of (st, c) \<Rightarrow>
        let src = model_source m in
        if isDisabled m then ((st, c), Done)
        else case extractModelAliases src m c of
          (c, aliases) \<Rightarrow>
            (case check_passthrough m (st, c) of
               ((st, c), Done) \<Rightarrow>
                 (case check_model m c of
                    ((c, Done), ml, ds) \<Rightarrow>
                      (case plan_targets m [0..<length (mo_TargetModels m)] no_targets c of
                         ((c, Done), plan) \<Rightarrow>
                           (let targets = tp_targets plan; formats = effectiveFormats ml targets c;
                                q = \<lparr>mq_index = i, mq_model = m, mq_aliases = aliases, mq_datastore = ds,
                                     mq_tokenVault = tp_tokenVault plan\<rparr>
                            in case model_pairs m ml formats targets c of
                                 ((c, Done), pairs) \<Rightarrow>
                                   (case run_loop (serve_item q) (work_items targets (fst pairs)) (no_routes, st, c) of
                                      (s, Done) \<Rightarrow> finish_model q ml formats targets pairs s
                                    | ((lo, st, c), oc) \<Rightarrow> ((st, c), oc))
                               | ((c, oc), _) \<Rightarrow> ((st, c), oc))
                       | ((c, oc), _) \<Rightarrow> ((st, c), oc))
                  | ((c, oc), _) \<Rightarrow> ((st, c), oc))
             | ((st, c), oc) \<Rightarrow> ((st, c), oc)))"

end
