(* ===== verification/Models.thy ===== *)
theory Models
  imports Model_Protection
begin

text \<open>
  All models (\<open>src/convert/model.go\<close>): the video lifecycle routes, the emission of the route groups, one
  pass over the models, and the restart of the pass without a model that failed.
\<close>

definition GatewayServiceName :: string where
  "GatewayServiceName = ''ai-gateway''"

definition GatewayServiceURL :: string where
  "GatewayServiceURL = ''http://ai-gateway.upstream.local''"

definition GatewayWebSocketServiceURL :: string where
  "GatewayWebSocketServiceURL = ''ws://ai-gateway.upstream.local''"

section \<open>Video lifecycle routes\<close>

record videoLifecycleCandidate =
  vc_index :: nat
  vc_model :: Model
  vc_targets :: "plannedTarget list"
  vc_spec :: EndpointSpec

definition explicit_video :: "Model \<Rightarrow> bool" where
  "explicit_video m = (\<not> capabilitiesWildcard m \<and> ''video'' \<in> set (explicitCapabilities m))"

text \<open>The targets of a model that \<open>checkTarget\<close> keeps.\<close>

definition kept_targets :: "Model \<Rightarrow> converter \<Rightarrow> plannedTarget list" where
  "kept_targets m c =
     List.map_filter (\<lambda>j.
       let tm = mo_TargetModels m ! j in
       case checkTarget m j c of
         Inl _ \<Rightarrow> None
       | Inr (provider, t) \<Rightarrow>
           Some \<lparr>pt_index = j, pt_tm = tm, pt_provider = provider, pt_providerType = t, pt_target = aimapTarget tm t\<rparr>)
       [0..<length (mo_TargetModels m)]"

definition lifecycle_candidate ::
  "(nat, ConversionIssue list) fmap \<Rightarrow> nat \<times> Model \<Rightarrow> converter \<Rightarrow> converter \<times> videoLifecycleCandidate list"
where
  "lifecycle_candidate skipped im c =
     (case im of (i, m) \<Rightarrow>
        if fmlookup skipped i \<noteq> None \<or> isDisabled m \<or> isPassthrough m then (c, [])
        else if \<not> explicit_video m \<and> (\<not> capabilitiesWildcard m \<or> \<not> isModelType m) then (c, [])
        else if mo_TargetModels m = [] then
          (if explicit_video m
           then warn (src_at (model_source m) [''targets'']) BehaviorMayDiffer
             (''model %q: video lifecycle routes require at least one target; skipping them'', [mo_Name m]) c
           else c, [])
        else
          let planned = kept_targets m c;
              ml = \<lparr>ml_formats = or_else (explicitFormats m) [], ml_formatsWildcard = formatsWildcard m,
                    ml_capabilities = [], ml_capsWildcard = False\<rparr>
          in if ''openai'' \<notin> set (effectiveFormats ml planned c) then (c, [])
             else case LookupEndpoint ''openai'' ''video'' of
               None \<Rightarrow> (c, [])
             | Some spec \<Rightarrow>
                 let targets = filter (\<lambda>t. TargetSupports ''openai'' (pt_target t) spec) planned in
                 if targets = [] then (c, [])
                 else (if length targets > 1 \<and> explicit_video m
                       then warn (src_at (model_source m) [''targets'']) BehaviorMayDiffer
                         (''model %q: video lifecycle route has multiple targets; requests without a model alias may reach a different target than creation'',
                          [mo_Name m]) c
                       else c,
                       [\<lparr>vc_index = i, vc_model = m, vc_targets = targets, vc_spec = spec\<rparr>]))"

text \<open>The candidates whose routes match the same requests, by the first of them.\<close>

definition lifecycle_key :: "videoLifecycleCandidate \<Rightarrow> ModelRouteConfig" where
  "lifecycle_key v = modelRouteConfigKey ((moc_Route (mo_Config (vc_model v)))\<lparr>rt_Name := [], rt_Methods := []\<rparr>)"

definition warn_shared_lifecycle :: "videoLifecycleCandidate list \<Rightarrow> converter \<Rightarrow> converter" where
  "warn_shared_lifecycle candidates c =
     fold (\<lambda>key c.
       let shared = filter (\<lambda>v. lifecycle_key v = key) candidates;
           names = join '', '' (map (\<lambda>v. mo_Name (vc_model v)) shared)
       in if length shared < 2 then c
          else fold (\<lambda>v c.
            if \<not> explicit_video (vc_model v) then c
            else warn (src_at (model_source (vc_model v)) [''config.route'']) RoutingConflict
              (''video lifecycle routes for models %s: route is shared by multiple video models; emitting overlapping lifecycle routes'',
               [names]) c) shared c)
       (fold (\<lambda>v keys. append_new keys (lifecycle_key v)) candidates []) c"

definition videoLifecycleCandidates ::
  "(nat, ConversionIssue list) fmap \<Rightarrow> converter \<Rightarrow> converter \<times> videoLifecycleCandidate list"
where
  "videoLifecycleCandidates skipped c =
     (case collect (lifecycle_candidate skipped) (enumerate 0 (sd_Models (cn_src c))) c of
        (c, candidates) \<Rightarrow> (warn_shared_lifecycle candidates c, candidates))"

text \<open>The targets of a candidate; None is the panic of \<open>buildTarget\<close>.\<close>

definition lifecycle_target :: "videoLifecycleCandidate \<Rightarrow> plannedTarget \<Rightarrow> converter \<Rightarrow> ymap option" where
  "lifecycle_target v t c =
     buildTarget (pt_tm t) (pt_provider t) (pt_providerType t) (RouteType (vc_spec v))
       (modelLoggingBlock (Some (withLoggingDefaults (moc_Logging (mo_Config (vc_model v))) False False))
          (LogStatisticsSupported (pt_providerType t) (vc_spec v)) False) c"

definition lifecycle_proxy ::
  "videoLifecycleCandidate \<Rightarrow> string \<Rightarrow> yval option \<Rightarrow> ymap option \<Rightarrow> ymap list \<Rightarrow> converter \<Rightarrow> proxyGroup"
where
  "lifecycle_proxy v routeName vectordb tokenVault targets c =
     (let m = vc_model v; cfg = mo_Config m in
      \<lparr>pg_routeName = routeName, pg_aliases = [], pg_realtimeModel = [], pg_llmFormat = ''openai'',
       pg_genaiCategory = GenaiCategory (vc_spec v), pg_balancer = balancerConfig (moc_Balancer cfg) c,
       pg_vectordb = vectordb, pg_datastoreName = [], pg_tokenVault = tokenVault, pg_embeddings = None,
       pg_responseStreaming = moc_ResponseStreaming cfg, pg_modelNameHeader = Some False,
       pg_maxBodySize = moc_MaxRequestBodySize cfg, pg_proxy = proxyConfigBlock (moc_Proxy cfg),
       pg_targets = targets,
       pg_targetSources = map (\<lambda>k. \<lparr>ts_ModelName = mo_Name m, ts_ModelTargetIndex = k, ts_Capabilities = [''video'']\<rparr>)
         [0..<length targets],
       pg_source = source ''model'' (mo_Name m) ''config'' proxy_mappings\<rparr>)"

definition proxy_plugin :: "proxyGroup \<Rightarrow> ymap \<Rightarrow> Plugin" where
  "proxy_plugin pg cfg = empty_plugin\<lparr>pl_Name := ''ai-proxy-advanced'', pl_Route := Some (pg_routeName pg),
     pl_Config := cfg, pl_TargetSources := pg_targetSources pg, pl_Source := pg_source pg\<rparr>"

definition protect_lifecycle :: "Model \<Rightarrow> string \<Rightarrow> converter step" where
  "protect_lifecycle m routeName c =
     (let src = model_source m in
      case scopedPlugins src (mo_Policies m) (moa_ACLs (mo_Access m)) c of
        (c, None) \<Rightarrow> (c, SkipEntity)
      | (c, Some plugins) \<Rightarrow>
          (let ps = map (\<lambda>p. p\<lparr>pl_Route := Some routeName\<rparr>) (sourceScopedPlugins plugins ''model'' (mo_Name m));
               c = emit_plugins ps c
           in case scopedAuthStrategyPlugins src 0 (moa_AuthStrategies (mo_Access m)) [] [] c of
                ((c, Done), idpPlugins) \<Rightarrow>
                  (emit_plugins (route_auth_plugins routeName None idpPlugins)
                     (if needsAnonymousFallback idpPlugins then ensureAnonymousConsumer c else c), Done)
              | ((c, oc), _) \<Rightarrow> (c, oc)))"

type_synonym service_pass = "Service \<times> pass_conv"

definition convertVideoLifecycle :: "videoLifecycleCandidate \<Rightarrow> service_pass \<Rightarrow> service_pass \<times> outcome" where
  "convertVideoLifecycle v s =
     (case s of (service, st, c) \<Rightarrow>
        let m = vc_model v; src = model_source m in
        case uniqueModelRouteName ''openai-videos-lifecycle'' (mp_usedRouteNames st) of
          (routeName, used) \<Rightarrow>
            let st = st\<lparr>mp_usedRouteNames := used\<rparr>;
                route = (buildVideoLifecycleRoute (moc_Route (mo_Config m)) routeName (basePaths m))
                  \<lparr>rt_Source := source ''model'' (mo_Name m) ''config.route'' []\<rparr>;
                service = service\<lparr>svc_Routes := svc_Routes service @ [route]\<rparr>
            in case those (map (\<lambda>t. lifecycle_target v t c) (vc_targets v)) of
                 None \<Rightarrow> ((service, st, c), Panic ''interface conversion'')
               | Some targets \<Rightarrow>
                   (case resolveModelDatastore src m c of
                      ((c, Done), ds) \<Rightarrow>
                        (case modelVectorDB src m ds c of
                           ((c, Done), vectordb) \<Rightarrow>
                             (let pg = lifecycle_proxy v routeName vectordb
                                    (or_else (fmlookup (mp_tokenVaults st) (vc_index v)) None) targets c;
                                  c = emit_plugins [proxy_plugin pg (proxyConfig pg)] c;
                                  c = appendTokenVaultExchange pg None c
                              in case protect_lifecycle m routeName c of (c, oc) \<Rightarrow> ((service, st, c), oc))
                         | ((c, oc), _) \<Rightarrow> ((service, st, c), oc))
                    | ((c, oc), _) \<Rightarrow> ((service, st, c), oc)))"

section \<open>The emission of a route group\<close>

definition selector_plugin :: "Route \<Rightarrow> ymap \<Rightarrow> Ordering option \<Rightarrow> Plugin" where
  "selector_plugin route cfg o' =
     empty_plugin\<lparr>pl_Name := ''ai-model-selector'', pl_Route := Some (rt_Name route), pl_Config := cfg,
       pl_Ordering := o',
       pl_Source := source ''model'' (case rt_Source route of None \<Rightarrow> [] | Some s \<Rightarrow> src_EntityName s) ''config.route.model''
         [field_mapping ''config.max_request_body_size'' ''config.max_request_body_size'',
          field_mapping ''config.sources'' ''config.route.model'']\<rparr>"

definition emit_proxy :: "routeGroup \<Rightarrow> proxyGroup \<Rightarrow> converter \<Rightarrow> converter" where
  "emit_proxy g pg c =
     (if pg_aliases pg = [] then
        appendTokenVaultExchange pg None (emit_plugins
          [(proxy_plugin pg (proxyConfig pg))
             \<lparr>pl_Protocols := (if rg_websocket g then rt_Protocols (rg_route g) else []),
              pl_Tags := (if pg_realtimeModel pg \<noteq> [] then [EncodeRealtimeModel (pg_realtimeModel pg)] else [])\<rparr>] c)
      else fold (\<lambda>alias c. appendTokenVaultExchange pg (Some alias) (emit_plugins
          [(proxy_plugin pg (fmupd ''targets'' (YMaps (withModelAlias (pg_targets pg) alias (pg_llmFormat pg))) (proxyConfig pg)))
             \<lparr>pl_Model := Some alias\<rparr>] c)) (pg_aliases pg) c)"

definition emit_group :: "modelPass \<Rightarrow> routeGroup \<Rightarrow> Service \<times> Service \<times> converter \<Rightarrow> Service \<times> Service \<times> converter" where
  "emit_group st g s =
     (case s of (service, websocketService, c) \<Rightarrow>
        let route = rg_route g;
            c = c\<lparr>cn_modelRouteModels := fmupd (rt_Name route) (rg_models g) (cn_modelRouteModels c)\<rparr>;
            add = (\<lambda>svc. svc\<lparr>svc_Routes := svc_Routes svc @ [route]\<rparr>);
            c = (case selectorConfig (rg_selectors g) of
                   None \<Rightarrow> c
                 | Some cfg \<Rightarrow>
                     (case selectorOrdering st (rt_Name route) c of
                        (c, o') \<Rightarrow> emit_plugins [selector_plugin route cfg o'] c))
        in (if rg_websocket g then service else add service,
            if rg_websocket g then add websocketService else websocketService,
            fold (\<lambda>(owner, pg). emit_proxy g pg) (rg_proxies g) c))"

section \<open>One pass\<close>

text \<open>\<open>convertModelOnce\<close>: a skipped model replays its issues; one that fails is recorded as skipped, with
  the issues of its attempt.  Whether it went on is the flag.\<close>

definition convertModelOnce ::
  "nat \<Rightarrow> string \<Rightarrow> ('s \<times> pass_conv \<Rightarrow> ('s \<times> pass_conv) \<times> outcome) \<Rightarrow> 's \<times> pass_conv \<Rightarrow> ('s \<times> pass_conv) \<times> bool"
where
  "convertModelOnce i name fn s =
     (case s of (x, st, c) \<Rightarrow>
        case fmlookup (mp_skipped st) i of
          Some issues \<Rightarrow> ((x, st, c\<lparr>cv_issues := cv_issues c @ issues\<rparr>), True)
        | None \<Rightarrow>
            (case fn (x, st, c) of
               ((x', st', c'), oc) \<Rightarrow>
                 (case guard (issueSource kindModel name) (\<lambda>_. (c', oc)) c of
                    (c'', True) \<Rightarrow> ((x', st', c''), True)
                  | (c'', False) \<Rightarrow>
                      ((x', st'\<lparr>mp_skipped := fmupd i (drop (length (cv_issues c)) (cv_issues c'')) (mp_skipped st')\<rparr>, c''),
                       False))))"

text \<open>A loop that stops when an element says so.\<close>

fun run_while :: "('a \<Rightarrow> 's \<Rightarrow> 's \<times> bool) \<Rightarrow> 'a list \<Rightarrow> 's \<Rightarrow> 's \<times> bool" where
  "run_while f [] s = (s, True)"
| "run_while f (x # xs) s = (case f x s of (s, True) \<Rightarrow> run_while f xs s | r \<Rightarrow> r)"

definition model_once :: "nat \<times> Model \<Rightarrow> unit \<times> pass_conv \<Rightarrow> (unit \<times> pass_conv) \<times> bool" where
  "model_once im s =
     (case im of (i, m) \<Rightarrow>
        convertModelOnce i (mo_Name m) (\<lambda>(x, s). case convertModel i m s of (s, oc) \<Rightarrow> ((x, s), oc)) s)"

definition lifecycle_once :: "videoLifecycleCandidate \<Rightarrow> service_pass \<Rightarrow> service_pass \<times> bool" where
  "lifecycle_once v s = convertModelOnce (vc_index v) (mo_Name (vc_model v)) (convertVideoLifecycle v) s"

definition append_services :: "Service list \<Rightarrow> converter \<Rightarrow> converter" where
  "append_services svcs c =
     c\<lparr>cv_out := (cv_out c)\<lparr>doc_Services := doc_Services (cv_out c) @ filter (\<lambda>svc. svc_Routes svc \<noteq> []) svcs\<rparr>\<rparr>"

definition emit_pass :: "videoLifecycleCandidate list \<Rightarrow> pass_conv \<Rightarrow> pass_conv \<times> bool" where
  "emit_pass candidates s =
     (case s of (st, c) \<Rightarrow>
        if mp_groups st = [] then ((st, emit_plugins (mp_guardPlugins st) c), True)
        else
          case fold (\<lambda>(key, g). emit_group st g) (mp_groups st)
                 (empty_service\<lparr>svc_Name := GatewayServiceName, svc_URL := GatewayServiceURL\<rparr>,
                  empty_service\<lparr>svc_Name := GatewayWebSocketServiceName, svc_URL := GatewayWebSocketServiceURL\<rparr>, c) of
            (service, websocketService, c) \<Rightarrow>
              (case run_while lifecycle_once candidates (service, st, c) of
                 ((service, st, c), False) \<Rightarrow> ((st, c), False)
               | ((service, st, c), True) \<Rightarrow>
                   ((st, emit_plugins (mp_guardPlugins st) (append_services [service, websocketService] c)), True)))"

definition convertModelsPass ::
  "(nat, ConversionIssue list) fmap \<Rightarrow> converter \<Rightarrow> pass_conv \<times> bool"
where
  "convertModelsPass skipped c =
     (case videoLifecycleCandidates skipped (c\<lparr>cn_modelRouteModels := fmempty\<rparr>) of
        (c, candidates) \<Rightarrow>
          (case run_while model_once (enumerate 0 (sd_Models (cn_src c))) ((), new_pass skipped, c) of
             ((_, s), False) \<Rightarrow> (s, False)
           | ((_, s), True) \<Rightarrow> emit_pass candidates s))"

end
