(* ===== verification/Model_Frames.thy ===== *)
theory Model_Frames
  imports Models Agents
begin

text \<open>
  What the conversion of one model may change, and how it may end (\<open>src/convert/model.go\<close>).  Of the
  converter, the parts of the output that Token Vaults and anonymous consumers write, the ai_models entries
  and the issues; of the pass, what the steps of \<open>Model_Routing\<close> and \<open>Model_Protection\<close> record.  A step that
  skips the model has recorded an error.
\<close>

named_theorems frames \<open>what a step of a model keeps\<close>

section \<open>Steps of the converter\<close>

definition stays :: "converter \<Rightarrow> converter \<Rightarrow> bool" where
  "stays c c' \<longleftrightarrow> auth_env c c' \<and> kept (cv_out c') = kept (cv_out c)"

definition step_ok :: "converter \<Rightarrow> converter \<times> outcome \<Rightarrow> bool" where
  "step_ok c r \<longleftrightarrow> stays c (fst r) \<and> explained r"

lemma stays_refl [simp]: "stays c c"
  by (simp add: stays_def)

lemma stays_trans: "stays a b \<Longrightarrow> stays b c \<Longrightarrow> stays a c"
  unfolding stays_def using auth_env_trans by auto

lemma only_issues_out: "only_issues c c' \<Longrightarrow> cv_out c' = cv_out c"
  by (simp add: only_issues_iff)

lemma only_issues_stays: "only_issues c c' \<Longrightarrow> stays c c'"
  by (simp add: stays_def only_issues_auth_env only_issues_out)

lemma kept_fields:
  "doc_AIModels (kept d) = doc_AIModels d" "doc_Plugins (kept d) = doc_Plugins d" "doc_Services (kept d) = doc_Services d"
  by (simp_all add: kept_def)

lemma stays_fields:
  assumes "stays c c'"
  shows "cn_src c' = cn_src c" "reports c c'" "doc_AIModels (cv_out c') = doc_AIModels (cv_out c)"
    "doc_Plugins (cv_out c') = doc_Plugins (cv_out c)" "doc_Services (cv_out c') = doc_Services (cv_out c)"
proof -
  have a: "auth_env c c'" using assms by (simp add: stays_def)
  then show "cn_src c' = cn_src c" by (simp add: auth_env_fields)
  from a show "reports c c'" unfolding auth_env_def by blast
  have "kept (cv_out c') = kept (cv_out c)" using assms by (simp add: stays_def)
  then show "doc_AIModels (cv_out c') = doc_AIModels (cv_out c)" "doc_Plugins (cv_out c') = doc_Plugins (cv_out c)"
    "doc_Services (cv_out c') = doc_Services (cv_out c)"
    by (metis kept_fields)+
qed

lemma step_ok_Done [simp]: "step_ok c (c', Done) \<longleftrightarrow> stays c c'"
  by (simp add: step_ok_def explained_def)

lemma step_ok_issues: "only_issues c (fst r) \<Longrightarrow> explained r \<Longrightarrow> step_ok c r"
  by (simp add: step_ok_def only_issues_stays)

lemma step_ok_fail [simp]: "step_ok c (fail s code r c)" "step_ok c (failUnsupported s f fld c)"
  by (rule step_ok_issues; simp)+

lemma step_ok_fst: "step_ok c r \<Longrightarrow> stays c (fst r)"
  by (simp add: step_ok_def)

lemma step_ok_after: "stays c c' \<Longrightarrow> step_ok c' r \<Longrightarrow> step_ok c r"
  using stays_trans by (auto simp: step_ok_def)

lemma warn_stays [simp]: "stays c c' \<Longrightarrow> stays c (warn s code r c')"
  by (erule stays_trans) (simp add: only_issues_stays)

lemma failed_after: "stays c c' \<Longrightarrow> step_ok c (fst (fail s code r c'), SkipEntity)"
  by (erule step_ok_after) (simp add: step_ok_def explained_def only_issues_stays)

lemma fold_stays: "(\<And>x s. x \<in> set xs \<Longrightarrow> stays c s \<Longrightarrow> stays c (f x s)) \<Longrightarrow> stays c s \<Longrightarrow> stays c (fold f xs s)"
  by (induction xs arbitrary: s) simp_all

lemma ensureAnonymous_stays: "stays c c' \<Longrightarrow> stays c (ensureAnonymousConsumer c')"
  by (erule stays_trans) (simp add: stays_def ensureAnonymousConsumer_def Let_def)

text \<open>The known steps.\<close>

lemma callback_stays: "step_ok c (ensureTokenVaultCallbackRoute s f o' ds rs c)"
  unfolding step_ok_def stays_def using callback_route_step by auto

lemma providerTokenVault_ok: "step_ok c (fst (providerTokenVault src m j p c))"
proof (cases "pr_TokenVault p")
  case None
  then show ?thesis by (simp add: providerTokenVault_def Let_def split: list.split)
next
  case (Some tv)
  let ?here = "src_at src [at ''targets'' j @ ''.provider'']"
  let ?owner = "(''model %q target %q: provider %q'', [mo_Name m, target_name m j, pr_Name p])"
  show ?thesis
  proof (cases "providerTokenVaultDatastore ?owner p c")
    case (Inr problem)
    then show ?thesis using Some by (simp add: providerTokenVault_def Let_def)
  next
    case (Inl ds)
    obtain c' oc where cb: "ensureTokenVaultCallbackRoute ?here (fst ?owner) (snd ?owner) ds
        (source kindModel (mo_Name m) (at ''targets'' j @ ''.provider'') []) c = (c', oc)" by fastforce
    then have ok: "step_ok c (c', oc)" using callback_stays by metis
    obtain block e where app: "ApplyTokenVaultDatastore (or_else (TokenVaultToPlugin (Some tv)) fmempty) ds = (block, e)"
      by fastforce
    show ?thesis
      using Some Inl cb ok app
      by (cases e; cases oc) (simp_all add: providerTokenVault_def Let_def)
  qed
qed

lemma scopedAuth_ok: "step_ok c (fst (scopedAuthStrategyPlugins src i refs seen plugins c))"
  using scopedAuth_spec [of src refs seen plugins c i] scopedAuth_kept
  by (auto simp: step_ok_def stays_def auth_spec_def)

lemma scopedPlugins_ok:
  "scopedPlugins src refs acls c = (c', None) \<Longrightarrow> step_ok c (c', SkipEntity)"
  "scopedPlugins src refs acls c = (c', Some ps) \<Longrightarrow> stays c c'"
proof -
  have o: "only_issues c (fst (scopedPlugins src refs acls c))" by (rule scopedPlugins_only_issues)
  have e: "snd (scopedPlugins src refs acls c) = None \<Longrightarrow> HasErrors (cv_issues (fst (scopedPlugins src refs acls c)))"
    using scopedPlugins_errors scopedPlugins_value by (auto split: if_splits)
  show "scopedPlugins src refs acls c = (c', None) \<Longrightarrow> step_ok c (c', SkipEntity)"
    "scopedPlugins src refs acls c = (c', Some ps) \<Longrightarrow> stays c c'"
    using o e by (auto simp: step_ok_def explained_def only_issues_stays)
qed

section \<open>The checks and the plan\<close>

lemma check_embeddings_ok: "step_ok c (checkEmbeddingsTokenVault src m c)"
  by (auto simp: checkEmbeddingsTokenVault_def Let_def split: option.split)

lemma warn_route_name_stays [simp]: "stays c c' \<Longrightarrow> stays c (warn_route_name m c')"
  by (simp add: warn_route_name_def Let_def)

text \<open>One step after the other.\<close>

lemma step_ok_bind:
  assumes "step_ok c (fst p)" and "\<And>c' x. p = ((c', Done), x) \<Longrightarrow> step_ok c' (fst (g x c'))"
  shows "step_ok c (fst (case p of ((c, Done), x) \<Rightarrow> g x c | (r, x) \<Rightarrow> (r, h x)))"
proof -
  obtain c' oc x where p: "p = ((c', oc), x)" by (metis prod.exhaust)
  show ?thesis
  proof (cases oc)
    case Done
    then have "stays c c'" "step_ok c' (fst (g x c'))" using assms p by simp_all
    then show ?thesis using Done p step_ok_after by simp
  qed (use assms(1) p in simp_all)
qed

lemma step_ok_then:
  assumes "step_ok c p" and "\<And>c'. p = (c', Done) \<Longrightarrow> step_ok c' (fst (g c'))"
  shows "step_ok c (fst (case p of (c, Done) \<Rightarrow> g c | r \<Rightarrow> (r, x)))"
proof -
  obtain c' oc where p: "p = (c', oc)" by fastforce
  show ?thesis
  proof (cases oc)
    case Done
    then have "stays c c'" "step_ok c' (fst (g c'))" using assms p by simp_all
    then show ?thesis using Done p step_ok_after by simp
  qed (use assms(1) p in simp_all)
qed

lemma check_model_ok: "step_ok c (fst (check_model m c))"
  unfolding check_model_def Let_def
proof (rule step_ok_bind [OF step_ok_issues [OF modelListsOf_step]])
  fix c1 ml
  show "step_ok c1 (fst (case checkModelFeatures (model_source m) m c1 of
      (c, Done) \<Rightarrow>
        (case (if isPassthrough m then (c, Done) else checkModelCapabilities (model_source m) m ml c) of
           (c, Done) \<Rightarrow>
             (case resolveModelDatastore (model_source m) m c of
                ((c, Done), ds) \<Rightarrow>
                  (case checkEmbeddingsTokenVault (model_source m) m c of
                     (c, Done) \<Rightarrow> ((warn_route_name m c, Done), ml, ds)
                   | r \<Rightarrow> (r, ml, ds))
              | (r, ds) \<Rightarrow> (r, ml, ds))
         | r \<Rightarrow> (r, ml, None))
    | r \<Rightarrow> (r, ml, None)))"
    by (intro step_ok_then step_ok_bind step_ok_issues [OF checkModelFeatures_step]
        step_ok_issues [OF resolveModelDatastore_step] check_embeddings_ok)
      (simp_all add: step_ok_issues [OF checkModelCapabilities_step])
qed

lemma cost_lists_stays [simp]: "stays c c' \<Longrightarrow> stays c (warnUnsupportedCostLists src tm j c')"
  by (erule stays_trans) (simp add: only_issues_stays)

lemma check_passthrough_format_ok: "step_ok c (fst (check_passthrough_format m j tm t plan c))"
  unfolding check_passthrough_format_def Let_def
  by (auto intro!: step_ok_after [OF _ step_ok_fail(1)])

lemma plan_target_ok: "step_ok c (fst (plan_target m j plan c))"
proof (cases "checkTarget m j c")
  case (Inl p)
  then show ?thesis by (simp add: plan_target_def Let_def)
next
  case (Inr r)
  obtain provider t where r: "r = (provider, t)" by fastforce
  let ?tm = "mo_TargetModels m ! j"
  have tail: "step_ok c1 (fst (case providerTokenVault (model_source m) m j provider c1 of
      ((c, Done), tv) \<Rightarrow>
        (if tp_targets plan \<noteq> [] \<and> tv \<noteq> tp_tokenVault plan then
           (fail s code e c, plan)
         else check_passthrough_format m j ?tm t (plan' tv) (warnUnsupportedCostLists (model_source m) ?tm j c))
    | (r, _) \<Rightarrow> (r, plan)))" for c1 s code e plan'
    by (intro step_ok_bind providerTokenVault_ok)
      (auto intro: step_ok_after [OF cost_lists_stays [OF stays_refl] check_passthrough_format_ok])
  show ?thesis
    unfolding plan_target_def Let_def Inr r sum.case prod.case
    by (simp only: split: if_split) (intro conjI impI step_ok_then step_ok_issues [OF checkBedrockEndpointType_step] tail; simp)
qed

lemma plan_targets_ok: "step_ok c (fst (plan_targets m js plan c))"
proof (induction js arbitrary: plan c)
  case (Cons j js)
  show ?case
    unfolding plan_targets.simps by (rule step_ok_bind [OF plan_target_ok Cons.IH])
qed simp

lemma offered_pairs_ok: "only_issues c (fst (offered_pairs m ml formats ts c))"
proof (induction ts arbitrary: c)
  case (Cons t ts)
  obtain c1 ps where t: "targetPairs (model_source m) m ml formats t c = (c1, ps)" by fastforce
  have "only_issues c c1" using target_pairs_pure [of c "model_source m" m ml formats t] t by simp
  then show ?case using Cons.IH [of c1] t only_issues_trans by (auto split: prod.split)
qed simp

lemma model_pairs_ok: "step_ok c (fst (model_pairs m ml formats targets c))"
proof -
  have "step_ok c1 (fst (case offered_pairs m ml formats targets c1 of
      (c, supported) \<Rightarrow> ((c, Done), keepEqualPaths formats supported, supported)))" for c1
    using offered_pairs_ok [of c1 m ml formats targets] by (auto split: prod.split intro: only_issues_stays)
  then show ?thesis
    unfolding model_pairs_def
    by (auto intro!: step_ok_then step_ok_issues [OF checkCapabilityEndpoints_step])
qed

section \<open>One endpoint of one target\<close>

lemma check_websocket_ok: "step_ok c (check_websocket q w c)"
  by (auto simp: check_websocket_def Let_def split: option.split)

lemma find_proxy_ok: "step_ok c (fst (find_proxy q w g c))"
proof (cases "map_of (rg_proxies g) (ownerKey (mq_model q))")
  case None
  show ?thesis
    unfolding find_proxy_def Let_def None option.case
    by (intro step_ok_bind step_ok_issues [OF resolveEmbeddings_step] step_ok_issues [OF modelVectorDB_step]) simp
next
  case (Some pg)
  then show ?thesis by (auto simp: find_proxy_def check_shared_proxy_def Let_def)
qed

lemma selector_pair_issues: "only_issues c (snd s) \<Longrightarrow> only_issues c (snd (selector_pair src g model shapes other s))"
  by (cases s) (simp add: selector_pair_def Let_def)

lemma fold_issues:
  "(\<And>x s. only_issues c (p s) \<Longrightarrow> only_issues c (p (f x s))) \<Longrightarrow> only_issues c (p s) \<Longrightarrow> only_issues c (p (fold f xs s))"
  by (induction xs arbitrary: s) simp_all

lemma claim_alias_issues: "only_issues c (snd (snd s)) \<Longrightarrow> only_issues c (snd (snd (claim_alias src m r a s)))"
  by (cases s) (simp add: claim_alias_def split: option.split)

lemma join_group_issues:
  assumes "join_group q cfgs g (st, c) = (g', st', c')"
  shows "only_issues c c'"
proof -
  let ?src = "model_source (mq_model q)" and ?m = "mq_model q"
  let ?s = "if fkScoped ?m then claimRouteAliases ?src ?m (rt_Name (rg_route g)) (mq_aliases q) (rg_aliasOwners g, mp_aliasConflicts st, c)
            else (rg_aliasOwners g, mp_aliasConflicts st, c)"
  obtain owners conf c1 where s: "?s = (owners, conf, c1)" by (metis prod.exhaust)
  have 1: "only_issues c (snd (snd ?s))"
    by (auto simp: claimRouteAliases_def intro!: fold_issues [where p = "\<lambda>s. snd (snd s)"] claim_alias_issues)
  have 2: "only_issues c (snd (snd (checkSelectorConflict ?src g1 model cfgs (x, c1))))" for g1 model x
  proof -
    have "only_issues c c1" using 1 s by simp
    then show ?thesis
      by (auto simp: checkSelectorConflict_def Let_def intro!: fold_issues [where p = snd] selector_pair_issues)
  qed
  show ?thesis
  proof (cases "mo_Name ?m \<in> set (rg_models g)")
    case True
    then show ?thesis using assms by (simp add: join_group_def Let_def)
  next
    case False
    then show ?thesis using assms s 2 [of "g\<lparr>rg_selectors := fold addSelector cfgs (rg_selectors g), rg_aliasOwners := owners,
        rg_models := rg_models g @ [mo_Name ?m]\<rparr>" "mo_Name ?m" "mp_selectorConflicts st"]
      by (auto simp: join_group_def Let_def split: prod.splits if_splits)
  qed
qed

lemma warn_route_issues: "only_issues c (snd (warn_route q w route lo c))"
proof -
  obtain c1 warned where s: "warnStatisticsOverride (model_source (mq_model q)) (mq_model q) (rt_Name route)
      (item_stats w) (lo_statsWarned lo) c = (c1, warned)" by fastforce
  then have "only_issues c c1" by (metis fst_conv only_issues_refl warnStatisticsOverride_step)
  then show ?thesis using s by (simp add: warn_route_def Let_def)
qed

end
