(* ===== verification/Model_Invariants.thy ===== *)
theory Model_Invariants
  imports Model_Frames
begin

text \<open>
  The invariants of a pass over the models (\<open>src/convert/model.go\<close>): the routes of the groups have distinct
  names, the proxies of a group are scoped to its route and to aliases of the models seen so far, the guard
  plugins refer to routes and ai_models entries of the pass, and every route whose strategies were placed
  has a plugin for each of them.
\<close>

section \<open>Routes of a pass\<close>

definition routes :: "modelPass \<Rightarrow> (string \<times> string) list" where
  "routes st = map (\<lambda>(k, g). (rk_identity k, rt_Name (rg_route g))) (mp_groups st)"

definition proxies_ok :: "string set \<Rightarrow> routeGroup \<Rightarrow> bool" where
  "proxies_ok A g \<longleftrightarrow>
     (\<forall>pg \<in> snd ` set (rg_proxies g). pg_routeName pg = rt_Name (rg_route g) \<and> set (pg_aliases pg) \<subseteq> A)"

definition groups_ok :: "string set \<Rightarrow> modelPass \<Rightarrow> bool" where
  "groups_ok A st \<longleftrightarrow>
     distinct (map snd (routes st)) \<and> snd ` set (routes st) \<subseteq> set (mp_usedRouteNames st) \<and>
     (\<forall>g \<in> snd ` set (mp_groups st). proxies_ok A g)"

text \<open>What serving the endpoints of a model leaves alone.\<close>

definition pass_frame :: "modelPass \<Rightarrow> modelPass \<Rightarrow> bool" where
  "pass_frame st st' \<longleftrightarrow>
     mp_guardPlugins st' = mp_guardPlugins st \<and> mp_identityPluginSeen st' = mp_identityPluginSeen st \<and>
     mp_aiModelRows st' = mp_aiModelRows st \<and> mp_skipped st' = mp_skipped st"

lemma pass_frame_refl [simp]: "pass_frame st st"
  by (simp add: pass_frame_def)

lemma pass_frame_trans: "pass_frame a b \<Longrightarrow> pass_frame b c \<Longrightarrow> pass_frame a c"
  by (simp add: pass_frame_def)

lemma map_update_same:
  "map_of xs k = Some v \<Longrightarrow> f (k, v') = f (k, v) \<Longrightarrow> map f (AList.update k v' xs) = map f xs"
  by (induction xs) auto

lemma set_update_subset: "set (AList.update k v xs) \<subseteq> insert (k, v) (set xs)"
  by (induction xs) auto

lemma set_group_step:
  assumes "map_of (mp_groups st) key = Some g0" and "rt_Name (rg_route g) = rt_Name (rg_route g0)"
  shows "routes (set_group key g st) = routes st" "pass_frame st (set_group key g st)"
    "map_of (mp_groups (set_group key g st)) key = Some g"
    "proxies_ok A g \<Longrightarrow> groups_ok A st \<Longrightarrow> groups_ok A (set_group key g st)"
proof -
  show r: "routes (set_group key g st) = routes st"
    using map_update_same [OF assms(1), of "\<lambda>(k, g). (rk_identity k, rt_Name (rg_route g))" g] assms(2)
    by (simp add: routes_def set_group_def)
  show "pass_frame st (set_group key g st)" by (simp add: pass_frame_def set_group_def)
  show "map_of (mp_groups (set_group key g st)) key = Some g" by (simp add: set_group_def update_conv')
  show "groups_ok A (set_group key g st)" if "proxies_ok A g" "groups_ok A st"
  proof -
    have "set (mp_groups (set_group key g st)) \<subseteq> insert (key, g) (set (mp_groups st))"
      using set_update_subset by (simp add: set_group_def)
    then have "\<forall>g \<in> snd ` set (mp_groups (set_group key g st)). proxies_ok A g"
      using that unfolding groups_ok_def by auto
    then show ?thesis using that(2) r by (simp add: groups_ok_def set_group_def)
  qed
qed

definition identity :: "modelPlan \<Rightarrow> string" where
  "identity q = authStrategyKey (moa_AuthStrategies (mo_Access (mq_model q)))"

lemma find_group_step:
  assumes "find_group q w st = (st', g)"
  shows "map_of (mp_groups st') (item_key q w) = Some g" "pass_frame st st'"
    "\<exists>new. routes st' = routes st @ new \<and> set new \<subseteq> {(identity q, rt_Name (rg_route g))}"
    "(identity q, rt_Name (rg_route g)) \<in> set (routes st')"
    "groups_ok A st \<Longrightarrow> groups_ok A st'"
proof -
  have id: "rk_identity (item_key q w) = identity q" by (simp add: item_key_def identity_def Let_def)
  have "map_of (mp_groups st') (item_key q w) = Some g \<and> pass_frame st st' \<and>
    (\<exists>new. routes st' = routes st @ new \<and> set new \<subseteq> {(identity q, rt_Name (rg_route g))}) \<and>
    (groups_ok A st \<longrightarrow> groups_ok A st')"
  proof (cases "map_of (mp_groups st) (item_key q w)")
    case None
    obtain name used where u: "uniqueModelRouteName (item_section w @ ''-'' @ RouteLabel (wi_spec w))
        (mp_usedRouteNames st) = (name, used)" by fastforce
    have fresh: "name \<notin> set (mp_usedRouteNames st)" "used = name # mp_usedRouteNames st"
      using uniqueModelRouteName_step [where base = "item_section w @ ''-'' @ RouteLabel (wi_spec w)" and used = "mp_usedRouteNames st"] u by simp_all
    have g: "rt_Name (rg_route g) = name" "rg_proxies g = []"
      using assms None u by (auto simp: find_group_def Let_def item_route_def buildModelRoute_def)
    have st': "mp_groups st' = mp_groups st @ [(item_key q w, g)]" "mp_usedRouteNames st' = used" "pass_frame st st'"
      using assms None u by (auto simp: find_group_def Let_def pass_frame_def)
    have r: "routes st' = routes st @ [(identity q, name)]" using st'(1) g id by (simp add: routes_def)
    have "groups_ok A st'" if ok: "groups_ok A st"
    proof -
      have "name \<notin> snd ` set (routes st)" using ok fresh by (auto simp: groups_ok_def)
      then show ?thesis using ok r st' fresh g by (auto simp: groups_ok_def proxies_ok_def)
    qed
    then show ?thesis using None st' r g by (auto simp: map_add_def)
  next
    case (Some g')
    then show ?thesis using assms by (simp add: find_group_def)
  qed
  then show "map_of (mp_groups st') (item_key q w) = Some g" "pass_frame st st'"
    "\<exists>new. routes st' = routes st @ new \<and> set new \<subseteq> {(identity q, rt_Name (rg_route g))}"
    "groups_ok A st \<Longrightarrow> groups_ok A st'" by blast+
  then have "(item_key q w, g) \<in> set (mp_groups st')" by (simp add: map_of_SomeD)
  then show "(identity q, rt_Name (rg_route g)) \<in> set (routes st')" using id by (force simp: routes_def)
qed

lemma checkSelectorConflict_group:
  "checkSelectorConflict src g model cfgs s = (g', s') \<Longrightarrow> rg_route g' = rg_route g \<and> rg_proxies g' = rg_proxies g"
  by (auto simp: checkSelectorConflict_def Let_def split: if_splits)

lemma join_group_step:
  assumes "join_group q cfgs g (st, c) = (g', st', c')"
  shows "rg_route g' = rg_route g" "rg_proxies g' = rg_proxies g" "mp_groups st' = mp_groups st"
    "mp_usedRouteNames st' = mp_usedRouteNames st" "pass_frame st st'"
proof -
  have "rg_route g' = rg_route g \<and> rg_proxies g' = rg_proxies g \<and> mp_groups st' = mp_groups st \<and>
    mp_usedRouteNames st' = mp_usedRouteNames st \<and> pass_frame st st'"
    using assms unfolding join_group_def Let_def prod.case
    by (auto simp: pass_frame_def split: prod.splits if_splits dest!: checkSelectorConflict_group)
  then show "rg_route g' = rg_route g" "rg_proxies g' = rg_proxies g" "mp_groups st' = mp_groups st"
    "mp_usedRouteNames st' = mp_usedRouteNames st" "pass_frame st st'" by blast+
qed

lemma groups_cong:
  assumes "mp_groups st' = mp_groups st" and "mp_usedRouteNames st' = mp_usedRouteNames st"
  shows "routes st' = routes st" "groups_ok A st' = groups_ok A st"
  using assms by (simp_all add: routes_def groups_ok_def)

lemma warn_route_names:
  assumes "warn_route q w route lo c = (lo', c')"
  shows "set (lo_routeNames lo') = insert (rt_Name route) (set (lo_routeNames lo))"
  using assms by (auto simp: warn_route_def Let_def split: prod.splits if_splits)

lemma add_target_scope [simp]:
  "pg_routeName (add_target m j cap t pg) = pg_routeName pg" "pg_aliases (add_target m j cap t pg) = pg_aliases pg"
  by (auto simp: add_target_def split: option.split)

lemma set_proxy_step:
  "rg_route (set_proxy owner pg g) = rg_route g"
  "proxies_ok A g \<Longrightarrow> pg_routeName pg = rt_Name (rg_route g) \<Longrightarrow> set (pg_aliases pg) \<subseteq> A \<Longrightarrow> proxies_ok A (set_proxy owner pg g)"
proof -
  show "rg_route (set_proxy owner pg g) = rg_route g" by (simp add: set_proxy_def)
  assume ok: "proxies_ok A g" "pg_routeName pg = rt_Name (rg_route g)" "set (pg_aliases pg) \<subseteq> A"
  have "p = pg \<or> p \<in> snd ` set (rg_proxies g)" if "p \<in> snd ` set (rg_proxies (set_proxy owner pg g))" for p
    using that set_update_subset [of owner pg "rg_proxies g"] by (auto simp: set_proxy_def)
  moreover have name: "rt_Name (rg_route (set_proxy owner pg g)) = rt_Name (rg_route g)" by (simp add: set_proxy_def)
  ultimately show "proxies_ok A (set_proxy owner pg g)" using ok unfolding proxies_ok_def name by blast
qed

lemma find_proxy_scope:
  assumes "find_proxy q w g c = ((c', Done), Some pg)" and "proxies_ok A g" and "set (mq_aliases q) \<subseteq> A"
  shows "pg_routeName pg = rt_Name (rg_route g) \<and> set (pg_aliases pg) \<subseteq> A"
proof (cases "map_of (rg_proxies g) (ownerKey (mq_model q))")
  case None
  then obtain e v c1 where "pg = new_proxy q w g e v c1"
    using assms(1) by (auto simp: find_proxy_def Let_def split: prod.splits outcome.splits)
  then show ?thesis using assms(3) by (auto simp: new_proxy_def Let_def)
next
  case (Some pg')
  then have "pg = pg'" "pg' \<in> snd ` set (rg_proxies g)"
    using assms(1) by (auto simp: find_proxy_def Let_def intro!: image_eqI [OF _ map_of_SomeD])
  then show ?thesis using assms(2) unfolding proxies_ok_def by blast
qed

section \<open>Serving the endpoints of a model\<close>

text \<open>The routes grow by routes of the model's own strategies, and each new one is a route of the model.\<close>

definition serves :: "modelPlan \<Rightarrow> string set \<Rightarrow> modelLoop \<Rightarrow> modelPass \<Rightarrow> modelLoop \<Rightarrow> modelPass \<Rightarrow> bool" where
  "serves q A lo st lo' st' \<longleftrightarrow>
     (groups_ok A st \<longrightarrow> groups_ok A st') \<and> set (lo_routeNames lo) \<subseteq> set (lo_routeNames lo') \<and>
     (\<exists>new. routes st' = routes st @ new \<and> set new \<subseteq> {identity q} \<times> set (lo_routeNames lo')) \<and>
     (\<forall>n \<in> set (lo_routeNames lo') - set (lo_routeNames lo). (identity q, n) \<in> set (routes st'))"

lemma serves_refl [simp]: "serves q A lo st lo st"
  by (simp add: serves_def)

lemma serves_trans:
  assumes "serves q A lo st lo' st'" and "serves q A lo' st' lo'' st''"
  shows "serves q A lo st lo'' st''"
proof -
  obtain n1 n2 where r: "routes st' = routes st @ n1" "set n1 \<subseteq> {identity q} \<times> set (lo_routeNames lo')"
      "routes st'' = routes st' @ n2" "set n2 \<subseteq> {identity q} \<times> set (lo_routeNames lo'')"
    using assms unfolding serves_def by blast
  have sub: "set (lo_routeNames lo) \<subseteq> set (lo_routeNames lo')" "set (lo_routeNames lo') \<subseteq> set (lo_routeNames lo'')"
    using assms unfolding serves_def by blast+
  have "routes st'' = routes st @ (n1 @ n2)" "set (n1 @ n2) \<subseteq> {identity q} \<times> set (lo_routeNames lo'')"
    using r sub by auto
  moreover have "(identity q, n) \<in> set (routes st'')" if "n \<in> set (lo_routeNames lo'') - set (lo_routeNames lo)" for n
  proof (cases "n \<in> set (lo_routeNames lo')")
    case True
    then have "(identity q, n) \<in> set (routes st')" using that assms(1) unfolding serves_def by blast
    then show ?thesis using r(3) by simp
  next
    case False
    then show ?thesis using that assms(2) unfolding serves_def by blast
  qed
  moreover have "groups_ok A st \<longrightarrow> groups_ok A st''" using assms unfolding serves_def by blast
  ultimately show ?thesis using sub unfolding serves_def by blast
qed

lemma serve_proxy_step:
  assumes "serve_proxy q w g (lo, st, c) = ((lo', st', c'), oc)"
    and "map_of (mp_groups st) (item_key q w) = Some g0" and "rt_Name (rg_route g) = rt_Name (rg_route g0)"
  shows "step_ok c (c', oc)" "pass_frame st st'" "routes st' = routes st" "lo_routeNames lo' = lo_routeNames lo"
    "set (mq_aliases q) \<subseteq> A \<Longrightarrow> proxies_ok A g \<Longrightarrow> groups_ok A st \<Longrightarrow> groups_ok A st'"
proof -
  let ?key = "item_key q w" and ?own = "ownerKey (mq_model q)"
  obtain c1 o1 r where f: "find_proxy q w g c = ((c1, o1), r)" by (metis prod.exhaust)
  have ok: "step_ok c (c1, o1)" using find_proxy_ok [of c q w g] f by simp
  note s1 = set_group_step [OF assms(2,3)]
  have "step_ok c (c', oc) \<and> pass_frame st st' \<and> routes st' = routes st \<and> lo_routeNames lo' = lo_routeNames lo \<and>
    (set (mq_aliases q) \<subseteq> A \<longrightarrow> proxies_ok A g \<longrightarrow> groups_ok A st \<longrightarrow> groups_ok A st')"
  proof (cases "o1 = Done \<and> r \<noteq> None")
    case False
    then have "(c', oc) = (c1, o1)" "st' = set_group ?key g st" "lo' = lo"
      using assms(1) f by (cases o1; cases r; simp add: serve_proxy_def Let_def)+
    then show ?thesis using ok s1 by simp
  next
    case True
    then obtain pg where r: "r = Some pg" "o1 = Done" by blast
    note scope = find_proxy_scope [OF f [unfolded r]]
    define g2 where "g2 = set_proxy ?own pg g"
    have n2: "rt_Name (rg_route g2) = rt_Name (rg_route g)" by (simp add: g2_def set_proxy_step(1))
    note s2 = set_group_step [OF s1(3) n2]
    have p2: "proxies_ok A g2" if "set (mq_aliases q) \<subseteq> A" "proxies_ok A g"
      using scope [OF that(2,1)] set_proxy_step(2) [OF that(2)] by (simp add: g2_def)
    define st2 where "st2 = set_group ?key g2 (set_group ?key g st)"
    have base: "pass_frame st st2" "routes st2 = routes st"
      "set (mq_aliases q) \<subseteq> A \<Longrightarrow> proxies_ok A g \<Longrightarrow> groups_ok A st \<Longrightarrow> groups_ok A st2"
      using pass_frame_trans [OF s1(2) s2(2)] s1 s2 p2 unfolding st2_def by auto
    have map2: "map_of (mp_groups st2) ?key = Some g2" using s2(3) unfolding st2_def .
    have run: "serve_proxy q w g (lo, st, c) =
      (if pg_genaiCategory pg \<noteq> GenaiCategory (wi_spec w) then ((record_collapse w g pg lo, st2, c1), Done)
       else
         let lo = lo\<lparr>lo_routed := append_new (lo_routed lo) (wi_capability w)\<rparr> in
         case item_target q w c1 of
           None \<Rightarrow> ((lo, st2, c1), Panic ''interface conversion'')
         | Some target \<Rightarrow>
             ((lo, set_group ?key (set_proxy ?own (add_target (mo_Name (mq_model q)) (pt_index (wi_target w))
                (wi_capability w) target pg) g) st2, c1), Done))"
      by (simp add: serve_proxy_def Let_def f r st2_def g2_def split: option.split)
    have names: "lo_routeNames (record_collapse w g pg lo) = lo_routeNames lo" by (simp add: record_collapse_def)
    consider "st' = st2" "(c', oc) = (c1, Done) \<or> (\<exists>p. (c', oc) = (c1, Panic p))" "lo_routeNames lo' = lo_routeNames lo"
      | target where "st' = set_group ?key (set_proxy ?own (add_target (mo_Name (mq_model q)) (pt_index (wi_target w)) (wi_capability w) target pg) g) st2"
        "(c', oc) = (c1, Done)" "lo_routeNames lo' = lo_routeNames lo"
      using assms(1) names unfolding run Let_def
      by (cases "pg_genaiCategory pg \<noteq> GenaiCategory (wi_spec w)"; cases "item_target q w c1") auto
    then show ?thesis
    proof cases
      case 1
      then show ?thesis using base ok r by (auto simp: step_ok_def explained_def)
    next
      case (2 target)
      define pg' where "pg' = add_target (mo_Name (mq_model q)) (pt_index (wi_target w)) (wi_capability w) target pg"
      define g3 where "g3 = set_proxy ?own pg' g"
      have n3: "rt_Name (rg_route g3) = rt_Name (rg_route g2)" by (simp add: g3_def g2_def set_proxy_step(1))
      note s3 = set_group_step [OF map2 n3]
      have p3: "proxies_ok A g3" if "set (mq_aliases q) \<subseteq> A" "proxies_ok A g"
        using scope [OF that(2,1)] set_proxy_step(2) [OF that(2), of pg'] by (simp add: g3_def pg'_def)
      have st': "st' = set_group ?key g3 st2" using 2 by (simp add: g3_def pg'_def)
      show ?thesis using 2 base s3 p3 ok r pass_frame_trans [OF base(1) s3(2)] unfolding st' by auto
    qed
  qed
  then show "step_ok c (c', oc)" "pass_frame st st'" "routes st' = routes st" "lo_routeNames lo' = lo_routeNames lo"
    "set (mq_aliases q) \<subseteq> A \<Longrightarrow> proxies_ok A g \<Longrightarrow> groups_ok A st \<Longrightarrow> groups_ok A st'" by blast+
qed

lemma serve_item_step:
  assumes "serve_item q w (lo, st, c) = ((lo', st', c'), oc)"
  shows "step_ok c (c', oc)" "pass_frame st st'"
    "set (mq_aliases q) \<subseteq> A \<Longrightarrow> oc = Done \<Longrightarrow> serves q A lo st lo' st'"
proof -
  let ?m = "mq_model q"
  obtain c1 o1 where s1: "check_websocket q w c = (c1, o1)" by fastforce
  have k1: "step_ok c (c1, o1)" using check_websocket_ok [of c q w] s1 by simp
  have "step_ok c (c', oc) \<and> pass_frame st st' \<and> (set (mq_aliases q) \<subseteq> A \<longrightarrow> oc = Done \<longrightarrow> serves q A lo st lo' st')"
  proof (cases "o1 = Done")
    case False
    then have "(lo', st', c', oc) = (lo, st, c1, o1)"
      using assms s1 by (cases o1; simp add: serve_item_def)
    then show ?thesis using k1 False by simp
  next
    case True
    obtain c2 cfgs where s2: "(if isPassthrough ?m \<or> item_websocket w then (c1, [])
        else buildModelSelectorConfig (model_source ?m) ?m (wi_spec w) c1) = (c2, cfgs)" by fastforce
    obtain st3 g where s3: "find_group q w st = (st3, g)" by fastforce
    obtain g4 st4 c4 where s4: "join_group q cfgs g (st3, c2) = (g4, st4, c4)" by (metis prod.exhaust)
    obtain lo5 c5 where s5: "warn_route q w (rg_route g4) lo c4 = (lo5, c5)" by fastforce
    have s6: "serve_proxy q w g4 (lo5, st4, c5) = ((lo', st', c'), oc)"
      using assms s1 True s2 s3 s4 s5 by (simp add: serve_item_def split: if_splits)
    have i2: "only_issues c1 c2" using s2 buildModelSelectorConfig_step by (metis fst_conv only_issues_refl)
    have "only_issues c2 c4" by (rule join_group_issues [OF s4])
    moreover have "only_issues c4 c5" using warn_route_issues [of c4 q w "rg_route g4" lo] s5 by simp
    ultimately have "stays c1 c5" using i2 only_issues_trans only_issues_stays by blast
    then have k5: "stays c c5" using k1 True stays_trans by simp
    note g3 = find_group_step [OF s3]
    note g4 = join_group_step [OF s4]
    note same = groups_cong [OF g4(3,4)]
    have m4: "map_of (mp_groups st4) (item_key q w) = Some g" using g3(1) g4(3) by simp
    have n4: "rt_Name (rg_route g4) = rt_Name (rg_route g)" using g4(1) by simp
    note p = serve_proxy_step [OF s6 m4 n4]
    have ok: "step_ok c (c', oc)" using step_ok_after [OF k5 p(1)] .
    have fr: "pass_frame st st'" using pass_frame_trans g3(2) g4(5) p(2) by blast
    have "serves q A lo st lo' st'" if A: "set (mq_aliases q) \<subseteq> A"
    proof -
      have names: "set (lo_routeNames lo') = insert (rt_Name (rg_route g)) (set (lo_routeNames lo))"
        using warn_route_names [OF s5] p(4) n4 by simp
      have r: "routes st' = routes st3" using p(3) same(1) by simp
      have "groups_ok A st'" if ok: "groups_ok A st"
      proof -
        have o3: "groups_ok A st3" using g3(5) ok .
        have "proxies_ok A g" using o3 map_of_SomeD [OF g3(1)] unfolding groups_ok_def by force
        then have "proxies_ok A g4" unfolding proxies_ok_def g4(2) n4 .
        moreover have "groups_ok A st4" using same(2) [of A] o3 by simp
        ultimately show ?thesis by (rule p(5) [OF A])
      qed
      moreover obtain new where "routes st' = routes st @ new" "set new \<subseteq> {(identity q, rt_Name (rg_route g))}"
        using g3(3) r by auto
      moreover have "(identity q, rt_Name (rg_route g)) \<in> set (routes st')" using g3(4) r by simp
      ultimately show ?thesis unfolding serves_def names by blast
    qed
    with ok fr show ?thesis by blast
  qed
  then show "step_ok c (c', oc)" "pass_frame st st'"
    "set (mq_aliases q) \<subseteq> A \<Longrightarrow> oc = Done \<Longrightarrow> serves q A lo st lo' st'" by blast+
qed

lemma serve_items_step:
  "run_loop (serve_item q) ws (lo, st, c) = ((lo', st', c'), oc) \<Longrightarrow>
   step_ok c (c', oc) \<and> pass_frame st st' \<and> (set (mq_aliases q) \<subseteq> A \<longrightarrow> oc = Done \<longrightarrow> serves q A lo st lo' st')"
proof (induction ws arbitrary: lo st c)
  case Nil
  then show ?case by auto
next
  case (Cons w ws)
  obtain lo1 st1 c1 o1 where s1: "serve_item q w (lo, st, c) = ((lo1, st1, c1), o1)" by (metis prod.exhaust)
  note k1 = serve_item_step [OF s1]
  show ?case
  proof (cases "o1 = Done")
    case False
    then have "((lo', st', c'), oc) = ((lo1, st1, c1), o1)" using Cons.prems s1 by (cases o1) simp_all
    then show ?thesis using k1 False by simp
  next
    case True
    then have rest: "run_loop (serve_item q) ws (lo1, st1, c1) = ((lo', st', c'), oc)" using Cons.prems s1 by simp
    have "stays c c1" using k1(1) True by simp
    note ih = Cons.IH [OF rest]
    have "step_ok c (c', oc)" using step_ok_after [OF \<open>stays c c1\<close>] ih by blast
    moreover have "pass_frame st st'" using pass_frame_trans [OF k1(2)] ih by blast
    moreover have "serves q A lo st lo' st'" if "set (mq_aliases q) \<subseteq> A" "oc = Done"
      using serves_trans [OF k1(3) [OF that(1) True]] ih that by blast
    ultimately show ?thesis by blast
  qed
qed

end
