(* ===== verification/Model_Guards.thy ===== *)
theory Model_Guards
  imports Model_Invariants
begin

text \<open>
  The guards of a pass (\<open>src/convert/model.go\<close>): the policy, access control and authentication plugins that
  each model adds for its routes, and with them the invariant that holds between two models of a pass.
\<close>

section \<open>Plugins of policies\<close>

text \<open>What placing plugins changes, as far as the invariant reads it: plugins of the given routes and
  aliases are appended.\<close>

definition unscoped :: "Plugin \<Rightarrow> bool" where
  "unscoped p \<longleftrightarrow> pl_Service p = None \<and> pl_Consumer p = None \<and> pl_ConsumerGroup p = None"

definition scoped_to :: "string set \<Rightarrow> string set \<Rightarrow> Plugin \<Rightarrow> bool" where
  "scoped_to ns A p \<longleftrightarrow> (\<exists>n \<in> ns. pl_Route p = Some n) \<and> (\<forall>a. pl_Model p = Some a \<longrightarrow> a \<in> A) \<and> unscoped p"

lemma unscoped_simps [simp]:
  "unscoped (p\<lparr>pl_Route := r\<rparr>) = unscoped p" "unscoped (p\<lparr>pl_Model := a\<rparr>) = unscoped p"
  "unscoped (p\<lparr>pl_Protocols := ps\<rparr>) = unscoped p" "unscoped (p\<lparr>pl_Name := n\<rparr>) = unscoped p"
  "unscoped (p\<lparr>pl_Source := s\<rparr>) = unscoped p" "unscoped (p\<lparr>pl_Config := cfg\<rparr>) = unscoped p"
  "unscoped (p\<lparr>pl_Tags := ts\<rparr>) = unscoped p" "unscoped (p\<lparr>pl_TargetSources := tss\<rparr>) = unscoped p"
  "unscoped (p\<lparr>pl_Ordering := ord\<rparr>) = unscoped p" "unscoped empty_plugin"
  by (simp_all add: unscoped_def empty_plugin_def)

definition places :: "string set \<Rightarrow> string set \<Rightarrow> modelPass \<Rightarrow> modelPass \<Rightarrow> bool" where
  "places ns A st st' \<longleftrightarrow>
     mp_groups st' = mp_groups st \<and> mp_usedRouteNames st' = mp_usedRouteNames st \<and>
     mp_aiModelRows st' = mp_aiModelRows st \<and> mp_skipped st' = mp_skipped st \<and>
     mp_identityPluginSeen st' = mp_identityPluginSeen st \<and>
     (\<exists>ps. mp_guardPlugins st' = mp_guardPlugins st @ ps \<and> (\<forall>p \<in> set ps. scoped_to ns A p))"

lemma places_refl [simp]: "places ns A st st"
  by (simp add: places_def)

lemma places_trans: "places ns A a b \<Longrightarrow> places ns A b c \<Longrightarrow> places ns A a c"
  unfolding places_def by auto

lemma places_guard:
  "places ns A a b \<Longrightarrow> \<forall>p \<in> set ps. scoped_to ns A p \<Longrightarrow> places ns A a (guard_with ps b)"
  unfolding places_def guard_with_def by auto

lemma order_plugin_step:
  "order_plugin m n p (st, c) = (st', c') \<Longrightarrow> places ns A st st' \<and> only_issues c c'"
  by (auto simp: order_plugin_def places_def split: if_splits option.splits)

lemma place_plugin_step:
  assumes "place_plugin m aliases n p (st, c) = (st', c')" and "pl_Model p = None" and "unscoped p" and "n \<in> ns"
  shows "places ns (set aliases) st st' \<and> only_issues c c'"
proof (cases "fmlookup (mp_websocketRoutes st) n")
  case (Some protocols)
  then show ?thesis using assms
    by (auto simp: place_plugin_def scoped_to_def Let_def split: if_splits intro!: places_guard)
next
  case None
  show ?thesis
  proof (cases "fkScoped m")
    case False
    then show ?thesis using assms None
      by (auto simp: place_plugin_def scoped_to_def Let_def intro!: places_guard)
  next
    case True
    obtain st1 c1 where s: "order_plugin m n (p\<lparr>pl_Route := Some n\<rparr>) (st, c) = (st1, c1)" by fastforce
    note k = order_plugin_step [OF s, of ns "set aliases"]
    have "places ns (set aliases) st (st1\<lparr>mp_requestTerminations := x\<rparr>)" for x
      using k by (simp add: places_def)
    then show ?thesis using assms None True s k
      by (auto simp: place_plugin_def scoped_to_def Let_def intro!: places_guard)
  qed
qed

lemma fold_places:
  assumes "\<forall>x \<in> set xs. \<forall>s. places ns A (fst s) (fst (f x s)) \<and> only_issues (snd s) (snd (f x s))"
  shows "places ns A (fst s) (fst (fold f xs s)) \<and> only_issues (snd s) (snd (fold f xs s))"
  using assms
proof (induction xs arbitrary: s)
  case (Cons x xs)
  have "places ns A (fst s) (fst (f x s)) \<and> only_issues (snd s) (snd (f x s))"
    using bspec [OF Cons.prems, of x] by (metis list.set_intros(1))
  moreover have "places ns A (fst (f x s)) (fst (fold f xs (f x s))) \<and> only_issues (snd (f x s)) (snd (fold f xs (f x s)))"
    by (rule Cons.IH) (use Cons.prems in simp)
  ultimately show ?case using places_trans only_issues_trans by (metis fold_simps(2))
qed simp

lemma place_plugins_step:
  assumes "\<forall>p \<in> set plugins. pl_Model p = None \<and> unscoped p"
  shows "places (set ns) (set aliases) (fst s) (fst (place_plugins m aliases ns plugins s)) \<and>
    only_issues (snd s) (snd (place_plugins m aliases ns plugins s))"
proof -
  have one: "places (set ns) (set aliases) (fst s) (fst (place_plugin m aliases n p s)) \<and>
      only_issues (snd s) (snd (place_plugin m aliases n p s))"
    if "p \<in> set plugins" "n \<in> set ns" for p n s
  proof -
    obtain st c st' c' where "s = (st, c)" "place_plugin m aliases n p (st, c) = (st', c')" by (metis prod.exhaust)
    then show ?thesis using place_plugin_step [of m aliases n p st c st' c' "set ns"] that assms by simp
  qed
  show ?thesis
    unfolding place_plugins_def by (intro fold_places ballI allI one)
qed

text \<open>The plugins of policies and access control have no ai-model scope yet.\<close>

lemma policyPlugin_model: "snd (policyPlugin p tags b c) = Some pl \<Longrightarrow> pl_Model pl = None \<and> unscoped pl"
  by (auto simp: policyPlugin_def unscoped_def empty_plugin_def prod.case_eq_if split: if_splits option.splits)

lemma scoped_plugins_model:
  assumes "scopedPlugins src refs acls c = (c', Some ps)"
  shows "\<forall>p \<in> set (sourceScopedPlugins ps k n). pl_Model p = None \<and> unscoped p"
proof -
  have ps: "ps = entity_plugins refs acls c" using scopedPlugins_value [of src refs acls c] assms by (auto split: if_splits)
  have ref: "ref_plugin c r = Some p \<Longrightarrow> pl_Model p = None \<and> unscoped p" for r p
    by (auto simp: ref_plugin_def dest: policyPlugin_model split: option.splits if_splits)
  have acl: "pl_Model (aclPlugin acls) = None \<and> unscoped (aclPlugin acls)"
    by (simp add: aclPlugin_def unscoped_def empty_plugin_def)
  have "pl_Model p = None \<and> unscoped p" if "p \<in> set (entity_plugins refs acls c)" for p
    using that ref acl by (auto simp: entity_plugins_def List.map_filter_def split: if_splits)
  then show ?thesis unfolding ps sourceScopedPlugins_def by auto
qed

section \<open>Authentication\<close>

text \<open>The plugin of a strategy on a route: enabled, for the whole route, made from that strategy.\<close>

definition auth_plugin_for :: "converter \<Rightarrow> string \<Rightarrow> string \<Rightarrow> Plugin \<Rightarrow> bool" where
  "auth_plugin_for c n ref p \<longleftrightarrow>
     (case fmlookup (cn_authStrategies c) ref of
        None \<Rightarrow> False
      | Some idp \<Rightarrow> ast_Type idp \<in> set authPolicyTypes \<and> pl_Name p = ast_Type idp \<and>
          pl_Source p = source ''identity_provider'' (ast_Name idp) ''config'' [] \<and>
          pl_Enabled p = None \<and> pl_Route p = Some n \<and> pl_Model p = None \<and> pl_Consumer p = None \<and>
          pl_ConsumerGroup p = None)"

definition protected_by :: "converter \<Rightarrow> modelPass \<Rightarrow> string \<Rightarrow> string \<Rightarrow> bool" where
  "protected_by c st key n \<longleftrightarrow>
     (\<exists>refs. authStrategyKey refs = key \<and> (\<forall>ref \<in> set refs. \<exists>p \<in> set (mp_guardPlugins st). auth_plugin_for c n ref p))"

definition seen_ok :: "converter \<Rightarrow> modelPass \<Rightarrow> bool" where
  "seen_ok c st \<longleftrightarrow> (\<forall>(n, key) \<in> set (mp_identityPluginSeen st). protected_by c st key n)"

lemma route_auth_plugin:
  assumes "idpPlugins = map (strategy_plugin src c) (first_refs [] refs)" and "is_Kind src \<noteq> kindAgent"
    and "\<forall>r \<in> set refs. strategy_ok c r" and "ref \<in> set refs"
  shows "\<exists>p \<in> set (route_auth_plugins n ps idpPlugins). auth_plugin_for c n ref p"
proof -
  obtain idp where idp: "fmlookup (cn_authStrategies c) ref = Some idp" "ast_Type idp \<in> set authPolicyTypes"
    using assms(3,4) by (force simp: strategy_ok_def split: option.splits)
  have sp: "strategy_plugin src c ref = authStrategyPlugin idp"
    using idp assms(2) by (simp add: strategy_plugin_def entity_auth_plugin_def Let_def)
  have "strategy_plugin src c ref \<in> set idpPlugins" using assms(1,4) by simp
  then show ?thesis
    using idp unfolding route_auth_plugins_def set_map sp
    by (intro bexI [OF _ imageI])
      (auto simp: auth_plugin_for_def authStrategyPlugin_def empty_plugin_def withoutAnonymousFallback_def Let_def
        split: option.split)
qed

lemma route_auth_scoped:
  assumes "idpPlugins = map (strategy_plugin src c) refs"
  shows "\<forall>p \<in> set (route_auth_plugins n ps idpPlugins). pl_Route p = Some n \<and> pl_Model p = None \<and> unscoped p"
  using assms
  by (auto simp: route_auth_plugins_def strategy_plugin_def entity_auth_plugin_def authStrategyPlugin_def
      unscoped_def empty_plugin_def withoutAnonymousFallback_def Let_def split: option.split)

lemma protected_mono:
  "protected_by c st key n \<Longrightarrow> set (mp_guardPlugins st) \<subseteq> set (mp_guardPlugins st') \<Longrightarrow> protected_by c st' key n"
  unfolding protected_by_def by blast

text \<open>What protecting routes changes: plugins of the routes are appended, and more is seen.\<close>

definition guards :: "string set \<Rightarrow> modelPass \<Rightarrow> modelPass \<Rightarrow> bool" where
  "guards ns st st' \<longleftrightarrow>
     mp_groups st' = mp_groups st \<and> mp_usedRouteNames st' = mp_usedRouteNames st \<and>
     mp_aiModelRows st' = mp_aiModelRows st \<and> mp_skipped st' = mp_skipped st \<and>
     (\<exists>ps. mp_guardPlugins st' = mp_guardPlugins st @ ps \<and> (\<forall>p \<in> set ps. scoped_to ns {} p))"

lemma guards_refl [simp]: "guards ns st st"
  by (simp add: guards_def)

lemma guards_trans: "guards ns a b \<Longrightarrow> guards ns b c \<Longrightarrow> guards ns a c"
  unfolding guards_def by auto

lemma guards_more: "guards ns a b \<Longrightarrow> set (mp_guardPlugins a) \<subseteq> set (mp_guardPlugins b)"
  unfolding guards_def by auto

abbreviation (input) strategies :: "Model \<Rightarrow> string list" where
  "strategies m \<equiv> moa_AuthStrategies (mo_Access m)"

lemma protect_route_step:
  assumes run: "protect_route m idps n (st, c) = ((st', c'), oc)"
    and idps: "idps = map (strategy_plugin (model_source m) c0) (first_refs [] (strategies m))"
    and ok: "\<forall>r \<in> set (strategies m). strategy_ok c0 r" and n: "n \<in> ns"
  shows "step_ok c (c', oc)" "guards ns st st'"
    "oc = Done \<Longrightarrow> seen_ok c0 st \<Longrightarrow> seen_ok c0 st' \<and> protected_by c0 st' (authStrategyKey (strategies m)) n"
proof -
  let ?key = "authStrategyKey (strategies m)" and ?refs = "strategies m"
  let ?ps = "route_auth_plugins n (fmlookup (mp_websocketRoutes st) n) idps"
  have none: "idps = [] \<longleftrightarrow> ?refs = []" by (cases ?refs) (simp_all add: idps)
  have scoped: "\<forall>p \<in> set ?ps. scoped_to ns {} p"
    using route_auth_scoped [OF idps] n by (auto simp: scoped_to_def)
  have made: "protected_by c0 st2 ?key n" if "set ?ps \<subseteq> set (mp_guardPlugins st2)" for st2
    unfolding protected_by_def
  proof (intro exI [of _ ?refs] conjI ballI)
    fix ref assume ref: "ref \<in> set ?refs"
    have "is_Kind (model_source m) \<noteq> kindAgent" by (simp add: issueSource_def)
    from route_auth_plugin [OF idps this ok ref] obtain p where "p \<in> set ?ps" "auth_plugin_for c0 n ref p" by blast
    then show "\<exists>p \<in> set (mp_guardPlugins st2). auth_plugin_for c0 n ref p" using that by blast
  qed simp
  consider (seen) "(n, ?key) \<in> set (mp_identityPluginSeen st) \<or> idps = []" "st' = st" "c' = c" "oc = Done"
    | (failed) "step_ok c (c', oc)" "oc \<noteq> Done" "guards ns st st'"
    | (placed) x where "st' = guard_with ?ps (st\<lparr>mp_identityPluginSeen := (n, ?key) # mp_identityPluginSeen st, mp_selectorAfter := x\<rparr>)"
        "stays c c'" "oc = Done"
  proof -
    let ?dup = "(n, ?key) \<in> set (mp_identityPluginSeen st) \<or> idps = []"
    let ?bad = "fmlookup (mp_websocketRoutes st) n \<noteq> None \<and> 1 < length idps"
    consider "?dup" | "\<not> ?dup" "?bad" | "\<not> ?dup" "\<not> ?bad" by blast
    then show thesis
    proof cases
      case 1
      then show thesis using run by (intro that(1)) (auto simp: protect_route_def Let_def)
    next
      case 2
      then show thesis using run
        by (intro that(2)) (auto simp: protect_route_def Let_def guards_def failed_after)
    next
      case 3
      then have res: "\<exists>x. st' = guard_with ?ps (st\<lparr>mp_identityPluginSeen := (n, ?key) # mp_identityPluginSeen st,
          mp_selectorAfter := x\<rparr>) \<and> c' = (if needsAnonymousFallback idps then ensureAnonymousConsumer c else c) \<and> oc = Done"
        using run by (auto simp: protect_route_def Let_def)
      then have st: "stays c c'" by (auto simp: ensureAnonymous_stays)
      from res show thesis by (elim exE conjE) (rule that(3) [OF _ st])
    qed
  qed
  then have "step_ok c (c', oc) \<and> guards ns st st' \<and>
    (oc = Done \<longrightarrow> seen_ok c0 st \<longrightarrow> seen_ok c0 st' \<and> protected_by c0 st' ?key n)"
  proof cases
    case seen
    have "protected_by c0 st ?key n" if "seen_ok c0 st"
      using seen(1)
    proof
      assume "(n, ?key) \<in> set (mp_identityPluginSeen st)"
      then show ?thesis using that unfolding seen_ok_def by blast
    next
      assume "idps = []"
      then show ?thesis using none unfolding protected_by_def by (intro exI [of _ ?refs]) simp
    qed
    then show ?thesis using seen by simp
  next
    case failed
    then show ?thesis by simp
  next
    case (placed x)
    have g: "guards ns st st'" using scoped placed(1) by (auto simp: guards_def guard_with_def)
    have p: "protected_by c0 st' ?key n" by (rule made) (simp add: placed(1) guard_with_def)
    have "seen_ok c0 st'" if "seen_ok c0 st"
    proof -
      have "protected_by c0 st' k n'" if "(n', k) \<in> set (mp_identityPluginSeen st)" for n' k
        using \<open>seen_ok c0 st\<close> that guards_more [OF g] protected_mono unfolding seen_ok_def by blast
      then show ?thesis using p unfolding seen_ok_def by (auto simp: placed(1) guard_with_def)
    qed
    with p g placed show ?thesis by simp
  qed
  then show "step_ok c (c', oc)" "guards ns st st'"
    "oc = Done \<Longrightarrow> seen_ok c0 st \<Longrightarrow> seen_ok c0 st' \<and> protected_by c0 st' ?key n" by blast+
qed

lemma protect_routes_step:
  assumes "run_loop (protect_route m idps) ns (st, c) = ((st', c'), oc)"
    and idps: "idps = map (strategy_plugin (model_source m) c0) (first_refs [] (strategies m))"
    and ok: "\<forall>r \<in> set (strategies m). strategy_ok c0 r" and "set ns \<subseteq> N"
  shows "step_ok c (c', oc) \<and> guards N st st' \<and>
    (oc = Done \<longrightarrow> seen_ok c0 st \<longrightarrow> seen_ok c0 st' \<and> (\<forall>n \<in> set ns. protected_by c0 st' (authStrategyKey (strategies m)) n))"
  using assms(1,4)
proof (induction ns arbitrary: st c)
  case (Cons n ns)
  obtain st1 c1 o1 where s: "protect_route m idps n (st, c) = ((st1, c1), o1)" by (metis prod.exhaust)
  have "n \<in> N" using Cons.prems by simp
  note k = protect_route_step [OF s idps ok this]
  show ?case
  proof (cases "o1 = Done")
    case False
    then have "((st', c'), oc) = ((st1, c1), o1)" using Cons.prems s by (cases o1) simp_all
    then show ?thesis using k False by simp
  next
    case True
    have rest: "run_loop (protect_route m idps) ns (st1, c1) = ((st', c'), oc)" using Cons.prems s True by simp
    note ih = Cons.IH [OF rest]
    have ns: "set ns \<subseteq> N" using Cons.prems by simp
    have g: "guards N st1 st'" using ih ns by blast
    have "step_ok c (c', oc)" using step_ok_after [of c c1] k(1) True ih ns by simp
    moreover have "guards N st st'" using guards_trans k(2) g by blast
    moreover have "seen_ok c0 st' \<and> (\<forall>x \<in> set (n # ns). protected_by c0 st' (authStrategyKey (strategies m)) x)"
      if "oc = Done" "seen_ok c0 st"
    proof -
      have s1: "seen_ok c0 st1" "protected_by c0 st1 (authStrategyKey (strategies m)) n" using k(3) [OF True that(2)] by blast+
      then have "protected_by c0 st' (authStrategyKey (strategies m)) n" using protected_mono guards_more [OF g] by blast
      then show ?thesis using ih ns s1(1) that(1) by simp
    qed
    ultimately show ?thesis by blast
  qed
qed simp

end
