(* ===== verification/Model_Passes.thy ===== *)
theory Model_Passes
  imports Model_Guards
begin

text \<open>
  The invariant between two models of a pass, and what \<open>convertModel\<close> and \<open>convertVideoLifecycle\<close> of
  \<open>src/convert/model.go\<close> keep of the converter whatever they are given.
\<close>

section \<open>The frame of a pass\<close>

definition passes :: "converter \<Rightarrow> converter \<Rightarrow> bool" where
  "passes c c' \<longleftrightarrow> auth_env c c' \<and> (kept (cv_out c'))\<lparr>doc_AIModels := []\<rparr> = (kept (cv_out c))\<lparr>doc_AIModels := []\<rparr>"

lemma passes_trans: "passes a b \<Longrightarrow> passes b c \<Longrightarrow> passes a c"
  unfolding passes_def using auth_env_trans by auto

lemma stays_passes: "stays c c' \<Longrightarrow> passes c c'"
  by (simp add: stays_def passes_def)

lemma passes_fields:
  assumes "passes c c'"
  shows "cn_src c' = cn_src c" "reports c c'" "doc_Plugins (cv_out c') = doc_Plugins (cv_out c)"
    "doc_Services (cv_out c') = doc_Services (cv_out c)" "doc_CustomPlugins (cv_out c') = doc_CustomPlugins (cv_out c)"
    "doc_Vaults (cv_out c') = doc_Vaults (cv_out c)" "doc_ConsumerGroups (cv_out c') = doc_ConsumerGroups (cv_out c)"
proof -
  have a: "auth_env c c'" using assms by (simp add: passes_def)
  then show "cn_src c' = cn_src c" by (simp add: auth_env_fields)
  from a show "reports c c'" unfolding auth_env_def by blast
  have "doc_Plugins ((kept (cv_out c'))\<lparr>doc_AIModels := []\<rparr>) = doc_Plugins ((kept (cv_out c))\<lparr>doc_AIModels := []\<rparr>)"
    "doc_Services ((kept (cv_out c'))\<lparr>doc_AIModels := []\<rparr>) = doc_Services ((kept (cv_out c))\<lparr>doc_AIModels := []\<rparr>)"
    using assms by (simp_all add: passes_def)
  then show "doc_Plugins (cv_out c') = doc_Plugins (cv_out c)" "doc_Services (cv_out c') = doc_Services (cv_out c)"
    by (simp_all add: kept_fields)
  have "same_tables ((kept (cv_out c))\<lparr>doc_AIModels := []\<rparr>) ((kept (cv_out c'))\<lparr>doc_AIModels := []\<rparr>)"
    using assms by (simp add: passes_def same_tables_def)
  then show "doc_CustomPlugins (cv_out c') = doc_CustomPlugins (cv_out c)" "doc_Vaults (cv_out c') = doc_Vaults (cv_out c)"
    "doc_ConsumerGroups (cv_out c') = doc_ConsumerGroups (cv_out c)"
    by (simp_all add: same_tables_def kept_def)
qed

lemma rows_frame_passes: "rows_frame c c' \<Longrightarrow> passes c c'"
  unfolding rows_frame_def passes_def
  by (elim conjE exE) (simp add: auth_env_def kept_def)

lemma write_row_frame: "rows_frame c (snd s) \<Longrightarrow> rows_frame c (snd (write_row src m owned a s))"
proof -
  assume f: "rows_frame c (snd s)"
  obtain rows c1 where s: "s = (rows, c1)" by fastforce
  have "rows_frame c1 (snd (write_row src m owned a (rows, c1)))"
    by (auto simp: write_row_def Let_def rows_frame_issues split: option.split)
  then show ?thesis using f s rows_frame_trans by simp
qed

lemma fold_rows: "rows_frame c (snd s) \<Longrightarrow> rows_frame c (snd (fold (write_row src m owned) as s))"
  by (induction as arbitrary: s) (simp_all add: write_row_frame)

lemma placeSharedID_frame: "rows_frame c1 (snd (placeSharedID src m as (rows, c1)))"
  by (auto simp: placeSharedID_def Let_def rows_frame_issues split: option.split)

lemma writeAIModels_frame: "rows_frame c (snd (writeAIModels src m as (rows, c)))"
proof -
  define owned where "owned = filter (\<lambda>alias. fmlookup rows alias = None) as"
  obtain rows1 c1 where f: "fold (write_row src m owned) as (rows, c) = (rows1, c1)" by fastforce
  have "rows_frame c c1" using fold_rows [of c "(rows, c)" src m owned as] f by simp
  moreover have "rows_frame c1 (snd (placeSharedID src m as (rows1, c1)))" by (rule placeSharedID_frame)
  ultimately have "rows_frame c (snd (if P then placeSharedID src m as (rows1, c1) else (rows1, c1)))" for P
    using rows_frame_trans by simp
  then show ?thesis
    unfolding writeAIModels_def Let_def fst_conv owned_def [symmetric] f .
qed

lemma warn_collapsed_issues: "only_issues c (warn_collapsed m ml lo c)"
  unfolding warn_collapsed_def by (rule fold_only_issues) (auto split: prod.split)

section \<open>The invariant between two models\<close>

abbreviation (input) row_names :: "modelPass \<Rightarrow> string set" where
  "row_names st \<equiv> {a. fmlookup (mp_aiModelRows st) a \<noteq> None}"

definition guards_ok :: "modelPass \<Rightarrow> bool" where
  "guards_ok st \<longleftrightarrow> (\<forall>p \<in> set (mp_guardPlugins st). scoped_to (snd ` set (routes st)) (row_names st) p)"

definition pass_inv :: "converter \<Rightarrow> modelPass \<Rightarrow> bool" where
  "pass_inv c st \<longleftrightarrow>
     groups_ok (row_names st) st \<and> rows_inv (doc_AIModels (cv_out c)) (mp_aiModelRows st) \<and> guards_ok st \<and>
     seen_ok c st \<and> (\<forall>(key, n) \<in> set (routes st). protected_by c st key n)"

lemma protected_env: "auth_env c c' \<Longrightarrow> protected_by c' = protected_by c"
  by (simp add: protected_by_def auth_plugin_for_def fun_eq_iff auth_env_fields)

lemma seen_env: "auth_env c c' \<Longrightarrow> seen_ok c' st = seen_ok c st"
  by (simp add: seen_ok_def protected_env)

lemma scoped_to_mono: "scoped_to ns A p \<Longrightarrow> ns \<subseteq> ns' \<Longrightarrow> A \<subseteq> A' \<Longrightarrow> scoped_to ns' A' p"
  unfolding scoped_to_def by blast

lemma seen_mono:
  "seen_ok c st \<Longrightarrow> mp_identityPluginSeen st' = mp_identityPluginSeen st \<Longrightarrow>
   set (mp_guardPlugins st) \<subseteq> set (mp_guardPlugins st') \<Longrightarrow> seen_ok c st'"
  unfolding seen_ok_def using protected_mono by fastforce

lemma check_served_ok: "step_ok c (check_served q ml formats targets pairs c)"
proof -
  let ?src = "model_source (mq_model q)"
  obtain c1 o1 where s: "checkTargetSupport ?src (mq_model q) ml formats (served_by (fst pairs)) targets c = (c1, o1)" by fastforce
  then have "step_ok c (c1, o1)" using checkTargetSupport_step step_ok_issues by (metis fst_conv)
  moreover have "stays c1 (warnUnservedFormats ?src (mq_model q) ml (snd pairs) c1)" by (simp add: only_issues_stays)
  ultimately show ?thesis
    using s stays_trans by (cases o1) (auto simp: check_served_def Let_def)
qed

lemma guard_model_step:
  assumes run: "guard_model q ns (st, c) = ((st', c'), oc)"
  shows "step_ok c (c', oc)" "mp_skipped st' = mp_skipped st"
    "oc = Done \<Longrightarrow> mp_groups st' = mp_groups st \<and> mp_usedRouteNames st' = mp_usedRouteNames st \<and>
       mp_aiModelRows st' = mp_aiModelRows st \<and>
       (\<exists>ps. mp_guardPlugins st' = mp_guardPlugins st @ ps \<and> (\<forall>p \<in> set ps. scoped_to (set ns) (set (mq_aliases q)) p)) \<and>
       (seen_ok c st \<longrightarrow> seen_ok c st' \<and> (\<forall>n \<in> set ns. protected_by c st' (identity q) n))"
proof -
  let ?m = "mq_model q" and ?src = "model_source (mq_model q)"
  obtain c1 r where s1: "scopedPlugins ?src (mo_Policies ?m) (moa_ACLs (mo_Access ?m)) c = (c1, r)" by fastforce
  have "step_ok c (c', oc) \<and> mp_skipped st' = mp_skipped st \<and> (oc = Done \<longrightarrow> mp_groups st' = mp_groups st \<and>
      mp_usedRouteNames st' = mp_usedRouteNames st \<and> mp_aiModelRows st' = mp_aiModelRows st \<and>
      (\<exists>ps. mp_guardPlugins st' = mp_guardPlugins st @ ps \<and> (\<forall>p \<in> set ps. scoped_to (set ns) (set (mq_aliases q)) p)) \<and>
      (seen_ok c st \<longrightarrow> seen_ok c st' \<and> (\<forall>n \<in> set ns. protected_by c st' (identity q) n)))"
  proof (cases r)
    case None
    then show ?thesis using run s1 scopedPlugins_ok(1) by (auto simp: guard_model_def Let_def)
  next
    case (Some plugins)
    let ?ps = "sourceScopedPlugins plugins ''model'' (mo_Name ?m)"
    obtain st2 c2 where s2: "place_plugins ?m (mq_aliases q) ns ?ps (st, c1) = (st2, c2)" by fastforce
    obtain c3 o3 idps where s3: "scopedAuthStrategyPlugins ?src 0 (strategies ?m) [] [] c2 = ((c3, o3), idps)"
      by (metis prod.exhaust)
    have "\<forall>p \<in> set ?ps. pl_Model p = None \<and> unscoped p" by (rule scoped_plugins_model) (use s1 Some in simp)
    then have pl: "places (set ns) (set (mq_aliases q)) st st2" "only_issues c1 c2"
      using place_plugins_step [of ?ps ns "mq_aliases q" "(st, c1)" ?m] s2 by simp_all
    have st2: "stays c c2" using scopedPlugins_ok(2) s1 Some stays_trans only_issues_stays [OF pl(2)] by blast
    have ok3: "step_ok c2 (c3, o3)" using scopedAuth_ok [of c2 ?src 0 "strategies ?m" "[]" "[]"] s3 by simp
    show ?thesis
    proof (cases "o3 = Done")
      case False
      then have "((st', c'), oc) = ((st2, c3), o3)"
        using run s1 Some s2 s3 by (cases o3; simp add: guard_model_def Let_def)
      then show ?thesis using False step_ok_after [OF st2 ok3] pl by (simp add: places_def)
    next
      case True
      have rest: "run_loop (protect_route ?m idps) ns (st2, c3) = ((st', c'), oc)"
        using run s1 Some s2 s3 True by (simp add: guard_model_def Let_def)
      have sp: "auth_spec ?src (strategies ?m) [] [] c2 ((c3, Done), idps)"
        using scopedAuth_spec [of ?src "strategies ?m" "[]" "[]" c2 0] s3 True by simp
      have ids: "idps = map (strategy_plugin ?src c2) (first_refs [] (strategies ?m))"
        and sok: "\<forall>r \<in> set (strategies ?m). strategy_ok c2 r"
        using sp by (auto simp: auth_spec_def)
      note k = protect_routes_step [OF rest ids sok order_refl]
      have env: "auth_env c c2" using st2 by (simp add: stays_def)
      have "step_ok c (c', oc)" using step_ok_after [OF st2] step_ok_after [of c2 c3] ok3 True k by simp
      moreover have "mp_skipped st' = mp_skipped st" using k pl by (simp add: guards_def places_def)
      moreover have "mp_groups st' = mp_groups st \<and> mp_usedRouteNames st' = mp_usedRouteNames st \<and>
          mp_aiModelRows st' = mp_aiModelRows st" using k pl by (simp add: guards_def places_def)
      moreover obtain ps1 ps2 where "mp_guardPlugins st2 = mp_guardPlugins st @ ps1" "mp_guardPlugins st' = mp_guardPlugins st2 @ ps2"
          "\<forall>p \<in> set ps1. scoped_to (set ns) (set (mq_aliases q)) p" "\<forall>p \<in> set ps2. scoped_to (set ns) {} p"
        using k pl unfolding guards_def places_def by blast
      then have "mp_guardPlugins st' = mp_guardPlugins st @ (ps1 @ ps2)"
          "\<forall>p \<in> set (ps1 @ ps2). scoped_to (set ns) (set (mq_aliases q)) p"
        using scoped_to_mono [of "set ns" "{}" _ "set ns" "set (mq_aliases q)"] by auto
      moreover have "seen_ok c st' \<and> (\<forall>n \<in> set ns. protected_by c st' (identity q) n)" if "oc = Done" "seen_ok c st"
      proof -
        have "seen_ok c2 st2" using seen_mono [of c st st2] that(2) pl(1) seen_env [OF env] by (auto simp: places_def)
        then show ?thesis
          using k that(1) seen_env [OF env] protected_env [OF env] by (simp add: identity_def)
      qed
      ultimately show ?thesis by blast
    qed
  qed
  then show "step_ok c (c', oc)" "mp_skipped st' = mp_skipped st"
    "oc = Done \<Longrightarrow> mp_groups st' = mp_groups st \<and> mp_usedRouteNames st' = mp_usedRouteNames st \<and>
       mp_aiModelRows st' = mp_aiModelRows st \<and>
       (\<exists>ps. mp_guardPlugins st' = mp_guardPlugins st @ ps \<and> (\<forall>p \<in> set ps. scoped_to (set ns) (set (mq_aliases q)) p)) \<and>
       (seen_ok c st \<longrightarrow> seen_ok c st' \<and> (\<forall>n \<in> set ns. protected_by c st' (identity q) n))"
    by blast+
qed

section \<open>One model keeps the invariant\<close>

definition model_ok :: "converter \<Rightarrow> converter \<times> outcome \<Rightarrow> bool" where
  "model_ok c r \<longleftrightarrow> passes c (fst r) \<and> explained r"

lemma step_model_ok: "step_ok c r \<Longrightarrow> model_ok c r"
  by (simp add: step_ok_def model_ok_def stays_passes)

lemma model_ok_after: "passes c c' \<Longrightarrow> model_ok c' r \<Longrightarrow> model_ok c r"
  unfolding model_ok_def using passes_trans by blast

lemma finish_model_step:
  assumes run: "finish_model q ml formats targets pairs (lo, st, c) = ((st', c'), oc)"
  shows "model_ok c (c', oc)" "mp_skipped st' = mp_skipped st"
    "oc = Done \<Longrightarrow> rows_inv (doc_AIModels (cv_out c)) (mp_aiModelRows st) \<Longrightarrow> distinct (mq_aliases q) \<Longrightarrow> mq_aliases q \<noteq> [] \<Longrightarrow>
       groups_ok (row_names st \<union> set (mq_aliases q)) st \<Longrightarrow> guards_ok st \<Longrightarrow> seen_ok c st \<Longrightarrow>
       set (lo_routeNames lo) \<subseteq> snd ` set (routes st) \<Longrightarrow>
       \<forall>(key, n) \<in> set (routes st). protected_by c st key n \<or> key = identity q \<and> n \<in> set (lo_routeNames lo) \<Longrightarrow>
       pass_inv c' st'"
proof -
  let ?m = "mq_model q" and ?src = "model_source (mq_model q)"
  define c1 where "c1 = warn_collapsed ?m ml lo c"
  have i1: "only_issues c c1" unfolding c1_def by (rule warn_collapsed_issues)
  define st1 where "st1 = st\<lparr>mp_tokenVaults := fmupd (mq_index q) (mq_tokenVault q) (mp_tokenVaults st)\<rparr>"
  obtain rows c2 where w: "writeAIModels ?src ?m (mq_aliases q) (mp_aiModelRows st1, c1) = (rows, c2)" by fastforce
  have f2: "rows_frame c1 c2" using writeAIModels_frame [of c1 ?src ?m "mq_aliases q" "mp_aiModelRows st1"] w by simp
  have p2: "passes c c2"
    using passes_trans [OF stays_passes [OF only_issues_stays [OF i1]] rows_frame_passes [OF f2]] .
  define st2 where "st2 = st1\<lparr>mp_aiModelRows := rows\<rparr>"
  obtain c3 o3 where s3: "check_served q ml formats targets pairs c2 = (c3, o3)" by fastforce
  have k3: "step_ok c2 (c3, o3)" using check_served_ok [of c2 q ml formats targets pairs] s3 by simp
  have eq: "finish_model q ml formats targets pairs (lo, st, c) =
    (if mo_TargetModels ?m \<noteq> [] \<and> targets = [] then
       ((st2, fst (fail (src_at ?src [''targets'']) MissingRequiredConfigField
          (''model %q has no target that the converter can convert'', [mo_Name ?m]) c2)), SkipEntity)
     else (case (c3, o3) of (c, Done) \<Rightarrow> guard_model q (lo_routeNames lo) (st2, c) | (c, oc) \<Rightarrow> ((st2, c), oc)))"
    unfolding finish_model_def prod.case Let_def c1_def [symmetric] st1_def [symmetric] w st2_def [symmetric] s3 by (rule refl)
  have g2: "mp_groups st2 = mp_groups st" "mp_usedRouteNames st2 = mp_usedRouteNames st" "mp_skipped st2 = mp_skipped st"
    "mp_guardPlugins st2 = mp_guardPlugins st" "mp_identityPluginSeen st2 = mp_identityPluginSeen st" "mp_aiModelRows st2 = rows"
    by (simp_all add: st2_def st1_def)
  consider (failed) "(st', oc) = (st2, SkipEntity)" "step_ok c2 (c', oc)"
    | (unserved) "((st', c'), oc) = ((st2, c3), o3)" "o3 \<noteq> Done"
    | (guarded) "guard_model q (lo_routeNames lo) (st2, c3) = ((st', c'), oc)" "o3 = Done"
    using run unfolding eq by (cases "mo_TargetModels ?m \<noteq> [] \<and> targets = []"; cases o3) (auto simp: failed_after)
  then have base: "model_ok c (c', oc) \<and> mp_skipped st' = mp_skipped st \<and> (oc = Done \<longrightarrow> guard_model q (lo_routeNames lo) (st2, c3) = ((st', c'), oc) \<and> stays c2 c3)"
  proof cases
    case failed
    then show ?thesis using model_ok_after [OF p2 step_model_ok] g2 by auto
  next
    case unserved
    then show ?thesis using model_ok_after [OF p2 step_model_ok [OF k3]] g2 by auto
  next
    case guarded
    note k = guard_model_step [OF guarded(1)]
    have s: "stays c2 c3" using k3 guarded(2) by simp
    then show ?thesis using model_ok_after [OF p2 step_model_ok [OF step_ok_after [OF s k(1)]]] k(2) g2 guarded by simp
  qed
  from base show "model_ok c (c', oc)" "mp_skipped st' = mp_skipped st" by blast+
  assume oc: "oc = Done" and rows_c: "rows_inv (doc_AIModels (cv_out c)) (mp_aiModelRows st)"
    and al: "distinct (mq_aliases q)" "mq_aliases q \<noteq> []"
    and gr: "groups_ok (row_names st \<union> set (mq_aliases q)) st" and gu: "guards_ok st" and se: "seen_ok c st"
    and names: "set (lo_routeNames lo) \<subseteq> snd ` set (routes st)"
    and pr: "\<forall>(key, n) \<in> set (routes st). protected_by c st key n \<or> key = identity q \<and> n \<in> set (lo_routeNames lo)"
  have guard: "guard_model q (lo_routeNames lo) (st2, c3) = ((st', c'), Done)" and s3: "stays c2 c3"
    using base oc by simp_all
  note k = guard_model_step(3) [OF guard refl]
  have rows1: "rows_inv (doc_AIModels (cv_out c1)) (mp_aiModelRows st1)"
    using rows_c only_issues_out [OF i1] by (simp add: st1_def)
  from writeAIModels_step [OF rows1 al, where src = ?src and m = ?m] w
  have rows2: "rows_inv (doc_AIModels (cv_out c2)) rows"
    and dom: "\<And>a. fmlookup rows a = None \<longleftrightarrow> fmlookup (mp_aiModelRows st) a = None \<and> a \<notin> set (mq_aliases q)"
    by (simp_all add: st1_def)
  have A: "{a. fmlookup rows a \<noteq> None} = row_names st \<union> set (mq_aliases q)" using dom by auto
  have ok': "stays c3 c'" using guard_model_step(1) [OF guard] by simp
  have out: "doc_AIModels (cv_out c') = doc_AIModels (cv_out c2)" using stays_fields(3) ok' s3 by simp
  have env2: "auth_env c c2" using p2 by (simp add: passes_def)
  have env3: "auth_env c2 c3" "auth_env c3 c'" using s3 ok' by (simp_all add: stays_def)
  have envs: "auth_env c c3" "auth_env c c'" using env2 env3 auth_env_trans by blast+
  have r': "routes st' = routes st" using k g2 by (simp add: routes_def)
  have names': "mp_aiModelRows st' = rows" using k g2 by simp
  have groups: "groups_ok (row_names st') st'"
    using gr groups_cong(2) [of st' st "row_names st \<union> set (mq_aliases q)"] k g2 A unfolding names' by simp
  obtain ps where ps: "mp_guardPlugins st' = mp_guardPlugins st @ ps"
      "\<forall>p \<in> set ps. scoped_to (set (lo_routeNames lo)) (set (mq_aliases q)) p"
    using k g2 by auto
  have guards: "guards_ok st'"
    unfolding guards_ok_def names' A r' ps(1)
    using gu ps(2) names scoped_to_mono [of "snd ` set (routes st)" "row_names st" _ "snd ` set (routes st)" "row_names st \<union> set (mq_aliases q)"]
      scoped_to_mono [of "set (lo_routeNames lo)" "set (mq_aliases q)" _ "snd ` set (routes st)" "row_names st \<union> set (mq_aliases q)"]
    unfolding guards_ok_def by auto
  have "seen_ok c3 st2" using seen_mono [OF se, of st2] g2 seen_env [OF envs(1)] by simp
  with k have seen: "seen_ok c3 st'" and new: "\<forall>n \<in> set (lo_routeNames lo). protected_by c3 st' (identity q) n" by simp_all
  have "protected_by c st' key n" if "(key, n) \<in> set (routes st')" for key n
  proof -
    have "protected_by c st key n \<or> key = identity q \<and> n \<in> set (lo_routeNames lo)" using pr that unfolding r' by blast
    then show ?thesis
      using protected_mono [of c st key n st'] ps(1) new protected_env [OF envs(1)] by auto
  qed
  then show "pass_inv c' st'"
    unfolding pass_inv_def names' protected_env [OF envs(2)]
    using groups rows2 out guards seen seen_env envs names' by auto
qed

lemma passthrough_policies_issues: "only_issues c (warnPassthroughPolicies src m c)"
  unfolding warnPassthroughPolicies_def by (rule fold_only_issues) (auto split: option.split)

lemma claim_matchers_step:
  "claim_matchers m bases (st, c) = ((st', c'), oc) \<Longrightarrow>
   step_ok c (c', oc) \<and> (\<exists>x. st' = st\<lparr>mp_passthroughMatchers := x\<rparr>)"
proof (induction bases arbitrary: st)
  case Nil
  then show ?case by (auto intro: exI [of _ "mp_passthroughMatchers st"])
next
  case (Cons b bases)
  let ?key = "passthroughMatcherKey b (moc_Route (mo_Config m))"
  show ?case
  proof (cases "map_of (mp_passthroughMatchers st) ?key")
    case None
    then show ?thesis
      using Cons.IH [of "st\<lparr>mp_passthroughMatchers := (?key, mo_Name m) # mp_passthroughMatchers st\<rparr>"] Cons.prems
      by (auto simp: Let_def)
  next
    case (Some other)
    then show ?thesis
      using Cons.IH [of st] Cons.prems
      by (auto simp: Let_def failed_after split: if_splits intro: exI [of _ "mp_passthroughMatchers st"])
  qed
qed

lemma check_passthrough_step:
  assumes "check_passthrough m (st, c) = ((st', c'), oc)"
  shows "step_ok c (c', oc)" "\<exists>x. st' = st\<lparr>mp_passthroughMatchers := x\<rparr>"
proof -
  have same: "\<exists>x. st = st\<lparr>mp_passthroughMatchers := x\<rparr>" by (rule exI [of _ "mp_passthroughMatchers st"]) simp
  let ?c1 = "warnPassthroughPolicies (model_source m) m c"
  have s1: "stays c ?c1" by (simp add: only_issues_stays passthrough_policies_issues)
  consider "st' = st" "step_ok c (c', oc)" | "claim_matchers m (basePaths m) (st, ?c1) = ((st', c'), oc)"
    using assms s1 unfolding check_passthrough_def Let_def prod.case
    by (auto simp: failed_after split: if_splits)
  then have "step_ok c (c', oc) \<and> (\<exists>x. st' = st\<lparr>mp_passthroughMatchers := x\<rparr>)"
  proof cases
    case 1
    then show ?thesis using same by simp
  next
    case 2
    then show ?thesis using claim_matchers_step step_ok_after [OF s1] by blast
  qed
  then show "step_ok c (c', oc)" "\<exists>x. st' = st\<lparr>mp_passthroughMatchers := x\<rparr>" by blast+
qed

lemma matchers_inv: "pass_inv c (st\<lparr>mp_passthroughMatchers := x\<rparr>) = pass_inv c st"
  by (simp add: pass_inv_def groups_ok_def guards_ok_def seen_ok_def protected_by_def routes_def)

lemma pass_inv_stays: "stays c c' \<Longrightarrow> pass_inv c st \<Longrightarrow> pass_inv c' st"
  unfolding pass_inv_def using stays_fields(3) by (auto simp: stays_def seen_env protected_env)

lemma proxies_mono: "A \<subseteq> B \<Longrightarrow> proxies_ok A g \<Longrightarrow> proxies_ok B g"
  unfolding proxies_ok_def by blast

lemma groups_mono: "A \<subseteq> B \<Longrightarrow> groups_ok A st \<Longrightarrow> groups_ok B st"
  unfolding groups_ok_def using proxies_mono by blast

lemma convertModel_step:
  assumes run: "convertModel i m (st, c) = ((st', c'), oc)"
  shows "model_ok c (c', oc)" "mp_skipped st' = mp_skipped st" "oc = Done \<Longrightarrow> pass_inv c st \<Longrightarrow> pass_inv c' st'"
proof -
  let ?src = "model_source m"
  obtain c1 aliases where s1: "extractModelAliases ?src m c = (c1, aliases)" by fastforce
  note al = extractModelAliases_step [where c = c and src = ?src and m = m, unfolded s1 fst_conv snd_conv]
  obtain st2 c2 o2 where s2: "check_passthrough m (st, c1) = ((st2, c2), o2)" by (metis prod.exhaust)
  note k2 = check_passthrough_step [OF s2]
  obtain c3 o3 ml ds where s3: "check_model m c2 = ((c3, o3), ml, ds)" by (metis prod.exhaust)
  obtain c4 o4 plan where s4: "plan_targets m [0..<length (mo_TargetModels m)] no_targets c3 = ((c4, o4), plan)"
    by (metis prod.exhaust)
  define targets where "targets = tp_targets plan"
  define formats where "formats = effectiveFormats ml targets c4"
  define q where "q = \<lparr>mq_index = i, mq_model = m, mq_aliases = aliases, mq_datastore = ds, mq_tokenVault = tp_tokenVault plan\<rparr>"
  obtain c5 o5 pairs where s5: "model_pairs m ml formats targets c4 = ((c5, o5), pairs)" by (metis prod.exhaust)
  obtain lo6 st6 c6 o6 where s6: "run_loop (serve_item q) (work_items targets (fst pairs)) (no_routes, st2, c5) = ((lo6, st6, c6), o6)"
    by (metis prod.exhaust)
  have k3: "step_ok c2 (c3, o3)" using check_model_ok [of c2 m] s3 by simp
  have k4: "step_ok c3 (c4, o4)" using plan_targets_ok [of c3 m "[0..<length (mo_TargetModels m)]" no_targets] s4 by simp
  have k5: "step_ok c4 (c5, o5)" using model_pairs_ok [of c4 m ml formats targets] s5 by simp
  note k6 = serve_items_step [OF s6, of "row_names st \<union> set aliases"]
  have i1: "stays c c1" by (rule only_issues_stays [OF al(1)])
  have sk2: "mp_skipped st2 = mp_skipped st" using k2(2) by auto
  have sk6: "mp_skipped st6 = mp_skipped st" using k6 sk2 by (simp add: pass_frame_def)
  define served where "served = (if o5 = Done then
      (if o6 = Done then finish_model q ml formats targets pairs (lo6, st6, c6) else ((st6, c6), o6)) else ((st2, c5), o5))"
  have e5: "(case model_pairs m ml formats targets c4 of
        ((c, Done), pairs) \<Rightarrow>
          (case run_loop (serve_item q) (work_items targets (fst pairs)) (no_routes, st2, c) of
             (s, Done) \<Rightarrow> finish_model q ml formats targets pairs s
           | ((lo, st, c), oc) \<Rightarrow> ((st, c), oc))
      | ((c, oc), _) \<Rightarrow> ((st2, c), oc)) = served"
    unfolding s5 served_def by (cases o5) (simp_all add: s6 split: outcome.split)
  have e3: "(case check_model m c2 of
        ((c, Done), ml, ds) \<Rightarrow>
          (case plan_targets m [0..<length (mo_TargetModels m)] no_targets c of
             ((c, Done), plan) \<Rightarrow>
               (let targets = tp_targets plan; formats = effectiveFormats ml targets c;
                    q = \<lparr>mq_index = i, mq_model = m, mq_aliases = aliases, mq_datastore = ds,
                         mq_tokenVault = tp_tokenVault plan\<rparr>
                in case model_pairs m ml formats targets c of
                     ((c, Done), pairs) \<Rightarrow>
                       (case run_loop (serve_item q) (work_items targets (fst pairs)) (no_routes, st2, c) of
                          (s, Done) \<Rightarrow> finish_model q ml formats targets pairs s
                        | ((lo, st, c), oc) \<Rightarrow> ((st, c), oc))
                   | ((c, oc), _) \<Rightarrow> ((st2, c), oc))
           | ((c, oc), _) \<Rightarrow> ((st2, c), oc))
      | ((c, oc), _) \<Rightarrow> ((st2, c), oc)) =
      (if o3 = Done then (if o4 = Done then served else ((st2, c4), o4)) else ((st2, c3), o3))"
    unfolding s3 using e5 [unfolded q_def formats_def targets_def]
    by (cases o3) (simp_all add: s4 Let_def split: outcome.split)
  have eq: "convertModel i m (st, c) =
    (if isDisabled m then ((st, c), Done)
     else if o2 = Done then (if o3 = Done then (if o4 = Done then served else ((st2, c4), o4)) else ((st2, c3), o3))
     else ((st2, c2), o2))"
    unfolding convertModel_def prod.case Let_def s1 s2 using e3 [unfolded Let_def]
    by (cases o2) simp_all
  consider (off) "(st', c') = (st, c)" "oc = Done"
    | (early) "((st', c'), oc) = ((st2, c2), o2)" "o2 \<noteq> Done"
    | (checks) "((st', c'), oc) = ((st2, c3), o3)" "o2 = Done" "o3 \<noteq> Done"
    | (plan) "((st', c'), oc) = ((st2, c4), o4)" "o2 = Done" "o3 = Done" "o4 \<noteq> Done"
    | (pairs) "((st', c'), oc) = ((st2, c5), o5)" "o2 = Done" "o3 = Done" "o4 = Done" "o5 \<noteq> Done"
    | (serve) "((st', c'), oc) = ((st6, c6), o6)" "o2 = Done" "o3 = Done" "o4 = Done" "o5 = Done" "o6 \<noteq> Done"
    | (finish) "finish_model q ml formats targets pairs (lo6, st6, c6) = ((st', c'), oc)"
        "o2 = Done" "o3 = Done" "o4 = Done" "o5 = Done" "o6 = Done"
  proof (cases "isDisabled m \<or> o2 \<noteq> Done")
    case True
    then show thesis using run that(1,2) unfolding eq by (cases "isDisabled m") simp_all
  next
    case on: False
    show thesis
    proof (cases "o3 = Done \<and> o4 = Done")
      case True
      then have "served = ((st', c'), oc)" using run on unfolding eq by simp
      then show thesis
        using on True that(5,6,7) unfolding served_def by (cases "o5 = Done"; cases "o6 = Done") simp_all
    next
      case False
      then show thesis using run on that(3,4) unfolding eq by (cases "o3 = Done") simp_all
    qed
  qed
  note ends = this
  have t2: "step_ok c (c2, o2)" using step_ok_after [OF i1 k2(1)] .
  have t3: "o2 = Done \<Longrightarrow> step_ok c (c3, o3)" using step_ok_after [OF _ k3, of c] t2 by simp
  have t4: "o2 = Done \<Longrightarrow> o3 = Done \<Longrightarrow> step_ok c (c4, o4)" using step_ok_after [OF _ k4, of c] t3 by simp
  have t5: "o2 = Done \<Longrightarrow> o3 = Done \<Longrightarrow> o4 = Done \<Longrightarrow> step_ok c (c5, o5)" using step_ok_after [OF _ k5, of c] t4 by simp
  have t6: "o2 = Done \<Longrightarrow> o3 = Done \<Longrightarrow> o4 = Done \<Longrightarrow> o5 = Done \<Longrightarrow> step_ok c (c6, o6)"
    using step_ok_after [of c c5 "(c6, o6)"] t5 k6 by simp
  have "model_ok c (c', oc) \<and> mp_skipped st' = mp_skipped st"
    using ends
  proof cases
    case off
    then show ?thesis by (simp add: model_ok_def stays_passes)
  next
    case serve
    then show ?thesis using step_model_ok [OF t6] sk6 by simp
  next
    case finish
    have "stays c c6" using t6 finish by simp
    then show ?thesis
      using finish_model_step(1,2) [OF finish(1)] sk6 model_ok_after [OF stays_passes] by simp
  qed (use step_model_ok [OF t2] step_model_ok [OF t3] step_model_ok [OF t4] step_model_ok [OF t5] sk2 in simp_all)
  then show "model_ok c (c', oc)" "mp_skipped st' = mp_skipped st" by blast+
  assume oc: "oc = Done" and inv: "pass_inv c st"
  show "pass_inv c' st'"
    using ends
  proof cases
    case off
    then show ?thesis using inv by simp
  next
    case finish
    have stays6: "stays c c6" using t6 finish by simp
    have stays2: "stays c c2" using t2 finish by simp
    have inv2: "pass_inv c2 st2" using pass_inv_stays [OF stays2] inv matchers_inv k2(2) by auto
    have names2: "row_names st2 = row_names st" using k2(2) by auto
    have q: "set (mq_aliases q) \<subseteq> row_names st \<union> set aliases" "mq_aliases q = aliases" by (auto simp: q_def)
    have fr: "pass_frame st2 st6" and sv: "serves q (row_names st \<union> set aliases) no_routes st2 lo6 st6"
      using k6 q finish by blast+
    obtain new where new: "routes st6 = routes st2 @ new" "set new \<subseteq> {identity q} \<times> set (lo_routeNames lo6)"
      using sv unfolding serves_def by blast
    have "groups_ok (row_names st \<union> set aliases) st2"
      using inv2 names2 groups_mono [of "row_names st2" "row_names st \<union> set aliases" st2] unfolding pass_inv_def by simp
    then have gr: "groups_ok (row_names st6 \<union> set (mq_aliases q)) st6"
      using sv fr names2 q(2) unfolding serves_def pass_frame_def by simp
    have gu: "guards_ok st6"
    proof -
      have "snd ` set (routes st2) \<subseteq> snd ` set (routes st6)" using new(1) by auto
      then show ?thesis
        using inv2 fr scoped_to_mono [of "snd ` set (routes st2)" "row_names st2" _ "snd ` set (routes st6)" "row_names st2"]
        unfolding pass_inv_def guards_ok_def pass_frame_def by simp
    qed
    have parts: "stays c2 c3" "stays c3 c4" "stays c4 c5" "stays c5 c6" using k3 k4 k5 k6 finish by simp_all
    have env: "auth_env c2 c6"
      using stays_trans [OF stays_trans [OF parts(1,2)] stays_trans [OF parts(3,4)]] by (simp add: stays_def)
    have se: "seen_ok c6 st6"
      using inv2 seen_env [OF env] seen_mono [of c2 st2 st6] fr unfolding pass_inv_def pass_frame_def by simp
    have names: "set (lo_routeNames lo6) \<subseteq> snd ` set (routes st6)"
    proof
      fix n assume "n \<in> set (lo_routeNames lo6)"
      then have "(identity q, n) \<in> set (routes st6)" using sv by (simp add: serves_def no_routes_def)
      then show "n \<in> snd ` set (routes st6)" by (metis image_eqI snd_conv)
    qed
    have pr: "protected_by c6 st6 key n \<or> key = identity q \<and> n \<in> set (lo_routeNames lo6)"
      if r: "(key, n) \<in> set (routes st6)" for key n
    proof (cases "(key, n) \<in> set (routes st2)")
      case True
      then have "protected_by c2 st2 key n" using inv2 unfolding pass_inv_def by blast
      then show ?thesis using protected_mono [of c2 st2 key n st6] fr protected_env [OF env] by (simp add: pass_frame_def)
    next
      case False
      then show ?thesis using r new by auto
    qed
    have rows: "rows_inv (doc_AIModels (cv_out c6)) (mp_aiModelRows st6)"
      using inv fr k2(2) stays_fields(3) [OF stays6] by (auto simp: pass_inv_def pass_frame_def)
    show ?thesis
      by (rule finish_model_step(3) [OF finish(1) oc rows _ _ gr gu se names])
        (use al(2,3) pr q(2) in auto)
  qed (use oc in simp_all)
qed

end
