(* ===== verification/Model_Conversion.thy ===== *)
theory Model_Conversion
  imports Model_Passes
begin

text \<open>
  \<open>convertModels\<close> of \<open>src/convert/model.go\<close>: the pass is restarted without each model that fails.  The loop
  ends, because a failed pass skips one more model; what the last pass leaves in the document is shown here.
\<close>

section \<open>One attempt\<close>

text \<open>What every step of a pass keeps, and what the models of a pass keep besides.  A replay appends the
  recorded issues without the check for repetitions that \<open>report\<close> makes.\<close>

definition goes_on :: "converter \<Rightarrow> converter \<Rightarrow> bool" where
  "goes_on c c' \<longleftrightarrow>
     (\<exists>new. cv_issues c' = cv_issues c @ new) \<and> cn_src c' = cn_src c \<and> cn_authStrategies c' = cn_authStrategies c \<and>
     doc_CustomPlugins (cv_out c') = doc_CustomPlugins (cv_out c) \<and> doc_Vaults (cv_out c') = doc_Vaults (cv_out c) \<and>
     doc_ConsumerGroups (cv_out c') = doc_ConsumerGroups (cv_out c)"

definition moves :: "converter \<Rightarrow> converter \<Rightarrow> bool" where
  "moves c c' \<longleftrightarrow> goes_on c c' \<and>
     doc_Plugins (cv_out c') = doc_Plugins (cv_out c) \<and> doc_Services (cv_out c') = doc_Services (cv_out c)"

lemma goes_on_refl [simp]: "goes_on c c" "moves c c"
  by (simp_all add: goes_on_def moves_def)

lemma goes_on_trans: "goes_on a b \<Longrightarrow> goes_on b c \<Longrightarrow> goes_on a c"
  unfolding goes_on_def by auto

lemma moves_trans: "moves a b \<Longrightarrow> moves b c \<Longrightarrow> moves a c"
  unfolding moves_def using goes_on_trans by auto

lemma moves_goes_on: "moves c c' \<Longrightarrow> goes_on c c'"
  by (simp add: moves_def)

lemma passes_moves: "passes c c' \<Longrightarrow> moves c c'"
  using passes_fields [of c c'] auth_env_fields [of c c']
  by (auto simp: moves_def goes_on_def reports_def passes_def)

lemma stays_goes_on: "stays c c' \<Longrightarrow> goes_on c c'"
  by (simp add: moves_goes_on passes_moves stays_passes)

lemma replay_moves: "moves c (c\<lparr>cv_issues := cv_issues c @ xs\<rparr>)"
  by (simp add: moves_def goes_on_def)

lemma replay_inv: "pass_inv (c\<lparr>cv_issues := x\<rparr>) st = pass_inv c st"
  by (simp add: pass_inv_def seen_ok_def protected_by_def auth_plugin_for_def)

lemma once_step:
  assumes "convertModelOnce i name fn (x, st, c) = ((x', st', c'), b)"
  shows "(b \<and> x' = x \<and> st' = st \<and> (\<exists>xs. c' = c\<lparr>cv_issues := cv_issues c @ xs\<rparr>)) \<or>
    (b \<and> fn (x, st, c) = ((x', st', c'), Done)) \<or>
    (\<not> b \<and> fmlookup (mp_skipped st) i = None \<and> (\<exists>st1 c1 oc xs. fn (x, st, c) = ((x', st1, c1), oc) \<and> oc \<noteq> Done \<and>
       mp_skipped st' = fmupd i xs (mp_skipped st1) \<and> stays c1 c'))"
proof (cases "fmlookup (mp_skipped st) i")
  case (Some xs)
  then show ?thesis using assms by (auto simp: convertModelOnce_def)
next
  case None
  obtain x1 st1 c1 oc where f: "fn (x, st, c) = ((x1, st1, c1), oc)" by (metis prod.exhaust)
  have g: "guard (issueSource kindModel name) (\<lambda>_. (c1, oc)) c =
      ((case oc of Done \<Rightarrow> (c1, True) | SkipEntity \<Rightarrow> (c1, False)
        | OtherError e \<Rightarrow> (reportError (src_at (issueSource kindModel name) []) InternalError (''%v'', [e]) c1, False)
        | Panic p \<Rightarrow> (reportError (src_at (issueSource kindModel name) []) InternalError (''converter panic: %v | %s'', [p]) c1, False)))"
    by (cases oc) (simp_all add: guard_def)
  have r: "stays c1 (reportError s code e c1)" for s code e by (rule only_issues_stays) simp
  show ?thesis
    using assms None f g r by (cases oc) (auto simp: convertModelOnce_def)
qed

section \<open>The models of a pass\<close>

lemma model_once_step:
  assumes "model_once (i, m) ((), st, c) = ((u, st', c'), b)"
  shows "b \<Longrightarrow> moves c c' \<and> mp_skipped st' = mp_skipped st \<and> (pass_inv c st \<longrightarrow> pass_inv c' st')"
    "\<not> b \<Longrightarrow> goes_on c c' \<and> fmlookup (mp_skipped st) i = None \<and> (\<exists>xs. mp_skipped st' = fmupd i xs (mp_skipped st))"
proof -
  let ?fn = "\<lambda>(x :: unit, s). case convertModel i m s of (s, oc) \<Rightarrow> ((x, s), oc)"
  have o': "convertModelOnce i (mo_Name m) ?fn ((), st, c) = ((u, st', c'), b)" using assms by (simp add: model_once_def)
  obtain st1 c1 oc where f: "convertModel i m (st, c) = ((st1, c1), oc)" by (metis prod.exhaust)
  note k = convertModel_step [OF f]
  note cases' = once_step [OF o']
  have fn: "?fn ((), st, c) = (((), st1, c1), oc)" by (simp add: f)
  have p: "moves c c1" using k(1) by (simp add: model_ok_def passes_moves)
  have "(b \<longrightarrow> moves c c' \<and> mp_skipped st' = mp_skipped st \<and> (pass_inv c st \<longrightarrow> pass_inv c' st')) \<and>
    (\<not> b \<longrightarrow> goes_on c c' \<and> fmlookup (mp_skipped st) i = None \<and> (\<exists>xs. mp_skipped st' = fmupd i xs (mp_skipped st)))"
    using cases'
  proof (elim disjE)
    assume a: "b \<and> u = () \<and> st' = st \<and> (\<exists>xs. c' = c\<lparr>cv_issues := cv_issues c @ xs\<rparr>)"
    then obtain xs where "c' = c\<lparr>cv_issues := cv_issues c @ xs\<rparr>" by blast
    then show ?thesis using a replay_inv replay_moves by simp
  next
    assume "b \<and> ?fn ((), st, c) = ((u, st', c'), Done)"
    then show ?thesis using p k(2,3) unfolding fn by simp
  next
    assume a: "\<not> b \<and> fmlookup (mp_skipped st) i = None \<and> (\<exists>st1 c1 oc xs. ?fn ((), st, c) = ((u, st1, c1), oc) \<and> oc \<noteq> Done \<and>
       mp_skipped st' = fmupd i xs (mp_skipped st1) \<and> stays c1 c')"
    then obtain xs where xs: "mp_skipped st' = fmupd i xs (mp_skipped st1)" "stays c1 c'" unfolding fn by auto
    have "goes_on c c'" using goes_on_trans [OF moves_goes_on [OF p] stays_goes_on [OF xs(2)]] .
    then show ?thesis using a xs(1) k(2) by auto
  qed
  then show "b \<Longrightarrow> moves c c' \<and> mp_skipped st' = mp_skipped st \<and> (pass_inv c st \<longrightarrow> pass_inv c' st')"
    "\<not> b \<Longrightarrow> goes_on c c' \<and> fmlookup (mp_skipped st) i = None \<and> (\<exists>xs. mp_skipped st' = fmupd i xs (mp_skipped st))" by blast+
qed

lemma models_loop:
  assumes "run_while model_once ims ((), st, c) = ((u, st', c'), b)"
  shows "(b \<longrightarrow> moves c c' \<and> mp_skipped st' = mp_skipped st \<and> (pass_inv c st \<longrightarrow> pass_inv c' st')) \<and>
    (\<not> b \<longrightarrow> goes_on c c' \<and> (\<exists>i \<in> fst ` set ims. fmlookup (mp_skipped st) i = None \<and> (\<exists>xs. mp_skipped st' = fmupd i xs (mp_skipped st))))"
  using assms
proof (induction ims arbitrary: st c)
  case (Cons im ims)
  obtain i m where im: "im = (i, m)" by fastforce
  obtain u1 st1 c1 b1 where s: "model_once (i, m) ((), st, c) = ((u1, st1, c1), b1)" by (metis prod.exhaust)
  note k = model_once_step [OF s]
  show ?case
  proof (cases b1)
    case False
    then have "((u, st', c'), b) = ((u1, st1, c1), b1)" using Cons.prems s im by simp
    then show ?thesis using k(2) False im by auto
  next
    case True
    then have rest: "run_while model_once ims ((), st1, c1) = ((u, st', c'), b)" using Cons.prems s im by simp
    note ih = Cons.IH [OF rest]
    note one = k(1) [OF True]
    show ?thesis
    proof (cases b)
      case True
      then show ?thesis using ih one moves_trans [of c c1 c'] by simp
    next
      case False
      then have "goes_on c c'" using ih one goes_on_trans [OF moves_goes_on, of c c1 c'] by simp
      then show ?thesis using False ih one by auto
    qed
  qed
qed simp

section \<open>The emission of the groups\<close>

text \<open>What emission adds: plugins of the given routes and ai_models entries.\<close>

definition adds :: "string set \<Rightarrow> string set \<Rightarrow> converter \<Rightarrow> converter \<Rightarrow> bool" where
  "adds ns A c c' \<longleftrightarrow>
     goes_on c c' \<and>
     doc_Services (cv_out c') = doc_Services (cv_out c) \<and> doc_AIModels (cv_out c') = doc_AIModels (cv_out c) \<and>
     (\<exists>ps. doc_Plugins (cv_out c') = doc_Plugins (cv_out c) @ ps \<and> (\<forall>p \<in> set ps. scoped_to ns A p))"

lemma adds_trans: "adds ns A a b \<Longrightarrow> adds ns A b c \<Longrightarrow> adds ns A a c"
  unfolding adds_def using goes_on_trans by auto

lemma adds_mono: "adds ns A c c' \<Longrightarrow> ns \<subseteq> ns' \<Longrightarrow> A \<subseteq> A' \<Longrightarrow> adds ns' A' c c'"
  unfolding adds_def using scoped_to_mono by blast

lemma stays_adds: "stays c c' \<Longrightarrow> adds ns A c c'"
  using stays_goes_on [of c c'] stays_fields [of c c'] passes_moves [OF stays_passes, of c c'] by (simp add: adds_def moves_def)

lemma adds_refl [simp]: "adds ns A c c"
  by (simp add: stays_adds)

lemma emit_plugins_adds: "\<forall>p \<in> set ps. scoped_to ns A p \<Longrightarrow> adds ns A c (emit_plugins ps c)"
  by (simp add: adds_def goes_on_def emit_plugins_def)

lemma token_vault_adds:
  "pg_routeName pg \<in> ns \<Longrightarrow> \<forall>a. model = Some a \<longrightarrow> a \<in> A \<Longrightarrow> adds ns A c (appendTokenVaultExchange pg model c)"
  by (auto simp: appendTokenVaultExchange_def scoped_to_def unscoped_def empty_plugin_def intro!: emit_plugins_adds split: option.split)

lemma fold_adds: "(\<And>x c. x \<in> set xs \<Longrightarrow> adds ns A c (f x c)) \<Longrightarrow> adds ns A c (fold f xs c)"
proof (induction xs arbitrary: c)
  case (Cons x xs)
  have "adds ns A c (f x c)" "adds ns A (f x c) (fold f xs (f x c))" using Cons by simp_all
  then show ?case using adds_trans by simp
qed simp

lemma emit_proxy_adds:
  assumes "pg_routeName pg \<in> ns" and "set (pg_aliases pg) \<subseteq> A"
  shows "adds ns A c (emit_proxy g pg c)"
proof -
  have one: "adds ns A c (appendTokenVaultExchange pg model (emit_plugins [p] c))"
    if "pl_Route p = Some (pg_routeName pg)" "pl_Model p = model" "unscoped p" "\<forall>a. model = Some a \<longrightarrow> a \<in> A" for p model c
    by (rule adds_trans [OF emit_plugins_adds token_vault_adds [OF assms(1) that(4)]])
      (use that assms in \<open>simp add: scoped_to_def\<close>)
  show ?thesis
  proof (cases "pg_aliases pg = []")
    case True
    then show ?thesis unfolding emit_proxy_def by (simp add: one proxy_plugin_def unscoped_def empty_plugin_def)
  next
    case False
    have "adds ns A c (fold (\<lambda>alias c. appendTokenVaultExchange pg (Some alias) (emit_plugins
          [(proxy_plugin pg (fmupd ''targets'' (YMaps (withModelAlias (pg_targets pg) alias (pg_llmFormat pg))) (proxyConfig pg)))
             \<lparr>pl_Model := Some alias\<rparr>] c)) (pg_aliases pg) c)"
      by (rule fold_adds) (use assms in \<open>auto intro!: one simp: proxy_plugin_def\<close>)
    then show ?thesis using False by (simp add: emit_proxy_def)
  qed
qed

lemma ordering_stays: "stays c (fst (selectorOrdering st n c))"
proof -
  have "stays c (warnModelScopedRequestTermination n refs c)" for refs
    unfolding warnModelScopedRequestTermination_def by (rule fold_stays) simp_all
  then show ?thesis by (simp add: selectorOrdering_def Let_def)
qed

definition in_scope :: "string set \<Rightarrow> string set \<Rightarrow> routeGroup \<Rightarrow> bool" where
  "in_scope ns A g \<longleftrightarrow> rt_Name (rg_route g) \<in> ns \<and>
     (\<forall>pg \<in> snd ` set (rg_proxies g). pg_routeName pg \<in> ns \<and> set (pg_aliases pg) \<subseteq> A)"

lemma in_scopeI:
  assumes "rt_Name (rg_route g) \<in> G" and "proxies_ok A g" and "G \<subseteq> ns"
  shows "in_scope ns A g"
  using assms unfolding in_scope_def proxies_ok_def by auto

lemma emit_group_step:
  assumes "emit_group st g (s, w, c) = (s', w', c')" and ok: "in_scope ns A g"
  shows "svc_Routes s' = svc_Routes s @ (if rg_websocket g then [] else [rg_route g])"
    "svc_Routes w' = svc_Routes w @ (if rg_websocket g then [rg_route g] else [])" "adds ns A c c'"
proof -
  define c1 where "c1 = c\<lparr>cn_modelRouteModels := fmupd (rt_Name (rg_route g)) (rg_models g) (cn_modelRouteModels c)\<rparr>"
  obtain c2 o2 where s2: "selectorOrdering st (rt_Name (rg_route g)) c1 = (c2, o2)" by fastforce
  define c3 where "c3 = (case selectorConfig (rg_selectors g) of None \<Rightarrow> c1
    | Some cfg \<Rightarrow> emit_plugins [selector_plugin (rg_route g) cfg o2] c2)"
  have res: "s' = (if rg_websocket g then s else s\<lparr>svc_Routes := svc_Routes s @ [rg_route g]\<rparr>)"
    "w' = (if rg_websocket g then w\<lparr>svc_Routes := svc_Routes w @ [rg_route g]\<rparr> else w)"
    "c' = fold (\<lambda>(owner, pg). emit_proxy g pg) (rg_proxies g) c3"
    using assms(1) s2 by (auto simp: emit_group_def Let_def c1_def c3_def split: option.splits)
  have a1: "adds ns A c c1" by (simp add: c1_def adds_def goes_on_def)
  have a2: "adds ns A c1 c2" using ordering_stays [of c1 st "rt_Name (rg_route g)"] s2 stays_adds by simp
  have sel: "adds ns A c2 (emit_plugins [selector_plugin (rg_route g) cfg o2] c2)" for cfg
    by (rule emit_plugins_adds) (use ok in \<open>simp add: in_scope_def scoped_to_def selector_plugin_def unscoped_def empty_plugin_def\<close>)
  have a3: "adds ns A c c3"
    using a1 adds_trans [OF a1 adds_trans [OF a2 sel]]
    by (cases "selectorConfig (rg_selectors g)") (simp_all add: c3_def)
  have "adds ns A c3 (fold (\<lambda>(owner, pg). emit_proxy g pg) (rg_proxies g) c3)"
  proof (rule fold_adds)
    fix x c assume "x \<in> set (rg_proxies g)"
    then have "snd x \<in> snd ` set (rg_proxies g)" by simp
    then have "pg_routeName (snd x) \<in> ns \<and> set (pg_aliases (snd x)) \<subseteq> A"
      using ok unfolding in_scope_def by blast
    then show "adds ns A c ((\<lambda>(owner, pg). emit_proxy g pg) x c)"
      unfolding case_prod_unfold by (intro emit_proxy_adds) simp_all
  qed
  with a3 show "adds ns A c c'" unfolding res using adds_trans by blast
  show "svc_Routes s' = svc_Routes s @ (if rg_websocket g then [] else [rg_route g])"
    "svc_Routes w' = svc_Routes w @ (if rg_websocket g then [rg_route g] else [])"
    using res by simp_all
qed

lemma emit_groups_step:
  assumes "fold (\<lambda>(key, g). emit_group st g) gs (s, w, c) = (s', w', c')"
    and "\<forall>g \<in> snd ` set gs. in_scope ns A g"
  shows "svc_Routes s' = svc_Routes s @ map rg_route (filter (\<lambda>g. \<not> rg_websocket g) (map snd gs)) \<and>
    svc_Routes w' = svc_Routes w @ map rg_route (filter rg_websocket (map snd gs)) \<and> adds ns A c c'"
  using assms
proof (induction gs arbitrary: s w c)
  case (Cons x gs)
  obtain k g where x: "x = (k, g)" by fastforce
  obtain s1 w1 c1 where e: "emit_group st g (s, w, c) = (s1, w1, c1)" by (metis prod.exhaust)
  have ok: "in_scope ns A g" using Cons.prems(2) x by auto
  note one = emit_group_step [OF e ok]
  have "fold (\<lambda>(key, g). emit_group st g) gs (s1, w1, c1) = (s', w', c')" using Cons.prems(1) x e by simp
  from Cons.IH [OF this] Cons.prems(2) one adds_trans show ?case by (auto simp: x)
qed simp

section \<open>Video lifecycle routes\<close>

lemma lifecycle_candidate_issues: "only_issues c (fst (lifecycle_candidate skipped im c))"
  by (auto simp: lifecycle_candidate_def Let_def split: prod.split option.split)

lemma candidates_issues: "only_issues c (fst (videoLifecycleCandidates skipped c))"
proof -
  have collect: "only_issues c (fst (collect (lifecycle_candidate skipped) xs c))" for xs c
  proof (induction xs arbitrary: c)
    case (Cons x xs)
    obtain c1 ys where s: "lifecycle_candidate skipped x c = (c1, ys)" by fastforce
    then have "only_issues c c1" using lifecycle_candidate_issues [of c skipped x] by simp
    then show ?case using Cons.IH [of c1] only_issues_trans s by (auto split: prod.split)
  qed simp
  have shared: "only_issues c (warn_shared_lifecycle vs c)" for vs c
    unfolding warn_shared_lifecycle_def Let_def
    by (rule fold_only_issues) (auto intro!: fold_only_issues)
  obtain c1 vs where s: "collect (lifecycle_candidate skipped) (enumerate 0 (sd_Models (cn_src c))) c = (c1, vs)" by fastforce
  then have "only_issues c c1" using collect [of c "enumerate 0 (sd_Models (cn_src c))"] by simp
  from only_issues_trans [OF this shared] show ?thesis using s by (simp add: videoLifecycleCandidates_def)
qed

lemma protect_lifecycle_step:
  assumes "protect_lifecycle m n c = (c', oc)"
  shows "goes_on c c'" "oc = Done \<Longrightarrow> adds {n} {} c c'"
proof -
  let ?src = "model_source m"
  obtain c1 r where s1: "scopedPlugins ?src (mo_Policies m) (moa_ACLs (mo_Access m)) c = (c1, r)" by fastforce
  have "goes_on c c' \<and> (oc = Done \<longrightarrow> adds {n} {} c c')"
  proof (cases r)
    case None
    then have "stays c c1" using s1 scopedPlugins_ok(1) [of ?src "mo_Policies m" "moa_ACLs (mo_Access m)" c c1] step_ok_fst by fastforce
    then show ?thesis using assms None s1 stays_goes_on by (auto simp: protect_lifecycle_def Let_def)
  next
    case (Some plugins)
    define c2 where "c2 = emit_plugins (map (\<lambda>p. p\<lparr>pl_Route := Some n\<rparr>) (sourceScopedPlugins plugins ''model'' (mo_Name m))) c1"
    obtain c3 o3 idps where s3: "scopedAuthStrategyPlugins ?src 0 (strategies m) [] [] c2 = ((c3, o3), idps)"
      by (metis prod.exhaust)
    have a1: "adds {n} {} c c1" using scopedPlugins_ok(2) s1 Some stays_adds by blast
    have a2: "adds {n} {} c1 c2"
      unfolding c2_def using scoped_plugins_model [of ?src "mo_Policies m" "moa_ACLs (mo_Access m)" c c1 plugins] s1 Some
      by (intro emit_plugins_adds) (simp add: scoped_to_def)
    have k3: "step_ok c2 (c3, o3)" using scopedAuth_ok [of c2 ?src 0 "strategies m" "[]" "[]"] s3 by simp
    then have a3: "adds {n} {} c2 c3" using step_ok_fst stays_adds by fastforce
    have a: "adds {n} {} c c3" using adds_trans a1 a2 a3 by blast
    show ?thesis
    proof (cases "o3 = Done")
      case False
      then have "(c', oc) = (c3, o3)" using assms s1 Some s3 unfolding c2_def
        by (cases o3; simp add: protect_lifecycle_def Let_def)
      then show ?thesis using False a by (simp add: adds_def)
    next
      case True
      define c4 where "c4 = (if needsAnonymousFallback idps then ensureAnonymousConsumer c3 else c3)"
      have res: "c' = emit_plugins (route_auth_plugins n None idps) c4"
        using assms s1 Some s3 True unfolding c2_def c4_def by (simp add: protect_lifecycle_def Let_def)
      have "auth_spec ?src (strategies m) [] [] c2 ((c3, Done), idps)"
        using scopedAuth_spec [of ?src "strategies m" "[]" "[]" c2 0] s3 True by simp
      then have "idps = map (strategy_plugin ?src c2) (first_refs [] (strategies m))" by (simp add: auth_spec_def)
      then have "adds {n} {} c4 c'"
        unfolding res using route_auth_scoped by (intro emit_plugins_adds) (auto simp: scoped_to_def)
      moreover have "adds {n} {} c3 c4" unfolding c4_def by (rule stays_adds) (simp add: ensureAnonymous_stays)
      ultimately have "adds {n} {} c c'" using adds_trans a by blast
      then show ?thesis by (simp add: adds_def)
    qed
  qed
  then show "goes_on c c'" "oc = Done \<Longrightarrow> adds {n} {} c c'" by blast+
qed

lemma lifecycle_step:
  assumes run: "convertVideoLifecycle v (s, st, c) = ((s', st', c'), oc)"
  shows "goes_on c c'" "\<exists>n. n \<notin> set (mp_usedRouteNames st) \<and> st' = st\<lparr>mp_usedRouteNames := n # mp_usedRouteNames st\<rparr> \<and>
      map rt_Name (svc_Routes s') = map rt_Name (svc_Routes s) @ [n] \<and> (oc = Done \<longrightarrow> adds {n} {} c c')"
proof -
  let ?m = "vc_model v" and ?src = "model_source (vc_model v)"
  obtain n used where u: "uniqueModelRouteName ''openai-videos-lifecycle'' (mp_usedRouteNames st) = (n, used)" by fastforce
  have fresh: "n \<notin> set (mp_usedRouteNames st)" "used = n # mp_usedRouteNames st"
    using uniqueModelRouteName_step [where base = "''openai-videos-lifecycle''" and used = "mp_usedRouteNames st"] u by simp_all
  define st1 where "st1 = st\<lparr>mp_usedRouteNames := used\<rparr>"
  define route where "route = (buildVideoLifecycleRoute (moc_Route (mo_Config ?m)) n (basePaths ?m))
      \<lparr>rt_Source := source ''model'' (mo_Name ?m) ''config.route'' []\<rparr>"
  define s1 where "s1 = s\<lparr>svc_Routes := svc_Routes s @ [route]\<rparr>"
  have name: "rt_Name route = n" by (simp add: route_def buildVideoLifecycleRoute_def buildModelRoute_def Let_def)
  obtain c2 o2 ds where s2: "resolveModelDatastore ?src ?m c = ((c2, o2), ds)" by (metis prod.exhaust)
  obtain c3 o3 vectordb where s3: "modelVectorDB ?src ?m ds c2 = ((c3, o3), vectordb)" by (metis prod.exhaust)
  have y2: "stays c c2" using resolveModelDatastore_step(1) [of c ?src ?m] s2 only_issues_stays by simp
  have y3: "stays c2 c3" using modelVectorDB_step(1) [of c2 ?src ?m ds] s3 only_issues_stays by simp
  have "goes_on c c' \<and> s' = s1 \<and> st' = st1 \<and> (oc = Done \<longrightarrow> adds {n} {} c c')"
  proof (cases "those (map (\<lambda>t. lifecycle_target v t c) (vc_targets v))")
    case None
    then show ?thesis using run u unfolding st1_def s1_def route_def
      by (auto simp: convertVideoLifecycle_def Let_def)
  next
    case (Some targets)
    define pg where "pg = lifecycle_proxy v n vectordb (or_else (fmlookup (mp_tokenVaults st1) (vc_index v)) None) targets c3"
    define c4 where "c4 = appendTokenVaultExchange pg None (emit_plugins [proxy_plugin pg (proxyConfig pg)] c3)"
    obtain c5 o5 where s5: "protect_lifecycle ?m n c4 = (c5, o5)" by fastforce
    have pgn: "pg_routeName pg = n" by (simp add: pg_def lifecycle_proxy_def Let_def)
    have eq: "convertVideoLifecycle v (s, st, c) =
        (if o2 = Done then (if o3 = Done then ((s1, st1, c5), o5) else ((s1, st1, c3), o3)) else ((s1, st1, c2), o2))"
      unfolding convertVideoLifecycle_def prod.case u Let_def st1_def [symmetric] route_def [symmetric] s1_def [symmetric]
        Some option.case s2
      by (cases o2; cases o3) (simp_all add: s3 pg_def [symmetric] c4_def [symmetric] s5)
    have a4: "adds {n} {} c3 c4"
      unfolding c4_def
      by (rule adds_trans [OF emit_plugins_adds token_vault_adds]) (simp_all add: pgn scoped_to_def proxy_plugin_def unscoped_def empty_plugin_def)
    note k5 = protect_lifecycle_step [OF s5]
    have ga: "goes_on c c2" "goes_on c c3" using y2 y3 stays_goes_on goes_on_trans by blast+
    have "goes_on c c5" using goes_on_trans ga(2) a4 k5(1) unfolding adds_def by blast
    moreover have "oc = Done \<Longrightarrow> o5 = Done \<Longrightarrow> adds {n} {} c c5"
      using adds_trans stays_adds y2 y3 a4 k5(2) by blast
    ultimately show ?thesis using run ga unfolding eq by (auto split: if_splits)
  qed
  then have g: "goes_on c c'" and s': "s' = s1" "st' = st1" and a: "oc = Done \<longrightarrow> adds {n} {} c c'" by blast+
  show "goes_on c c'" by (rule g)
  show "\<exists>n. n \<notin> set (mp_usedRouteNames st) \<and> st' = st\<lparr>mp_usedRouteNames := n # mp_usedRouteNames st\<rparr> \<and>
      map rt_Name (svc_Routes s') = map rt_Name (svc_Routes s) @ [n] \<and> (oc = Done \<longrightarrow> adds {n} {} c c')"
    using fresh a name by (intro exI [of _ n]) (simp add: s' st1_def s1_def)
qed

lemma lifecycle_loop:
  assumes "run_while lifecycle_once vs (s, st, c) = ((s', st', c'), b)"
  shows "goes_on c c' \<and>
    (\<not> b \<longrightarrow> (\<exists>v \<in> set vs. fmlookup (mp_skipped st) (vc_index v) = None \<and>
       (\<exists>xs. mp_skipped st' = fmupd (vc_index v) xs (mp_skipped st)))) \<and>
    (b \<longrightarrow> (\<exists>ns. distinct ns \<and> set ns \<inter> set (mp_usedRouteNames st) = {} \<and>
       st' = st\<lparr>mp_usedRouteNames := rev ns @ mp_usedRouteNames st\<rparr> \<and>
       map rt_Name (svc_Routes s') = map rt_Name (svc_Routes s) @ ns \<and> adds (set ns) {} c c'))"
  using assms
proof (induction vs arbitrary: s st c)
  case Nil
  then show ?case by (auto intro!: exI [of _ "[]"])
next
  case (Cons v vs)
  obtain s1 st1 c1 b1 where o1: "lifecycle_once v (s, st, c) = ((s1, st1, c1), b1)" by (metis prod.exhaust)
  then have once: "convertModelOnce (vc_index v) (mo_Name (vc_model v)) (convertVideoLifecycle v) (s, st, c) = ((s1, st1, c1), b1)"
    by (simp add: lifecycle_once_def)
  from once_step [OF once] show ?case
  proof (elim disjE)
    assume "b1 \<and> s1 = s \<and> st1 = st \<and> (\<exists>xs. c1 = c\<lparr>cv_issues := cv_issues c @ xs\<rparr>)"
    then have r: "b1" "s1 = s" "st1 = st" "\<exists>xs. c1 = c\<lparr>cv_issues := cv_issues c @ xs\<rparr>" by blast+
    then have a: "adds ns A c c1" for ns A by (auto simp: adds_def goes_on_def)
    have "run_while lifecycle_once vs (s, st, c1) = ((s', st', c'), b)" using Cons.prems o1 r by simp
    note ih = Cons.IH [OF this]
    have g: "goes_on c c'" using goes_on_trans a ih unfolding adds_def by blast
    have "adds ns A c1 c' \<Longrightarrow> adds ns A c c'" for ns A using adds_trans a by blast
    with ih g show ?thesis by (auto intro: exI)
  next
    assume "b1 \<and> convertVideoLifecycle v (s, st, c) = ((s1, st1, c1), Done)"
    then have r: "b1" "convertVideoLifecycle v (s, st, c) = ((s1, st1, c1), Done)" by blast+
    from lifecycle_step [OF r(2)] obtain n where n: "goes_on c c1" "n \<notin> set (mp_usedRouteNames st)"
      "st1 = st\<lparr>mp_usedRouteNames := n # mp_usedRouteNames st\<rparr>"
      "map rt_Name (svc_Routes s1) = map rt_Name (svc_Routes s) @ [n]" "adds {n} {} c c1" by blast
    have "run_while lifecycle_once vs (s1, st1, c1) = ((s', st', c'), b)" using Cons.prems o1 r by simp
    note ih = Cons.IH [OF this]
    have g: "goes_on c c'" using goes_on_trans n(1) ih by blast
    show ?thesis
    proof (cases b)
      case False
      then show ?thesis using ih g n(3) by auto
    next
      case True
      then obtain ns where ns: "distinct ns" "set ns \<inter> set (mp_usedRouteNames st1) = {}"
        "st' = st1\<lparr>mp_usedRouteNames := rev ns @ mp_usedRouteNames st1\<rparr>"
        "map rt_Name (svc_Routes s') = map rt_Name (svc_Routes s1) @ ns" "adds (set ns) {} c1 c'" using ih by blast
      have "adds (set (n # ns)) {} c c'"
        by (rule adds_trans [OF adds_mono [OF n(5)] adds_mono [OF ns(5)]]) auto
      moreover have "distinct (n # ns)" "set (n # ns) \<inter> set (mp_usedRouteNames st) = {}" using ns(1,2) n(2,3) by auto
      moreover have "st' = st\<lparr>mp_usedRouteNames := rev (n # ns) @ mp_usedRouteNames st\<rparr>" using ns(3) n(3) by simp
      moreover have "map rt_Name (svc_Routes s') = map rt_Name (svc_Routes s) @ (n # ns)" using ns(4) n(4) by simp
      ultimately show ?thesis using g True by blast
    qed
  next
    assume f: "\<not> b1 \<and> fmlookup (mp_skipped st) (vc_index v) = None \<and> (\<exists>st2 c2 oc xs. convertVideoLifecycle v (s, st, c) = ((s1, st2, c2), oc) \<and>
       oc \<noteq> Done \<and> mp_skipped st1 = fmupd (vc_index v) xs (mp_skipped st2) \<and> stays c2 c1)"
    then obtain st2 c2 oc xs where r: "convertVideoLifecycle v (s, st, c) = ((s1, st2, c2), oc)"
      "mp_skipped st1 = fmupd (vc_index v) xs (mp_skipped st2)" "stays c2 c1" by blast
    have res: "((s', st', c'), b) = ((s1, st1, c1), b1)" using Cons.prems o1 f by simp
    have "mp_skipped st2 = mp_skipped st" using lifecycle_step(2) [OF r(1)] by auto
    moreover have "goes_on c c1" using goes_on_trans lifecycle_step(1) [OF r(1)] stays_goes_on [OF r(3)] by blast
    ultimately show ?thesis using res f r(2) by auto
  qed
qed

lemma candidates_index:
  assumes "videoLifecycleCandidates skipped c = (c', vs)" and "v \<in> set vs"
  shows "vc_index v < length (sd_Models (cn_src c))"
proof -
  have "vc_index v \<in> fst ` set xs" if "v \<in> set (snd (collect (lifecycle_candidate skipped) xs c))" for xs c
    using that
  proof (induction xs arbitrary: c)
    case (Cons x xs)
    obtain c1 ys where s: "lifecycle_candidate skipped x c = (c1, ys)" by fastforce
    have "\<forall>v \<in> set ys. vc_index v = fst x"
      using s by (auto simp: lifecycle_candidate_def Let_def split: prod.splits if_splits option.splits)
    moreover obtain c2 zs where z: "collect (lifecycle_candidate skipped) xs c1 = (c2, zs)" by fastforce
    ultimately have "v \<in> set zs \<Longrightarrow> vc_index v \<in> fst ` set xs" "v \<in> set ys \<Longrightarrow> vc_index v = fst x"
      using Cons.IH [of c1] by simp_all
    then show ?case using Cons.prems s z by auto
  qed simp
  moreover have "vs = snd (collect (lifecycle_candidate skipped) (enumerate 0 (sd_Models (cn_src c))) c)"
    using assms(1) by (auto simp: videoLifecycleCandidates_def split: prod.splits)
  ultimately have "vc_index v \<in> fst ` set (enumerate 0 (sd_Models (cn_src c)))" using assms(2) by blast
  then show ?thesis by (auto simp: in_set_enumerate_eq)
qed

section \<open>A pass and its result\<close>

lemma distinct_split:
  assumes "distinct (map f xs)"
  shows "distinct (map f (filter P xs) @ map f (filter (\<lambda>x. \<not> P x) xs))"
proof -
  have xs: "distinct xs" "inj_on f (set xs)" using assms by (simp_all add: distinct_map)
  then have "distinct (filter P xs @ filter (\<lambda>x. \<not> P x) xs)" by auto
  moreover have "set (filter P xs @ filter (\<lambda>x. \<not> P x) xs) = set xs" by auto
  ultimately have "distinct (map f (filter P xs @ filter (\<lambda>x. \<not> P x) xs))" using xs(2) by (simp only: distinct_map simp_thms)
  then show ?thesis by simp
qed

lemma distinct_insert_end: "distinct (a @ b) \<Longrightarrow> distinct ns \<Longrightarrow> set ns \<inter> set (a @ b) = {} \<Longrightarrow> distinct ((a @ ns) @ b)"
  by auto

text \<open>What a pass adds to the document.\<close>

definition route_names :: "Service list \<Rightarrow> string list" where
  "route_names svcs = map rt_Name (concat (map svc_Routes svcs))"

definition published :: "converter \<Rightarrow> Service list \<Rightarrow> Plugin list \<Rightarrow> converter \<Rightarrow> bool" where
  "published c svcs ps c' \<longleftrightarrow>
     doc_Services (cv_out c') = doc_Services (cv_out c) @ svcs \<and> doc_Plugins (cv_out c') = doc_Plugins (cv_out c) @ ps \<and>
     distinct (route_names svcs) \<and> (\<forall>s \<in> set svcs. svc_Name s \<noteq> []) \<and>
     (\<forall>p \<in> set ps. scoped_to (set (route_names svcs)) (am_Name ` set (doc_AIModels (cv_out c'))) p)"

lemma row_names_entries: "rows_inv ms rows \<Longrightarrow> {a. fmlookup rows a \<noteq> None} \<subseteq> am_Name ` set ms"
proof
  fix a assume inv: "rows_inv ms rows" and "a \<in> {a. fmlookup rows a \<noteq> None}"
  then obtain row where "fmlookup rows a = Some row" by auto
  with inv have "ar_index row < length ms" "am_Name (ms ! ar_index row) = a" unfolding rows_inv_def by blast+
  then show "a \<in> am_Name ` set ms" by (metis image_eqI nth_mem)
qed

lemma route_names_filter: "route_names (filter (\<lambda>s. svc_Routes s \<noteq> []) svcs) = route_names svcs"
  by (induction svcs) (simp_all add: route_names_def)

text \<open>Emission does not rename the two Services.\<close>

lemma emit_groups_names:
  "fold (\<lambda>(key, g). emit_group st g) gs (s, w, c) = (s', w', c') \<Longrightarrow> svc_Name s' = svc_Name s \<and> svc_Name w' = svc_Name w"
proof (induction gs arbitrary: s w c)
  case (Cons x gs)
  obtain k g where x: "x = (k, g)" by fastforce
  obtain s1 w1 c1 where e: "emit_group st g (s, w, c) = (s1, w1, c1)" by (metis prod.exhaust)
  have "svc_Name s1 = svc_Name s \<and> svc_Name w1 = svc_Name w"
    using e by (auto simp: emit_group_def Let_def split: if_splits)
  then show ?case using Cons.IH [of s1 w1 c1] Cons.prems e by (simp add: x)
qed simp

lemma lifecycle_name: "svc_Name (fst (fst (convertVideoLifecycle v (s, st, c)))) = svc_Name s"
  by (simp add: convertVideoLifecycle_def Let_def prod.case_eq_if split: option.split outcome.split)

lemma lifecycle_names:
  "run_while lifecycle_once vs (s, st, c) = ((s', st', c'), b) \<Longrightarrow> svc_Name s' = svc_Name s"
proof (induction vs arbitrary: s st c)
  case (Cons v vs)
  obtain s1 st1 c1 b1 where o1: "lifecycle_once v (s, st, c) = ((s1, st1, c1), b1)" by (metis prod.exhaust)
  then have "convertModelOnce (vc_index v) (mo_Name (vc_model v)) (convertVideoLifecycle v) (s, st, c) = ((s1, st1, c1), b1)"
    by (simp add: lifecycle_once_def)
  from once_step [OF this] have "svc_Name s1 = svc_Name s" using lifecycle_name [of v s st c] by auto
  then show ?case using Cons o1 by (cases b1) auto
qed simp

lemma emit_pass_step:
  assumes run: "emit_pass vs (st, c) = ((st', c'), b)"
  shows "goes_on c c'"
    "\<not> b \<Longrightarrow> \<exists>v \<in> set vs. fmlookup (mp_skipped st) (vc_index v) = None \<and> (\<exists>xs. mp_skipped st' = fmupd (vc_index v) xs (mp_skipped st))"
    "b \<Longrightarrow> pass_inv c st \<Longrightarrow> \<exists>svcs ps. published c svcs ps c' \<and> set (mp_guardPlugins st) \<subseteq> set ps \<and>
       snd ` set (routes st) \<subseteq> set (route_names svcs)"
    "b \<Longrightarrow> mp_groups st' = mp_groups st \<and> mp_guardPlugins st' = mp_guardPlugins st \<and> mp_skipped st' = mp_skipped st"
proof -
  let ?gp = "mp_guardPlugins st"
  have gplugins: "goes_on x (emit_plugins ps x)" for x ps by (simp add: goes_on_def emit_plugins_def)
  consider (empty) "mp_groups st = []" | (groups) "mp_groups st \<noteq> []" by blast
  then have all: "goes_on c c' \<and>
    (\<not> b \<longrightarrow> (\<exists>v \<in> set vs. fmlookup (mp_skipped st) (vc_index v) = None \<and> (\<exists>xs. mp_skipped st' = fmupd (vc_index v) xs (mp_skipped st)))) \<and>
    (b \<longrightarrow> mp_groups st' = mp_groups st \<and> mp_guardPlugins st' = mp_guardPlugins st \<and> mp_skipped st' = mp_skipped st) \<and>
    (b \<longrightarrow> pass_inv c st \<longrightarrow> (\<exists>svcs ps. published c svcs ps c' \<and> set ?gp \<subseteq> set ps \<and> snd ` set (routes st) \<subseteq> set (route_names svcs)))"
  proof cases
    case empty
    then have res: "st' = st" "c' = emit_plugins ?gp c" "b" using run by (auto simp: emit_pass_def)
    have "published c [] ?gp c'" if "pass_inv c st"
    proof -
      have "?gp = []" using that empty by (cases ?gp) (auto simp: pass_inv_def guards_ok_def scoped_to_def routes_def)
      then show ?thesis by (simp add: res published_def emit_plugins_def route_names_def)
    qed
    moreover have "snd ` set (routes st) = {}" using empty by (simp add: routes_def)
    ultimately show ?thesis using res gplugins by auto
  next
    case groups
    let ?s0 = "empty_service\<lparr>svc_Name := GatewayServiceName, svc_URL := GatewayServiceURL\<rparr>"
    let ?w0 = "empty_service\<lparr>svc_Name := GatewayWebSocketServiceName, svc_URL := GatewayWebSocketServiceURL\<rparr>"
    obtain s1 w1 c1 where e: "fold (\<lambda>(key, g). emit_group st g) (mp_groups st) (?s0, ?w0, c) = (s1, w1, c1)" by (metis prod.exhaust)
    obtain s2 st2 c2 b2 where l: "run_while lifecycle_once vs (s1, st, c1) = ((s2, st2, c2), b2)" by (metis prod.exhaust)
    note ll = lifecycle_loop [OF l]
    have "\<forall>g \<in> snd ` set (mp_groups st). in_scope UNIV UNIV g" by (simp add: in_scope_def)
    from emit_groups_step [OF e this] have r1: "svc_Routes s1 = map rg_route (filter (\<lambda>g. \<not> rg_websocket g) (map snd (mp_groups st)))"
      "svc_Routes w1 = map rg_route (filter rg_websocket (map snd (mp_groups st)))" "goes_on c c1"
      by (simp_all add: empty_service_def adds_def)
    have g2: "goes_on c c2" using goes_on_trans r1(3) ll by blast
    show ?thesis
    proof (cases b2)
      case False
      then have "st' = st2" "c' = c2" "\<not> b" using run groups e l by (simp_all add: emit_pass_def)
      then show ?thesis using ll False g2 by simp
    next
      case True
      then obtain ns where ns: "distinct ns" "set ns \<inter> set (mp_usedRouteNames st) = {}"
        "st2 = st\<lparr>mp_usedRouteNames := rev ns @ mp_usedRouteNames st\<rparr>"
        "map rt_Name (svc_Routes s2) = map rt_Name (svc_Routes s1) @ ns" "adds (set ns) {} c1 c2" using ll by blast
      have res: "st' = st2" "c' = emit_plugins ?gp (append_services [s2, w1] c2)" "b"
        using run groups e l True ns(3) by (simp_all add: emit_pass_def)
      have g': "goes_on c c'" using g2 gplugins goes_on_trans unfolding res
        by (simp add: goes_on_def emit_plugins_def append_services_def)
      have pub: "\<exists>svcs ps. published c svcs ps c' \<and> set ?gp \<subseteq> set ps \<and> snd ` set (routes st) \<subseteq> set (route_names svcs)"
        if inv: "pass_inv c st"
      proof -
        let ?N = "route_names [s2, w1]" and ?A = "row_names st" and ?G = "map rt_Name (map rg_route (map snd (mp_groups st)))"
        have groups_N: "map snd (routes st) = ?G" by (simp add: routes_def case_prod_unfold)
        have dG: "distinct ?G" and used: "set ?G \<subseteq> set (mp_usedRouteNames st)"
          using inv unfolding pass_inv_def groups_ok_def groups_N [symmetric] by simp_all
        have names: "?N = (map rt_Name (svc_Routes s1) @ ns) @ map rt_Name (svc_Routes w1)"
          by (simp add: route_names_def ns(4))
        have split: "distinct (map rt_Name (svc_Routes s1) @ map rt_Name (svc_Routes w1))"
          using distinct_split [of "\<lambda>g. rt_Name (rg_route g)" "map snd (mp_groups st)" "\<lambda>g. \<not> rg_websocket g"] dG
          unfolding r1 by (simp add: comp_def)
        have sets: "set (map rt_Name (svc_Routes s1) @ map rt_Name (svc_Routes w1)) = set ?G" unfolding r1 by auto
        have dN: "distinct ?N" unfolding names by (rule distinct_insert_end [OF split ns(1)]) (use ns(2) used sets in blast)
        have GN: "set ?G \<subseteq> set ?N" "set ns \<subseteq> set ?N" using sets unfolding names by auto
        have scope: "in_scope (set ?N) ?A g" if "g \<in> snd ` set (mp_groups st)" for g
        proof -
          have "rt_Name (rg_route g) \<in> set ?G" using that by force
          moreover have "proxies_ok ?A g" using inv that unfolding pass_inv_def groups_ok_def by blast
          ultimately show ?thesis using GN(1) by (rule in_scopeI)
        qed
        have a1: "adds (set ?N) ?A c c1" using emit_groups_step [OF e, of "set ?N" ?A] scope by blast
        have a2: "adds (set ?N) ?A c1 c2" by (rule adds_mono [OF ns(5) GN(2)]) simp
        obtain ps where ps: "doc_Plugins (cv_out c2) = doc_Plugins (cv_out c) @ ps" "\<forall>p \<in> set ps. scoped_to (set ?N) ?A p"
          and same: "doc_Services (cv_out c2) = doc_Services (cv_out c)" "doc_AIModels (cv_out c2) = doc_AIModels (cv_out c)"
          using adds_trans [OF a1 a2] unfolding adds_def by blast
        have gs: "\<forall>p \<in> set ?gp. scoped_to (set ?N) ?A p"
        proof -
          have "snd ` set (routes st) = set ?G" using groups_N by (metis list.set_map)
          then show ?thesis using inv GN(1) scoped_to_mono [of "set ?G" ?A _ "set ?N" ?A] unfolding pass_inv_def guards_ok_def by simp
        qed
        have svc_names: "svc_Name s2 \<noteq> []" "svc_Name w1 \<noteq> []"
          using emit_groups_names [OF e] lifecycle_names [OF l]
          by (simp_all add: GatewayServiceName_def GatewayWebSocketServiceName_def)
        have ents: "?A \<subseteq> am_Name ` set (doc_AIModels (cv_out c'))"
          using inv row_names_entries same(2) unfolding pass_inv_def by (simp add: res emit_plugins_def append_services_def)
        have "published c (filter (\<lambda>s. svc_Routes s \<noteq> []) [s2, w1]) (ps @ ?gp) c'"
          unfolding published_def route_names_filter
        proof (intro conjI)
          show "\<forall>p \<in> set (ps @ ?gp). scoped_to (set ?N) (am_Name ` set (doc_AIModels (cv_out c'))) p"
            using ps(2) gs scoped_to_mono [OF _ order_refl ents] by auto
        qed (use ps(1) same dN svc_names in \<open>simp_all add: res emit_plugins_def append_services_def\<close>)
        moreover have "snd ` set (routes st) \<subseteq> set (route_names (filter (\<lambda>s. svc_Routes s \<noteq> []) [s2, w1]))"
          unfolding route_names_filter using GN(1) groups_N by (metis list.set_map)
        moreover have "set ?gp \<subseteq> set (ps @ ?gp)" by simp
        ultimately show ?thesis by blast
      qed
      then show ?thesis using g' res ns(3) by simp
    qed
  qed
  then show "goes_on c c'"
    "\<not> b \<Longrightarrow> \<exists>v \<in> set vs. fmlookup (mp_skipped st) (vc_index v) = None \<and> (\<exists>xs. mp_skipped st' = fmupd (vc_index v) xs (mp_skipped st))"
    "b \<Longrightarrow> pass_inv c st \<Longrightarrow> \<exists>svcs ps. published c svcs ps c' \<and> set (mp_guardPlugins st) \<subseteq> set ps \<and>
       snd ` set (routes st) \<subseteq> set (route_names svcs)"
    "b \<Longrightarrow> mp_groups st' = mp_groups st \<and> mp_guardPlugins st' = mp_guardPlugins st \<and> mp_skipped st' = mp_skipped st"
    by blast+
qed

section \<open>The restarts\<close>

lemma new_pass_inv: "doc_AIModels (cv_out c) = [] \<Longrightarrow> pass_inv c (new_pass skipped)"
  by (simp add: pass_inv_def new_pass_def groups_ok_def guards_ok_def seen_ok_def routes_def rows_inv_def)

lemma pass_step:
  assumes run: "convertModelsPass skipped c = ((st', c'), b)"
  shows "goes_on c c'"
    "\<not> b \<Longrightarrow> \<exists>i xs. i < length (sd_Models (cn_src c)) \<and> fmlookup skipped i = None \<and> mp_skipped st' = fmupd i xs skipped"
    "b \<Longrightarrow> doc_AIModels (cv_out c) = [] \<Longrightarrow> \<exists>svcs ps. published c svcs ps c' \<and> set (mp_guardPlugins st') \<subseteq> set ps \<and>
       snd ` set (routes st') \<subseteq> set (route_names svcs) \<and> (\<forall>(key, n) \<in> set (routes st'). protected_by c st' key n)"
    "b \<Longrightarrow> mp_skipped st' = skipped"
proof -
  define c0 where "c0 = c\<lparr>cn_modelRouteModels := fmempty\<rparr>"
  obtain c1 vs where v: "videoLifecycleCandidates skipped c0 = (c1, vs)" by fastforce
  have i1: "only_issues c0 c1" using candidates_issues [of c0 skipped] v by simp
  have y1: "stays c0 c1" by (rule only_issues_stays [OF i1])
  have src: "cn_src c1 = cn_src c" "doc_AIModels (cv_out c1) = doc_AIModels (cv_out c)"
    using stays_fields [OF y1] by (simp_all add: c0_def)
  have g1: "goes_on c c1" using stays_goes_on [OF y1] by (simp add: c0_def goes_on_def)
  obtain u st2 c2 b2 where m: "run_while model_once (enumerate 0 (sd_Models (cn_src c1))) ((), new_pass skipped, c1) = ((u, st2, c2), b2)"
    by (metis prod.exhaust)
  note mm = models_loop [OF m]
  have sk0: "mp_skipped (new_pass skipped) = skipped" by (simp add: new_pass_def)
  have eq: "convertModelsPass skipped c = (if b2 then emit_pass vs (st2, c2) else ((st2, c2), False))"
    unfolding convertModelsPass_def c0_def [symmetric] v prod.case m by (cases b2) simp_all
  have "goes_on c c' \<and>
    (\<not> b \<longrightarrow> (\<exists>i xs. i < length (sd_Models (cn_src c)) \<and> fmlookup skipped i = None \<and> mp_skipped st' = fmupd i xs skipped)) \<and>
    (b \<longrightarrow> doc_AIModels (cv_out c) = [] \<longrightarrow> (\<exists>svcs ps. published c svcs ps c' \<and> set (mp_guardPlugins st') \<subseteq> set ps \<and>
       snd ` set (routes st') \<subseteq> set (route_names svcs) \<and> (\<forall>(key, n) \<in> set (routes st'). protected_by c st' key n))) \<and>
    (b \<longrightarrow> mp_skipped st' = skipped)"
  proof (cases b2)
    case False
    then have res: "st' = st2" "c' = c2" "\<not> b" using run unfolding eq by simp_all
    obtain i xs where i: "i \<in> fst ` set (enumerate 0 (sd_Models (cn_src c1)))" "fmlookup skipped i = None"
      "mp_skipped st2 = fmupd i xs skipped" and g: "goes_on c1 c2" using mm False sk0 by auto
    have "i < length (sd_Models (cn_src c))" using i(1) src(1) by (auto simp: in_set_enumerate_eq)
    then show ?thesis using i g1 g goes_on_trans res by blast
  next
    case True
    then have e: "emit_pass vs (st2, c2) = ((st', c'), b)" using run unfolding eq by simp
    note ee = emit_pass_step [OF e]
    have mv: "moves c1 c2" and sk2: "mp_skipped st2 = skipped" using mm True sk0 by simp_all
    have g: "goes_on c c'" using goes_on_trans g1 moves_goes_on [OF mv] ee(1) by blast
    have "\<exists>i xs. i < length (sd_Models (cn_src c)) \<and> fmlookup skipped i = None \<and> mp_skipped st' = fmupd i xs skipped" if nb: "\<not> b"
    proof -
      obtain w xs where "w \<in> set vs" "fmlookup skipped (vc_index w) = None" "mp_skipped st' = fmupd (vc_index w) xs skipped"
        using ee(2) [OF nb] sk2 by auto
      then show ?thesis using candidates_index [OF v] by (auto simp: c0_def)
    qed
    moreover have "\<exists>svcs ps. published c svcs ps c' \<and> set (mp_guardPlugins st') \<subseteq> set ps \<and>
       snd ` set (routes st') \<subseteq> set (route_names svcs) \<and> (\<forall>(key, n) \<in> set (routes st'). protected_by c st' key n)"
      if b: "b" and none: "doc_AIModels (cv_out c) = []"
    proof -
      have "pass_inv c1 (new_pass skipped)" using new_pass_inv none src(2) by simp
      then have inv: "pass_inv c2 st2" using mm True by simp
      obtain svcs ps where p: "published c2 svcs ps c'" "set (mp_guardPlugins st2) \<subseteq> set ps"
        "snd ` set (routes st2) \<subseteq> set (route_names svcs)" using ee(3) [OF b inv] by blast
      have same: "mp_groups st' = mp_groups st2" "mp_guardPlugins st' = mp_guardPlugins st2" using ee(4) [OF b] by simp_all
      have out: "doc_Services (cv_out c2) = doc_Services (cv_out c)" "doc_Plugins (cv_out c2) = doc_Plugins (cv_out c)"
        using mv stays_fields [OF y1] by (simp_all add: moves_def c0_def)
      have auth: "cn_authStrategies c2 = cn_authStrategies c"
        using mv auth_env_fields [OF only_issues_auth_env [OF i1]] by (simp add: moves_def goes_on_def c0_def)
      have prot: "protected_by c2 st2 = protected_by c st'"
        by (simp add: fun_eq_iff protected_by_def auth_plugin_for_def auth same)
      have "routes st' = routes st2" by (simp add: routes_def same)
      then show ?thesis
        using p out same inv unfolding pass_inv_def prot by (intro exI [of _ svcs] exI [of _ ps]) (auto simp: published_def)
    qed
    moreover have "mp_skipped st' = skipped" if b using ee(4) [OF that] sk2 by simp
    ultimately show ?thesis using g by blast
  qed
  then show "goes_on c c'"
    "\<not> b \<Longrightarrow> \<exists>i xs. i < length (sd_Models (cn_src c)) \<and> fmlookup skipped i = None \<and> mp_skipped st' = fmupd i xs skipped"
    "b \<Longrightarrow> doc_AIModels (cv_out c) = [] \<Longrightarrow> \<exists>svcs ps. published c svcs ps c' \<and> set (mp_guardPlugins st') \<subseteq> set ps \<and>
       snd ` set (routes st') \<subseteq> set (route_names svcs) \<and> (\<forall>(key, n) \<in> set (routes st'). protected_by c st' key n)"
    "b \<Longrightarrow> mp_skipped st' = skipped" by blast+
qed

text \<open>The loop of \<open>convertModels\<close>: a failed pass is undone, up to the skipped models.\<close>

definition undo :: "Document \<Rightarrow> nat \<Rightarrow> converter \<Rightarrow> converter" where
  "undo out issueCount c = c\<lparr>cv_out := out, cv_issues := take issueCount (cv_issues c)\<rparr>"

definition open_models :: "(nat, ConversionIssue list) fmap \<Rightarrow> converter \<Rightarrow> nat set" where
  "open_models skipped c = {i. i < length (sd_Models (cn_src c)) \<and> fmlookup skipped i = None}"

function restart_models :: "Document \<Rightarrow> nat \<Rightarrow> (nat, ConversionIssue list) fmap \<Rightarrow> converter \<Rightarrow> pass_conv" where
  "restart_models out issueCount skipped c =
     (case convertModelsPass skipped c of
        (s, True) \<Rightarrow> s
      | ((st, c'), False) \<Rightarrow> restart_models out issueCount (mp_skipped st) (undo out issueCount c'))"
  by pat_completeness auto

lemma restart_smaller:
  assumes "convertModelsPass skipped c = ((st, c'), False)"
  shows "card (open_models (mp_skipped st) (undo out n c')) < card (open_models skipped c)"
proof -
  obtain i xs where i: "i < length (sd_Models (cn_src c))" "fmlookup skipped i = None" "mp_skipped st = fmupd i xs skipped"
    using pass_step(2) [OF assms] by blast
  have src: "cn_src (undo out n c') = cn_src c" using pass_step(1) [OF assms] by (simp add: undo_def goes_on_def)
  have "i \<in> open_models skipped c" "i \<notin> open_models (mp_skipped st) (undo out n c')"
    using i by (simp_all add: open_models_def)
  moreover have "open_models (mp_skipped st) (undo out n c') \<subseteq> open_models skipped c"
    using src i(3) by (auto simp: open_models_def split: if_splits)
  ultimately have "open_models (mp_skipped st) (undo out n c') \<subset> open_models skipped c" by blast
  then show ?thesis by (rule psubset_card_mono [rotated]) (simp add: open_models_def)
qed

termination restart_models
  by (relation "measure (\<lambda>(out, n, skipped, c). card (open_models skipped c))")
    (simp_all, metis (full_types) restart_smaller)

declare restart_models.simps [simp del]

definition convertModels :: "converter \<Rightarrow> converter" where
  "convertModels c = snd (restart_models (cv_out c) (length (cv_issues c)) fmempty c)"

lemma restart_models_result:
  assumes "restart_models out n skipped c = (st, c')" and "cv_out c = out" and "length (cv_issues c) = n"
    and "fset (fmdom skipped) \<subseteq> {..<length (sd_Models (cn_src c))}"
  shows "\<exists>c0. convertModelsPass (mp_skipped st) c0 = ((st, c'), True) \<and> cv_out c0 = out \<and> cv_issues c0 = cv_issues c \<and>
    cn_src c0 = cn_src c \<and> cn_authStrategies c0 = cn_authStrategies c \<and> fset (fmdom (mp_skipped st)) \<subseteq> {..<length (sd_Models (cn_src c))}"
  using assms
proof (induction out n skipped c rule: restart_models.induct)
  case (1 out n skipped c)
  obtain st1 c1 b where p: "convertModelsPass skipped c = ((st1, c1), b)" by (metis prod.exhaust)
  show ?case
  proof (cases b)
    case True
    then have "(st, c') = (st1, c1)" using 1(2) p by (simp add: restart_models.simps [of out])
    then show ?thesis using True p pass_step(4) [OF p True] 1(3,5) by (intro exI [of _ c]) simp
  next
    case False
    let ?c = "undo out n c1"
    obtain i xs where i: "i < length (sd_Models (cn_src c))" "mp_skipped st1 = fmupd i xs skipped"
      using pass_step(2) [OF p False] by blast
    have src: "cn_src ?c = cn_src c" "cn_authStrategies ?c = cn_authStrategies c" and iss: "cv_issues ?c = cv_issues c"
      using pass_step(1) [OF p] 1(4) by (auto simp: undo_def goes_on_def)
    have rest: "restart_models out n (mp_skipped st1) ?c = (st, c')"
      using 1(2) p False by (simp add: restart_models.simps [of out n skipped])
    have dom: "fset (fmdom (mp_skipped st1)) \<subseteq> {..<length (sd_Models (cn_src ?c))}"
      using 1(5) i src by simp
    have "cv_out ?c = out" "length (cv_issues ?c) = n" using iss 1(4) by (simp_all add: undo_def)
    from 1(1) [OF p [symmetric] refl _ rest this dom] False show ?thesis unfolding src iss by simp
  qed
qed

section \<open>Properties\<close>

text \<open>C5: The conversion of the models ends, whatever fails: it is the result of one pass that went through, on
  the document and the issues it started with, that left out some of the models of the source.\<close>

theorem models_converted:
  "\<exists>c0 st. convertModelsPass (mp_skipped st) c0 = ((st, convertModels c), True) \<and> cv_out c0 = cv_out c \<and>
     cv_issues c0 = cv_issues c \<and> cn_src c0 = cn_src c \<and>
     fset (fmdom (mp_skipped st)) \<subseteq> {..<length (sd_Models (cn_src c))}"
proof -
  obtain st c' where r: "restart_models (cv_out c) (length (cv_issues c)) fmempty c = (st, c')" by fastforce
  from restart_models_result [OF r refl refl] show ?thesis by (auto simp: convertModels_def r)
qed

text \<open>The pass that the result comes from, with what it published.\<close>

lemma models_result:
  assumes "doc_AIModels (cv_out c) = []"
  shows "\<exists>c0 st svcs ps. convertModelsPass (mp_skipped st) c0 = ((st, convertModels c), True) \<and> cv_out c0 = cv_out c \<and>
    cn_src c0 = cn_src c \<and> cn_authStrategies c0 = cn_authStrategies c \<and> goes_on c0 (convertModels c) \<and>
    published c svcs ps (convertModels c) \<and> set (mp_guardPlugins st) \<subseteq> set ps \<and>
    snd ` set (routes st) \<subseteq> set (route_names svcs) \<and> (\<forall>(key, n) \<in> set (routes st). protected_by c0 st key n)"
proof -
  obtain st c' where r: "restart_models (cv_out c) (length (cv_issues c)) fmempty c = (st, c')" by fastforce
  then have c': "convertModels c = c'" by (simp add: convertModels_def)
  obtain c0 where c0: "convertModelsPass (mp_skipped st) c0 = ((st, c'), True)" "cv_out c0 = cv_out c"
    "cn_src c0 = cn_src c" "cn_authStrategies c0 = cn_authStrategies c"
    using restart_models_result [OF r refl refl] by auto
  have "doc_AIModels (cv_out c0) = []" using assms c0(2) by simp
  from pass_step(3) [OF c0(1) TrueI this] obtain svcs ps where p: "published c0 svcs ps c'"
    "set (mp_guardPlugins st) \<subseteq> set ps" "snd ` set (routes st) \<subseteq> set (route_names svcs)"
    "\<forall>(key, n) \<in> set (routes st). protected_by c0 st key n" by blast
  have "published c svcs ps c'" using p(1) unfolding published_def c0(2) .
  then show ?thesis unfolding c' using c0 p(2-4) pass_step(1) [OF c0(1)] by blast
qed

lemma models_published:
  assumes "doc_AIModels (cv_out c) = []"
  shows "\<exists>svcs ps. published c svcs ps (convertModels c)"
  using models_result [OF assms] by blast

text \<open>Three models for the witnesses: the first cannot be converted, and the other two need a route of the
  same name, because their hosts differ.\<close>

definition chat_target :: TargetModel where
  "chat_target = \<lparr>tm_Name = ''gpt-4o'', tm_Weight = None, tm_SemanticDesc = [], tm_AllowAuthOverride = None,
     tm_Provider = ''p'', tm_Config = \<lparr>tmc_Type = ''openai'', tmc_Options = fmempty\<rparr>\<rparr>"

definition chat_model :: "string \<Rightarrow> string list \<Rightarrow> Model" where
  "chat_model name hosts = sample_model\<lparr>mo_Name := name, mo_Capabilities := [''generate''], mo_Formats := [''openai''],
     mo_TargetModels := [chat_target], mo_Access := \<lparr>moa_AuthStrategies = [''k''], moa_ACLs = no_acls\<rparr>,
     mo_Config := (mo_Config sample_model)\<lparr>moc_Route := (moc_Route (mo_Config sample_model))\<lparr>rt_Hosts := hosts\<rparr>\<rparr>\<rparr>"

definition chat_converter :: converter where
  "chat_converter = sample_auth\<lparr>cn_providers := fmap_of_list [(''p'', sample_provider)],
     cn_src := empty_source\<lparr>sd_Models := [(chat_model ''x'' [])\<lparr>mo_Formats := [''none'']\<rparr>, chat_model ''m'' [],
       chat_model ''n'' [''h'']]\<rparr>\<rparr>"

lemma chat_converted:
  "(let d = cv_out (convertModels chat_converter) in
     (route_names (doc_Services d), map (\<lambda>p. (pl_Name p, pl_Route p, pl_Model p)) (doc_Plugins d))) =
   ([''openai-chat'', ''openai-chat-2''],
    [(''ai-model-selector'', Some ''openai-chat'', None), (''ai-proxy-advanced'', Some ''openai-chat'', Some ''m''),
     (''ai-model-selector'', Some ''openai-chat-2'', None), (''ai-proxy-advanced'', Some ''openai-chat-2'', Some ''n''),
     (''key-auth'', Some ''openai-chat'', None), (''key-auth'', Some ''openai-chat-2'', None)])"
  by code_simp

text \<open>C6: The routes that the models add have distinct names, across both Services and the lifecycle routes.\<close>

theorem model_routes_distinct:
  assumes "doc_AIModels (cv_out c) = []"
  shows "\<exists>svcs. doc_Services (cv_out (convertModels c)) = doc_Services (cv_out c) @ svcs \<and> distinct (route_names svcs)"
  using models_published [OF assms] unfolding published_def by blast

theorem model_routes_distinct_witness:
  "doc_AIModels (cv_out chat_converter) = [] \<and>
   route_names (doc_Services (cv_out (convertModels chat_converter))) = [''openai-chat'', ''openai-chat-2''] \<and>
   distinct (route_names (doc_Services (cv_out (convertModels chat_converter))))"
proof -
  have none: "doc_AIModels (cv_out chat_converter) = []" "doc_Services (cv_out chat_converter) = []" by code_simp+
  have "route_names (doc_Services (cv_out (convertModels chat_converter))) = [''openai-chat'', ''openai-chat-2'']"
    using chat_converted by (simp add: Let_def)
  then show ?thesis using model_routes_distinct [OF none(1)] none by auto
qed

text \<open>Every plugin that the models add is scoped to a route that the models add, and where it is scoped to
  an ai_models entry the document has that entry: no reference dangles.\<close>

theorem model_plugins_resolve:
  assumes "doc_AIModels (cv_out c) = []"
  shows "\<exists>svcs ps. doc_Services (cv_out (convertModels c)) = doc_Services (cv_out c) @ svcs \<and>
    doc_Plugins (cv_out (convertModels c)) = doc_Plugins (cv_out c) @ ps \<and>
    (\<forall>p \<in> set ps. (\<exists>n \<in> set (route_names svcs). pl_Route p = Some n) \<and>
       (\<forall>a. pl_Model p = Some a \<longrightarrow> (\<exists>e \<in> set (doc_AIModels (cv_out (convertModels c))). am_Name e = a)))"
  using models_published [OF assms] unfolding published_def scoped_to_def by fastforce

theorem model_plugins_resolve_witness:
  "map (\<lambda>p. (pl_Name p, pl_Route p, pl_Model p)) (doc_Plugins (cv_out (convertModels chat_converter))) =
     [(''ai-model-selector'', Some ''openai-chat'', None), (''ai-proxy-advanced'', Some ''openai-chat'', Some ''m''),
      (''ai-model-selector'', Some ''openai-chat-2'', None), (''ai-proxy-advanced'', Some ''openai-chat-2'', Some ''n''),
      (''key-auth'', Some ''openai-chat'', None), (''key-auth'', Some ''openai-chat-2'', None)] \<and>
   list_all (\<lambda>p. \<exists>n \<in> set (route_names (doc_Services (cv_out (convertModels chat_converter)))). pl_Route p = Some n)
     (doc_Plugins (cv_out (convertModels chat_converter)))"
proof -
  have none: "doc_AIModels (cv_out chat_converter) = []" "doc_Services (cv_out chat_converter) = []"
    "doc_Plugins (cv_out chat_converter) = []" by code_simp+
  have "map (\<lambda>p. (pl_Name p, pl_Route p, pl_Model p)) (doc_Plugins (cv_out (convertModels chat_converter))) =
     [(''ai-model-selector'', Some ''openai-chat'', None), (''ai-proxy-advanced'', Some ''openai-chat'', Some ''m''),
      (''ai-model-selector'', Some ''openai-chat-2'', None), (''ai-proxy-advanced'', Some ''openai-chat-2'', Some ''n''),
      (''key-auth'', Some ''openai-chat'', None), (''key-auth'', Some ''openai-chat-2'', None)]"
    using chat_converted by (simp only: Let_def prod.inject)
  then show ?thesis using model_plugins_resolve [OF none(1)] none by (auto simp: list_all_iff)
qed

text \<open>Every route of a pass that goes through is protected: it belongs to the models of one set of auth
  strategies, and for each of these the document has an enabled plugin for the whole route, made from
  that strategy.\<close>

theorem model_routes_protected:
  assumes "convertModelsPass skipped c = ((st, c'), True)" and "doc_AIModels (cv_out c) = []"
  shows "\<forall>(k, g) \<in> set (mp_groups st). \<exists>refs. authStrategyKey refs = rk_identity k \<and>
    (\<forall>ref \<in> set refs. \<exists>p \<in> set (doc_Plugins (cv_out c')). auth_plugin_for c (rt_Name (rg_route g)) ref p)"
proof -
  obtain svcs ps where p: "published c svcs ps c'" "set (mp_guardPlugins st) \<subseteq> set ps"
    "\<forall>(key, n) \<in> set (routes st). protected_by c st key n"
    using pass_step(3) [OF assms(1) _ assms(2)] by blast
  then have sub: "set (mp_guardPlugins st) \<subseteq> set (doc_Plugins (cv_out c'))" by (auto simp: published_def)
  show ?thesis
  proof (intro ballI, unfold case_prod_unfold)
    fix x assume "x \<in> set (mp_groups st)"
    then have "(rk_identity (fst x), rt_Name (rg_route (snd x))) \<in> set (routes st)" by (force simp: routes_def)
    then have "protected_by c st (rk_identity (fst x)) (rt_Name (rg_route (snd x)))" using p(3) by blast
    then show "\<exists>refs. authStrategyKey refs = rk_identity (fst x) \<and>
      (\<forall>ref \<in> set refs. \<exists>p \<in> set (doc_Plugins (cv_out c')). auth_plugin_for c (rt_Name (rg_route (snd x))) ref p)"
      using sub unfolding protected_by_def by blast
  qed
qed

end
