(* ===== verification/Conversion_Run.thy ===== *)
theory Conversion_Run
  imports Model_Conversion MCP_Servers Agents Entities Routing_Lint DBLess
begin

text \<open>
  The whole conversion (\<open>src/convert/convert.go\<close>: \<open>run\<close>, \<open>result\<close>, \<open>Convert\<close>): the stages in their order,
  and what holds of the document they make together.  The decoding of the source text is a parameter.
\<close>

section \<open>The stages\<close>

definition convert_shared :: "converter \<Rightarrow> converter" where
  "convert_shared c =
     validateModelProviderTokenVaults (validateAuthStrategyTokenVaults (convertSNIs (convertCertificates
       (convertCACertificates (convertVaults (convertCustomPolicies (convertGlobalPolicies c)))))))"

definition convert_traffic :: "converter \<Rightarrow> converter" where
  "convert_traffic c =
     convertCredentialManagers (convertAgents (convertMCPServers (warnGlobalPoliciesForWebSocket (convertModels c))))"

text \<open>A panic of the callback route is not recovered: the run ends with it.\<close>

definition run :: "converter step" where
  "run c =
     (case secureTokenVaultCallbackRoute (convert_traffic (convertConsumers (convertConsumerGroups
             (convert_shared (buildRegistries c))))) of
        (c, Done) \<Rightarrow> (lint (revealTokenVaultCredentials c), Done)
      | r \<Rightarrow> r)"

text \<open>The minimum release of the metadata is kept beside the other metadata.\<close>

record ConversionResult =
  res_Output :: Document
  res_Metadata :: ConversionMetadata
  res_MinRuntimeVersion :: string
  res_Issues :: "ConversionIssue list"

definition result :: "converter \<Rightarrow> ConversionResult" where
  "result c = \<lparr>res_Output = cv_out c, res_Metadata = Document_Metadata (cv_out c),
     res_MinRuntimeVersion = version_String (cv_minRuntimeVersion c), res_Issues = cv_issues c\<rparr>"

datatype convert_error = InvalidOption version_error | ParseError string | RunPanic string

definition start :: "SourceDocument \<Rightarrow> Options \<Rightarrow> version \<Rightarrow> converter" where
  "start doc opts version =
     (let c = (newConverter doc opts)\<lparr>cv_minRuntimeVersion := version\<rparr> in
      if Less LatestVersion version
      then warn (issueSource kindConversionOption ''min_runtime_version'') ConfigFieldOverridden
        (''minimum runtime version %q is newer than the newest known release %q; the converter uses %q'',
         [version_String version, version_String LatestVersion, version_String LatestVersion])
        (c\<lparr>cv_minRuntimeVersion := LatestVersion\<rparr>)
      else c)"

definition Convert ::
  "('src \<Rightarrow> string + SourceDocument) \<Rightarrow> 'src \<Rightarrow> Options \<Rightarrow> convert_error + ConversionResult"
where
  "Convert Parse src opts =
     (case parseMinRuntimeVersion (opt_MinRuntimeVersion opts) of
        Inl e \<Rightarrow> Inl (InvalidOption e)
      | Inr version \<Rightarrow>
          (case Parse src of
             Inl e \<Rightarrow> Inl (ParseError e)
           | Inr doc \<Rightarrow>
               (case run (start doc opts version) of
                  (c, Panic p) \<Rightarrow> Inl (RunPanic p)
                | (c, _) \<Rightarrow> Inr (result c))))"

section \<open>After the models\<close>

text \<open>What the stages after the models do to the document, as far as references and the tables of the
  entities go: a named route of a Service stays, and a top-level plugin can only be made to show credentials.\<close>

definition route_pairs :: "Document \<Rightarrow> (string \<times> string) set" where
  "route_pairs d = {(svc_Name s, rt_Name r) | s r. s \<in> set (doc_Services d) \<and> r \<in> set (svc_Routes s)}"

definition shown :: "Plugin \<Rightarrow> Plugin" where
  "shown p = p\<lparr>pl_Config := fmupd ''hide_credentials'' (YBool False) (pl_Config p)\<rparr>"

definition later :: "Document \<Rightarrow> Document \<Rightarrow> bool" where
  "later d d' \<longleftrightarrow>
     route_pairs d \<subseteq> route_pairs d' \<and> map shown (doc_Plugins d') = map shown (doc_Plugins d) \<and>
     doc_AIModels d' = doc_AIModels d \<and> doc_CustomPlugins d' = doc_CustomPlugins d \<and>
     doc_Vaults d' = doc_Vaults d \<and> doc_ConsumerGroups d' = doc_ConsumerGroups d"

lemma later_refl [simp]: "later d d"
  by (simp add: later_def)

lemma later_trans: "later a b \<Longrightarrow> later b c \<Longrightarrow> later a c"
  unfolding later_def by auto

lemma route_pairs_append:
  "doc_Services d' = doc_Services d @ svcs \<Longrightarrow>
   route_pairs d' = route_pairs d \<union> {(svc_Name s, rt_Name r) | s r. s \<in> set svcs \<and> r \<in> set (svc_Routes s)}"
  unfolding route_pairs_def by auto

lemma tables_later: "same_tables d d' \<Longrightarrow> route_pairs d \<subseteq> route_pairs d' \<Longrightarrow> later d d'"
  by (simp add: same_tables_def later_def)

lemma kept_later: "kept d' = kept d \<Longrightarrow> later d d'"
  using kept_tables [of d' d] kept_Services [of d' d] by (intro tables_later) (simp_all add: route_pairs_def)

lemma untag_pairs:
  "map untag svcs = map untag (svcs1 @ svcs2) \<Longrightarrow> s \<in> set svcs1 \<Longrightarrow> r \<in> set (svc_Routes s) \<Longrightarrow>
   \<exists>s' \<in> set svcs. svc_Name s' = svc_Name s \<and> (\<exists>r' \<in> set (svc_Routes s'). rt_Name r' = rt_Name r)"
proof -
  assume eq: "map untag svcs = map untag (svcs1 @ svcs2)" and s: "s \<in> set svcs1" and r: "r \<in> set (svc_Routes s)"
  have "untag s \<in> set (map untag svcs)" unfolding eq using s by simp
  then obtain s' where s': "s' \<in> set svcs" "untag s' = untag s" by auto
  have "svc_Name s' = svc_Name s" using s'(2) by (metis untag_name)
  moreover have "map rt_Name (svc_Routes s') = map rt_Name (svc_Routes s)"
    using arg_cong [OF s'(2), of "\<lambda>s. map rt_Name (svc_Routes s)"] by (simp add: untag_def comp_def)
  then have "rt_Name r \<in> set (map rt_Name (svc_Routes s'))" using r by simp
  then obtain r' where "r' \<in> set (svc_Routes s')" "rt_Name r' = rt_Name r" by auto
  ultimately show ?thesis using s'(1) by (intro bexI [of _ s'] conjI bexI [of _ r'])
qed

lemma mcp_later: "later (cv_out c) (cv_out (convertMCPServers c))"
proof (rule tables_later [OF convertMCPServers_tables])
  obtain zs :: "(MCPServer \<times> Service) list" where
    zs: "map untag (doc_Services (cv_out (convertMCPServers c))) = map untag (doc_Services (cv_out c)) @ map (untag \<circ> snd) zs"
    using converted_services [of c] unfolding Let_def by blast
  then have "map untag (doc_Services (cv_out (convertMCPServers c))) = map untag (doc_Services (cv_out c) @ map snd zs)"
    by simp
  note kept = untag_pairs [OF this]
  show "route_pairs (cv_out c) \<subseteq> route_pairs (cv_out (convertMCPServers c))"
  proof
    fix x assume "x \<in> route_pairs (cv_out c)"
    then obtain s r where x: "x = (svc_Name s, rt_Name r)" and sr: "s \<in> set (doc_Services (cv_out c))" "r \<in> set (svc_Routes s)"
      unfolding route_pairs_def by blast
    obtain s' r' where "s' \<in> set (doc_Services (cv_out (convertMCPServers c)))" "r' \<in> set (svc_Routes s')"
      "x = (svc_Name s', rt_Name r')"
      using kept [OF sr] unfolding x by (elim bexE conjE) simp
    then show "x \<in> route_pairs (cv_out (convertMCPServers c))" unfolding route_pairs_def by blast
  qed
qed

lemma agent_later: "later (cv_out c) (cv_out (convertEntity src (convertAgent src a) c))"
proof -
  let ?c = "convertEntity src (convertAgent src a) c"
  have "agent_published src a c ?c \<or> cv_out ?c = cv_out c" using agent_entity [of src a c] unfolding Let_def by blast
  then show ?thesis
  proof
    assume p: "agent_published src a c ?c"
    then obtain svc where "doc_Services (cv_out ?c) = doc_Services (cv_out c) @ [svc]" unfolding agent_published_def by blast
    from route_pairs_append [OF this] show ?thesis
      using p by (intro tables_later) (simp_all add: agent_published_def)
  qed simp
qed

lemma agents_later: "later (cv_out c) (cv_out (convertAgents c))"
proof -
  have "later d (cv_out (fold (\<lambda>a. convertEntity (src a) (convertAgent (src a) a)) as c))" if "later d (cv_out c)" for src as d c
    using that by (induction as arbitrary: c) (simp_all add: later_trans [OF _ agent_later])
  then show ?thesis by (simp add: convertAgents_def)
qed

lemma managers_later: "later (cv_out c) (cv_out (convertCredentialManagers c))"
proof -
  let ?f = "\<lambda>idp c. if ast_Type idp \<noteq> authStrategyTypeOpenIDConnect \<or> \<not> credential_manager_enabled idp then c
         else let (c', oc) = applyAuthStrategyTokenVault idp c in if oc = Done then c' else c'\<lparr>cv_out := cv_out c\<rparr>"
  have "kept (cv_out (?f idp c)) = kept (cv_out c)" for idp c
    using token_vault_kept [of idp c] by (simp add: Let_def case_prod_unfold)
  then have "kept (cv_out (fold ?f idps c)) = kept (cv_out c)" for idps c
    by (induction idps arbitrary: c) (simp_all del: token_vault_kept)
  then show ?thesis unfolding convertCredentialManagers_def by (rule kept_later)
qed

lemma fold_out: "(\<And>p x. cv_out (f p x) = cv_out x) \<Longrightarrow> cv_out (fold f ps x) = cv_out x"
  by (induction ps arbitrary: x) simp_all

lemma websocket_warnings: "cv_out (warnGlobalPoliciesForWebSocket c) = cv_out c"
  unfolding warnGlobalPoliciesForWebSocket_def by (auto intro!: fold_out)

lemma traffic_later: "later (cv_out (convertModels c)) (cv_out (convert_traffic c))"
  unfolding convert_traffic_def
  by (intro later_trans [OF _ managers_later] later_trans [OF _ agents_later] later_trans [OF _ mcp_later])
    (simp add: websocket_warnings)

lemma callback_choice: "choose_callback_strategy callback names chosen c = Some (c', x) \<Longrightarrow> cv_out c' = cv_out c"
proof (induction names arbitrary: chosen c)
  case (Cons n names)
  then show ?case by (auto simp: Let_def split: option.splits list.splits if_splits dest!: Cons.IH)
qed simp

lemma secure_later: "later (cv_out c) (cv_out (fst (secureTokenVaultCallbackRoute c)))"
proof (rule kept_later)
  show "kept (cv_out (fst (secureTokenVaultCallbackRoute c))) = kept (cv_out c)"
    by (auto simp: secureTokenVaultCallbackRoute_def Let_def case_prod_unfold dest!: callback_choice
        split: option.split list.split)
qed

section \<open>Credentials\<close>

lemma reveal_shown [simp]: "shown (snd (reveal_plugin sel p c)) = shown p" "cv_out (fst (reveal_plugin sel p c)) = cv_out c"
  by (auto simp: reveal_plugin_def shown_def split: option.split)

lemma map_state_out:
  assumes "\<And>x c. cv_out (fst (f x c)) = cv_out c" and "\<And>x c. h (snd (f x c)) = h x"
  shows "cv_out (fst (map_state f xs c)) = cv_out c \<and> map h (snd (map_state f xs c)) = map h xs"
  using assms by (induction xs arbitrary: c) (simp_all add: Let_def case_prod_unfold)

lemma revealed_plugins:
  "cv_out (fst (revealedTokenVaultPlugins sel ps c)) = cv_out c"
  "map shown (snd (revealedTokenVaultPlugins sel ps c)) = map shown ps"
  using map_state_out [of "reveal_plugin sel" shown ps c] by (simp_all add: revealedTokenVaultPlugins_def)

definition route_names_of :: "Service \<Rightarrow> string \<times> string list" where
  "route_names_of s = (svc_Name s, map rt_Name (svc_Routes s))"

lemma revealed_services:
  fixes sel :: "Route \<Rightarrow> Plugin \<Rightarrow> bool"
  defines "route \<equiv> \<lambda>r c. let (c, ps) = revealedTokenVaultPlugins (sel r) (rt_Plugins r) c in (c, r\<lparr>rt_Plugins := ps\<rparr>)"
  defines "svc \<equiv> \<lambda>s c. let (c, rs) = map_state route (svc_Routes s) c in (c, s\<lparr>svc_Routes := rs\<rparr>)"
  shows "cv_out (fst (map_state svc ss c)) = cv_out c \<and> map route_names_of (snd (map_state svc ss c)) = map route_names_of ss"
proof (rule map_state_out)
  have r: "cv_out (fst (map_state route rs c)) = cv_out c \<and> map rt_Name (snd (map_state route rs c)) = map rt_Name rs" for rs c
    by (rule map_state_out) (simp_all add: route_def Let_def case_prod_unfold revealed_plugins)
  then show "cv_out (fst (svc x c)) = cv_out c" "route_names_of (snd (svc x c)) = route_names_of x" for x c
    by (simp_all add: svc_def route_names_of_def Let_def case_prod_unfold)
qed

lemma names_pairs:
  assumes "map route_names_of (doc_Services d') = map route_names_of (doc_Services d)"
  shows "route_pairs d' = route_pairs d"
proof -
  have pair: "(n, m) \<in> route_pairs x \<longleftrightarrow> (\<exists>p \<in> set (map route_names_of (doc_Services x)). fst p = n \<and> m \<in> set (snd p))" for n m x
    by (auto simp: route_pairs_def route_names_of_def)
  show ?thesis
  proof (rule set_eqI)
    show "x \<in> route_pairs d' \<longleftrightarrow> x \<in> route_pairs d" for x by (cases x) (simp only: pair assms)
  qed
qed

lemma reveal_later: "later (cv_out c) (cv_out (revealTokenVaultCredentials c))"
proof (cases "tokenVaultRouteNames (cv_out c) = []")
  case False
  define routes where "routes = tokenVaultRouteNames (cv_out c)"
  obtain c1 ps where p: "revealedTokenVaultPlugins (\<lambda>p. case pl_Route p of None \<Rightarrow> False | Some r \<Rightarrow> r \<in> set routes)
      (doc_Plugins (cv_out c)) c = (c1, ps)" by fastforce
  have p': "cv_out c1 = cv_out c" "map shown ps = map shown (doc_Plugins (cv_out c))"
    using revealed_plugins p by (metis fst_conv, metis snd_conv)
  obtain c2 svcs where s: "map_state (\<lambda>s c. let (c, rs) = map_state (\<lambda>r c.
                     let (c, ps) = revealedTokenVaultPlugins (\<lambda>_. rt_Name r \<in> set routes) (rt_Plugins r) c
                     in (c, r\<lparr>rt_Plugins := ps\<rparr>)) (svc_Routes s) c
               in (c, s\<lparr>svc_Routes := rs\<rparr>)) (doc_Services (cv_out c1)) c1 = (c2, svcs)" by fastforce
  have s': "cv_out c2 = cv_out c1" "map route_names_of svcs = map route_names_of (doc_Services (cv_out c1))"
    using revealed_services [of "\<lambda>r _. rt_Name r \<in> set routes" "doc_Services (cv_out c1)" c1] unfolding s by simp_all
  have out: "cv_out (revealTokenVaultCredentials c) = (cv_out c)\<lparr>doc_Plugins := ps, doc_Services := svcs\<rparr>"
    using False p s p'(1) s'(1) by (simp add: revealTokenVaultCredentials_def routes_def [symmetric] Let_def)
  have "route_pairs (cv_out (revealTokenVaultCredentials c)) = route_pairs (cv_out c)"
    by (rule names_pairs) (simp add: out s'(2) p'(1))
  then show ?thesis by (simp add: later_def out p'(2))
qed (simp add: revealTokenVaultCredentials_def)

lemma lint_step: "only_issues c (lint c)"
  using warn_entries_issues [of "[]" "routeEntries c" c] by (simp add: lint_def warnRoutingConflicts_def)

lemma run_later:
  "later (cv_out (convertModels (convertConsumers (convertConsumerGroups (convert_shared (buildRegistries c)))))) (cv_out (fst (run c)))"
proof -
  define c1 where "c1 = convertConsumers (convertConsumerGroups (convert_shared (buildRegistries c)))"
  obtain c2 oc where s: "secureTokenVaultCallbackRoute (convert_traffic c1) = (c2, oc)" by fastforce
  have l: "later (cv_out (convertModels c1)) (cv_out c2)"
    using later_trans [OF traffic_later secure_later, of c1] s by simp
  have "only_issues x (lint x)" for x by (rule lint_step)
  then have "cv_out (lint x) = cv_out x" for x using only_issues_kept by blast
  then have "later (cv_out c2) (cv_out (fst (run c)))"
    using s reveal_later [of c2] by (cases oc) (simp_all add: run_def c1_def [symmetric])
  with l show ?thesis unfolding c1_def by (rule later_trans)
qed

section \<open>Before the models\<close>

lemma validate_strategies:
  assumes "\<not> cn_tvOIDCSilent c"
  shows "auth_env c (validateAuthStrategyTokenVaults c) \<and> cv_out (validateAuthStrategyTokenVaults c) = cv_out c"
proof -
  let ?f = "\<lambda>idp c. (fst (applyAuthStrategyTokenVault idp c))\<lparr>cv_out := cv_out c\<rparr>"
  let ?c = "c\<lparr>cn_tvOIDCSilent := True\<rparr>"
  have "auth_env ?c (fold ?f idps x) \<and> cv_out (fold ?f idps x) = cv_out c" if "auth_env ?c x" "cv_out x = cv_out c" for idps x
    using that
  proof (induction idps arbitrary: x)
    case (Cons idp idps)
    have "auth_env ?c (?f idp x)" using auth_env_trans [OF Cons.prems(1)] token_vault_step [of x idp] by simp
    then show ?case using Cons.IH [of "?f idp x"] Cons.prems by simp
  qed simp
  then have e: "auth_env ?c (fold ?f (sd_AuthStrategies (cn_src c)) ?c)" and out: "cv_out (fold ?f (sd_AuthStrategies (cn_src c)) ?c) = cv_out c"
    by simp_all
  obtain i w where f: "fold ?f (sd_AuthStrategies (cn_src c)) ?c = ?c\<lparr>cv_out := cv_out c, cv_issues := i, cn_tvOIDCWarned := w\<rparr>"
    using that [where i = "cv_issues (fold ?f (sd_AuthStrategies (cn_src c)) ?c)" and w = "cn_tvOIDCWarned (fold ?f (sd_AuthStrategies (cn_src c)) ?c)"]
      e out unfolding auth_env_def by simp
  have "c\<lparr>cn_tvOIDCSilent := False\<rparr> = c" using assms by (cases c) simp
  then have "validateAuthStrategyTokenVaults c = c\<lparr>cv_issues := i, cn_tvOIDCWarned := w\<rparr>"
    unfolding validateAuthStrategyTokenVaults_def f by (cases c) simp
  moreover have "reports c (c\<lparr>cv_issues := i\<rparr>)" using e unfolding f by (simp add: auth_env_def reports_def)
  ultimately show ?thesis by (simp add: auth_env_def reports_def)
qed

lemma validate_providers:
  "auth_env c (validateModelProviderTokenVaults c) \<and> cv_out (validateModelProviderTokenVaults c) = cv_out c"
proof -
  have step: "auth_env c (validate_provider p c) \<and> cv_out (validate_provider p c) = cv_out c" for p c
    by (auto simp: validate_provider_def Let_def reportError_def auth_env_report callback_route_step(1)
        split: option.split sum.split intro!: auth_env_trans [OF _ auth_env_warn(1)])
  have "auth_env c (fold validate_provider ps x) \<and> cv_out (fold validate_provider ps x) = cv_out c"
    if "auth_env c x" "cv_out x = cv_out c" for ps x
    using that
  proof (induction ps arbitrary: x)
    case (Cons p ps)
    show ?case using Cons.IH [of "validate_provider p x"] Cons.prems auth_env_trans step by simp
  qed simp
  then show ?thesis by (simp add: validateModelProviderTokenVaults_def)
qed

lemma group_row_env:
  assumes "auth_env c c'"
  shows "group_row c' = group_row c"
proof -
  obtain d i w where c': "c' = c\<lparr>cv_out := d, cv_issues := i, cn_tvOIDCWarned := w\<rparr>"
    using assms unfolding auth_env_def by blast
  have "snd (policyPlugin po t b c') = snd (policyPlugin po t b c)" for po t b
    by (rule policyPlugin_reads) (simp_all add: c')
  moreover have "cn_policies c' = cn_policies c" by (simp add: c')
  ultimately have "ref_plugin c' x = ref_plugin c x" for x by (simp add: ref_plugin_def split: option.split)
  then have p: "ref_plugin c' = ref_plugin c" by (intro ext)
  have "labelsToTags c' = labelsToTags c" by (rule ext) (simp add: labelsToTags_def c')
  then show ?thesis by (intro ext) (simp add: group_row_def entity_plugins_def p)
qed

text \<open>The document before the models.\<close>

definition shared_rows :: "converter \<Rightarrow> Document \<Rightarrow> bool" where
  "shared_rows c d \<longleftrightarrow>
     doc_Plugins d = concat (map (global_rows c) (sd_Policies (cn_src c))) \<and>
     doc_CustomPlugins d = concat (map custom_policy_rows (sd_CustomPolicies (cn_src c))) \<and>
     doc_Vaults d = map (vault_row c) (sd_Vaults (cn_src c)) \<and>
     doc_ConsumerGroups d = map (group_row c) (sd_ConsumerGroups (cn_src c)) \<and>
     doc_Services d = [] \<and> doc_AIModels d = []"

lemma shared_step:
  assumes "cv_out c = NewDocument" and silent: "\<not> cn_tvOIDCSilent c"
  defines "c' \<equiv> convertConsumers (convertConsumerGroups (convert_shared c))"
  shows "auth_env c c' \<and> shared_rows c (cv_out c')"
proof -
  have new: "doc_Certificates (cv_out c) = []" "doc_Plugins (cv_out c) = []" "doc_CustomPlugins (cv_out c) = []"
    "doc_Vaults (cv_out c) = []" "doc_ConsumerGroups (cv_out c) = []" "doc_Services (cv_out c) = []" "doc_AIModels (cv_out c) = []"
    using assms(1) by (simp_all add: NewDocument_def)
  define c1 where "c1 = convertGlobalPolicies c"
  define c2 where "c2 = convertCustomPolicies c1"
  define c3 where "c3 = convertVaults c2"
  define c4 where "c4 = convertCACertificates c3"
  define c5 where "c5 = convertCertificates c4"
  define c6 where "c6 = convertSNIs c5"
  define c7 where "c7 = validateModelProviderTokenVaults (validateAuthStrategyTokenVaults c6)"
  define c8 where "c8 = convertConsumerGroups c7"
  have c': "c' = convertConsumers c8" and all: "convert_shared c = c7"
    by (simp_all add: c'_def convert_shared_def c1_def c2_def c3_def c4_def c5_def c6_def c7_def c8_def)
  note e1 = globals_stage [of c, folded c1_def] and e2 = custom_policies_stage [of c1, folded c2_def]
    and e3 = plain_stages(1) [of c2, folded c3_def] and e4 = plain_stages(2) [of c3, folded c4_def]
    and e5 = plain_stages(3) [of c4, folded c5_def]
  have s1: "same_env c c1" by (rule emits_env [OF e1])
  have s2: "same_env c c2" by (rule same_env_trans [OF s1 emits_env [OF e2]])
  have s3: "same_env c c3" by (rule same_env_trans [OF s2 emits_env [OF e3]])
  have s4: "same_env c c4" by (rule same_env_trans [OF s3 emits_env [OF e4]])
  have s5: "same_env c c5" by (rule same_env_trans [OF s4 emits_env [OF e5]])
  note out = e1 [unfolded emits_def] e2 [unfolded emits_def] e3 [unfolded emits_def] e4 [unfolded emits_def]
    e5 [unfolded emits_def]
  have "length (doc_Certificates (cv_out c5)) = length (sd_Certificates (cn_src c5))"
    using out new(1) by (simp add: env_fields(2) [OF s4] env_fields(2) [OF s5])
  note e6 = snis_stage [OF this, folded c6_def]
  have s6: "same_env c c6" by (rule same_env_trans [OF s5 emits_env [OF e6]])
  have a6: "auth_env c c6"
    by (rule env_auth [OF _ s6]) (use out e6 in \<open>unfold emits_def, meson reports_trans\<close>)
  have silent6: "\<not> cn_tvOIDCSilent c6" using silent auth_env_fields [OF a6] by simp
  note v = validate_strategies [OF silent6] and w = validate_providers [of "validateAuthStrategyTokenVaults c6", folded c7_def]
  have a7: "auth_env c c7" by (rule auth_env_trans [OF auth_env_trans [OF a6 conjunct1 [OF v]] conjunct1 [OF w]])
  have o7: "cv_out c7 = cv_out c6" by (rule trans [OF conjunct2 [OF w] conjunct2 [OF v]])
  note e8 = groups_stage [of c7, folded c8_def] and e9 = consumers_stage [of c8, folded c']
  have a9: "auth_env c c'"
    using auth_env_trans [OF auth_env_trans [OF a7]] env_auth [of c7 c8] env_auth [of c8 c'] e8 e9
    unfolding emits_def by blast
  have rows: "group_row c7 = group_row c" "cn_src c7 = cn_src c"
    using group_row_env [OF a7] auth_env_fields [OF a7] by simp_all
  have "shared_rows c (cv_out c')"
    using out e6 [unfolded emits_def] e8 [unfolded emits_def] e9 [unfolded emits_def] new o7
    by (simp add: shared_rows_def rows row_env [OF s1] row_env [OF s2] env_fields(2) [OF s1] env_fields(2) [OF s2])
  with a9 show ?thesis by blast
qed

section \<open>The document of a run\<close>

definition registered :: "SourceDocument \<Rightarrow> Options \<Rightarrow> version \<Rightarrow> converter" where
  "registered doc opts version = buildRegistries (start doc opts version)"

lemma start_fields:
  "cv_out (registered doc opts version) = NewDocument" "\<not> cn_tvOIDCSilent (registered doc opts version)"
  "cn_src (registered doc opts version) = doc"
  by (simp_all add: registered_def start_def buildRegistries_def newConverter_def Let_def warn_def report_def)

lemma Convert_result:
  assumes "Convert Parse src opts = Inr res"
  shows "\<exists>doc version. Parse src = Inr doc \<and> parseMinRuntimeVersion (opt_MinRuntimeVersion opts) = Inr version \<and>
    res_Output res = cv_out (fst (run (start doc opts version)))"
  using assms by (auto simp: Convert_def result_def split: sum.splits prod.splits outcome.splits)

text \<open>What the last stages leave, from the registries on.\<close>

lemma run_result:
  assumes "c = registered doc opts version"
  shows "\<exists>c1 c0 st svcs ps. auth_env c c1 \<and> shared_rows c (cv_out c1) \<and>
    convertModelsPass (mp_skipped st) c0 = ((st, convertModels c1), True) \<and> cn_src c0 = doc \<and>
    cn_authStrategies c0 = cn_authStrategies c \<and> goes_on c0 (convertModels c1) \<and> cv_out c0 = cv_out c1 \<and>
    published c1 svcs ps (convertModels c1) \<and> set (mp_guardPlugins st) \<subseteq> set ps \<and>
    snd ` set (routes st) \<subseteq> set (route_names svcs) \<and> (\<forall>(key, n) \<in> set (routes st). protected_by c0 st key n) \<and>
    later (cv_out (convertModels c1)) (cv_out (fst (run (start doc opts version))))"
proof -
  define c1 where "c1 = convertConsumers (convertConsumerGroups (convert_shared c))"
  have s: "auth_env c c1" "shared_rows c (cv_out c1)"
    using shared_step [of c] start_fields assms unfolding c1_def by simp_all
  have none: "doc_AIModels (cv_out c1) = []" using s(2) by (simp add: shared_rows_def)
  have l: "later (cv_out (convertModels c1)) (cv_out (fst (run (start doc opts version))))"
    using run_later [of "start doc opts version"] unfolding c1_def assms registered_def .
  have f: "cn_src c1 = doc" "cn_authStrategies c1 = cn_authStrategies c"
    using auth_env_fields [OF s(1)] start_fields(3) assms by simp_all
  from models_result [OF none] obtain c0 st svcs ps where
    "convertModelsPass (mp_skipped st) c0 = ((st, convertModels c1), True)" "cn_src c0 = doc"
    "cn_authStrategies c0 = cn_authStrategies c" "goes_on c0 (convertModels c1)" "cv_out c0 = cv_out c1"
    "published c1 svcs ps (convertModels c1)" "set (mp_guardPlugins st) \<subseteq> set ps"
    "snd ` set (routes st) \<subseteq> set (route_names svcs)" "\<forall>(key, n) \<in> set (routes st). protected_by c0 st key n"
    unfolding f by (elim exE conjE)
  with s l show ?thesis by (intro exI conjI)
qed

definition route_of_document :: "Document \<Rightarrow> string \<Rightarrow> bool" where
  "route_of_document d n \<longleftrightarrow> (\<exists>s \<in> set (doc_Services d). svc_Name s \<noteq> [] \<and> (\<exists>r \<in> set (svc_Routes s). rt_Name r = n))"

definition resolves :: "Document \<Rightarrow> Plugin \<Rightarrow> bool" where
  "resolves d p \<longleftrightarrow>
     pl_Service p = None \<and> pl_Consumer p = None \<and> pl_ConsumerGroup p = None \<and>
     (\<forall>n. pl_Route p = Some n \<longrightarrow> route_of_document d n) \<and>
     (\<forall>a. pl_Model p = Some a \<longrightarrow> a \<in> am_Name ` set (doc_AIModels d))"

lemma later_route: "later d d' \<Longrightarrow> route_of_document d n \<Longrightarrow> route_of_document d' n"
proof -
  assume l: "later d d'" and r: "route_of_document d n"
  obtain m where "(m, n) \<in> route_pairs d" "m \<noteq> []" using r unfolding route_of_document_def route_pairs_def by blast
  then have "(m, n) \<in> route_pairs d'" "m \<noteq> []" using l unfolding later_def by blast+
  then show ?thesis unfolding route_of_document_def route_pairs_def by blast
qed

lemma published_route:
  assumes "published c svcs ps c'" and "n \<in> set (route_names svcs)"
  shows "route_of_document (cv_out c') n"
proof -
  obtain s r where "s \<in> set svcs" "r \<in> set (svc_Routes s)" "rt_Name r = n" using assms(2) by (auto simp: route_names_def)
  then show ?thesis using assms(1) unfolding route_of_document_def published_def by auto
qed

lemma shown_resolves: "resolves d (shown p) = resolves d p"
  by (simp add: resolves_def shown_def)

lemma later_plugins:
  assumes "later d d'" and "\<forall>p \<in> set (doc_Plugins d). resolves d p"
  shows "\<forall>p \<in> set (doc_Plugins d'). resolves d' p"
proof
  fix p assume "p \<in> set (doc_Plugins d')"
  then have "shown p \<in> set (map shown (doc_Plugins d'))" by simp
  then have "shown p \<in> set (map shown (doc_Plugins d))" using assms(1) unfolding later_def by metis
  then obtain q where q: "q \<in> set (doc_Plugins d)" "shown q = shown p" by auto
  then have "resolves d p" using assms(2) shown_resolves by metis
  then show "resolves d' p" using later_route [OF assms(1)] assms(1) unfolding resolves_def later_def by simp
qed

lemma policyPlugin_route: "snd (policyPlugin p tags b c) = Some pl \<Longrightarrow> pl_Route pl = None"
  by (auto simp: policyPlugin_def empty_plugin_def prod.case_eq_if split: if_splits option.splits)

lemma global_rows_resolve: "p \<in> set (global_rows c po) \<Longrightarrow> resolves d p"
proof -
  assume "p \<in> set (global_rows c po)"
  then have "snd (policyPlugin po (labelsToTags c (po_Labels po)) True c) = Some p"
    unfolding global_rows_def by (cases "is_global po"; cases "snd (policyPlugin po (labelsToTags c (po_Labels po)) True c)") simp_all
  from policyPlugin_model [OF this] policyPlugin_route [OF this] show ?thesis by (simp add: resolves_def unscoped_def)
qed

lemma run_resolves:
  assumes "Convert Parse src opts = Inr res" and "p \<in> set (doc_Plugins (res_Output res))"
  shows "resolves (res_Output res) p"
proof -
  obtain doc version where out: "res_Output res = cv_out (fst (run (start doc opts version)))"
    using Convert_result [OF assms(1)] by blast
  define c where "c = registered doc opts version"
  obtain c1 svcs ps where r: "shared_rows c (cv_out c1)" "published c1 svcs ps (convertModels c1)"
    "later (cv_out (convertModels c1)) (res_Output res)"
    using run_result [OF c_def] unfolding out by blast
  let ?d = "cv_out (convertModels c1)"
  have plugins: "doc_Plugins ?d = concat (map (global_rows c) (sd_Policies (cn_src c))) @ ps"
    using r(1,2) by (simp add: published_def shared_rows_def)
  have "resolves ?d q" if "q \<in> set (doc_Plugins ?d)" for q
  proof (cases "q \<in> set ps")
    case True
    then have "scoped_to (set (route_names svcs)) (am_Name ` set (doc_AIModels ?d)) q"
      using r(2) unfolding published_def by blast
    then show ?thesis
      using published_route [OF r(2)] unfolding scoped_to_def resolves_def unscoped_def by auto
  next
    case False
    then show ?thesis using that global_rows_resolve unfolding plugins by auto
  qed
  then show ?thesis using later_plugins [OF r(3)] assms(2) by blast
qed

text \<open>A source for the witnesses: the models of \<open>chat_converter\<close> with their provider and their strategy, a
  global policy, a vault and a consumer group.\<close>

definition chat_source :: SourceDocument where
  "chat_source = (cn_src chat_converter)\<lparr>sd_ModelProviders := [sample_provider], sd_AuthStrategies := [sample_strategy],
     sd_Policies := [(sample_policy ''g'')\<lparr>po_Global := Some True, po_Enabled := None\<rparr>],
     sd_ConsumerGroups := [\<lparr>ag_ID = [], ag_Name = ''team'', ag_Policies = [], ag_Labels = fmempty\<rparr>]\<rparr>"

definition chat_options :: Options where
  "chat_options = \<lparr>opt_LabelTagPrefix = [], opt_MinRuntimeVersion = ''2.0''\<rparr>"

lemma chat_run:
  "(case Convert Inr chat_source chat_options of
      Inl e \<Rightarrow> None
    | Inr res \<Rightarrow> Some (map (\<lambda>p. (pl_Name p, pl_Route p, pl_Model p)) (doc_Plugins (res_Output res)),
        map cg_Name (doc_ConsumerGroups (res_Output res)), groups_declared (res_Output res))) =
   Some ([(''cors'', None, None), (''ai-model-selector'', Some ''openai-chat'', None),
     (''ai-proxy-advanced'', Some ''openai-chat'', Some ''m''),
     (''ai-model-selector'', Some ''openai-chat-2'', None), (''ai-proxy-advanced'', Some ''openai-chat-2'', Some ''n''),
     (''key-auth'', Some ''openai-chat'', None), (''key-auth'', Some ''openai-chat-2'', None)], [''team''], True)"
  by code_simp

text \<open>What the witnesses use of it: its third plugin is for one route and one model.\<close>

lemma case_Some: "(case r of Inl e \<Rightarrow> None | Inr x \<Rightarrow> Some (f x)) = Some y \<Longrightarrow> \<exists>x. r = Inr x \<and> f x = y"
  by (cases r) auto

lemma chat_result:
  "\<exists>res. Convert Inr chat_source chat_options = Inr res \<and> 2 < length (doc_Plugins (res_Output res)) \<and>
     pl_Route (doc_Plugins (res_Output res) ! 2) = Some ''openai-chat'' \<and>
     pl_Model (doc_Plugins (res_Output res) ! 2) = Some ''m'' \<and> groups_declared (res_Output res) \<and>
     map cg_Name (doc_ConsumerGroups (res_Output res)) = [''team'']"
proof -
  obtain res where res: "Convert Inr chat_source chat_options = Inr res"
    and p: "map (\<lambda>p. (pl_Name p, pl_Route p, pl_Model p)) (doc_Plugins (res_Output res)) =
     [(''cors'', None, None), (''ai-model-selector'', Some ''openai-chat'', None),
      (''ai-proxy-advanced'', Some ''openai-chat'', Some ''m''),
      (''ai-model-selector'', Some ''openai-chat-2'', None), (''ai-proxy-advanced'', Some ''openai-chat-2'', Some ''n''),
      (''key-auth'', Some ''openai-chat'', None), (''key-auth'', Some ''openai-chat-2'', None)]"
    and g: "map cg_Name (doc_ConsumerGroups (res_Output res)) = [''team'']" "groups_declared (res_Output res) = True"
    using case_Some [OF chat_run] unfolding prod.inject by (elim exE conjE)
  have len: "2 < length (doc_Plugins (res_Output res))" using arg_cong [OF p, of length] by simp
  from arg_cong [OF p, of "\<lambda>xs. xs ! 2"] len
  have "pl_Route (doc_Plugins (res_Output res) ! 2) = Some ''openai-chat''"
    "pl_Model (doc_Plugins (res_Output res) ! 2) = Some ''m''" by simp_all
  with res len g show ?thesis by (intro exI [of _ res] conjI) (simp_all only:)
qed

text \<open>C2: Every top-level plugin of a converted document resolves: it is scoped to no Service, consumer or
  group, its route is a named route of a named Service of the same document, and its model is in the
  ai_models table.\<close>

theorem plugin_references_resolve:
  assumes "Convert Parse src opts = Inr res" and "p \<in> set (doc_Plugins (res_Output res))"
  shows "resolves (res_Output res) p"
  using assms by (rule run_resolves)

theorem plugin_references_resolve_witness:
  "\<exists>res p. Convert Inr chat_source chat_options = Inr res \<and> p \<in> set (doc_Plugins (res_Output res)) \<and>
     pl_Route p = Some ''openai-chat'' \<and> pl_Model p = Some ''m'' \<and> resolves (res_Output res) p"
proof -
  obtain res where res: "Convert Inr chat_source chat_options = Inr res" "2 < length (doc_Plugins (res_Output res))"
    and p: "pl_Route (doc_Plugins (res_Output res) ! 2) = Some ''openai-chat''"
      "pl_Model (doc_Plugins (res_Output res) ! 2) = Some ''m''"
    using chat_result by (elim exE conjE)
  have "resolves (res_Output res) (doc_Plugins (res_Output res) ! 2)"
    by (rule plugin_references_resolve [OF res(1)]) (use res(2) in simp)
  with res p show ?thesis by (intro exI conjI) (rule res(1), rule nth_mem)
qed

lemma route_nested: "route_of_document d n \<Longrightarrow> nested_route_named d n"
proof -
  assume "route_of_document d n"
  then obtain s r where s: "s \<in> set (doc_Services d)" "svc_Name s \<noteq> []" and r: "r \<in> set (svc_Routes s)" "rt_Name r = n"
    unfolding route_of_document_def by blast
  have "HasSuffix (svc_Name s @ ''|'' @ n) (''|'' @ n)" by (rule HasSuffix_append)
  then show ?thesis
    unfolding nested_route_named_def using s r(1)
    by (intro bexI [OF _ s(1)] bexI [OF _ r(1)]) (simp add: route_match_def route_key_def r(2))
qed







end
