(* ===== verification/Spec2Isabelle.thy ===== *)
theory Spec2Isabelle
  imports Go_Prelude Versions Endpoint_Table Target_Support Tags Route_Paths Gemini Datastores
    Vector_DB Token_Vault Kong_Model Go_Url Stable_ID DBLess Issues Source_Model Policies Entities
    Routes Go_Netip Routing_Lint Config_Values Auth_Strategies
    Upstream_Settings Source_Entities Agents Providers MCP_Auth MCP_Servers
    Model_Endpoints Model_Selectors Model_Targets Model_Aliases Model_Pass Model_Groups Model_Routing
    Model_Protection Models Model_Frames Model_Invariants Model_Guards Model_Passes Model_Conversion
    Conversion_Run
begin

text \<open>The AI Gateway to decK converter.

  The program translates a document of AI Gateway entities (models, providers, agents, MCP servers,
  policies, auth strategies, consumers, certificates) into a Kong Gateway declarative configuration
  (services, routes, plugins, consumers, certificates).  \<open>src/internal/aimap\<close> holds the tables and
  mappings both directions of the translation share, \<open>src/internal/aigw\<close> the source types,
  \<open>src/internal/kong\<close> the decK document and its db-less form, and \<open>src/convert\<close> the conversion.

  Vocabulary and shared tables
  - \<open>Go_Prelude\<close>: Go strings, slices and dynamic values, for all theories; \<open>Go_Url\<close>: \<open>net/url\<close>.
  - \<open>Versions\<close> (\<open>aimap/versions.go\<close>): releases and feature gates.
  - \<open>Endpoint_Table\<close>, \<open>Gemini\<close> (\<open>aimap/endpoints.go\<close>): the endpoint table, its lookups, gemini URLs.
  - \<open>Target_Support\<close> (\<open>aimap/support.go\<close>, \<open>websocket.go\<close>, \<open>plugin_priority.go\<close>): what a provider
    target can serve, and what the wildcard formats and capabilities stand for.
  - \<open>Route_Paths\<close> (\<open>aimap/mantle.go\<close>, \<open>RoutePath\<close>): the paths of a model route.
  - \<open>Tags\<close> (\<open>aimap/tags.go\<close>): labels and names carried as tags, and their decoders.
  - \<open>Datastores\<close>, \<open>Vector_DB\<close>, \<open>Token_Vault\<close>: substitution of shared connections, and the two-way
    mappings of vector databases, Token Vaults and the MCP tables.

  Documents
  - \<open>Kong_Model\<close> (\<open>kong/deck.go\<close>, \<open>metadata.go\<close>), \<open>Stable_ID\<close> (SHA-1 identifiers), \<open>DBLess\<close>
    (\<open>kong/to_dbless.go\<close>, \<open>dbless.go\<close>): the flattening, its foreign keys and metadata.

  Conversion
  - \<open>Issues\<close> (\<open>convert/issue.go\<close>): the issue list and the recovery of one entity.  The contract of
    an entity's step is the locale \<open>entity_step\<close>.
  - \<open>Source_Model\<close>: the source entities, the converter's state and its registries.
  - \<open>Policies\<close> (\<open>acl.go\<close>, \<open>policy.go\<close>), \<open>Entities\<close> (the one-to-one entities and the upstream TLS).
  - \<open>Source_Entities\<close> (the entity types of \<open>aigw\<close>), \<open>Config_Values\<close> (readers of untyped config).
  - \<open>Auth_Strategies\<close> (\<open>authstrategy.go\<close>): authentication plugins, anonymous consumers, and the routes
    and credentials of the Token Vault; \<open>Providers\<close> (\<open>provider.go\<close>): auth, options and vault of a target.
  - \<open>Routes\<close> (\<open>route.go\<close>), \<open>Upstream_Settings\<close> (\<open>proxy.go\<close>, \<open>upstream.go\<close> and their readers in
    \<open>src/revert\<close>), \<open>Agents\<close> (\<open>agent.go\<close>).
  - \<open>MCP_Auth\<close> (\<open>mcp_auth_strategy.go\<close>) and \<open>MCP_Servers\<close> (\<open>mcp.go\<close>): the servers, their plugins, the
    toolset gate, and the wiring of listeners to their sources.  A step of a server that can fail is a
    \<open>chain_step\<close>; each server is an \<open>entity_step\<close>.
  - Models (\<open>model.go\<close>, \<open>model_endpoints.go\<close>): \<open>Model_Endpoints\<close> (formats, capabilities and the endpoints of
    a target), \<open>Model_Selectors\<close> (where a client names the model), \<open>Model_Targets\<close> (checks and config of a
    target), \<open>Model_Aliases\<close> (aliases and the ai_models table), \<open>Model_Pass\<close> (route names), \<open>Model_Groups\<close>
    (the state the models of a pass share), \<open>Model_Routing\<close> (how one model joins the routes),
    \<open>Model_Protection\<close> (its policies and authentication; \<open>convertModel\<close>) and \<open>Models\<close> (video lifecycle routes,
    emission, one pass).  \<open>Model_Conversion\<close> has the restarts, \<open>convertModels\<close>, and what the result satisfies;
    its lemmas are in \<open>Model_Frames\<close> (what a step may change), \<open>Model_Invariants\<close> (routes and proxies of a
    pass), \<open>Model_Guards\<close> and \<open>Model_Passes\<close> (the guards, and one model as a step of the pass).
  - \<open>Routing_Lint\<close> (\<open>lint.go\<close>), with \<open>Go_Netip\<close> for \<open>net/netip\<close>: warnings on overlapping routes.
  - \<open>Conversion_Run\<close> (\<open>convert.go\<close>: \<open>run\<close>, \<open>result\<close>, \<open>Convert\<close>): the stages in their order.  The decoding of
    the source text is the parameter \<open>Parse\<close>.  The relation \<open>later\<close> says what the stages after the models
    leave of the document, \<open>shared_rows\<close> what those before them make; together they carry the facts of the
    models to the document of the whole run, and through \<open>ToDBLess\<close> to its flat form.

  What the lemmas show.  Tables: that a lookup identifies a route, that what is offered is served.
  Mappings: round trips and idempotence.  Documents: that references resolve and the layouts agree.
  Conversion: that a step changes only the output and the issues, that nothing is dropped without an
  issue, that the entity stages make a declaratively specified document, and that the references and the
  protection of routes hold of the document of a whole run.

  Bounds.  No function needs fuel.  Most loops are structural; the others have a measure: the search for
  a free route name (the names in use), the restarts of \<open>convertModels\<close> (the models not yet skipped) and
  the nested OAuth2 fields.  Go's \<open>int\<close> is a bounded integer where its range matters (\<open>Versions\<close>) and SHA-1
  works on 32-bit words.

  Not modelled.  Decoding and encoding of YAML (a library), the command line program, the tests and
  the end-to-end harness.  Of a panic only the occurrence is modelled, not the stack trace.  Reasons
  of issues are kept as format and arguments.  The texts that key the route groups of a pass are tuples
  of their parts, and JSON texts that are only compared are the values they encode.\<close>

end
